(* ===== verification/Prelude.thy ===== *)
theory Prelude
  imports Main
begin

text \<open>
  Shared vocabulary of the development: the names of the Python types, the result type of
  operations that can raise, the collections that steer the component proofs, and generic
  lemmas on lists, options and rows of tables.

  A Python \<open>str\<close> is a \<open>char list\<close>: every code point is one \<open>char\<close>, so the
  model covers the strings over the first 256 code points. A Python operation that raises is
  a function into \<open>'e + 'a\<close>, with \<open>Inl\<close> the exception and \<open>Inr\<close> the value.
\<close>

type_synonym pystr = string
type_synonym ('e, 'a) result = "'e + 'a"

named_theorems inv_intro "introduction rules of the invariants, one per component"
named_theorems step_simps "unfolding equations of the operations"

subsection \<open>Results\<close>

text \<open>Sequencing: a raise skips the rest of the body.\<close>

fun and_then :: "('e, 'a) result \<Rightarrow> ('a \<Rightarrow> ('e, 'b) result) \<Rightarrow> ('e, 'b) result" where
  "and_then (Inl e) f = Inl e"
| "and_then (Inr a) f = f a"

text \<open>\<open>require c e\<close> is the statement \<open>if not c: raise e\<close>.\<close>

definition require :: "bool \<Rightarrow> 'e \<Rightarrow> ('e, unit) result" where
  "require c e = (if c then Inr () else Inl e)"

definition is_ok :: "('e, 'a) result \<Rightarrow> bool" where
  "is_ok r = (case r of Inl _ \<Rightarrow> False | Inr _ \<Rightarrow> True)"

lemma is_ok_simps [simp]: "is_ok (Inr a)" "\<not> is_ok (Inl e)"
  by (simp_all add: is_ok_def)

lemma is_ok_iff: "is_ok r \<longleftrightarrow> (\<exists>a. r = Inr a)"
  by (cases r) auto

lemma and_then_Inr [simp]: "and_then r f = Inr b \<longleftrightarrow> (\<exists>a. r = Inr a \<and> f a = Inr b)"
  by (cases r) auto

lemma and_then_Inl: "and_then r f = Inl e \<longleftrightarrow> r = Inl e \<or> (\<exists>a. r = Inr a \<and> f a = Inl e)"
  by (cases r) auto

lemma require_Inr [simp]: "require c e = Inr u \<longleftrightarrow> c"
  by (simp add: require_def)

lemma require_Inl [simp]: "require c e = Inl e' \<longleftrightarrow> \<not> c \<and> e' = e"
  by (auto simp: require_def)

lemma require_True [simp]: "require True e = Inr ()"
  by (simp add: require_def)

lemma require_False [simp]: "require False e = Inl e"
  by (simp add: require_def)

text \<open>\<open>for x in xs: check x\<close>, stopping at the first raise.\<close>

fun for_each :: "('a \<Rightarrow> ('e, unit) result) \<Rightarrow> 'a list \<Rightarrow> ('e, unit) result" where
  "for_each f [] = Inr ()"
| "for_each f (x # xs) = and_then (f x) (\<lambda>_. for_each f xs)"

lemma for_each_Inr: "for_each f xs = Inr u \<longleftrightarrow> (\<forall>x \<in> set xs. f x = Inr ())"
  by (induction xs) auto

text \<open>Evaluate a fallible function on every element, left to right.\<close>

fun map_result :: "('a \<Rightarrow> ('e, 'b) result) \<Rightarrow> 'a list \<Rightarrow> ('e, 'b list) result" where
  "map_result f [] = Inr []"
| "map_result f (x # xs) = and_then (f x) (\<lambda>y. and_then (map_result f xs) (\<lambda>ys. Inr (y # ys)))"

lemma map_result_Inr: "map_result f xs = Inr ys \<Longrightarrow> length ys = length xs \<and>
    (\<forall>i < length xs. f (xs ! i) = Inr (ys ! i))"
proof (induction xs arbitrary: ys)
  case (Cons x xs)
  then obtain y ys' where *: "f x = Inr y" "map_result f xs = Inr ys'" "ys = y # ys'"
    by auto
  with Cons.IH [of ys'] show ?case
    by (auto simp: nth_Cons split: nat.splits)
qed simp

subsection \<open>Association lists: dictionaries in insertion order\<close>

text \<open>\<open>d[k] = v\<close> keeps the position of an existing key and appends a new one.\<close>

fun dict_set :: "'k \<Rightarrow> 'v \<Rightarrow> ('k \<times> 'v) list \<Rightarrow> ('k \<times> 'v) list" where
  "dict_set k v [] = [(k, v)]"
| "dict_set k v ((k', v') # d) = (if k' = k then (k, v) # d else (k', v') # dict_set k v d)"

definition dict_pop :: "'k \<Rightarrow> ('k \<times> 'v) list \<Rightarrow> ('k \<times> 'v) list" where
  "dict_pop k d = filter (\<lambda>(k', _). k' \<noteq> k) d"

lemma map_of_dict_set: "map_of (dict_set k v d) = (map_of d)(k \<mapsto> v)"
  by (induction d) (auto simp: fun_eq_iff)

lemma keys_dict_set: "fst ` set (dict_set k v d) = insert k (fst ` set d)"
proof -
  have "dom (map_of (dict_set k v d)) = insert k (dom (map_of d))"
    by (simp add: map_of_dict_set)
  then show ?thesis by (simp add: dom_map_of_conv_image_fst)
qed

lemma distinct_dict_set: "distinct (map fst d) \<Longrightarrow> distinct (map fst (dict_set k v d))"
proof (induction d)
  case (Cons p d)
  have "set (map fst (dict_set k v d)) = insert k (set (map fst d))"
    using keys_dict_set [of k v d] by (simp add: image_set [symmetric])
  with Cons show ?case by (cases p) auto
qed simp

subsection \<open>Lists\<close>

text \<open>The elements of a list in the order of their first occurrence.\<close>

fun ordered_unique_acc :: "'a list \<Rightarrow> 'a list \<Rightarrow> 'a list" where
  "ordered_unique_acc seen [] = []"
| "ordered_unique_acc seen (x # xs) =
     (if x \<in> set seen then ordered_unique_acc seen xs
      else x # ordered_unique_acc (x # seen) xs)"

lemma set_ordered_unique_acc: "set (ordered_unique_acc seen xs) = set xs - set seen"
  by (induction seen xs rule: ordered_unique_acc.induct) auto

lemma distinct_ordered_unique_acc: "distinct (ordered_unique_acc seen xs)"
  by (induction seen xs rule: ordered_unique_acc.induct) (auto simp: set_ordered_unique_acc)

text \<open>At most one row of a table satisfies a condition: a uniqueness constraint.\<close>

definition unique_on :: "('r \<Rightarrow> 'k) \<Rightarrow> 'r list \<Rightarrow> bool" where
  "unique_on f rows = distinct (map f rows)"

lemma unique_on_inj: "unique_on f rows \<Longrightarrow> r \<in> set rows \<Longrightarrow> r' \<in> set rows \<Longrightarrow> f r = f r' \<Longrightarrow> r = r'"
  by (auto simp: unique_on_def distinct_map inj_on_def)

lemma find_Some_in: "find P xs = Some x \<Longrightarrow> x \<in> set xs \<and> P x"
  by (induction xs) (auto split: if_splits)

lemma find_None_all: "find P xs = None \<longleftrightarrow> (\<forall>x \<in> set xs. \<not> P x)"
  by (induction xs) auto

end
