(* ===== verification/PyFloat.thy ===== *)
theory PyFloat
  imports Prelude Complex_Main
begin

text \<open>
  Python floats. A finite \<open>float\<close> is the rational number it denotes, so comparisons are
  those of \<open>rat\<close>; every arithmetic operation of the source is the exact operation followed
  by \<open>fl\<close>, the rounding of IEEE 754 binary64 to nearest, ties to even (53 significant bits,
  subnormals from \<open>2 ^ -1074\<close>). Overflow to infinity is not modelled: no computation of the
  program leaves the range of a few thousand. \<open>math.fsum\<close> is one rounding of the exact sum,
  \<open>round(x, n)\<close> the nearest multiple of \<open>10 ^ -n\<close> to the exact value, ties to even, read back
  as a float.
\<close>

subsection \<open>Rounding to an integer\<close>

definition round_half_even :: "rat \<Rightarrow> int" where
  "round_half_even x =
     (let n = \<lfloor>x\<rfloor>; d = x - of_int n
      in if d < 1 / 2 then n else if 1 / 2 < d then n + 1 else if even n then n else n + 1)"

lemma round_half_even_of_int [simp]: "round_half_even (of_int n) = n"
  by (simp add: round_half_even_def)

lemma round_half_even_cases: "round_half_even x = \<lfloor>x\<rfloor> \<or> round_half_even x = \<lfloor>x\<rfloor> + 1"
  by (auto simp: round_half_even_def Let_def)

lemma round_half_even_mono:
  assumes "x \<le> y"
  shows "round_half_even x \<le> round_half_even y"
proof (cases "\<lfloor>x\<rfloor> = \<lfloor>y\<rfloor>")
  case True
  with assms show ?thesis by (auto simp: round_half_even_def Let_def)
next
  case False
  with assms have "\<lfloor>x\<rfloor> + 1 \<le> \<lfloor>y\<rfloor>" using floor_mono [of x y] by linarith
  with round_half_even_cases [of x] round_half_even_cases [of y] show ?thesis by linarith
qed

lemma round_half_even_close: "\<bar>of_int (round_half_even x) - x\<bar> \<le> 1 / 2"
proof -
  have "of_int \<lfloor>x\<rfloor> \<le> x" "x < of_int \<lfloor>x\<rfloor> + 1" by linarith+
  then show ?thesis by (auto simp: round_half_even_def Let_def abs_le_iff)
qed

subsection \<open>Powers of two and the exponent of a rational\<close>

definition pow2 :: "int \<Rightarrow> rat" where
  "pow2 e = (if 0 \<le> e then 2 ^ nat e else 1 / 2 ^ nat (- e))"

lemma pow2_powi: "pow2 e = 2 powi e"
  by (simp add: pow2_def power_int_def field_simps)

lemma pow2_pos [simp]: "0 < pow2 e"
  by (simp add: pow2_def)

lemma pow2_add: "pow2 (a + b) = pow2 a * pow2 b"
  by (simp add: pow2_powi power_int_add)

lemma pow2_mono: "a \<le> b \<Longrightarrow> pow2 a \<le> pow2 b"
  by (simp add: pow2_powi power_int_increasing)

lemma pow2_multiple: "a \<le> b \<Longrightarrow> pow2 b = of_int (2 ^ nat (b - a)) * pow2 a"
proof -
  assume "a \<le> b"
  then have "pow2 (b - a) = of_int (2 ^ nat (b - a))" by (simp add: pow2_def)
  then show ?thesis using pow2_add [of "b - a" a] by simp
qed

function ilog2_int :: "int \<Rightarrow> int" where
  "ilog2_int n = (if n < 2 then 0 else 1 + ilog2_int (n div 2))"
  by pat_completeness auto
termination by (relation "measure nat") auto

declare ilog2_int.simps [simp del]

lemma ilog2_int_bounds:
  "1 \<le> n \<Longrightarrow> 0 \<le> ilog2_int n \<and> 2 ^ nat (ilog2_int n) \<le> n \<and> n < 2 ^ nat (ilog2_int n + 1)"
proof (induction n rule: ilog2_int.induct)
  case (1 n)
  show ?case
  proof (cases "n < 2")
    case True
    with 1 show ?thesis by (subst (1 2 3) ilog2_int.simps) simp
  next
    case False
    define e where "e = ilog2_int (n div 2)"
    from False 1 have *: "0 \<le> e" "2 ^ nat e \<le> n div 2" "n div 2 < 2 ^ nat (e + 1)"
      by (auto simp: e_def)
    have "ilog2_int n = 1 + e" using False by (subst ilog2_int.simps) (simp add: e_def)
    moreover have "nat (1 + e) = Suc (nat e)" "nat (1 + e + 1) = Suc (nat (e + 1))"
      using * by auto
    ultimately show ?thesis using * by auto
  qed
qed

text \<open>The largest \<open>e\<close> with \<open>pow2 e \<le> x\<close>, for a positive \<open>x\<close>.\<close>

definition ilog2 :: "rat \<Rightarrow> int" where
  "ilog2 x =
     (let (p, q) = quotient_of x; e = ilog2_int p - ilog2_int q
      in if pow2 e \<le> x then e else e - 1)"

lemma pow2_of_int: "0 \<le> e \<Longrightarrow> pow2 e = of_int (2 ^ nat e)"
  by (simp add: pow2_def)

lemma ilog2_bounds:
  assumes "0 < x"
  shows "pow2 (ilog2 x) \<le> x" and "x < pow2 (ilog2 x + 1)"
proof -
  obtain p q where pq: "quotient_of x = (p, q)" by force
  then have q: "0 < q" and x: "x = of_int p / of_int q"
    by (auto intro: quotient_of_denom_pos quotient_of_div)
  with assms have p: "0 < p" by (simp add: zero_less_divide_iff)
  define a where "a = ilog2_int p"
  define b where "b = ilog2_int q"
  have a: "0 \<le> a" "pow2 a \<le> of_int p" "of_int p < pow2 (a + 1)"
    using ilog2_int_bounds [of p] p by (auto simp: a_def pow2_of_int simp del: of_int_power)
  have b: "0 \<le> b" "pow2 b \<le> of_int q" "of_int q < pow2 (b + 1)"
    using ilog2_int_bounds [of q] q by (auto simp: b_def pow2_of_int simp del: of_int_power)
  have up: "x < pow2 (a - b + 1)"
  proof -
    have "of_int p < pow2 (a - b + 1) * pow2 b" using a(3) by (simp add: pow2_add [symmetric])
    also have "\<dots> \<le> pow2 (a - b + 1) * of_int q" using b(2) by simp
    finally show ?thesis using q by (simp add: x field_simps)
  qed
  have lo: "pow2 (a - b - 1) \<le> x"
  proof -
    have "pow2 (a - b - 1) * of_int q \<le> pow2 (a - b - 1) * pow2 (b + 1)" using b(3) by simp
    also have "\<dots> = pow2 a" by (simp add: pow2_add [symmetric])
    also have "\<dots> \<le> of_int p" by (rule a(2))
    finally show ?thesis using q by (simp add: x field_simps)
  qed
  have e: "ilog2 x = (if pow2 (a - b) \<le> x then a - b else a - b - 1)"
    by (simp add: ilog2_def pq a_def b_def)
  show "pow2 (ilog2 x) \<le> x" using lo by (simp add: e)
  show "x < pow2 (ilog2 x + 1)" using up by (auto simp: e)
qed

lemma ilog2_mono: "0 < x \<Longrightarrow> x \<le> y \<Longrightarrow> ilog2 x \<le> ilog2 y"
proof (rule ccontr)
  assume *: "0 < x" "x \<le> y" "\<not> ilog2 x \<le> ilog2 y"
  then have "pow2 (ilog2 y + 1) \<le> pow2 (ilog2 x)" by (intro pow2_mono) simp
  with * ilog2_bounds(1) [of x] ilog2_bounds(2) [of y] show False by linarith
qed

subsection \<open>Rounding to binary64\<close>

definition ulp_exp :: "rat \<Rightarrow> int" where
  "ulp_exp x = max (ilog2 x - 52) (- 1074)"

definition fl_pos :: "rat \<Rightarrow> rat" where
  "fl_pos x = of_int (round_half_even (x / pow2 (ulp_exp x))) * pow2 (ulp_exp x)"

definition fl :: "rat \<Rightarrow> rat" where
  "fl x = (if x = 0 then 0 else if x < 0 then - fl_pos (- x) else fl_pos x)"

text \<open>A multiple of the unit in the last place bounds the rounded value.\<close>

lemma fl_pos_le:
  assumes "x \<le> of_int n * pow2 (ulp_exp x)"
  shows "fl_pos x \<le> of_int n * pow2 (ulp_exp x)"
proof -
  have "x / pow2 (ulp_exp x) \<le> of_int n" using assms by (simp add: field_simps)
  then have "round_half_even (x / pow2 (ulp_exp x)) \<le> n"
    using round_half_even_mono [of _ "of_int n"] by simp
  then show ?thesis by (simp add: fl_pos_def)
qed

lemma fl_pos_ge:
  assumes "of_int n * pow2 (ulp_exp x) \<le> x"
  shows "of_int n * pow2 (ulp_exp x) \<le> fl_pos x"
proof -
  have "of_int n \<le> x / pow2 (ulp_exp x)" using assms by (simp add: field_simps)
  then have "n \<le> round_half_even (x / pow2 (ulp_exp x))"
    using round_half_even_mono [of "of_int n"] by simp
  then show ?thesis by (simp add: fl_pos_def)
qed

lemma fl_pos_nonneg: "0 \<le> x \<Longrightarrow> 0 \<le> fl_pos x"
  using fl_pos_ge [of 0 x] by simp

lemma fl_pos_mono:
  assumes "0 < x" "x \<le> y"
  shows "fl_pos x \<le> fl_pos y"
proof (cases "ulp_exp x = ulp_exp y")
  case True
  have "x / pow2 (ulp_exp y) \<le> y / pow2 (ulp_exp y)"
    using assms by (simp add: divide_right_mono less_imp_le)
  with True show ?thesis by (simp add: fl_pos_def round_half_even_mono)
next
  case False
  have le: "ilog2 x \<le> ilog2 y" using assms by (rule ilog2_mono)
  with False have ex: "ulp_exp x < ilog2 y - 52" "ulp_exp y = ilog2 y - 52" "ilog2 x < ilog2 y"
    by (auto simp: ulp_exp_def)
  let ?B = "pow2 (ilog2 y)"
  have bx: "?B = of_int (2 ^ nat (ilog2 y - ulp_exp x)) * pow2 (ulp_exp x)"
    using ex by (intro pow2_multiple) simp
  have "by": "?B = of_int (2 ^ nat (ilog2 y - ulp_exp y)) * pow2 (ulp_exp y)"
    using ex by (intro pow2_multiple) simp
  have "x < pow2 (ilog2 x + 1)" using assms(1) by (rule ilog2_bounds)
  also have "\<dots> \<le> ?B" using ex by (intro pow2_mono) simp
  finally have "x \<le> ?B" by simp
  then have "fl_pos x \<le> ?B" using fl_pos_le [of x "2 ^ nat (ilog2 y - ulp_exp x)"] bx by simp
  also have "?B \<le> y" using assms by (intro ilog2_bounds) simp
  then have "?B \<le> fl_pos y" using fl_pos_ge [of "2 ^ nat (ilog2 y - ulp_exp y)" y] "by" by simp
  finally show ?thesis .
qed

lemma fl_zero [simp]: "fl 0 = 0"
  by (simp add: fl_def)

lemma fl_mono: "x \<le> y \<Longrightarrow> fl x \<le> fl y"
proof -
  assume le: "x \<le> y"
  consider "0 < x" | "y < 0" | "x \<le> 0" "0 \<le> y" by linarith
  then show ?thesis
  proof cases
    case 1
    with le show ?thesis by (simp add: fl_def fl_pos_mono)
  next
    case 2
    with le show ?thesis by (simp add: fl_def fl_pos_mono)
  next
    case 3
    with fl_pos_nonneg [of y] fl_pos_nonneg [of "- x"] show ?thesis by (auto simp: fl_def)
  qed
qed

lemma fl_one [simp]: "fl 1 = 1"
  by code_simp

text \<open>\<open>math.fsum\<close> and \<open>round(x, n)\<close>.\<close>

definition fsum :: "rat list \<Rightarrow> rat" where
  "fsum xs = fl (sum_list xs)"

definition py_round :: "nat \<Rightarrow> rat \<Rightarrow> rat" where
  "py_round n x = fl (of_int (round_half_even (x * 10 ^ n)) / 10 ^ n)"

text \<open>\<open>utils.clamp\<close> with its default bounds, and with explicit ones.\<close>

definition clamp :: "rat \<Rightarrow> rat \<Rightarrow> rat \<Rightarrow> rat" where
  "clamp lower upper v = max lower (min upper v)"

subsection \<open>What the program relies on of the rounding\<close>

text \<open>
  The scores of the program stay in the unit interval because rounding is monotone and fixes
  the two ends. The lemmas below hold for every such rounding; binary64 is one.
\<close>

locale unit_rounding =
  fixes rnd :: "rat \<Rightarrow> rat"
  assumes rnd_mono: "x \<le> y \<Longrightarrow> rnd x \<le> rnd y"
    and rnd_zero: "rnd 0 = 0"
    and rnd_one: "rnd 1 = 1"
begin

lemma rnd_nonneg: "0 \<le> x \<Longrightarrow> 0 \<le> rnd x"
  using rnd_mono [of 0 x] by (simp add: rnd_zero)

lemma rnd_le_one: "x \<le> 1 \<Longrightarrow> rnd x \<le> 1"
  using rnd_mono [of x 1] by (simp add: rnd_one)

lemma rnd_unit: "0 \<le> x \<Longrightarrow> x \<le> 1 \<Longrightarrow> 0 \<le> rnd x \<and> rnd x \<le> 1"
  by (simp add: rnd_nonneg rnd_le_one)

lemma rnd_round_unit:
  assumes "0 \<le> x" "x \<le> 1"
  shows "0 \<le> rnd (of_int (round_half_even (x * 10 ^ n)) / 10 ^ n)"
    and "rnd (of_int (round_half_even (x * 10 ^ n)) / 10 ^ n) \<le> 1"
proof -
  have "round_half_even 0 \<le> round_half_even (x * 10 ^ n)"
    using assms by (intro round_half_even_mono) simp
  then have lo: "0 \<le> round_half_even (x * 10 ^ n)"
    using round_half_even_of_int [of 0] by simp
  have "round_half_even (x * 10 ^ n) \<le> round_half_even (of_int (10 ^ n))"
    using assms by (intro round_half_even_mono) (simp add: mult_le_cancel_right1)
  then have "of_int (round_half_even (x * 10 ^ n)) \<le> (of_int (10 ^ n) :: rat)"
    by (simp only: round_half_even_of_int of_int_le_iff)
  then have hi: "of_int (round_half_even (x * 10 ^ n)) / 10 ^ n \<le> (1 :: rat)"
    by (simp add: field_simps)
  show "0 \<le> rnd (of_int (round_half_even (x * 10 ^ n)) / 10 ^ n)"
    using lo by (intro rnd_nonneg) simp
  show "rnd (of_int (round_half_even (x * 10 ^ n)) / 10 ^ n) \<le> 1"
    using hi by (rule rnd_le_one)
qed

lemma rnd_mean_unit:
  assumes "\<forall>x \<in> set xs. 0 \<le> x \<and> x \<le> 1" and "xs \<noteq> []"
  shows "0 \<le> rnd (rnd (sum_list xs) / of_nat (length xs))"
proof -
  have "0 \<le> sum_list xs" using assms(1) by (induction xs) auto
  then show ?thesis by (intro rnd_nonneg divide_nonneg_nonneg) simp_all
qed

end

interpretation binary64: unit_rounding fl
  by unfold_locales (simp_all add: fl_mono)

lemma py_round_unit: "0 \<le> x \<Longrightarrow> x \<le> 1 \<Longrightarrow> 0 \<le> py_round n x \<and> py_round n x \<le> 1"
  using binary64.rnd_round_unit [of x n] by (simp add: py_round_def)

lemma clamp_unit: "0 \<le> clamp 0 1 x \<and> clamp 0 1 x \<le> 1"
  by (simp add: clamp_def)

subsection \<open>Small integers and means\<close>

text \<open>Integers below \<open>2 ^ 53\<close> are exact; the mean of unit values, summed exactly and divided, is a unit value.\<close>

lemma fl_int_small:
  assumes "0 \<le> n" "n < 2 ^ 53"
  shows "fl (of_int n) = of_int n"
proof (cases "n = 0")
  case False
  let ?x = "of_int n :: rat"
  have pos: "0 < ?x" using assms False by simp
  have "pow2 (ilog2 ?x) \<le> ?x" by (rule ilog2_bounds(1) [OF pos])
  also have "?x < pow2 53" using assms(2) by (simp add: pow2_def)
  finally have "ilog2 ?x < 53" using pow2_mono [of 53 "ilog2 ?x"] by linarith
  then have e: "ulp_exp ?x \<le> 0" by (simp add: ulp_exp_def)
  then have "pow2 (ulp_exp ?x) = 1 / of_int (2 ^ nat (- ulp_exp ?x))"
    by (cases "ulp_exp ?x = 0") (simp_all add: pow2_def)
  then have "?x / pow2 (ulp_exp ?x) = of_int (n * 2 ^ nat (- ulp_exp ?x))" by simp
  then have "fl_pos ?x = of_int (n * 2 ^ nat (- ulp_exp ?x)) * pow2 (ulp_exp ?x)"
    by (simp only: fl_pos_def round_half_even_of_int)
  also have "\<dots> = ?x" using \<open>pow2 (ulp_exp ?x) = _\<close> by simp
  finally show ?thesis using pos by (simp add: fl_def)
qed simp

lemma sum_list_unit: "\<forall>x \<in> set xs. 0 \<le> x \<and> x \<le> (1 :: rat) \<Longrightarrow> 0 \<le> sum_list xs \<and> sum_list xs \<le> of_nat (length xs)"
  by (induction xs) auto

lemma mean_unit:
  assumes "\<forall>x \<in> set xs. 0 \<le> x \<and> x \<le> 1" "length xs < 2 ^ 53"
  shows "xs \<noteq> [] \<longrightarrow> 0 \<le> fl (fsum xs / of_nat (length xs)) \<and> fl (fsum xs / of_nat (length xs)) \<le> 1"
proof
  assume "xs \<noteq> []"
  have "0 \<le> sum_list xs" "sum_list xs \<le> of_int (int (length xs))"
    using sum_list_unit [OF assms(1)] by simp_all
  then have "0 \<le> fsum xs" "fsum xs \<le> fl (of_int (int (length xs)))"
    unfolding fsum_def by (blast intro: binary64.rnd_nonneg fl_mono)+
  moreover have "fl (of_int (int (length xs))) = of_int (int (length xs))"
    using assms(2) by (intro fl_int_small) simp_all
  ultimately have "0 \<le> fsum xs / of_nat (length xs) \<and> fsum xs / of_nat (length xs) \<le> 1"
    using \<open>xs \<noteq> []\<close> by (simp add: divide_le_eq_1)
  then show "0 \<le> fl (fsum xs / of_nat (length xs)) \<and> fl (fsum xs / of_nat (length xs)) \<le> 1"
    by (simp add: binary64.rnd_unit)
qed

end
