(* ===== verification/Digest.thy ===== *)
theory Digest
  imports Prelude "HOL-Library.Word"
begin

unbundle bit_operations_syntax

text \<open>
  The hash functions of the Python standard library that the program relies on:
  \<open>hashlib.sha256(data).hexdigest()\<close> and \<open>hmac.new(key, data, hashlib.sha256).hexdigest()\<close>,
  written from the standard (FIPS 180-4 and RFC 2104), and \<open>str.encode("utf-8")\<close>. The round
  constants are computed from the primes, as the standard defines them. Byte strings are
  \<open>char list\<close>. No theorem of the development assumes that the hash is injective: where a
  digest is all that is compared, the statement names the two inputs that would collide.
\<close>

type_synonym w32 = "32 word"

fun utf8 :: "pystr \<Rightarrow> string" where
  "utf8 [] = []"
| "utf8 (c # cs) =
     (let n = (of_char c :: int)
      in (if n < 128 then [c] else [char_of (192 + n div 64), char_of (128 + n mod 64)]) @ utf8 cs)"

subsection \<open>Constants\<close>

text \<open>The largest \<open>r < lo + 2 ^ k\<close> with \<open>r ^ e \<le> n\<close>, bit by bit from \<open>lo\<close>.\<close>

fun root_bits :: "nat \<Rightarrow> int \<Rightarrow> nat \<Rightarrow> int \<Rightarrow> int" where
  "root_bits e n 0 lo = lo"
| "root_bits e n (Suc k) lo =
     (let c = lo + 2 ^ k in root_bits e n k (if c ^ e \<le> n then c else lo))"

definition first_primes :: "int list" where
  "first_primes = filter (\<lambda>n. list_all (\<lambda>d. n mod d \<noteq> 0) [2..min (n - 1) 17]) [2..311]"

definition round_constants :: "w32 list" where
  "round_constants = map (\<lambda>p. word_of_int (root_bits 3 (p * 2 ^ 96) 36 0)) first_primes"

definition initial_hash :: "w32 list" where
  "initial_hash = map (\<lambda>p. word_of_int (root_bits 2 (p * 2 ^ 64) 36 0)) (take 8 first_primes)"

subsection \<open>Compression\<close>

definition small_sigma :: "nat \<Rightarrow> nat \<Rightarrow> nat \<Rightarrow> w32 \<Rightarrow> w32" where
  "small_sigma a b c x = word_rotr a x XOR word_rotr b x XOR drop_bit c x"

definition big_sigma :: "nat \<Rightarrow> nat \<Rightarrow> nat \<Rightarrow> w32 \<Rightarrow> w32" where
  "big_sigma a b c x = word_rotr a x XOR word_rotr b x XOR word_rotr c x"

text \<open>The message schedule, held newest word first.\<close>

fun schedule_rev :: "nat \<Rightarrow> w32 list \<Rightarrow> w32 list" where
  "schedule_rev 0 w = w"
| "schedule_rev (Suc n) w =
     schedule_rev n ((small_sigma 17 19 10 (w ! 1) + w ! 6
        + small_sigma 7 18 3 (w ! 14) + w ! 15) # w)"

fun rounds :: "(w32 \<times> w32) list \<Rightarrow> w32 list \<Rightarrow> w32 list" where
  "rounds ((k, w) # kws) [a, b, c, d, e, f, g, h] =
     (let t1 = h + big_sigma 6 11 25 e + ((e AND f) XOR (NOT e AND g)) + k + w;
          t2 = big_sigma 2 13 22 a + ((a AND b) XOR (a AND c) XOR (b AND c))
      in rounds kws [t1 + t2, a, b, c, d + t1, e, f, g])"
| "rounds _ st = st"

definition compress :: "w32 list \<Rightarrow> w32 list \<Rightarrow> w32 list" where
  "compress st block =
     map2 (+) st (rounds (zip round_constants (rev (schedule_rev 48 (rev block)))) st)"

subsection \<open>Padding and blocks\<close>

fun word_of_bytes :: "int list \<Rightarrow> w32" where
  "word_of_bytes bs = word_of_int (foldl (\<lambda>acc b. 256 * acc + b) 0 bs)"

definition be_bytes :: "nat \<Rightarrow> int \<Rightarrow> int list" where
  "be_bytes k n = map (\<lambda>i. n div 256 ^ (k - 1 - i) mod 256) [0..<k]"

definition pad_bytes :: "int list \<Rightarrow> int list" where
  "pad_bytes bs =
     bs @ [128] @ replicate ((119 - length bs mod 64) mod 64) 0 @ be_bytes 8 (8 * int (length bs))"

function chunks :: "nat \<Rightarrow> 'a list \<Rightarrow> 'a list list" where
  "chunks k xs = (if k = 0 \<or> xs = [] then [] else take k xs # chunks k (drop k xs))"
  by pat_completeness auto
termination
  by (relation "measure (\<lambda>(k, xs). length xs)") auto

declare chunks.simps [simp del]

definition sha256_words :: "int list \<Rightarrow> w32 list" where
  "sha256_words bs =
     foldl compress initial_hash (map (\<lambda>b. map word_of_bytes (chunks 4 b)) (chunks 64 (pad_bytes bs)))"

subsection \<open>Hexadecimal digests\<close>

definition hex_digit :: "int \<Rightarrow> char" where
  "hex_digit n = (if n < 10 then char_of (48 + n) else char_of (87 + n))"

definition hex_word :: "w32 \<Rightarrow> string" where
  "hex_word w = map (\<lambda>i. hex_digit (uint w div 16 ^ (7 - i) mod 16)) [0..<8]"

definition is_hex_char :: "char \<Rightarrow> bool" where
  "is_hex_char c = (c \<in> set ''0123456789abcdef'')"

definition sha256_bytes :: "string \<Rightarrow> int list" where
  "sha256_bytes s = concat (map (\<lambda>w. be_bytes 4 (uint w)) (sha256_words (map of_char s)))"

definition sha256_hex :: "string \<Rightarrow> string" where
  "sha256_hex s = concat (map hex_word (sha256_words (map of_char s)))"

text \<open>\<open>hmac.new(key, msg, hashlib.sha256).hexdigest()\<close> for byte strings.\<close>

definition hmac_sha256_hex :: "string \<Rightarrow> string \<Rightarrow> string" where
  "hmac_sha256_hex key msg =
     (let k0 = (if length key > 64 then map char_of (sha256_bytes key) else key);
          k = map of_char k0 @ replicate (64 - length k0) (0::int);
          pad = (\<lambda>b. map (\<lambda>x. char_of (x XOR b)) k)
      in sha256_hex (pad 0x5c @ map char_of (sha256_bytes (pad 0x36 @ msg))))"

text \<open>\<open>hmac.compare_digest\<close> on two strings: it raises \<open>TypeError\<close> unless both are ASCII.\<close>

definition is_ascii :: "pystr \<Rightarrow> bool" where
  "is_ascii s = list_all (\<lambda>c. (of_char c :: int) < 128) s"

definition compare_digest :: "pystr \<Rightarrow> pystr \<Rightarrow> (pystr, bool) result" where
  "compare_digest a b = (if is_ascii a \<and> is_ascii b then Inr (a = b) else Inl ''TypeError'')"

lemma compare_digest_Inr: "compare_digest a b = Inr r \<longleftrightarrow> r = (a = b) \<and> is_ascii a \<and> is_ascii b"
  by (auto simp: compare_digest_def)

end
