(* ===== verification/PyJson.thy ===== *)
theory PyJson
  imports PyFloat Digest "HOL-Library.Char_ord" "HOL-Library.List_Lexorder"
begin

text \<open>
  JSON values and the canonical encoding of \<open>utils.py\<close>. A \<open>json\<close> is a tree of exact
  JSON primitives with finite floats (a \<open>dict\<close> in insertion order); a \<open>pyval\<close> is any
  Python object a caller may pass where the code inspects types at run time.
  \<open>canonical_json\<close> is \<open>json.dumps\<close> with sorted keys, compact separators and ASCII escapes,
  \<open>sha256_json\<close> the digest of its UTF-8 text. \<open>py_eq\<close> is Python's \<open>==\<close>: numbers compare
  across \<open>bool\<close>, \<open>int\<close> and \<open>float\<close>, and the order of the keys of a \<open>dict\<close> does not count.
\<close>

datatype json =
    JNull
  | JBool bool
  | JInt int
  | JFloat rat
  | JStr pystr
  | JList "json list"
  | JObj "(pystr \<times> json) list"

datatype pyval =
    PNone
  | PBool bool
  | PInt int
  | PFloat rat
  | PNonFinite
  | PStr pystr
  | PList "pyval list"
  | PTuple "pyval list"
  | PDict "(pyval \<times> pyval) list"
  | POther

subsection \<open>Numbers as text\<close>

function show_nat :: "int \<Rightarrow> string" where
  "show_nat n = (if n < 10 then [char_of (48 + n)] else show_nat (n div 10) @ [char_of (48 + n mod 10)])"
  by pat_completeness auto
termination by (relation "measure nat") auto

declare show_nat.simps [simp del]

definition show_int :: "int \<Rightarrow> string" where
  "show_int n = (if n < 0 then ''-'' @ show_nat (- n) else show_nat n)"

text \<open>The decimal exponent of a positive number: the largest \<open>k\<close> with \<open>10 ^ k \<le> x\<close>.\<close>

definition ilog10 :: "rat \<Rightarrow> int" where
  "ilog10 x =
     (if 1 \<le> x then int (length (show_nat \<lfloor>x\<rfloor>)) - 1
      else - int (length (show_nat (\<lceil>1 / x\<rceil> - 1))))"

definition pow10 :: "int \<Rightarrow> rat" where
  "pow10 e = (if 0 \<le> e then 10 ^ nat e else 1 / 10 ^ nat (- e))"

text \<open>\<open>repr\<close> of a positive float: the fewest significant digits that read back to it.\<close>

definition decimal_candidate :: "rat \<Rightarrow> nat \<Rightarrow> int \<times> int" where
  "decimal_candidate x n =
     (let k = ilog10 x - int n + 1; d = round_half_even (x / pow10 k)
      in if d = 10 ^ n then (10 ^ (n - 1), k + 1) else (d, k))"

definition shortest_decimal :: "rat \<Rightarrow> int \<times> int" where
  "shortest_decimal x =
     (case filter (\<lambda>(d, k). fl (of_int d * pow10 k) = x) (map (decimal_candidate x) [1..<18]) of
        c # _ \<Rightarrow> c
      | [] \<Rightarrow> decimal_candidate x 17)"

definition float_repr_pos :: "rat \<Rightarrow> string" where
  "float_repr_pos x =
     (let (d, k) = shortest_decimal x; ds = show_nat d; n = int (length ds); p = n + k
      in if - 4 < p \<and> p \<le> 16 then
           (if p \<le> 0 then ''0.'' @ replicate (nat (- p)) CHR ''0'' @ ds
            else if n \<le> p then ds @ replicate (nat (p - n)) CHR ''0'' @ ''.0''
            else take (nat p) ds @ ''.'' @ drop (nat p) ds)
         else
           (let e = p - 1
            in take 1 ds @ (if n = 1 then '''' else ''.'' @ drop 1 ds) @ ''e''
               @ (if e < 0 then ''-'' else ''+'')
               @ (if \<bar>e\<bar> < 10 then ''0'' else '''') @ show_nat \<bar>e\<bar>))"

definition float_repr :: "rat \<Rightarrow> string" where
  "float_repr x =
     (if x = 0 then ''0.0'' else if x < 0 then ''-'' @ float_repr_pos (- x) else float_repr_pos x)"

subsection \<open>Canonical text\<close>

definition escape_char :: "char \<Rightarrow> string" where
  "escape_char c =
     (let n = (of_char c :: int) in
      if c = CHR 0x22 then [CHR 0x5C, CHR 0x22]
      else if c = CHR 0x5C then [CHR 0x5C, CHR 0x5C]
      else if n = 8 then [CHR 0x5C, CHR ''b'']
      else if n = 9 then [CHR 0x5C, CHR ''t'']
      else if n = 10 then [CHR 0x5C, CHR ''n'']
      else if n = 12 then [CHR 0x5C, CHR ''f'']
      else if n = 13 then [CHR 0x5C, CHR ''r'']
      else if n < 32 \<or> 126 < n
      then [CHR 0x5C] @ ''u00'' @ [hex_digit (n div 16), hex_digit (n mod 16)]
      else [c])"

definition json_string :: "pystr \<Rightarrow> string" where
  "json_string s = [CHR 0x22] @ concat (map escape_char s) @ [CHR 0x22]"

fun join :: "string \<Rightarrow> string list \<Rightarrow> string" where
  "join sep [] = []"
| "join sep [x] = x"
| "join sep (x # xs) = x @ sep @ join sep xs"

fun canonical_json :: "json \<Rightarrow> pystr" where
  "canonical_json JNull = ''null''"
| "canonical_json (JBool b) = (if b then ''true'' else ''false'')"
| "canonical_json (JInt n) = show_int n"
| "canonical_json (JFloat x) = float_repr x"
| "canonical_json (JStr s) = json_string s"
| "canonical_json (JList xs) = ''['' @ join '','' (map canonical_json xs) @ '']''"
| "canonical_json (JObj kvs) =
     [CHR 0x7B]
     @ join '','' (map (\<lambda>(k, t). json_string k @ '':'' @ t)
         (sort_key fst (map (\<lambda>(k, v). (k, canonical_json v)) kvs)))
     @ [CHR 0x7D]"

definition sha256_json :: "json \<Rightarrow> pystr" where
  "sha256_json v = sha256_hex (utf8 (canonical_json v))"

text \<open>The digest of a \<open>str\<close>: \<open>hashlib.sha256(s.encode("utf-8")).hexdigest()\<close>.\<close>

definition sha256_str :: "pystr \<Rightarrow> pystr" where
  "sha256_str s = sha256_hex (utf8 s)"

text \<open>\<open>hmac.new(key, canonical_json(v).encode("utf-8"), sha256).hexdigest()\<close>, the signature
  every gate of the program uses.\<close>

definition hmac_json :: "string \<Rightarrow> json \<Rightarrow> pystr" where
  "hmac_json key v = hmac_sha256_hex key (utf8 (canonical_json v))"

subsection \<open>Building and reading objects\<close>

text \<open>An optional string, a list of strings, and \<open>value[key]\<close> of an object.\<close>

definition jopt :: "pystr option \<Rightarrow> json" where
  "jopt v = (case v of None \<Rightarrow> JNull | Some s \<Rightarrow> JStr s)"

definition jstrs :: "pystr list \<Rightarrow> json" where
  "jstrs xs = JList (map JStr xs)"

definition obj_get :: "(pystr \<times> json) list \<Rightarrow> pystr \<Rightarrow> json" where
  "obj_get kvs k = (case map_of kvs k of Some v \<Rightarrow> v | None \<Rightarrow> JNull)"

definition closed_keys :: "pystr list \<Rightarrow> (pystr \<times> json) list \<Rightarrow> bool" where
  "closed_keys names kvs \<longleftrightarrow> list_all (\<lambda>k. k \<in> set names) (map fst kvs)
                            \<and> list_all (\<lambda>k. k \<in> set (map fst kvs)) names"

lemma closed_keys_iff: "closed_keys names kvs \<longleftrightarrow> set (map fst kvs) = set names"
  by (auto simp: closed_keys_def list_all_iff)

subsection \<open>Duplicate members\<close>

datatype json_error = DuplicateMember | NotAnObject | NonFiniteNumber

text \<open>\<open>_reject_duplicate_pairs\<close>: the hook that builds each object from its member list.\<close>

fun reject_duplicate_pairs_acc ::
  "(pystr \<times> json) list \<Rightarrow> (pystr \<times> json) list \<Rightarrow> (json_error, (pystr \<times> json) list) result" where
  "reject_duplicate_pairs_acc value [] = Inr value"
| "reject_duplicate_pairs_acc value ((key, child) # pairs) =
     (if key \<in> fst ` set value then Inl DuplicateMember
      else reject_duplicate_pairs_acc (value @ [(key, child)]) pairs)"

definition reject_duplicate_pairs ::
  "(pystr \<times> json) list \<Rightarrow> (json_error, (pystr \<times> json) list) result" where
  "reject_duplicate_pairs pairs = reject_duplicate_pairs_acc [] pairs"

lemma reject_duplicate_pairs_acc_iff:
  "distinct (map fst value) \<Longrightarrow>
   reject_duplicate_pairs_acc value pairs =
     (if distinct (map fst (value @ pairs)) then Inr (value @ pairs) else Inl DuplicateMember)"
  by (induction "value" pairs rule: reject_duplicate_pairs_acc.induct) (auto simp: image_iff)

lemma reject_duplicate_pairs_iff:
  "reject_duplicate_pairs pairs =
     (if distinct (map fst pairs) then Inr pairs else Inl DuplicateMember)"
  by (simp add: reject_duplicate_pairs_def reject_duplicate_pairs_acc_iff)

subsection \<open>Equality of Python values\<close>

fun num_of :: "json \<Rightarrow> rat option" where
  "num_of (JBool b) = Some (if b then 1 else 0)"
| "num_of (JInt n) = Some (of_int n)"
| "num_of (JFloat x) = Some x"
| "num_of _ = None"

definition same_number :: "json \<Rightarrow> json \<Rightarrow> bool" where
  "same_number x y = (case (num_of x, num_of y) of (Some a, Some b) \<Rightarrow> a = b | _ \<Rightarrow> False)"

function py_eq :: "json \<Rightarrow> json \<Rightarrow> bool" where
  "py_eq JNull y = (y = JNull)"
| "py_eq (JStr s) y = (y = JStr s)"
| "py_eq (JBool b) y = same_number (JBool b) y"
| "py_eq (JInt n) y = same_number (JInt n) y"
| "py_eq (JFloat r) y = same_number (JFloat r) y"
| "py_eq (JList xs) y = (case y of JList ys \<Rightarrow> list_all2 py_eq xs ys | _ \<Rightarrow> False)"
| "py_eq (JObj d) y =
     (case y of
        JObj e \<Rightarrow> length d = length e \<and>
          (\<forall>p \<in> set d. case map_of e (fst p) of Some w \<Rightarrow> py_eq (snd p) w | None \<Rightarrow> False)
      | _ \<Rightarrow> False)"
  by pat_completeness auto
termination
proof (relation "measure (size \<circ> fst)")
  fix d :: "(pystr \<times> json) list" and p w
  assume "p \<in> set d"
  then have "size (snd p) < Suc (size_list (size_prod (\<lambda>_. 0) size) d)"
    by (induction d) auto
  then show "((snd p, w), JObj d, y) \<in> measure (size \<circ> fst)" for y by simp
next
  fix xs :: "json list" and z w y :: json
  assume "z \<in> set xs"
  then have "size z < Suc (size_list size xs)" by (induction xs) auto
  then show "((z, w), JList xs, y) \<in> measure (size \<circ> fst)" by simp
qed simp

fun json_keys_distinct :: "json \<Rightarrow> bool" where
  "json_keys_distinct (JList xs) = list_all json_keys_distinct xs"
| "json_keys_distinct (JObj d) = (distinct (map fst d) \<and> list_all (\<lambda>p. json_keys_distinct (snd p)) d)"
| "json_keys_distinct _ = True"

lemma py_eq_refl: "json_keys_distinct v \<Longrightarrow> py_eq v v"
proof (induction v rule: json_keys_distinct.induct)
  case (1 xs)
  then show ?case by (auto simp: list_all_iff list.rel_refl_strong)
next
  case (2 d)
  have "map_of d (fst p) = Some (snd p)" if "p \<in> set d" for p
    using 2 that by (auto intro: map_of_is_SomeI)
  with 2 show ?case by (fastforce simp: list_all_iff)
qed (simp_all add: same_number_def)

subsection \<open>Exact copies\<close>

text \<open>
  \<open>_copy_exact_json\<close> of \<open>approval.py\<close> and \<open>simulation.py\<close>: only exact JSON
  primitives pass; a key that is not a string, a tuple, a non-finite float or any other object
  is refused (\<open>None\<close>).
\<close>

fun copy_exact_json :: "pyval \<Rightarrow> json option" where
  "copy_exact_json PNone = Some JNull"
| "copy_exact_json (PBool b) = Some (JBool b)"
| "copy_exact_json (PInt n) = Some (JInt n)"
| "copy_exact_json (PFloat x) = Some (JFloat x)"
| "copy_exact_json PNonFinite = None"
| "copy_exact_json (PStr s) = Some (JStr s)"
| "copy_exact_json (PList xs) = map_option JList (those (map copy_exact_json xs))"
| "copy_exact_json (PDict kvs) =
     map_option JObj (those (map (\<lambda>(k, v). case k of
         PStr s \<Rightarrow> map_option (Pair s) (copy_exact_json v) | _ \<Rightarrow> None) kvs))"
| "copy_exact_json (PTuple xs) = None"
| "copy_exact_json POther = None"

fun pyval_of :: "json \<Rightarrow> pyval" where
  "pyval_of JNull = PNone"
| "pyval_of (JBool b) = PBool b"
| "pyval_of (JInt n) = PInt n"
| "pyval_of (JFloat x) = PFloat x"
| "pyval_of (JStr s) = PStr s"
| "pyval_of (JList xs) = PList (map pyval_of xs)"
| "pyval_of (JObj kvs) = PDict (map (\<lambda>(k, v). (PStr k, pyval_of v)) kvs)"

lemma those_map_Some: "(\<And>x. x \<in> set xs \<Longrightarrow> f x = Some (g x)) \<Longrightarrow> those (map f xs) = Some (map g xs)"
  by (induction xs) auto

lemma copy_exact_json_pyval_of: "copy_exact_json (pyval_of v) = Some v"
proof (induction v rule: pyval_of.induct)
  case (6 xs)
  then show ?case
    using those_map_Some [of xs "\<lambda>x. copy_exact_json (pyval_of x)" "\<lambda>x. x"] by (simp add: comp_def)
next
  case (7 kvs)
  have "those (map (\<lambda>p. map_option (Pair (fst p)) (copy_exact_json (pyval_of (snd p)))) kvs)
      = Some (map (\<lambda>p. p) kvs)"
    using 7 by (intro those_map_Some) auto
  then show ?case by (simp add: comp_def case_prod_beta)
qed simp_all

subsection \<open>Digests\<close>

lemma length_rounds: "length st = 8 \<Longrightarrow> length (rounds kws st) = 8"
proof (induction kws st rule: rounds.induct)
  case (1 k w kws a b c d e f g h)
  then show ?case by (simp add: Let_def)
qed auto

lemma length_compress: "length st = 8 \<Longrightarrow> length (compress st b) = 8"
  by (simp add: compress_def length_rounds)

lemma length_sha256_words: "length (sha256_words bs) = 8"
proof -
  have "length first_primes = 64" by code_simp
  then have "length initial_hash = 8" by (simp add: initial_hash_def)
  then have "length (foldl compress initial_hash bss) = 8" for bss
    by (induction bss rule: rev_induct) (simp_all add: length_compress)
  then show ?thesis by (simp add: sha256_words_def)
qed

lemma hex_digit_hex: "0 \<le> n \<Longrightarrow> n < 16 \<Longrightarrow> is_hex_char (hex_digit n)"
proof -
  assume "0 \<le> n" "n < 16"
  then have "n \<in> set [0..15]" by simp
  moreover have "list_all (\<lambda>n. is_hex_char (hex_digit n)) [0..15]" by code_simp
  ultimately show ?thesis by (simp only: list_all_iff)
qed

lemma sha256_hex_wellformed:
  "length (sha256_hex s) = 64 \<and> list_all is_hex_char (sha256_hex s)"
proof -
  have "length (hex_word w) = 8" "list_all is_hex_char (hex_word w)" for w
    by (auto simp: hex_word_def list_all_iff hex_digit_hex)
  then have "length (concat (map hex_word ws)) = 8 * length ws"
      "list_all is_hex_char (concat (map hex_word ws))" for ws
    by (induction ws) auto
  then show ?thesis by (simp add: sha256_hex_def length_sha256_words)
qed

lemma sha256_hex_not_Nil [simp]: "sha256_hex s \<noteq> []"
  using sha256_hex_wellformed [of s] by auto

end
