(* ===== verification/PyTime.thy ===== *)
theory PyTime
  imports Prelude
begin

text \<open>
  \<open>datetime\<close> values with a UTC offset, as the program uses them: an instant is the number of
  microseconds since 0001-01-01T00:00:00+00:00, so comparison and subtraction of aware
  datetimes are those of \<open>int\<close>. \<open>isoformat\<close> prints a UTC instant, \<open>fromisoformat\<close> reads
  the extended format with an offset; a naive or malformed text gives \<open>None\<close>. The program
  writes every timestamp it stores with \<open>isoformat\<close>, and the round trip is proved below.
\<close>

type_synonym instant = int

subsection \<open>The proleptic Gregorian calendar\<close>

definition is_leap :: "int \<Rightarrow> bool" where
  "is_leap y \<longleftrightarrow> y mod 4 = 0 \<and> (y mod 100 \<noteq> 0 \<or> y mod 400 = 0)"

definition days_before_year :: "int \<Rightarrow> int" where
  "days_before_year y = 365 * (y - 1) + (y - 1) div 4 - (y - 1) div 100 + (y - 1) div 400"

definition month_lengths :: "int \<Rightarrow> int list" where
  "month_lengths y = [31, if is_leap y then 29 else 28, 31, 30, 31, 30, 31, 31, 30, 31, 30, 31]"

lemma div_step: "0 < k \<Longrightarrow> (z + 1) div k = (z::int) div k + (if (z + 1) mod k = 0 then 1 else 0)"
proof -
  assume k: "0 < k"
  define q where "q = z div k"
  define r where "r = z mod k"
  have z: "z = k * q + r" "0 \<le> r" "r < k" using k by (auto simp: q_def r_def)
  show ?thesis
  proof (cases "r = k - 1")
    case True
    with z have "z + 1 = k * (q + 1)" by (simp add: algebra_simps)
    with k show ?thesis by (simp add: q_def)
  next
    case False
    with z have "z + 1 = k * q + (r + 1)" "0 \<le> r + 1" "r + 1 < k" by auto
    then have "(z + 1) div k = q" "(z + 1) mod k = r + 1"
      by (auto intro: int_div_pos_eq int_mod_pos_eq)
    with z show ?thesis by (simp add: q_def)
  qed
qed

lemma leap_count:
  "Y4 = P4 + (if a then 1 else 0) \<Longrightarrow> Y100 = P100 + (if b then 1 else 0) \<Longrightarrow>
   Y400 = P400 + (if c then 1 else 0) \<Longrightarrow> (c \<longrightarrow> b) \<Longrightarrow> (b \<longrightarrow> a) \<Longrightarrow>
   365 * y + Y4 - Y100 + Y400 =
     365 * (y - 1) + P4 - P100 + P400 + (if a \<and> (\<not> b \<or> c) then 366 else (365::int))"
  by (cases a; cases b; cases c) simp_all

lemma days_before_year_step:
  "days_before_year (y + 1) = days_before_year y + (if is_leap y then 366 else 365)"
proof -
  have 4: "y div 4 = (y - 1) div 4 + (if y mod 4 = 0 then 1 else 0)"
    using div_step [of 4 "y - 1"] by simp
  have 100: "y div 100 = (y - 1) div 100 + (if y mod 100 = 0 then 1 else 0)"
    using div_step [of 100 "y - 1"] by simp
  have 400: "y div 400 = (y - 1) div 400 + (if y mod 400 = 0 then 1 else 0)"
    using div_step [of 400 "y - 1"] by simp
  have "y mod 400 = 0 \<longrightarrow> y mod 100 = 0" "y mod 100 = 0 \<longrightarrow> y mod 4 = 0"
    using dvd_trans [of 100 400 y] dvd_trans [of 4 100 y] by (simp_all add: mod_eq_0_iff_dvd)
  note leap_count [OF 4 100 400 this, of y]
  moreover have "days_before_year (y + 1) = 365 * y + y div 4 - y div 100 + y div 400"
    by (simp add: days_before_year_def)
  ultimately show ?thesis by (simp only: days_before_year_def is_leap_def)
qed
lemma days_before_year_less: "days_before_year y < days_before_year (y + 1)"
  by (simp add: days_before_year_step)

lemma days_before_year_mono: "y \<le> y' \<Longrightarrow> days_before_year y \<le> days_before_year y'"
proof (induction y' rule: int_ge_induct)
  case (step i)
  with days_before_year_less [of i] show ?case by simp
qed simp

lemma sum_month_lengths: "sum_list (month_lengths y) = days_before_year (y + 1) - days_before_year y"
  by (simp add: days_before_year_step month_lengths_def)

function find_year :: "int \<Rightarrow> int \<Rightarrow> int" where
  "find_year d y = (if days_before_year (y + 1) \<le> d then find_year d (y + 1) else y)"
  by pat_completeness auto
termination
proof (relation "measure (\<lambda>(d, y). nat (d - days_before_year y))")
  fix d y assume "days_before_year (y + 1) \<le> d"
  with days_before_year_less [of y]
  show "((d, y + 1), d, y) \<in> measure (\<lambda>(d, y). nat (d - days_before_year y))" by simp
qed simp

declare find_year.simps [simp del]

lemma find_year_bounds:
  "days_before_year y \<le> d \<Longrightarrow> y \<le> find_year d y \<and>
     days_before_year (find_year d y) \<le> d \<and> d < days_before_year (find_year d y + 1)"
proof (induction d y rule: find_year.induct)
  case (1 d y)
  then show ?case
    by (cases "days_before_year (y + 1) \<le> d") (auto simp: find_year.simps [of d y])
qed

fun find_month :: "int list \<Rightarrow> int \<Rightarrow> int \<Rightarrow> int \<times> int" where
  "find_month [] m d = (m, d)"
| "find_month (l # ls) m d = (if d < l then (m, d) else find_month ls (m + 1) (d - l))"

text \<open>Year, month and day of a day number, all one-based.\<close>

definition civil :: "int \<Rightarrow> int \<times> int \<times> int" where
  "civil d =
     (let y = find_year d (d div 366 + 1);
          (m, r) = find_month (month_lengths y) 1 (d - days_before_year y)
      in (y, m, r + 1))"

definition days_from_civil :: "int \<Rightarrow> int \<Rightarrow> int \<Rightarrow> int" where
  "days_from_civil y m d =
     days_before_year y + sum_list (take (nat (m - 1)) (month_lengths y)) + d - 1"

lemma find_month_bounds:
  assumes "find_month ls m d = (m', d')" "0 \<le> d" "d < sum_list ls" "\<forall>l \<in> set ls. 0 \<le> l"
  shows "m \<le> m' \<and> nat (m' - m) < length ls \<and> 0 \<le> d' \<and> d' < ls ! nat (m' - m) \<and>
    d = sum_list (take (nat (m' - m)) ls) + d'"
  using assms
proof (induction ls arbitrary: m d)
  case (Cons l ls)
  show ?case
  proof (cases "d < l")
    case True
    with Cons show ?thesis by auto
  next
    case False
    with Cons.prems have "find_month ls (m + 1) (d - l) = (m', d')" "0 \<le> d - l" "d - l < sum_list ls"
      by auto
    with Cons have IH: "m + 1 \<le> m' \<and> nat (m' - (m + 1)) < length ls \<and> 0 \<le> d' \<and>
        d' < ls ! nat (m' - (m + 1)) \<and> d - l = sum_list (take (nat (m' - (m + 1))) ls) + d'"
      by auto
    then have "nat (m' - m) = Suc (nat (m' - (m + 1)))" by linarith
    with IH show ?thesis by auto
  qed
qed simp

lemma days_before_year_upper: "0 \<le> d \<Longrightarrow> days_before_year (d div 366 + 1) \<le> d"
proof -
  assume "0 \<le> d"
  define z where "z = d div 366"
  have z: "0 \<le> z" "366 * z \<le> d" using \<open>0 \<le> d\<close> by (auto simp: z_def)
  have "365 * z + z div 4 - z div 100 + z div 400 \<le> 366 * z"
  proof -
    have "z div 4 \<le> z" using z(1) by presburger
    moreover have "z div 400 \<le> z div 100" using z(1) by (intro zdiv_mono2) auto
    ultimately show ?thesis by linarith
  qed
  with z(2) show ?thesis by (simp add: days_before_year_def z_def)
qed

lemma civil_bounds:
  assumes "civil d = (y, m, dd)" "0 \<le> d" "d < days_before_year 10000"
  shows "1 \<le> y \<and> y < 10000 \<and> 1 \<le> m \<and> m \<le> 12 \<and> 1 \<le> dd \<and> dd \<le> month_lengths y ! nat (m - 1) \<and>
    days_from_civil y m dd = d"
proof -
  define z where "z = d div 366 + 1"
  have y: "y = find_year d z" and "find_month (month_lengths y) 1 (d - days_before_year y) = (m, dd - 1)"
    using assms(1) by (auto simp: civil_def z_def Let_def split: prod.splits)
  moreover have b: "z \<le> y" "days_before_year y \<le> d" "d < days_before_year (y + 1)"
    using find_year_bounds [of z d] days_before_year_upper [of d] assms(2) y by (auto simp: z_def)
  moreover have "\<forall>l \<in> set (month_lengths y). 0 \<le> l" by (auto simp: month_lengths_def)
  ultimately have f: "1 \<le> m \<and> nat (m - 1) < length (month_lengths y) \<and> 0 \<le> dd - 1 \<and>
      dd - 1 < month_lengths y ! nat (m - 1) \<and>
      d - days_before_year y = sum_list (take (nat (m - 1)) (month_lengths y)) + (dd - 1)"
    by (intro find_month_bounds) (auto simp: sum_month_lengths)
  have "1 \<le> y" using b(1) pos_imp_zdiv_nonneg_iff [of 366 d] assms(2) by (simp add: z_def)
  moreover have "y < 10000"
  proof (rule ccontr)
    assume "\<not> y < 10000"
    then have "days_before_year 10000 \<le> days_before_year y"
      by (intro days_before_year_mono) simp
    with b assms(3) show False by simp
  qed
  ultimately show ?thesis using f by (auto simp: days_from_civil_def month_lengths_def)
qed

subsection \<open>Printing and reading\<close>

definition seconds_per_day :: int where "seconds_per_day = 86400"

definition micros :: int where "micros = 1000000"

definition digit :: "int \<Rightarrow> char" where
  "digit n = char_of (48 + n)"

definition d2 :: "int \<Rightarrow> string" where
  "d2 n = [digit (n div 10), digit (n mod 10)]"

definition d4 :: "int \<Rightarrow> string" where
  "d4 n = d2 (n div 100) @ d2 (n mod 100)"

definition d6 :: "int \<Rightarrow> string" where
  "d6 n = d2 (n div 10000) @ d4 (n mod 10000)"

text \<open>\<open>datetime.isoformat()\<close> of a UTC instant; the microseconds appear only when nonzero.\<close>

definition isoformat :: "instant \<Rightarrow> pystr" where
  "isoformat t =
     (let s = t div micros; us = t mod micros; (y, m, d) = civil (s div seconds_per_day);
          r = s mod seconds_per_day
      in d4 y @ ''-'' @ d2 m @ ''-'' @ d2 d @ ''T'' @ d2 (r div 3600) @ '':'' @ d2 (r div 60 mod 60)
         @ '':'' @ d2 (r mod 60) @ (if us = 0 then '''' else ''.'' @ d6 us) @ ''+00:00'')"

fun digits_value :: "int \<Rightarrow> string \<Rightarrow> int option" where
  "digits_value acc [] = Some acc"
| "digits_value acc (c # cs) =
     (let n = (of_char c :: int) in
      if 48 \<le> n \<and> n \<le> 57 then digits_value (10 * acc + (n - 48)) cs else None)"

definition number_at :: "nat \<Rightarrow> nat \<Rightarrow> string \<Rightarrow> int option" where
  "number_at i k s = (if i + k \<le> length s then digits_value 0 (take k (drop i s)) else None)"

text \<open>The UTC offset in seconds that a text ends with.\<close>

definition offset_value :: "string \<Rightarrow> int option" where
  "offset_value s =
     (if s = ''Z'' then Some 0
      else if length s = 6 \<and> (s ! 0 = CHR ''+'' \<or> s ! 0 = CHR ''-'') \<and> s ! 3 = CHR '':'' then
        (case (number_at 1 2 s, number_at 4 2 s) of
           (Some h, Some m) \<Rightarrow>
             if h < 24 \<and> m < 60
             then Some ((if s ! 0 = CHR ''+'' then 1 else - 1) * (3600 * h + 60 * m)) else None
         | _ \<Rightarrow> None)
      else None)"

text \<open>\<open>datetime.fromisoformat\<close> followed by the test that the value has an offset.\<close>

definition fromisoformat :: "pystr \<Rightarrow> instant option" where
  "fromisoformat s =
     (if length s < 19 \<or> s ! 4 \<noteq> CHR ''-'' \<or> s ! 7 \<noteq> CHR ''-'' \<or> s ! 10 \<noteq> CHR ''T''
        \<or> s ! 13 \<noteq> CHR '':'' \<or> s ! 16 \<noteq> CHR '':'' then None
      else
        (let rest = drop 19 s;
             (us, off) = (if rest \<noteq> [] \<and> hd rest = CHR ''.'' then (number_at 1 6 rest, drop 7 rest)
                          else (Some 0, rest))
         in case (number_at 0 4 s, number_at 5 2 s, number_at 8 2 s) of
              (Some y, Some m, Some d) \<Rightarrow>
                (case (number_at 11 2 s, number_at 14 2 s, number_at 17 2 s) of
                   (Some hh, Some mm, Some ss) \<Rightarrow>
                     (case (us, offset_value off) of
                        (Some u, Some z) \<Rightarrow>
                          if 1 \<le> y \<and> 1 \<le> m \<and> m \<le> 12 \<and> 1 \<le> d \<and> d \<le> month_lengths y ! nat (m - 1)
                             \<and> hh < 24 \<and> mm < 60 \<and> ss < 60
                          then Some ((days_from_civil y m d * seconds_per_day
                                      + 3600 * hh + 60 * mm + ss - z) * micros + u)
                          else None
                      | _ \<Rightarrow> None)
                 | _ \<Rightarrow> None)
            | _ \<Rightarrow> None))"

text \<open>The instants \<open>datetime\<close> can represent, and \<open>.replace(microsecond=0)\<close>.\<close>

definition representable :: "instant \<Rightarrow> bool" where
  "representable t \<longleftrightarrow> 0 \<le> t \<and> t < days_before_year 10000 * seconds_per_day * micros"

definition whole_second :: "instant \<Rightarrow> instant" where
  "whole_second t = t div micros * micros"

lemma digits_value_d2: "0 \<le> n \<Longrightarrow> n < 100 \<Longrightarrow> digits_value acc (d2 n @ s) = digits_value (100 * acc + n) s"
proof -
  assume "0 \<le> n" "n < 100"
  then have *: "0 \<le> n div 10" "n div 10 < 10" "0 \<le> n mod 10" "n mod 10 < 10" by auto
  have dg: "of_char (digit k) = 48 + k" if "0 \<le> k" "k < 10" for k :: int
    using that by (simp add: digit_def)
  have "10 * (10 * acc + n div 10) + n mod 10 = 100 * acc + n" by simp
  with * show ?thesis
    by (auto simp: d2_def dg Let_def add.commute)
qed

lemma digits_value_d4:
  "0 \<le> n \<Longrightarrow> n < 10000 \<Longrightarrow> digits_value acc (d4 n @ s) = digits_value (10000 * acc + n) s"
proof -
  assume "0 \<le> n" "n < 10000"
  then have "0 \<le> n div 100" "n div 100 < 100" by auto
  moreover have "100 * (100 * acc + n div 100) + n mod 100 = 10000 * acc + n" by simp
  ultimately show ?thesis by (simp add: d4_def digits_value_d2 add.commute)
qed

lemma digits_value_d6:
  "0 \<le> n \<Longrightarrow> n < 1000000 \<Longrightarrow> digits_value acc (d6 n @ s) = digits_value (1000000 * acc + n) s"
proof -
  assume "0 \<le> n" "n < 1000000"
  then have "0 \<le> n div 10000" "n div 10000 < 100" by auto
  moreover have "10000 * (100 * acc + n div 10000) + n mod 10000 = 1000000 * acc + n"
    by simp
  ultimately show ?thesis by (simp add: d6_def digits_value_d2 digits_value_d4 add.commute)
qed

lemma length_d [simp]: "length (d2 n) = 2" "length (d4 n) = 4" "length (d6 n) = 6"
  by (simp_all add: d2_def d4_def d6_def)

lemma number_at_d:
  "0 \<le> n \<Longrightarrow> n < 100 \<Longrightarrow> digits_value 0 (d2 n) = Some n"
  "0 \<le> n \<Longrightarrow> n < 10000 \<Longrightarrow> digits_value 0 (d4 n) = Some n"
  "0 \<le> n \<Longrightarrow> n < 1000000 \<Longrightarrow> digits_value 0 (d6 n) = Some n"
  using digits_value_d2 [of n 0 "[]"] digits_value_d4 [of n 0 "[]"] digits_value_d6 [of n 0 "[]"]
  by simp_all

text \<open>The layout of the fixed fields, so that every slice of a printed text is a field.\<close>

lemma number_at_append:
  "length p = i \<Longrightarrow> length f = k \<Longrightarrow> number_at i k (p @ f @ q) = digits_value 0 f"
  by (simp add: number_at_def)

lemma fields:
  fixes y m d h n s rest :: string
  assumes len: "length y = 4" "length m = 2" "length d = 2" "length h = 2" "length n = 2" "length s = 2"
  defines "t \<equiv> y @ ''-'' @ m @ ''-'' @ d @ ''T'' @ h @ '':'' @ n @ '':'' @ s @ rest"
  shows "number_at 0 4 t = digits_value 0 y" "number_at 5 2 t = digits_value 0 m"
    "number_at 8 2 t = digits_value 0 d" "number_at 11 2 t = digits_value 0 h"
    "number_at 14 2 t = digits_value 0 n" "number_at 17 2 t = digits_value 0 s"
    "t ! 4 = CHR ''-''" "t ! 7 = CHR ''-''" "t ! 10 = CHR ''T''" "t ! 13 = CHR '':''"
    "t ! 16 = CHR '':''" "drop 19 t = rest" "19 \<le> length t"
proof -
  show "number_at 0 4 t = digits_value 0 y"
    using number_at_append [of "[]" 0 y 4] len by (simp add: t_def)
  show "number_at 5 2 t = digits_value 0 m"
    using number_at_append [of "y @ ''-''" 5 m 2] len by (simp add: t_def)
  show "number_at 8 2 t = digits_value 0 d"
    using number_at_append [of "y @ ''-'' @ m @ ''-''" 8 d 2] len by (simp add: t_def)
  show "number_at 11 2 t = digits_value 0 h"
    using number_at_append [of "y @ ''-'' @ m @ ''-'' @ d @ ''T''" 11 h 2] len by (simp add: t_def)
  show "number_at 14 2 t = digits_value 0 n"
    using number_at_append [of "y @ ''-'' @ m @ ''-'' @ d @ ''T'' @ h @ '':''" 14 n 2] len
    by (simp add: t_def)
  show "number_at 17 2 t = digits_value 0 s"
    using number_at_append [of "y @ ''-'' @ m @ ''-'' @ d @ ''T'' @ h @ '':'' @ n @ '':''" 17 s 2] len
    by (simp add: t_def)
qed (use len in \<open>simp_all add: t_def nth_append\<close>)

lemma div_less_bound: "0 < k \<Longrightarrow> t < n * k \<Longrightarrow> t div k < (n::int)"
proof (rule ccontr)
  assume "0 < k" "t < n * k" "\<not> t div k < n"
  then have "n * k \<le> t div k * k" by (simp add: mult_right_mono)
  also have "\<dots> \<le> t" using \<open>0 < k\<close> by (simp add: minus_mod_eq_div_mult [symmetric])
  finally show False using \<open>t < n * k\<close> by simp
qed

theorem fromisoformat_isoformat:
  assumes "representable t"
  shows "fromisoformat (isoformat t) = Some t"
proof -
  define s us r where "s = t div micros" and "us = t mod micros" and "r = s mod seconds_per_day"
  obtain y m d where c: "civil (s div seconds_per_day) = (y, m, d)" by (metis prod_cases3)
  have bs: "0 \<le> s" "0 \<le> us" "us < 1000000" "0 \<le> r" "r < 86400" "0 \<le> s div seconds_per_day"
    using assms by (auto simp: s_def us_def r_def micros_def seconds_per_day_def representable_def
        pos_imp_zdiv_nonneg_iff)
  have "s < days_before_year 10000 * seconds_per_day"
    using assms by (simp add: s_def representable_def micros_def div_less_bound)
  then have "s div seconds_per_day < days_before_year 10000"
    by (intro div_less_bound) (simp_all add: seconds_per_day_def)
  with bs c have cb: "1 \<le> y" "y < 10000" "1 \<le> m" "m \<le> 12" "1 \<le> d"
      "d \<le> month_lengths y ! nat (m - 1)" "days_from_civil y m d = s div seconds_per_day"
    using civil_bounds by blast+
  have "nat (m - 1) < length (month_lengths y)" using cb by (simp add: month_lengths_def)
  then have "month_lengths y ! nat (m - 1) \<in> set (month_lengths y)" by (rule nth_mem)
  with cb have d31: "d \<le> 31" by (auto simp: month_lengths_def split: if_splits)
  have h: "0 \<le> r div 3600" "r div 3600 < 24" "0 \<le> r div 60 mod 60" "r div 60 mod 60 < 60"
    "0 \<le> r mod 60" "r mod 60 < 60"
    using bs by (auto simp: pos_imp_zdiv_nonneg_iff div_less_iff_less_mult)
  define tail where "tail = (if us = 0 then '''' else ''.'' @ d6 us) @ ''+00:00''"
  have iso: "isoformat t = d4 y @ ''-'' @ d2 m @ ''-'' @ d2 d @ ''T'' @ d2 (r div 3600) @ '':''
      @ d2 (r div 60 mod 60) @ '':'' @ d2 (r mod 60) @ tail"
    using c by (simp add: isoformat_def Let_def s_def us_def r_def tail_def)
  have off: "offset_value ''+00:00'' = Some 0" by code_simp
  have u: "(if tail \<noteq> [] \<and> hd tail = CHR ''.'' then (number_at 1 6 tail, drop 7 tail)
      else (Some 0, tail)) = (Some us, ''+00:00'')"
    using number_at_append [of "''.''" 1 "d6 us" 6 "''+00:00''"] bs
    by (auto simp: tail_def number_at_d)
  have t: "(days_from_civil y m d * seconds_per_day + 3600 * (r div 3600) + 60 * (r div 60 mod 60)
      + r mod 60) * micros + us = t"
  proof -
    have "3600 * (r div 3600) + 60 * (r div 60 mod 60) + r mod 60 = r"
    proof -
      have "r div 3600 = r div 60 div 60" by (simp add: zdiv_zmult2_eq [symmetric])
      then show ?thesis by presburger
    qed
    moreover have "s div seconds_per_day * seconds_per_day + r = s" by (simp add: r_def)
    moreover have "s * micros + us = t" by (simp add: s_def us_def)
    ultimately show ?thesis using cb(7) by (metis add.assoc)
  qed
  note f = fields [of "d4 y" "d2 m" "d2 d" "d2 (r div 3600)" "d2 (r div 60 mod 60)" "d2 (r mod 60)" tail,
      OF length_d(2) length_d(1) length_d(1) length_d(1) length_d(1) length_d(1), folded iso]
  have nums: "digits_value 0 (d4 y) = Some y" "digits_value 0 (d2 m) = Some m"
    "digits_value 0 (d2 d) = Some d" "digits_value 0 (d2 (r div 3600)) = Some (r div 3600)"
    "digits_value 0 (d2 (r div 60 mod 60)) = Some (r div 60 mod 60)"
    "digits_value 0 (d2 (r mod 60)) = Some (r mod 60)"
    using cb h d31 by (auto intro: number_at_d)
  have g: "\<not> length (isoformat t) < 19" using f(13) by simp
  have valid: "1 \<le> y \<and> 1 \<le> m \<and> m \<le> 12 \<and> 1 \<le> d \<and> d \<le> month_lengths y ! nat (m - 1)
      \<and> r div 3600 < 24 \<and> r div 60 mod 60 < 60 \<and> r mod 60 < 60"
    using cb h by blast
  show ?thesis
    unfolding fromisoformat_def Let_def f nums u off
    using g valid t by (simp only: simp_thms if_True if_False option.case prod.case diff_0_right not_True_eq_False off)
qed

lemma representable_whole_second: "representable t \<Longrightarrow> representable (whole_second t)"
proof -
  have "whole_second t \<le> t"
    by (simp add: whole_second_def micros_def minus_mod_eq_div_mult [symmetric])
  then show "representable t \<Longrightarrow> representable (whole_second t)"
    by (auto simp: representable_def whole_second_def micros_def pos_imp_zdiv_nonneg_iff)
qed

text \<open>\<open>datetime.fromisoformat(s).astimezone(timezone.utc)\<close>: \<open>None\<close> where it raises.\<close>

definition utc_instant :: "pystr \<Rightarrow> instant option" where
  "utc_instant s = (case fromisoformat s of Some t \<Rightarrow> if representable t then Some t else None | None \<Rightarrow> None)"

text \<open>
  \<open>_parse_timestamp\<close> of the gates: a text without an offset is refused with the code of the gate, a
  malformed one raises \<open>ValueError\<close>, one whose UTC form is out of range \<open>OverflowError\<close>.
\<close>

definition parse_timestamp :: "pystr \<Rightarrow> pystr \<Rightarrow> (pystr, instant) result" where
  "parse_timestamp code s =
     (case fromisoformat s of
        Some t \<Rightarrow> if representable t then Inr t else Inl ''OverflowError''
      | None \<Rightarrow> if fromisoformat (s @ ''+00:00'') \<noteq> None then Inl code else Inl ''ValueError'')"

lemma parse_timestamp_isoformat [simp]: "representable t \<Longrightarrow> parse_timestamp code (isoformat t) = Inr t"
  by (simp add: parse_timestamp_def fromisoformat_isoformat)

end
