(* ===== verification/StageA_Base.thy ===== *)
theory StageA_Base
  imports PyJson PyTime
begin

text \<open>
  The validators that the durable-control code of \<open>stage_a.py\<close> shares: bounded identifiers,
  lowercase SHA-256 digests, offset timestamps, the digest of an outbox event, the operator's
  quiescence assertion, and the walk that refuses authority-bearing keys in persisted JSON. An
  error is the \<open>reason_code\<close> of the exception; its message is not modelled.
\<close>

type_synonym reason = pystr

datatype auth_state = Issued | Consumed | Revoked

datatype attempt_state =
    Reserved
  | ReceiptRecorded
  | VerifiedEffect
  | FailedNoEffect
  | RecoveryRequired
  | UnknownEffect

definition terminal_attempt_states :: "attempt_state list" where
  "terminal_attempt_states = [VerifiedEffect, FailedNoEffect, RecoveryRequired, UnknownEffect]"

lemma terminal_attempt_iff:
  "s \<in> set terminal_attempt_states \<longleftrightarrow> s \<noteq> Reserved \<and> s \<noteq> ReceiptRecorded"
  by (cases s) (simp_all add: terminal_attempt_states_def)

subsection \<open>Field validators\<close>

definition binding_invalid :: reason where
  "binding_invalid = ''CONTROL_LEDGER_BINDING_INVALID''"

definition require_identifier :: "reason \<Rightarrow> pystr \<Rightarrow> (reason, pystr) result" where
  "require_identifier rc v = (if v = [] \<or> length v > 512 then Inl rc else Inr v)"

definition require_sha256 :: "reason \<Rightarrow> pystr \<Rightarrow> (reason, pystr) result" where
  "require_sha256 rc v =
     and_then (require_identifier rc v) (\<lambda>candidate.
       if length candidate \<noteq> 64 \<or> \<not> list_all is_hex_char candidate then Inl rc else Inr candidate)"

definition is_offset_timestamp :: "pystr \<Rightarrow> bool" where
  "is_offset_timestamp v = (v \<noteq> [] \<and> length v \<le> 64 \<and> fromisoformat v \<noteq> None)"

definition require_offset_timestamp :: "reason \<Rightarrow> pystr \<Rightarrow> (reason, pystr) result" where
  "require_offset_timestamp rc v = (if is_offset_timestamp v then Inr v else Inl rc)"

definition is_identifier :: "pystr \<Rightarrow> bool" where
  "is_identifier v \<longleftrightarrow> v \<noteq> [] \<and> length v \<le> 512"

definition is_sha256 :: "pystr \<Rightarrow> bool" where
  "is_sha256 v \<longleftrightarrow> length v = 64 \<and> list_all is_hex_char v"

lemma require_identifier_Inr [simp]: "require_identifier rc v = Inr w \<longleftrightarrow> w = v \<and> is_identifier v"
  by (auto simp: require_identifier_def is_identifier_def)

lemma require_identifier_Inl [simp]: "require_identifier rc v = Inl e \<longleftrightarrow> e = rc \<and> \<not> is_identifier v"
  by (auto simp: require_identifier_def is_identifier_def)

lemma require_sha256_Inr [simp]: "require_sha256 rc v = Inr w \<longleftrightarrow> w = v \<and> is_sha256 v"
  by (auto simp: require_sha256_def is_sha256_def is_identifier_def)

lemma require_sha256_Inl [simp]: "require_sha256 rc v = Inl e \<longleftrightarrow> e = rc \<and> \<not> is_sha256 v"
  by (auto simp: require_sha256_def is_sha256_def is_identifier_def and_then_Inl)

lemma require_offset_timestamp_Inr [simp]:
  "require_offset_timestamp rc v = Inr w \<longleftrightarrow> w = v \<and> is_offset_timestamp v"
  by (auto simp: require_offset_timestamp_def)

lemma require_offset_timestamp_Inl [simp]:
  "require_offset_timestamp rc v = Inl e \<longleftrightarrow> e = rc \<and> \<not> is_offset_timestamp v"
  by (auto simp: require_offset_timestamp_def)

lemma is_sha256_sha256_hex [simp]: "is_sha256 (sha256_hex s)"
  using sha256_hex_wellformed by (simp add: is_sha256_def)

lemma is_sha256_derived [simp]:
  "is_sha256 (sha256_json v)" "is_sha256 (sha256_str s)" "is_sha256 (hmac_json k v)"
  by (simp_all add: sha256_json_def sha256_str_def hmac_json_def hmac_sha256_hex_def Let_def)

text \<open>\<open>value or default\<close> for an optional string: both \<open>None\<close> and the empty text are falsy.\<close>

definition or_default :: "pystr option \<Rightarrow> pystr \<Rightarrow> pystr" where
  "or_default v d = (case v of None \<Rightarrow> d | Some s \<Rightarrow> if s = [] then d else s)"

subsection \<open>Events and quiescence\<close>

definition event_digest :: "pystr \<Rightarrow> pystr \<Rightarrow> json \<Rightarrow> pystr" where
  "event_digest event_type subject_id payload =
     sha256_json (JObj
       [(''event_type'', JStr event_type), (''subject_id'', JStr subject_id), (''payload'', payload)])"

definition assert_quiesced :: "bool \<Rightarrow> (reason, unit) result" where
  "assert_quiesced v = require v ''RECOVERY_QUIESCENCE_REQUIRED''"

record outbox_event =
  event_id :: nat
  event_type :: pystr
  subject_id :: pystr
  payload_sha256 :: pystr
  created_at :: pystr
  exported_at :: "pystr option"

subsection \<open>Authority-bearing keys\<close>

definition authority_bearing_keys :: "pystr list" where
  "authority_bearing_keys =
     [''authorization_token'', ''nonce'', ''signature'', ''signatures'', ''audit_records'',
      ''credential'', ''credentials'', ''secret'', ''signing_key'']"

definition result_authority_bearing_keys :: "pystr list" where
  "result_authority_bearing_keys = authority_bearing_keys @
     [''token_id'', ''unsigned_token_sha256'', ''issuer_instance_id'',
      ''authorization_key_domain_id'', ''key_domain_id'']"

text \<open>\<open>str.lower\<close> on the ASCII letters, which are the only ones the denied keys contain.\<close>

definition ascii_lower :: "pystr \<Rightarrow> pystr" where
  "ascii_lower s =
     map (\<lambda>c. let n = (of_char c :: int) in if 65 \<le> n \<and> n \<le> 90 then char_of (n + 32) else c) s"

text \<open>
  The explicit stack of the walk, top first, and the count of visited nodes. The walk stops
  with an error below depth 32 or after 4096 nodes, so it ends on every value.
\<close>

function reject_keys_loop ::
  "pystr list \<Rightarrow> reason \<Rightarrow> (json \<times> nat) list \<Rightarrow> nat \<Rightarrow> (reason, unit) result" where
  "reject_keys_loop denied rc [] nodes = Inr ()"
| "reject_keys_loop denied rc ((current, depth) # stack) nodes =
     (if depth > 32 \<or> Suc nodes > 4096 then Inl rc
      else case current of
        JObj kvs \<Rightarrow>
          if list_ex (\<lambda>(key, _). ascii_lower key \<in> set denied) kvs then Inl rc
          else reject_keys_loop denied rc
                 (rev (map (\<lambda>(_, child). (child, Suc depth)) kvs) @ stack) (Suc nodes)
      | JList xs \<Rightarrow>
          reject_keys_loop denied rc (rev (map (\<lambda>child. (child, Suc depth)) xs) @ stack) (Suc nodes)
      | _ \<Rightarrow> reject_keys_loop denied rc stack (Suc nodes))"
  by pat_completeness auto
termination
  by (relation "measure (\<lambda>(_, _, _, nodes). 4097 - nodes)") auto

declare reject_keys_loop.simps [simp del]

definition reject_authority_bearing_keys :: "pystr list \<Rightarrow> reason \<Rightarrow> json \<Rightarrow> (reason, unit) result" where
  "reject_authority_bearing_keys denied rc v = reject_keys_loop denied rc [(v, 0)] 0"

text \<open>The specification: no key of the tree is denied.\<close>

fun free_of_keys :: "pystr list \<Rightarrow> json \<Rightarrow> bool" where
  "free_of_keys denied (JObj kvs) =
     list_all (\<lambda>(k, v). ascii_lower k \<notin> set denied \<and> free_of_keys denied v) kvs"
| "free_of_keys denied (JList xs) = list_all (free_of_keys denied) xs"
| "free_of_keys denied _ = True"

text \<open>The nodes of a tree and its depth: the structural bounds the walk enforces.\<close>

fun json_nodes :: "json \<Rightarrow> nat" where
  "json_nodes (JObj kvs) = Suc (sum_list (map (\<lambda>(_, v). json_nodes v) kvs))"
| "json_nodes (JList xs) = Suc (sum_list (map json_nodes xs))"
| "json_nodes _ = 1"

fun json_depth :: "json \<Rightarrow> nat" where
  "json_depth (JObj kvs) = foldr (\<lambda>(_, v) n. max (Suc (json_depth v)) n) kvs 0"
| "json_depth (JList xs) = foldr (\<lambda>v n. max (Suc (json_depth v)) n) xs 0"
| "json_depth _ = 0"

definition stack_ok :: "pystr list \<Rightarrow> (json \<times> nat) list \<Rightarrow> nat \<Rightarrow> bool" where
  "stack_ok denied stack nodes \<longleftrightarrow>
     (\<forall>p \<in> set stack. free_of_keys denied (fst p) \<and> snd p + json_depth (fst p) \<le> 32)
     \<and> nodes + sum_list (map (\<lambda>p. json_nodes (fst p)) stack) \<le> 4096"
lemma json_nodes_pos: "1 \<le> json_nodes v"
  by (cases v) auto

lemma depth_obj:
  "d + json_depth (JObj kvs) \<le> b \<longleftrightarrow> d \<le> b \<and> (\<forall>p \<in> set kvs. Suc d + json_depth (snd p) \<le> b)"
  by (induction kvs) auto

lemma depth_list:
  "d + json_depth (JList xs) \<le> b \<longleftrightarrow> d \<le> b \<and> (\<forall>v \<in> set xs. Suc d + json_depth v \<le> b)"
  by (induction xs) auto

lemma stack_ok_obj:
  assumes "depth \<le> 32"
  shows "stack_ok denied ((JObj kvs, depth) # stack) n \<longleftrightarrow>
     \<not> list_ex (\<lambda>(key, _). ascii_lower key \<in> set denied) kvs \<and>
     stack_ok denied (rev (map (\<lambda>(_, child). (child, Suc depth)) kvs) @ stack) (Suc n)"
proof -
  have nodes: "sum_list (map (\<lambda>p. json_nodes (fst p)) (rev (map (\<lambda>(_, child). (child, Suc depth)) kvs)))
      = sum_list (map (\<lambda>(_, v). json_nodes v) kvs)"
    by (simp add: rev_map [symmetric] sum_list_rev comp_def case_prod_unfold)
  have free: "free_of_keys denied (JObj kvs) \<longleftrightarrow>
      \<not> list_ex (\<lambda>(key, _). ascii_lower key \<in> set denied) kvs \<and> (\<forall>p \<in> set kvs. free_of_keys denied (snd p))"
    by (auto simp: list_all_iff list_ex_iff)
  have members: "(\<forall>p \<in> set (rev (map (\<lambda>(_, child). (child, Suc depth)) kvs)). P p) \<longleftrightarrow>
      (\<forall>p \<in> set kvs. P (snd p, Suc depth))" for P
    by auto
  show ?thesis
    unfolding stack_ok_def list.set(2) set_append ball_Un ball_simps(7) fst_conv snd_conv depth_obj free
      members map_append sum_list_append list.map nodes sum_list.Cons json_nodes.simps
    using assms by auto
qed

lemma stack_ok_list:
  assumes "depth \<le> 32"
  shows "stack_ok denied ((JList xs, depth) # stack) n \<longleftrightarrow>
     stack_ok denied (rev (map (\<lambda>child. (child, Suc depth)) xs) @ stack) (Suc n)"
proof -
  have nodes: "sum_list (map (\<lambda>p. json_nodes (fst p)) (rev (map (\<lambda>child. (child, Suc depth)) xs)))
      = sum_list (map json_nodes xs)"
    by (simp add: rev_map [symmetric] sum_list_rev comp_def)
  have free: "free_of_keys denied (JList xs) \<longleftrightarrow> (\<forall>p \<in> set xs. free_of_keys denied p)"
    by (auto simp: list_all_iff)
  have members: "(\<forall>p \<in> set (rev (map (\<lambda>child. (child, Suc depth)) xs)). P p) \<longleftrightarrow>
      (\<forall>p \<in> set xs. P (p, Suc depth))" for P
    by auto
  show ?thesis
    unfolding stack_ok_def list.set(2) set_append ball_Un ball_simps(7) fst_conv snd_conv depth_list free
      members map_append sum_list_append list.map nodes sum_list.Cons json_nodes.simps
    using assms by auto
qed

lemma stack_ok_leaf:
  "depth \<le> 32 \<Longrightarrow> (\<And>kvs. v \<noteq> JObj kvs) \<Longrightarrow> (\<And>xs. v \<noteq> JList xs) \<Longrightarrow>
     stack_ok denied ((v, depth) # stack) n \<longleftrightarrow> stack_ok denied stack (Suc n)"
  by (cases v) (auto simp: stack_ok_def)
lemma reject_keys_loop_iff:
  "nodes \<le> 4096 \<Longrightarrow> reject_keys_loop denied rc stack nodes = Inr () \<longleftrightarrow> stack_ok denied stack nodes"
proof (induction denied rc stack nodes rule: reject_keys_loop.induct)
  case (1 denied rc nodes)
  then show ?case by (simp add: stack_ok_def reject_keys_loop.simps)
next
  case (2 denied rc current depth stack nodes)
  show ?case
  proof (cases "depth > 32 \<or> Suc nodes > 4096")
    case True
    then show ?thesis
      using json_nodes_pos [of current] by (auto simp: stack_ok_def reject_keys_loop.simps)
  next
    case False
    then have "\<not> (depth > 32 \<or> Suc nodes > 4096)" "Suc nodes \<le> 4096" "depth \<le> 32" by auto
    with 2 show ?thesis
      by (cases current)
        (simp_all add: reject_keys_loop.simps stack_ok_obj stack_ok_list stack_ok_leaf)
  qed
qed
lemma reject_authority_bearing_keys_iff:
  "reject_authority_bearing_keys denied rc v = Inr () \<longleftrightarrow>
     free_of_keys denied v \<and> json_depth v \<le> 32 \<and> json_nodes v \<le> 4096"
  by (auto simp: reject_authority_bearing_keys_def reject_keys_loop_iff stack_ok_def)

end
