(* ===== verification/RequestResult.thy ===== *)
theory RequestResult
  imports StageA_Base
begin

text \<open>
  The sanitized terminal result of a request, \<open>RequestLookupResult\<close> of \<open>stage_a.py\<close>: its
  validation on construction, its dictionary form, the closed decoder, the replay view, the
  digest that binds a terminal attempt to it, and the validation of a recovery summary.

  A Python field of type \<open>str\<close>, \<open>bool\<close> or \<open>str | None\<close> is a field of that type here. The
  run-time type tests of the constructor therefore act in the decoder, which is the place where
  values of other types come from. The field \<open>authorization\<close> only ever holds \<open>None\<close>.
\<close>

record request_lookup_result =
  rr_schema_version :: pystr
  rr_principal_id :: pystr
  rr_request_id :: pystr
  rr_request_sha256 :: pystr
  rr_disposition :: pystr
  rr_decision_id :: pystr
  rr_decision_outcome :: pystr
  rr_decision_sha256 :: pystr
  rr_decision_context_sha256 :: pystr
  rr_policy_sha256 :: pystr
  rr_verification_status :: pystr
  rr_verification_sha256 :: "pystr option"
  rr_attempt_id :: "pystr option"
  rr_adapter_receipt_sha256 :: "pystr option"
  rr_target_state_sha256 :: "pystr option"
  rr_decided_at :: pystr
  rr_terminal_at :: pystr
  rr_recovery_required :: bool
  rr_reason_codes :: "pystr list"
  rr_replayed :: bool
  rr_execution_attempted :: bool
  rr_new_decision :: bool
  rr_new_authorization :: bool
  rr_new_effect :: bool

subsection \<open>Closed vocabularies\<close>

definition request_lookup_schema_version :: pystr where
  "request_lookup_schema_version = ''stage-a-request-lookup-v1''"

definition request_dispositions :: "pystr list" where
  "request_dispositions =
     [''COMPLETED_VERIFIED'', ''DENIED_NO_EFFECT'', ''FAILED_NO_EFFECT'', ''ABORTED_NO_EFFECT'',
      ''RECOVERY_REQUIRED'', ''UNKNOWN_EFFECT'']"

definition decision_outcomes :: "pystr list" where
  "decision_outcomes =
     [''ALLOW'', ''DENY'', ''ESCALATE'', ''ALLOW_CONSTRAINED'', ''NOT_DURABLY_RECORDED'']"

definition verification_statuses :: "pystr list" where
  "verification_statuses =
     [''VERIFIED'', ''FAILED'', ''PARTIAL'', ''UNEXPECTED_EFFECT'', ''ROLLBACK_REQUIRED'',
      ''NOT_APPLICABLE'', ''NOT_PERFORMED'', ''NOT_DURABLY_RECORDED'']"

definition recovery_summary_keys :: "pystr list" where
  "recovery_summary_keys =
     [''summary_version'', ''principal_id'', ''request_id'', ''request_sha256'', ''decision_id'',
      ''decision_outcome'', ''decision_sha256'', ''decision_context_sha256'', ''policy_sha256'',
      ''decided_at'']"

definition rr_invalid :: reason where
  "rr_invalid = ''REQUEST_RESULT_INVALID''"

definition rr_authority_prohibited :: reason where
  "rr_authority_prohibited = ''REQUEST_RESULT_AUTHORITY_PROHIBITED''"

lemmas rr_reasons = rr_invalid_def rr_authority_prohibited_def binding_invalid_def

subsection \<open>Validation\<close>

definition require_optional_sha256 :: "reason \<Rightarrow> pystr option \<Rightarrow> (reason, unit) result" where
  "require_optional_sha256 rc v =
     (case v of None \<Rightarrow> Inr () | Some s \<Rightarrow> and_then (require_sha256 rc s) (\<lambda>_. Inr ()))"

definition require_optional_identifier :: "reason \<Rightarrow> pystr option \<Rightarrow> (reason, unit) result" where
  "require_optional_identifier rc v =
     (case v of None \<Rightarrow> Inr () | Some s \<Rightarrow> and_then (require_identifier rc s) (\<lambda>_. Inr ()))"

text \<open>Which decision outcomes each disposition admits.\<close>

definition disposition_mismatch :: "request_lookup_result \<Rightarrow> bool" where
  "disposition_mismatch r \<longleftrightarrow>
     (rr_disposition r = ''DENIED_NO_EFFECT''
        \<and> rr_decision_outcome r \<notin> set [''DENY'', ''ESCALATE''])
     \<or> (rr_disposition r = ''ABORTED_NO_EFFECT''
        \<and> rr_decision_outcome r \<noteq> ''NOT_DURABLY_RECORDED'')
     \<or> (rr_disposition r \<in> set [''COMPLETED_VERIFIED'', ''FAILED_NO_EFFECT'', ''RECOVERY_REQUIRED'',
                                 ''UNKNOWN_EFFECT'']
        \<and> rr_decision_outcome r \<notin> set [''ALLOW'', ''ALLOW_CONSTRAINED''])"

text \<open>The receipt, target and verification fields each disposition must or must not carry.\<close>

definition check_effect_fields :: "request_lookup_result \<Rightarrow> (reason, unit) result" where
  "check_effect_fields r =
     (if rr_attempt_id r = None then
        require (\<not> (rr_disposition r \<notin> set [''DENIED_NO_EFFECT'', ''ABORTED_NO_EFFECT'']
                   \<or> rr_adapter_receipt_sha256 r \<noteq> None
                   \<or> rr_target_state_sha256 r \<noteq> None
                   \<or> rr_verification_sha256 r \<noteq> None
                   \<or> rr_recovery_required r
                   \<or> rr_verification_status r \<notin> set [''NOT_APPLICABLE'', ''NOT_PERFORMED'']))
          rr_invalid
      else if rr_disposition r = ''COMPLETED_VERIFIED'' then
        require (\<not> (rr_adapter_receipt_sha256 r = None
                   \<or> rr_target_state_sha256 r = None
                   \<or> rr_verification_sha256 r = None
                   \<or> rr_verification_status r \<noteq> ''VERIFIED''
                   \<or> rr_recovery_required r)) rr_invalid
      else if rr_disposition r = ''FAILED_NO_EFFECT'' then
        require (\<not> (rr_adapter_receipt_sha256 r = None
                   \<or> rr_target_state_sha256 r = None
                   \<or> rr_recovery_required r
                   \<or> rr_verification_status r = ''VERIFIED'')) rr_invalid
      else if rr_disposition r \<in> set [''RECOVERY_REQUIRED'', ''UNKNOWN_EFFECT''] then
        require (\<not> (\<not> rr_recovery_required r
                   \<or> rr_verification_status r = ''VERIFIED''
                   \<or> (rr_adapter_receipt_sha256 r = None) \<noteq> (rr_target_state_sha256 r = None)
                   \<or> (rr_disposition r = ''RECOVERY_REQUIRED'' \<and> rr_adapter_receipt_sha256 r = None)))
          rr_invalid
      else Inl rr_invalid)"

definition check_result_times :: "request_lookup_result \<Rightarrow> (reason, unit) result" where
  "check_result_times r =
     (case fromisoformat (rr_decided_at r) of
        None \<Rightarrow> Inl rr_invalid
      | Some decided \<Rightarrow>
          (case fromisoformat (rr_terminal_at r) of
             None \<Rightarrow> Inl rr_invalid
           | Some terminal \<Rightarrow> require (\<not> terminal < decided) rr_invalid))"

definition summary_only_statuses :: "pystr list" where
  "summary_only_statuses = [''NOT_APPLICABLE'', ''NOT_PERFORMED'', ''NOT_DURABLY_RECORDED'']"

text \<open>\<open>__post_init__\<close>, guard by guard.\<close>

definition check_request_result :: "request_lookup_result \<Rightarrow> (reason, unit) result" where
  "check_request_result r =
     and_then (require (rr_schema_version r = request_lookup_schema_version)
       ''REQUEST_RESULT_SCHEMA_UNSUPPORTED'') (\<lambda>_.
     and_then (for_each (\<lambda>v. and_then (require_identifier binding_invalid v) (\<lambda>_. Inr ()))
       [rr_principal_id r, rr_request_id r, rr_disposition r, rr_decision_id r,
        rr_decision_outcome r, rr_verification_status r, rr_decided_at r, rr_terminal_at r]) (\<lambda>_.
     and_then (for_each (\<lambda>v. and_then (require_sha256 binding_invalid v) (\<lambda>_. Inr ()))
       [rr_request_sha256 r, rr_decision_sha256 r, rr_decision_context_sha256 r,
        rr_policy_sha256 r]) (\<lambda>_.
     and_then (for_each (require_optional_sha256 binding_invalid)
       [rr_verification_sha256 r, rr_adapter_receipt_sha256 r, rr_target_state_sha256 r]) (\<lambda>_.
     and_then (require_optional_identifier binding_invalid (rr_attempt_id r)) (\<lambda>_.
     and_then (require (rr_disposition r \<in> set request_dispositions) rr_invalid) (\<lambda>_.
     and_then (require (rr_decision_outcome r \<in> set decision_outcomes) rr_invalid) (\<lambda>_.
     and_then (require (\<not> disposition_mismatch r) rr_invalid) (\<lambda>_.
     and_then (require (rr_verification_status r \<in> set verification_statuses) rr_invalid) (\<lambda>_.
     and_then (require (\<not> (rr_execution_attempted r \<or> rr_new_decision r
                         \<or> rr_new_authorization r \<or> rr_new_effect r)) rr_authority_prohibited) (\<lambda>_.
     and_then (require (\<not> (length (rr_reason_codes r) > 32
                 \<or> list_ex (\<lambda>reason. reason = [] \<or> length reason > 128) (rr_reason_codes r)))
       rr_invalid) (\<lambda>_.
     and_then (check_effect_fields r) (\<lambda>_.
     and_then (check_result_times r) (\<lambda>_.
     require (\<not> ((rr_verification_status r \<in> set summary_only_statuses)
               \<noteq> (rr_verification_sha256 r = None))) rr_invalid)))))))))))))"

subsection \<open>Dictionary form\<close>

definition request_result_fields :: "pystr list" where
  "request_result_fields =
     [''schema_version'', ''principal_id'', ''request_id'', ''request_sha256'', ''disposition'',
      ''decision_id'', ''decision_outcome'', ''decision_sha256'', ''decision_context_sha256'',
      ''policy_sha256'', ''verification_status'', ''verification_sha256'', ''attempt_id'',
      ''adapter_receipt_sha256'', ''target_state_sha256'', ''decided_at'', ''terminal_at'',
      ''recovery_required'', ''reason_codes'', ''replayed'', ''execution_attempted_this_call'',
      ''new_decision'', ''new_authorization'', ''new_effect'', ''authorization'']"

definition request_result_members :: "request_lookup_result \<Rightarrow> (pystr \<times> json) list" where
  "request_result_members r =
     [(''schema_version'', JStr (rr_schema_version r)),
      (''principal_id'', JStr (rr_principal_id r)),
      (''request_id'', JStr (rr_request_id r)),
      (''request_sha256'', JStr (rr_request_sha256 r)),
      (''disposition'', JStr (rr_disposition r)),
      (''decision_id'', JStr (rr_decision_id r)),
      (''decision_outcome'', JStr (rr_decision_outcome r)),
      (''decision_sha256'', JStr (rr_decision_sha256 r)),
      (''decision_context_sha256'', JStr (rr_decision_context_sha256 r)),
      (''policy_sha256'', JStr (rr_policy_sha256 r)),
      (''verification_status'', JStr (rr_verification_status r)),
      (''verification_sha256'', jopt (rr_verification_sha256 r)),
      (''attempt_id'', jopt (rr_attempt_id r)),
      (''adapter_receipt_sha256'', jopt (rr_adapter_receipt_sha256 r)),
      (''target_state_sha256'', jopt (rr_target_state_sha256 r)),
      (''decided_at'', JStr (rr_decided_at r)),
      (''terminal_at'', JStr (rr_terminal_at r)),
      (''recovery_required'', JBool (rr_recovery_required r)),
      (''reason_codes'', jstrs (rr_reason_codes r)),
      (''replayed'', JBool (rr_replayed r)),
      (''execution_attempted_this_call'', JBool (rr_execution_attempted r)),
      (''new_decision'', JBool (rr_new_decision r)),
      (''new_authorization'', JBool (rr_new_authorization r)),
      (''new_effect'', JBool (rr_new_effect r)),
      (''authorization'', JNull)]"

definition request_result_to_dict :: "request_lookup_result \<Rightarrow> json" where
  "request_result_to_dict r = JObj (request_result_members r)"

text \<open>
  The decoder. Fields of the wrong type are refused with the code of the constructor guard that
  meets them: the schema version, the identifiers and digests, then the flags. An entry of
  \<open>reason_codes\<close> that is not a string is read as the empty string, which the constructor
  refuses with the same code.
\<close>

definition json_text :: "reason \<Rightarrow> json \<Rightarrow> (reason, pystr) result" where
  "json_text rc v = (case v of JStr s \<Rightarrow> Inr s | _ \<Rightarrow> Inl rc)"

definition json_optional_text :: "reason \<Rightarrow> json \<Rightarrow> (reason, pystr option) result" where
  "json_optional_text rc v = (case v of JNull \<Rightarrow> Inr None | JStr s \<Rightarrow> Inr (Some s) | _ \<Rightarrow> Inl rc)"

definition json_flag :: "reason \<Rightarrow> json \<Rightarrow> (reason, bool) result" where
  "json_flag rc v = (case v of JBool b \<Rightarrow> Inr b | _ \<Rightarrow> Inl rc)"

definition json_identifier :: "json \<Rightarrow> (reason, pystr) result" where
  "json_identifier v = and_then (json_text binding_invalid v) (require_identifier binding_invalid)"

definition json_sha256 :: "json \<Rightarrow> (reason, pystr) result" where
  "json_sha256 v = and_then (json_text binding_invalid v) (require_sha256 binding_invalid)"

definition json_optional ::
  "(reason \<Rightarrow> pystr \<Rightarrow> (reason, pystr) result) \<Rightarrow> json \<Rightarrow> (reason, pystr option) result" where
  "json_optional validate v =
     and_then (json_optional_text binding_invalid v) (\<lambda>s. case s of
        None \<Rightarrow> Inr None
      | Some w \<Rightarrow> and_then (validate binding_invalid w) (\<lambda>x. Inr (Some x)))"

definition reason_text :: "json \<Rightarrow> pystr" where
  "reason_text v = (case v of JStr s \<Rightarrow> s | _ \<Rightarrow> [])"


lemmas json_decoders = json_text_def json_optional_text_def json_flag_def json_identifier_def
  json_sha256_def json_optional_def

definition decode_request_result ::
  "(pystr \<times> json) list \<Rightarrow> json list \<Rightarrow> (reason, request_lookup_result) result" where
  "decode_request_result kvs reasons =
     (let field = obj_get kvs in
      and_then (json_text ''REQUEST_RESULT_SCHEMA_UNSUPPORTED'' (field ''schema_version'')) (\<lambda>schema.
      and_then (require (schema = request_lookup_schema_version)
        ''REQUEST_RESULT_SCHEMA_UNSUPPORTED'') (\<lambda>_.
      and_then (map_result (\<lambda>k. json_identifier (field k))
        [''principal_id'', ''request_id'', ''disposition'', ''decision_id'', ''decision_outcome'',
         ''verification_status'', ''decided_at'', ''terminal_at'']) (\<lambda>ids.
      and_then (map_result (\<lambda>k. json_sha256 (field k))
        [''request_sha256'', ''decision_sha256'', ''decision_context_sha256'', ''policy_sha256'']) (\<lambda>shas.
      and_then (map_result (\<lambda>k. json_optional require_sha256 (field k))
        [''verification_sha256'', ''adapter_receipt_sha256'', ''target_state_sha256'']) (\<lambda>opts.
      and_then (json_optional require_identifier (field ''attempt_id'')) (\<lambda>attempt.
      and_then (map_result (\<lambda>k. json_flag rr_invalid (field k))
        [''recovery_required'', ''replayed'', ''execution_attempted_this_call'', ''new_decision'',
         ''new_authorization'', ''new_effect'']) (\<lambda>flags.
      Inr \<lparr>rr_schema_version = schema, rr_principal_id = ids ! 0, rr_request_id = ids ! 1,
            rr_request_sha256 = shas ! 0, rr_disposition = ids ! 2, rr_decision_id = ids ! 3,
            rr_decision_outcome = ids ! 4, rr_decision_sha256 = shas ! 1,
            rr_decision_context_sha256 = shas ! 2, rr_policy_sha256 = shas ! 3,
            rr_verification_status = ids ! 5, rr_verification_sha256 = opts ! 0,
            rr_attempt_id = attempt, rr_adapter_receipt_sha256 = opts ! 1,
            rr_target_state_sha256 = opts ! 2, rr_decided_at = ids ! 6, rr_terminal_at = ids ! 7,
            rr_recovery_required = flags ! 0, rr_reason_codes = map reason_text reasons,
            rr_replayed = flags ! 1, rr_execution_attempted = flags ! 2, rr_new_decision = flags ! 3,
            rr_new_authorization = flags ! 4, rr_new_effect = flags ! 5\<rparr>))))))))"

definition request_result_from_dict :: "json \<Rightarrow> (reason, request_lookup_result) result" where
  "request_result_from_dict v =
     (case v of
        JObj kvs \<Rightarrow>
          and_then (require (closed_keys request_result_fields kvs) rr_invalid) (\<lambda>_.
          and_then (require (obj_get kvs ''authorization'' = JNull) rr_authority_prohibited) (\<lambda>_.
          and_then (reject_authority_bearing_keys result_authority_bearing_keys rr_authority_prohibited
              (JObj (dict_pop ''authorization'' kvs))) (\<lambda>_.
          (case obj_get kvs ''reason_codes'' of
             JList reasons \<Rightarrow>
               and_then (decode_request_result kvs reasons) (\<lambda>r.
               and_then (check_request_result r) (\<lambda>_. Inr r))
           | _ \<Rightarrow> Inl rr_invalid))))
      | _ \<Rightarrow> Inl rr_invalid)"

definition as_replay :: "request_lookup_result \<Rightarrow> request_lookup_result" where
  "as_replay r = r\<lparr>rr_replayed := True, rr_execution_attempted := False, rr_new_decision := False,
                  rr_new_authorization := False, rr_new_effect := False\<rparr>"

definition attempt_state_name :: "attempt_state \<Rightarrow> pystr" where
  "attempt_state_name s = (case s of
      Reserved \<Rightarrow> ''RESERVED'' | ReceiptRecorded \<Rightarrow> ''RECEIPT_RECORDED''
    | VerifiedEffect \<Rightarrow> ''VERIFIED_EFFECT'' | FailedNoEffect \<Rightarrow> ''FAILED_NO_EFFECT''
    | RecoveryRequired \<Rightarrow> ''RECOVERY_REQUIRED'' | UnknownEffect \<Rightarrow> ''UNKNOWN_EFFECT'')"

definition terminal_attempt_outcome_sha256 ::
  "request_lookup_result \<Rightarrow> attempt_state \<Rightarrow> (reason, pystr) result" where
  "terminal_attempt_outcome_sha256 r state =
     and_then (require (state \<in> set terminal_attempt_states) ''REQUEST_RESULT_BINDING_INVALID'') (\<lambda>_.
     (let stored = r\<lparr>rr_replayed := False, rr_execution_attempted := False, rr_new_decision := False,
                     rr_new_authorization := False, rr_new_effect := False\<rparr>;
          request_result_sha256 = sha256_str (canonical_json (request_result_to_dict stored))
      in and_then (check_request_result stored) (\<lambda>_.
         Inr (sha256_json (JObj
           [(''attempt_state'', JStr (attempt_state_name state)),
            (''request_result_sha256'', JStr request_result_sha256)])))))"

subsection \<open>What a validated result says\<close>

lemma and_then_unit: "and_then r (\<lambda>_. Inr ()) = Inr () \<longleftrightarrow> (\<exists>a. r = Inr a)"
  by (cases r) auto

definition valid_optional_sha256 :: "pystr option \<Rightarrow> bool" where
  "valid_optional_sha256 v \<longleftrightarrow> (case v of None \<Rightarrow> True | Some s \<Rightarrow> is_sha256 s)"

definition valid_optional_identifier :: "pystr option \<Rightarrow> bool" where
  "valid_optional_identifier v \<longleftrightarrow> (case v of None \<Rightarrow> True | Some s \<Rightarrow> is_identifier s)"

lemma require_optional_Inr [simp]:
  "require_optional_sha256 rc v = Inr () \<longleftrightarrow> valid_optional_sha256 v"
  "require_optional_identifier rc v = Inr () \<longleftrightarrow> valid_optional_identifier v"
  by (auto simp: require_optional_sha256_def require_optional_identifier_def
      valid_optional_sha256_def valid_optional_identifier_def split: option.splits)

text \<open>The constructor accepts exactly the values that satisfy every one of its guards.\<close>

lemma check_request_result_iff:
  "check_request_result r = Inr () \<longleftrightarrow>
     rr_schema_version r = request_lookup_schema_version
     \<and> list_all is_identifier
         [rr_principal_id r, rr_request_id r, rr_disposition r, rr_decision_id r,
          rr_decision_outcome r, rr_verification_status r, rr_decided_at r, rr_terminal_at r]
     \<and> list_all is_sha256
         [rr_request_sha256 r, rr_decision_sha256 r, rr_decision_context_sha256 r, rr_policy_sha256 r]
     \<and> list_all valid_optional_sha256
         [rr_verification_sha256 r, rr_adapter_receipt_sha256 r, rr_target_state_sha256 r]
     \<and> valid_optional_identifier (rr_attempt_id r)
     \<and> rr_disposition r \<in> set request_dispositions
     \<and> rr_decision_outcome r \<in> set decision_outcomes
     \<and> \<not> disposition_mismatch r
     \<and> rr_verification_status r \<in> set verification_statuses
     \<and> \<not> rr_execution_attempted r \<and> \<not> rr_new_decision r
     \<and> \<not> rr_new_authorization r \<and> \<not> rr_new_effect r
     \<and> length (rr_reason_codes r) \<le> 32
     \<and> list_all (\<lambda>reason. reason \<noteq> [] \<and> length reason \<le> 128) (rr_reason_codes r)
     \<and> check_effect_fields r = Inr () \<and> check_result_times r = Inr ()
     \<and> (rr_verification_status r \<in> set summary_only_statuses \<longleftrightarrow> rr_verification_sha256 r = None)"
  by (simp add: check_request_result_def list_all_iff list_ex_iff not_less conj_ac)

subsection \<open>The decoder reads what the encoder writes\<close>

lemma json_optional_jopt:
  "json_optional require_sha256 (jopt v) = Inr w \<longleftrightarrow> w = v \<and> valid_optional_sha256 v"
  "json_optional require_identifier (jopt v) = Inr w \<longleftrightarrow> w = v \<and> valid_optional_identifier v"
  by (auto simp: json_optional_def jopt_def json_optional_text_def valid_optional_sha256_def
      valid_optional_identifier_def split: option.splits)

lemma json_identifier_JStr: "json_identifier (JStr s) = (if is_identifier s then Inr s else Inl binding_invalid)"
  by (auto simp: json_identifier_def json_text_def)

lemma json_sha256_JStr: "json_sha256 (JStr s) = (if is_sha256 s then Inr s else Inl binding_invalid)"
  by (auto simp: json_sha256_def json_text_def)

lemma json_flag_JBool: "json_flag rc (JBool b) = Inr b"
  by (simp add: json_flag_def)

lemma map_reason_text: "map (reason_text \<circ> JStr) xs = xs"
  by (induction xs) (simp_all add: reason_text_def)

lemma closed_keys_members: "closed_keys request_result_fields (request_result_members r)"
  by (simp add: closed_keys_iff request_result_fields_def request_result_members_def)

lemma result_keys_clean:
  "list_all (\<lambda>k. ascii_lower k \<notin> set result_authority_bearing_keys) request_result_fields"
  by code_simp

lemma leaves_free: "free_of_keys d (jopt v)" "free_of_keys d (jstrs xs)"
  by (auto simp: jopt_def jstrs_def list_all_iff split: option.splits)

lemma leaves_nodes: "json_nodes (jopt v) = 1" "json_nodes (jstrs xs) = Suc (length xs)"
  by (auto simp: jopt_def jstrs_def comp_def sum_list_triv split: option.splits)

lemma depth_strs: "foldr (\<lambda>v n. max (Suc (json_depth v)) n) (map JStr xs) 0 \<le> 1"
  by (induction xs) auto

lemma leaves_depth: "json_depth (jopt v) = 0" "json_depth (jstrs xs) \<le> 1"
  using depth_strs [of xs] by (auto simp: jopt_def jstrs_def split: option.splits)

lemma members_free:
  "free_of_keys result_authority_bearing_keys (JObj (dict_pop ''authorization'' (request_result_members r)))"
proof -
  have "list_all (\<lambda>k. ascii_lower k \<notin> set result_authority_bearing_keys)
      (map fst (request_result_members r))"
    using result_keys_clean by (simp add: request_result_fields_def request_result_members_def)
  moreover have "list_all (\<lambda>p. free_of_keys result_authority_bearing_keys (snd p)) (request_result_members r)"
    by (simp add: request_result_members_def leaves_free)
  ultimately show ?thesis
    by (auto simp: dict_pop_def list_all_iff)
qed

lemma sum_filter_le: "sum_list (map f (filter P xs)) \<le> (sum_list (map f xs) :: nat)"
  by (induction xs) auto

lemma members_bounds:
  "length (rr_reason_codes r) \<le> 32 \<Longrightarrow>
   json_depth (JObj (dict_pop ''authorization'' (request_result_members r))) \<le> 32 \<and>
   json_nodes (JObj (dict_pop ''authorization'' (request_result_members r))) \<le> 4096"
proof
  assume *: "length (rr_reason_codes r) \<le> 32"
  have "sum_list (map (\<lambda>(_, v). json_nodes v) (request_result_members r)) \<le> 60"
    using * by (simp add: request_result_members_def leaves_nodes)
  then show "json_nodes (JObj (dict_pop ''authorization'' (request_result_members r))) \<le> 4096"
    using sum_filter_le [of "\<lambda>(_, v). json_nodes v" "\<lambda>(k', _). k' \<noteq> ''authorization''"
        "request_result_members r"]
    by (simp add: dict_pop_def)
  have "\<forall>p \<in> set (request_result_members r). json_depth (snd p) \<le> 1"
    using leaves_depth by (simp add: request_result_members_def)
  then have "0 + json_depth (JObj (dict_pop ''authorization'' (request_result_members r))) \<le> 32"
    unfolding depth_obj by (fastforce simp: dict_pop_def)
  then show "json_depth (JObj (dict_pop ''authorization'' (request_result_members r))) \<le> 32"
    by simp
qed

lemma decode_members:
  assumes "check_request_result r = Inr ()"
  shows "decode_request_result (request_result_members r) (map JStr (rr_reason_codes r)) = Inr r"
  using assms unfolding check_request_result_iff decode_request_result_def Let_def request_result_members_def
  by (cases r) (simp add: json_optional_jopt json_identifier_JStr json_sha256_JStr json_flag_JBool
      map_reason_text json_text_def obj_get_def)

lemma request_result_roundtrip:
  assumes "check_request_result r = Inr ()"
  shows "request_result_from_dict (request_result_to_dict r) = Inr r"
proof -
  have len: "length (rr_reason_codes r) \<le> 32"
    using assms by (simp add: check_request_result_iff)
  have get: "obj_get (request_result_members r) ''authorization'' = JNull"
    "obj_get (request_result_members r) ''reason_codes'' = JList (map JStr (rr_reason_codes r))"
    by (simp_all add: obj_get_def request_result_members_def jstrs_def)
  show ?thesis
    using members_free [of r] members_bounds [OF len] decode_members [OF assms] assms
    unfolding request_result_from_dict_def request_result_to_dict_def
    by (simp add: closed_keys_members get reject_authority_bearing_keys_iff
        del: free_of_keys.simps json_depth.simps json_nodes.simps)
qed

subsection \<open>The matrix of dispositions\<close>

lemma effect_matrix:
  assumes "check_request_result r = Inr ()"
  shows "(rr_disposition r = ''COMPLETED_VERIFIED'' \<longleftrightarrow> rr_verification_status r = ''VERIFIED'')
    \<and> (rr_attempt_id r = None \<longleftrightarrow> rr_disposition r \<in> {''DENIED_NO_EFFECT'', ''ABORTED_NO_EFFECT''})
    \<and> (rr_recovery_required r \<longleftrightarrow> rr_disposition r \<in> {''RECOVERY_REQUIRED'', ''UNKNOWN_EFFECT''})"
  using assms
  by (auto simp: check_request_result_iff check_effect_fields_def split: if_splits)

lemma verified_evidence:
  assumes "check_request_result r = Inr ()" "rr_disposition r = ''COMPLETED_VERIFIED''"
  shows "rr_attempt_id r \<noteq> None \<and> rr_adapter_receipt_sha256 r \<noteq> None
    \<and> rr_target_state_sha256 r \<noteq> None \<and> rr_verification_sha256 r \<noteq> None
    \<and> rr_decision_outcome r \<in> {''ALLOW'', ''ALLOW_CONSTRAINED''}"
  using assms
  by (auto simp: check_request_result_iff check_effect_fields_def disposition_mismatch_def split: if_splits)

lemma valid_result_times:
  assumes "check_request_result r = Inr ()"
  shows "\<exists>d t. fromisoformat (rr_decided_at r) = Some d \<and> fromisoformat (rr_terminal_at r) = Some t \<and> d \<le> t"
  using assms
  by (auto simp: check_request_result_iff check_result_times_def split: option.splits)

lemma as_replay_check: "check_request_result r = Inr () \<Longrightarrow> check_request_result (as_replay r) = Inr ()"
proof -
  assume "check_request_result r = Inr ()"
  moreover have "check_effect_fields (as_replay r) = check_effect_fields r"
    "disposition_mismatch (as_replay r) = disposition_mismatch r"
    by (simp_all add: as_replay_def check_effect_fields_def disposition_mismatch_def)
  moreover have "check_result_times (as_replay r) = check_result_times r"
    by (simp add: as_replay_def check_result_times_def cong: option.case_cong)
  ultimately show ?thesis
    by (simp add: check_request_result_iff) (simp add: as_replay_def)
qed

lemma as_replay_digest:
  "terminal_attempt_outcome_sha256 (as_replay r) s = terminal_attempt_outcome_sha256 r s"
  by (simp add: terminal_attempt_outcome_sha256_def as_replay_def)

subsection \<open>Recovery summaries\<close>

definition recovery_summary_invalid :: reason where
  "recovery_summary_invalid = ''CONTROL_LEDGER_RECOVERY_SUMMARY_INVALID''"

text \<open>
  \<open>_validate_recovery_summary\<close>. A list or an object as the decision outcome is unhashable, so
  the membership test itself raises \<open>TypeError\<close>.
\<close>

definition validate_recovery_summary :: "json \<Rightarrow> (reason, json) result" where
  "validate_recovery_summary v =
     (case v of
        JObj kvs \<Rightarrow>
          (let field = obj_get kvs in
           and_then (require (closed_keys recovery_summary_keys kvs) recovery_summary_invalid) (\<lambda>_.
           and_then (reject_authority_bearing_keys authority_bearing_keys recovery_summary_invalid v) (\<lambda>_.
           and_then (require (field ''summary_version'' = JStr ''1'') recovery_summary_invalid) (\<lambda>_.
           and_then (map_result (\<lambda>k. json_identifier (field k))
             [''principal_id'', ''request_id'', ''decision_id'']) (\<lambda>_.
           and_then (case field ''decision_outcome'' of
                JStr s \<Rightarrow> require (s \<in> set decision_outcomes \<and> s \<noteq> ''NOT_DURABLY_RECORDED'')
                             recovery_summary_invalid
              | JList _ \<Rightarrow> Inl ''TypeError''
              | JObj _ \<Rightarrow> Inl ''TypeError''
              | _ \<Rightarrow> Inl recovery_summary_invalid) (\<lambda>_.
           and_then (and_then (json_text recovery_summary_invalid (field ''decided_at''))
                (require_offset_timestamp recovery_summary_invalid)) (\<lambda>_.
           and_then (map_result (\<lambda>k. json_sha256 (field k))
             [''request_sha256'', ''decision_sha256'', ''decision_context_sha256'', ''policy_sha256'']) (\<lambda>_.
           Inr v))))))))
      | _ \<Rightarrow> Inl recovery_summary_invalid)"

lemma validate_recovery_summary_same: "validate_recovery_summary v = Inr w \<Longrightarrow> w = v"
  by (auto simp: validate_recovery_summary_def Let_def split: json.splits)

subsection \<open>Properties\<close>

text \<open>A valid result survives persistence: the closed decoder, applied to its dictionary form,
  accepts it (its keys carry no authority and its size is within the walk's bounds) and
  returns the same result.\<close>

theorem request_result_decode_encode:
  assumes "check_request_result r = Inr ()"
  shows "request_result_from_dict (request_result_to_dict r) = Inr r"
  using assms by (rule request_result_roundtrip)

definition sample_result :: request_lookup_result where
  "sample_result =
     \<lparr>rr_schema_version = request_lookup_schema_version, rr_principal_id = ''p'', rr_request_id = ''r'',
      rr_request_sha256 = replicate 64 CHR ''a'', rr_disposition = ''COMPLETED_VERIFIED'',
      rr_decision_id = ''d'', rr_decision_outcome = ''ALLOW'', rr_decision_sha256 = replicate 64 CHR ''b'',
      rr_decision_context_sha256 = replicate 64 CHR ''c'', rr_policy_sha256 = replicate 64 CHR ''d'',
      rr_verification_status = ''VERIFIED'', rr_verification_sha256 = Some (replicate 64 CHR ''e''),
      rr_attempt_id = Some ''a'', rr_adapter_receipt_sha256 = Some (replicate 64 CHR ''f''),
      rr_target_state_sha256 = Some (replicate 64 CHR ''0''),
      rr_decided_at = ''2026-01-01T00:00:00+00:00'', rr_terminal_at = ''2026-01-01T00:00:05+00:00'',
      rr_recovery_required = False, rr_reason_codes = [''ALLOWED''], rr_replayed = False,
      rr_execution_attempted = False, rr_new_decision = False, rr_new_authorization = False,
      rr_new_effect = False\<rparr>"

lemma sample_result_valid: "check_request_result sample_result = Inr ()"
  by code_simp

lemma request_result_decode_encode_witness:
  "request_result_from_dict (request_result_to_dict sample_result) = Inr sample_result"
  by (rule request_result_decode_encode [OF sample_result_valid])

text \<open>The dispositions of a valid result are honest: it is COMPLETED_VERIFIED exactly when its
  verification status is VERIFIED, and then an attempt, a receipt, a target state, a
  verification digest and an allowing decision all back it; it has no attempt exactly when it
  was denied or aborted; it asks for recovery exactly when the effect is open; and it never
  ends before it was decided.\<close>

theorem request_result_matrix:
  assumes "check_request_result r = Inr ()"
  shows "(rr_disposition r = ''COMPLETED_VERIFIED'' \<longleftrightarrow> rr_verification_status r = ''VERIFIED'')
    \<and> (rr_disposition r = ''COMPLETED_VERIFIED'' \<longrightarrow>
         rr_attempt_id r \<noteq> None \<and> rr_adapter_receipt_sha256 r \<noteq> None
         \<and> rr_target_state_sha256 r \<noteq> None \<and> rr_verification_sha256 r \<noteq> None
         \<and> rr_decision_outcome r \<in> {''ALLOW'', ''ALLOW_CONSTRAINED''})
    \<and> (rr_attempt_id r = None \<longleftrightarrow> rr_disposition r \<in> {''DENIED_NO_EFFECT'', ''ABORTED_NO_EFFECT''})
    \<and> (rr_recovery_required r \<longleftrightarrow> rr_disposition r \<in> {''RECOVERY_REQUIRED'', ''UNKNOWN_EFFECT''})
    \<and> (\<exists>d t. fromisoformat (rr_decided_at r) = Some d \<and> fromisoformat (rr_terminal_at r) = Some t \<and> d \<le> t)"
  using effect_matrix [OF assms] verified_evidence [OF assms] valid_result_times [OF assms] by blast

lemma request_result_matrix_witness:
  "rr_disposition sample_result = ''COMPLETED_VERIFIED'' \<and> rr_attempt_id sample_result \<noteq> None
   \<and> \<not> rr_recovery_required sample_result
   \<and> (\<exists>d t. fromisoformat (rr_decided_at sample_result) = Some d
        \<and> fromisoformat (rr_terminal_at sample_result) = Some t \<and> d \<le> t)"
proof -
  have "rr_disposition sample_result = ''COMPLETED_VERIFIED''" by (simp add: sample_result_def)
  with request_result_matrix [OF sample_result_valid] show ?thesis by auto
qed

text \<open>Replaying a valid result yields a valid result that claims no new work, and the digest that
  binds a terminal attempt to its result does not depend on whether it was replayed.\<close>

theorem as_replay_safe:
  assumes "check_request_result r = Inr ()"
  shows "check_request_result (as_replay r) = Inr ()
    \<and> rr_replayed (as_replay r) \<and> \<not> rr_new_effect (as_replay r) \<and> \<not> rr_new_authorization (as_replay r)
    \<and> as_replay (as_replay r) = as_replay r
    \<and> terminal_attempt_outcome_sha256 (as_replay r) s = terminal_attempt_outcome_sha256 r s"
  using as_replay_check [OF assms] as_replay_digest [of r s] by (simp add: as_replay_def)

lemma as_replay_safe_witness: "check_request_result (as_replay sample_result) = Inr ()"
  using as_replay_safe [OF sample_result_valid] by simp

end
