(* ===== verification/SingleUse.thy ===== *)
theory SingleUse
  imports StageA_Base
begin

text \<open>
  The contract of a ledger of single-use authorizations, independent of how it is stored. An
  operation may issue one token or consume one token; a ledger keeps at most one state per token.
  The laws are those the gates rely on: issuance makes a fresh token Issued, consumption needs
  Issued and leaves Consumed, and no operation changes a token that is Consumed or Revoked. From
  the laws follow, for every sequence of operations: a token is consumed at most once, never
  before it was issued, and never after it was revoked.
\<close>

text \<open>How often a run consumes a token, and whether it issues one.\<close>

fun consumptions ::
  "('op \<Rightarrow> 's \<Rightarrow> 's) \<Rightarrow> ('op \<Rightarrow> 's \<Rightarrow> 't option) \<Rightarrow> 't \<Rightarrow> 'op list \<Rightarrow> 's \<Rightarrow> nat" where
  "consumptions exec consumes t [] s = 0"
| "consumptions exec consumes t (oper # ops) s =
     (if consumes oper s = Some t then 1 else 0) + consumptions exec consumes t ops (exec oper s)"

fun issued_in :: "('op \<Rightarrow> 's \<Rightarrow> 's) \<Rightarrow> ('op \<Rightarrow> 's \<Rightarrow> 't option) \<Rightarrow> 't \<Rightarrow> 'op list \<Rightarrow> 's \<Rightarrow> bool" where
  "issued_in exec issues t [] s = False"
| "issued_in exec issues t (oper # ops) s =
     (issues oper s = Some t \<or> issued_in exec issues t ops (exec oper s))"

definition run_ops :: "('op \<Rightarrow> 's \<Rightarrow> 's) \<Rightarrow> 'op list \<Rightarrow> 's \<Rightarrow> 's" where
  "run_ops exec ops s = fold exec ops s"

lemma run_ops_simps [simp]:
  "run_ops exec [] s = s" "run_ops exec (oper # ops) s = run_ops exec ops (exec oper s)"
  by (simp_all add: run_ops_def)

definition spent :: "auth_state option \<Rightarrow> bool" where
  "spent a \<longleftrightarrow> a = Some Consumed \<or> a = Some Revoked"

locale single_use_ledger =
  fixes inv :: "'s \<Rightarrow> bool"
    and lookup :: "'s \<Rightarrow> 't \<Rightarrow> auth_state option"
    and exec :: "'op \<Rightarrow> 's \<Rightarrow> 's"
    and issues :: "'op \<Rightarrow> 's \<Rightarrow> 't option"
    and consumes :: "'op \<Rightarrow> 's \<Rightarrow> 't option"
  assumes inv_exec: "inv s \<Longrightarrow> inv (exec oper s)"
    and consume_needs_issued: "inv s \<Longrightarrow> consumes oper s = Some t \<Longrightarrow> lookup s t = Some Issued"
    and consume_leaves_consumed:
      "inv s \<Longrightarrow> consumes oper s = Some t \<Longrightarrow> lookup (exec oper s) t = Some Consumed"
    and spent_final: "inv s \<Longrightarrow> spent (lookup s t) \<Longrightarrow> lookup (exec oper s) t = lookup s t"
    and issue_is_fresh: "inv s \<Longrightarrow> issues oper s = Some t \<Longrightarrow> lookup s t = None"
    and absent_stays_absent:
      "inv s \<Longrightarrow> lookup s t = None \<Longrightarrow> issues oper s \<noteq> Some t \<Longrightarrow> lookup (exec oper s) t = None"
begin

lemma inv_run: "inv s \<Longrightarrow> inv (run_ops exec ops s)"
  by (induction ops arbitrary: s) (simp_all add: inv_exec)

lemma spent_stays: "inv s \<Longrightarrow> spent (lookup s t) \<Longrightarrow> lookup (run_ops exec ops s) t = lookup s t"
proof (induction ops arbitrary: s)
  case (Cons oper ops)
  then show ?case by (simp add: spent_final inv_exec)
qed simp

lemma spent_never_consumed: "inv s \<Longrightarrow> spent (lookup s t) \<Longrightarrow> consumptions exec consumes t ops s = 0"
proof (induction ops arbitrary: s)
  case (Cons oper ops)
  then have "consumes oper s \<noteq> Some t"
    using consume_needs_issued by (fastforce simp: spent_def)
  with Cons show ?case by (simp add: spent_final inv_exec)
qed simp
lemma consumed_at_most_once: "inv s \<Longrightarrow> consumptions exec consumes t ops s \<le> 1"
proof (induction ops arbitrary: s)
  case (Cons oper ops)
  show ?case
  proof (cases "consumes oper s = Some t")
    case True
    then have "spent (lookup (exec oper s) t)"
      using Cons.prems by (simp add: consume_leaves_consumed spent_def)
    with True Cons.prems show ?thesis by (simp add: spent_never_consumed inv_exec)
  next
    case False
    with Cons show ?thesis by (simp add: inv_exec)
  qed
qed simp

lemma consumed_only_if_issued:
  "inv s \<Longrightarrow> lookup s t = None \<Longrightarrow> consumptions exec consumes t ops s > 0 \<Longrightarrow> issued_in exec issues t ops s"
proof (induction ops arbitrary: s)
  case (Cons oper ops)
  have "consumes oper s \<noteq> Some t"
    using consume_needs_issued [of s oper t] Cons.prems by auto
  with Cons show ?case
    by (cases "issues oper s = Some t") (simp_all add: absent_stays_absent inv_exec)
qed simp

lemma consumed_then_final:
  "inv s \<Longrightarrow> consumptions exec consumes t ops s > 0 \<Longrightarrow> lookup (run_ops exec ops s) t = Some Consumed"
proof (induction ops arbitrary: s)
  case (Cons oper ops)
  show ?case
  proof (cases "consumes oper s = Some t")
    case True
    with Cons.prems have "lookup (exec oper s) t = Some Consumed" by (simp add: consume_leaves_consumed)
    with spent_stays [of "exec oper s" t ops] Cons.prems show ?thesis by (simp add: spent_def inv_exec)
  next
    case False
    with Cons show ?thesis by (simp add: inv_exec)
  qed
qed simp

end

end
