(* ===== verification/MemLedger.thy ===== *)
theory MemLedger
  imports RequestResult SingleUse
begin

text \<open>
  \<open>InMemoryControlLedger\<close> of \<open>stage_a.py\<close>: request claims, the state of every authorization,
  execution attempts and the outbox of audit events. Each dictionary is an association list in
  insertion order and each set a set. The lock makes every operation atomic, so an operation is
  a function from a ledger to a result; all raises precede the first assignment, so a raise leaves
  the ledger as it was. The clock is the sequence of its readings,
  \<open>now\<close>: the creation of event \<open>n\<close> takes reading \<open>2n\<close>, the completion time set just
  before it reading \<open>2n - 1\<close>. Keyword arguments that this ledger ignores are not listed.
\<close>

record mem_attempt =
  at_token :: pystr
  at_binding :: pystr
  at_state :: attempt_state
  at_outcome :: "pystr option"
  at_reserved_at :: pystr
  at_completed_at :: "pystr option"
  at_receipt :: "pystr option"

record mem_ledger =
  requests :: "((pystr \<times> pystr) \<times> pystr) list"
  authorization_states :: "(pystr \<times> auth_state) list"
  verification_ids :: "pystr set"
  decision_ids :: "pystr set"
  attempts :: "(pystr \<times> mem_attempt) list"
  token_attempts :: "(pystr \<times> pystr) list"
  outbox :: "outbox_event list"

definition empty_ledger :: mem_ledger where
  "empty_ledger = \<lparr>requests = [], authorization_states = [], verification_ids = {},
     decision_ids = {}, attempts = [], token_attempts = [], outbox = []\<rparr>"

definition append_event :: "(nat \<Rightarrow> pystr) \<Rightarrow> pystr \<Rightarrow> pystr \<Rightarrow> (pystr \<times> json) list \<Rightarrow> mem_ledger \<Rightarrow> mem_ledger" where
  "append_event now etype subject payload l =
     l\<lparr>outbox := outbox l @
        [\<lparr>event_id = length (outbox l) + 1, event_type = etype, subject_id = subject,
          payload_sha256 = event_digest etype subject (JObj payload),
          created_at = now (2 * (length (outbox l) + 1)), exported_at = None\<rparr>]\<rparr>"

subsection \<open>Operations\<close>

datatype claim_result = NewRequest | DuplicateRequest | ConflictRequest

definition check_optional_timestamp :: "pystr option \<Rightarrow> (reason, unit) result" where
  "check_optional_timestamp v =
     (case v of None \<Rightarrow> Inr ()
      | Some t \<Rightarrow> and_then (require_offset_timestamp binding_invalid t) (\<lambda>_. Inr ()))"

definition claim_request ::
  "(nat \<Rightarrow> pystr) \<Rightarrow> pystr \<Rightarrow> pystr \<Rightarrow> pystr \<Rightarrow> pystr option \<Rightarrow> mem_ledger
     \<Rightarrow> (reason, claim_result \<times> mem_ledger) result" where
  "claim_request now principal_id request_id request_sha256 claimed_at l =
     and_then (require_identifier binding_invalid principal_id) (\<lambda>_.
     and_then (require_identifier binding_invalid request_id) (\<lambda>_.
     and_then (require_sha256 binding_invalid request_sha256) (\<lambda>_.
     and_then (check_optional_timestamp claimed_at) (\<lambda>_.
     (case map_of (requests l) (principal_id, request_id) of
        None \<Rightarrow>
          Inr (NewRequest,
               append_event now ''REQUEST_CLAIMED'' (principal_id @ '':'' @ request_id)
                 [(''request_sha256'', JStr request_sha256)]
                 (l\<lparr>requests := dict_set (principal_id, request_id) request_sha256 (requests l)\<rparr>))
      | Some existing \<Rightarrow>
          Inr (if existing = request_sha256 then DuplicateRequest else ConflictRequest, l))))))"

definition register ::
  "(nat \<Rightarrow> pystr) \<Rightarrow> pystr \<Rightarrow> pystr option \<Rightarrow> pystr option \<Rightarrow> pystr option \<Rightarrow> mem_ledger
     \<Rightarrow> (reason, mem_ledger) result" where
  "register now token_id verification_id decision_id issued_at l =
     and_then (require_identifier binding_invalid token_id) (\<lambda>_.
     and_then (require_identifier binding_invalid
         (or_default verification_id (''legacy:'' @ token_id))) (\<lambda>verification.
     and_then (require_identifier binding_invalid
         (or_default decision_id (''legacy:'' @ token_id))) (\<lambda>decision.
     and_then (check_optional_timestamp issued_at) (\<lambda>_.
     and_then (require (map_of (authorization_states l) token_id = None)
         ''AUTHORIZATION_ID_COLLISION'') (\<lambda>_.
     and_then (require (\<not> (verification \<in> verification_ids l \<or> decision \<in> decision_ids l))
         ''AUTHORIZATION_DECISION_REPLAY'') (\<lambda>_.
     Inr (append_event now ''AUTHORIZATION_ISSUED'' token_id
            [(''verification_id_sha256'', JStr (sha256_str verification)),
             (''decision_id_sha256'', JStr (sha256_str decision))]
            (l\<lparr>authorization_states := dict_set token_id Issued (authorization_states l),
               verification_ids := insert verification (verification_ids l),
               decision_ids := insert decision (decision_ids l)\<rparr>))))))))"

text \<open>The validated arguments of a reservation: attempt, binding digest, time.\<close>

definition check_reservation ::
  "pystr \<Rightarrow> pystr \<Rightarrow> pystr option \<Rightarrow> pystr option \<Rightarrow> json option
     \<Rightarrow> (reason, pystr \<times> pystr \<times> pystr) result" where
  "check_reservation attempt_id binding consumed_at idempotency_key summary =
     and_then (require_identifier binding_invalid attempt_id) (\<lambda>_.
     and_then (require_sha256 binding_invalid binding) (\<lambda>_.
     and_then (require_sha256 binding_invalid (or_default idempotency_key binding)) (\<lambda>key.
     and_then (require (key = binding) ''ATTEMPT_IDEMPOTENCY_CONFLICT'') (\<lambda>_.
     and_then (case consumed_at of None \<Rightarrow> Inl binding_invalid
               | Some t \<Rightarrow> require_offset_timestamp binding_invalid t) (\<lambda>reserved_at.
     and_then (case summary of None \<Rightarrow> Inr ()
               | Some v \<Rightarrow> and_then (validate_recovery_summary v) (\<lambda>_. Inr ())) (\<lambda>_.
     Inr (attempt_id, binding, reserved_at)))))))"

definition check_consume_arguments ::
  "pystr option \<Rightarrow> pystr option \<Rightarrow> pystr option \<Rightarrow> pystr option \<Rightarrow> json option
     \<Rightarrow> (reason, (pystr \<times> pystr \<times> pystr) option) result" where
  "check_consume_arguments attempt_id binding consumed_at idempotency_key summary =
     (case (attempt_id, binding) of
        (None, None) \<Rightarrow> Inr None
      | (Some a, Some b) \<Rightarrow>
          and_then (check_reservation a b consumed_at idempotency_key summary) (\<lambda>r. Inr (Some r))
      | _ \<Rightarrow> Inl binding_invalid)"

definition reserve_attempt ::
  "(nat \<Rightarrow> pystr) \<Rightarrow> pystr \<Rightarrow> pystr \<times> pystr \<times> pystr \<Rightarrow> mem_ledger \<Rightarrow> mem_ledger" where
  "reserve_attempt now token_id reservation l =
     (let (attempt_id, binding, reserved_at) = reservation in
      append_event now ''ATTEMPT_RESERVED'' attempt_id
        [(''token_id_sha256'', JStr (sha256_str token_id)), (''binding_sha256'', JStr binding)]
        (l\<lparr>attempts := dict_set attempt_id
              \<lparr>at_token = token_id, at_binding = binding, at_state = Reserved, at_outcome = None,
               at_reserved_at = reserved_at, at_completed_at = None, at_receipt = None\<rparr> (attempts l),
           token_attempts := dict_set token_id attempt_id (token_attempts l)\<rparr>))"

definition consume_once ::
  "(nat \<Rightarrow> pystr) \<Rightarrow> pystr \<Rightarrow> pystr option \<Rightarrow> pystr option \<Rightarrow> pystr option \<Rightarrow> pystr option \<Rightarrow> json option
     \<Rightarrow> mem_ledger \<Rightarrow> (reason, mem_ledger) result" where
  "consume_once now token_id attempt_id binding consumed_at idempotency_key summary l =
     and_then (require_identifier binding_invalid token_id) (\<lambda>_.
     and_then (check_consume_arguments attempt_id binding consumed_at idempotency_key summary)
       (\<lambda>reservation.
     (case map_of (authorization_states l) token_id of
        None \<Rightarrow> Inl ''AUTHORIZATION_UNKNOWN''
      | Some state \<Rightarrow>
          and_then (require (state = Issued) ''AUTHORIZATION_REPLAY'') (\<lambda>_.
          and_then (case reservation of None \<Rightarrow> Inr l
              | Some r \<Rightarrow>
                  and_then (require (\<not> (map_of (attempts l) (fst r) \<noteq> None
                                \<or> map_of (token_attempts l) token_id \<noteq> None))
                    ''ATTEMPT_IDEMPOTENCY_CONFLICT'') (\<lambda>_. Inr (reserve_attempt now token_id r l)))
            (\<lambda>reserved.
          Inr (append_event now ''AUTHORIZATION_CONSUMED'' token_id [(''attempt_id'', jopt attempt_id)]
                 (reserved\<lparr>authorization_states :=
                    dict_set token_id Consumed (authorization_states reserved)\<rparr>)))))))"

definition ledger_state :: "pystr \<Rightarrow> mem_ledger \<Rightarrow> (reason, auth_state option) result" where
  "ledger_state token_id l =
     and_then (require_identifier binding_invalid token_id) (\<lambda>_.
     Inr (map_of (authorization_states l) token_id))"

definition record_adapter_receipt ::
  "(nat \<Rightarrow> pystr) \<Rightarrow> pystr \<Rightarrow> pystr \<Rightarrow> pystr \<Rightarrow> pystr \<Rightarrow> mem_ledger \<Rightarrow> (reason, mem_ledger) result" where
  "record_adapter_receipt now attempt_id receipt_sha256 outcome_sha256 recorded_at l =
     and_then (require_identifier binding_invalid attempt_id) (\<lambda>_.
     and_then (require_sha256 binding_invalid receipt_sha256) (\<lambda>_.
     and_then (require_sha256 binding_invalid outcome_sha256) (\<lambda>_.
     and_then (require_identifier binding_invalid recorded_at) (\<lambda>_.
     (case map_of (attempts l) attempt_id of
        None \<Rightarrow> Inl ''ATTEMPT_OUTCOME_CONFLICT''
      | Some row \<Rightarrow>
          and_then (require (at_state row = Reserved) ''ATTEMPT_OUTCOME_CONFLICT'') (\<lambda>_.
          Inr (append_event now ''ADAPTER_RECEIPT_RECORDED'' attempt_id
                 [(''adapter_receipt_sha256'', JStr receipt_sha256)]
                 (l\<lparr>attempts := dict_set attempt_id
                      (row\<lparr>at_state := ReceiptRecorded, at_outcome := Some outcome_sha256,
                           at_receipt := Some receipt_sha256\<rparr>) (attempts l)\<rparr>))))))))"

definition record_attempt_outcome ::
  "(nat \<Rightarrow> pystr) \<Rightarrow> pystr \<Rightarrow> attempt_state \<Rightarrow> pystr \<Rightarrow> pystr \<Rightarrow> mem_ledger \<Rightarrow> (reason, mem_ledger) result" where
  "record_attempt_outcome now attempt_id outcome_state outcome_sha256 completed_at l =
     and_then (require_identifier binding_invalid attempt_id) (\<lambda>_.
     and_then (require_sha256 binding_invalid outcome_sha256) (\<lambda>_.
     and_then (require_identifier binding_invalid completed_at) (\<lambda>_.
     and_then (require (outcome_state \<in> set terminal_attempt_states) ''ATTEMPT_STATE_INVALID'') (\<lambda>_.
     (case map_of (attempts l) attempt_id of
        None \<Rightarrow> Inl ''ATTEMPT_UNKNOWN''
      | Some row \<Rightarrow>
          if at_state row \<noteq> Reserved \<and> at_state row \<noteq> ReceiptRecorded then
            (if at_state row = outcome_state \<and> at_outcome row = Some outcome_sha256 then Inr l
             else Inl ''ATTEMPT_OUTCOME_CONFLICT'')
          else
            Inr (append_event now ''ATTEMPT_TERMINAL'' attempt_id
                   [(''state'', JStr (attempt_state_name outcome_state)),
                    (''outcome_sha256'', JStr outcome_sha256)]
                   (l\<lparr>attempts := dict_set attempt_id
                        (row\<lparr>at_state := outcome_state, at_outcome := Some outcome_sha256,
                             at_completed_at := Some completed_at\<rparr>) (attempts l)\<rparr>)))))))"

definition attempt_snapshot :: "pystr \<Rightarrow> mem_ledger \<Rightarrow> (reason, mem_attempt option) result" where
  "attempt_snapshot attempt_id l =
     and_then (require_identifier binding_invalid attempt_id) (\<lambda>_. Inr (map_of (attempts l) attempt_id))"

text \<open>The two loops of the quiesced recovery.\<close>

definition recovery_outcome :: "pystr \<Rightarrow> pystr" where
  "recovery_outcome attempt_id =
     sha256_str (canonical_json (JObj [(''attempt_id'', JStr attempt_id), (''state'', JStr ''UNKNOWN_EFFECT'')]))"

definition recover_attempt ::
  "(nat \<Rightarrow> pystr) \<Rightarrow> pystr \<times> mem_attempt \<Rightarrow> nat \<times> mem_ledger \<Rightarrow> nat \<times> mem_ledger" where
  "recover_attempt now entry acc =
     (let (attempt_id, row) = entry; (recovered, l) = acc in
      if at_state row \<noteq> Reserved then acc
      else (recovered + 1,
            append_event now ''ATTEMPT_RECOVERED_UNKNOWN'' attempt_id [(''state'', JStr ''UNKNOWN_EFFECT'')]
              (l\<lparr>attempts := dict_set attempt_id
                   (row\<lparr>at_state := UnknownEffect, at_completed_at := Some (now (2 * length (outbox l) + 1)),
                        at_outcome := Some (recovery_outcome attempt_id)\<rparr>) (attempts l)\<rparr>)))"

definition revoke_issued :: "(nat \<Rightarrow> pystr) \<Rightarrow> pystr \<times> auth_state \<Rightarrow> mem_ledger \<Rightarrow> mem_ledger" where
  "revoke_issued now entry l =
     (let (token_id, state) = entry in
      if state = Issued then
        append_event now ''AUTHORIZATION_REVOKED'' token_id [(''reason_code'', JStr ''QUIESCED_RECOVERY'')]
          (l\<lparr>authorization_states := dict_set token_id Revoked (authorization_states l)\<rparr>)
      else l)"

definition recover_incomplete_attempts :: "(nat \<Rightarrow> pystr) \<Rightarrow> bool \<Rightarrow> mem_ledger \<Rightarrow> (reason, nat \<times> mem_ledger) result" where
  "recover_incomplete_attempts now quiesced l =
     and_then (assert_quiesced quiesced) (\<lambda>_.
     (let (recovered, l') = fold (recover_attempt now) (attempts l) (0, l)
      in Inr (recovered, fold (revoke_issued now) (authorization_states l') l')))"

definition pending_outbox :: "mem_ledger \<Rightarrow> outbox_event list" where
  "pending_outbox l = filter (\<lambda>e. exported_at e = None) (outbox l)"

subsection \<open>Operations as data\<close>

text \<open>A call with its clock readings; reads change nothing and are left out.\<close>

datatype ledger_call =
    ClaimRequest pystr pystr pystr "pystr option"
  | Register pystr "pystr option" "pystr option" "pystr option"
  | ConsumeOnce pystr "pystr option" "pystr option" "pystr option" "pystr option" "json option"
  | RecordReceipt pystr pystr pystr pystr
  | RecordOutcome pystr attempt_state pystr pystr
  | Recover bool

type_synonym ledger_op = "(nat \<Rightarrow> pystr) \<times> ledger_call"

definition apply_op :: "ledger_op \<Rightarrow> mem_ledger \<Rightarrow> (reason, mem_ledger) result" where
  "apply_op oper l =
     (let now = fst oper in
      case snd oper of
        ClaimRequest p r d tm \<Rightarrow> and_then (claim_request now p r d tm l) (\<lambda>x. Inr (snd x))
      | Register t v d tm \<Rightarrow> register now t v d tm l
      | ConsumeOnce t a b tm k s \<Rightarrow> consume_once now t a b tm k s l
      | RecordReceipt a r d tm \<Rightarrow> record_adapter_receipt now a r d tm l
      | RecordOutcome a st d tm \<Rightarrow> record_attempt_outcome now a st d tm l
      | Recover q \<Rightarrow> and_then (recover_incomplete_attempts now q l) (\<lambda>x. Inr (snd x)))"

text \<open>A caller that carries on after a raise sees the ledger unchanged.\<close>

definition exec_op :: "ledger_op \<Rightarrow> mem_ledger \<Rightarrow> mem_ledger" where
  "exec_op oper l = (case apply_op oper l of Inl _ \<Rightarrow> l | Inr l' \<Rightarrow> l')"

definition auth_of :: "mem_ledger \<Rightarrow> pystr \<Rightarrow> auth_state option" where
  "auth_of l t = map_of (authorization_states l) t"

definition op_issues :: "ledger_op \<Rightarrow> mem_ledger \<Rightarrow> pystr option" where
  "op_issues oper l =
     (case snd oper of Register t v d tm \<Rightarrow> if is_ok (apply_op oper l) then Some t else None | _ \<Rightarrow> None)"

definition op_consumes :: "ledger_op \<Rightarrow> mem_ledger \<Rightarrow> pystr option" where
  "op_consumes oper l =
     (case snd oper of
        ConsumeOnce t a b tm k s \<Rightarrow> if is_ok (apply_op oper l) then Some t else None
      | _ \<Rightarrow> None)"

subsection \<open>Frame facts\<close>

lemma append_event_frame [simp]:
  "requests (append_event now e s p l) = requests l"
  "authorization_states (append_event now e s p l) = authorization_states l"
  "verification_ids (append_event now e s p l) = verification_ids l"
  "decision_ids (append_event now e s p l) = decision_ids l"
  "attempts (append_event now e s p l) = attempts l"
  "token_attempts (append_event now e s p l) = token_attempts l"
  by (simp_all add: append_event_def)

lemma reserve_attempt_frame [simp]:
  "requests (reserve_attempt now t r l) = requests l"
  "authorization_states (reserve_attempt now t r l) = authorization_states l"
  by (simp_all add: reserve_attempt_def split: prod.splits)

text \<open>The outbox only grows.\<close>

definition extends_outbox :: "mem_ledger \<Rightarrow> mem_ledger \<Rightarrow> bool" where
  "extends_outbox l l' \<longleftrightarrow> (\<exists>es. outbox l' = outbox l @ es)"

lemma extends_outbox_refl [simp]: "extends_outbox l l"
  by (simp add: extends_outbox_def)

lemma extends_outbox_trans: "extends_outbox l l' \<Longrightarrow> extends_outbox l' l'' \<Longrightarrow> extends_outbox l l''"
  by (auto simp: extends_outbox_def)

lemma extends_append_event: "outbox l = outbox l' \<Longrightarrow> extends_outbox l (append_event now e s p l')"
  by (simp add: extends_outbox_def append_event_def)

subsection \<open>The recovery loops\<close>

lemma revoke_loop_frame:
  "attempts (fold (revoke_issued now) xs l) = attempts l
   \<and> token_attempts (fold (revoke_issued now) xs l) = token_attempts l
   \<and> requests (fold (revoke_issued now) xs l) = requests l
   \<and> extends_outbox l (fold (revoke_issued now) xs l)"
proof (induction xs arbitrary: l)
  case (Cons x xs)
  have "extends_outbox l (revoke_issued now x l)"
    by (auto simp: revoke_issued_def Let_def case_prod_beta intro: extends_append_event)
  then show ?case
    using Cons.IH [of "revoke_issued now x l"]
    by (auto simp: revoke_issued_def Let_def case_prod_beta intro: extends_outbox_trans)
qed simp

lemma revoke_loop_auth:
  "auth_of (fold (revoke_issued now) xs l) t = (if (t, Issued) \<in> set xs then Some Revoked else auth_of l t)"
  by (induction xs arbitrary: l)
    (auto simp: revoke_issued_def auth_of_def map_of_dict_set Let_def split: if_splits)

lemma revoke_loop_distinct:
  "distinct (map fst (authorization_states l)) \<Longrightarrow>
   distinct (map fst (authorization_states (fold (revoke_issued now) xs l)))"
  by (induction xs arbitrary: l) (auto simp: revoke_issued_def Let_def distinct_dict_set)

definition recovered_row :: "pystr \<Rightarrow> pystr \<Rightarrow> mem_attempt \<Rightarrow> mem_attempt" where
  "recovered_row moment attempt_id row =
     row\<lparr>at_state := UnknownEffect, at_completed_at := Some moment,
         at_outcome := Some (recovery_outcome attempt_id)\<rparr>"

lemma recover_loop_frame:
  "authorization_states (snd (fold (recover_attempt now) xs acc)) = authorization_states (snd acc)
   \<and> token_attempts (snd (fold (recover_attempt now) xs acc)) = token_attempts (snd acc)
   \<and> requests (snd (fold (recover_attempt now) xs acc)) = requests (snd acc)
   \<and> extends_outbox (snd acc) (snd (fold (recover_attempt now) xs acc))"
proof (induction xs arbitrary: acc)
  case (Cons x xs)
  have "extends_outbox (snd acc) (snd (recover_attempt now x acc))"
    by (auto simp: recover_attempt_def Let_def case_prod_beta intro: extends_append_event)
  then show ?case
    using Cons.IH [of "recover_attempt now x acc"]
    by (auto simp: recover_attempt_def Let_def case_prod_beta intro: extends_outbox_trans)
qed simp

lemma recover_loop_count:
  "fst (fold (recover_attempt now) xs acc)
     = fst acc + length (filter (\<lambda>x. at_state (snd x) = Reserved) xs)"
  by (induction xs arbitrary: acc) (auto simp: recover_attempt_def Let_def case_prod_beta)

lemma recover_loop_other:
  "a \<notin> fst ` set xs \<Longrightarrow>
   map_of (attempts (snd (fold (recover_attempt now) xs acc))) a = map_of (attempts (snd acc)) a"
  by (induction xs arbitrary: acc)
    (auto simp: recover_attempt_def Let_def case_prod_beta map_of_dict_set)

lemma recover_loop_row:
  "distinct (map fst xs) \<Longrightarrow> map_of xs a = Some row \<Longrightarrow> map_of (attempts (snd acc)) a = Some row \<Longrightarrow>
   \<exists>moment. map_of (attempts (snd (fold (recover_attempt now) xs acc))) a
     = Some (if at_state row = Reserved then recovered_row moment a row else row)"
proof (induction xs arbitrary: acc)
  case (Cons x xs)
  show ?case
  proof (cases "fst x = a")
    case True
    then have "a \<notin> fst ` set xs" "snd x = row"
      using Cons.prems by auto
    moreover have "\<exists>moment. map_of (attempts (snd (recover_attempt now x acc))) a
        = Some (if at_state row = Reserved then recovered_row moment a row else row)"
      using True Cons.prems
      by (auto simp: recover_attempt_def Let_def case_prod_beta map_of_dict_set recovered_row_def)
    ultimately show ?thesis
      by (simp add: recover_loop_other)
  next
    case False
    then have "map_of (attempts (snd (recover_attempt now x acc))) a = Some row"
      using Cons.prems by (simp add: recover_attempt_def Let_def case_prod_beta map_of_dict_set)
    with False Cons show ?thesis by (cases x) auto
  qed
qed simp

lemma recover_loop_distinct:
  "distinct (map fst (attempts (snd acc))) \<Longrightarrow>
   distinct (map fst (attempts (snd (fold (recover_attempt now) xs acc))))"
  by (induction xs arbitrary: acc)
    (auto simp: recover_attempt_def Let_def case_prod_beta distinct_dict_set)

lemma recover_loop_dom:
  "fst ` set xs \<subseteq> dom (map_of (attempts (snd acc))) \<Longrightarrow>
   dom (map_of (attempts (snd (fold (recover_attempt now) xs acc)))) = dom (map_of (attempts (snd acc)))"
  by (induction xs arbitrary: acc)
    (auto simp: recover_attempt_def Let_def case_prod_beta map_of_dict_set insert_absorb)

subsection \<open>The invariant\<close>

text \<open>
  Dictionaries have unique keys; each attempt has the fields its state requires, its token is
  consumed and points back to it; events are numbered from 1 without gaps and none is exported.
\<close>

definition attempt_matrix :: "mem_attempt \<Rightarrow> bool" where
  "attempt_matrix row \<longleftrightarrow> is_sha256 (at_binding row) \<and>
     (case at_state row of
        Reserved \<Rightarrow> at_outcome row = None \<and> at_receipt row = None \<and> at_completed_at row = None
      | ReceiptRecorded \<Rightarrow> at_outcome row \<noteq> None \<and> at_receipt row \<noteq> None \<and> at_completed_at row = None
      | _ \<Rightarrow> at_outcome row \<noteq> None \<and> at_completed_at row \<noteq> None)"

definition outbox_inv :: "mem_ledger \<Rightarrow> bool" where
  "outbox_inv l \<longleftrightarrow> map event_id (outbox l) = [1..<Suc (length (outbox l))]
     \<and> (\<forall>e \<in> set (outbox l). exported_at e = None)"

definition attempts_inv :: "mem_ledger \<Rightarrow> bool" where
  "attempts_inv l \<longleftrightarrow>
     (\<forall>a row. map_of (attempts l) a = Some row \<longrightarrow>
        attempt_matrix row \<and> auth_of l (at_token row) = Some Consumed
        \<and> map_of (token_attempts l) (at_token row) = Some a)
     \<and> (\<forall>t a. map_of (token_attempts l) t = Some a \<longrightarrow>
          (\<exists>row. map_of (attempts l) a = Some row \<and> at_token row = t))"

definition keys_inv :: "mem_ledger \<Rightarrow> bool" where
  "keys_inv l \<longleftrightarrow> distinct (map fst (requests l)) \<and> distinct (map fst (authorization_states l))
     \<and> distinct (map fst (attempts l)) \<and> distinct (map fst (token_attempts l))"

definition ledger_inv :: "mem_ledger \<Rightarrow> bool" where
  "ledger_inv l \<longleftrightarrow> keys_inv l \<and> attempts_inv l \<and> outbox_inv l"

lemma outbox_inv_append: "outbox l' = outbox l \<Longrightarrow> outbox_inv l \<Longrightarrow> outbox_inv (append_event now e s p l')"
  by (auto simp: outbox_inv_def append_event_def)

lemma keys_inv_append [simp]: "keys_inv (append_event now e s p l) = keys_inv l"
  by (simp add: keys_inv_def)

lemma attempts_inv_append [simp]: "attempts_inv (append_event now e s p l) = attempts_inv l"
  by (simp add: attempts_inv_def auth_of_def)

text \<open>Every state change of an attempt keeps its token and its binding.\<close>

lemma attempts_inv_frame:
  "attempts l' = attempts l \<Longrightarrow> token_attempts l' = token_attempts l \<Longrightarrow>
   (\<And>t. auth_of l t = Some Consumed \<Longrightarrow> auth_of l' t = Some Consumed) \<Longrightarrow>
   attempts_inv l \<Longrightarrow> attempts_inv l'"
  unfolding attempts_inv_def by metis

lemma attempts_invD:
  "attempts_inv l \<Longrightarrow> map_of (attempts l) a = Some row \<Longrightarrow>
     attempt_matrix row \<and> auth_of l (at_token row) = Some Consumed
     \<and> map_of (token_attempts l) (at_token row) = Some a"
  "attempts_inv l \<Longrightarrow> map_of (token_attempts l) t = Some a \<Longrightarrow>
     \<exists>row. map_of (attempts l) a = Some row \<and> at_token row = t"
  by (simp_all add: attempts_inv_def)

lemma attempts_inv_update:
  assumes inv: "attempts_inv l" and row: "map_of (attempts l) a = Some row"
    and row': "attempt_matrix row'" "at_token row' = at_token row"
    and l': "map_of (attempts l') = (map_of (attempts l))(a \<mapsto> row')" "token_attempts l' = token_attempts l"
      "authorization_states l' = authorization_states l"
  shows "attempts_inv l'"
  unfolding attempts_inv_def
proof (intro conjI allI impI)
  fix b r assume "map_of (attempts l') b = Some r"
  then show "attempt_matrix r" "auth_of l' (at_token r) = Some Consumed"
    "map_of (token_attempts l') (at_token r) = Some b"
    using attempts_invD(1) [OF inv, of b r] attempts_invD(1) [OF inv row] row' l'
    by (auto simp: auth_of_def split: if_splits)
next
  fix t b assume "map_of (token_attempts l') t = Some b"
  then show "\<exists>r. map_of (attempts l') b = Some r \<and> at_token r = t"
    using attempts_invD(2) [OF inv, of t b] row row' l' by auto
qed

lemma claim_inv: "ledger_inv l \<Longrightarrow> claim_request now p r d c l = Inr (x, l') \<Longrightarrow> ledger_inv l'"
  by (auto simp: claim_request_def ledger_inv_def distinct_dict_set outbox_inv_append keys_inv_def
      elim: attempts_inv_frame [rotated -1] simp: auth_of_def split: option.splits)

lemma register_inv: "ledger_inv l \<Longrightarrow> register now t v d c l = Inr l' \<Longrightarrow> ledger_inv l'"
  by (auto simp: register_def ledger_inv_def distinct_dict_set outbox_inv_append keys_inv_def
      elim!: attempts_inv_frame [rotated -1] simp: auth_of_def map_of_dict_set)

lemma ledger_invD: "ledger_inv l \<Longrightarrow> keys_inv l" "ledger_inv l \<Longrightarrow> attempts_inv l" "ledger_inv l \<Longrightarrow> outbox_inv l"
  by (simp_all add: ledger_inv_def)

lemma ledger_inv_update:
  assumes "ledger_inv l" "map_of (attempts l) a = Some row"
    "attempt_matrix row'" "at_token row' = at_token row"
  shows "ledger_inv (append_event now e s p (l\<lparr>attempts := dict_set a row' (attempts l)\<rparr>))"
proof -
  let ?l = "l\<lparr>attempts := dict_set a row' (attempts l)\<rparr>"
  have "attempts_inv ?l"
    by (rule attempts_inv_update [OF ledger_invD(2)]) (simp_all add: assms map_of_dict_set)
  moreover have "keys_inv ?l"
    using ledger_invD(1) [OF assms(1)] by (simp add: keys_inv_def distinct_dict_set)
  ultimately show ?thesis
    using ledger_invD(3) [OF assms(1)] by (simp add: ledger_inv_def outbox_inv_append)
qed

lemma receipt_inv: "ledger_inv l \<Longrightarrow> record_adapter_receipt now a r d c l = Inr l' \<Longrightarrow> ledger_inv l'"
proof -
  assume *: "ledger_inv l" "record_adapter_receipt now a r d c l = Inr l'"
  then obtain row where row: "map_of (attempts l) a = Some row" "at_state row = Reserved"
    by (auto simp: record_adapter_receipt_def split: option.splits)
  let ?row = "row\<lparr>at_state := ReceiptRecorded, at_outcome := Some d, at_receipt := Some r\<rparr>"
  have "attempt_matrix ?row"
    using attempts_invD(1) [OF ledger_invD(2) [OF *(1)] row(1)] row(2) by (simp add: attempt_matrix_def)
  from ledger_inv_update [OF *(1) row(1) this] show ?thesis
    using *(2) row by (auto simp: record_adapter_receipt_def)
qed

lemma outcome_inv: "ledger_inv l \<Longrightarrow> record_attempt_outcome now a s d c l = Inr l' \<Longrightarrow> ledger_inv l'"
proof -
  assume *: "ledger_inv l" "record_attempt_outcome now a s d c l = Inr l'"
  then obtain row where row: "map_of (attempts l) a = Some row" and s: "s \<in> set terminal_attempt_states"
    by (auto simp: record_attempt_outcome_def split: option.splits)
  let ?row = "row\<lparr>at_state := s, at_outcome := Some d, at_completed_at := Some c\<rparr>"
  have "attempt_matrix ?row"
    using attempts_invD(1) [OF ledger_invD(2) [OF *(1)] row] s
    by (auto simp: attempt_matrix_def terminal_attempt_states_def split: attempt_state.splits)
  from ledger_inv_update [OF *(1) row this] show ?thesis
    using * row by (auto simp: record_attempt_outcome_def split: if_splits)
qed

lemma consume_plain_inv:
  assumes "ledger_inv l"
  shows "ledger_inv (append_event now e s p
           (l\<lparr>authorization_states := dict_set t Consumed (authorization_states l)\<rparr>))"
proof -
  let ?l = "l\<lparr>authorization_states := dict_set t Consumed (authorization_states l)\<rparr>"
  have "attempts_inv ?l"
    by (rule attempts_inv_frame [OF _ _ _ ledger_invD(2) [OF assms]]) (simp_all add: auth_of_def map_of_dict_set)
  moreover have "keys_inv ?l"
    using ledger_invD(1) [OF assms] by (simp add: keys_inv_def distinct_dict_set)
  ultimately show ?thesis
    using ledger_invD(3) [OF assms] by (simp add: ledger_inv_def outbox_inv_append)
qed

lemma reserve_inv:
  assumes inv: "ledger_inv l" and b: "is_sha256 b"
    and fresh: "map_of (attempts l) a = None" "map_of (token_attempts l) t = None"
  shows "ledger_inv (append_event now e s p
           (reserve_attempt now t (a, b, c) l\<lparr>authorization_states := dict_set t Consumed (authorization_states l)\<rparr>))"
proof -
  let ?r = "reserve_attempt now t (a, b, c) l"
  let ?l = "?r\<lparr>authorization_states := dict_set t Consumed (authorization_states l)\<rparr>"
  let ?row = "\<lparr>at_token = t, at_binding = b, at_state = Reserved, at_outcome = None,
      at_reserved_at = c, at_completed_at = None, at_receipt = None\<rparr>"
  have l: "map_of (attempts ?l) = (map_of (attempts l))(a \<mapsto> ?row)"
    "map_of (token_attempts ?l) = (map_of (token_attempts l))(t \<mapsto> a)"
    "auth_of ?l u = (if u = t then Some Consumed else auth_of l u)" for u
    by (simp_all add: reserve_attempt_def map_of_dict_set auth_of_def)
  have "attempt_matrix ?row" using b by (simp add: attempt_matrix_def)
  moreover note D = attempts_invD [OF ledger_invD(2) [OF inv]]
  ultimately have "attempts_inv ?l"
    unfolding attempts_inv_def l using fresh D by (auto split: if_splits) (metis option.distinct(1) | blast)+
  moreover have "keys_inv ?l"
    using ledger_invD(1) [OF inv] by (simp add: keys_inv_def distinct_dict_set reserve_attempt_def)
  moreover have "outbox_inv ?r"
    using ledger_invD(3) [OF inv] by (auto simp: reserve_attempt_def outbox_inv_append)
  ultimately show ?thesis
    using outbox_inv_append [of ?l ?r] by (simp add: ledger_inv_def)
qed

lemma consume_arguments_sha:
  "check_consume_arguments a b c k s = Inr (Some (x, y, z)) \<Longrightarrow> is_sha256 y"
  by (auto simp: check_consume_arguments_def check_reservation_def split: option.splits)

lemma consume_inv: "ledger_inv l \<Longrightarrow> consume_once now t a b c k s l = Inr l' \<Longrightarrow> ledger_inv l'"
proof -
  assume *: "ledger_inv l" "consume_once now t a b c k s l = Inr l'"
  obtain r where r: "check_consume_arguments a b c k s = Inr r"
    using * by (auto simp: consume_once_def)
  show ?thesis
  proof (cases r)
    case None
    with r *(2) consume_plain_inv [OF *(1)] show ?thesis
      by (auto simp: consume_once_def split: option.splits)
  next
    case (Some x)
    obtain x1 x2 x3 where x: "x = (x1, x2, x3)" by (cases x) auto
    with r Some have "is_sha256 x2" by (simp add: consume_arguments_sha)
    with r Some x *(2) reserve_inv [OF *(1)] show ?thesis
      by (auto simp: consume_once_def split: option.splits)
  qed
qed

lemma recovered_matrix: "attempt_matrix row \<Longrightarrow> attempt_matrix (recovered_row m a row)"
  by (simp add: attempt_matrix_def recovered_row_def)

lemma recover_step_inv:
  assumes "ledger_inv (snd acc)" "map_of (attempts (snd acc)) (fst x) = Some (snd x)"
  shows "ledger_inv (snd (recover_attempt now x acc))"
proof (cases "at_state (snd x) = Reserved")
  case True
  have "attempt_matrix (snd x)"
    using attempts_invD(1) [OF ledger_invD(2) [OF assms(1)] assms(2)] by simp
  from ledger_inv_update [OF assms recovered_matrix [OF this]] True show ?thesis
    by (simp add: recover_attempt_def Let_def case_prod_beta recovered_row_def)
next
  case False
  with assms show ?thesis by (simp add: recover_attempt_def Let_def case_prod_beta)
qed

lemma recover_loop_inv:
  "ledger_inv (snd acc) \<Longrightarrow> distinct (map fst xs) \<Longrightarrow>
   (\<forall>x \<in> set xs. map_of (attempts (snd acc)) (fst x) = Some (snd x)) \<Longrightarrow>
   ledger_inv (snd (fold (recover_attempt now) xs acc))"
proof (induction xs arbitrary: acc)
  case (Cons x xs)
  have "map_of (attempts (snd (recover_attempt now x acc))) (fst y) = Some (snd y)" if "y \<in> set xs" for y
  proof -
    from that Cons.prems(2) have "fst y \<noteq> fst x" by (auto simp: image_iff)
    with that Cons.prems(3) show ?thesis
      by (simp add: recover_attempt_def Let_def case_prod_beta map_of_dict_set)
  qed
  with Cons recover_step_inv [of acc x now] show ?case by simp
qed simp

lemma revoke_step_inv:
  assumes "ledger_inv l" "snd x = Issued \<Longrightarrow> auth_of l (fst x) \<noteq> Some Consumed"
  shows "ledger_inv (revoke_issued now x l)"
proof (cases "snd x = Issued")
  case True
  let ?l = "l\<lparr>authorization_states := dict_set (fst x) Revoked (authorization_states l)\<rparr>"
  have "attempts_inv ?l"
    using assms(2) [OF True]
    by (intro attempts_inv_frame [OF _ _ _ ledger_invD(2) [OF assms(1)]])
      (auto simp: auth_of_def map_of_dict_set)
  moreover have "keys_inv ?l"
    using ledger_invD(1) [OF assms(1)] by (simp add: keys_inv_def distinct_dict_set)
  ultimately show ?thesis
    using True ledger_invD(3) [OF assms(1)]
    by (simp add: ledger_inv_def outbox_inv_append revoke_issued_def Let_def case_prod_beta)
next
  case False
  with assms(1) show ?thesis by (simp add: revoke_issued_def Let_def case_prod_beta)
qed

lemma revoke_loop_inv:
  "ledger_inv l \<Longrightarrow> (\<forall>x \<in> set xs. snd x = Issued \<longrightarrow> auth_of l (fst x) \<noteq> Some Consumed) \<Longrightarrow>
   ledger_inv (fold (revoke_issued now) xs l)"
proof (induction xs arbitrary: l)
  case (Cons x xs)
  have "\<forall>y \<in> set xs. snd y = Issued \<longrightarrow> auth_of (revoke_issued now x l) (fst y) \<noteq> Some Consumed"
    using Cons.prems(2) by (auto simp: revoke_issued_def Let_def case_prod_beta auth_of_def map_of_dict_set)
  with Cons revoke_step_inv [of l x now] show ?case by simp
qed simp

lemma recover_inv: "ledger_inv l \<Longrightarrow> recover_incomplete_attempts now q l = Inr (n, l') \<Longrightarrow> ledger_inv l'"
proof -
  assume *: "ledger_inv l" "recover_incomplete_attempts now q l = Inr (n, l')"
  let ?m = "snd (fold (recover_attempt now) (attempts l) (0, l))"
  have "ledger_inv ?m"
    using *(1) ledger_invD(1) [OF *(1)] by (intro recover_loop_inv) (auto simp: keys_inv_def)
  then have "ledger_inv (fold (revoke_issued now) (authorization_states ?m) ?m)"
  proof (intro revoke_loop_inv ballI impI)
    fix x assume "x \<in> set (authorization_states ?m)" "snd x = Issued"
    moreover have "distinct (map fst (authorization_states ?m))"
      using ledger_invD(1) [OF *(1)] by (simp add: keys_inv_def recover_loop_frame)
    ultimately have "auth_of ?m (fst x) = Some Issued"
      unfolding auth_of_def by (metis map_of_is_SomeI prod.collapse)
    then show "auth_of ?m (fst x) \<noteq> Some Consumed" by simp
  qed
  with *(2) show ?thesis
    by (simp add: recover_incomplete_attempts_def case_prod_beta Let_def)
qed

lemma empty_ledger_inv: "ledger_inv empty_ledger"
  by (simp add: ledger_inv_def keys_inv_def attempts_inv_def outbox_inv_def empty_ledger_def)

lemma apply_op_inv: "ledger_inv l \<Longrightarrow> apply_op oper l = Inr l' \<Longrightarrow> ledger_inv l'"
  by (auto simp: apply_op_def Let_def split: ledger_call.splits
      dest: claim_inv register_inv consume_inv receipt_inv outcome_inv recover_inv)

lemma exec_op_inv: "ledger_inv l \<Longrightarrow> ledger_inv (exec_op oper l)"
  by (auto simp: exec_op_def split: sum.splits dest: apply_op_inv)

subsection \<open>The contract of single-use authorizations\<close>

lemma consume_once_facts:
  "consume_once now t a b c k s l = Inr l' \<Longrightarrow>
     auth_of l t = Some Issued \<and> auth_of l' t = Some Consumed \<and> (\<forall>u. u \<noteq> t \<longrightarrow> auth_of l' u = auth_of l u)"
  by (auto simp: consume_once_def auth_of_def map_of_dict_set split: option.splits)

lemma register_facts:
  "register now t v d c l = Inr l' \<Longrightarrow>
     auth_of l t = None \<and> auth_of l' t = Some Issued \<and> (\<forall>u. u \<noteq> t \<longrightarrow> auth_of l' u = auth_of l u)"
  by (auto simp: register_def auth_of_def map_of_dict_set)

lemma recover_auth:
  assumes "ledger_inv l" "recover_incomplete_attempts now q l = Inr (n, l')"
  shows "auth_of l' t = (if auth_of l t = Some Issued then Some Revoked else auth_of l t)"
proof -
  have "map_of (authorization_states l) t = Some Issued \<longleftrightarrow> (t, Issued) \<in> set (authorization_states l)"
    using ledger_invD(1) [OF assms(1)] by (simp add: keys_inv_def)
  with assms(2) show ?thesis
    by (auto simp: recover_incomplete_attempts_def case_prod_beta Let_def revoke_loop_auth [unfolded auth_of_def]
        recover_loop_frame auth_of_def)
qed

lemma other_ops_auth:
  "claim_request now p r d c l = Inr (x, l') \<Longrightarrow> auth_of l' = auth_of l"
  "record_adapter_receipt now a rc oc tm l = Inr l' \<Longrightarrow> auth_of l' = auth_of l"
  "record_attempt_outcome now a st oc tm l = Inr l' \<Longrightarrow> auth_of l' = auth_of l"
  by (auto simp: claim_request_def record_adapter_receipt_def record_attempt_outcome_def auth_of_def fun_eq_iff
      split: option.splits if_splits)

lemma exec_auth:
  assumes "ledger_inv l"
  shows "auth_of (exec_op oper l) t =
    (if op_issues oper l = Some t then Some Issued
     else if op_consumes oper l = Some t then Some Consumed
     else if is_ok (apply_op oper l) \<and> snd oper = Recover True \<and> auth_of l t = Some Issued then Some Revoked
     else auth_of l t)"
proof (cases "snd oper")
  case (Recover q)
  show ?thesis
  proof (cases "apply_op oper l")
    case (Inr l')
    then obtain n where "recover_incomplete_attempts (fst oper) q l = Inr (n, l')"
      using Recover by (auto simp: apply_op_def Let_def)
    moreover from this have q by (auto simp: recover_incomplete_attempts_def assert_quiesced_def)
    ultimately show ?thesis
      using Recover Inr recover_auth [OF assms] by (simp add: exec_op_def op_issues_def op_consumes_def)
  qed (simp add: exec_op_def op_issues_def op_consumes_def Recover)
qed (auto simp: exec_op_def op_issues_def op_consumes_def apply_op_def Let_def split: sum.splits
    dest: consume_once_facts register_facts other_ops_auth)

lemma issue_precondition: "op_issues oper l = Some t \<Longrightarrow> auth_of l t = None"
  by (auto simp: op_issues_def apply_op_def Let_def is_ok_iff split: ledger_call.splits if_splits
      dest: register_facts)

lemma consume_precondition: "op_consumes oper l = Some t \<Longrightarrow> auth_of l t = Some Issued"
  by (auto simp: op_consumes_def apply_op_def Let_def is_ok_iff split: ledger_call.splits if_splits
      dest: consume_once_facts)

interpretation mem: single_use_ledger ledger_inv auth_of exec_op op_issues op_consumes
proof unfold_locales
  fix s oper t
  assume inv: "ledger_inv s"
  note exec = exec_auth [OF inv, of oper t]
  show "ledger_inv (exec_op oper s)" using inv by (rule exec_op_inv)
  show "op_consumes oper s = Some t \<Longrightarrow> auth_of s t = Some Issued" by (rule consume_precondition)
  show "op_consumes oper s = Some t \<Longrightarrow> auth_of (exec_op oper s) t = Some Consumed"
    using exec issue_precondition [of oper s t] consume_precondition [of oper s t] by auto
  show "spent (auth_of s t) \<Longrightarrow> auth_of (exec_op oper s) t = auth_of s t"
    using exec issue_precondition [of oper s t] consume_precondition [of oper s t] by (auto simp: spent_def)
  show "op_issues oper s = Some t \<Longrightarrow> auth_of s t = None" by (rule issue_precondition)
  show "auth_of s t = None \<Longrightarrow> op_issues oper s \<noteq> Some t \<Longrightarrow> auth_of (exec_op oper s) t = None"
    using exec consume_precondition [of oper s t] by auto
qed

subsection \<open>Stability\<close>

lemma extends_append: "extends_outbox l l' \<Longrightarrow> extends_outbox l (append_event now e s p l')"
  by (auto simp: extends_outbox_def append_event_def)

lemma extends_update [simp]:
  "extends_outbox l (l'\<lparr>authorization_states := x\<rparr>) = extends_outbox l l'"
  "extends_outbox l (l'\<lparr>attempts := y\<rparr>) = extends_outbox l l'"
  "extends_outbox l (l'\<lparr>requests := z\<rparr>) = extends_outbox l l'"
  "extends_outbox l (l'\<lparr>token_attempts := w\<rparr>) = extends_outbox l l'"
  "extends_outbox l (l'\<lparr>verification_ids := v\<rparr>) = extends_outbox l l'"
  "extends_outbox l (l'\<lparr>decision_ids := v\<rparr>) = extends_outbox l l'"
  by (simp_all add: extends_outbox_def)

lemma reserve_extends: "extends_outbox l (reserve_attempt now t r l)"
  by (auto simp: reserve_attempt_def split: prod.splits intro: extends_append)

lemma consume_extends: "consume_once now t a b c k s l = Inr l' \<Longrightarrow> extends_outbox l l'"
  by (auto simp: consume_once_def split: option.splits intro!: extends_append reserve_extends)

lemma recover_extends: "recover_incomplete_attempts now q l = Inr (n, l') \<Longrightarrow> extends_outbox l l'"
proof -
  assume *: "recover_incomplete_attempts now q l = Inr (n, l')"
  let ?m = "snd (fold (recover_attempt now) (attempts l) (0, l))"
  have "extends_outbox l ?m" using recover_loop_frame [of now "attempts l" "(0, l)"] by simp
  moreover have "extends_outbox ?m (fold (revoke_issued now) (authorization_states ?m) ?m)"
    using revoke_loop_frame by blast
  ultimately show ?thesis
    using * by (auto simp: recover_incomplete_attempts_def case_prod_beta Let_def
        intro: extends_outbox_trans)
qed

lemma apply_extends: "apply_op oper l = Inr l' \<Longrightarrow> extends_outbox l l'"
  by (cases "snd oper")
    (auto simp: apply_op_def Let_def claim_request_def register_def record_adapter_receipt_def
      record_attempt_outcome_def split: option.splits if_splits
      intro: extends_append consume_extends recover_extends)

lemma exec_extends_outbox: "extends_outbox l (exec_op oper l)"
  by (auto simp: exec_op_def split: sum.splits intro: apply_extends)

lemma run_extends_outbox: "extends_outbox l (run_ops exec_op ops l)"
  by (induction ops arbitrary: l) (auto intro: extends_outbox_trans exec_extends_outbox)

text \<open>What the recovery does to the attempts.\<close>

lemma recover_attempts:
  assumes "ledger_inv l" "recover_incomplete_attempts now q l = Inr (n, l')" "map_of (attempts l) a = Some row"
  shows "\<exists>moment. map_of (attempts l') a
    = Some (if at_state row = Reserved then recovered_row moment a row else row)"
  using recover_loop_row [of "attempts l" a row "(0, l)" now] assms ledger_invD(1) [OF assms(1)]
  by (auto simp: recover_incomplete_attempts_def case_prod_beta Let_def keys_inv_def revoke_loop_frame)

lemma recover_no_attempt:
  assumes "recover_incomplete_attempts now q l = Inr (n, l')" "map_of (attempts l) a = None"
  shows "map_of (attempts l') a = None"
  using recover_loop_other [of a "attempts l" now "(0, l)"] assms
  by (auto simp: recover_incomplete_attempts_def case_prod_beta Let_def revoke_loop_frame map_of_eq_None_iff)

text \<open>A terminal attempt keeps its row, whatever is called.\<close>

lemma other_ops_attempts:
  "claim_request now p r d c l = Inr (x, l') \<Longrightarrow> attempts l' = attempts l"
  "register now t v di c l = Inr l' \<Longrightarrow> attempts l' = attempts l"
  by (auto simp: claim_request_def register_def split: option.splits)

lemma consume_keeps_attempt:
  "consume_once now t i b c k s l = Inr l' \<Longrightarrow> map_of (attempts l) a = Some row \<Longrightarrow>
   map_of (attempts l') a = Some row"
  by (auto simp: consume_once_def reserve_attempt_def map_of_dict_set split: option.splits prod.splits)

lemma terminal_row_final:
  assumes "ledger_inv l" "map_of (attempts l) a = Some row" "at_state row \<in> set terminal_attempt_states"
  shows "map_of (attempts (exec_op oper l)) a = Some row"
proof (cases "apply_op oper l")
  case (Inr l')
  note final = assms(3) [unfolded terminal_attempt_iff]
  have "map_of (attempts l') a = Some row"
  proof (cases "snd oper")
    case (Recover q)
    then obtain n where "recover_incomplete_attempts (fst oper) q l = Inr (n, l')"
      using Inr by (auto simp: apply_op_def Let_def)
    from recover_attempts [OF assms(1) this assms(2)] final show ?thesis by simp
  qed (use Inr assms(2) final in \<open>auto simp: apply_op_def Let_def record_adapter_receipt_def
      record_attempt_outcome_def map_of_dict_set other_ops_attempts consume_keeps_attempt
      split: option.splits if_splits\<close>)
  with Inr show ?thesis by (simp add: exec_op_def)
qed (simp add: exec_op_def assms)

text \<open>A claimed request keeps its digest.\<close>

lemma consume_requests: "consume_once now t i b c k s l = Inr l' \<Longrightarrow> requests l' = requests l"
  by (auto simp: consume_once_def split: option.splits)

lemma claimed_digest_final:
  assumes "map_of (requests l) pr = Some d"
  shows "map_of (requests (exec_op oper l)) pr = Some d"
proof (cases "apply_op oper l")
  case (Inr l')
  have "map_of (requests l') pr = Some d"
    using Inr assms
    by (cases "snd oper")
      (auto simp: apply_op_def Let_def record_adapter_receipt_def claim_request_def register_def
        record_attempt_outcome_def map_of_dict_set consume_requests recover_incomplete_attempts_def
        case_prod_beta revoke_loop_frame recover_loop_frame split: option.splits if_splits)
  with Inr show ?thesis by (simp add: exec_op_def)
qed (simp add: exec_op_def assms)

lemma claimed_digest_run:
  "map_of (requests l) pr = Some d \<Longrightarrow> map_of (requests (run_ops exec_op ops l)) pr = Some d"
  by (induction ops arbitrary: l) (simp_all add: claimed_digest_final)

lemma terminal_row_run:
  "ledger_inv l \<Longrightarrow> map_of (attempts l) a = Some row \<Longrightarrow> at_state row \<in> set terminal_attempt_states \<Longrightarrow>
   map_of (attempts (run_ops exec_op ops l)) a = Some row"
  by (induction ops arbitrary: l) (simp_all add: terminal_row_final exec_op_inv)

lemma recover_loop_none:
  "\<forall>x \<in> set xs. at_state (snd x) \<noteq> Reserved \<Longrightarrow> fold (recover_attempt now) xs acc = acc"
  by (induction xs arbitrary: acc) (auto simp: recover_attempt_def Let_def case_prod_beta)

lemma revoke_loop_none: "\<forall>x \<in> set xs. snd x \<noteq> Issued \<Longrightarrow> fold (revoke_issued now) xs l = l"
  by (induction xs arbitrary: l) (auto simp: revoke_issued_def Let_def case_prod_beta)

lemma recover_again:
  assumes "ledger_inv l" "recover_incomplete_attempts now q l = Inr (n, l')"
  shows "recover_incomplete_attempts now' True l' = Inr (0, l')"
proof -
  have keys: "keys_inv l'" using ledger_invD(1) [OF recover_inv [OF assms]] .
  have "at_state (snd x) \<noteq> Reserved" if "x \<in> set (attempts l')" for x
  proof -
    have x: "map_of (attempts l') (fst x) = Some (snd x)"
      using that keys by (simp add: keys_inv_def)
    then obtain row where "map_of (attempts l) (fst x) = Some row"
      using recover_no_attempt [OF assms(2), of "fst x"] by fastforce
    from recover_attempts [OF assms this] x obtain moment
      where "snd x = (if at_state row = Reserved then recovered_row moment (fst x) row else row)" by auto
    then show ?thesis by (simp add: recovered_row_def)
  qed
  moreover have "snd x \<noteq> Issued" if "x \<in> set (authorization_states l')" for x
  proof -
    have "auth_of l' (fst x) = Some (snd x)"
      using that keys by (simp add: keys_inv_def auth_of_def)
    with recover_auth [OF assms, of "fst x"] show ?thesis by (auto split: if_splits)
  qed
  ultimately show ?thesis
    by (simp add: recover_incomplete_attempts_def assert_quiesced_def recover_loop_none revoke_loop_none)
qed

subsection \<open>Properties\<close>

text \<open>C23. Over every sequence of calls on a fresh ledger, failing calls included, a token is consumed at
  most once; a token that was consumed had been issued before, and it stays consumed.\<close>

theorem mem_token_consumed_once:
  "consumptions exec_op op_consumes t ops empty_ledger \<le> 1
   \<and> (0 < consumptions exec_op op_consumes t ops empty_ledger \<longrightarrow>
        issued_in exec_op op_issues t ops empty_ledger
        \<and> auth_of (run_ops exec_op ops empty_ledger) t = Some Consumed)"
proof -
  have "auth_of empty_ledger t = None" by (simp add: auth_of_def empty_ledger_def)
  then show ?thesis
    using mem.consumed_at_most_once [OF empty_ledger_inv] mem.consumed_only_if_issued [OF empty_ledger_inv]
      mem.consumed_then_final [OF empty_ledger_inv]
    by simp
qed

definition sample_clock :: "nat \<Rightarrow> pystr" where
  "sample_clock n = ''2026-01-01T00:00:00+00:00''"

definition sample_run :: "ledger_op list" where
  "sample_run = [(sample_clock, Register ''t'' (Some ''v'') (Some ''d'') None),
     (sample_clock, ConsumeOnce ''t'' None None None None None),
     (sample_clock, ConsumeOnce ''t'' None None None None None)]"

lemmas mem_ops = apply_op_def exec_op_def op_consumes_def op_issues_def register_def consume_once_def
  check_consume_arguments_def empty_ledger_def is_identifier_def or_default_def require_identifier_def
  check_optional_timestamp_def require_def

lemma mem_token_consumed_once_witness:
  "consumptions exec_op op_consumes ''t'' sample_run empty_ledger = 1
   \<and> issued_in exec_op op_issues ''t'' sample_run empty_ledger
   \<and> auth_of (run_ops exec_op sample_run empty_ledger) ''t'' = Some Consumed"
proof -
  have "0 < consumptions exec_op op_consumes ''t'' sample_run empty_ledger"
    by (simp add: sample_run_def mem_ops)
  with mem_token_consumed_once [of "''t''" sample_run] show ?thesis by linarith
qed

text \<open>C30. Every ledger that calls on a fresh one can reach satisfies the invariant: unique keys, every
  attempt with exactly the fields its state requires, its token consumed and held by no other
  attempt, and events numbered from 1 without gaps.\<close>

theorem mem_ledger_invariant: "ledger_inv (run_ops exec_op ops empty_ledger)"
  by (rule mem.inv_run [OF empty_ledger_inv])

text \<open>A quiesced recovery counts and closes exactly the reserved attempts as UNKNOWN_EFFECT with the
  digest of that outcome, leaves every other attempt as it is, revokes exactly the issued
  tokens, and run again it finds nothing to do.\<close>

theorem mem_recovery_effect:
  assumes "ledger_inv l" "recover_incomplete_attempts now True l = Inr (n, l')"
  shows "n = length (filter (\<lambda>x. at_state (snd x) = Reserved) (attempts l))
    \<and> (\<forall>a row. map_of (attempts l) a = Some row \<longrightarrow> (\<exists>moment. map_of (attempts l') a
           = Some (if at_state row = Reserved then recovered_row moment a row else row)))
    \<and> (\<forall>t. auth_of l' t = (if auth_of l t = Some Issued then Some Revoked else auth_of l t))
    \<and> (\<forall>now'. recover_incomplete_attempts now' True l' = Inr (0, l'))"
proof (intro conjI allI impI)
  show "n = length (filter (\<lambda>x. at_state (snd x) = Reserved) (attempts l))"
    using assms(2) by (simp add: recover_incomplete_attempts_def case_prod_beta Let_def recover_loop_count)
qed (use assms in \<open>blast intro: recover_attempts recover_auth recover_again\<close>)+

lemma mem_recovery_effect_witness:
  "\<exists>l'. recover_incomplete_attempts sample_clock True
         (run_ops exec_op (take 1 sample_run) empty_ledger) = Inr (0, l') \<and> auth_of l' ''t'' = Some Revoked"
proof -
  let ?l = "run_ops exec_op (take 1 sample_run) empty_ledger"
  obtain n l' where *: "recover_incomplete_attempts sample_clock True ?l = Inr (n, l')"
    by (simp add: recover_incomplete_attempts_def assert_quiesced_def case_prod_beta Let_def)
  have "attempts ?l = []" "auth_of ?l ''t'' = Some Issued"
    by (simp_all add: sample_run_def mem_ops auth_of_def)
  with mem_recovery_effect [OF mem.inv_run [OF empty_ledger_inv] *] * show ?thesis by simp
qed

text \<open>Once an attempt is in a terminal state its row never changes again, whatever calls follow;
  recording the same terminal outcome again succeeds without any change to the ledger, and
  recording any other outcome is refused as a conflict.\<close>

theorem terminal_attempt_final:
  assumes "ledger_inv l" "map_of (attempts l) a = Some row" "at_state row \<in> set terminal_attempt_states"
  shows "map_of (attempts (run_ops exec_op ops l)) a = Some row
    \<and> (is_identifier a \<and> is_sha256 d \<and> is_identifier tm \<and> s \<in> set terminal_attempt_states \<longrightarrow>
        record_attempt_outcome now a s d tm (run_ops exec_op ops l) =
          (if s = at_state row \<and> at_outcome row = Some d then Inr (run_ops exec_op ops l)
           else Inl ''ATTEMPT_OUTCOME_CONFLICT''))"
proof -
  have row: "map_of (attempts (run_ops exec_op ops l)) a = Some row"
    using assms by (rule terminal_row_run)
  moreover have "at_state row \<noteq> Reserved \<and> at_state row \<noteq> ReceiptRecorded"
    using assms(3) by (simp add: terminal_attempt_iff)
  ultimately show ?thesis
    by (auto simp: record_attempt_outcome_def require_identifier_def require_sha256_def is_identifier_def
        is_sha256_def require_def)
qed

definition sample_digest :: pystr where
  "sample_digest = replicate 64 (CHR ''a'')"

definition reserved_run :: "ledger_op list" where
  "reserved_run = [(sample_clock, Register ''t'' None None None),
     (sample_clock, ConsumeOnce ''t'' (Some ''a'') (Some sample_digest) (Some (sample_clock 0)) None None),
     (sample_clock, RecordOutcome ''a'' VerifiedEffect sample_digest (sample_clock 0))]"

lemma sample_valid: "is_sha256 sample_digest" "is_offset_timestamp (sample_clock n)"
    "is_identifier sample_digest" "is_identifier (sample_clock n)"
proof -
  show "is_sha256 sample_digest" "is_identifier sample_digest" by code_simp+
  have "is_offset_timestamp (sample_clock 0)" "is_identifier (sample_clock 0)" by code_simp+
  then show "is_offset_timestamp (sample_clock n)" "is_identifier (sample_clock n)"
    by (simp_all add: sample_clock_def)
qed

lemma reserved_run_row:
  "map_of (attempts (run_ops exec_op reserved_run empty_ledger)) ''a'' =
     Some \<lparr>at_token = ''t'', at_binding = sample_digest, at_state = VerifiedEffect,
       at_outcome = Some sample_digest, at_reserved_at = sample_clock 0,
       at_completed_at = Some (sample_clock 0), at_receipt = None\<rparr>"
  by (simp add: reserved_run_def mem_ops check_reservation_def reserve_attempt_def require_sha256_def
      record_attempt_outcome_def terminal_attempt_states_def require_offset_timestamp_def
      sample_valid [unfolded is_identifier_def is_sha256_def] not_less)

lemma terminal_attempt_final_witness:
  "map_of (attempts (run_ops exec_op [(sample_clock, Recover True)]
     (run_ops exec_op reserved_run empty_ledger))) ''a'' =
     Some \<lparr>at_token = ''t'', at_binding = sample_digest, at_state = VerifiedEffect,
       at_outcome = Some sample_digest, at_reserved_at = sample_clock 0,
       at_completed_at = Some (sample_clock 0), at_receipt = None\<rparr>"
  using terminal_attempt_final [OF mem.inv_run [OF empty_ledger_inv] reserved_run_row,
      of "[(sample_clock, Recover True)]"]
  by (simp add: terminal_attempt_iff)

text \<open>The first claim of a request fixes its digest: after any further calls, claiming it again answers
  DUPLICATE for the same digest and CONFLICT for another, and changes nothing.\<close>

theorem request_claim_stable:
  assumes "claim_request now p r d c l = Inr (NewRequest, l')"
    and "is_sha256 d'" "check_optional_timestamp c' = Inr ()"
  shows "claim_request now' p r d' c' (run_ops exec_op ops l') =
    Inr (if d' = d then DuplicateRequest else ConflictRequest, run_ops exec_op ops l')"
proof -
  have "map_of (requests l') (p, r) = Some d" and ids: "is_identifier p" "is_identifier r"
    using assms(1) by (auto simp: claim_request_def map_of_dict_set split: option.splits if_splits)
  then have "map_of (requests (run_ops exec_op ops l')) (p, r) = Some d"
    by (simp add: claimed_digest_run)
  moreover have "require_identifier binding_invalid p = Inr p" "require_identifier binding_invalid r = Inr r"
    "require_sha256 binding_invalid d' = Inr d'"
    using ids assms(2) by simp_all
  ultimately show ?thesis
    using assms(3) by (simp add: claim_request_def del: require_identifier_Inr require_sha256_Inr)
qed

lemma request_claim_stable_witness:
  "\<exists>l'. claim_request sample_clock ''p'' ''r'' sample_digest None
        (run_ops exec_op sample_run l') = Inr (DuplicateRequest, run_ops exec_op sample_run l')"
proof -
  obtain l' where *: "claim_request sample_clock ''p'' ''r'' sample_digest None empty_ledger = Inr (NewRequest, l')"
    by (simp add: claim_request_def mem_ops require_sha256_def sample_valid [unfolded is_identifier_def is_sha256_def] not_less)
  from request_claim_stable [OF * sample_valid(1), of None sample_clock sample_run] show ?thesis
    by (auto simp: check_optional_timestamp_def)
qed

text \<open>The outbox is append-only and numbered: any calls leave the recorded events as a prefix, the n-th
  event has identifier n, and every event is still pending.\<close>

theorem mem_outbox_append_only:
  "\<exists>events. outbox (run_ops exec_op (ops @ ops') empty_ledger)
       = outbox (run_ops exec_op ops empty_ledger) @ events
     \<and> map event_id (outbox (run_ops exec_op (ops @ ops') empty_ledger))
       = [1..<Suc (length (outbox (run_ops exec_op (ops @ ops') empty_ledger)))]
     \<and> pending_outbox (run_ops exec_op (ops @ ops') empty_ledger)
       = outbox (run_ops exec_op (ops @ ops') empty_ledger)"
proof -
  let ?l = "run_ops exec_op ops empty_ledger"
  have split: "run_ops exec_op (ops @ ops') empty_ledger = run_ops exec_op ops' ?l"
    by (simp add: run_ops_def)
  obtain events where events: "outbox (run_ops exec_op ops' ?l) = outbox ?l @ events"
    using run_extends_outbox [of ?l ops'] by (auto simp: extends_outbox_def)
  have inv: "outbox_inv (run_ops exec_op ops' ?l)"
    using ledger_invD(3) [OF mem.inv_run [OF mem.inv_run [OF empty_ledger_inv]]] .
  show ?thesis
    unfolding split
    by (rule exI [of _ events], intro conjI) (use events inv in \<open>simp_all add: outbox_inv_def pending_outbox_def\<close>)
qed

end
