(* ===== verification/P3Request.thy ===== *)
theory P3Request
  imports StageA_Base
begin

text \<open>
  The typed decision request of \<open>phase3/contracts.py\<close>: closed enumerations as datatypes, each
  frozen dataclass as a record, its \<open>to_dict\<close> as a \<open>json\<close> value and its \<open>from_dict\<close> as a decoder.
  \<open>request_sha256\<close> and the content digest of an evidence item are the digests the later gates bind.
\<close>

subsection \<open>Enumerations\<close>

datatype security_status = Trusted | Degraded | Compromised | UnknownSecurity
datatype action_type = NetworkIsolate
datatype target_type = DomainController | Workstation
datatype criticality = LowCriticality | MediumCriticality | HighCriticality | Tier0
datatype classification = PublicData | InternalData | ConfidentialData | RestrictedData
datatype integrity_status = IntegrityVerified | IntegrityUnverified | IntegrityFailed
datatype trust_level = HighTrust | MediumTrust | LowTrust | Untrusted
datatype recommendation = Isolate | DoNotIsolate | EscalateRecommendation

fun security_status_value :: "security_status \<Rightarrow> pystr" where
  "security_status_value Trusted = ''TRUSTED''"
| "security_status_value Degraded = ''DEGRADED''"
| "security_status_value Compromised = ''COMPROMISED''"
| "security_status_value UnknownSecurity = ''UNKNOWN''"

fun action_type_value :: "action_type \<Rightarrow> pystr" where
  "action_type_value NetworkIsolate = ''NETWORK_ISOLATE''"

fun target_type_value :: "target_type \<Rightarrow> pystr" where
  "target_type_value DomainController = ''DOMAIN_CONTROLLER''"
| "target_type_value Workstation = ''WORKSTATION''"

fun criticality_value :: "criticality \<Rightarrow> pystr" where
  "criticality_value LowCriticality = ''LOW''"
| "criticality_value MediumCriticality = ''MEDIUM''"
| "criticality_value HighCriticality = ''HIGH''"
| "criticality_value Tier0 = ''TIER_0''"

fun classification_value :: "classification \<Rightarrow> pystr" where
  "classification_value PublicData = ''PUBLIC''"
| "classification_value InternalData = ''INTERNAL''"
| "classification_value ConfidentialData = ''CONFIDENTIAL''"
| "classification_value RestrictedData = ''RESTRICTED''"

fun integrity_status_value :: "integrity_status \<Rightarrow> pystr" where
  "integrity_status_value IntegrityVerified = ''VERIFIED''"
| "integrity_status_value IntegrityUnverified = ''UNVERIFIED''"
| "integrity_status_value IntegrityFailed = ''FAILED''"

fun trust_level_value :: "trust_level \<Rightarrow> pystr" where
  "trust_level_value HighTrust = ''HIGH''"
| "trust_level_value MediumTrust = ''MEDIUM''"
| "trust_level_value LowTrust = ''LOW''"
| "trust_level_value Untrusted = ''UNTRUSTED''"

fun recommendation_value :: "recommendation \<Rightarrow> pystr" where
  "recommendation_value Isolate = ''ISOLATE''"
| "recommendation_value DoNotIsolate = ''DO_NOT_ISOLATE''"
| "recommendation_value EscalateRecommendation = ''ESCALATE''"

text \<open>\<open>Enum(value)\<close>: the member with this value, \<open>ValueError\<close> for any other.\<close>

definition enum_of :: "('e \<Rightarrow> pystr) \<Rightarrow> 'e list \<Rightarrow> json \<Rightarrow> (reason, 'e) result" where
  "enum_of val members v =
     (case find (\<lambda>m. JStr (val m) = v) members of Some m \<Rightarrow> Inr m | None \<Rightarrow> Inl ''ValueError'')"

subsection \<open>Records\<close>

record agent_claims =
  ag_id :: pystr
  ag_type :: pystr
  ag_authenticated :: bool
  ag_roles :: "pystr list"
  ag_authority :: "pystr list"
  ag_security_status :: security_status

record authenticated_principal =
  pr_id :: pystr
  pr_type :: pystr
  pr_authenticated :: bool
  pr_roles :: "pystr list"
  pr_authority :: "pystr list"
  pr_security_status :: security_status
  pr_identity_source :: pystr
  pr_human_session :: bool
  pr_reason_code :: pystr

record action_parameters =
  ap_duration_seconds :: int
  ap_preserve_management :: bool

record action_request =
  ac_type :: action_type
  ac_target :: pystr
  ac_parameters :: action_parameters

record target_claims =
  tc_id :: pystr
  tc_type :: target_type
  tc_criticality :: criticality
  tc_classification :: classification
  tc_dependencies :: "pystr list"

record evidence_provenance =
  ep_id :: pystr
  ep_verified :: bool
  ep_signature :: pystr

record evidence_integrity =
  ei_status :: integrity_status
  ei_content_sha256 :: pystr

record evidence_item =
  ev_id :: pystr
  ev_subject_target_id :: pystr
  ev_source_type :: pystr
  ev_source_instance :: pystr
  ev_provenance :: evidence_provenance
  ev_integrity :: evidence_integrity
  ev_observed_at :: pystr
  ev_reliability :: rat
  ev_trust_level :: trust_level
  ev_supports :: "pystr list"
  ev_contradicts :: "pystr list"
  ev_relevance :: rat
  ev_payload :: json
  ev_untrusted_text :: pystr

record decision_request =
  dr_schema_version :: pystr
  dr_request_id :: pystr
  dr_timestamp :: pystr
  dr_agent :: agent_claims
  dr_action :: action_request
  dr_target :: target_claims
  dr_evidence :: "evidence_item list"
  dr_recommendation :: recommendation
  dr_confidence :: rat
  dr_context :: json

subsection \<open>Dictionary form\<close>

definition agent_to_dict :: "agent_claims \<Rightarrow> json" where
  "agent_to_dict a = JObj
     [(''id'', JStr (ag_id a)), (''type'', JStr (ag_type a)),
      (''authenticated'', JBool (ag_authenticated a)), (''roles'', jstrs (ag_roles a)),
      (''authority'', jstrs (ag_authority a)),
      (''security_status'', JStr (security_status_value (ag_security_status a)))]"

definition principal_to_dict :: "authenticated_principal \<Rightarrow> json" where
  "principal_to_dict p = JObj
     ([(''id'', JStr (pr_id p)), (''type'', JStr (pr_type p)),
       (''authenticated'', JBool (pr_authenticated p)), (''roles'', jstrs (pr_roles p)),
       (''authority'', jstrs (pr_authority p)),
       (''security_status'', JStr (security_status_value (pr_security_status p))),
       (''identity_source'', JStr (pr_identity_source p)),
       (''human_session'', JBool (pr_human_session p))]
      @ (if pr_reason_code p \<noteq> [] then [(''authentication_reason_code'', JStr (pr_reason_code p))]
         else []))"

definition parameters_to_dict :: "action_parameters \<Rightarrow> json" where
  "parameters_to_dict p = JObj
     [(''duration_seconds'', JInt (ap_duration_seconds p)),
      (''preserve_management'', JBool (ap_preserve_management p))]"

definition action_to_dict :: "action_request \<Rightarrow> json" where
  "action_to_dict a = JObj
     [(''type'', JStr (action_type_value (ac_type a))), (''target'', JStr (ac_target a)),
      (''parameters'', parameters_to_dict (ac_parameters a))]"

definition target_to_dict :: "target_claims \<Rightarrow> json" where
  "target_to_dict t = JObj
     [(''id'', JStr (tc_id t)), (''type'', JStr (target_type_value (tc_type t))),
      (''criticality'', JStr (criticality_value (tc_criticality t))),
      (''classification'', JStr (classification_value (tc_classification t))),
      (''dependencies'', jstrs (tc_dependencies t))]"

definition provenance_to_dict :: "evidence_provenance \<Rightarrow> json" where
  "provenance_to_dict p = JObj
     [(''id'', JStr (ep_id p)), (''verified'', JBool (ep_verified p)), (''signature'', JStr (ep_signature p))]"

definition integrity_to_dict :: "evidence_integrity \<Rightarrow> json" where
  "integrity_to_dict i = JObj
     [(''status'', JStr (integrity_status_value (ei_status i))),
      (''content_sha256'', JStr (ei_content_sha256 i))]"

definition evidence_to_dict :: "evidence_item \<Rightarrow> json" where
  "evidence_to_dict e = JObj
     [(''id'', JStr (ev_id e)), (''subject_target_id'', JStr (ev_subject_target_id e)),
      (''source_type'', JStr (ev_source_type e)), (''source_instance'', JStr (ev_source_instance e)),
      (''provenance'', provenance_to_dict (ev_provenance e)),
      (''integrity'', integrity_to_dict (ev_integrity e)),
      (''observed_at'', JStr (ev_observed_at e)), (''reliability'', JFloat (ev_reliability e)),
      (''trust_level'', JStr (trust_level_value (ev_trust_level e))),
      (''supports'', jstrs (ev_supports e)), (''contradicts'', jstrs (ev_contradicts e)),
      (''relevance'', JFloat (ev_relevance e)), (''payload'', ev_payload e),
      (''untrusted_text'', JStr (ev_untrusted_text e))]"

definition request_to_dict :: "decision_request \<Rightarrow> json" where
  "request_to_dict r = JObj
     [(''schema_version'', JStr (dr_schema_version r)), (''request_id'', JStr (dr_request_id r)),
      (''timestamp'', JStr (dr_timestamp r)), (''agent'', agent_to_dict (dr_agent r)),
      (''action'', action_to_dict (dr_action r)), (''target'', target_to_dict (dr_target r)),
      (''evidence'', JList (map evidence_to_dict (dr_evidence r))),
      (''agent_recommendation'', JStr (recommendation_value (dr_recommendation r))),
      (''agent_confidence'', JFloat (dr_confidence r)), (''context'', dr_context r)]"

definition request_sha256 :: "decision_request \<Rightarrow> pystr" where
  "request_sha256 r = sha256_json (request_to_dict r)"

definition calculate_content_sha256 :: "json \<Rightarrow> pystr \<Rightarrow> pystr" where
  "calculate_content_sha256 payload untrusted_text =
     sha256_json (JObj [(''payload'', payload), (''untrusted_text'', JStr untrusted_text)])"

definition content_digest_matches :: "evidence_item \<Rightarrow> bool" where
  "content_digest_matches e =
     (calculate_content_sha256 (ev_payload e) (ev_untrusted_text e) = ei_content_sha256 (ev_integrity e))"

subsection \<open>Timestamps\<close>

text \<open>\<open>_parse_datetime\<close>; \<open>None\<close> stands for the \<open>ValueError\<close> or \<open>OverflowError\<close>.\<close>

definition parse_datetime :: "pystr \<Rightarrow> instant option" where
  "parse_datetime s =
     (let normalized = (if s \<noteq> [] \<and> last s = CHR ''Z'' then butlast s @ ''+00:00'' else s)
      in case fromisoformat normalized of
           Some t \<Rightarrow> if representable t then Some t else None
         | None \<Rightarrow> None)"

subsection \<open>Decoding\<close>

text \<open>
  \<open>value[name]\<close> of a \<open>dict\<close>, and the conversions \<open>str\<close>, \<open>bool\<close>, \<open>int\<close>, \<open>float\<close> and
  \<open>tuple(str(...))\<close> on the values the request schema admits at those places; any other value is a
  \<open>TypeError\<close> here. The schema has run before every call, so no other value arrives.
\<close>

fun member :: "pystr \<Rightarrow> json \<Rightarrow> (reason, json) result" where
  "member k (JObj kvs) = (case map_of kvs k of Some v \<Rightarrow> Inr v | None \<Rightarrow> Inl ''KeyError'')"
| "member k _ = Inl ''TypeError''"

definition as_str :: "json \<Rightarrow> (reason, pystr) result" where
  "as_str v = (case v of JStr s \<Rightarrow> Inr s | _ \<Rightarrow> Inl ''TypeError'')"

definition as_bool :: "json \<Rightarrow> (reason, bool) result" where
  "as_bool v = (case v of JBool b \<Rightarrow> Inr b | _ \<Rightarrow> Inl ''TypeError'')"

definition as_int :: "json \<Rightarrow> (reason, int) result" where
  "as_int v = (case v of JInt n \<Rightarrow> Inr n | _ \<Rightarrow> Inl ''TypeError'')"

definition as_float :: "json \<Rightarrow> (reason, rat) result" where
  "as_float v = (case v of JFloat x \<Rightarrow> Inr x | JInt n \<Rightarrow> Inr (fl (of_int n)) | _ \<Rightarrow> Inl ''TypeError'')"

definition as_list :: "(json \<Rightarrow> (reason, 'a) result) \<Rightarrow> json \<Rightarrow> (reason, 'a list) result" where
  "as_list f v = (case v of JList xs \<Rightarrow> map_result f xs | _ \<Rightarrow> Inl ''TypeError'')"

definition get_as :: "(json \<Rightarrow> (reason, 'a) result) \<Rightarrow> pystr \<Rightarrow> json \<Rightarrow> (reason, 'a) result" where
  "get_as f k v = and_then (member k v) f"

definition agent_from_dict :: "json \<Rightarrow> (reason, agent_claims) result" where
  "agent_from_dict v =
     and_then (get_as as_str ''id'' v) (\<lambda>i.
     and_then (get_as as_str ''type'' v) (\<lambda>ty.
     and_then (get_as as_bool ''authenticated'' v) (\<lambda>au.
     and_then (get_as (as_list as_str) ''roles'' v) (\<lambda>ro.
     and_then (get_as (as_list as_str) ''authority'' v) (\<lambda>aut.
     and_then (get_as (enum_of security_status_value [Trusted, Degraded, Compromised, UnknownSecurity])
       ''security_status'' v) (\<lambda>st.
     Inr \<lparr>ag_id = i, ag_type = ty, ag_authenticated = au, ag_roles = ro, ag_authority = aut,
          ag_security_status = st\<rparr>))))))"

definition parameters_from_dict :: "json \<Rightarrow> (reason, action_parameters) result" where
  "parameters_from_dict v =
     and_then (get_as as_int ''duration_seconds'' v) (\<lambda>d.
     and_then (get_as as_bool ''preserve_management'' v) (\<lambda>p.
     Inr \<lparr>ap_duration_seconds = d, ap_preserve_management = p\<rparr>))"

definition action_from_dict :: "json \<Rightarrow> (reason, action_request) result" where
  "action_from_dict v =
     and_then (get_as (enum_of action_type_value [NetworkIsolate]) ''type'' v) (\<lambda>ty.
     and_then (get_as as_str ''target'' v) (\<lambda>tg.
     and_then (get_as parameters_from_dict ''parameters'' v) (\<lambda>p.
     Inr \<lparr>ac_type = ty, ac_target = tg, ac_parameters = p\<rparr>)))"

definition target_from_dict :: "json \<Rightarrow> (reason, target_claims) result" where
  "target_from_dict v =
     and_then (get_as as_str ''id'' v) (\<lambda>i.
     and_then (get_as (enum_of target_type_value [DomainController, Workstation]) ''type'' v) (\<lambda>ty.
     and_then (get_as (enum_of criticality_value [LowCriticality, MediumCriticality, HighCriticality, Tier0])
       ''criticality'' v) (\<lambda>cr.
     and_then (get_as (enum_of classification_value [PublicData, InternalData, ConfidentialData, RestrictedData])
       ''classification'' v) (\<lambda>cl.
     and_then (get_as (as_list as_str) ''dependencies'' v) (\<lambda>de.
     Inr \<lparr>tc_id = i, tc_type = ty, tc_criticality = cr, tc_classification = cl,
          tc_dependencies = de\<rparr>)))))"

definition provenance_from_dict :: "json \<Rightarrow> (reason, evidence_provenance) result" where
  "provenance_from_dict v =
     and_then (get_as as_str ''id'' v) (\<lambda>i.
     and_then (get_as as_bool ''verified'' v) (\<lambda>ve.
     and_then (get_as as_str ''signature'' v) (\<lambda>si.
     Inr \<lparr>ep_id = i, ep_verified = ve, ep_signature = si\<rparr>)))"

definition integrity_from_dict :: "json \<Rightarrow> (reason, evidence_integrity) result" where
  "integrity_from_dict v =
     and_then (get_as (enum_of integrity_status_value [IntegrityVerified, IntegrityUnverified, IntegrityFailed])
       ''status'' v) (\<lambda>st.
     and_then (get_as as_str ''content_sha256'' v) (\<lambda>c.
     Inr \<lparr>ei_status = st, ei_content_sha256 = c\<rparr>))"

definition evidence_from_dict :: "json \<Rightarrow> (reason, evidence_item) result" where
  "evidence_from_dict v =
     and_then (get_as as_str ''id'' v) (\<lambda>i.
     and_then (get_as as_str ''subject_target_id'' v) (\<lambda>su.
     and_then (get_as as_str ''source_type'' v) (\<lambda>ty.
     and_then (get_as as_str ''source_instance'' v) (\<lambda>ins.
     and_then (get_as provenance_from_dict ''provenance'' v) (\<lambda>pro.
     and_then (get_as integrity_from_dict ''integrity'' v) (\<lambda>integ.
     and_then (get_as as_str ''observed_at'' v) (\<lambda>ob.
     and_then (get_as as_float ''reliability'' v) (\<lambda>rel.
     and_then (get_as (enum_of trust_level_value [HighTrust, MediumTrust, LowTrust, Untrusted])
       ''trust_level'' v) (\<lambda>tr.
     and_then (get_as (as_list as_str) ''supports'' v) (\<lambda>sup.
     and_then (get_as (as_list as_str) ''contradicts'' v) (\<lambda>con.
     and_then (get_as as_float ''relevance'' v) (\<lambda>rv.
     and_then (member ''payload'' v) (\<lambda>pay.
     and_then (get_as as_str ''untrusted_text'' v) (\<lambda>txt.
     Inr \<lparr>ev_id = i, ev_subject_target_id = su, ev_source_type = ty, ev_source_instance = ins,
          ev_provenance = pro, ev_integrity = integ, ev_observed_at = ob, ev_reliability = rel,
          ev_trust_level = tr, ev_supports = sup, ev_contradicts = con, ev_relevance = rv,
          ev_payload = pay, ev_untrusted_text = txt\<rparr>))))))))))))))"

definition request_from_dict :: "json \<Rightarrow> (reason, decision_request) result" where
  "request_from_dict v =
     and_then (get_as as_str ''schema_version'' v) (\<lambda>sv.
     and_then (get_as as_str ''request_id'' v) (\<lambda>i.
     and_then (get_as as_str ''timestamp'' v) (\<lambda>ts.
     and_then (get_as agent_from_dict ''agent'' v) (\<lambda>ag.
     and_then (get_as action_from_dict ''action'' v) (\<lambda>ac.
     and_then (get_as target_from_dict ''target'' v) (\<lambda>tg.
     and_then (get_as (as_list evidence_from_dict) ''evidence'' v) (\<lambda>ev.
     and_then (get_as (enum_of recommendation_value [Isolate, DoNotIsolate, EscalateRecommendation])
       ''agent_recommendation'' v) (\<lambda>re.
     and_then (get_as as_float ''agent_confidence'' v) (\<lambda>co.
     and_then (member ''context'' v) (\<lambda>cx.
     Inr \<lparr>dr_schema_version = sv, dr_request_id = i, dr_timestamp = ts, dr_agent = ag,
          dr_action = ac, dr_target = tg, dr_evidence = ev, dr_recommendation = re,
          dr_confidence = co, dr_context = cx\<rparr>))))))))))"

subsection \<open>Decoding inverts encoding\<close>

lemma map_result_map: "(\<And>x. x \<in> set xs \<Longrightarrow> f (g x) = Inr x) \<Longrightarrow> map_result f (map g xs) = Inr xs"
  by (induction xs) auto

lemma as_list_jstrs [simp]: "as_list as_str (jstrs xs) = Inr xs"
  by (simp add: as_list_def jstrs_def as_str_def map_result_map)

lemma enum_of_values [simp]:
  "enum_of security_status_value [Trusted, Degraded, Compromised, UnknownSecurity]
     (JStr (security_status_value a)) = Inr a"
  "enum_of action_type_value [NetworkIsolate] (JStr (action_type_value b)) = Inr b"
  "enum_of target_type_value [DomainController, Workstation] (JStr (target_type_value c)) = Inr c"
  "enum_of criticality_value [LowCriticality, MediumCriticality, HighCriticality, Tier0]
     (JStr (criticality_value d)) = Inr d"
  "enum_of classification_value [PublicData, InternalData, ConfidentialData, RestrictedData]
     (JStr (classification_value e)) = Inr e"
  "enum_of integrity_status_value [IntegrityVerified, IntegrityUnverified, IntegrityFailed]
     (JStr (integrity_status_value g)) = Inr g"
  "enum_of trust_level_value [HighTrust, MediumTrust, LowTrust, Untrusted]
     (JStr (trust_level_value h)) = Inr h"
  "enum_of recommendation_value [Isolate, DoNotIsolate, EscalateRecommendation]
     (JStr (recommendation_value i)) = Inr i"
  subgoal by (cases a; simp add: enum_of_def)
  subgoal by (cases b; simp add: enum_of_def)
  subgoal by (cases c; simp add: enum_of_def)
  subgoal by (cases d; simp add: enum_of_def)
  subgoal by (cases e; simp add: enum_of_def)
  subgoal by (cases g; simp add: enum_of_def)
  subgoal by (cases h; simp add: enum_of_def)
  subgoal by (cases i; simp add: enum_of_def)
  done

lemmas decode_defs = get_as_def as_str_def as_bool_def as_int_def as_float_def

lemma agent_roundtrip [simp]: "agent_from_dict (agent_to_dict a) = Inr a"
  by (simp add: agent_from_dict_def agent_to_dict_def decode_defs)

lemma action_roundtrip [simp]: "action_from_dict (action_to_dict a) = Inr a"
  by (simp add: action_from_dict_def action_to_dict_def parameters_from_dict_def parameters_to_dict_def
      decode_defs)

lemma target_roundtrip [simp]: "target_from_dict (target_to_dict t) = Inr t"
  by (simp add: target_from_dict_def target_to_dict_def decode_defs)

lemma provenance_roundtrip [simp]: "provenance_from_dict (provenance_to_dict p) = Inr p"
  by (simp add: provenance_from_dict_def provenance_to_dict_def decode_defs)

lemma integrity_roundtrip [simp]: "integrity_from_dict (integrity_to_dict i) = Inr i"
  by (simp add: integrity_from_dict_def integrity_to_dict_def decode_defs)

lemma evidence_roundtrip [simp]: "evidence_from_dict (evidence_to_dict e) = Inr e"
  by (simp add: evidence_from_dict_def evidence_to_dict_def decode_defs)

lemma request_roundtrip: "request_from_dict (request_to_dict r) = Inr r"
  by (simp add: request_from_dict_def request_to_dict_def decode_defs as_list_def map_result_map)

end
