(* ===== verification/P3Validation.thy ===== *)
theory P3Validation
  imports P3Request "HOL-Library.Multiset"
begin

text \<open>
  \<open>validate_decision_request_dict\<close> of \<open>phase3/contracts.py\<close>: the bounds and cross-field rules an
  untrusted decoded request passes before it is typed. The JSON Schema validator is third-party
  code: \<open>schema_ok\<close>, a parameter, says whether it reports no error. The clock is the instant \<open>now\<close>.
\<close>

definition schema_version :: pystr where
  "schema_version = ''0.3.0''"

definition max_request_bytes :: nat where "max_request_bytes = 1024 * 1024"
definition max_json_depth :: nat where "max_json_depth = 32"
definition max_context_bytes :: nat where "max_context_bytes = 64 * 1024"
definition max_evidence_payload_bytes :: nat where "max_evidence_payload_bytes = 64 * 1024"
definition max_request_future_skew :: int where "max_request_future_skew = 300 * micros"

subsection \<open>Sizes\<close>

text \<open>The loop of \<open>_json_depth\<close>: a stack of values with their depth, and the deepest one seen.\<close>

function depth_loop :: "(json \<times> nat) list \<Rightarrow> nat \<Rightarrow> nat" where
  "depth_loop [] maximum = maximum"
| "depth_loop ((child, depth) # pending) maximum =
     (case child of
        JObj kvs \<Rightarrow> depth_loop (rev (map (\<lambda>p. (snd p, depth + 1)) kvs) @ pending) (max maximum depth)
      | JList xs \<Rightarrow> depth_loop (rev (map (\<lambda>x. (x, depth + 1)) xs) @ pending) (max maximum depth)
      | _ \<Rightarrow> depth_loop pending (max maximum depth))"
  by pat_completeness auto
termination
  by (relation "measure (\<lambda>(pending, _). sum_list (map (\<lambda>p. json_nodes (fst p)) pending))")
    (auto simp: comp_def rev_map [symmetric] sum_list_rev case_prod_unfold)

declare depth_loop.simps [simp del]

definition json_depth_bound :: "json \<Rightarrow> nat" where
  "json_depth_bound v = depth_loop [(v, 1)] 0"

definition encoded_size :: "json \<Rightarrow> nat" where
  "encoded_size v = length (utf8 (canonical_json v))"

lemma depth_loop_spec:
  "depth_loop pending m \<le> b \<longleftrightarrow> m \<le> b \<and> (\<forall>p \<in> set pending. snd p + json_depth (fst p) \<le> b)"
proof (induction pending m rule: depth_loop.induct)
  case (1 maximum)
  then show ?case by (simp add: depth_loop.simps)
next
  case (2 child depth pending maximum)
  then show ?case
    by (cases child) (auto simp: depth_loop.simps depth_obj depth_list ball_Un
        simp del: json_depth.simps(1,2))
qed

text \<open>An upper bound of the encoded size that does not build the text.\<close>

fun encoding_bound :: "json \<Rightarrow> nat" where
  "encoding_bound (JObj kvs) =
     2 + sum_list (map (\<lambda>(k, v). 6 * length k + 4 + encoding_bound v) kvs)"
| "encoding_bound (JList xs) = 2 + sum_list (map (\<lambda>x. 1 + encoding_bound x) xs)"
| "encoding_bound (JStr s) = 6 * length s + 2"
| "encoding_bound v = length (canonical_json v)"

lemma length_utf8: "length (utf8 s) \<le> 2 * length s"
  by (induction s rule: utf8.induct) (auto simp: Let_def)

lemma length_json_string: "length (json_string s) \<le> 6 * length s + 2"
proof -
  have "length (escape_char c) \<le> 6" for c by (auto simp: escape_char_def Let_def)
  then have "length (concat (map escape_char s)) \<le> 6 * length s"
    by (induction s) (auto intro: add_mono)
  then show ?thesis by (simp add: json_string_def)
qed

lemma length_join: "length (join [c] xs) \<le> sum_list (map (\<lambda>x. 1 + length x) xs)"
  by (induction "[c]" xs rule: join.induct) auto

lemma sum_list_sort: "sum_list (map f (sort_key g xs)) = (sum_list (map f xs) :: nat)"
  by (metis mset_map mset_sort sum_mset_sum_list)

lemma length_canonical_json: "length (canonical_json v) \<le> encoding_bound v"
proof (induction v rule: encoding_bound.induct)
  case (1 kvs)
  let ?row = "\<lambda>(k, t). json_string k @ '':'' @ t"
  let ?rows = "map (\<lambda>(k, v). (k, canonical_json v)) kvs"
  have "length (join '','' (map ?row (sort_key fst ?rows)))
      \<le> sum_list (map (\<lambda>r. 1 + length (?row r)) (sort_key fst ?rows))"
    using length_join [of "CHR '',''" "map ?row (sort_key fst ?rows)"] by (simp add: comp_def)
  also have "\<dots> = sum_list (map (\<lambda>r. 1 + length (?row r)) ?rows)"
    by (rule sum_list_sort)
  also have "\<dots> \<le> sum_list (map (\<lambda>(k, v). 6 * length k + 4 + encoding_bound v) kvs)"
    unfolding map_map
  proof (rule sum_list_mono)
    fix p assume "p \<in> set kvs"
    then have "length (canonical_json (snd p)) \<le> encoding_bound (snd p)"
      using 1 by (metis prod.collapse)
    then show "((\<lambda>r. 1 + length (?row r)) \<circ> (\<lambda>(k, v). (k, canonical_json v))) p
        \<le> (\<lambda>(k, v). 6 * length k + 4 + encoding_bound v) p"
      using length_json_string [of "fst p"] by (simp add: case_prod_beta)
  qed
  finally show ?case by simp
next
  case (2 xs)
  have "length (join '','' (map canonical_json xs)) \<le> sum_list (map (\<lambda>x. 1 + length (canonical_json x)) xs)"
    using length_join [of "CHR '',''" "map canonical_json xs"] by (simp add: comp_def)
  also have "\<dots> \<le> sum_list (map (\<lambda>x. 1 + encoding_bound x) xs)"
    using 2 by (intro sum_list_mono) simp
  finally show ?case by simp
qed (use length_json_string in auto)

lemma encoded_size_le: "2 * encoding_bound v \<le> n \<Longrightarrow> encoded_size v \<le> n"
  using length_utf8 [of "canonical_json v"] length_canonical_json [of v] by (simp add: encoded_size_def)

text \<open>The loop computes the depth of the tree, counting the root as level one.\<close>

lemma json_depth_bound_eq: "json_depth_bound v = Suc (json_depth v)"
proof (rule antisym)
  show "json_depth_bound v \<le> Suc (json_depth v)"
    by (simp add: json_depth_bound_def depth_loop_spec)
  have "depth_loop [(v, 1)] 0 \<le> json_depth_bound v" by (simp add: json_depth_bound_def)
  then show "Suc (json_depth v) \<le> json_depth_bound v" unfolding depth_loop_spec by simp
qed

subsection \<open>Validation\<close>

definition timestamp_of :: "pystr \<Rightarrow> (reason, instant) result" where
  "timestamp_of s = (case parse_datetime s of Some t \<Rightarrow> Inr t | None \<Rightarrow> Inl ''REQUEST_TIMESTAMP_INVALID'')"

text \<open>One evidence item: the bound on its payload, and no claim both supported and contradicted.\<close>

definition check_evidence_item :: "json \<Rightarrow> (reason, unit) result" where
  "check_evidence_item item =
     and_then (member ''payload'' item) (\<lambda>payload.
     and_then (require (\<not> encoded_size payload > max_evidence_payload_bytes)
       ''EVIDENCE_PAYLOAD_TOO_LARGE'') (\<lambda>_.
     and_then (get_as (as_list as_str) ''supports'' item) (\<lambda>supports.
     and_then (get_as (as_list as_str) ''contradicts'' item) (\<lambda>contradicts.
     require (\<not> list_ex (\<lambda>c. c \<in> set contradicts) supports) ''EVIDENCE_STANCE_CONFLICT''))))"

definition check_evidence_time :: "instant \<Rightarrow> json \<Rightarrow> (reason, unit) result" where
  "check_evidence_time request_time item =
     and_then (get_as as_str ''observed_at'' item) (\<lambda>s.
     and_then (timestamp_of s) (\<lambda>observed_at.
     and_then (require (representable (request_time + max_request_future_skew))
       ''REQUEST_TIMESTAMP_INVALID'') (\<lambda>_.
     require (\<not> observed_at > request_time + max_request_future_skew) ''EVIDENCE_TIMESTAMP_FUTURE'')))"

definition check_request_times :: "instant \<Rightarrow> json \<Rightarrow> json list \<Rightarrow> (reason, unit) result" where
  "check_request_times now v evidence =
     and_then (get_as as_str ''timestamp'' v) (\<lambda>s.
     and_then (timestamp_of s) (\<lambda>request_time.
     and_then (require (representable (now + max_request_future_skew))
       ''REQUEST_TIMESTAMP_INVALID'') (\<lambda>_.
     and_then (require (\<not> request_time > now + max_request_future_skew)
       ''REQUEST_TIMESTAMP_FUTURE'') (\<lambda>_.
     for_each (check_evidence_time request_time) evidence))))"

definition validate_decision_request_dict ::
  "(json \<Rightarrow> bool) \<Rightarrow> instant \<Rightarrow> json \<Rightarrow> (reason, decision_request) result" where
  "validate_decision_request_dict schema_ok now v =
     (case v of
        JObj kvs \<Rightarrow>
          and_then (require (\<not> encoded_size v > max_request_bytes) ''REQUEST_TOO_LARGE'') (\<lambda>_.
          and_then (require (\<not> json_depth_bound v > max_json_depth) ''REQUEST_TOO_DEEP'') (\<lambda>_.
          and_then (require (case map_of kvs ''schema_version'' of
                None \<Rightarrow> True | Some sv \<Rightarrow> sv = JStr schema_version) ''UNSUPPORTED_SCHEMA_VERSION'') (\<lambda>_.
          and_then (require (schema_ok v) ''REQUEST_SCHEMA_INVALID'') (\<lambda>_.
          and_then (get_as (get_as as_str ''target'') ''action'' v) (\<lambda>action_target.
          and_then (get_as (get_as as_str ''id'') ''target'' v) (\<lambda>target_id.
          and_then (require (action_target = target_id) ''TARGET_BINDING_MISMATCH'') (\<lambda>_.
          and_then (get_as (as_list Inr) ''evidence'' v) (\<lambda>evidence.
          and_then (map_result (get_as as_str ''id'') evidence) (\<lambda>evidence_ids.
          and_then (require (distinct evidence_ids) ''DUPLICATE_EVIDENCE_ID'') (\<lambda>_.
          and_then (member ''context'' v) (\<lambda>context.
          and_then (require (\<not> encoded_size context > max_context_bytes)
            ''REQUEST_CONTEXT_TOO_LARGE'') (\<lambda>_.
          and_then (for_each check_evidence_item evidence) (\<lambda>_.
          and_then (check_request_times now v evidence) (\<lambda>_.
          request_from_dict v))))))))))))))
      | _ \<Rightarrow> Inl ''REQUEST_NOT_OBJECT'')"

subsection \<open>What an accepted request satisfies\<close>

definition times_ok :: "instant \<Rightarrow> decision_request \<Rightarrow> bool" where
  "times_ok now r \<longleftrightarrow>
     (case parse_datetime (dr_timestamp r) of
        None \<Rightarrow> False
      | Some t \<Rightarrow> t \<le> now + max_request_future_skew
          \<and> list_all (\<lambda>e. case parse_datetime (ev_observed_at e) of
                None \<Rightarrow> False | Some o' \<Rightarrow> o' \<le> t + max_request_future_skew) (dr_evidence r))"

definition request_ok :: "instant \<Rightarrow> decision_request \<Rightarrow> bool" where
  "request_ok now r \<longleftrightarrow>
     ac_target (dr_action r) = tc_id (dr_target r)
     \<and> distinct (map ev_id (dr_evidence r))
     \<and> list_all (\<lambda>e. \<not> list_ex (\<lambda>c. c \<in> set (ev_contradicts e)) (ev_supports e)
                    \<and> encoded_size (ev_payload e) \<le> max_evidence_payload_bytes) (dr_evidence r)
     \<and> encoded_size (dr_context r) \<le> max_context_bytes
     \<and> times_ok now r"

lemma map_result_rel:
  "map_result f xs = Inr ys \<longleftrightarrow> list_all2 (\<lambda>x y. f x = Inr y) xs ys"
  by (induction xs arbitrary: ys) (auto simp: list_all2_Cons1)

lemma evidence_from_dict_fields:
  assumes "evidence_from_dict v = Inr e"
  shows "get_as as_str ''id'' v = Inr (ev_id e)" "member ''payload'' v = Inr (ev_payload e)"
    "get_as (as_list as_str) ''supports'' v = Inr (ev_supports e)"
    "get_as (as_list as_str) ''contradicts'' v = Inr (ev_contradicts e)"
    "get_as as_str ''observed_at'' v = Inr (ev_observed_at e)"
  using assms by (auto simp: evidence_from_dict_def)

lemma request_from_dict_fields:
  assumes "request_from_dict v = Inr r"
  shows "get_as (get_as as_str ''target'') ''action'' v = Inr (ac_target (dr_action r))"
    "get_as (get_as as_str ''id'') ''target'' v = Inr (tc_id (dr_target r))"
    "get_as as_str ''timestamp'' v = Inr (dr_timestamp r)"
    "member ''context'' v = Inr (dr_context r)"
    "get_as (as_list evidence_from_dict) ''evidence'' v = Inr (dr_evidence r)"
  using assms
  by (auto simp: request_from_dict_def action_from_dict_def target_from_dict_def get_as_def)

lemma map_result_Inr_id [simp]: "map_result Inr xs = Inr xs"
  by (induction xs) auto

lemma decoded_items:
  "map_result evidence_from_dict items = Inr es \<Longrightarrow>
     map_result (get_as as_str ''id'') items = Inr (map ev_id es)"
  by (induction items arbitrary: es) (auto simp: evidence_from_dict_fields)

lemma decoded_checks:
  "map_result evidence_from_dict items = Inr es \<Longrightarrow> for_each check_evidence_item items = Inr () \<Longrightarrow>
     list_all (\<lambda>e. \<not> list_ex (\<lambda>c. c \<in> set (ev_contradicts e)) (ev_supports e)
                 \<and> encoded_size (ev_payload e) \<le> max_evidence_payload_bytes) es"
  by (induction items arbitrary: es)
    (auto simp: check_evidence_item_def evidence_from_dict_fields not_less list_all_iff list_ex_iff)

lemma decoded_times:
  "map_result evidence_from_dict items = Inr es \<Longrightarrow> for_each (check_evidence_time t) items = Inr () \<Longrightarrow>
     list_all (\<lambda>e. case parse_datetime (ev_observed_at e) of
        None \<Rightarrow> False | Some o' \<Rightarrow> o' \<le> t + max_request_future_skew) es"
  by (induction items arbitrary: es)
    (auto simp: check_evidence_time_def evidence_from_dict_fields timestamp_of_def not_less
      split: option.splits)

lemma validate_ok:
  assumes "validate_decision_request_dict schema_ok now v = Inr r"
  shows "request_from_dict v = Inr r" and "request_ok now r"
proof -
  obtain kvs where v: "v = JObj kvs"
    using assms by (auto simp: validate_decision_request_dict_def split: json.splits)
  show r: "request_from_dict v = Inr r"
    using assms by (auto simp: validate_decision_request_dict_def v simp del: member.simps)
  note fields = request_from_dict_fields [OF r]
  obtain items where items: "member ''evidence'' v = Inr (JList items)"
    "map_result evidence_from_dict items = Inr (dr_evidence r)"
  proof -
    obtain x where x: "member ''evidence'' v = Inr x" "as_list evidence_from_dict x = Inr (dr_evidence r)"
      using fields(5) by (auto simp: get_as_def)
    then show thesis by (cases x) (auto simp: as_list_def intro: that)
  qed
  then have ev: "get_as (as_list Inr) ''evidence'' v = Inr items"
    by (simp add: get_as_def as_list_def)
  have *: "ac_target (dr_action r) = tc_id (dr_target r)" "distinct (map ev_id (dr_evidence r))"
    "encoded_size (dr_context r) \<le> max_context_bytes"
    "for_each check_evidence_item items = Inr ()" "check_request_times now v items = Inr ()"
    using assms fields(1,2,4) ev decoded_items [OF items(2)] unfolding v
    by (auto simp: validate_decision_request_dict_def not_less simp del: member.simps)
  obtain t where t: "parse_datetime (dr_timestamp r) = Some t" "t \<le> now + max_request_future_skew"
    "for_each (check_evidence_time t) items = Inr ()"
    using *(5) fields(3) by (auto simp: check_request_times_def timestamp_of_def not_less split: option.splits)
  show "request_ok now r"
    using * decoded_checks [OF items(2) *(4)] decoded_times [OF items(2) t(3)] t(1,2)
    by (simp add: request_ok_def times_ok_def)
qed

subsection \<open>Properties\<close>


definition sample_request :: decision_request where
  "sample_request =
     \<lparr>dr_schema_version = schema_version, dr_request_id = ''req-1'',
      dr_timestamp = ''2026-01-01T00:00:00Z'',
      dr_agent = \<lparr>ag_id = ''agent-1'', ag_type = ''AI'', ag_authenticated = True, ag_roles = [''responder''],
        ag_authority = [''isolate''], ag_security_status = Trusted\<rparr>,
      dr_action = \<lparr>ac_type = NetworkIsolate, ac_target = ''ws-1'',
        ac_parameters = \<lparr>ap_duration_seconds = 600, ap_preserve_management = True\<rparr>\<rparr>,
      dr_target = \<lparr>tc_id = ''ws-1'', tc_type = Workstation, tc_criticality = LowCriticality,
        tc_classification = InternalData, tc_dependencies = []\<rparr>,
      dr_evidence =
        [\<lparr>ev_id = ''e-1'', ev_subject_target_id = ''ws-1'', ev_source_type = ''EDR'', ev_source_instance = ''edr-1'',
          ev_provenance = \<lparr>ep_id = ''p-1'', ep_verified = True, ep_signature = ''s''\<rparr>,
          ev_integrity = \<lparr>ei_status = IntegrityVerified, ei_content_sha256 = ''c''\<rparr>,
          ev_observed_at = ''2025-12-31T23:59:00+00:00'', ev_reliability = 1 / 2, ev_trust_level = HighTrust,
          ev_supports = [''COMPROMISE''], ev_contradicts = [], ev_relevance = 1, ev_payload = JObj [],
          ev_untrusted_text = ''beacon''\<rparr>],
      dr_recommendation = Isolate, dr_confidence = 1 / 2, dr_context = JObj []\<rparr>"

definition sample_now :: instant where
  "sample_now = 63902822400 * micros"

lemma float_bounds:
  "length (float_repr (1 / 2)) = 3" "length (float_repr 1) = 3" "length (show_int 600) = 3"
  by code_simp+

lemma sample_request_validates:
  "validate_decision_request_dict (\<lambda>_. True) sample_now (request_to_dict sample_request) = Inr sample_request"
proof -
  let ?v = "request_to_dict sample_request"
  have "encoding_bound ?v \<le> 9999" "encoding_bound (dr_context sample_request) \<le> 9999"
    by (simp_all add: request_to_dict_def sample_request_def agent_to_dict_def action_to_dict_def
        parameters_to_dict_def target_to_dict_def evidence_to_dict_def provenance_to_dict_def
        integrity_to_dict_def jstrs_def schema_version_def float_bounds)
  then have sizes: "encoded_size ?v \<le> max_request_bytes" "encoded_size (dr_context sample_request) \<le> max_context_bytes"
    by (intro encoded_size_le; simp add: max_request_bytes_def max_context_bytes_def)+
  have depth: "json_depth_bound ?v \<le> max_json_depth" by code_simp
  have "encoded_size (JObj []) \<le> max_evidence_payload_bytes"
    by (intro encoded_size_le) (simp add: max_evidence_payload_bytes_def)
  then have payloads: "for_each check_evidence_item (map evidence_to_dict (dr_evidence sample_request)) = Inr ()"
    by (simp add: sample_request_def check_evidence_item_def evidence_to_dict_def get_as_def
        as_list_def jstrs_def as_str_def not_less)
  have items: "check_request_times sample_now ?v (map evidence_to_dict (dr_evidence sample_request)) = Inr ()"
    "map_result (get_as as_str ''id'') (map evidence_to_dict (dr_evidence sample_request)) = Inr [''e-1'']"
    by code_simp+
  have parts: "get_as (get_as as_str ''target'') ''action'' ?v = Inr ''ws-1''"
    "get_as (get_as as_str ''id'') ''target'' ?v = Inr ''ws-1''"
    "get_as (as_list Inr) ''evidence'' ?v = Inr (map evidence_to_dict (dr_evidence sample_request))"
    "member ''context'' ?v = Inr (dr_context sample_request)"
    by code_simp+
  obtain kvs where v: "?v = JObj kvs" "map_of kvs ''schema_version'' = Some (JStr schema_version)"
    by (simp add: request_to_dict_def sample_request_def)
  show ?thesis
    using sizes depth payloads items parts request_roundtrip [of sample_request] v(2)
    unfolding v(1) validate_decision_request_dict_def by (simp del: member.simps add: not_less)
qed


text \<open>C37. Typing a request and writing it back loses nothing: decoding the dictionary form of any typed
  request gives the same request, so equal digest inputs mean equal requests.\<close>

theorem request_decode_encode:
  "request_from_dict (request_to_dict r) = Inr r
   \<and> (request_to_dict r = request_to_dict r' \<longleftrightarrow> r = r')"
  using request_roundtrip [of r] request_roundtrip [of r'] by (metis sum.inject(2))

text \<open>The depth loop over an explicit stack ends and computes the depth of the tree, counting the
  root as level one.\<close>

theorem json_depth_loop_correct: "json_depth_bound v = Suc (json_depth v)"
  by (rule json_depth_bound_eq)

end
