(* ===== verification/P3Policy.thy ===== *)
theory P3Policy
  imports P3Request
begin

text \<open>
  The Phase 3 policy of \<open>phase3/config.py\<close>: evidence rules, consequence weights, decision rules,
  action catalog and target inventory as records, their decoders and dictionary forms, and
  the safety invariants a policy must satisfy before the firewall accepts it. The JSON Schema
  validator is third-party code, the parameter \<open>schema_ok\<close>. A mapping is an association list in
  the order of the file; \<open>item m k\<close> is \<open>m[k]\<close> with \<open>KeyError\<close> for a missing key.
\<close>

record trusted_source =
  ts_source_type :: pystr
  ts_reliability :: rat
  ts_trust_level :: pystr

record evidence_rules =
  er_hypothesis_claim :: pystr
  er_maximum_age_seconds :: int
  er_minimum_reliability :: rat
  er_minimum_relevance :: rat
  er_minimum_strength :: rat
  er_minimum_sources :: int
  er_maximum_conflicts :: int
  er_trust_weights :: "(pystr \<times> rat) list"
  er_required_sources :: "(pystr \<times> pystr list) list"
  er_trusted_sources :: "(pystr \<times> trusted_source) list"

record consequence_policy =
  cp_factor_weights :: "(pystr \<times> rat) list"
  cp_criticality_weights :: "(pystr \<times> rat) list"
  cp_blast_radius_weights :: "(pystr \<times> rat) list"
  cp_impact_weights :: "(pystr \<times> rat) list"
  cp_downtime_reference_minutes :: int
  cp_dependency_reference_count :: int
  cp_irreversible_penalty :: rat
  cp_high_threshold :: rat
  cp_critical_threshold :: rat
  cp_approval_levels :: "pystr list"
  cp_approval_isolation :: "pystr list"
  cp_approval_mission :: "pystr list"
  cp_approval_safety :: "pystr list"
  cp_approval_availability :: "pystr list"
  cp_approval_blast :: "pystr list"
  cp_approval_downtime_minutes :: int
  cp_cascading_requires_approval :: bool

record decision_rule =
  ru_id :: pystr
  ru_condition :: pystr
  ru_outcome :: pystr

record action_policy =
  ay_action_type :: action_type
  ay_reversible :: bool
  ay_allowed_target_types :: "pystr list"
  ay_required_authority :: pystr
  ay_tier_0_required_authority :: pystr
  ay_maximum_duration_seconds :: int
  ay_preserve_management_required :: bool
  ay_human_approval_criticalities :: "pystr list"

record target_record =
  tr_id :: pystr
  tr_type :: pystr
  tr_criticality :: pystr
  tr_classification :: pystr
  tr_dependencies :: "pystr list"
  tr_isolation_consequence :: pystr
  tr_estimated_downtime_minutes :: int
  tr_blast_radius :: pystr
  tr_mission_impact :: pystr
  tr_safety_impact :: pystr
  tr_availability_impact :: pystr
  tr_human_approval_required :: bool

record policy =
  po_schema_version :: pystr
  po_policy_id :: pystr
  po_version :: pystr
  po_evidence :: evidence_rules
  po_consequence :: consequence_policy
  po_decision_rules :: "decision_rule list"
  po_action_catalog :: "(pystr \<times> action_policy) list"
  po_target_inventory :: "(pystr \<times> target_record) list"
  po_authorization_ttl_seconds :: int
  po_authorization_single_use :: bool
  po_approval_ttl_seconds :: int

subsection \<open>Decoders\<close>

definition item :: "(pystr \<times> 'a) list \<Rightarrow> pystr \<Rightarrow> (reason, 'a) result" where
  "item m k = (case map_of m k of Some v \<Rightarrow> Inr v | None \<Rightarrow> Inl ''KeyError'')"

text \<open>\<open>{name: f(name, row) for name, row in value.items()}\<close>.\<close>

definition as_map :: "(pystr \<Rightarrow> json \<Rightarrow> (reason, 'a) result) \<Rightarrow> json \<Rightarrow> (reason, (pystr \<times> 'a) list) result" where
  "as_map f v =
     (case v of
        JObj kvs \<Rightarrow> map_result (\<lambda>(k, x). and_then (f k x) (\<lambda>y. Inr (k, y))) kvs
      | _ \<Rightarrow> Inl ''AttributeError'')"

definition as_weights :: "json \<Rightarrow> (reason, (pystr \<times> rat) list) result" where
  "as_weights = as_map (\<lambda>_. as_float)"

definition trusted_source_from_dict :: "json \<Rightarrow> (reason, trusted_source) result" where
  "trusted_source_from_dict v =
     and_then (get_as as_str ''source_type'' v) (\<lambda>ty.
     and_then (get_as as_float ''reliability'' v) (\<lambda>re.
     and_then (get_as as_str ''trust_level'' v) (\<lambda>tl.
     Inr \<lparr>ts_source_type = ty, ts_reliability = re, ts_trust_level = tl\<rparr>)))"

definition evidence_rules_from_dict :: "json \<Rightarrow> (reason, evidence_rules) result" where
  "evidence_rules_from_dict v =
     and_then (get_as as_str ''hypothesis_claim'' v) (\<lambda>hy.
     and_then (get_as as_int ''maximum_age_seconds'' v) (\<lambda>ma.
     and_then (get_as as_float ''minimum_reliability'' v) (\<lambda>mr.
     and_then (get_as as_float ''minimum_relevance'' v) (\<lambda>mv.
     and_then (get_as as_float ''minimum_overall_strength_for_allow'' v) (\<lambda>ms.
     and_then (get_as as_int ''minimum_corroborating_sources'' v) (\<lambda>mc.
     and_then (get_as as_int ''maximum_conflicts_for_allow'' v) (\<lambda>mx.
     and_then (get_as as_weights ''trust_weights'' v) (\<lambda>tw.
     and_then (get_as (as_map (\<lambda>_. as_list as_str)) ''required_source_types_by_action'' v) (\<lambda>rs.
     and_then (get_as (as_map (\<lambda>_. trusted_source_from_dict)) ''trusted_sources'' v) (\<lambda>ts.
     Inr \<lparr>er_hypothesis_claim = hy, er_maximum_age_seconds = ma, er_minimum_reliability = mr,
          er_minimum_relevance = mv, er_minimum_strength = ms, er_minimum_sources = mc,
          er_maximum_conflicts = mx, er_trust_weights = tw, er_required_sources = rs,
          er_trusted_sources = ts\<rparr>))))))))))"

definition consequence_policy_from_dict :: "json \<Rightarrow> (reason, consequence_policy) result" where
  "consequence_policy_from_dict v =
     and_then (get_as as_weights ''factor_weights'' v) (\<lambda>fw.
     and_then (get_as as_weights ''criticality_weights'' v) (\<lambda>cw.
     and_then (get_as as_weights ''blast_radius_weights'' v) (\<lambda>bw.
     and_then (get_as as_weights ''impact_weights'' v) (\<lambda>iw.
     and_then (get_as as_int ''downtime_reference_minutes'' v) (\<lambda>dr.
     and_then (get_as as_int ''dependency_reference_count'' v) (\<lambda>dc.
     and_then (get_as as_float ''irreversible_penalty'' v) (\<lambda>ip.
     and_then (get_as as_float ''high_threshold'' v) (\<lambda>ht.
     and_then (get_as as_float ''critical_threshold'' v) (\<lambda>ct.
     and_then (get_as (as_list as_str) ''approval_levels'' v) (\<lambda>al.
     and_then (get_as (as_list as_str) ''approval_isolation_consequences'' v) (\<lambda>ai.
     and_then (get_as (as_list as_str) ''approval_mission_impacts'' v) (\<lambda>am.
     and_then (get_as (as_list as_str) ''approval_safety_impacts'' v) (\<lambda>as.
     and_then (get_as (as_list as_str) ''approval_availability_impacts'' v) (\<lambda>aa.
     and_then (get_as (as_list as_str) ''approval_blast_radii'' v) (\<lambda>ab.
     and_then (get_as as_int ''approval_downtime_minutes'' v) (\<lambda>ad.
     and_then (get_as as_bool ''cascading_requires_approval'' v) (\<lambda>ca.
     Inr \<lparr>cp_factor_weights = fw, cp_criticality_weights = cw, cp_blast_radius_weights = bw,
          cp_impact_weights = iw, cp_downtime_reference_minutes = dr,
          cp_dependency_reference_count = dc, cp_irreversible_penalty = ip,
          cp_high_threshold = ht, cp_critical_threshold = ct, cp_approval_levels = al,
          cp_approval_isolation = ai, cp_approval_mission = am, cp_approval_safety = as,
          cp_approval_availability = aa, cp_approval_blast = ab,
          cp_approval_downtime_minutes = ad, cp_cascading_requires_approval = ca\<rparr>)))))))))))))))))"

definition decision_rule_from_dict :: "json \<Rightarrow> (reason, decision_rule) result" where
  "decision_rule_from_dict v =
     and_then (get_as as_str ''id'' v) (\<lambda>i.
     and_then (get_as as_str ''condition'' v) (\<lambda>c.
     and_then (get_as as_str ''outcome'' v) (\<lambda>o'.
     Inr \<lparr>ru_id = i, ru_condition = c, ru_outcome = o'\<rparr>)))"

definition action_policy_from_dict :: "pystr \<Rightarrow> json \<Rightarrow> (reason, action_policy) result" where
  "action_policy_from_dict name v =
     and_then (enum_of action_type_value [NetworkIsolate] (JStr name)) (\<lambda>ty.
     and_then (get_as as_bool ''reversible'' v) (\<lambda>re.
     and_then (get_as (as_list as_str) ''allowed_target_types'' v) (\<lambda>al.
     and_then (get_as as_str ''required_authority'' v) (\<lambda>ra.
     and_then (get_as as_str ''tier_0_required_authority'' v) (\<lambda>ta.
     and_then (get_as as_int ''maximum_duration_seconds'' v) (\<lambda>md.
     and_then (get_as as_bool ''preserve_management_required'' v) (\<lambda>pm.
     and_then (get_as (as_list as_str) ''human_approval_criticalities'' v) (\<lambda>hc.
     Inr \<lparr>ay_action_type = ty, ay_reversible = re, ay_allowed_target_types = al,
          ay_required_authority = ra, ay_tier_0_required_authority = ta,
          ay_maximum_duration_seconds = md, ay_preserve_management_required = pm,
          ay_human_approval_criticalities = hc\<rparr>))))))))"

definition target_record_from_dict :: "pystr \<Rightarrow> json \<Rightarrow> (reason, target_record) result" where
  "target_record_from_dict target_id v =
     and_then (get_as as_str ''type'' v) (\<lambda>ty.
     and_then (get_as as_str ''criticality'' v) (\<lambda>cr.
     and_then (get_as as_str ''classification'' v) (\<lambda>cl.
     and_then (get_as (as_list as_str) ''dependencies'' v) (\<lambda>de.
     and_then (get_as as_str ''isolation_consequence'' v) (\<lambda>ic.
     and_then (get_as as_int ''estimated_downtime_minutes'' v) (\<lambda>dt.
     and_then (get_as as_str ''blast_radius'' v) (\<lambda>br.
     and_then (get_as as_str ''mission_impact'' v) (\<lambda>mi.
     and_then (get_as as_str ''safety_impact'' v) (\<lambda>si.
     and_then (get_as as_str ''availability_impact'' v) (\<lambda>ai.
     and_then (get_as as_bool ''human_approval_required'' v) (\<lambda>ha.
     Inr \<lparr>tr_id = target_id, tr_type = ty, tr_criticality = cr, tr_classification = cl,
          tr_dependencies = de, tr_isolation_consequence = ic, tr_estimated_downtime_minutes = dt,
          tr_blast_radius = br, tr_mission_impact = mi, tr_safety_impact = si,
          tr_availability_impact = ai, tr_human_approval_required = ha\<rparr>)))))))))))"

subsection \<open>Dictionary form\<close>

definition map_to_dict :: "('a \<Rightarrow> json) \<Rightarrow> (pystr \<times> 'a) list \<Rightarrow> json" where
  "map_to_dict f m = JObj (map (\<lambda>(k, x). (k, f x)) m)"

definition trusted_source_to_dict :: "trusted_source \<Rightarrow> json" where
  "trusted_source_to_dict s = JObj
     [(''source_type'', JStr (ts_source_type s)), (''reliability'', JFloat (ts_reliability s)),
      (''trust_level'', JStr (ts_trust_level s))]"

definition evidence_rules_to_dict :: "evidence_rules \<Rightarrow> json" where
  "evidence_rules_to_dict e = JObj
     [(''hypothesis_claim'', JStr (er_hypothesis_claim e)),
      (''maximum_age_seconds'', JInt (er_maximum_age_seconds e)),
      (''minimum_reliability'', JFloat (er_minimum_reliability e)),
      (''minimum_relevance'', JFloat (er_minimum_relevance e)),
      (''minimum_overall_strength_for_allow'', JFloat (er_minimum_strength e)),
      (''minimum_corroborating_sources'', JInt (er_minimum_sources e)),
      (''maximum_conflicts_for_allow'', JInt (er_maximum_conflicts e)),
      (''trust_weights'', map_to_dict JFloat (er_trust_weights e)),
      (''required_source_types_by_action'', map_to_dict jstrs (er_required_sources e)),
      (''trusted_sources'', map_to_dict trusted_source_to_dict (er_trusted_sources e))]"

definition consequence_policy_to_dict :: "consequence_policy \<Rightarrow> json" where
  "consequence_policy_to_dict c = JObj
     [(''factor_weights'', map_to_dict JFloat (cp_factor_weights c)),
      (''criticality_weights'', map_to_dict JFloat (cp_criticality_weights c)),
      (''blast_radius_weights'', map_to_dict JFloat (cp_blast_radius_weights c)),
      (''impact_weights'', map_to_dict JFloat (cp_impact_weights c)),
      (''downtime_reference_minutes'', JInt (cp_downtime_reference_minutes c)),
      (''dependency_reference_count'', JInt (cp_dependency_reference_count c)),
      (''irreversible_penalty'', JFloat (cp_irreversible_penalty c)),
      (''high_threshold'', JFloat (cp_high_threshold c)),
      (''critical_threshold'', JFloat (cp_critical_threshold c)),
      (''approval_levels'', jstrs (cp_approval_levels c)),
      (''approval_isolation_consequences'', jstrs (cp_approval_isolation c)),
      (''approval_mission_impacts'', jstrs (cp_approval_mission c)),
      (''approval_safety_impacts'', jstrs (cp_approval_safety c)),
      (''approval_availability_impacts'', jstrs (cp_approval_availability c)),
      (''approval_blast_radii'', jstrs (cp_approval_blast c)),
      (''approval_downtime_minutes'', JInt (cp_approval_downtime_minutes c)),
      (''cascading_requires_approval'', JBool (cp_cascading_requires_approval c))]"

definition decision_rule_to_dict :: "decision_rule \<Rightarrow> json" where
  "decision_rule_to_dict r = JObj
     [(''id'', JStr (ru_id r)), (''condition'', JStr (ru_condition r)), (''outcome'', JStr (ru_outcome r))]"

definition action_policy_to_dict :: "action_policy \<Rightarrow> json" where
  "action_policy_to_dict a = JObj
     [(''reversible'', JBool (ay_reversible a)),
      (''allowed_target_types'', jstrs (ay_allowed_target_types a)),
      (''required_authority'', JStr (ay_required_authority a)),
      (''tier_0_required_authority'', JStr (ay_tier_0_required_authority a)),
      (''maximum_duration_seconds'', JInt (ay_maximum_duration_seconds a)),
      (''preserve_management_required'', JBool (ay_preserve_management_required a)),
      (''human_approval_criticalities'', jstrs (ay_human_approval_criticalities a))]"

definition target_record_to_dict :: "target_record \<Rightarrow> json" where
  "target_record_to_dict t = JObj
     [(''type'', JStr (tr_type t)), (''criticality'', JStr (tr_criticality t)),
      (''classification'', JStr (tr_classification t)), (''dependencies'', jstrs (tr_dependencies t)),
      (''isolation_consequence'', JStr (tr_isolation_consequence t)),
      (''estimated_downtime_minutes'', JInt (tr_estimated_downtime_minutes t)),
      (''blast_radius'', JStr (tr_blast_radius t)), (''mission_impact'', JStr (tr_mission_impact t)),
      (''safety_impact'', JStr (tr_safety_impact t)),
      (''availability_impact'', JStr (tr_availability_impact t)),
      (''human_approval_required'', JBool (tr_human_approval_required t))]"

definition policy_to_dict :: "policy \<Rightarrow> json" where
  "policy_to_dict p = JObj
     [(''schema_version'', JStr (po_schema_version p)), (''policy_id'', JStr (po_policy_id p)),
      (''version'', JStr (po_version p)), (''evidence'', evidence_rules_to_dict (po_evidence p)),
      (''consequence'', consequence_policy_to_dict (po_consequence p)),
      (''decision_rules'', JList (map decision_rule_to_dict (po_decision_rules p))),
      (''action_catalog'', map_to_dict action_policy_to_dict (po_action_catalog p)),
      (''target_inventory'', map_to_dict target_record_to_dict (po_target_inventory p)),
      (''authorization'', JObj [(''ttl_seconds'', JInt (po_authorization_ttl_seconds p)),
                              (''single_use'', JBool (po_authorization_single_use p))]),
      (''approval'', JObj [(''ttl_seconds'', JInt (po_approval_ttl_seconds p))])]"

subsection \<open>Safety invariants\<close>

text \<open>
  \<open>_validate_policy_safety_invariants\<close>. The checks read the value through the same conversions as
  the decoders, in the order of the source; every refusal has the one reason code.
\<close>

definition safety :: "bool \<Rightarrow> (reason, unit) result" where
  "safety c = require c ''POLICY_SAFETY_INVARIANT''"

lemma safety_Inr [simp]: "safety c = Inr u \<longleftrightarrow> c"
  by (simp add: safety_def)

definition check_evidence_safety :: "evidence_rules \<Rightarrow> (reason, unit) result" where
  "check_evidence_safety e =
     and_then (safety (er_hypothesis_claim e = ''COMPROMISE'')) (\<lambda>_.
     and_then (map_result (item (er_trust_weights e)) [''HIGH'', ''MEDIUM'', ''LOW'', ''UNTRUSTED'']) (\<lambda>ws.
     and_then (safety (ws ! 0 > ws ! 1 \<and> ws ! 1 > ws ! 2 \<and> ws ! 2 > ws ! 3 \<and> ws ! 3 = 0)) (\<lambda>_.
     and_then (safety (\<not> (er_minimum_reliability e < 1 / 2 \<or> er_minimum_relevance e \<le> 0
                \<or> er_minimum_strength e < 1 / 2 \<or> er_minimum_sources e < 2
                \<or> er_maximum_conflicts e \<noteq> 0))) (\<lambda>_.
     safety (\<not> list_ex (\<lambda>(_, s). ts_trust_level s = ''UNTRUSTED''
                \<or> ts_reliability s < er_minimum_reliability e) (er_trusted_sources e))))))"

definition strictly_increasing :: "(pystr \<times> rat) list \<Rightarrow> pystr list \<Rightarrow> (reason, bool) result" where
  "strictly_increasing mapping order =
     and_then (map_result (item mapping) order) (\<lambda>values.
     Inr (list_all (\<lambda>(left, right). left < right) (zip values (tl values))))"

definition subset_of :: "pystr list \<Rightarrow> pystr list \<Rightarrow> bool" where
  "subset_of xs ys = list_all (\<lambda>x. x \<in> set ys) xs"

definition check_consequence_safety :: "consequence_policy \<Rightarrow> (reason, unit) result" where
  "check_consequence_safety c =
     and_then (strictly_increasing (cp_criticality_weights c) [''LOW'', ''MEDIUM'', ''HIGH'', ''TIER_0'']) (\<lambda>a.
     and_then (strictly_increasing (cp_blast_radius_weights c) [''LOCAL'', ''SERVICE'', ''ENTERPRISE'']) (\<lambda>b.
     and_then (strictly_increasing (cp_impact_weights c)
       [''NONE'', ''LOW'', ''MEDIUM'', ''HIGH'', ''CRITICAL'']) (\<lambda>d.
     and_then (safety (\<not> (\<not> a \<or> \<not> b \<or> \<not> d))) (\<lambda>_.
     and_then (safety (\<not> list_ex (\<lambda>(_, weight). weight \<le> 0) (cp_factor_weights c))) (\<lambda>_.
     and_then (safety (\<not> cp_high_threshold c \<ge> cp_critical_threshold c)) (\<lambda>_.
     and_then (safety (cp_cascading_requires_approval c)) (\<lambda>_.
     and_then (safety (subset_of [''HIGH'', ''CRITICAL''] (cp_approval_levels c))) (\<lambda>_.
     and_then (safety (subset_of [''HIGH'', ''CRITICAL''] (cp_approval_isolation c))) (\<lambda>_.
     safety (\<not> (\<not> subset_of [''CRITICAL''] (cp_approval_mission c)
               \<or> \<not> subset_of [''HIGH''] (cp_approval_safety c)
               \<or> \<not> subset_of [''CRITICAL''] (cp_approval_availability c)
               \<or> \<not> subset_of [''ENTERPRISE''] (cp_approval_blast c)
               \<or> cp_approval_downtime_minutes c > 60)))))))))))"

definition required_rule_sequence :: "(pystr \<times> pystr) list" where
  "required_rule_sequence =
     [(''IDENTITY_FATAL'', ''DENY''), (''EVIDENCE_FATAL'', ''DENY''),
      (''TARGET_TYPE_PROHIBITED'', ''DENY''), (''TARGET_TIER_0'', ''ESCALATE''),
      (''CONSEQUENCE_REQUIRES_APPROVAL'', ''ESCALATE''), (''AUTHORITY_INSUFFICIENT'', ''DENY''),
      (''EVIDENCE_NOT_AUTOMATION_GRADE'', ''ESCALATE''),
      (''PARAMETER_CONSTRAINTS_PRESENT'', ''ALLOW_CONSTRAINED''), (''DEFAULT'', ''ALLOW'')]"

definition check_rules_safety :: "decision_rule list \<Rightarrow> (reason, unit) result" where
  "check_rules_safety rules =
     and_then (safety (map (\<lambda>r. (ru_condition r, ru_outcome r)) rules = required_rule_sequence)) (\<lambda>_.
     safety (distinct (map ru_id rules)))"

definition check_catalog_safety :: "(pystr \<times> action_policy) list \<Rightarrow> (reason, unit) result" where
  "check_catalog_safety catalog =
     and_then (item catalog (action_type_value NetworkIsolate)) (\<lambda>action.
     and_then (safety (\<not> (\<not> ay_reversible action \<or> \<not> ay_preserve_management_required action))) (\<lambda>_.
     safety (subset_of [''HIGH'', ''TIER_0''] (ay_human_approval_criticalities action))))"

definition check_inventory_safety :: "(pystr \<times> target_record) list \<Rightarrow> (reason, unit) result" where
  "check_inventory_safety inventory =
     and_then (for_each (\<lambda>(_, target). safety (\<not> (tr_type target = ''DOMAIN_CONTROLLER''
         \<and> (tr_criticality target \<noteq> ''TIER_0'' \<or> \<not> tr_human_approval_required target
            \<or> tr_isolation_consequence target \<notin> set [''HIGH'', ''CRITICAL'']
            \<or> ''AUTHENTICATION_SERVICE'' \<notin> set (tr_dependencies target))))) inventory) (\<lambda>_.
     and_then (item inventory ''WORKSTATION_042'') (\<lambda>workstation.
     safety (\<not> (tr_type workstation \<noteq> ''WORKSTATION'' \<or> tr_criticality workstation \<noteq> ''LOW''))))"

definition check_source_coverage :: "evidence_rules \<Rightarrow> (reason, unit) result" where
  "check_source_coverage e =
     and_then (item (er_required_sources e) (action_type_value NetworkIsolate)) (\<lambda>required.
     safety (subset_of required (map (\<lambda>(_, s). ts_source_type s) (er_trusted_sources e))))"

definition check_policy_safety :: "policy \<Rightarrow> (reason, unit) result" where
  "check_policy_safety p =
     and_then (check_evidence_safety (po_evidence p)) (\<lambda>_.
     and_then (check_consequence_safety (po_consequence p)) (\<lambda>_.
     and_then (check_rules_safety (po_decision_rules p)) (\<lambda>_.
     and_then (check_catalog_safety (po_action_catalog p)) (\<lambda>_.
     and_then (check_inventory_safety (po_target_inventory p)) (\<lambda>_.
     check_source_coverage (po_evidence p))))))"

subsection \<open>Loading\<close>

definition policy_schema_version :: pystr where
  "policy_schema_version = ''0.3.0''"

definition build_policy :: "json \<Rightarrow> (reason, policy) result" where
  "build_policy v =
     and_then (get_as as_str ''schema_version'' v) (\<lambda>sv.
     and_then (get_as as_str ''policy_id'' v) (\<lambda>i.
     and_then (get_as as_str ''version'' v) (\<lambda>ve.
     and_then (get_as evidence_rules_from_dict ''evidence'' v) (\<lambda>ev.
     and_then (get_as consequence_policy_from_dict ''consequence'' v) (\<lambda>co.
     and_then (get_as (as_list decision_rule_from_dict) ''decision_rules'' v) (\<lambda>ru.
     and_then (get_as (as_map action_policy_from_dict) ''action_catalog'' v) (\<lambda>ac.
     and_then (get_as (as_map target_record_from_dict) ''target_inventory'' v) (\<lambda>ti.
     and_then (get_as (get_as as_int ''ttl_seconds'') ''authorization'' v) (\<lambda>att.
     and_then (get_as (get_as as_bool ''single_use'') ''authorization'' v) (\<lambda>su.
     and_then (get_as (get_as as_int ''ttl_seconds'') ''approval'' v) (\<lambda>pt.
     Inr \<lparr>po_schema_version = sv, po_policy_id = i, po_version = ve, po_evidence = ev,
          po_consequence = co, po_decision_rules = ru, po_action_catalog = ac,
          po_target_inventory = ti, po_authorization_ttl_seconds = att,
          po_authorization_single_use = su, po_approval_ttl_seconds = pt\<rparr>)))))))))))"

definition policy_from_dict :: "(json \<Rightarrow> bool) \<Rightarrow> json \<Rightarrow> (reason, policy) result" where
  "policy_from_dict schema_ok v =
     (case v of
        JObj kvs \<Rightarrow>
          and_then (require (case map_of kvs ''schema_version'' of
              None \<Rightarrow> True | Some sv \<Rightarrow> sv = JStr policy_schema_version) ''UNSUPPORTED_POLICY_VERSION'') (\<lambda>_.
          and_then (require (schema_ok v) ''POLICY_SCHEMA_INVALID'') (\<lambda>_.
          and_then (build_policy v) (\<lambda>p.
          and_then (check_policy_safety p) (\<lambda>_. Inr p))))
      | _ \<Rightarrow> Inl ''POLICY_NOT_OBJECT'')"

text \<open>\<open>immutable_snapshot\<close>: validate the dictionary form again.\<close>

definition immutable_snapshot :: "(json \<Rightarrow> bool) \<Rightarrow> policy \<Rightarrow> (reason, policy) result" where
  "immutable_snapshot schema_ok p = policy_from_dict schema_ok (policy_to_dict p)"

subsection \<open>What a loaded policy guarantees\<close>

definition policy_safe :: "policy \<Rightarrow> bool" where
  "policy_safe p \<longleftrightarrow> check_policy_safety p = Inr ()"

lemma policy_from_dict_safe: "policy_from_dict schema_ok v = Inr p \<Longrightarrow> policy_safe p"
  by (auto simp: policy_from_dict_def policy_safe_def split: json.splits)

lemma policy_safe_rules:
  "policy_safe p \<Longrightarrow> map (\<lambda>r. (ru_condition r, ru_outcome r)) (po_decision_rules p) = required_rule_sequence
     \<and> distinct (map ru_id (po_decision_rules p))"
  by (simp add: policy_safe_def check_policy_safety_def check_rules_safety_def)

lemma policy_safe_consequence:
  assumes "policy_safe p"
  shows "cp_high_threshold (po_consequence p) < cp_critical_threshold (po_consequence p)"
    "cp_cascading_requires_approval (po_consequence p)"
    "''HIGH'' \<in> set (cp_approval_levels (po_consequence p))"
    "''CRITICAL'' \<in> set (cp_approval_levels (po_consequence p))"
    "''HIGH'' \<in> set (cp_approval_isolation (po_consequence p))"
    "''CRITICAL'' \<in> set (cp_approval_isolation (po_consequence p))"
    "cp_approval_downtime_minutes (po_consequence p) \<le> 60"
    "\<forall>w \<in> set (cp_factor_weights (po_consequence p)). 0 < snd w"
  using assms
  by (auto simp: policy_safe_def check_policy_safety_def check_consequence_safety_def subset_of_def
      list_ex_iff not_le)

lemma policy_safe_evidence:
  assumes "policy_safe p"
  shows "1 / 2 \<le> er_minimum_strength (po_evidence p)" "2 \<le> er_minimum_sources (po_evidence p)"
    "er_maximum_conflicts (po_evidence p) = 0" "er_hypothesis_claim (po_evidence p) = ''COMPROMISE''"
    "1 / 2 \<le> er_minimum_reliability (po_evidence p)" "0 < er_minimum_relevance (po_evidence p)"
    "\<forall>s \<in> set (er_trusted_sources (po_evidence p)).
       er_minimum_reliability (po_evidence p) \<le> ts_reliability (snd s) \<and> ts_trust_level (snd s) \<noteq> ''UNTRUSTED''"
    "map_of (er_trust_weights (po_evidence p)) ''UNTRUSTED'' = Some 0"
  using assms
  by (auto simp: policy_safe_def check_policy_safety_def check_evidence_safety_def list_ex_iff not_less not_le
      item_def split: option.splits)

lemma policy_safe_action:
  assumes "policy_safe p" "map_of (po_action_catalog p) ''NETWORK_ISOLATE'' = Some a"
  shows "ay_reversible a" "ay_preserve_management_required a"
    "''HIGH'' \<in> set (ay_human_approval_criticalities a)" "''TIER_0'' \<in> set (ay_human_approval_criticalities a)"
  using assms
  by (auto simp: policy_safe_def check_policy_safety_def check_catalog_safety_def item_def subset_of_def)

lemma policy_safe_controller:
  assumes "policy_safe p" "(k, t) \<in> set (po_target_inventory p)" "tr_type t = ''DOMAIN_CONTROLLER''"
  shows "tr_criticality t = ''TIER_0''" "tr_human_approval_required t"
    "''AUTHENTICATION_SERVICE'' \<in> set (tr_dependencies t)"
  using assms
  by (auto simp: policy_safe_def check_policy_safety_def check_inventory_safety_def for_each_Inr
      dest: bspec [where x = "(k, t)"])

subsection \<open>Decoding inverts encoding\<close>

lemma as_map_to_dict:
  "(\<And>k x. (k, x) \<in> set m \<Longrightarrow> f k (g x) = Inr x) \<Longrightarrow> as_map f (map_to_dict g m) = Inr m"
  by (induction m) (auto simp: as_map_def map_to_dict_def)

lemma as_weights_to_dict [simp]: "as_weights (map_to_dict JFloat m) = Inr m"
  by (simp add: as_weights_def as_map_to_dict as_float_def)

lemma evidence_rules_roundtrip [simp]: "evidence_rules_from_dict (evidence_rules_to_dict e) = Inr e"
  by (simp add: evidence_rules_from_dict_def evidence_rules_to_dict_def decode_defs as_map_to_dict
      trusted_source_from_dict_def trusted_source_to_dict_def)

lemma consequence_policy_roundtrip [simp]:
  "consequence_policy_from_dict (consequence_policy_to_dict c) = Inr c"
  by (simp add: consequence_policy_from_dict_def consequence_policy_to_dict_def decode_defs)

lemma decision_rule_roundtrip [simp]: "decision_rule_from_dict (decision_rule_to_dict r) = Inr r"
  by (simp add: decision_rule_from_dict_def decision_rule_to_dict_def decode_defs)

lemma action_policy_roundtrip:
  "k = action_type_value (ay_action_type a) \<Longrightarrow> action_policy_from_dict k (action_policy_to_dict a) = Inr a"
  by (simp add: action_policy_from_dict_def action_policy_to_dict_def decode_defs)

lemma target_record_roundtrip: "target_record_from_dict (tr_id t) (target_record_to_dict t) = Inr t"
  by (simp add: target_record_from_dict_def target_record_to_dict_def decode_defs)

text \<open>A policy names each action by its type and each target by its identifier.\<close>

definition policy_keyed :: "policy \<Rightarrow> bool" where
  "policy_keyed p \<longleftrightarrow>
     list_all (\<lambda>(k, a). k = action_type_value (ay_action_type a)) (po_action_catalog p)
     \<and> list_all (\<lambda>(k, t). k = tr_id t) (po_target_inventory p)"

lemma build_policy_roundtrip:
  assumes "policy_keyed p"
  shows "build_policy (policy_to_dict p) = Inr p"
proof -
  have "as_map action_policy_from_dict (map_to_dict action_policy_to_dict (po_action_catalog p))
      = Inr (po_action_catalog p)"
    using assms by (intro as_map_to_dict action_policy_roundtrip) (auto simp: policy_keyed_def list_all_iff)
  moreover have "as_map target_record_from_dict (map_to_dict target_record_to_dict (po_target_inventory p))
      = Inr (po_target_inventory p)"
  proof (rule as_map_to_dict)
    fix k t assume "(k, t) \<in> set (po_target_inventory p)"
    then have "k = tr_id t" using assms by (auto simp: policy_keyed_def list_all_iff)
    then show "target_record_from_dict k (target_record_to_dict t) = Inr t"
      by (simp add: target_record_roundtrip)
  qed
  ultimately show ?thesis
    by (simp add: build_policy_def policy_to_dict_def decode_defs as_list_def map_result_map)
qed

lemma target_record_from_dict_id: "target_record_from_dict k v = Inr t \<Longrightarrow> tr_id t = k"
  by (auto simp: target_record_from_dict_def)

lemma action_policy_from_dict_key:
  "action_policy_from_dict k v = Inr a \<Longrightarrow> k = action_type_value (ay_action_type a)"
  by (auto simp: action_policy_from_dict_def enum_of_def split: option.splits if_splits)

lemma as_map_keys:
  "as_map f v = Inr m \<Longrightarrow> (\<And>k x y. f k x = Inr y \<Longrightarrow> P k y) \<Longrightarrow> list_all (\<lambda>(k, y). P k y) m"
proof -
  assume *: "as_map f v = Inr m" "\<And>k x y. f k x = Inr y \<Longrightarrow> P k y"
  then obtain kvs where v: "v = JObj kvs" by (auto simp: as_map_def split: json.splits)
  have "map_result (\<lambda>(k, x). and_then (f k x) (\<lambda>y. Inr (k, y))) kvs = Inr m \<Longrightarrow> list_all (\<lambda>(k, y). P k y) m"
    for m using *(2) by (induction kvs arbitrary: m) auto
  with *(1) v show ?thesis by (simp add: as_map_def)
qed

lemma build_policy_keyed: "build_policy v = Inr p \<Longrightarrow> policy_keyed p"
proof -
  assume "build_policy v = Inr p"
  then obtain x y where
    "as_map action_policy_from_dict x = Inr (po_action_catalog p)"
    "as_map target_record_from_dict y = Inr (po_target_inventory p)"
    by (auto simp: build_policy_def get_as_def)
  then show ?thesis
    unfolding policy_keyed_def
    using as_map_keys [of action_policy_from_dict _ _ "\<lambda>k a. k = action_type_value (ay_action_type a)"]
      as_map_keys [of target_record_from_dict _ _ "\<lambda>k t. k = tr_id t"]
      action_policy_from_dict_key target_record_from_dict_id by blast
qed

subsection \<open>Properties\<close>

text \<open>The snapshot the firewall takes of its policy is exact: a policy that was loaded, written back
  and loaded again is the same policy, whenever the schema accepts its dictionary form.\<close>

theorem policy_snapshot_exact:
  assumes "policy_from_dict schema_ok v = Inr p" "schema_ok (policy_to_dict p)"
  shows "immutable_snapshot schema_ok p = Inr p"
proof -
  obtain kvs where v: "v = JObj kvs" and p: "build_policy v = Inr p" "check_policy_safety p = Inr ()"
    using assms(1) by (auto simp: policy_from_dict_def split: json.splits)
  have "po_schema_version p = policy_schema_version"
    using assms(1) p unfolding v
    by (auto simp: policy_from_dict_def build_policy_def get_as_def as_str_def split: option.splits)
  then have "map_of [(''schema_version'', JStr (po_schema_version p))] ''schema_version''
      = Some (JStr policy_schema_version)" by simp
  moreover have "build_policy (policy_to_dict p) = Inr p"
    by (rule build_policy_roundtrip [OF build_policy_keyed [OF p(1)]])
  ultimately show ?thesis
    using assms(2) p(2) by (simp add: immutable_snapshot_def policy_from_dict_def policy_to_dict_def)
qed

definition sample_target :: "pystr \<Rightarrow> target_record" where
  "sample_target name =
     \<lparr>tr_id = name, tr_type = ''WORKSTATION'', tr_criticality = ''LOW'', tr_classification = ''INTERNAL'',
      tr_dependencies = [], tr_isolation_consequence = ''LOW'', tr_estimated_downtime_minutes = 5,
      tr_blast_radius = ''LOCAL'', tr_mission_impact = ''LOW'', tr_safety_impact = ''NONE'',
      tr_availability_impact = ''LOW'', tr_human_approval_required = False\<rparr>"

definition sample_controller :: target_record where
  "sample_controller =
     \<lparr>tr_id = ''DOMAIN_CONTROLLER_01'', tr_type = ''DOMAIN_CONTROLLER'', tr_criticality = ''TIER_0'',
      tr_classification = ''RESTRICTED'', tr_dependencies = [''AUTHENTICATION_SERVICE''],
      tr_isolation_consequence = ''CRITICAL'', tr_estimated_downtime_minutes = 60,
      tr_blast_radius = ''ENTERPRISE'', tr_mission_impact = ''CRITICAL'', tr_safety_impact = ''MEDIUM'',
      tr_availability_impact = ''CRITICAL'', tr_human_approval_required = True\<rparr>"

definition sample_source :: "pystr \<Rightarrow> trusted_source" where
  "sample_source ty = \<lparr>ts_source_type = ty, ts_reliability = fl (9 / 10), ts_trust_level = ''HIGH''\<rparr>"

definition sample_policy :: policy where
  "sample_policy =
     \<lparr>po_schema_version = ''0.3.0'', po_policy_id = ''soc-policy'', po_version = ''0.3.0'',
      po_evidence =
        \<lparr>er_hypothesis_claim = ''COMPROMISE'', er_maximum_age_seconds = 900,
         er_minimum_reliability = fl (6 / 10), er_minimum_relevance = 1 / 2, er_minimum_strength = fl (6 / 10),
         er_minimum_sources = 2, er_maximum_conflicts = 0,
         er_trust_weights = [(''HIGH'', 1), (''MEDIUM'', 3 / 4), (''LOW'', 1 / 4), (''UNTRUSTED'', 0)],
         er_required_sources = [(''NETWORK_ISOLATE'', [''EDR'', ''SIEM''])],
         er_trusted_sources = [(''edr-1'', sample_source ''EDR''), (''siem-1'', sample_source ''SIEM'')]\<rparr>,
      po_consequence =
        \<lparr>cp_factor_weights = [(''criticality'', 1 / 4), (''blast_radius'', 1 / 8), (''downtime'', 1 / 8),
           (''mission_impact'', 1 / 8), (''safety_impact'', 1 / 8), (''availability_impact'', 1 / 8),
           (''dependency'', 1 / 16), (''isolation_consequence'', 1 / 16)],
         cp_criticality_weights = [(''LOW'', 0), (''MEDIUM'', 1 / 4), (''HIGH'', 1 / 2), (''TIER_0'', 1)],
         cp_blast_radius_weights = [(''LOCAL'', 0), (''SERVICE'', 1 / 2), (''ENTERPRISE'', 1)],
         cp_impact_weights = [(''NONE'', 0), (''LOW'', 1 / 8), (''MEDIUM'', 1 / 4), (''HIGH'', 1 / 2), (''CRITICAL'', 1)],
         cp_downtime_reference_minutes = 120, cp_dependency_reference_count = 4,
         cp_irreversible_penalty = 1 / 4, cp_high_threshold = 1 / 2, cp_critical_threshold = 3 / 4,
         cp_approval_levels = [''HIGH'', ''CRITICAL''], cp_approval_isolation = [''HIGH'', ''CRITICAL''],
         cp_approval_mission = [''CRITICAL''], cp_approval_safety = [''HIGH''],
         cp_approval_availability = [''CRITICAL''], cp_approval_blast = [''ENTERPRISE''],
         cp_approval_downtime_minutes = 60, cp_cascading_requires_approval = True\<rparr>,
      po_decision_rules = map (\<lambda>(i, c, o'). \<lparr>ru_id = i, ru_condition = c, ru_outcome = o'\<rparr>)
        [(''R1'', ''IDENTITY_FATAL'', ''DENY''), (''R2'', ''EVIDENCE_FATAL'', ''DENY''),
         (''R3'', ''TARGET_TYPE_PROHIBITED'', ''DENY''), (''R4'', ''TARGET_TIER_0'', ''ESCALATE''),
         (''R5'', ''CONSEQUENCE_REQUIRES_APPROVAL'', ''ESCALATE''), (''R6'', ''AUTHORITY_INSUFFICIENT'', ''DENY''),
         (''R7'', ''EVIDENCE_NOT_AUTOMATION_GRADE'', ''ESCALATE''),
         (''R8'', ''PARAMETER_CONSTRAINTS_PRESENT'', ''ALLOW_CONSTRAINED''), (''R9'', ''DEFAULT'', ''ALLOW'')],
      po_action_catalog =
        [(''NETWORK_ISOLATE'',
          \<lparr>ay_action_type = NetworkIsolate, ay_reversible = True,
           ay_allowed_target_types = [''WORKSTATION'', ''DOMAIN_CONTROLLER''], ay_required_authority = ''ISOLATE'',
           ay_tier_0_required_authority = ''ISOLATE_TIER_0'', ay_maximum_duration_seconds = 1800,
           ay_preserve_management_required = True, ay_human_approval_criticalities = [''HIGH'', ''TIER_0'']\<rparr>)],
      po_target_inventory = [(''WORKSTATION_042'', sample_target ''WORKSTATION_042''),
        (''DOMAIN_CONTROLLER_01'', sample_controller)],
      po_authorization_ttl_seconds = 300, po_authorization_single_use = True, po_approval_ttl_seconds = 3600\<rparr>"

lemma sample_policy_safe: "policy_safe sample_policy"
  by code_simp

lemma sample_policy_loads: "policy_from_dict (\<lambda>_. True) (policy_to_dict sample_policy) = Inr sample_policy"
proof -
  have "policy_keyed sample_policy" "po_schema_version sample_policy = policy_schema_version" by code_simp+
  with sample_policy_safe build_policy_roundtrip [of sample_policy] show ?thesis
    by (simp add: policy_from_dict_def policy_safe_def policy_to_dict_def)
qed

lemma policy_snapshot_exact_witness: "immutable_snapshot (\<lambda>_. True) sample_policy = Inr sample_policy"
  by (rule policy_snapshot_exact [OF sample_policy_loads TrueI])



end
