(* ===== verification/P3Models.thy ===== *)
theory P3Models
  imports P3Request
begin

text \<open>
  The immutable values of \<open>phase3/models.py\<close>: assessments, the decision record, approval
  requirement and receipt, the authorization token, broker result and both verifications, each with
  its dictionary form. Fields that hold JSON trees (\<open>requested_action\<close> and the like) are \<open>json\<close>:
  the constructor freezes them with \<open>_deep_freeze\<close>, modelled on arbitrary Python values.
\<close>

subsection \<open>Freezing and thawing\<close>

fun deep_freeze :: "pyval \<Rightarrow> pyval option" where
  "deep_freeze PNone = Some PNone"
| "deep_freeze (PBool b) = Some (PBool b)"
| "deep_freeze (PInt n) = Some (PInt n)"
| "deep_freeze (PFloat x) = Some (PFloat x)"
| "deep_freeze PNonFinite = None"
| "deep_freeze (PStr s) = Some (PStr s)"
| "deep_freeze (PList xs) = map_option PTuple (those (map deep_freeze xs))"
| "deep_freeze (PTuple xs) = map_option PTuple (those (map deep_freeze xs))"
| "deep_freeze (PDict kvs) =
     map_option PDict (those (map (\<lambda>(k, v). case k of
        PStr s \<Rightarrow> map_option (Pair (PStr s)) (deep_freeze v) | _ \<Rightarrow> None) kvs))"
| "deep_freeze POther = None"

text \<open>On a frozen tree every mapping is a proxy and every sequence a tuple.\<close>

fun deep_thaw :: "pyval \<Rightarrow> json option" where
  "deep_thaw PNone = Some JNull"
| "deep_thaw (PBool b) = Some (JBool b)"
| "deep_thaw (PInt n) = Some (JInt n)"
| "deep_thaw (PFloat x) = Some (JFloat x)"
| "deep_thaw (PStr s) = Some (JStr s)"
| "deep_thaw (PTuple xs) = map_option JList (those (map deep_thaw xs))"
| "deep_thaw (PDict kvs) =
     map_option JObj (those (map (\<lambda>(k, v). case k of
        PStr s \<Rightarrow> map_option (Pair s) (deep_thaw v) | _ \<Rightarrow> None) kvs))"
| "deep_thaw _ = None"

lemma freeze_thaw: "Option.bind (deep_freeze (pyval_of v)) deep_thaw = Some v"
proof (induction v rule: pyval_of.induct)
  case (6 xs)
  have *: "those (map (\<lambda>x. deep_freeze (pyval_of x)) xs)
      = Some (map (\<lambda>x. the (deep_freeze (pyval_of x))) xs)"
    using 6 by (intro those_map_Some) (fastforce simp: bind_eq_Some_conv)
  moreover have "those (map (\<lambda>x. deep_thaw (the (deep_freeze (pyval_of x)))) xs) = Some (map (\<lambda>x. x) xs)"
    using 6 by (intro those_map_Some) (fastforce simp: bind_eq_Some_conv)
  ultimately show ?case by (simp add: comp_def)
next
  case (7 kvs)
  have ih: "Option.bind (deep_freeze (pyval_of (snd p))) deep_thaw = Some (snd p)" if "p \<in> set kvs" for p
    using 7 that by (cases p) auto
  have *: "those (map (\<lambda>p. map_option (Pair (PStr (fst p))) (deep_freeze (pyval_of (snd p)))) kvs)
      = Some (map (\<lambda>p. (PStr (fst p), the (deep_freeze (pyval_of (snd p))))) kvs)"
    using ih by (intro those_map_Some) (fastforce simp: bind_eq_Some_conv)
  moreover have "those (map (\<lambda>p. map_option (Pair (fst p))
        (deep_thaw (the (deep_freeze (pyval_of (snd p)))))) kvs) = Some (map (\<lambda>p. p) kvs)"
    using ih by (intro those_map_Some) (fastforce simp: bind_eq_Some_conv)
  ultimately show ?case by (simp add: comp_def case_prod_beta)
qed simp_all

subsection \<open>Assessments\<close>

datatype decision_outcome = Allow | Deny | Escalate | AllowConstrained

fun outcome_value :: "decision_outcome \<Rightarrow> pystr" where
  "outcome_value Allow = ''ALLOW''"
| "outcome_value Deny = ''DENY''"
| "outcome_value Escalate = ''ESCALATE''"
| "outcome_value AllowConstrained = ''ALLOW_CONSTRAINED''"

datatype verification_status =
  Verified | Failed | Partial | UnexpectedEffect | RollbackRequired | NotApplicable

fun verification_status_value :: "verification_status \<Rightarrow> pystr" where
  "verification_status_value Verified = ''VERIFIED''"
| "verification_status_value Failed = ''FAILED''"
| "verification_status_value Partial = ''PARTIAL''"
| "verification_status_value UnexpectedEffect = ''UNEXPECTED_EFFECT''"
| "verification_status_value RollbackRequired = ''ROLLBACK_REQUIRED''"
| "verification_status_value NotApplicable = ''NOT_APPLICABLE''"

record authority_assessment =
  aa_authenticated :: bool
  aa_principal_id :: pystr
  aa_claimed_agent_id :: pystr
  aa_attributes_match :: bool
  aa_trusted_roles :: "pystr list"
  aa_trusted_authority :: "pystr list"
  aa_required_authority :: pystr
  aa_authorized :: bool
  aa_reason_codes :: "pystr list"

record evidence_item_assessment =
  ia_evidence_id :: pystr
  ia_subject_target_id :: pystr
  ia_source_type :: pystr
  ia_source_instance :: pystr
  ia_provenance_verified :: bool
  ia_integrity_verified :: bool
  ia_content_digest_matches :: bool
  ia_freshness :: pystr
  ia_age_seconds :: rat
  ia_reliability :: rat
  ia_trust_weight :: rat
  ia_relevance :: rat
  ia_supports :: "pystr list"
  ia_contradicts :: "pystr list"
  ia_poisoned :: bool
  ia_score :: rat
  ia_reason_codes :: "pystr list"

record evidence_assessment =
  ea_overall_strength :: rat
  ea_decision_grade :: bool
  ea_automation_grade :: bool
  ea_corroborating_sources :: nat
  ea_conflict_count :: nat
  ea_stale_evidence_ids :: "pystr list"
  ea_missing_expected_sources :: "pystr list"
  ea_invalid_evidence_ids :: "pystr list"
  ea_poisoned_evidence_ids :: "pystr list"
  ea_assessed_items :: "evidence_item_assessment list"
  ea_reason_codes :: "pystr list"

record consequence_assessment =
  ca_score :: rat
  ca_level :: pystr
  ca_reversible :: bool
  ca_blast_radius :: pystr
  ca_downtime_minutes :: int
  ca_privilege_impact :: pystr
  ca_mission_impact :: pystr
  ca_safety_impact :: pystr
  ca_availability_impact :: pystr
  ca_dependency_count :: nat
  ca_cascading_effect_possible :: bool
  ca_human_approval_required :: bool
  ca_reason_codes :: "pystr list"

definition authority_to_dict :: "authority_assessment \<Rightarrow> json" where
  "authority_to_dict a = JObj
     [(''authenticated'', JBool (aa_authenticated a)), (''principal_id'', JStr (aa_principal_id a)),
      (''claimed_agent_id'', JStr (aa_claimed_agent_id a)),
      (''attributes_match'', JBool (aa_attributes_match a)),
      (''trusted_roles'', jstrs (aa_trusted_roles a)),
      (''trusted_authority'', jstrs (aa_trusted_authority a)),
      (''required_authority'', JStr (aa_required_authority a)),
      (''authorized'', JBool (aa_authorized a)), (''reason_codes'', jstrs (aa_reason_codes a))]"

definition item_assessment_to_dict :: "evidence_item_assessment \<Rightarrow> json" where
  "item_assessment_to_dict i = JObj
     [(''evidence_id'', JStr (ia_evidence_id i)),
      (''subject_target_id'', JStr (ia_subject_target_id i)),
      (''source_type'', JStr (ia_source_type i)), (''source_instance'', JStr (ia_source_instance i)),
      (''provenance_verified'', JBool (ia_provenance_verified i)),
      (''integrity_verified'', JBool (ia_integrity_verified i)),
      (''content_digest_matches'', JBool (ia_content_digest_matches i)),
      (''freshness'', JStr (ia_freshness i)), (''age_seconds'', JFloat (ia_age_seconds i)),
      (''reliability'', JFloat (ia_reliability i)), (''trust_weight'', JFloat (ia_trust_weight i)),
      (''relevance'', JFloat (ia_relevance i)), (''supports'', jstrs (ia_supports i)),
      (''contradicts'', jstrs (ia_contradicts i)), (''poisoned'', JBool (ia_poisoned i)),
      (''score'', JFloat (ia_score i)), (''reason_codes'', jstrs (ia_reason_codes i))]"

definition evidence_assessment_to_dict :: "evidence_assessment \<Rightarrow> json" where
  "evidence_assessment_to_dict e = JObj
     [(''overall_strength'', JFloat (ea_overall_strength e)),
      (''decision_grade'', JBool (ea_decision_grade e)),
      (''automation_grade'', JBool (ea_automation_grade e)),
      (''corroborating_sources'', JInt (int (ea_corroborating_sources e))),
      (''conflict_count'', JInt (int (ea_conflict_count e))),
      (''stale_evidence_ids'', jstrs (ea_stale_evidence_ids e)),
      (''missing_expected_sources'', jstrs (ea_missing_expected_sources e)),
      (''invalid_evidence_ids'', jstrs (ea_invalid_evidence_ids e)),
      (''poisoned_evidence_ids'', jstrs (ea_poisoned_evidence_ids e)),
      (''assessed_items'', JList (map item_assessment_to_dict (ea_assessed_items e))),
      (''reason_codes'', jstrs (ea_reason_codes e))]"

definition consequence_to_dict :: "consequence_assessment \<Rightarrow> json" where
  "consequence_to_dict c = JObj
     [(''score'', JFloat (ca_score c)), (''level'', JStr (ca_level c)),
      (''reversible'', JBool (ca_reversible c)), (''blast_radius'', JStr (ca_blast_radius c)),
      (''downtime_minutes'', JInt (ca_downtime_minutes c)),
      (''privilege_impact'', JStr (ca_privilege_impact c)),
      (''mission_impact'', JStr (ca_mission_impact c)), (''safety_impact'', JStr (ca_safety_impact c)),
      (''availability_impact'', JStr (ca_availability_impact c)),
      (''dependency_count'', JInt (int (ca_dependency_count c))),
      (''cascading_effect_possible'', JBool (ca_cascading_effect_possible c)),
      (''human_approval_required'', JBool (ca_human_approval_required c)),
      (''reason_codes'', jstrs (ca_reason_codes c))]"

subsection \<open>Approval\<close>

record approval_requirement =
  aq_approval_id :: pystr
  aq_issuer_instance_id :: pystr
  aq_request_id :: pystr
  aq_decision_id :: pystr
  aq_decision_context_sha256 :: pystr
  aq_policy_id :: pystr
  aq_policy_version :: pystr
  aq_policy_sha256 :: pystr
  aq_action_type :: pystr
  aq_target_id :: pystr
  aq_parameters_sha256 :: pystr
  aq_evidence_sha256 :: pystr
  aq_reason_codes :: "pystr list"
  aq_required_authority :: pystr
  aq_created_at :: pystr
  aq_expires_at :: pystr
  aq_scope_sha256 :: pystr
  aq_signature :: pystr
  aq_status :: pystr

record approval_receipt =
  re_receipt_id :: pystr
  re_issuer_instance_id :: pystr
  re_approval_id :: pystr
  re_request_id :: pystr
  re_decision_id :: pystr
  re_approver_id :: pystr
  re_approving_authority :: pystr
  re_action_type :: pystr
  re_target_id :: pystr
  re_parameters_sha256 :: pystr
  re_evidence_sha256 :: pystr
  re_requirement_scope_sha256 :: pystr
  re_approved_at :: pystr
  re_signature :: pystr
  re_status :: pystr

definition requirement_members :: "approval_requirement \<Rightarrow> (pystr \<times> json) list" where
  "requirement_members q =
     [(''approval_id'', JStr (aq_approval_id q)),
      (''issuer_instance_id'', JStr (aq_issuer_instance_id q)),
      (''request_id'', JStr (aq_request_id q)), (''decision_id'', JStr (aq_decision_id q)),
      (''decision_context_sha256'', JStr (aq_decision_context_sha256 q)),
      (''policy_id'', JStr (aq_policy_id q)), (''policy_version'', JStr (aq_policy_version q)),
      (''policy_sha256'', JStr (aq_policy_sha256 q)), (''action_type'', JStr (aq_action_type q)),
      (''target_id'', JStr (aq_target_id q)),
      (''parameters_sha256'', JStr (aq_parameters_sha256 q)),
      (''evidence_sha256'', JStr (aq_evidence_sha256 q)),
      (''reason_codes'', jstrs (aq_reason_codes q)),
      (''required_approving_authority'', JStr (aq_required_authority q)),
      (''created_at'', JStr (aq_created_at q)), (''expires_at'', JStr (aq_expires_at q)),
      (''scope_sha256'', JStr (aq_scope_sha256 q)), (''signature'', JStr (aq_signature q)),
      (''status'', JStr (aq_status q))]"

definition requirement_to_dict :: "bool \<Rightarrow> approval_requirement \<Rightarrow> json" where
  "requirement_to_dict include_signature q =
     JObj (if include_signature then requirement_members q
           else dict_pop ''signature'' (requirement_members q))"

definition receipt_members :: "approval_receipt \<Rightarrow> (pystr \<times> json) list" where
  "receipt_members r =
     [(''receipt_id'', JStr (re_receipt_id r)),
      (''issuer_instance_id'', JStr (re_issuer_instance_id r)),
      (''approval_id'', JStr (re_approval_id r)), (''request_id'', JStr (re_request_id r)),
      (''decision_id'', JStr (re_decision_id r)), (''approver_id'', JStr (re_approver_id r)),
      (''approving_authority'', JStr (re_approving_authority r)),
      (''action_type'', JStr (re_action_type r)), (''target_id'', JStr (re_target_id r)),
      (''parameters_sha256'', JStr (re_parameters_sha256 r)),
      (''evidence_sha256'', JStr (re_evidence_sha256 r)),
      (''requirement_scope_sha256'', JStr (re_requirement_scope_sha256 r)),
      (''approved_at'', JStr (re_approved_at r)), (''signature'', JStr (re_signature r)),
      (''status'', JStr (re_status r))]"

definition receipt_to_dict :: "approval_receipt \<Rightarrow> json" where
  "receipt_to_dict r = JObj (receipt_members r)"

subsection \<open>Decisions, tokens and results\<close>

record decision_record =
  dn_decision_id :: pystr
  dn_request_id :: pystr
  dn_decided_at :: pystr
  dn_policy_id :: pystr
  dn_policy_version :: pystr
  dn_policy_sha256 :: pystr
  dn_outcome :: pystr
  dn_reason_codes :: "pystr list"
  dn_applicable_rules :: "pystr list"
  dn_requested_action :: json
  dn_permitted_action :: "json option"
  dn_authority :: authority_assessment
  dn_evidence :: "evidence_assessment option"
  dn_consequence :: "consequence_assessment option"
  dn_constraints :: "json list"
  dn_explanation :: json
  dn_request_sha256 :: pystr
  dn_decision_context_sha256 :: pystr
  dn_approval_requirement :: "approval_requirement option"
  dn_latency_ms :: rat

definition jnullable :: "('a \<Rightarrow> json) \<Rightarrow> 'a option \<Rightarrow> json" where
  "jnullable f v = (case v of None \<Rightarrow> JNull | Some x \<Rightarrow> f x)"

definition decision_members :: "decision_record \<Rightarrow> (pystr \<times> json) list" where
  "decision_members d =
     [(''decision_id'', JStr (dn_decision_id d)), (''request_id'', JStr (dn_request_id d)),
      (''decided_at'', JStr (dn_decided_at d)), (''policy_id'', JStr (dn_policy_id d)),
      (''policy_version'', JStr (dn_policy_version d)),
      (''policy_sha256'', JStr (dn_policy_sha256 d)),
      (''outcome'', JStr (dn_outcome d)),
      (''reason_codes'', jstrs (dn_reason_codes d)),
      (''applicable_rules'', jstrs (dn_applicable_rules d)),
      (''requested_action'', dn_requested_action d),
      (''permitted_action'', jnullable id (dn_permitted_action d)),
      (''authority'', authority_to_dict (dn_authority d)),
      (''evidence'', jnullable evidence_assessment_to_dict (dn_evidence d)),
      (''consequence'', jnullable consequence_to_dict (dn_consequence d)),
      (''constraints'', JList (dn_constraints d)), (''explanation'', dn_explanation d),
      (''request_sha256'', JStr (dn_request_sha256 d)),
      (''decision_context_sha256'', JStr (dn_decision_context_sha256 d)),
      (''approval_requirement'', jnullable (requirement_to_dict False) (dn_approval_requirement d)),
      (''latency_ms'', JFloat (dn_latency_ms d))]"

definition decision_to_dict :: "decision_record \<Rightarrow> json" where
  "decision_to_dict d = JObj (decision_members d)"

text \<open>The digest a gate authorizes: the record without timing, explanation and approval requirement.\<close>

definition authorization_sha256 :: "decision_record \<Rightarrow> pystr" where
  "authorization_sha256 d =
     sha256_json (JObj (dict_pop ''approval_requirement'' (dict_pop ''explanation''
       (dict_pop ''latency_ms'' (decision_members d)))))"

definition semantic_dict :: "decision_record \<Rightarrow> json" where
  "semantic_dict d = JObj (map (\<lambda>(k, v).
       if k = ''approval_requirement'' then
         (case v of
            JObj kvs \<Rightarrow> (k, JObj (dict_pop ''expires_at'' (dict_pop ''created_at''
                              (dict_pop ''decision_id'' (dict_pop ''approval_id'' kvs)))))
          | _ \<Rightarrow> (k, v))
       else (k, v))
     (dict_pop ''latency_ms'' (dict_pop ''decided_at'' (dict_pop ''decision_id'' (decision_members d)))))"

record authorization_token =
  tk_token_id :: pystr
  tk_issuer_instance_id :: pystr
  tk_request_id :: pystr
  tk_decision_id :: pystr
  tk_agent_id :: pystr
  tk_action_type :: pystr
  tk_target_id :: pystr
  tk_permitted_parameters :: json
  tk_issued_at :: pystr
  tk_expires_at :: pystr
  tk_policy_id :: pystr
  tk_policy_version :: pystr
  tk_policy_sha256 :: pystr
  tk_decision_context_sha256 :: pystr
  tk_target_state_sha256 :: pystr
  tk_nonce :: pystr
  tk_signature :: pystr

definition token_unsigned_members :: "authorization_token \<Rightarrow> (pystr \<times> json) list" where
  "token_unsigned_members t =
     [(''token_id'', JStr (tk_token_id t)),
      (''issuer_instance_id'', JStr (tk_issuer_instance_id t)),
      (''request_id'', JStr (tk_request_id t)), (''decision_id'', JStr (tk_decision_id t)),
      (''agent_id'', JStr (tk_agent_id t)), (''action_type'', JStr (tk_action_type t)),
      (''target_id'', JStr (tk_target_id t)), (''permitted_parameters'', tk_permitted_parameters t),
      (''issued_at'', JStr (tk_issued_at t)), (''expires_at'', JStr (tk_expires_at t)),
      (''policy_id'', JStr (tk_policy_id t)), (''policy_version'', JStr (tk_policy_version t)),
      (''policy_sha256'', JStr (tk_policy_sha256 t)),
      (''decision_context_sha256'', JStr (tk_decision_context_sha256 t)),
      (''target_state_sha256'', JStr (tk_target_state_sha256 t)), (''nonce'', JStr (tk_nonce t))]"

definition token_unsigned_dict :: "authorization_token \<Rightarrow> json" where
  "token_unsigned_dict t = JObj (token_unsigned_members t)"

definition token_to_dict :: "bool \<Rightarrow> authorization_token \<Rightarrow> json" where
  "token_to_dict include_signature t =
     JObj (token_unsigned_members t
           @ (if include_signature then [(''signature'', JStr (tk_signature t))] else []))"

record broker_result =
  br_attempt_id :: pystr
  br_token_id :: pystr
  br_request_id :: pystr
  br_decision_id :: pystr
  br_action_type :: pystr
  br_target_id :: pystr
  br_parameters :: json
  br_executed_at :: pystr
  br_attempted :: bool
  br_accepted :: bool
  br_reported_success :: bool
  br_message :: pystr
  br_state_before_sha256 :: pystr
  br_state_after_sha256 :: pystr

record post_action_verification =
  pv_verification_id :: pystr
  pv_request_id :: pystr
  pv_decision_id :: pystr
  pv_attempt_id :: pystr
  pv_token_id :: pystr
  pv_action_type :: pystr
  pv_target_id :: pystr
  pv_parameters_sha256 :: pystr
  pv_status :: verification_status
  pv_expected_state :: json
  pv_observed_state :: json
  pv_changed_fields :: "pystr list"
  pv_unexpected_fields :: "pystr list"
  pv_rollback_required :: bool
  pv_reason_codes :: "pystr list"

record decision_verification =
  dv_verification_id :: pystr
  dv_verifier_instance_id :: pystr
  dv_decision_id :: pystr
  dv_decision_context_sha256 :: pystr
  dv_decision_sha256 :: pystr
  dv_request_sha256 :: pystr
  dv_principal_id :: pystr
  dv_principal_resolution_sha256 :: pystr
  dv_policy_sha256 :: pystr
  dv_passed :: bool
  dv_checks :: "json list"
  dv_blocking_reason_codes :: "pystr list"
  dv_verified_at :: pystr
  dv_signature :: pystr

definition broker_to_dict :: "broker_result \<Rightarrow> json" where
  "broker_to_dict b = JObj
     [(''attempt_id'', JStr (br_attempt_id b)), (''token_id'', JStr (br_token_id b)),
      (''request_id'', JStr (br_request_id b)), (''decision_id'', JStr (br_decision_id b)),
      (''action_type'', JStr (br_action_type b)), (''target_id'', JStr (br_target_id b)),
      (''parameters'', br_parameters b), (''executed_at'', JStr (br_executed_at b)),
      (''attempted'', JBool (br_attempted b)), (''accepted'', JBool (br_accepted b)),
      (''reported_success'', JBool (br_reported_success b)), (''message'', JStr (br_message b)),
      (''state_before_sha256'', JStr (br_state_before_sha256 b)),
      (''state_after_sha256'', JStr (br_state_after_sha256 b))]"

definition post_verification_to_dict :: "post_action_verification \<Rightarrow> json" where
  "post_verification_to_dict v = JObj
     [(''verification_id'', JStr (pv_verification_id v)), (''request_id'', JStr (pv_request_id v)),
      (''decision_id'', JStr (pv_decision_id v)), (''attempt_id'', JStr (pv_attempt_id v)),
      (''token_id'', JStr (pv_token_id v)), (''action_type'', JStr (pv_action_type v)),
      (''target_id'', JStr (pv_target_id v)),
      (''parameters_sha256'', JStr (pv_parameters_sha256 v)),
      (''status'', JStr (verification_status_value (pv_status v))),
      (''expected_state'', pv_expected_state v), (''observed_state'', pv_observed_state v),
      (''changed_fields'', jstrs (pv_changed_fields v)),
      (''unexpected_fields'', jstrs (pv_unexpected_fields v)),
      (''rollback_required'', JBool (pv_rollback_required v)),
      (''reason_codes'', jstrs (pv_reason_codes v))]"

definition verification_unsigned_dict :: "decision_verification \<Rightarrow> json" where
  "verification_unsigned_dict v = JObj
     [(''verification_id'', JStr (dv_verification_id v)),
      (''verifier_instance_id'', JStr (dv_verifier_instance_id v)),
      (''decision_id'', JStr (dv_decision_id v)),
      (''decision_context_sha256'', JStr (dv_decision_context_sha256 v)),
      (''decision_sha256'', JStr (dv_decision_sha256 v)),
      (''request_sha256'', JStr (dv_request_sha256 v)), (''principal_id'', JStr (dv_principal_id v)),
      (''principal_resolution_sha256'', JStr (dv_principal_resolution_sha256 v)),
      (''policy_sha256'', JStr (dv_policy_sha256 v)), (''passed'', JBool (dv_passed v)),
      (''checks'', JList (dv_checks v)),
      (''blocking_reason_codes'', jstrs (dv_blocking_reason_codes v)),
      (''verified_at'', JStr (dv_verified_at v))]"

text \<open>
  The authorization digest does not see timing, explanation or approval requirement: changing
  them never invalidates a verification that binds the digest.
\<close>

lemma authorization_sha256_frame:
  "authorization_sha256 (d\<lparr>dn_latency_ms := x\<rparr>) = authorization_sha256 d"
  "authorization_sha256 (d\<lparr>dn_explanation := e\<rparr>) = authorization_sha256 d"
  "authorization_sha256 (d\<lparr>dn_approval_requirement := q\<rparr>) = authorization_sha256 d"
  by (simp_all add: authorization_sha256_def decision_members_def dict_pop_def)

end
