(* ===== verification/PyRegex.thy ===== *)
theory PyRegex
  imports Prelude "HOL-Library.Char_ord"
begin

text \<open>
  The fragment of Python's \<open>re\<close> the program uses to search untrusted text for instructions: literal words in any
  case, white space, word boundaries and groups of alternatives, with \<open>pattern.search\<close> as an executable search.
\<close>

text \<open>
  The regular expressions of the program, over the first 256 code points: a position in the text,
  and the positions a match can end at. \<open>Boundary\<close> is \<open>\b\<close>, \<open>Spaces1\<close> and \<open>Spaces0\<close> are \<open>\s+\<close>
  and \<open>\s*\<close>, \<open>Word w\<close> matches \<open>w\<close> in any case, \<open>Choice\<close> a group of alternatives.
\<close>

datatype rx = Word pystr | Boundary | Spaces1 | Spaces0 | Choice "rx list list"

definition lower_char :: "char \<Rightarrow> char" where
  "lower_char c = (let n = (of_char c :: int) in if 65 \<le> n \<and> n \<le> 90 then char_of (n + 32) else c)"

definition space_char :: "char \<Rightarrow> bool" where
  "space_char c = (let n = (of_char c :: int) in
     (9 \<le> n \<and> n \<le> 13) \<or> (28 \<le> n \<and> n \<le> 32) \<or> n = 133 \<or> n = 160)"

definition word_char :: "char \<Rightarrow> bool" where
  "word_char c = (let n = (of_char c :: int) in
     (48 \<le> n \<and> n \<le> 57) \<or> (65 \<le> n \<and> n \<le> 90) \<or> n = 95 \<or> (97 \<le> n \<and> n \<le> 122)
     \<or> n \<in> set [170, 178, 179, 181, 185, 186, 188, 189, 190]
     \<or> (192 \<le> n \<and> n \<noteq> 215 \<and> n \<noteq> 247))"

definition at_boundary :: "pystr \<Rightarrow> nat \<Rightarrow> bool" where
  "at_boundary s i =
     ((0 < i \<and> i \<le> length s \<and> word_char (s ! (i - 1))) \<noteq> (i < length s \<and> word_char (s ! i)))"

definition space_ends :: "pystr \<Rightarrow> nat \<Rightarrow> nat list" where
  "space_ends s i = [i..<Suc (i + length (takeWhile space_char (drop i s)))]"

fun rx_ends :: "pystr \<Rightarrow> rx \<Rightarrow> nat \<Rightarrow> nat list" where
  "rx_ends s (Word w) i = (if map lower_char (take (length w) (drop i s)) = w then [i + length w] else [])"
| "rx_ends s Boundary i = (if at_boundary s i then [i] else [])"
| "rx_ends s Spaces0 i = space_ends s i"
| "rx_ends s Spaces1 i = filter (\<lambda>j. j \<noteq> i) (space_ends s i)"
| "rx_ends s (Choice alts) i =
     concat (map (\<lambda>rs. fold (\<lambda>r is. concat (map (rx_ends s r) is)) rs [i]) alts)"

definition seq_ends :: "pystr \<Rightarrow> rx list \<Rightarrow> nat \<Rightarrow> nat list" where
  "seq_ends s rs i = fold (\<lambda>r is. concat (map (rx_ends s r) is)) rs [i]"

definition rx_search :: "rx list \<Rightarrow> pystr \<Rightarrow> bool" where
  "rx_search rs s = list_ex (\<lambda>i. seq_ends s rs i \<noteq> []) [0..<Suc (length s)]"

end
