(* ===== verification/P3Evidence.thy ===== *)
theory P3Evidence
  imports P3Policy P3Models P3Validation PyRegex
begin

text \<open>
  Source attestations (\<open>phase3/attestation.py\<close>) and the evidence assessment (\<open>phase3/evidence.py\<close>):
  the attestation payload and its HMAC, the injection patterns searched in the evidence text,
  and \<open>assess_evidence\<close>, a fold of one step per item over the accumulators of the source.
\<close>

subsection \<open>Attestation\<close>

definition attestation_payload :: "evidence_item \<Rightarrow> json" where
  "attestation_payload e = JObj
     [(''evidence_id'', JStr (ev_id e)), (''subject_target_id'', JStr (ev_subject_target_id e)),
      (''source_type'', JStr (ev_source_type e)), (''source_instance'', JStr (ev_source_instance e)),
      (''provenance_id'', JStr (ep_id (ev_provenance e))),
      (''provenance_verified'', JBool (ep_verified (ev_provenance e))),
      (''integrity_status'', JStr (integrity_status_value (ei_status (ev_integrity e)))),
      (''observed_at'', JStr (ev_observed_at e)),
      (''content_sha256'', JStr (ei_content_sha256 (ev_integrity e))),
      (''supports'', jstrs (sort (ev_supports e))), (''contradicts'', jstrs (sort (ev_contradicts e))),
      (''relevance'', JFloat (ev_relevance e))]"

definition sign_evidence_attestation :: "string \<Rightarrow> evidence_item \<Rightarrow> (reason, pystr) result" where
  "sign_evidence_attestation key e =
     (if length key < 32 then Inl ''ValueError'' else Inr (hmac_json key (attestation_payload e)))"

type_synonym attestation_keys = "(pystr \<times> string) list"

text \<open>The constructor of the verifier: its keys, and the sources that must have one (empty: any).\<close>

definition attestation_verifier ::
  "attestation_keys \<Rightarrow> pystr list \<Rightarrow> (reason, attestation_keys) result" where
  "attestation_verifier keys required =
     and_then (require (\<not> list_ex (\<lambda>p. fst p = []) keys) ''TypeError'') (\<lambda>_.
     and_then (require (\<not> list_ex (\<lambda>p. length (snd p) < 32) keys) ''ValueError'') (\<lambda>_.
     and_then (require (distinct (map (\<lambda>p. sha256_bytes (snd p)) keys)) ''ValueError'') (\<lambda>_.
     and_then (require (list_all (\<lambda>s. s \<in> set (map fst keys)) required) ''ValueError'') (\<lambda>_.
     and_then (require (\<not> (required \<noteq> [] \<and> list_ex (\<lambda>p. fst p \<notin> set required) keys)) ''ValueError'') (\<lambda>_.
     Inr keys)))))"

definition verify_attestation :: "attestation_keys \<Rightarrow> evidence_item \<Rightarrow> bool" where
  "verify_attestation keys e =
     (case map_of keys (ev_source_instance e) of
        None \<Rightarrow> False
      | Some key \<Rightarrow> sign_evidence_attestation key e = Inr (ep_signature (ev_provenance e)))"

subsection \<open>Injection patterns\<close>

text \<open>The expressions of the source, in the notation of \<open>PyRegex\<close>.\<close>

definition instruction_patterns :: "rx list list" where
  "instruction_patterns =
     [[Boundary, Word ''ignore'', Spaces1, Choice [[Word ''all'', Spaces1], []],
       Choice [[Word ''prior''], [Word ''previous''], [Word ''policy'']], Boundary],
      [Boundary, Choice [[Word ''system''], [Word ''assistant''], [Word ''developer'']],
       Spaces0, Word '':'', Spaces0],
      [Boundary, Choice [[Word ''bypass''], [Word ''disable''], [Word ''override'']], Spaces1,
       Choice [[Word ''the'', Spaces1], []],
       Choice [[Word ''firewall''], [Word ''policy''], [Word ''control'']], Boundary],
      [Boundary, Word ''return'', Spaces1, Choice [[Word ''allow''], [Word ''approved'']], Boundary]]"

definition is_poisoned :: "evidence_item \<Rightarrow> bool" where
  "is_poisoned e =
     list_ex (\<lambda>rs. rx_search rs (ev_untrusted_text e @ [CHR 0x0A] @ canonical_json (ev_payload e)))
       instruction_patterns"

subsection \<open>One item\<close>

text \<open>\<open>math.isclose(a, b, abs_tol=1e-12)\<close> with its default relative tolerance.\<close>

definition isclose :: "rat \<Rightarrow> rat \<Rightarrow> bool" where
  "isclose a b =
     (a = b \<or>
      (let d = fl \<bar>b - a\<bar> in
       d \<le> \<bar>fl (fl (1 / 10 ^ 9) * b)\<bar> \<or> d \<le> \<bar>fl (fl (1 / 10 ^ 9) * a)\<bar> \<or> d \<le> fl (1 / 10 ^ 12)))"

definition fatal_reasons :: "pystr list" where
  "fatal_reasons =
     [''EVIDENCE_SOURCE_UNTRUSTED'', ''EVIDENCE_SUBJECT_MISMATCH'', ''EVIDENCE_SOURCE_TYPE_MISMATCH'',
      ''EVIDENCE_TRUST_CLAIM_MISMATCH'', ''EVIDENCE_PROVENANCE_INVALID'',
      ''EVIDENCE_PROVENANCE_SIGNATURE_INVALID'', ''EVIDENCE_INTEGRITY_INVALID'',
      ''EVIDENCE_CONTENT_DIGEST_MISMATCH'', ''FUTURE_EVIDENCE'', ''PROMPT_INJECTION_DETECTED'',
      ''EVIDENCE_RELIABILITY_BELOW_MINIMUM'', ''EVIDENCE_RELEVANCE_BELOW_MINIMUM'']"

text \<open>The registry's view of a source: type, reliability, trust level, and the reasons found.\<close>

definition registry_view ::
  "evidence_rules \<Rightarrow> evidence_item \<Rightarrow> pystr \<times> rat \<times> pystr \<times> pystr list" where
  "registry_view er e =
     (case map_of (er_trusted_sources er) (ev_source_instance e) of
        None \<Rightarrow> ([], 0, ''UNTRUSTED'', [''EVIDENCE_SOURCE_UNTRUSTED''])
      | Some s \<Rightarrow>
          (ts_source_type s, ts_reliability s, ts_trust_level s,
           (if ts_source_type s \<noteq> ev_source_type e then [''EVIDENCE_SOURCE_TYPE_MISMATCH''] else [])
           @ (if \<not> isclose (ev_reliability e) (ts_reliability s)
                 \<or> trust_level_value (ev_trust_level e) \<noteq> ts_trust_level s
              then [''EVIDENCE_TRUST_CLAIM_MISMATCH''] else [])))"

text \<open>Age in seconds, freshness label, its reasons, and the time factor of the score.\<close>

definition age_of :: "instant \<Rightarrow> instant \<Rightarrow> rat" where
  "age_of now observed_at = fl (of_int (now - observed_at) / of_int micros)"

definition freshness_of :: "int \<Rightarrow> rat \<Rightarrow> pystr \<times> pystr list \<times> rat" where
  "freshness_of maximum_age age =
     (if age < 0 then (''FUTURE'', [''FUTURE_EVIDENCE''], 0)
      else if age > of_int maximum_age then (''STALE'', [''STALE_EVIDENCE''], 0)
      else (''FRESH'', [], fl (1 - fl (1 / 4 * fl (age / of_int maximum_age)))))"

definition item_score :: "rat \<Rightarrow> rat \<Rightarrow> rat \<Rightarrow> rat \<Rightarrow> rat" where
  "item_score reliability trust relevance freshness = fl (fl (fl (reliability * trust) * relevance) * freshness)"

definition item_reasons ::
  "bool \<Rightarrow> pystr list \<Rightarrow> bool \<Rightarrow> bool \<Rightarrow> bool \<Rightarrow> bool \<Rightarrow> pystr list \<Rightarrow> bool \<Rightarrow> bool \<Rightarrow> bool \<Rightarrow> pystr list" where
  "item_reasons same_subject source_reasons provenance signature_valid integrity digest
     time_reasons poisoned reliable relevant =
     (if \<not> same_subject then [''EVIDENCE_SUBJECT_MISMATCH''] else [])
     @ source_reasons
     @ (if \<not> provenance then [''EVIDENCE_PROVENANCE_INVALID''] else [])
     @ (if \<not> signature_valid then [''EVIDENCE_PROVENANCE_SIGNATURE_INVALID''] else [])
     @ (if \<not> integrity then [''EVIDENCE_INTEGRITY_INVALID''] else [])
     @ (if \<not> digest then [''EVIDENCE_CONTENT_DIGEST_MISMATCH''] else [])
     @ time_reasons
     @ (if poisoned then [''PROMPT_INJECTION_DETECTED''] else [])
     @ (if \<not> reliable then [''EVIDENCE_RELIABILITY_BELOW_MINIMUM''] else [])
     @ (if \<not> relevant then [''EVIDENCE_RELEVANCE_BELOW_MINIMUM''] else [])"

record item_view =
  iv_item :: evidence_item
  iv_reasons :: "pystr list"
  iv_valid :: bool
  iv_freshness :: pystr
  iv_score :: rat
  iv_assessment :: evidence_item_assessment

definition view_item ::
  "evidence_rules \<Rightarrow> attestation_keys \<Rightarrow> instant \<Rightarrow> pystr \<Rightarrow> evidence_item \<Rightarrow> (reason, item_view) result" where
  "view_item er keys now target e =
     (case parse_datetime (ev_observed_at e) of
        None \<Rightarrow> Inl ''ValueError''
      | Some observed_at \<Rightarrow>
          (let (registry_type, reliability, registry_trust, source_reasons) = registry_view er e;
               signature_valid = verify_attestation keys e;
               provenance = ep_id (ev_provenance e) \<noteq> [] \<and> ep_verified (ev_provenance e) \<and> signature_valid;
               integrity = (ei_status (ev_integrity e) = IntegrityVerified);
               digest = content_digest_matches e;
               age = age_of now observed_at;
               (freshness, time_reasons, factor) = freshness_of (er_maximum_age_seconds er) age;
               poisoned = is_poisoned e;
               reasons = item_reasons (ev_subject_target_id e = target) source_reasons provenance
                 signature_valid integrity digest time_reasons poisoned
                 (\<not> ev_reliability e < er_minimum_reliability er)
                 (\<not> ev_relevance e < er_minimum_relevance er);
               valid = \<not> list_ex (\<lambda>r. r \<in> set fatal_reasons) reasons;
               trust_weight = (case map_of (er_trust_weights er) registry_trust of Some w \<Rightarrow> w | None \<Rightarrow> 0);
               score = (if valid then item_score reliability trust_weight (ev_relevance e) factor else 0)
           in if er_maximum_age_seconds er = 0 \<and> age = 0 then Inl ''ZeroDivisionError''
              else Inr \<lparr>iv_item = e, iv_reasons = reasons, iv_valid = valid, iv_freshness = freshness,
                iv_score = score,
                iv_assessment =
                  \<lparr>ia_evidence_id = ev_id e, ia_subject_target_id = ev_subject_target_id e,
                   ia_source_type = ev_source_type e, ia_source_instance = ev_source_instance e,
                   ia_provenance_verified = provenance, ia_integrity_verified = integrity,
                   ia_content_digest_matches = digest, ia_freshness = freshness,
                   ia_age_seconds = py_round 6 age, ia_reliability = reliability,
                   ia_trust_weight = trust_weight, ia_relevance = ev_relevance e,
                   ia_supports = ev_supports e, ia_contradicts = ev_contradicts e,
                   ia_poisoned = poisoned, ia_score = py_round 6 score,
                   ia_reason_codes = ordered_unique_acc [] reasons\<rparr>\<rparr>))"

subsection \<open>The loop over the items\<close>

record evidence_state =
  es_assessed :: "evidence_item_assessment list"
  es_invalid :: "pystr list"
  es_stale :: "pystr list"
  es_poisoned :: "pystr list"
  es_source_types :: "pystr list"
  es_corroborating :: "(pystr \<times> pystr) list"
  es_conflicting :: "(pystr \<times> pystr) list"
  es_scores :: "((pystr \<times> pystr) \<times> rat) list"
  es_reasons :: "pystr list"

definition no_evidence :: evidence_state where
  "no_evidence = \<lparr>es_assessed = [], es_invalid = [], es_stale = [], es_poisoned = [],
     es_source_types = [], es_corroborating = [], es_conflicting = [], es_scores = [], es_reasons = []\<rparr>"

definition source_key :: "item_view \<Rightarrow> pystr \<times> pystr" where
  "source_key v = (ev_source_type (iv_item v), ev_source_instance (iv_item v))"

definition supports_hypothesis :: "pystr \<Rightarrow> item_view \<Rightarrow> bool" where
  "supports_hypothesis claim v \<longleftrightarrow>
     iv_valid v \<and> iv_freshness v = ''FRESH'' \<and> claim \<in> set (ev_supports (iv_item v)) \<and> iv_score v > 0"

definition contradicts_hypothesis :: "pystr \<Rightarrow> item_view \<Rightarrow> bool" where
  "contradicts_hypothesis claim v \<longleftrightarrow> iv_valid v \<and> claim \<in> set (ev_contradicts (iv_item v))"

definition evidence_step :: "pystr \<Rightarrow> item_view \<Rightarrow> evidence_state \<Rightarrow> evidence_state" where
  "evidence_step claim v st =
     st\<lparr>es_assessed := es_assessed st @ [iv_assessment v],
        es_invalid := es_invalid st @ (if iv_valid v then [] else [ev_id (iv_item v)]),
        es_stale := es_stale st @ (if iv_freshness v = ''STALE'' then [ev_id (iv_item v)] else []),
        es_poisoned := es_poisoned st @ (if ia_poisoned (iv_assessment v) then [ev_id (iv_item v)] else []),
        es_source_types := (if iv_valid v then List.insert (ev_source_type (iv_item v)) (es_source_types st)
                            else es_source_types st),
        es_corroborating := (if supports_hypothesis claim v
                             then List.insert (source_key v) (es_corroborating st) else es_corroborating st),
        es_conflicting := (if contradicts_hypothesis claim v
                           then List.insert (source_key v) (es_conflicting st) else es_conflicting st),
        es_scores := (if supports_hypothesis claim v
                      then dict_set (source_key v)
                        (max (iv_score v) (case map_of (es_scores st) (source_key v) of Some x \<Rightarrow> x | None \<Rightarrow> 0))
                        (es_scores st)
                      else es_scores st),
        es_reasons := es_reasons st @ iv_reasons v\<rparr>"

definition mean_strength :: "rat list \<Rightarrow> rat" where
  "mean_strength scores = (if scores = [] then 0 else fl (fsum scores / of_nat (length scores)))"

definition summarize :: "evidence_rules \<Rightarrow> pystr list \<Rightarrow> evidence_state \<Rightarrow> evidence_assessment" where
  "summarize er required st =
     (let missing = sort (remdups (filter (\<lambda>s. s \<notin> set (es_source_types st)) required));
          conflicts = length (es_conflicting st);
          sources = length (es_corroborating st);
          strength = mean_strength (map snd (es_scores st));
          decision_grade = es_invalid st = [] \<and> es_assessed st \<noteq> []
      in \<lparr>ea_overall_strength = py_round 6 strength, ea_decision_grade = decision_grade,
          ea_automation_grade =
            decision_grade \<and> es_stale st = [] \<and> missing = []
            \<and> int conflicts \<le> er_maximum_conflicts er \<and> int sources \<ge> er_minimum_sources er
            \<and> strength > 0 \<and> strength \<ge> er_minimum_strength er,
          ea_corroborating_sources = sources, ea_conflict_count = conflicts,
          ea_stale_evidence_ids = sort (es_stale st), ea_missing_expected_sources = missing,
          ea_invalid_evidence_ids = sort (es_invalid st),
          ea_poisoned_evidence_ids = sort (es_poisoned st), ea_assessed_items = es_assessed st,
          ea_reason_codes = ordered_unique_acc []
            (es_reasons st
             @ (if missing \<noteq> [] then [''MISSING_EXPECTED_EVIDENCE''] else [])
             @ (if conflicts \<noteq> 0 then [''CONFLICTING_EVIDENCE''] else [])
             @ (if int sources < er_minimum_sources er then [''INSUFFICIENT_CORROBORATION''] else [])
             @ (if strength < er_minimum_strength er then [''INSUFFICIENT_EVIDENCE_STRENGTH''] else []))\<rparr>)"

definition assess_evidence ::
  "evidence_rules \<Rightarrow> attestation_keys \<Rightarrow> instant \<Rightarrow> decision_request \<Rightarrow> (reason, evidence_assessment) result" where
  "assess_evidence er keys now r =
     and_then (map_result (view_item er keys now (ac_target (dr_action r))) (dr_evidence r)) (\<lambda>views.
     Inr (summarize er
       (case map_of (er_required_sources er) (action_type_value (ac_type (dr_action r))) of
          Some ss \<Rightarrow> ss | None \<Rightarrow> [])
       (fold (evidence_step (er_hypothesis_claim er)) views no_evidence)))"

subsection \<open>Valid items\<close>

lemma fl_quarter [simp]: "fl (1 / 4) = 1 / 4" "fl (3 / 4) = 3 / 4"
  by code_simp+

lemma freshness_factor:
  assumes "freshness_of m age = (label, rs, f)"
  shows "0 \<le> f \<and> f \<le> 1" and "label = ''FRESH'' \<Longrightarrow> 3 / 4 \<le> f"
    and "label = ''FRESH'' \<longleftrightarrow> 0 \<le> age \<and> age \<le> of_int m"
    and "label = ''STALE'' \<longleftrightarrow> 0 \<le> age \<and> of_int m < age"
    and "rs = [] \<longleftrightarrow> label = ''FRESH''"
    and "''FUTURE_EVIDENCE'' \<in> set rs \<longleftrightarrow> age < 0"
proof -
  have mono: "1 / 4 * fl x \<le> 1 / 4" "0 \<le> 1 / 4 * fl x" if "0 \<le> x" "x \<le> 1" for x
    using binary64.rnd_unit [of x] that by auto
  have bounds: "3 / 4 \<le> fl (1 - fl (1 / 4 * fl x)) \<and> fl (1 - fl (1 / 4 * fl x)) \<le> 1" if "0 \<le> x" "x \<le> 1" for x
  proof -
    have "fl (1 / 4 * fl x) \<le> 1 / 4" "0 \<le> fl (1 / 4 * fl x)"
      using fl_mono [OF mono(1) [OF that]] binary64.rnd_nonneg [OF mono(2) [OF that]] by simp_all
    then have "3 / 4 \<le> 1 - fl (1 / 4 * fl x)" "1 - fl (1 / 4 * fl x) \<le> 1" by auto
    then show ?thesis using fl_mono [of "3 / 4"] binary64.rnd_le_one by fastforce
  qed
  have "0 \<le> age / of_int m \<and> age / of_int m \<le> 1" if "0 \<le> age" "age \<le> of_int m"
    using that by (cases "(0 :: rat) < of_int m") (auto simp: divide_le_eq_1 zero_le_divide_iff)
  then have "3 / 4 \<le> fl (1 - fl (1 / 4 * fl (age / of_int m))) \<and> fl (1 - fl (1 / 4 * fl (age / of_int m))) \<le> 1"
    if "0 \<le> age" "age \<le> of_int m"
    using that bounds by blast
  then show "0 \<le> f \<and> f \<le> 1" "label = ''FRESH'' \<Longrightarrow> 3 / 4 \<le> f"
    using assms by (fastforce simp: freshness_of_def split: if_splits)+
  show "label = ''FRESH'' \<longleftrightarrow> 0 \<le> age \<and> age \<le> of_int m"
    "label = ''STALE'' \<longleftrightarrow> 0 \<le> age \<and> of_int m < age"
    "rs = [] \<longleftrightarrow> label = ''FRESH''" "''FUTURE_EVIDENCE'' \<in> set rs \<longleftrightarrow> age < 0"
    using assms by (auto simp: freshness_of_def split: if_splits)
qed

lemma item_score_unit:
  "0 \<le> a \<Longrightarrow> a \<le> 1 \<Longrightarrow> 0 \<le> b \<Longrightarrow> b \<le> 1 \<Longrightarrow> 0 \<le> c \<Longrightarrow> c \<le> 1 \<Longrightarrow> 0 \<le> d \<Longrightarrow> d \<le> 1 \<Longrightarrow>
   0 \<le> item_score a b c d \<and> item_score a b c d \<le> 1"
  unfolding item_score_def
  by (intro binary64.rnd_unit mult_nonneg_nonneg mult_le_one conjunct1 [OF binary64.rnd_unit]
      conjunct2 [OF binary64.rnd_unit])

lemma not_reason: "\<not> list_ex P (xs @ ys) \<longleftrightarrow> \<not> list_ex P xs \<and> \<not> list_ex P ys"
  by simp

text \<open>What an item that is not invalid has passed.\<close>

definition item_accepted ::
  "evidence_rules \<Rightarrow> attestation_keys \<Rightarrow> instant \<Rightarrow> pystr \<Rightarrow> evidence_item \<Rightarrow> bool" where
  "item_accepted er keys now target e \<longleftrightarrow>
     ev_subject_target_id e = target
     \<and> (\<exists>s. map_of (er_trusted_sources er) (ev_source_instance e) = Some s \<and> ts_source_type s = ev_source_type e
          \<and> trust_level_value (ev_trust_level e) = ts_trust_level s)
     \<and> verify_attestation keys e \<and> ep_verified (ev_provenance e)
     \<and> ei_status (ev_integrity e) = IntegrityVerified \<and> content_digest_matches e
     \<and> \<not> is_poisoned e
     \<and> er_minimum_reliability er \<le> ev_reliability e \<and> er_minimum_relevance er \<le> ev_relevance e
     \<and> (\<exists>t. parse_datetime (ev_observed_at e) = Some t \<and> 0 \<le> age_of now t)"

lemma freshness_reasons:
  "freshness_of m age = (label, rs, f) \<Longrightarrow>
     list_ex (\<lambda>r. r \<in> set fatal_reasons) rs \<longleftrightarrow> age < 0"
  by (auto simp: freshness_of_def fatal_reasons_def split: if_splits)

lemma registry_reasons:
  "registry_view er e = (ty, rel, tr, rs) \<Longrightarrow>
     \<not> list_ex (\<lambda>r. r \<in> set fatal_reasons) rs \<Longrightarrow>
     \<exists>s. map_of (er_trusted_sources er) (ev_source_instance e) = Some s \<and> ts_source_type s = ev_source_type e
       \<and> trust_level_value (ev_trust_level e) = ts_trust_level s \<and> rel = ts_reliability s \<and> tr = ts_trust_level s"
  by (auto simp: registry_view_def fatal_reasons_def split: option.splits if_splits)

lemma list_ex_if: "list_ex P (if c then [x] else []) \<longleftrightarrow> c \<and> P x"
  by simp

lemma fatal_item_reasons:
  "\<not> list_ex (\<lambda>r. r \<in> set fatal_reasons) (item_reasons sub srs prov sg integ dig trs pois rel rv) \<longleftrightarrow>
     sub \<and> \<not> list_ex (\<lambda>r. r \<in> set fatal_reasons) srs \<and> prov \<and> sg \<and> integ \<and> dig
     \<and> \<not> list_ex (\<lambda>r. r \<in> set fatal_reasons) trs \<and> \<not> pois \<and> rel \<and> rv"
  unfolding item_reasons_def list_ex_append list_ex_if de_Morgan_disj not_not by (auto simp: fatal_reasons_def)

lemma view_item_facts:
  assumes "view_item er keys now target e = Inr v"
  shows "iv_item v = e" "ia_poisoned (iv_assessment v) = is_poisoned e"
    "iv_valid v \<Longrightarrow> item_accepted er keys now target e"
    "\<exists>t. parse_datetime (ev_observed_at e) = Some t \<and> (iv_freshness v = ''FRESH'' \<longleftrightarrow>
       0 \<le> age_of now t \<and> age_of now t \<le> of_int (er_maximum_age_seconds er))"
    "\<exists>t. parse_datetime (ev_observed_at e) = Some t \<and> (iv_freshness v = ''STALE'' \<longleftrightarrow>
       0 \<le> age_of now t \<and> of_int (er_maximum_age_seconds er) < age_of now t)"
proof -
  obtain t where t: "parse_datetime (ev_observed_at e) = Some t"
    using assms by (auto simp: view_item_def split: option.splits)
  obtain ty rel tr srs where reg: "registry_view er e = (ty, rel, tr, srs)" by (cases "registry_view er e") auto
  obtain label trs f where fr: "freshness_of (er_maximum_age_seconds er) (age_of now t) = (label, trs, f)"
    by (cases "freshness_of (er_maximum_age_seconds er) (age_of now t)") auto
  note view = assms [unfolded view_item_def t option.case reg fr Let_def split_conv]
  show "iv_item v = e" "ia_poisoned (iv_assessment v) = is_poisoned e"
    using view by (auto split: if_splits)
  have "iv_freshness v = label" using view by (auto split: if_splits)
  then show "\<exists>t. parse_datetime (ev_observed_at e) = Some t \<and> (iv_freshness v = ''FRESH'' \<longleftrightarrow>
       0 \<le> age_of now t \<and> age_of now t \<le> of_int (er_maximum_age_seconds er))"
    "\<exists>t. parse_datetime (ev_observed_at e) = Some t \<and> (iv_freshness v = ''STALE'' \<longleftrightarrow>
       0 \<le> age_of now t \<and> of_int (er_maximum_age_seconds er) < age_of now t)"
    using t freshness_factor(3,4) [OF fr] by auto
  show "item_accepted er keys now target e" if "iv_valid v"
  proof -
    have accepted: "ev_subject_target_id e = target" "\<not> list_ex (\<lambda>r. r \<in> set fatal_reasons) srs"
      "ep_verified (ev_provenance e)" "verify_attestation keys e"
      "ei_status (ev_integrity e) = IntegrityVerified" "content_digest_matches e"
      "\<not> list_ex (\<lambda>r. r \<in> set fatal_reasons) trs" "\<not> is_poisoned e"
      "er_minimum_reliability er \<le> ev_reliability e" "er_minimum_relevance er \<le> ev_relevance e"
      using view that by (auto simp: fatal_item_reasons not_less split: if_split_asm)
    have "\<exists>s. map_of (er_trusted_sources er) (ev_source_instance e) = Some s \<and> ts_source_type s = ev_source_type e
       \<and> trust_level_value (ev_trust_level e) = ts_trust_level s" "0 \<le> age_of now t"
      using registry_reasons [OF reg] freshness_reasons [OF fr] accepted(2,7) by (auto simp: not_less)
    moreover note accepted
    ultimately show ?thesis using t by (auto simp: item_accepted_def not_less)
  qed
qed

subsection \<open>The accumulated state\<close>

definition loop_state :: "pystr \<Rightarrow> item_view list \<Rightarrow> evidence_state" where
  "loop_state claim views = fold (evidence_step claim) views no_evidence"

lemma loop_state_Nil [simp]: "loop_state claim [] = no_evidence"
  by (simp add: loop_state_def)

lemma loop_state_snoc [simp]: "loop_state claim (views @ [v]) = evidence_step claim v (loop_state claim views)"
  by (simp add: loop_state_def)

lemma loop_lists:
  "es_assessed (loop_state claim views) = map iv_assessment views"
  "es_invalid (loop_state claim views) = map (\<lambda>v. ev_id (iv_item v)) (filter (\<lambda>v. \<not> iv_valid v) views)"
  "es_stale (loop_state claim views) = map (\<lambda>v. ev_id (iv_item v)) (filter (\<lambda>v. iv_freshness v = ''STALE'') views)"
  "es_poisoned (loop_state claim views)
     = map (\<lambda>v. ev_id (iv_item v)) (filter (\<lambda>v. ia_poisoned (iv_assessment v)) views)"
  by (induction views rule: rev_induct) (simp_all add: no_evidence_def evidence_step_def)

lemma loop_sets:
  "set (es_source_types (loop_state claim views)) = {ev_source_type (iv_item v) | v. v \<in> set views \<and> iv_valid v}"
  "set (es_corroborating (loop_state claim views)) = source_key ` {v \<in> set views. supports_hypothesis claim v}"
  "set (es_conflicting (loop_state claim views)) = source_key ` {v \<in> set views. contradicts_hypothesis claim v}"
  "distinct (es_corroborating (loop_state claim views))"
  "distinct (es_conflicting (loop_state claim views))"
  by (induction views rule: rev_induct) (auto simp: no_evidence_def evidence_step_def)

lemma loop_score_keys:
  "fst ` set (es_scores (loop_state claim views)) = set (es_corroborating (loop_state claim views))"
  "distinct (map fst (es_scores (loop_state claim views)))"
  by (induction views rule: rev_induct)
    (auto simp: no_evidence_def evidence_step_def keys_dict_set distinct_dict_set)

lemma dict_set_values: "(k', x) \<in> set (dict_set k v d) \<Longrightarrow> x = v \<or> (k', x) \<in> set d"
  by (induction d) (auto split: if_splits)

lemma loop_score_values:
  assumes "\<forall>v \<in> set views. iv_score v \<le> 1"
  shows "p \<in> set (es_scores (loop_state claim views)) \<Longrightarrow> 0 \<le> snd p \<and> snd p \<le> 1"
  using assms
proof (induction views arbitrary: p rule: rev_induct)
  case (snoc v views)
  note ih = snoc.IH
  let ?st = "loop_state claim views"
  have old: "0 \<le> x \<and> x \<le> 1" if "map_of (es_scores ?st) k = Some x" for k x
    using ih [of "(k, x)"] snoc.prems(2) map_of_SomeD [OF that] by auto
  show ?case
  proof (cases "supports_hypothesis claim v")
    case True
    let ?new = "max (iv_score v) (case map_of (es_scores ?st) (source_key v) of Some x \<Rightarrow> x | None \<Rightarrow> 0)"
    have "0 \<le> ?new \<and> ?new \<le> 1"
      using True snoc.prems(2) old [of "source_key v"]
      by (auto simp: supports_hypothesis_def max_def split: option.splits)
    moreover have "snd p = ?new \<or> p \<in> set (es_scores ?st)"
      using True snoc.prems(1) dict_set_values [of "fst p" "snd p" "source_key v" ?new "es_scores ?st"]
      by (simp add: evidence_step_def)
    ultimately show ?thesis
      using ih [of p] snoc.prems(2) by auto
  next
    case False
    with snoc show ?thesis by (auto simp: evidence_step_def)
  qed
qed (simp add: no_evidence_def)

text \<open>Distinct supporting sources, as the loop counts them.\<close>

lemma sources_card:
  "length (es_corroborating (loop_state claim views)) = card (source_key ` {v \<in> set views. supports_hypothesis claim v})"
  using loop_sets(2,4) [of claim views] by (metis distinct_card)

lemma scores_length:
  "length (es_scores (loop_state claim views)) = length (es_corroborating (loop_state claim views))"
  using loop_score_keys [of claim views] loop_sets(4) [of claim views]
  by (metis distinct_card length_map list.set_map)

subsection \<open>The mean of unit scores\<close>

lemma mean_strength_unit:
  assumes "\<forall>x \<in> set xs. 0 \<le> x \<and> x \<le> 1" "length xs < 2 ^ 53"
  shows "0 \<le> mean_strength xs \<and> mean_strength xs \<le> 1"
  using mean_unit [OF assms] by (simp add: mean_strength_def)

subsection \<open>The whole assessment\<close>

lemma assess_evidence_views:
  assumes "assess_evidence er keys now r = Inr a"
  obtains views required where
    "map_result (view_item er keys now (ac_target (dr_action r))) (dr_evidence r) = Inr views"
    "a = summarize er required (loop_state (er_hypothesis_claim er) views)"
    "map iv_item views = dr_evidence r"
    "\<And>v. v \<in> set views \<Longrightarrow> view_item er keys now (ac_target (dr_action r)) (iv_item v) = Inr v"
    "required = (case map_of (er_required_sources er) (action_type_value (ac_type (dr_action r))) of
       Some ss \<Rightarrow> ss | None \<Rightarrow> [])"
proof -
  obtain views where v: "map_result (view_item er keys now (ac_target (dr_action r))) (dr_evidence r) = Inr views"
    using assms by (auto simp: assess_evidence_def)
  have all: "map_result (view_item er keys now tg) es = Inr vs \<Longrightarrow>
      map iv_item vs = es \<and> (\<forall>v \<in> set vs. view_item er keys now tg (iv_item v) = Inr v)" for es vs tg
    by (induction es arbitrary: vs) (auto simp: view_item_facts(1))
  show thesis
    by (rule that [OF v]) (use assms v all [OF v] in \<open>auto simp: assess_evidence_def loop_state_def\<close>)
qed

lemma decision_grade_accepted:
  assumes "assess_evidence er keys now r = Inr a" "ea_decision_grade a"
  shows "dr_evidence r \<noteq> [] \<and> (\<forall>e \<in> set (dr_evidence r). item_accepted er keys now (ac_target (dr_action r)) e)"
proof -
  obtain views required where v: "a = summarize er required (loop_state (er_hypothesis_claim er) views)"
    "map iv_item views = dr_evidence r"
    "\<And>v. v \<in> set views \<Longrightarrow> view_item er keys now (ac_target (dr_action r)) (iv_item v) = Inr v"
    using assess_evidence_views [OF assms(1)] by metis
  have "views \<noteq> []" "\<forall>v \<in> set views. iv_valid v"
    using assms(2) unfolding v(1) by (auto simp: summarize_def Let_def loop_lists filter_empty_conv)
  then show ?thesis
    using v(2,3) view_item_facts(3) by (auto simp: v(2) [symmetric])
qed

text \<open>Whether an item is fresh, and whether it counts as support, as functions of the item alone.\<close>

definition item_fresh :: "evidence_rules \<Rightarrow> instant \<Rightarrow> evidence_item \<Rightarrow> bool" where
  "item_fresh er now e \<longleftrightarrow>
     (\<exists>t. parse_datetime (ev_observed_at e) = Some t
        \<and> 0 \<le> age_of now t \<and> age_of now t \<le> of_int (er_maximum_age_seconds er))"

lemma automation_grade_facts:
  assumes "assess_evidence er keys now r = Inr a" "ea_automation_grade a" "er_maximum_conflicts er = 0"
  shows "\<forall>e \<in> set (dr_evidence r). item_accepted er keys now (ac_target (dr_action r)) e
      \<and> item_fresh er now e \<and> er_hypothesis_claim er \<notin> set (ev_contradicts e)"
    and "er_minimum_sources er \<le> int (card {(ev_source_type e, ev_source_instance e) | e.
           e \<in> set (dr_evidence r) \<and> er_hypothesis_claim er \<in> set (ev_supports e)})"
    and "\<forall>s \<in> set (case map_of (er_required_sources er) (action_type_value (ac_type (dr_action r))) of
           Some ss \<Rightarrow> ss | None \<Rightarrow> []). \<exists>e \<in> set (dr_evidence r). ev_source_type e = s"
proof -
  obtain views required where v: "a = summarize er required (loop_state (er_hypothesis_claim er) views)"
    "map iv_item views = dr_evidence r"
    "\<And>v. v \<in> set views \<Longrightarrow> view_item er keys now (ac_target (dr_action r)) (iv_item v) = Inr v"
    "required = (case map_of (er_required_sources er) (action_type_value (ac_type (dr_action r))) of
       Some ss \<Rightarrow> ss | None \<Rightarrow> [])"
    using assess_evidence_views [OF assms(1)] by metis
  let ?st = "loop_state (er_hypothesis_claim er) views"
  have auto: "ea_decision_grade a" "es_stale ?st = []" "es_conflicting ?st = []"
    "er_minimum_sources er \<le> int (length (es_corroborating ?st))"
    "sort (remdups (filter (\<lambda>s. s \<notin> set (es_source_types ?st)) required)) = []"
    using assms(2,3) unfolding v(1) by (auto simp: summarize_def Let_def)
  have evidence: "set (dr_evidence r) = iv_item ` set views" by (simp add: v(2) [symmetric])
  have accepted: "\<forall>e \<in> set (dr_evidence r). item_accepted er keys now (ac_target (dr_action r)) e"
    using decision_grade_accepted [OF assms(1) auto(1)] by blast
  show "\<forall>e \<in> set (dr_evidence r). item_accepted er keys now (ac_target (dr_action r)) e
      \<and> item_fresh er now e \<and> er_hypothesis_claim er \<notin> set (ev_contradicts e)"
  proof (intro ballI conjI)
    fix e assume e: "e \<in> set (dr_evidence r)"
    with accepted show acc: "item_accepted er keys now (ac_target (dr_action r)) e" by blast
    obtain w where w: "w \<in> set views" "iv_item w = e" using e evidence by auto
    note facts = view_item_facts [OF v(3) [OF w(1)]]
    have "iv_freshness w \<noteq> ''STALE''"
      using auto(2) w(1) by (auto simp: loop_lists filter_empty_conv)
    with facts(5) acc w(2) show "item_fresh er now e"
      by (auto simp: item_fresh_def item_accepted_def not_less)
    have "iv_valid w"
      using auto(1) w(1) unfolding v(1) by (auto simp: summarize_def Let_def loop_lists filter_empty_conv)
    moreover have "\<not> contradicts_hypothesis (er_hypothesis_claim er) w"
      using auto(3) w(1) loop_sets(3) [of "er_hypothesis_claim er" views] by auto
    ultimately show "er_hypothesis_claim er \<notin> set (ev_contradicts e)"
      using w(2) by (simp add: contradicts_hypothesis_def)
  qed
  have "source_key ` {w \<in> set views. supports_hypothesis (er_hypothesis_claim er) w}
      \<subseteq> {(ev_source_type e, ev_source_instance e) | e. e \<in> set (dr_evidence r) \<and> er_hypothesis_claim er \<in> set (ev_supports e)}"
    using evidence by (auto simp: source_key_def supports_hypothesis_def)
  moreover have "finite {(ev_source_type e, ev_source_instance e) | e. e \<in> set (dr_evidence r) \<and> er_hypothesis_claim er \<in> set (ev_supports e)}"
    by simp
  ultimately have "length (es_corroborating ?st) \<le> card {(ev_source_type e, ev_source_instance e) | e.
           e \<in> set (dr_evidence r) \<and> er_hypothesis_claim er \<in> set (ev_supports e)}"
    unfolding sources_card by (rule card_mono [rotated])
  with auto(4) show "er_minimum_sources er \<le> int (card {(ev_source_type e, ev_source_instance e) | e.
           e \<in> set (dr_evidence r) \<and> er_hypothesis_claim er \<in> set (ev_supports e)})" by linarith
  have "set (filter (\<lambda>s. s \<notin> set (es_source_types ?st)) required) = {}"
    using auto(5) by (metis set_remdups set_sort list.set(1))
  then show "\<forall>s \<in> set (case map_of (er_required_sources er) (action_type_value (ac_type (dr_action r))) of
           Some ss \<Rightarrow> ss | None \<Rightarrow> []). \<exists>e \<in> set (dr_evidence r). ev_source_type e = s"
    unfolding v(4) [symmetric] using evidence by (auto simp: loop_sets)
qed

definition unit_tables :: "evidence_rules \<Rightarrow> bool" where
  "unit_tables er \<longleftrightarrow>
     list_all (\<lambda>(_, s). 0 \<le> ts_reliability s \<and> ts_reliability s \<le> 1) (er_trusted_sources er)
     \<and> list_all (\<lambda>(_, w). 0 \<le> w \<and> w \<le> 1) (er_trust_weights er)"

lemma view_score_unit:
  assumes "view_item er keys now target e = Inr v" "unit_tables er" "0 \<le> ev_relevance e" "ev_relevance e \<le> 1"
  shows "0 \<le> iv_score v \<and> iv_score v \<le> 1 \<and> 0 \<le> ia_score (iv_assessment v) \<and> ia_score (iv_assessment v) \<le> 1"
proof -
  obtain t where t: "parse_datetime (ev_observed_at e) = Some t"
    using assms by (auto simp: view_item_def split: option.splits)
  obtain ty rel tr srs where reg: "registry_view er e = (ty, rel, tr, srs)" by (cases "registry_view er e") auto
  obtain label trs f where fr: "freshness_of (er_maximum_age_seconds er) (age_of now t) = (label, trs, f)"
    by (cases "freshness_of (er_maximum_age_seconds er) (age_of now t)") auto
  have rel: "0 \<le> rel \<and> rel \<le> 1"
    using reg assms(2) by (auto simp: registry_view_def unit_tables_def list_all_iff split: option.splits if_splits
        dest!: map_of_SomeD)
  have "0 \<le> (case map_of (er_trust_weights er) tr of Some w \<Rightarrow> w | None \<Rightarrow> 0)
      \<and> (case map_of (er_trust_weights er) tr of Some w \<Rightarrow> w | None \<Rightarrow> 0) \<le> 1"
    using assms(2) by (auto simp: unit_tables_def list_all_iff split: option.splits dest!: map_of_SomeD)
  then have unit: "0 \<le> item_score rel (case map_of (er_trust_weights er) tr of Some w \<Rightarrow> w | None \<Rightarrow> 0) (ev_relevance e) f
      \<and> item_score rel (case map_of (er_trust_weights er) tr of Some w \<Rightarrow> w | None \<Rightarrow> 0) (ev_relevance e) f \<le> 1"
    using rel assms(3,4) freshness_factor(1) [OF fr] by (intro item_score_unit) auto
  show ?thesis
    using assms(1) [unfolded view_item_def t option.case reg fr Let_def split_conv] unit
    by (auto simp: py_round_unit split: if_splits)
qed

lemma evidence_scores_unit:
  assumes "assess_evidence er keys now r = Inr a" "unit_tables er"
    "\<forall>e \<in> set (dr_evidence r). 0 \<le> ev_relevance e \<and> ev_relevance e \<le> 1" "length (dr_evidence r) < 2 ^ 53"
  shows "0 \<le> ea_overall_strength a \<and> ea_overall_strength a \<le> 1
    \<and> (\<forall>i \<in> set (ea_assessed_items a). 0 \<le> ia_score i \<and> ia_score i \<le> 1)"
proof -
  obtain views required where v: "a = summarize er required (loop_state (er_hypothesis_claim er) views)"
    "map iv_item views = dr_evidence r"
    "\<And>v. v \<in> set views \<Longrightarrow> view_item er keys now (ac_target (dr_action r)) (iv_item v) = Inr v"
    using assess_evidence_views [OF assms(1)] by metis
  let ?st = "loop_state (er_hypothesis_claim er) views"
  have scores: "\<forall>w \<in> set views. 0 \<le> iv_score w \<and> iv_score w \<le> 1
      \<and> 0 \<le> ia_score (iv_assessment w) \<and> ia_score (iv_assessment w) \<le> 1"
    using view_score_unit [OF v(3) assms(2)] assms(3) unfolding v(2) [symmetric] by simp
  have "set (es_corroborating ?st) \<subseteq> source_key ` set views" by (auto simp: loop_sets)
  then have "card (set (es_corroborating ?st)) \<le> card (source_key ` set views)" by (intro card_mono) auto
  also have "\<dots> \<le> card (set views)" by (rule card_image_le) simp
  also have "\<dots> \<le> length views" by (rule card_length)
  finally have "length (es_corroborating ?st) \<le> length views"
    using distinct_card [OF loop_sets(4) [of "er_hypothesis_claim er" views]] by linarith
  moreover have "length views = length (dr_evidence r)" by (metis v(2) length_map)
  ultimately have "length (map snd (es_scores ?st)) < 2 ^ 53"
    using assms(4) by (simp add: scores_length)
  moreover have "\<forall>x \<in> set (map snd (es_scores ?st)). 0 \<le> x \<and> x \<le> 1"
    using loop_score_values [of views] scores by auto
  ultimately have "0 \<le> mean_strength (map snd (es_scores ?st)) \<and> mean_strength (map snd (es_scores ?st)) \<le> 1"
    by (intro mean_strength_unit)
  then have "0 \<le> ea_overall_strength a \<and> ea_overall_strength a \<le> 1"
    unfolding v(1) by (simp add: summarize_def Let_def py_round_unit)
  moreover have "set (ea_assessed_items a) = iv_assessment ` set views"
    unfolding v(1) by (simp add: summarize_def Let_def loop_lists)
  ultimately show ?thesis using scores by auto
qed

subsection \<open>Properties\<close>

text \<open>Automation-grade evidence means what it says: every item of the request names the acted-on
  target, comes from a registered source with a matching type and trust level, carries a valid
  attestation, matches its content digest, is free of injection patterns, is fresh, and does
  not contradict the hypothesis; enough distinct sources support it, and every source type the
  action requires is present.\<close>

theorem automation_grade_sound:
  assumes "assess_evidence er keys now r = Inr a" "ea_automation_grade a" "er_maximum_conflicts er = 0"
  shows "(\<forall>e \<in> set (dr_evidence r). item_accepted er keys now (ac_target (dr_action r)) e
      \<and> item_fresh er now e \<and> er_hypothesis_claim er \<notin> set (ev_contradicts e))
    \<and> er_minimum_sources er \<le> int (card {(ev_source_type e, ev_source_instance e) | e.
           e \<in> set (dr_evidence r) \<and> er_hypothesis_claim er \<in> set (ev_supports e)})
    \<and> (\<forall>s \<in> set (case map_of (er_required_sources er) (action_type_value (ac_type (dr_action r))) of
           Some ss \<Rightarrow> ss | None \<Rightarrow> []). \<exists>e \<in> set (dr_evidence r). ev_source_type e = s)"
  using automation_grade_facts [OF assms] by blast

definition sample_key :: "pystr \<Rightarrow> string" where
  "sample_key name = take 32 (concat (replicate 32 name))"

definition sample_item :: "pystr \<Rightarrow> pystr \<Rightarrow> evidence_item" where
  "sample_item name ty =
     (let e = \<lparr>ev_id = name, ev_subject_target_id = ''ws-1'', ev_source_type = ty, ev_source_instance = name,
        ev_provenance = \<lparr>ep_id = ''p-1'', ep_verified = True, ep_signature = []\<rparr>,
        ev_integrity = \<lparr>ei_status = IntegrityVerified,
          ei_content_sha256 = calculate_content_sha256 (JObj []) ''beacon seen''\<rparr>,
        ev_observed_at = ''2025-12-31T23:59:00+00:00'', ev_reliability = fl (9 / 10), ev_trust_level = HighTrust,
        ev_supports = [''COMPROMISE''], ev_contradicts = [], ev_relevance = 1, ev_payload = JObj [],
        ev_untrusted_text = ''beacon seen''\<rparr>
      in e\<lparr>ev_provenance := \<lparr>ep_id = ''p-1'', ep_verified = True,
            ep_signature = hmac_json (sample_key name) (attestation_payload e)\<rparr>\<rparr>)"

definition sample_keys :: attestation_keys where
  "sample_keys = [(''edr-1'', sample_key ''edr-1''), (''siem-1'', sample_key ''siem-1'')]"

definition evidence_request :: decision_request where
  "evidence_request = sample_request\<lparr>dr_evidence := [sample_item ''edr-1'' ''EDR'', sample_item ''siem-1'' ''SIEM'']\<rparr>"

lemma sample_item_checks:
  assumes "map_of keys name = Some (sample_key name)" "name \<noteq> []"
  shows "verify_attestation keys (sample_item name ty)" "content_digest_matches (sample_item name ty)"
    "\<not> is_poisoned (sample_item name ty)"
proof -
  have "length (concat (replicate n name)) = n * length name" for n by (induction n) auto
  moreover have "1 \<le> length name" using assms(2) by (cases name) auto
  ultimately have "32 \<le> length (concat (replicate 32 name))" by simp
  then have "length (sample_key name) = 32" by (simp add: sample_key_def)
  then show "verify_attestation keys (sample_item name ty)"
    using assms(1) by (simp add: verify_attestation_def sign_evidence_attestation_def sample_item_def Let_def
        attestation_payload_def)
  show "content_digest_matches (sample_item name ty)"
    by (simp add: content_digest_matches_def sample_item_def Let_def)
  have "\<not> list_ex (\<lambda>rs. rx_search rs (''beacon seen'' @ [CHR 0x0A] @ canonical_json (JObj []))) instruction_patterns"
    by code_simp
  then show "\<not> is_poisoned (sample_item name ty)"
    by (simp add: is_poisoned_def sample_item_def Let_def)
qed

lemma sample_age:
  "parse_datetime ''2025-12-31T23:59:00+00:00'' = Some (sample_now - 60 * micros)"
  "freshness_of 900 (age_of sample_now (sample_now - 60 * micros)) = (''FRESH'', [], 
     fl (1 - fl (1 / 4 * fl (60 / 900))))"
proof -
  show "parse_datetime ''2025-12-31T23:59:00+00:00'' = Some (sample_now - 60 * micros)" by code_simp
  have "age_of sample_now (sample_now - 60 * micros) = 60" by code_simp
  then show "freshness_of 900 (age_of sample_now (sample_now - 60 * micros)) = (''FRESH'', [], 
     fl (1 - fl (1 / 4 * fl (60 / 900))))" by (simp add: freshness_of_def)
qed

lemma sample_scores:
  "item_score (fl (9 / 10)) 1 1 (fl (1 - fl (1 / 4 * fl (60 / 900)))) > 6 / 10"
  "age_of sample_now (sample_now - 60 * micros) = 60"
  by code_simp+

lemma sample_view:
  assumes "name = ''edr-1'' \<and> ty = ''EDR'' \<or> name = ''siem-1'' \<and> ty = ''SIEM''"
  shows "\<exists>v. view_item (po_evidence sample_policy) sample_keys sample_now ''ws-1'' (sample_item name ty) = Inr v
     \<and> iv_valid v \<and> iv_freshness v = ''FRESH'' \<and> iv_item v = sample_item name ty
     \<and> iv_score v = item_score (fl (9 / 10)) 1 1 (fl (1 - fl (1 / 4 * fl (60 / 900))))
     \<and> \<not> ia_poisoned (iv_assessment v)"
proof -
  have keys: "map_of sample_keys name = Some (sample_key name)" "name \<noteq> []"
    using assms by (auto simp: sample_keys_def)
  have reg: "registry_view (po_evidence sample_policy) (sample_item name ty) = (ty, fl (9 / 10), ''HIGH'', [])"
    using assms by (auto simp: registry_view_def sample_policy_def sample_item_def sample_source_def isclose_def Let_def)
  have fields: "ev_observed_at (sample_item name ty) = ''2025-12-31T23:59:00+00:00''"
    "ev_subject_target_id (sample_item name ty) = ''ws-1''" "ev_relevance (sample_item name ty) = 1"
    "ev_reliability (sample_item name ty) = fl (9 / 10)" "ep_id (ev_provenance (sample_item name ty)) = ''p-1''"
    "ep_verified (ev_provenance (sample_item name ty))"
    "ei_status (ev_integrity (sample_item name ty)) = IntegrityVerified"
    by (simp_all add: sample_item_def Let_def)
  have policy: "er_maximum_age_seconds (po_evidence sample_policy) = 900"
    "er_minimum_reliability (po_evidence sample_policy) = fl (6 / 10)"
    "er_minimum_relevance (po_evidence sample_policy) = 1 / 2"
    "map_of (er_trust_weights (po_evidence sample_policy)) ''HIGH'' = Some 1"
    by (simp_all add: sample_policy_def)
  have "fl (6 / 10) \<le> fl (9 / 10)" by (rule fl_mono) simp
  then show ?thesis
    using sample_item_checks [OF keys, of ty] sample_age
    unfolding view_item_def fields policy reg
    by (simp add: item_reasons_def sample_scores policy Let_def fatal_reasons_def fields)
qed

lemma mean_same:
  assumes "fl (x + x) = x + x" "fl x = x"
  shows "mean_strength [x, x] = x"
proof -
  have "(x + x) / of_nat (length [x, x]) = x" by simp
  then show ?thesis using assms by (simp only: mean_strength_def fsum_def sum_list.Cons sum_list.Nil
      add_0_right list.distinct if_False)
qed

lemma sample_automation_grade:
  "\<exists>a. assess_evidence (po_evidence sample_policy) sample_keys sample_now evidence_request = Inr a
     \<and> ea_automation_grade a"
proof -
  let ?er = "po_evidence sample_policy"
  let ?score = "item_score (fl (9 / 10)) 1 1 (fl (1 - fl (1 / 4 * fl (60 / 900))))"
  obtain v1 where v1: "view_item ?er sample_keys sample_now ''ws-1'' (sample_item ''edr-1'' ''EDR'') = Inr v1"
    "iv_valid v1" "iv_freshness v1 = ''FRESH''" "iv_item v1 = sample_item ''edr-1'' ''EDR''" "iv_score v1 = ?score"
    using sample_view [of "''edr-1''" "''EDR''"] by auto
  obtain v2 where v2: "view_item ?er sample_keys sample_now ''ws-1'' (sample_item ''siem-1'' ''SIEM'') = Inr v2"
    "iv_valid v2" "iv_freshness v2 = ''FRESH''" "iv_item v2 = sample_item ''siem-1'' ''SIEM''" "iv_score v2 = ?score"
    using sample_view [of "''siem-1''" "''SIEM''"] by auto
  have policy: "er_hypothesis_claim ?er = ''COMPROMISE''" "er_maximum_conflicts ?er = 0" "er_minimum_sources ?er = 2"
    "er_minimum_strength ?er = fl (6 / 10)" "map_of (er_required_sources ?er) ''NETWORK_ISOLATE'' = Some [''EDR'', ''SIEM'']"
    by (simp_all add: sample_policy_def)
  obtain x where x: "x = ?score" by simp
  let ?n = "3985685670222889 / 4503599627370496 :: rat"
  have n: "x = ?n" unfolding x by code_simp
  have "fl (?n + ?n) = ?n + ?n" "fl ?n = ?n" "fl (6 / 10) \<le> ?n" "0 < ?n" by code_simp+
  then have mean: "mean_strength [x, x] \<ge> fl (6 / 10)" "mean_strength [x, x] > 0" "x > 0"
    unfolding n [symmetric] by (simp_all only: mean_same)
  note v1 = v1 [folded x] and v2 = v2 [folded x]
  have fields: "ev_supports (sample_item n t) = [''COMPROMISE'']" "ev_contradicts (sample_item n t) = []"
    "ev_id (sample_item n t) = n" "ev_source_type (sample_item n t) = t" "ev_source_instance (sample_item n t) = n"
    for n t by (simp_all add: sample_item_def Let_def)
  have request: "dr_evidence evidence_request = [sample_item ''edr-1'' ''EDR'', sample_item ''siem-1'' ''SIEM'']"
    "ac_target (dr_action evidence_request) = ''ws-1''" "ac_type (dr_action evidence_request) = NetworkIsolate"
    by (simp_all add: evidence_request_def sample_request_def)
  show ?thesis
    using v1 v2 mean
    by (simp add: assess_evidence_def request summarize_def Let_def policy fields
        no_evidence_def evidence_step_def supports_hypothesis_def contradicts_hypothesis_def source_key_def)
qed

theorem automation_grade_sound_witness:
  "\<exists>a. assess_evidence (po_evidence sample_policy) sample_keys sample_now evidence_request = Inr a
     \<and> ea_automation_grade a
     \<and> (\<forall>e \<in> set (dr_evidence evidence_request). item_fresh (po_evidence sample_policy) sample_now e)"
proof -
  obtain a where a: "assess_evidence (po_evidence sample_policy) sample_keys sample_now evidence_request = Inr a"
    "ea_automation_grade a" using sample_automation_grade by blast
  have "er_maximum_conflicts (po_evidence sample_policy) = 0" by (simp add: sample_policy_def)
  with automation_grade_sound [OF a this] a show ?thesis by blast
qed

text \<open>Under a policy whose reliabilities and trust weights lie in the unit interval, and for items
  whose relevance does, every item score and the overall strength are in the unit interval in
  binary64, rounding included.\<close>

theorem evidence_strength_unit:
  assumes "assess_evidence er keys now r = Inr a" "unit_tables er"
    "\<forall>e \<in> set (dr_evidence r). 0 \<le> ev_relevance e \<and> ev_relevance e \<le> 1" "length (dr_evidence r) < 2 ^ 53"
  shows "0 \<le> ea_overall_strength a \<and> ea_overall_strength a \<le> 1
    \<and> (\<forall>i \<in> set (ea_assessed_items a). 0 \<le> ia_score i \<and> ia_score i \<le> 1)"
  by (rule evidence_scores_unit [OF assms])

theorem evidence_strength_unit_witness:
  "\<exists>a. assess_evidence (po_evidence sample_policy) sample_keys sample_now evidence_request = Inr a
     \<and> 0 \<le> ea_overall_strength a \<and> ea_overall_strength a \<le> 1"
proof -
  obtain a where a: "assess_evidence (po_evidence sample_policy) sample_keys sample_now evidence_request = Inr a"
    using sample_automation_grade by blast
  have nine: "0 \<le> fl (9 / 10) \<and> fl (9 / 10) \<le> 1" by code_simp
  have "unit_tables (po_evidence sample_policy)"
    using binary64.rnd_unit by (simp add: unit_tables_def sample_policy_def sample_source_def)
  moreover have "\<forall>e \<in> set (dr_evidence evidence_request). 0 \<le> ev_relevance e \<and> ev_relevance e \<le> 1"
    by (simp add: evidence_request_def sample_item_def Let_def)
  moreover have "length (dr_evidence evidence_request) < 2 ^ 53" by (simp add: evidence_request_def)
  ultimately show ?thesis using evidence_strength_unit [OF a] a by blast
qed

end
