(* ===== verification/P3Consequence.thy ===== *)
theory P3Consequence
  imports P3Policy P3Models
begin

text \<open>
  \<open>assess_consequence\<close> of \<open>phase3/consequence.py\<close>: the weighted score of an isolation on the
  authoritative target and action records, its level, and the human-approval boundary. Each
  float operation of the source is one \<open>fl\<close>, in the order of evaluation.
\<close>

text \<open>\<open>math.ceil(x / 60.0)\<close> and \<open>min(1.0, n / reference)\<close>.\<close>

definition minutes_up :: "int \<Rightarrow> int" where
  "minutes_up seconds = \<lceil>fl (of_int seconds / 60)\<rceil>"

definition pressure :: "int \<Rightarrow> int \<Rightarrow> rat" where
  "pressure n reference = min 1 (fl (of_int n / of_int reference))"

text \<open>\<open>float(weights[name]) * value\<close>; the sum adds the terms from the left.\<close>

definition weighted :: "rat \<Rightarrow> rat \<Rightarrow> rat" where
  "weighted w x = fl (w * x)"

fun float_sum :: "rat \<Rightarrow> rat list \<Rightarrow> rat" where
  "float_sum acc [] = acc"
| "float_sum acc (x # xs) = float_sum (fl (acc + x)) xs"

definition consequence_level :: "rat \<Rightarrow> rat \<Rightarrow> rat \<Rightarrow> pystr" where
  "consequence_level high critical score =
     (if score \<ge> critical then ''CRITICAL''
      else if score \<ge> high then ''HIGH''
      else if score \<ge> 1 / 4 then ''MEDIUM'' else ''LOW'')"

definition factor_terms ::
  "consequence_policy \<Rightarrow> target_record \<Rightarrow> int \<Rightarrow> (reason, rat list) result" where
  "factor_terms cp t downtime =
     (let factor = item (cp_factor_weights cp); impact = item (cp_impact_weights cp) in
      and_then (factor ''criticality'') (\<lambda>f1.
      and_then (item (cp_criticality_weights cp) (tr_criticality t)) (\<lambda>x1.
      and_then (factor ''blast_radius'') (\<lambda>f2.
      and_then (item (cp_blast_radius_weights cp) (tr_blast_radius t)) (\<lambda>x2.
      and_then (factor ''downtime'') (\<lambda>f3.
      and_then (factor ''mission_impact'') (\<lambda>f4.
      and_then (impact (tr_mission_impact t)) (\<lambda>x4.
      and_then (factor ''safety_impact'') (\<lambda>f5.
      and_then (impact (tr_safety_impact t)) (\<lambda>x5.
      and_then (factor ''availability_impact'') (\<lambda>f6.
      and_then (impact (tr_availability_impact t)) (\<lambda>x6.
      and_then (factor ''dependency'') (\<lambda>f7.
      and_then (factor ''isolation_consequence'') (\<lambda>f8.
      and_then (impact (tr_isolation_consequence t)) (\<lambda>x8.
      Inr [weighted f1 x1, weighted f2 x2,
           weighted f3 (pressure downtime (cp_downtime_reference_minutes cp)),
           weighted f4 x4, weighted f5 x5, weighted f6 x6,
           weighted f7 (pressure (int (length (tr_dependencies t))) (cp_dependency_reference_count cp)),
           weighted f8 x8])))))))))))))))"

definition consequence_score :: "consequence_policy \<Rightarrow> bool \<Rightarrow> rat list \<Rightarrow> rat" where
  "consequence_score cp reversible terms =
     (let base = float_sum (hd terms) (tl terms);
          score = (if reversible then base else fl (base + cp_irreversible_penalty cp))
      in py_round 6 (min 1 (max 0 score)))"

definition cascading_effect :: "target_record \<Rightarrow> bool" where
  "cascading_effect t \<longleftrightarrow> tr_dependencies t \<noteq> [] \<and> tr_blast_radius t \<in> set [''SERVICE'', ''ENTERPRISE'']"

definition needs_human_approval ::
  "target_record \<Rightarrow> action_policy \<Rightarrow> consequence_policy \<Rightarrow> pystr \<Rightarrow> int \<Rightarrow> bool" where
  "needs_human_approval t ap cp level downtime \<longleftrightarrow>
     tr_human_approval_required t
     \<or> tr_criticality t \<in> set (ay_human_approval_criticalities ap)
     \<or> level \<in> set (cp_approval_levels cp)
     \<or> tr_isolation_consequence t \<in> set (cp_approval_isolation cp)
     \<or> tr_mission_impact t \<in> set (cp_approval_mission cp)
     \<or> tr_safety_impact t \<in> set (cp_approval_safety cp)
     \<or> tr_availability_impact t \<in> set (cp_approval_availability cp)
     \<or> tr_blast_radius t \<in> set (cp_approval_blast cp)
     \<or> downtime \<ge> cp_approval_downtime_minutes cp
     \<or> (cascading_effect t \<and> cp_cascading_requires_approval cp)"

definition consequence_reasons :: "target_record \<Rightarrow> bool \<Rightarrow> pystr \<Rightarrow> bool \<Rightarrow> pystr list" where
  "consequence_reasons t reversible level human_approval =
     (if tr_criticality t = ''TIER_0'' then [''PROTECTED_ASSET''] else [])
     @ (if ''AUTHENTICATION_SERVICE'' \<in> set (tr_dependencies t)
        then [''AUTHENTICATION_SERVICE_DEPENDENCY''] else [])
     @ (if cascading_effect t then [''CASCADING_EFFECT_POSSIBLE''] else [])
     @ (if level \<in> set [''HIGH'', ''CRITICAL''] then [''HIGH_OPERATIONAL_CONSEQUENCE''] else [])
     @ (if tr_isolation_consequence t \<in> set [''HIGH'', ''CRITICAL'']
        then [''HIGH_ISOLATION_CONSEQUENCE''] else [])
     @ (if human_approval then [''HUMAN_APPROVAL_REQUIRED''] else [])
     @ (if reversible then [''REVERSIBLE_ACTION''] else [''IRREVERSIBLE_ACTION''])"

definition assess_consequence ::
  "target_record \<Rightarrow> action_policy \<Rightarrow> consequence_policy \<Rightarrow> action_parameters
     \<Rightarrow> (reason, consequence_assessment) result" where
  "assess_consequence t ap cp params =
     (let effective = min (ap_duration_seconds params) (ay_maximum_duration_seconds ap);
          downtime = max (tr_estimated_downtime_minutes t) (minutes_up effective)
      in and_then (require (cp_dependency_reference_count cp \<noteq> 0 \<and> cp_downtime_reference_minutes cp \<noteq> 0)
           ''ZeroDivisionError'') (\<lambda>_.
         and_then (factor_terms cp t downtime) (\<lambda>terms.
         (let score = consequence_score cp (ay_reversible ap) terms;
              level = consequence_level (cp_high_threshold cp) (cp_critical_threshold cp) score;
              approval = needs_human_approval t ap cp level downtime
          in Inr \<lparr>ca_score = score, ca_level = level, ca_reversible = ay_reversible ap,
                  ca_blast_radius = tr_blast_radius t, ca_downtime_minutes = downtime,
                  ca_privilege_impact =
                    (if tr_criticality t \<in> set [''HIGH'', ''TIER_0''] then ''HIGH'' else ''MEDIUM''),
                  ca_mission_impact = tr_mission_impact t, ca_safety_impact = tr_safety_impact t,
                  ca_availability_impact = tr_availability_impact t,
                  ca_dependency_count = length (tr_dependencies t),
                  ca_cascading_effect_possible = cascading_effect t,
                  ca_human_approval_required = approval,
                  ca_reason_codes = consequence_reasons t (ay_reversible ap) level approval\<rparr>))))"

subsection \<open>Bounds\<close>

lemma consequence_score_unit: "0 \<le> consequence_score cp r terms \<and> consequence_score cp r terms \<le> 1"
  unfolding consequence_score_def Let_def by (rule py_round_unit) simp_all

lemma assess_consequence_fields:
  assumes "assess_consequence t ap cp params = Inr c"
  shows "0 \<le> ca_score c \<and> ca_score c \<le> 1"
    and "ca_level c = consequence_level (cp_high_threshold cp) (cp_critical_threshold cp) (ca_score c)"
    and "ca_human_approval_required c = needs_human_approval t ap cp (ca_level c) (ca_downtime_minutes c)"
    and "tr_estimated_downtime_minutes t \<le> ca_downtime_minutes c"
    and "ca_reason_codes c = consequence_reasons t (ay_reversible ap) (ca_level c) (ca_human_approval_required c)"
  using assms by (auto simp: assess_consequence_def Let_def consequence_score_unit)

lemma level_cases: "consequence_level h c s \<in> {''LOW'', ''MEDIUM'', ''HIGH'', ''CRITICAL''}"
  by (simp add: consequence_level_def)

text \<open>A safe policy puts every severe assessment behind human approval.\<close>

lemma severe_needs_approval:
  assumes "policy_safe p" "map_of (po_action_catalog p) ''NETWORK_ISOLATE'' = Some ap"
    "assess_consequence t ap (po_consequence p) params = Inr c"
    "ca_level c \<in> {''HIGH'', ''CRITICAL''} \<or> tr_criticality t \<in> {''HIGH'', ''TIER_0''}
     \<or> tr_isolation_consequence t \<in> {''HIGH'', ''CRITICAL''} \<or> ca_downtime_minutes c \<ge> 60
     \<or> cascading_effect t"
  shows "ca_human_approval_required c \<and> ''HUMAN_APPROVAL_REQUIRED'' \<in> set (ca_reason_codes c)"
proof -
  have "needs_human_approval t ap (po_consequence p) (ca_level c) (ca_downtime_minutes c)"
    using assms(4) policy_safe_consequence [OF assms(1)] policy_safe_action [OF assms(1,2)]
    by (auto simp: needs_human_approval_def)
  then show ?thesis
    using assess_consequence_fields(3,5) [OF assms(3)] by (simp add: consequence_reasons_def)
qed

subsection \<open>Properties\<close>

text \<open>The score of a consequence assessment stays in the unit interval, it is CRITICAL exactly from the
  critical threshold on, the catalogued downtime is never understated, and the approval flag
  and its reason agree.\<close>

theorem consequence_bounds:
  assumes "assess_consequence t ap cp params = Inr c"
  shows "0 \<le> ca_score c \<and> ca_score c \<le> 1
    \<and> (ca_level c = ''CRITICAL'' \<longleftrightarrow> cp_critical_threshold cp \<le> ca_score c)
    \<and> (ca_human_approval_required c \<longleftrightarrow> ''HUMAN_APPROVAL_REQUIRED'' \<in> set (ca_reason_codes c))
    \<and> tr_estimated_downtime_minutes t \<le> ca_downtime_minutes c"
  using assess_consequence_fields [OF assms] by (auto simp: consequence_level_def consequence_reasons_def)

definition sample_action :: action_policy where
  "sample_action = snd (hd (po_action_catalog sample_policy))"

definition sample_parameters :: action_parameters where
  "sample_parameters = \<lparr>ap_duration_seconds = 3600, ap_preserve_management = False\<rparr>"

lemma sample_consequence:
  "\<exists>c. assess_consequence sample_controller sample_action (po_consequence sample_policy) sample_parameters = Inr c
     \<and> ca_level c = ''CRITICAL''"
proof -
  have "minutes_up 1800 = 30"
    "factor_terms (po_consequence sample_policy) sample_controller 60
       = Inr [1 / 4, 1 / 8, 1 / 16, 1 / 8, 1 / 32, 1 / 8, 1 / 64, 1 / 16]"
    "consequence_score (po_consequence sample_policy) True
       [1 / 4, 1 / 8, 1 / 16, 1 / 8, 1 / 32, 1 / 8, 1 / 64, 1 / 16] = 51 / 64"
    by code_simp+
  moreover have "ay_reversible sample_action" "ay_maximum_duration_seconds sample_action = 1800"
    "tr_estimated_downtime_minutes sample_controller = 60"
    "cp_dependency_reference_count (po_consequence sample_policy) = 4"
    "cp_downtime_reference_minutes (po_consequence sample_policy) = 120"
    "cp_critical_threshold (po_consequence sample_policy) = 3 / 4"
    by (simp_all add: sample_action_def sample_policy_def sample_controller_def)
  ultimately show ?thesis
    by (simp add: assess_consequence_def sample_parameters_def consequence_level_def Let_def)
qed

lemma consequence_bounds_witness:
  "\<exists>c. assess_consequence sample_controller sample_action (po_consequence sample_policy) sample_parameters = Inr c
     \<and> cp_critical_threshold (po_consequence sample_policy) \<le> ca_score c"
  using sample_consequence consequence_bounds by blast

text \<open>Under a loaded policy no severe isolation escapes human approval: a HIGH or CRITICAL level, a
  HIGH or TIER_0 target, a HIGH or CRITICAL isolation consequence, an hour of downtime or a
  cascading effect each force it.\<close>

theorem severe_consequence_needs_approval:
  assumes "policy_from_dict schema_ok v = Inr p" "map_of (po_action_catalog p) ''NETWORK_ISOLATE'' = Some ap"
    "assess_consequence t ap (po_consequence p) params = Inr c"
    "ca_level c \<in> {''HIGH'', ''CRITICAL''} \<or> tr_criticality t \<in> {''HIGH'', ''TIER_0''}
     \<or> tr_isolation_consequence t \<in> {''HIGH'', ''CRITICAL''} \<or> ca_downtime_minutes c \<ge> 60
     \<or> cascading_effect t"
  shows "ca_human_approval_required c"
  using severe_needs_approval [OF policy_from_dict_safe [OF assms(1)] assms(2,3,4)] by simp

lemma severe_consequence_needs_approval_witness:
  "\<exists>c. assess_consequence sample_controller sample_action (po_consequence sample_policy) sample_parameters = Inr c
     \<and> ca_human_approval_required c"
proof -
  obtain c where c: "assess_consequence sample_controller sample_action (po_consequence sample_policy)
      sample_parameters = Inr c"
    using sample_consequence by blast
  have "map_of (po_action_catalog sample_policy) ''NETWORK_ISOLATE'' = Some sample_action"
    "tr_criticality sample_controller = ''TIER_0''"
    by (simp_all add: sample_action_def sample_policy_def sample_controller_def)
  with severe_consequence_needs_approval [OF sample_policy_loads _ c] c show ?thesis by blast
qed

end
