(* ===== verification/P3Decision.thy ===== *)
theory P3Decision
  imports P3Evidence P3Consequence
begin

text \<open>
  \<open>phase3/decision.py\<close>: the authority assessment and \<open>build_decision\<close>, which turns the identity,
  evidence and consequence assessments into one outcome by the first matching rule of the
  policy, caps the parameters, binds the inputs in a context digest and, for an escalation, asks
  the approval issuer for a requirement. The issuer is the argument \<open>factory\<close>, as in the source;
  the fresh UUID of an unnamed decision is the argument \<open>fresh_id\<close>.
\<close>

subsection \<open>Reason codes\<close>

definition reason_priority :: "pystr list" where
  "reason_priority =
     [''INVALID_REQUEST'', ''AGENT_NOT_AUTHENTICATED'', ''INVOCATION_CREDENTIAL_INVALID'',
      ''INVOCATION_CREDENTIAL_REJECTED'', ''AGENT_IDENTITY_MISMATCH'', ''AGENT_ATTRIBUTE_MISMATCH'',
      ''AGENT_SECURITY_STATUS_INVALID'', ''TARGET_UNKNOWN'', ''TARGET_CLAIM_MISMATCH'',
      ''ACTION_TARGET_TYPE_PROHIBITED'', ''PROTECTED_ASSET'', ''INSUFFICIENT_AUTHORITY'',
      ''EVIDENCE_SOURCE_UNTRUSTED'', ''EVIDENCE_SUBJECT_MISMATCH'', ''EVIDENCE_SOURCE_TYPE_MISMATCH'',
      ''EVIDENCE_TRUST_CLAIM_MISMATCH'', ''EVIDENCE_PROVENANCE_INVALID'', ''EVIDENCE_INTEGRITY_INVALID'',
      ''EVIDENCE_CONTENT_DIGEST_MISMATCH'', ''PROMPT_INJECTION_DETECTED'', ''FUTURE_EVIDENCE'',
      ''STALE_EVIDENCE'', ''CONFLICTING_EVIDENCE'', ''MISSING_EXPECTED_EVIDENCE'',
      ''INSUFFICIENT_CORROBORATION'', ''INSUFFICIENT_EVIDENCE_STRENGTH'',
      ''AUTHENTICATION_SERVICE_DEPENDENCY'', ''CASCADING_EFFECT_POSSIBLE'',
      ''HIGH_OPERATIONAL_CONSEQUENCE'', ''HIGH_ISOLATION_CONSEQUENCE'', ''HUMAN_APPROVAL_REQUIRED'',
      ''DURATION_CONSTRAINED'', ''MANAGEMENT_ACCESS_CONSTRAINED'', ''AUTHORIZED_AGENT'',
      ''DECISION_GRADE_EVIDENCE'', ''ACCEPTABLE_OPERATIONAL_CONSEQUENCE'', ''REVERSIBLE_ACTION'']"

definition ordered_reasons :: "pystr list \<Rightarrow> pystr list" where
  "ordered_reasons values =
     filter (\<lambda>v. v \<in> set values) reason_priority
     @ sort (remdups (filter (\<lambda>v. v \<notin> set reason_priority) values))"

lemma set_ordered_reasons [simp]: "set (ordered_reasons values) = set values"
  by (auto simp: ordered_reasons_def)

lemma ordered_reasons_cong: "set xs = set ys \<Longrightarrow> ordered_reasons xs = ordered_reasons ys"
  unfolding ordered_reasons_def
  by (auto intro!: sorted_distinct_set_unique)

lemma distinct_ordered_reasons: "distinct (ordered_reasons values)"
proof -
  have "distinct reason_priority" by (simp add: reason_priority_def)
  then show ?thesis by (auto simp: ordered_reasons_def)
qed

subsection \<open>Authority\<close>

definition same_set :: "pystr list \<Rightarrow> pystr list \<Rightarrow> bool" where
  "same_set xs ys \<longleftrightarrow> set xs = set ys"

definition target_claims_match :: "decision_request \<Rightarrow> target_record \<Rightarrow> bool" where
  "target_claims_match r t \<longleftrightarrow>
     tc_id (dr_target r) = tr_id t
     \<and> target_type_value (tc_type (dr_target r)) = tr_type t
     \<and> criticality_value (tc_criticality (dr_target r)) = tr_criticality t
     \<and> classification_value (tc_classification (dr_target r)) = tr_classification t
     \<and> same_set (tc_dependencies (dr_target r)) (tr_dependencies t)"

definition principal_matches :: "agent_claims \<Rightarrow> authenticated_principal \<Rightarrow> bool" where
  "principal_matches a p \<longleftrightarrow>
     pr_type p = ag_type a \<and> pr_authenticated p = ag_authenticated a
     \<and> same_set (pr_roles p) (ag_roles a) \<and> same_set (pr_authority p) (ag_authority a)
     \<and> pr_security_status p = ag_security_status a"

definition assess_authority ::
  "decision_request \<Rightarrow> authenticated_principal \<Rightarrow> pystr \<Rightarrow> authority_assessment" where
  "assess_authority r p required_authority =
     (let attributes_match = principal_matches (dr_agent r) p;
          authorized = required_authority \<in> set (pr_authority p);
          reasons =
            (if pr_reason_code p \<noteq> [] then [pr_reason_code p] else [])
            @ (if \<not> pr_authenticated p then [''AGENT_NOT_AUTHENTICATED''] else [])
            @ (if pr_id p \<noteq> ag_id (dr_agent r) then [''AGENT_IDENTITY_MISMATCH''] else [])
            @ (if \<not> attributes_match then [''AGENT_ATTRIBUTE_MISMATCH''] else [])
            @ (if pr_security_status p \<noteq> Trusted then [''AGENT_SECURITY_STATUS_INVALID''] else [])
            @ (if \<not> authorized then [''INSUFFICIENT_AUTHORITY''] else [])
      in \<lparr>aa_authenticated = pr_authenticated p, aa_principal_id = pr_id p,
          aa_claimed_agent_id = ag_id (dr_agent r), aa_attributes_match = attributes_match,
          aa_trusted_roles = sort (pr_roles p), aa_trusted_authority = sort (pr_authority p),
          aa_required_authority = required_authority, aa_authorized = authorized,
          aa_reason_codes = ordered_reasons reasons\<rparr>)"

subsection \<open>Constraints and rules\<close>

definition constraint_entry :: "pystr \<Rightarrow> json \<Rightarrow> json \<Rightarrow> pystr \<Rightarrow> json" where
  "constraint_entry parameter requested permitted code = JObj
     [(''parameter'', JStr parameter), (''requested'', requested), (''permitted'', permitted),
      (''reason_code'', JStr code)]"

text \<open>The permitted parameters, the constraints and their reasons.\<close>

definition constrain_parameters ::
  "action_policy \<Rightarrow> action_parameters \<Rightarrow> action_parameters \<times> json list \<times> pystr list" where
  "constrain_parameters ap params =
     (let long = ap_duration_seconds params > ay_maximum_duration_seconds ap;
          open = ay_preserve_management_required ap \<and> \<not> ap_preserve_management params
      in (\<lparr>ap_duration_seconds =
             (if long then ay_maximum_duration_seconds ap else ap_duration_seconds params),
           ap_preserve_management = (if open then True else ap_preserve_management params)\<rparr>,
          (if long then [constraint_entry ''duration_seconds'' (JInt (ap_duration_seconds params))
             (JInt (ay_maximum_duration_seconds ap)) ''DURATION_CONSTRAINED''] else [])
          @ (if open then [constraint_entry ''preserve_management'' (JBool False) (JBool True)
             ''MANAGEMENT_ACCESS_CONSTRAINED''] else []),
          (if long then [''DURATION_CONSTRAINED''] else [])
          @ (if open then [''MANAGEMENT_ACCESS_CONSTRAINED''] else [])))"

definition identity_fatal_reasons :: "pystr list" where
  "identity_fatal_reasons =
     [''AGENT_NOT_AUTHENTICATED'', ''AGENT_IDENTITY_MISMATCH'', ''AGENT_ATTRIBUTE_MISMATCH'',
      ''AGENT_SECURITY_STATUS_INVALID'']"

definition identity_fatal :: "authority_assessment \<Rightarrow> bool" where
  "identity_fatal a = list_ex (\<lambda>r. r \<in> set (aa_reason_codes a)) identity_fatal_reasons"

definition decision_conditions ::
  "authority_assessment \<Rightarrow> evidence_assessment \<Rightarrow> consequence_assessment \<Rightarrow> target_record \<Rightarrow> action_policy
     \<Rightarrow> json list \<Rightarrow> (pystr \<times> bool) list" where
  "decision_conditions authority evidence consequence t ap constraints =
     [(''IDENTITY_FATAL'', identity_fatal authority),
      (''EVIDENCE_FATAL'', ea_invalid_evidence_ids evidence \<noteq> [] \<or> ea_poisoned_evidence_ids evidence \<noteq> []),
      (''TARGET_TYPE_PROHIBITED'', tr_type t \<notin> set (ay_allowed_target_types ap)),
      (''TARGET_TIER_0'', tr_criticality t = ''TIER_0''),
      (''CONSEQUENCE_REQUIRES_APPROVAL'', ca_human_approval_required consequence),
      (''AUTHORITY_INSUFFICIENT'', \<not> aa_authorized authority),
      (''EVIDENCE_NOT_AUTOMATION_GRADE'', \<not> ea_automation_grade evidence),
      (''PARAMETER_CONSTRAINTS_PRESENT'', constraints \<noteq> []),
      (''DEFAULT'', True)]"

text \<open>\<open>next(rule for rule in rules if conditions[rule.condition])\<close>.\<close>

fun select_rule :: "(pystr \<times> bool) list \<Rightarrow> decision_rule list \<Rightarrow> (reason, decision_rule) result" where
  "select_rule conditions [] = Inl ''StopIteration''"
| "select_rule conditions (rule # rules) =
     (case map_of conditions (ru_condition rule) of
        None \<Rightarrow> Inl ''KeyError''
      | Some c \<Rightarrow> if c then Inr rule else select_rule conditions rules)"

subsection \<open>The decision\<close>

record requirement_request =
  rq_decision :: decision_record
  rq_action_type :: pystr
  rq_target_id :: pystr
  rq_parameters :: json
  rq_evidence_sha256 :: pystr
  rq_required_authority :: pystr
  rq_reason_codes :: "pystr list"

type_synonym requirement_factory = "requirement_request \<Rightarrow> (reason, approval_requirement) result"

definition automatic_outcomes :: "pystr list" where
  "automatic_outcomes = [outcome_value Allow, outcome_value AllowConstrained]"

definition permitted_action_for ::
  "pystr \<Rightarrow> decision_request \<Rightarrow> target_record \<Rightarrow> action_parameters \<Rightarrow> json option" where
  "permitted_action_for outcome r t params =
     (if outcome \<in> set automatic_outcomes
      then Some (JObj [(''type'', JStr (action_type_value (ac_type (dr_action r)))),
                       (''target'', JStr (tr_id t)), (''parameters'', parameters_to_dict params)])
      else None)"

definition decision_context ::
  "decision_request \<Rightarrow> policy \<Rightarrow> authenticated_principal \<Rightarrow> target_record \<Rightarrow> authority_assessment
     \<Rightarrow> evidence_assessment \<Rightarrow> consequence_assessment \<Rightarrow> decision_rule \<Rightarrow> pystr list \<Rightarrow> json list \<Rightarrow> json option \<Rightarrow> json" where
  "decision_context r p who t authority evidence consequence rule reasons constraints permitted = JObj
     [(''request_sha256'', JStr (request_sha256 r)), (''policy_id'', JStr (po_policy_id p)),
      (''policy_version'', JStr (po_version p)),
      (''policy_sha256'', JStr (sha256_json (policy_to_dict p))),
      (''principal'', principal_to_dict who), (''trusted_target'', target_record_to_dict t),
      (''authority'', authority_to_dict authority), (''evidence'', evidence_assessment_to_dict evidence),
      (''consequence'', consequence_to_dict consequence), (''outcome'', JStr (ru_outcome rule)),
      (''reason_codes'', jstrs reasons), (''applicable_rules'', jstrs [ru_id rule]),
      (''constraints'', JList constraints), (''permitted_action'', jnullable id permitted)]"

definition decision_explanation ::
  "target_record \<Rightarrow> authority_assessment \<Rightarrow> evidence_assessment \<Rightarrow> consequence_assessment \<Rightarrow> decision_rule
     \<Rightarrow> pystr list \<Rightarrow> json list \<Rightarrow> json \<Rightarrow> json" where
  "decision_explanation t authority evidence consequence rule reasons constraints requirement = JObj
     [(''decision'', JStr (ru_outcome rule)), (''reason_codes'', jstrs reasons),
      (''evidence_assessment'', evidence_assessment_to_dict evidence),
      (''applicable_policies'', jstrs [ru_id rule]),
      (''agent_authority'', authority_to_dict authority),
      (''target_criticality'', JStr (tr_criticality t)),
      (''risk_and_consequence'', consequence_to_dict consequence),
      (''conflicting_evidence'', JInt (int (ea_conflict_count evidence))),
      (''missing_evidence'', jstrs (ea_missing_expected_sources evidence)),
      (''constraints'', JList constraints), (''human_approval_requirement'', requirement),
      (''agent_recommendation_is_authoritative'', JBool False),
      (''agent_confidence_is_authoritative'', JBool False)]"

definition required_authority_for :: "action_policy \<Rightarrow> target_record \<Rightarrow> pystr" where
  "required_authority_for ap t =
     (if tr_criticality t = ''TIER_0'' then ay_tier_0_required_authority ap else ay_required_authority ap)"

definition decision_reasons ::
  "decision_request \<Rightarrow> authority_assessment \<Rightarrow> evidence_assessment \<Rightarrow> consequence_assessment \<Rightarrow> target_record
     \<Rightarrow> action_policy \<Rightarrow> pystr list \<Rightarrow> pystr list" where
  "decision_reasons r authority evidence consequence t ap constraint_reasons =
     ordered_reasons
       (aa_reason_codes authority @ ea_reason_codes evidence @ ca_reason_codes consequence
        @ (if \<not> target_claims_match r t then [''TARGET_CLAIM_MISMATCH''] else [])
        @ constraint_reasons
        @ (if tr_type t \<notin> set (ay_allowed_target_types ap) then [''ACTION_TARGET_TYPE_PROHIBITED''] else [])
        @ (if aa_authorized authority \<and> \<not> identity_fatal authority then [''AUTHORIZED_AGENT''] else [])
        @ (if ea_automation_grade evidence then [''DECISION_GRADE_EVIDENCE''] else [])
        @ (if ca_level consequence \<in> set [''LOW'', ''MEDIUM'']
           then [''ACCEPTABLE_OPERATIONAL_CONSEQUENCE''] else []))"

definition build_decision ::
  "requirement_factory option \<Rightarrow> pystr \<Rightarrow> pystr option \<Rightarrow> instant \<Rightarrow> decision_request \<Rightarrow> authenticated_principal
     \<Rightarrow> policy \<Rightarrow> evidence_assessment \<Rightarrow> consequence_assessment \<Rightarrow> target_record \<Rightarrow> action_policy
     \<Rightarrow> (reason, decision_record) result" where
  "build_decision factory fresh_id decision_id decided_at r who p evidence consequence t ap =
     (let required_authority = required_authority_for ap t;
          authority = assess_authority r who required_authority;
          (params, constraints, constraint_reasons) = constrain_parameters ap (ac_parameters (dr_action r));
          reasons = decision_reasons r authority evidence consequence t ap constraint_reasons
      in and_then (select_rule (decision_conditions authority evidence consequence t ap constraints)
             (po_decision_rules p)) (\<lambda>rule.
         (let permitted = permitted_action_for (ru_outcome rule) r t params;
              preliminary =
                \<lparr>dn_decision_id = or_default decision_id (''decision-'' @ fresh_id),
                 dn_request_id = dr_request_id r, dn_decided_at = isoformat (whole_second decided_at),
                 dn_policy_id = po_policy_id p, dn_policy_version = po_version p,
                 dn_policy_sha256 = sha256_json (policy_to_dict p), dn_outcome = ru_outcome rule,
                 dn_reason_codes = reasons, dn_applicable_rules = [ru_id rule],
                 dn_requested_action = action_to_dict (dr_action r), dn_permitted_action = permitted,
                 dn_authority = authority, dn_evidence = Some evidence, dn_consequence = Some consequence,
                 dn_constraints = constraints,
                 dn_explanation = decision_explanation t authority evidence consequence rule reasons
                   constraints JNull,
                 dn_request_sha256 = request_sha256 r,
                 dn_decision_context_sha256 = sha256_json (decision_context r p who t authority
                   evidence consequence rule reasons constraints permitted),
                 dn_approval_requirement = None, dn_latency_ms = 0\<rparr>
          in if ru_outcome rule \<noteq> outcome_value Escalate then Inr preliminary
             else case factory of
               None \<Rightarrow> Inl ''RuntimeError''
             | Some issue \<Rightarrow>
                 and_then (issue \<lparr>rq_decision = preliminary,
                    rq_action_type = action_type_value (ac_type (dr_action r)), rq_target_id = tr_id t,
                    rq_parameters = parameters_to_dict (ac_parameters (dr_action r)),
                    rq_evidence_sha256 = sha256_json (JList (map evidence_to_dict (dr_evidence r))),
                    rq_required_authority = required_authority, rq_reason_codes = reasons\<rparr>) (\<lambda>q.
                 Inr (preliminary\<lparr>dn_approval_requirement := Some q,
                    dn_explanation := decision_explanation t authority evidence consequence rule
                      reasons constraints (requirement_to_dict False q)\<rparr>)))))"

subsection \<open>The decision table\<close>

text \<open>The reference: what a safe policy decides, as one nested conditional over the assessments.\<close>

definition reference_outcome ::
  "authority_assessment \<Rightarrow> evidence_assessment \<Rightarrow> consequence_assessment \<Rightarrow> target_record \<Rightarrow> action_policy
     \<Rightarrow> json list \<Rightarrow> decision_outcome" where
  "reference_outcome authority evidence consequence t ap constraints =
     (if identity_fatal authority \<or> ea_invalid_evidence_ids evidence \<noteq> [] \<or> ea_poisoned_evidence_ids evidence \<noteq> []
         \<or> tr_type t \<notin> set (ay_allowed_target_types ap) then Deny
      else if tr_criticality t = ''TIER_0'' \<or> ca_human_approval_required consequence then Escalate
      else if \<not> aa_authorized authority then Deny
      else if \<not> ea_automation_grade evidence then Escalate
      else if constraints \<noteq> [] then AllowConstrained else Allow)"

lemma safe_rules_shape:
  assumes "policy_safe p"
  obtains r1 r2 r3 r4 r5 r6 r7 r8 r9 where "po_decision_rules p = [r1, r2, r3, r4, r5, r6, r7, r8, r9]"
    "(ru_condition r1, ru_outcome r1) = (''IDENTITY_FATAL'', ''DENY'')"
    "(ru_condition r2, ru_outcome r2) = (''EVIDENCE_FATAL'', ''DENY'')"
    "(ru_condition r3, ru_outcome r3) = (''TARGET_TYPE_PROHIBITED'', ''DENY'')"
    "(ru_condition r4, ru_outcome r4) = (''TARGET_TIER_0'', ''ESCALATE'')"
    "(ru_condition r5, ru_outcome r5) = (''CONSEQUENCE_REQUIRES_APPROVAL'', ''ESCALATE'')"
    "(ru_condition r6, ru_outcome r6) = (''AUTHORITY_INSUFFICIENT'', ''DENY'')"
    "(ru_condition r7, ru_outcome r7) = (''EVIDENCE_NOT_AUTOMATION_GRADE'', ''ESCALATE'')"
    "(ru_condition r8, ru_outcome r8) = (''PARAMETER_CONSTRAINTS_PRESENT'', ''ALLOW_CONSTRAINED'')"
    "(ru_condition r9, ru_outcome r9) = (''DEFAULT'', ''ALLOW'')"
  using policy_safe_rules [OF assms] unfolding required_rule_sequence_def map_eq_Cons_conv by auto

lemma select_rule_reference:
  assumes "policy_safe p"
  obtains rule where
    "select_rule (decision_conditions a e c t ap constraints) (po_decision_rules p) = Inr rule"
    "ru_outcome rule = outcome_value (reference_outcome a e c t ap constraints)"
    "rule \<in> set (po_decision_rules p)"
proof -
  obtain r1 r2 r3 r4 r5 r6 r7 r8 r9 where r: "po_decision_rules p = [r1, r2, r3, r4, r5, r6, r7, r8, r9]"
    "(ru_condition r1, ru_outcome r1) = (''IDENTITY_FATAL'', ''DENY'')"
    "(ru_condition r2, ru_outcome r2) = (''EVIDENCE_FATAL'', ''DENY'')"
    "(ru_condition r3, ru_outcome r3) = (''TARGET_TYPE_PROHIBITED'', ''DENY'')"
    "(ru_condition r4, ru_outcome r4) = (''TARGET_TIER_0'', ''ESCALATE'')"
    "(ru_condition r5, ru_outcome r5) = (''CONSEQUENCE_REQUIRES_APPROVAL'', ''ESCALATE'')"
    "(ru_condition r6, ru_outcome r6) = (''AUTHORITY_INSUFFICIENT'', ''DENY'')"
    "(ru_condition r7, ru_outcome r7) = (''EVIDENCE_NOT_AUTOMATION_GRADE'', ''ESCALATE'')"
    "(ru_condition r8, ru_outcome r8) = (''PARAMETER_CONSTRAINTS_PRESENT'', ''ALLOW_CONSTRAINED'')"
    "(ru_condition r9, ru_outcome r9) = (''DEFAULT'', ''ALLOW'')"
    using safe_rules_shape [OF assms] by metis
  have "\<exists>rule. select_rule (decision_conditions a e c t ap constraints) (po_decision_rules p) = Inr rule
    \<and> ru_outcome rule = outcome_value (reference_outcome a e c t ap constraints)
    \<and> rule \<in> set (po_decision_rules p)"
    unfolding r(1) using r(2-) by (simp add: decision_conditions_def reference_outcome_def)
  then show thesis using that by blast
qed

lemma outcome_value_inj [simp]: "outcome_value x = outcome_value y \<longleftrightarrow> x = y"
  by (cases x; cases y) simp_all

lemma outcome_value_automatic: "outcome_value x \<in> set automatic_outcomes \<longleftrightarrow> x = Allow \<or> x = AllowConstrained"
  by (simp only: automatic_outcomes_def list.set insert_iff empty_iff outcome_value_inj simp_thms)

text \<open>What a decision under a safe policy says, field by field.\<close>

abbreviation decision_constraints :: "decision_request \<Rightarrow> action_policy \<Rightarrow> json list" where
  "decision_constraints r ap \<equiv> fst (snd (constrain_parameters ap (ac_parameters (dr_action r))))"

lemma build_decision_fields:
  assumes "policy_safe p" "build_decision factory fresh did now r who p e c t ap = Inr d"
  defines "a \<equiv> assess_authority r who (required_authority_for ap t)"
  defines "out \<equiv> reference_outcome a e c t ap (decision_constraints r ap)"
  shows "dn_outcome d = outcome_value out" "dn_authority d = a" "dn_evidence d = Some e" "dn_consequence d = Some c"
    "dn_permitted_action d = permitted_action_for (outcome_value out) r t
       (fst (constrain_parameters ap (ac_parameters (dr_action r))))"
    "dn_reason_codes d = decision_reasons r a e c t ap (snd (snd (constrain_parameters ap (ac_parameters (dr_action r)))))"
    "dn_approval_requirement d \<noteq> None \<longleftrightarrow> out = Escalate"
    "dn_requested_action d = action_to_dict (dr_action r)" "dn_request_sha256 d = request_sha256 r"
    "dn_policy_sha256 d = sha256_json (policy_to_dict p)"
    "\<exists>rule \<in> set (po_decision_rules p). dn_applicable_rules d = [ru_id rule] \<and> ru_outcome rule = dn_outcome d"
proof -
  let ?cs = "decision_constraints r ap"
  obtain rule where rule: "select_rule (decision_conditions a e c t ap ?cs) (po_decision_rules p) = Inr rule"
    "ru_outcome rule = outcome_value out" "rule \<in> set (po_decision_rules p)"
    unfolding out_def using select_rule_reference [OF assms(1)] by blast
  obtain ps cs rs where cp: "constrain_parameters ap (ac_parameters (dr_action r)) = (ps, cs, rs)"
    by (cases "constrain_parameters ap (ac_parameters (dr_action r))") auto
  note d = assms(2) [unfolded build_decision_def Let_def cp split_conv a_def [symmetric]]
  show "dn_outcome d = outcome_value out" "dn_authority d = a" "dn_evidence d = Some e" "dn_consequence d = Some c"
    "dn_permitted_action d = permitted_action_for (outcome_value out) r t
       (fst (constrain_parameters ap (ac_parameters (dr_action r))))"
    "dn_reason_codes d = decision_reasons r a e c t ap (snd (snd (constrain_parameters ap (ac_parameters (dr_action r)))))"
    "dn_approval_requirement d \<noteq> None \<longleftrightarrow> out = Escalate"
    "dn_requested_action d = action_to_dict (dr_action r)" "dn_request_sha256 d = request_sha256 r"
    "dn_policy_sha256 d = sha256_json (policy_to_dict p)"
    "\<exists>rule \<in> set (po_decision_rules p). dn_applicable_rules d = [ru_id rule] \<and> ru_outcome rule = dn_outcome d"
    using d rule unfolding cp fst_conv snd_conv
    by (auto simp del: outcome_value.simps simp: rule split: if_splits option.splits)
qed

lemma constrain_parameters_bounds:
  assumes "constrain_parameters ap params = (ps, cs, rs)"
  shows "ap_duration_seconds ps \<le> ay_maximum_duration_seconds ap" "ap_duration_seconds ps \<le> ap_duration_seconds params"
    "ay_preserve_management_required ap \<Longrightarrow> ap_preserve_management ps"
    "ap_preserve_management params \<Longrightarrow> ap_preserve_management ps"
    "cs = [] \<longleftrightarrow> ps = params" "cs = [] \<longleftrightarrow> rs = []"
  using assms by (cases params; auto simp: constrain_parameters_def Let_def split: if_splits)+

lemma identity_fatal_iff:
  "identity_fatal (assess_authority r p required) \<longleftrightarrow>
     \<not> (pr_authenticated p \<and> pr_id p = ag_id (dr_agent r) \<and> principal_matches (dr_agent r) p
        \<and> pr_security_status p = Trusted) \<or> pr_reason_code p \<in> set identity_fatal_reasons"
  by (auto simp: identity_fatal_def assess_authority_def identity_fatal_reasons_def Let_def)

lemma build_decision_total:
  assumes "policy_safe p" "\<forall>q. \<exists>a. issue q = Inr a"
  obtains d where "build_decision (Some issue) fresh did now r who p e c t ap = Inr d"
proof -
  obtain ps cs rs where cp: "constrain_parameters ap (ac_parameters (dr_action r)) = (ps, cs, rs)"
    by (cases "constrain_parameters ap (ac_parameters (dr_action r))") auto
  obtain rule where "select_rule (decision_conditions (assess_authority r who (required_authority_for ap t)) e c t ap cs)
      (po_decision_rules p) = Inr rule"
    using select_rule_reference [OF assms(1)] by metis
  then have "\<exists>d. build_decision (Some issue) fresh did now r who p e c t ap = Inr d"
    using assms(2) by (auto simp: build_decision_def cp Let_def)
  then show thesis using that by blast
qed

lemma automatic_decision_facts:
  assumes "policy_from_dict schema_ok v = Inr p" "map_of (po_action_catalog p) ''NETWORK_ISOLATE'' = Some ap"
    "assess_evidence (po_evidence p) keys now r = Inr e"
    "assess_consequence t ap (po_consequence p) (ac_parameters (dr_action r)) = Inr c"
    "build_decision factory fresh did now r who p e c t ap = Inr d"
    "dn_outcome d \<in> {''ALLOW'', ''ALLOW_CONSTRAINED''}"
  shows "pr_authenticated who \<and> pr_security_status who = Trusted \<and> pr_id who = ag_id (dr_agent r)
    \<and> ay_required_authority ap \<in> set (pr_authority who)
    \<and> tr_type t \<in> set (ay_allowed_target_types ap) \<and> tr_criticality t \<notin> {''HIGH'', ''TIER_0''}
    \<and> \<not> tr_human_approval_required t \<and> ca_level c \<notin> {''HIGH'', ''CRITICAL''} \<and> ca_downtime_minutes c < 60
    \<and> (\<forall>i \<in> set (dr_evidence r). item_accepted (po_evidence p) keys now (ac_target (dr_action r)) i
         \<and> item_fresh (po_evidence p) now i)
    \<and> (\<exists>ps. dn_permitted_action d = Some (JObj [(''type'', JStr ''NETWORK_ISOLATE''), (''target'', JStr (tr_id t)),
           (''parameters'', parameters_to_dict ps)])
         \<and> ap_duration_seconds ps \<le> ay_maximum_duration_seconds ap
         \<and> ap_duration_seconds ps \<le> ap_duration_seconds (ac_parameters (dr_action r))
         \<and> ap_preserve_management ps)"
proof -
  note safe = policy_from_dict_safe [OF assms(1)]
  note f = build_decision_fields [OF safe assms(5)]
  let ?a = "assess_authority r who (required_authority_for ap t)"
  let ?out = "reference_outcome ?a e c t ap (decision_constraints r ap)"
  have out: "?out = Allow \<or> ?out = AllowConstrained"
    using assms(6) unfolding f(1) by (cases ?out) simp_all
  then have checks: "\<not> identity_fatal ?a" "tr_type t \<in> set (ay_allowed_target_types ap)" "tr_criticality t \<noteq> ''TIER_0''"
    "\<not> ca_human_approval_required c" "aa_authorized ?a" "ea_automation_grade e"
    by (auto simp: reference_outcome_def split: if_splits)
  have mild: "ca_level c \<notin> {''HIGH'', ''CRITICAL''}" "tr_criticality t \<notin> {''HIGH'', ''TIER_0''}" "ca_downtime_minutes c < 60"
    using severe_needs_approval [OF safe assms(2,4)] checks(4) by (force simp: not_less)+
  have human: "\<not> tr_human_approval_required t"
    using checks(4) assess_consequence_fields(3) [OF assms(4)] by (simp add: needs_human_approval_def)
  have authority: "ay_required_authority ap \<in> set (pr_authority who)"
    using checks(3,5) by (simp add: assess_authority_def required_authority_for_def Let_def)
  obtain ps cs rs where cp: "constrain_parameters ap (ac_parameters (dr_action r)) = (ps, cs, rs)"
    by (cases "constrain_parameters ap (ac_parameters (dr_action r))") auto
  have "dn_permitted_action d = Some (JObj [(''type'', JStr ''NETWORK_ISOLATE''), (''target'', JStr (tr_id t)),
           (''parameters'', parameters_to_dict ps)])"
    using out unfolding f(5) permitted_action_for_def outcome_value_automatic cp fst_conv snd_conv
    by (cases "ac_type (dr_action r)") simp
  moreover have "ap_preserve_management ps"
    using constrain_parameters_bounds(3) [OF cp] policy_safe_action(2) [OF safe assms(2)] by simp
  moreover have "\<forall>i \<in> set (dr_evidence r). item_accepted (po_evidence p) keys now (ac_target (dr_action r)) i
         \<and> item_fresh (po_evidence p) now i"
    using automation_grade_facts [OF assms(3) checks(6) policy_safe_evidence(3) [OF safe]] by blast
  ultimately show ?thesis
    using checks(1,2) mild human authority constrain_parameters_bounds(1,2) [OF cp]
    unfolding identity_fatal_iff by blast
qed

subsection \<open>Properties\<close>

text \<open>C8. Under a loaded policy the outcome is the decision table: fatal identity, fatal or poisoned
  evidence and a prohibited target type deny; a TIER_0 target or a required approval escalates;
  then missing authority denies, evidence below automation grade escalates, and only then is
  the action allowed, constrained when a parameter was capped. The rule named in the record
  is a rule of the policy, and a requirement is attached exactly to an escalation.\<close>

theorem decision_table:
  assumes "policy_from_dict schema_ok v = Inr p" "build_decision factory fresh did now r who p e c t ap = Inr d"
  shows "dn_outcome d = outcome_value (reference_outcome (dn_authority d) e c t ap (decision_constraints r ap))
    \<and> dn_authority d = assess_authority r who (required_authority_for ap t)
    \<and> (\<exists>rule \<in> set (po_decision_rules p). dn_applicable_rules d = [ru_id rule] \<and> ru_outcome rule = dn_outcome d)
    \<and> (dn_approval_requirement d \<noteq> None \<longleftrightarrow> dn_outcome d = ''ESCALATE'')
    \<and> (dn_permitted_action d \<noteq> None \<longleftrightarrow> dn_outcome d \<in> {''ALLOW'', ''ALLOW_CONSTRAINED''})"
proof -
  note f = build_decision_fields [OF policy_from_dict_safe [OF assms(1)] assms(2)]
  let ?out = "reference_outcome (assess_authority r who (required_authority_for ap t)) e c t ap (decision_constraints r ap)"
  have "dn_outcome d = outcome_value ?out" "dn_authority d = assess_authority r who (required_authority_for ap t)"
    using f(1,2) by simp_all
  moreover have "dn_approval_requirement d \<noteq> None \<longleftrightarrow> dn_outcome d = ''ESCALATE''"
    using f(7) unfolding f(1) by (cases ?out) simp_all
  moreover have "dn_permitted_action d \<noteq> None \<longleftrightarrow> dn_outcome d \<in> {''ALLOW'', ''ALLOW_CONSTRAINED''}"
    unfolding f(5) f(1) permitted_action_for_def outcome_value_automatic by (cases ?out) simp_all
  ultimately show ?thesis using f(11) by simp
qed

text \<open>A decision is always reached under a loaded policy when the approval issuer answers: no rule lookup
  fails and no rule list runs out.\<close>

theorem decision_total:
  assumes "policy_from_dict schema_ok v = Inr p" "\<forall>q. \<exists>a. issue q = Inr a"
  shows "\<exists>d. build_decision (Some issue) fresh did now r who p e c t ap = Inr d"
  using build_decision_total [OF policy_from_dict_safe [OF assms(1)] assms(2)] by metis

text \<open>C36. Whatever the agent recommends, however confident it is and whatever context it attaches, the
  outcome, the reasons, the rule, the permitted action and the constraints stay the same.\<close>

theorem recommendation_not_authoritative:
  assumes "policy_from_dict schema_ok v = Inr p"
    "build_decision factory fresh did now r who p e c t ap = Inr d"
    "build_decision factory' fresh' did' now' (r\<lparr>dr_recommendation := rec, dr_confidence := conf, dr_context := ctx\<rparr>)
       who p e c t ap = Inr d'"
  shows "dn_outcome d' = dn_outcome d \<and> dn_reason_codes d' = dn_reason_codes d
    \<and> dn_permitted_action d' = dn_permitted_action d \<and> dn_authority d' = dn_authority d"
proof -
  note f = build_decision_fields [OF policy_from_dict_safe [OF assms(1)] assms(2)]
  note f' = build_decision_fields [OF policy_from_dict_safe [OF assms(1)] assms(3)]
  let ?r = "r\<lparr>dr_recommendation := rec, dr_confidence := conf, dr_context := ctx\<rparr>"
  have "assess_authority ?r who (required_authority_for ap t) = assess_authority r who (required_authority_for ap t)"
    by (simp add: assess_authority_def)
  moreover have "target_claims_match ?r t = target_claims_match r t" by (simp add: target_claims_match_def)
  ultimately show ?thesis
    unfolding f f' by (simp add: permitted_action_for_def decision_reasons_def)
qed


subsection \<open>A decided request\<close>

lemma decision_grade_clean:
  assumes "assess_evidence er keys now r = Inr a" "ea_decision_grade a"
  shows "ea_invalid_evidence_ids a = []" "ea_poisoned_evidence_ids a = []"
proof -
  obtain views required where v: "a = summarize er required (loop_state (er_hypothesis_claim er) views)"
    "\<And>v. v \<in> set views \<Longrightarrow> view_item er keys now (ac_target (dr_action r)) (iv_item v) = Inr v"
    using assess_evidence_views [OF assms(1)] by metis
  have valid: "\<forall>v \<in> set views. iv_valid v"
    using assms(2) unfolding v(1) by (auto simp: summarize_def Let_def loop_lists filter_empty_conv)
  then show "ea_invalid_evidence_ids a = []"
    unfolding v(1) by (simp add: summarize_def Let_def loop_lists filter_empty_conv)
  have "\<forall>v \<in> set views. \<not> ia_poisoned (iv_assessment v)"
    using valid view_item_facts(2,3) [OF v(2)] by (auto simp: item_accepted_def)
  then show "ea_poisoned_evidence_ids a = []"
    unfolding v(1) by (simp add: summarize_def Let_def loop_lists filter_empty_conv)
qed

lemma automation_is_decision_grade:
  "assess_evidence er keys now r = Inr a \<Longrightarrow> ea_automation_grade a \<Longrightarrow> ea_decision_grade a"
  by (auto simp: assess_evidence_def summarize_def Let_def)

definition decided_request :: decision_request where
  "decided_request = evidence_request\<lparr>dr_agent := (dr_agent sample_request)\<lparr>ag_authority := [''ISOLATE'']\<rparr>\<rparr>"

definition sample_principal :: authenticated_principal where
  "sample_principal =
     \<lparr>pr_id = ''agent-1'', pr_type = ''AI'', pr_authenticated = True, pr_roles = [''responder''],
      pr_authority = [''ISOLATE''], pr_security_status = Trusted, pr_identity_source = ''mtls'',
      pr_human_session = False, pr_reason_code = []\<rparr>"

lemma decided_evidence:
  obtains e where "assess_evidence (po_evidence sample_policy) sample_keys sample_now decided_request = Inr e"
    "ea_automation_grade e" "ea_invalid_evidence_ids e = []" "ea_poisoned_evidence_ids e = []"
proof -
  have "assess_evidence (po_evidence sample_policy) sample_keys sample_now decided_request
      = assess_evidence (po_evidence sample_policy) sample_keys sample_now evidence_request"
    by (simp add: assess_evidence_def decided_request_def)
  then show thesis
    using that sample_automation_grade decision_grade_clean automation_is_decision_grade by metis
qed

lemma decided_consequence:
  obtains c where "assess_consequence (sample_target ''ws-1'') sample_action (po_consequence sample_policy)
      (ac_parameters (dr_action decided_request)) = Inr c" "\<not> ca_human_approval_required c"
proof -
  have "factor_terms (po_consequence sample_policy) (sample_target ''ws-1'') 10
       = Inr [0, 0, fl (1 / 8 * fl (1 / 12)), 1 / 64, 0, 1 / 64, 0, 1 / 128]" "minutes_up 600 = 10"
    by code_simp+
  moreover have "consequence_score (po_consequence sample_policy) True
       [0, 0, fl (1 / 8 * fl (1 / 12)), 1 / 64, 0, 1 / 64, 0, 1 / 128] < 1 / 4"
    by code_simp
  ultimately show thesis
    using that by (auto simp: assess_consequence_def decided_request_def evidence_request_def sample_request_def
      sample_action_def sample_policy_def sample_target_def consequence_level_def needs_human_approval_def
      cascading_effect_def Let_def)
qed

lemma decided:
  assumes "ea_automation_grade e" "ea_invalid_evidence_ids e = []" "ea_poisoned_evidence_ids e = []"
    "\<not> ca_human_approval_required c"
  shows "reference_outcome (assess_authority decided_request sample_principal
      (required_authority_for sample_action (sample_target ''ws-1''))) e c (sample_target ''ws-1'') sample_action
      (decision_constraints decided_request sample_action) = Allow"
proof -
  have "\<not> identity_fatal (assess_authority decided_request sample_principal ''ISOLATE'')"
    unfolding identity_fatal_iff
    by (simp add: decided_request_def evidence_request_def sample_request_def sample_principal_def
        principal_matches_def same_set_def identity_fatal_reasons_def)
  moreover have "aa_authorized (assess_authority decided_request sample_principal ''ISOLATE'')"
    by (simp add: assess_authority_def sample_principal_def Let_def)
  moreover have "required_authority_for sample_action (sample_target ''ws-1'') = ''ISOLATE''"
    "''WORKSTATION'' \<in> set (ay_allowed_target_types sample_action)"
    "tr_type (sample_target ''ws-1'') = ''WORKSTATION''" "tr_criticality (sample_target ''ws-1'') = ''LOW''"
    "decision_constraints decided_request sample_action = []"
    by (simp_all add: required_authority_for_def sample_target_def sample_action_def sample_policy_def
        constrain_parameters_def decided_request_def evidence_request_def sample_request_def Let_def)
  ultimately show ?thesis using assms by (simp add: reference_outcome_def)
qed

definition no_requirement :: approval_requirement where
  "no_requirement = \<lparr>aq_approval_id = [], aq_issuer_instance_id = [], aq_request_id = [], aq_decision_id = [],
     aq_decision_context_sha256 = [], aq_policy_id = [], aq_policy_version = [], aq_policy_sha256 = [],
     aq_action_type = [], aq_target_id = [], aq_parameters_sha256 = [], aq_evidence_sha256 = [],
     aq_reason_codes = [], aq_required_authority = [], aq_created_at = [], aq_expires_at = [],
     aq_scope_sha256 = [], aq_signature = [], aq_status = []\<rparr>"

theorem decision_total_witness:
  "\<forall>e c. \<exists>d. build_decision (Some (\<lambda>_. Inr no_requirement)) ''1'' None sample_now decided_request sample_principal
     sample_policy e c (sample_target ''ws-1'') sample_action = Inr d"
  by (intro allI decision_total [OF sample_policy_loads]) simp

lemma decided_decision:
  obtains e c d where "assess_evidence (po_evidence sample_policy) sample_keys sample_now decided_request = Inr e"
    "assess_consequence (sample_target ''ws-1'') sample_action (po_consequence sample_policy)
      (ac_parameters (dr_action decided_request)) = Inr c"
    "build_decision (Some (\<lambda>_. Inr no_requirement)) ''1'' None sample_now decided_request sample_principal
     sample_policy e c (sample_target ''ws-1'') sample_action = Inr d"
    "dn_outcome d = ''ALLOW''"
proof -
  obtain e where e: "assess_evidence (po_evidence sample_policy) sample_keys sample_now decided_request = Inr e"
    "ea_automation_grade e" "ea_invalid_evidence_ids e = []" "ea_poisoned_evidence_ids e = []"
    by (rule decided_evidence)
  obtain c where c: "assess_consequence (sample_target ''ws-1'') sample_action (po_consequence sample_policy)
      (ac_parameters (dr_action decided_request)) = Inr c" "\<not> ca_human_approval_required c"
    by (rule decided_consequence)
  obtain d where d: "build_decision (Some (\<lambda>_. Inr no_requirement)) ''1'' None sample_now decided_request
      sample_principal sample_policy e c (sample_target ''ws-1'') sample_action = Inr d"
    by (rule build_decision_total [OF sample_policy_safe]) auto
  have "dn_outcome d = ''ALLOW''"
    using build_decision_fields(1) [OF sample_policy_safe d] decided [OF e(2-4) c(2)] by simp
  with e(1) c(1) d that show thesis by blast
qed

theorem decision_table_witness:
  "\<exists>e c d. build_decision (Some (\<lambda>_. Inr no_requirement)) ''1'' None sample_now decided_request sample_principal
     sample_policy e c (sample_target ''ws-1'') sample_action = Inr d
     \<and> dn_outcome d = ''ALLOW'' \<and> dn_permitted_action d \<noteq> None"
proof -
  obtain e c d where d: "build_decision (Some (\<lambda>_. Inr no_requirement)) ''1'' None sample_now decided_request
      sample_principal sample_policy e c (sample_target ''ws-1'') sample_action = Inr d" "dn_outcome d = ''ALLOW''"
    by (rule decided_decision)
  then show ?thesis using decision_table [OF sample_policy_loads d(1)] by blast
qed

theorem recommendation_not_authoritative_witness:
  "\<exists>e c d d'. build_decision (Some (\<lambda>_. Inr no_requirement)) ''2'' None sample_now
       (decided_request\<lparr>dr_recommendation := DoNotIsolate, dr_confidence := 0, dr_context := JNull\<rparr>) sample_principal
       sample_policy e c (sample_target ''ws-1'') sample_action = Inr d'
     \<and> build_decision (Some (\<lambda>_. Inr no_requirement)) ''1'' None sample_now decided_request sample_principal
       sample_policy e c (sample_target ''ws-1'') sample_action = Inr d
     \<and> dn_outcome d' = ''ALLOW''"
proof -
  obtain e c d where d: "build_decision (Some (\<lambda>_. Inr no_requirement)) ''1'' None sample_now decided_request
      sample_principal sample_policy e c (sample_target ''ws-1'') sample_action = Inr d" "dn_outcome d = ''ALLOW''"
    by (rule decided_decision)
  obtain d' where d': "build_decision (Some (\<lambda>_. Inr no_requirement)) ''2'' None sample_now
       (decided_request\<lparr>dr_recommendation := DoNotIsolate, dr_confidence := 0, dr_context := JNull\<rparr>) sample_principal
       sample_policy e c (sample_target ''ws-1'') sample_action = Inr d'"
    by (rule build_decision_total [OF sample_policy_safe]) auto
  have "dn_outcome d' = dn_outcome d"
    using recommendation_not_authoritative [OF sample_policy_loads d(1) d'] by blast
  then show ?thesis using d d' by metis
qed


end
