(* ===== verification/P3Metrics.thy ===== *)
theory P3Metrics
  imports PyJson
begin

text \<open>
  \<open>Phase3Metrics\<close> of \<open>phase3/metrics.py\<close>: counters and latencies behind one lock, so every call is
  a function on the state. A \<open>Counter\<close> is an association list in insertion order. The
  rounding of the builtin \<open>sum\<close> on floats depends on the interpreter, so the sum is the
  argument \<open>total_of\<close> of the snapshot.
\<close>

record metric_state =
  ms_dispositions :: "(pystr \<times> nat) list"
  ms_rule_matches :: "(pystr \<times> nat) list"
  ms_evidence_conflicts :: int
  ms_authorization_failures :: nat
  ms_broker_rejections :: nat
  ms_verification_failures :: nat
  ms_latencies :: "rat list"

definition no_metrics :: metric_state where
  "no_metrics = \<lparr>ms_dispositions = [], ms_rule_matches = [], ms_evidence_conflicts = 0,
     ms_authorization_failures = 0, ms_broker_rejections = 0, ms_verification_failures = 0, ms_latencies = []\<rparr>"

definition count_of :: "(pystr \<times> nat) list \<Rightarrow> pystr \<Rightarrow> nat" where
  "count_of c k = (case map_of c k of Some n \<Rightarrow> n | None \<Rightarrow> 0)"

definition count_up :: "pystr \<Rightarrow> (pystr \<times> nat) list \<Rightarrow> (pystr \<times> nat) list" where
  "count_up k c = dict_set k (count_of c k + 1) c"

definition record_decision :: "pystr \<Rightarrow> pystr list \<Rightarrow> int \<Rightarrow> rat \<Rightarrow> metric_state \<Rightarrow> metric_state" where
  "record_decision outcome policy_rules evidence_conflicts latency_ms m =
     m\<lparr>ms_dispositions := count_up outcome (ms_dispositions m),
       ms_rule_matches := fold count_up policy_rules (ms_rule_matches m),
       ms_evidence_conflicts := ms_evidence_conflicts m + evidence_conflicts,
       ms_latencies := ms_latencies m @ [max 0 latency_ms]\<rparr>"

definition record_authorization_failure :: "metric_state \<Rightarrow> metric_state" where
  "record_authorization_failure m = m\<lparr>ms_authorization_failures := ms_authorization_failures m + 1\<rparr>"

definition record_broker_rejection :: "metric_state \<Rightarrow> metric_state" where
  "record_broker_rejection m = m\<lparr>ms_broker_rejections := ms_broker_rejections m + 1\<rparr>"

definition record_verification_failure :: "metric_state \<Rightarrow> metric_state" where
  "record_verification_failure m = m\<lparr>ms_verification_failures := ms_verification_failures m + 1\<rparr>"

definition counted_outcomes :: "pystr list" where
  "counted_outcomes = [''ALLOW'', ''DENY'', ''ESCALATE'', ''ALLOW_CONSTRAINED'']"

definition metrics_snapshot :: "(rat list \<Rightarrow> rat) \<Rightarrow> metric_state \<Rightarrow> json" where
  "metrics_snapshot total_of m =
     (let latencies = ms_latencies m; total = sum_list (map snd (ms_dispositions m))
      in JObj
        [(''decisions_total'', JInt (int total)),
         (''decision_counts'', JObj (map (\<lambda>o'. (o', JInt (int (count_of (ms_dispositions m) o')))) counted_outcomes)),
         (''policy_rule_matches'',
          JObj (map (\<lambda>(k, n). (k, JInt (int n))) (sort_key fst (ms_rule_matches m)))),
         (''evidence_conflicts'', JInt (ms_evidence_conflicts m)),
         (''authorization_failures'', JInt (int (ms_authorization_failures m))),
         (''broker_rejections'', JInt (int (ms_broker_rejections m))),
         (''verification_failures'', JInt (int (ms_verification_failures m))),
         (''decision_latency_ms'', JObj
           [(''count'', JInt (int (length latencies))),
            (''mean'', JFloat (if latencies \<noteq> []
               then py_round 6 (fl (total_of latencies / of_nat (length latencies))) else 0)),
            (''max'', JFloat (if latencies \<noteq> [] then py_round 6 (Max (set latencies)) else 0))])])"

subsection \<open>Accounting\<close>

lemma sum_count_up: "distinct (map fst c) \<Longrightarrow> sum_list (map snd (count_up k c)) = sum_list (map snd c) + 1"
proof (induction c)
  case (Cons p c)
  have "count_of (p # c) k = (if fst p = k then snd p else count_of c k)"
    by (auto simp: count_of_def)
  moreover have "fst p = k \<Longrightarrow> map_of c k = None" using Cons.prems by (auto simp: map_of_eq_None_iff)
  ultimately show ?case using Cons by (cases p) (auto simp: count_up_def)
qed (simp add: count_up_def count_of_def)

lemma distinct_count_up: "distinct (map fst c) \<Longrightarrow> distinct (map fst (count_up k c))"
  by (simp add: count_up_def distinct_dict_set)

lemma count_of_count_up: "count_of (count_up k c) k' = count_of c k' + (if k' = k then 1 else 0)"
  by (simp add: count_of_def count_up_def map_of_dict_set)

datatype metric_event =
    DecisionRecorded pystr "pystr list" int rat
  | AuthorizationFailure
  | BrokerRejection
  | VerificationFailure

fun record_event :: "metric_event \<Rightarrow> metric_state \<Rightarrow> metric_state" where
  "record_event (DecisionRecorded o' rs n t) = record_decision o' rs n t"
| "record_event AuthorizationFailure = record_authorization_failure"
| "record_event BrokerRejection = record_broker_rejection"
| "record_event VerificationFailure = record_verification_failure"

definition is_decision :: "metric_event \<Rightarrow> bool" where
  "is_decision e \<longleftrightarrow> (\<exists>o' rs n t. e = DecisionRecorded o' rs n t)"

lemma is_decision_simps [simp]:
  "is_decision (DecisionRecorded o' rs n t)" "\<not> is_decision AuthorizationFailure"
  "\<not> is_decision BrokerRejection" "\<not> is_decision VerificationFailure"
  by (simp_all add: is_decision_def)

lemma metric_run:
  "distinct (map fst (ms_dispositions (fold record_event es no_metrics)))
   \<and> sum_list (map snd (ms_dispositions (fold record_event es no_metrics))) = length (filter is_decision es)
   \<and> length (ms_latencies (fold record_event es no_metrics)) = length (filter is_decision es)
   \<and> (\<forall>t \<in> set (ms_latencies (fold record_event es no_metrics)). 0 \<le> t)
   \<and> count_of (ms_dispositions (fold record_event es no_metrics)) o'
      = length (filter (\<lambda>e. \<exists>rs n t. e = DecisionRecorded o' rs n t) es)
   \<and> ms_authorization_failures (fold record_event es no_metrics) = count_list es AuthorizationFailure
   \<and> ms_broker_rejections (fold record_event es no_metrics) = count_list es BrokerRejection
   \<and> ms_verification_failures (fold record_event es no_metrics) = count_list es VerificationFailure"
proof (induction es rule: rev_induct)
  case (snoc e es)
  then show ?case
    by (cases e) (auto simp: record_decision_def record_authorization_failure_def record_broker_rejection_def
        record_verification_failure_def sum_count_up distinct_count_up count_of_count_up)
qed (simp add: no_metrics_def count_of_def)

text \<open>The metrics account for every event of a run: the reported total and the number of latencies are
  the number of recorded decisions, each disposition count and each failure counter is the
  number of its events, and no latency is negative.\<close>

theorem metrics_account:
  defines "m \<equiv> \<lambda>es. fold record_event es no_metrics"
  shows "sum_list (map snd (ms_dispositions (m es))) = length (filter is_decision es)
   \<and> length (ms_latencies (m es)) = length (filter is_decision es)
   \<and> count_of (ms_dispositions (m es)) o' = length (filter (\<lambda>e. \<exists>rs n t. e = DecisionRecorded o' rs n t) es)
   \<and> ms_authorization_failures (m es) = count_list es AuthorizationFailure
   \<and> ms_broker_rejections (m es) = count_list es BrokerRejection
   \<and> ms_verification_failures (m es) = count_list es VerificationFailure"
  unfolding m_def using metric_run [of es o'] by simp

end
