(* ===== verification/Sealed.thy ===== *)
theory Sealed
  imports PyJson
begin

text \<open>
  The contract every signed value of the program shares: a payload without the signature, an HMAC over
  its canonical JSON, and a comparison by \<open>hmac.compare_digest\<close>. Resolutions, requirements,
  receipts, tokens and verification receipts each interpret it in the theory that defines them.
\<close>

lemma hex_ascii: "list_all is_hex_char s \<Longrightarrow> is_ascii s"
  by (induction s) (auto simp: is_ascii_def is_hex_char_def)

lemma sha256_hex_ascii [simp]: "is_ascii (sha256_hex s)"
  using sha256_hex_wellformed [of s] by (simp add: hex_ascii)

lemma hmac_json_ascii [simp]: "is_ascii (hmac_json key v)"
  by (simp add: hmac_json_def hmac_sha256_hex_def Let_def)

lemma compare_hmac [simp]: "compare_digest (hmac_json key v) s = Inr True \<longleftrightarrow> s = hmac_json key v"
  by (auto simp: compare_digest_def)

lemma compare_hmac_same [simp]: "compare_digest (hmac_json key v) (hmac_json key v) = Inr True"
  by simp

locale sealed_value =
  fixes payload :: "'v \<Rightarrow> json"
    and signature :: "'v \<Rightarrow> pystr"
    and with_signature :: "pystr \<Rightarrow> 'v \<Rightarrow> 'v"
  assumes payload_frame: "payload (with_signature s v) = payload v"
    and signature_set: "signature (with_signature s v) = s"
    and with_signature_same: "with_signature (signature v) v = v"
    and with_signature_twice: "with_signature s (with_signature s' v) = with_signature s v"
begin

definition seal :: "string \<Rightarrow> 'v \<Rightarrow> 'v" where
  "seal key v = with_signature (hmac_json key (payload v)) v"

definition authentic :: "string \<Rightarrow> 'v \<Rightarrow> bool" where
  "authentic key v \<longleftrightarrow> compare_digest (hmac_json key (payload v)) (signature v) = Inr True"

lemma authentic_iff: "authentic key v \<longleftrightarrow> signature v = hmac_json key (payload v)"
  by (simp add: authentic_def)

lemma authentic_seal: "authentic key (seal key v)"
  by (simp add: authentic_iff seal_def payload_frame signature_set)

lemma authentic_is_sealed: "authentic key v \<longleftrightarrow> v = seal key v"
proof
  assume "authentic key v"
  then show "v = seal key v"
    using with_signature_same [of v] by (simp add: authentic_iff seal_def)
next
  assume v: "v = seal key v"
  have "authentic key (seal key v)" by (rule authentic_seal)
  with v show "authentic key v" by simp
qed

lemma seal_payload: "payload (seal key v) = payload v"
  by (simp add: seal_def payload_frame)

text \<open>Two authentic values with one payload and one body are the same: the signature adds no freedom.\<close>

lemma authentic_unique:
  "authentic key v \<Longrightarrow> authentic key w \<Longrightarrow> payload v = payload w \<Longrightarrow> with_signature [] v = with_signature [] w
     \<Longrightarrow> v = w"
  by (metis authentic_iff with_signature_same with_signature_twice)

end

end
