(* ===== verification/P3Identity.thy ===== *)
theory P3Identity
  imports P3Models Sealed
begin

text \<open>
  \<open>TrustedPrincipalResolver\<close> of \<open>phase3/identity.py\<close>: opaque transport credentials resolve to trusted
  principals registered at construction. A credential is a byte string; only its digest is kept.
  The signing key and the instance identifier, random at construction, are the arguments
  \<open>key\<close> and \<open>instance\<close>, the UUID of a resolution is \<open>fresh\<close>. The type tests of the
  constructor are the types of the model.
\<close>

record resolved_principal =
  rp_resolution_id :: pystr
  rp_resolver_instance_id :: pystr
  rp_credential_sha256 :: pystr
  rp_principal :: authenticated_principal
  rp_signature :: pystr

definition resolution_unsigned :: "pystr \<Rightarrow> pystr \<Rightarrow> pystr \<Rightarrow> authenticated_principal \<Rightarrow> json" where
  "resolution_unsigned resolution instance credential_sha256 p = JObj
     [(''resolution_id'', JStr resolution), (''resolver_instance_id'', JStr instance),
      (''credential_sha256'', JStr credential_sha256), (''principal'', principal_to_dict p)]"

definition resolution_unsigned_dict :: "resolved_principal \<Rightarrow> json" where
  "resolution_unsigned_dict v =
     resolution_unsigned (rp_resolution_id v) (rp_resolver_instance_id v) (rp_credential_sha256 v) (rp_principal v)"

definition resolution_to_dict :: "resolved_principal \<Rightarrow> json" where
  "resolution_to_dict v = JObj
     [(''resolution_id'', JStr (rp_resolution_id v)),
      (''resolver_instance_id'', JStr (rp_resolver_instance_id v)),
      (''credential_sha256'', JStr (rp_credential_sha256 v)),
      (''principal'', principal_to_dict (rp_principal v)), (''signature'', JStr (rp_signature v))]"

record resolver =
  rs_records :: "(int list \<times> authenticated_principal) list"
  rs_signing_key :: string
  rs_instance_id :: pystr

definition principal_well_formed :: "authenticated_principal \<Rightarrow> bool" where
  "principal_well_formed p \<longleftrightarrow>
     pr_authenticated p \<and> pr_id p \<noteq> [] \<and> pr_type p \<noteq> [] \<and> pr_identity_source p \<noteq> []
     \<and> list_all (\<lambda>r. r \<noteq> []) (pr_roles p) \<and> list_all (\<lambda>a. a \<noteq> []) (pr_authority p)"

text \<open>The loop of the constructor over the records, with the digests and identifiers seen so far.\<close>

fun freeze_records ::
  "(string \<times> authenticated_principal) list \<Rightarrow> int list list \<Rightarrow> pystr list
     \<Rightarrow> (reason, (int list \<times> authenticated_principal) list) result" where
  "freeze_records [] digests ids = Inr []"
| "freeze_records ((credential, p) # records) digests ids =
     and_then (require (\<not> length credential < 32) ''ValueError'') (\<lambda>_.
     and_then (require (principal_well_formed p) ''ValueError'') (\<lambda>_.
     and_then (require (sha256_bytes credential \<notin> set digests) ''ValueError'') (\<lambda>_.
     and_then (require (pr_id p \<notin> set ids) ''ValueError'') (\<lambda>_.
     and_then (freeze_records records (sha256_bytes credential # digests) (pr_id p # ids)) (\<lambda>frozen.
     Inr ((sha256_bytes credential, p) # frozen))))))"

definition make_resolver ::
  "string \<Rightarrow> pystr \<Rightarrow> (string \<times> authenticated_principal) list \<Rightarrow> (reason, resolver) result" where
  "make_resolver key instance records =
     and_then (freeze_records records [] []) (\<lambda>frozen.
     and_then (require (frozen \<noteq> []) ''ValueError'') (\<lambda>_.
     Inr \<lparr>rs_records = frozen, rs_signing_key = key, rs_instance_id = instance\<rparr>))"

definition resolver_snapshot :: "resolver \<Rightarrow> resolver" where
  "resolver_snapshot rs = \<lparr>rs_records = rs_records rs, rs_signing_key = rs_signing_key rs,
     rs_instance_id = rs_instance_id rs\<rparr>"

definition credential_digests :: "resolver \<Rightarrow> int list list" where
  "credential_digests rs = map fst (rs_records rs)"

text \<open>The last record with the digest wins.\<close>

definition match_record :: "resolver \<Rightarrow> string \<Rightarrow> authenticated_principal option" where
  "match_record rs credential =
     fold (\<lambda>(expected, p) matched. if expected = sha256_bytes credential then Some p else matched)
       (rs_records rs) None"

definition resolve :: "resolver \<Rightarrow> pystr \<Rightarrow> string \<Rightarrow> (reason, resolved_principal) result" where
  "resolve rs fresh credential =
     and_then (require (\<not> length credential < 32) ''INVOCATION_CREDENTIAL_INVALID'') (\<lambda>_.
     (case match_record rs credential of
        None \<Rightarrow> Inl ''INVOCATION_CREDENTIAL_REJECTED''
      | Some p \<Rightarrow>
          (let resolution = ''resolution-'' @ fresh
           in Inr \<lparr>rp_resolution_id = resolution, rp_resolver_instance_id = rs_instance_id rs,
                   rp_credential_sha256 = sha256_hex credential, rp_principal = p,
                   rp_signature = hmac_json (rs_signing_key rs)
                     (resolution_unsigned resolution (rs_instance_id rs) (sha256_hex credential) p)\<rparr>)))"

definition verify_resolution :: "resolver \<Rightarrow> resolved_principal \<Rightarrow> (reason, authenticated_principal) result" where
  "verify_resolution rs v =
     (if rp_resolver_instance_id v \<noteq> rs_instance_id rs then Inl ''PRINCIPAL_RESOLUTION_INVALID''
      else and_then (compare_digest (hmac_json (rs_signing_key rs) (resolution_unsigned_dict v)) (rp_signature v))
        (\<lambda>same. and_then (require same ''PRINCIPAL_RESOLUTION_INVALID'') (\<lambda>_. Inr (rp_principal v))))"

interpretation resolution: sealed_value resolution_unsigned_dict rp_signature "\<lambda>s v. v\<lparr>rp_signature := s\<rparr>"
  by unfold_locales (simp_all add: resolution_unsigned_dict_def)

lemma freeze_records_Inr:
  "freeze_records records digests ids = Inr frozen \<Longrightarrow>
     frozen = map (\<lambda>(c, p). (sha256_bytes c, p)) records
     \<and> distinct (map fst frozen) \<and> set (map fst frozen) \<inter> set digests = {}
     \<and> distinct (map (\<lambda>r. pr_id (snd r)) records) \<and> pr_id ` snd ` set records \<inter> set ids = {}
     \<and> (\<forall>(c, p) \<in> set records. 32 \<le> length c \<and> principal_well_formed p)"
proof (induction records digests ids arbitrary: frozen rule: freeze_records.induct)
  case (2 c p records digests ids)
  then obtain fz where fz: "freeze_records records (sha256_bytes c # digests) (pr_id p # ids) = Inr fz"
    "frozen = (sha256_bytes c, p) # fz" and guards: "32 \<le> length c" "principal_well_formed p"
    "sha256_bytes c \<notin> set digests" "pr_id p \<notin> set ids"
    by (auto simp: not_less)
  have ih: "fz = map (\<lambda>(c, p). (sha256_bytes c, p)) records
     \<and> distinct (map fst fz) \<and> set (map fst fz) \<inter> set (sha256_bytes c # digests) = {}
     \<and> distinct (map (\<lambda>r. pr_id (snd r)) records) \<and> pr_id ` snd ` set records \<inter> set (pr_id p # ids) = {}
     \<and> (\<forall>(c, p) \<in> set records. 32 \<le> length c \<and> principal_well_formed p)"
    by (rule "2.IH" [OF fz(1)])
  have "(sha256_bytes c, p) # fz = map (\<lambda>(c, p). (sha256_bytes c, p)) ((c, p) # records)" using ih by simp
  moreover have "distinct (map fst ((sha256_bytes c, p) # fz)) \<and> set (map fst ((sha256_bytes c, p) # fz)) \<inter> set digests = {}
     \<and> distinct (map (\<lambda>r. pr_id (snd r)) ((c, p) # records)) \<and> pr_id ` snd ` set ((c, p) # records) \<inter> set ids = {}
     \<and> (\<forall>(c, p) \<in> set ((c, p) # records). 32 \<le> length c \<and> principal_well_formed p)"
    using ih [THEN conjunct2] guards by (simp add: image_image)
  ultimately show ?case unfolding fz(2) by blast
qed simp

lemma match_fold:
  "distinct (map fst rs) \<Longrightarrow>
   fold (\<lambda>(expected, p) matched. if expected = k then Some p else matched) rs init
     = (case map_of rs k of Some p \<Rightarrow> Some p | None \<Rightarrow> init)"
proof (induction rs arbitrary: init)
  case (Cons r rs)
  obtain k' p where r: "r = (k', p)" by (cases r) auto
  have "k' = k \<Longrightarrow> map_of rs k = None" using Cons.prems r by (auto simp: map_of_eq_None_iff)
  with Cons r show ?case by auto
qed simp

lemma make_resolver_Inr:
  assumes "make_resolver key instance records = Inr rs"
  shows "rs_records rs = map (\<lambda>(c, p). (sha256_bytes c, p)) records" "distinct (map fst (rs_records rs))"
    "distinct (map (\<lambda>r. pr_id (snd r)) records)"
    "\<forall>(c, p) \<in> set records. 32 \<le> length c \<and> principal_well_formed p"
    "rs_signing_key rs = key" "rs_instance_id rs = instance"
  using assms freeze_records_Inr [of records "[]" "[]"] by (auto simp: make_resolver_def)

lemma match_record_map_of: "distinct (map fst (rs_records rs)) \<Longrightarrow> match_record rs c = map_of (rs_records rs) (sha256_bytes c)"
  by (simp add: match_record_def match_fold split: option.split)

lemma resolved_verifies:
  "resolve rs fresh credential = Inr v \<Longrightarrow> verify_resolution rs v = Inr (rp_principal v)"
  by (auto simp: resolve_def verify_resolution_def resolution_unsigned_dict_def Let_def split: option.splits)

text \<open>The resolver is exact: every registered credential resolves to its own principal, and the resolution
  verifies back to that principal; whatever resolves belongs to a registered record whose
  credential has the same digest, and that principal is authenticated and well formed.\<close>

theorem resolver_exact:
  assumes "make_resolver key instance records = Inr rs"
  shows "(\<forall>c p. (c, p) \<in> set records \<longrightarrow> (\<exists>v. resolve rs fresh c = Inr v \<and> verify_resolution rs v = Inr p))
    \<and> (\<forall>c v. resolve rs fresh c = Inr v \<longrightarrow> (\<exists>c'. (c', rp_principal v) \<in> set records
         \<and> sha256_bytes c' = sha256_bytes c \<and> principal_well_formed (rp_principal v)))"
proof (intro conjI allI impI)
  note m = make_resolver_Inr [OF assms]
  note match = match_record_map_of [OF m(2)]
  show "\<exists>v. resolve rs fresh c = Inr v \<and> verify_resolution rs v = Inr p" if "(c, p) \<in> set records" for c p
  proof -
    have "(sha256_bytes c, p) \<in> set (rs_records rs)" using that m(1) by force
    then have "match_record rs c = Some p" using match m(2) by simp
    moreover have "32 \<le> length c" using m(4) that by blast
    ultimately obtain v where "resolve rs fresh c = Inr v" "rp_principal v = p" by (auto simp: resolve_def Let_def)
    then show ?thesis using resolved_verifies by blast
  qed
  show "\<exists>c'. (c', rp_principal v) \<in> set records \<and> sha256_bytes c' = sha256_bytes c
       \<and> principal_well_formed (rp_principal v)" if "resolve rs fresh c = Inr v" for c v
  proof -
    have "map_of (rs_records rs) (sha256_bytes c) = Some (rp_principal v)"
      using that match by (auto simp: resolve_def Let_def split: option.splits)
    then have "(sha256_bytes c, rp_principal v) \<in> set (rs_records rs)" by (rule map_of_SomeD)
    then show ?thesis using m(1,4) by fastforce
  qed
qed

definition resolver_credential :: string where
  "resolver_credential = replicate 32 (CHR ''k'')"

definition resolver_agent :: authenticated_principal where
  "resolver_agent =
     \<lparr>pr_id = ''agent-1'', pr_type = ''AI'', pr_authenticated = True, pr_roles = [''responder''],
      pr_authority = [''ISOLATE''], pr_security_status = Trusted, pr_identity_source = ''mtls'',
      pr_human_session = False, pr_reason_code = []\<rparr>"

theorem resolver_exact_witness:
  "\<exists>rs v. make_resolver ''key'' ''resolver-1'' [(resolver_credential, resolver_agent)] = Inr rs
     \<and> resolve rs ''1'' resolver_credential = Inr v \<and> verify_resolution rs v = Inr resolver_agent"
proof -
  obtain rs where rs: "make_resolver ''key'' ''resolver-1'' [(resolver_credential, resolver_agent)] = Inr rs"
    by (simp add: make_resolver_def resolver_credential_def resolver_agent_def principal_well_formed_def)
  with resolver_exact [OF rs, of "''1''"] show ?thesis by auto
qed

end
