(* ===== verification/P3Approval.thy ===== *)
theory P3Approval
  imports P3Decision P3Identity Sealed SingleUse
begin

text \<open>
  \<open>HumanApprovalGate\<close> of \<open>phase3/approval.py\<close>: it issues a signed requirement for an escalated
  decision, verifies one, and consumes it once against a human credential. The private fields are
  the record \<open>approval_state\<close>, the constructor arguments \<open>approval_config\<close>; the lock makes each
  method a function of the state. A method returns its result beside the state, since a receipt whose commit callback
  raises stays pending. Clock readings and fresh identifiers are arguments.
\<close>

record approval_config =
  gk_signing_key :: string
  gk_ttl_seconds :: int
  gk_issuer_instance_id :: pystr
  gk_resolver :: resolver

record approval_state =
  st_requirements :: "(pystr \<times> approval_requirement) list"
  st_issued_decision_ids :: "pystr list"
  st_used :: "pystr list"
  st_pending :: "(pystr \<times> approval_receipt) list"

definition no_approvals :: approval_state where
  "no_approvals = \<lparr>st_requirements = [], st_issued_decision_ids = [], st_used = [], st_pending = []\<rparr>"

definition make_approval_config ::
  "string \<Rightarrow> int \<Rightarrow> resolver \<Rightarrow> pystr option \<Rightarrow> pystr \<Rightarrow> (reason, approval_config) result" where
  "make_approval_config key ttl rs issuer fresh =
     and_then (require (\<not> length key < 32) ''ValueError'') (\<lambda>_.
     and_then (require (\<not> (ttl < 60 \<or> ttl > 86400)) ''ValueError'') (\<lambda>_.
     Inr \<lparr>gk_signing_key = key, gk_ttl_seconds = ttl,
          gk_issuer_instance_id = or_default issuer (''approval-issuer-'' @ fresh),
          gk_resolver = resolver_snapshot rs\<rparr>))"

subsection \<open>Signed forms\<close>

definition requirement_base :: "approval_requirement \<Rightarrow> (pystr \<times> json) list" where
  "requirement_base q = dict_pop ''scope_sha256'' (dict_pop ''signature'' (requirement_members q))"

definition requirement_signed :: "approval_requirement \<Rightarrow> json" where
  "requirement_signed q = JObj (requirement_base q @ [(''scope_sha256'', JStr (aq_scope_sha256 q))])"

definition receipt_unsigned :: "approval_receipt \<Rightarrow> json" where
  "receipt_unsigned r = JObj (dict_pop ''signature'' (receipt_members r))"

interpretation requirement: sealed_value requirement_signed aq_signature "\<lambda>s q. q\<lparr>aq_signature := s\<rparr>"
  by unfold_locales
    (simp_all add: requirement_signed_def requirement_base_def requirement_members_def dict_pop_def)

interpretation receipt: sealed_value receipt_unsigned re_signature "\<lambda>s r. r\<lparr>re_signature := s\<rparr>"
  by unfold_locales (simp_all add: receipt_unsigned_def receipt_members_def dict_pop_def)

subsection \<open>Requirements\<close>

definition draft_requirement ::
  "approval_config \<Rightarrow> pystr \<Rightarrow> instant \<Rightarrow> requirement_request \<Rightarrow> approval_requirement" where
  "draft_requirement cfg approval now rq =
     (let d = rq_decision rq in
      \<lparr>aq_approval_id = approval, aq_issuer_instance_id = gk_issuer_instance_id cfg,
       aq_request_id = dn_request_id d, aq_decision_id = dn_decision_id d,
       aq_decision_context_sha256 = dn_decision_context_sha256 d, aq_policy_id = dn_policy_id d,
       aq_policy_version = dn_policy_version d, aq_policy_sha256 = dn_policy_sha256 d,
       aq_action_type = rq_action_type rq, aq_target_id = rq_target_id rq,
       aq_parameters_sha256 = sha256_json (rq_parameters rq), aq_evidence_sha256 = rq_evidence_sha256 rq,
       aq_reason_codes = rq_reason_codes rq, aq_required_authority = rq_required_authority rq,
       aq_created_at = isoformat now, aq_expires_at = isoformat (now + gk_ttl_seconds cfg * micros),
       aq_scope_sha256 = [], aq_signature = [], aq_status = ''PENDING''\<rparr>)"

definition signed_requirement ::
  "approval_config \<Rightarrow> pystr \<Rightarrow> instant \<Rightarrow> requirement_request \<Rightarrow> approval_requirement" where
  "signed_requirement cfg approval now rq =
     (let base = draft_requirement cfg approval now rq;
          scoped = base\<lparr>aq_scope_sha256 := sha256_json (JObj (requirement_base base))\<rparr>
      in scoped\<lparr>aq_signature := hmac_json (gk_signing_key cfg) (requirement_signed scoped)\<rparr>)"

definition issue_requirement ::
  "approval_config \<Rightarrow> pystr \<Rightarrow> instant \<Rightarrow> requirement_request \<Rightarrow> approval_state
     \<Rightarrow> (reason, approval_requirement) result \<times> approval_state" where
  "issue_requirement cfg approval clock rq st =
     (let d = rq_decision rq; now = whole_second clock; q = signed_requirement cfg approval now rq in
      if dn_outcome d \<noteq> ''ESCALATE'' \<or> dn_permitted_action d \<noteq> None \<or> dn_approval_requirement d \<noteq> None
      then (Inl ''APPROVAL_OUTCOME_INVALID'', st)
      else if rq_reason_codes rq = [] \<or> rq_required_authority rq \<noteq> aa_required_authority (dn_authority d)
            \<or> rq_reason_codes rq \<noteq> dn_reason_codes d
      then (Inl ''APPROVAL_SCOPE_INCOMPLETE'', st)
      else if \<not> representable (now + gk_ttl_seconds cfg * micros) then (Inl ''OverflowError'', st)
      else if approval \<in> fst ` set (st_requirements st) \<or> dn_decision_id d \<in> set (st_issued_decision_ids st)
      then (Inl ''APPROVAL_ID_COLLISION'', st)
      else (Inr q, st\<lparr>st_requirements := dict_set approval q (st_requirements st),
                      st_issued_decision_ids := List.insert (dn_decision_id d) (st_issued_decision_ids st)\<rparr>))"

text \<open>\<open>verify_requirement\<close>; \<open>evaluated_at\<close> is \<open>None\<close> for \<open>check_time = False\<close>.\<close>

definition verify_requirement ::
  "approval_config \<Rightarrow> instant option \<Rightarrow> approval_requirement \<Rightarrow> approval_state \<Rightarrow> (reason, unit) result" where
  "verify_requirement cfg evaluated_at q st =
     and_then (require (sha256_json (JObj (requirement_base q)) = aq_scope_sha256 q)
       ''APPROVAL_SCOPE_DIGEST_INVALID'') (\<lambda>_.
     and_then (compare_digest (hmac_json (gk_signing_key cfg) (requirement_signed q)) (aq_signature q)) (\<lambda>same.
     and_then (require same ''APPROVAL_SIGNATURE_INVALID'') (\<lambda>_.
     and_then (require (aq_issuer_instance_id q = gk_issuer_instance_id cfg) ''APPROVAL_ISSUER_MISMATCH'') (\<lambda>_.
     and_then (require (map_of (st_requirements st) (aq_approval_id q) = Some q) ''APPROVAL_NOT_REGISTERED'') (\<lambda>_.
     and_then (require (\<not> (aq_status q \<noteq> ''PENDING'' \<or> aq_reason_codes q = [])) ''APPROVAL_STATUS_INVALID'') (\<lambda>_.
     and_then (parse_timestamp ''APPROVAL_TIME_INVALID'' (aq_created_at q)) (\<lambda>created.
     and_then (parse_timestamp ''APPROVAL_TIME_INVALID'' (aq_expires_at q)) (\<lambda>expires.
     and_then (require (\<not> created \<ge> expires) ''APPROVAL_TIME_INVALID'') (\<lambda>_.
     (case evaluated_at of
        None \<Rightarrow> Inr ()
      | Some now \<Rightarrow>
          and_then (require (\<not> now < created) ''APPROVAL_NOT_YET_VALID'') (\<lambda>_.
          require (\<not> now \<ge> expires) ''APPROVAL_EXPIRED'')))))))))))"

subsection \<open>Approval\<close>

record approval_call =
  cl_requirement :: approval_requirement
  cl_credential :: string
  cl_action_type :: pystr
  cl_target_id :: pystr
  cl_parameters :: pyval
  cl_evidence_sha256 :: pystr

definition approver_types :: "pystr list" where
  "approver_types = [''HUMAN_ANALYST'', ''HUMAN_OPERATOR'']"

definition check_approver :: "pystr \<Rightarrow> authenticated_principal \<Rightarrow> (reason, unit) result" where
  "check_approver required p =
     and_then (require (\<not> (\<not> pr_authenticated p \<or> pr_security_status p \<noteq> Trusted)) ''APPROVER_NOT_AUTHENTICATED'') (\<lambda>_.
     and_then (require (\<not> (\<not> pr_human_session p \<or> pr_type p \<notin> set approver_types
         \<or> ''HUMAN_APPROVER'' \<notin> set (pr_roles p))) ''APPROVER_NOT_HUMAN'') (\<lambda>_.
     require (required \<in> set (pr_authority p)) ''APPROVER_AUTHORITY_INSUFFICIENT''))"

text \<open>\<open>resolve\<close> and \<open>verify_resolution\<close>; a \<open>PrincipalAuthenticationError\<close> of either rejects the credential.\<close>

definition principal_errors :: "reason list" where
  "principal_errors =
     [''INVOCATION_CREDENTIAL_INVALID'', ''INVOCATION_CREDENTIAL_REJECTED'', ''PRINCIPAL_RESOLUTION_INVALID'']"

definition resolve_approver :: "resolver \<Rightarrow> pystr \<Rightarrow> string \<Rightarrow> (reason, authenticated_principal) result" where
  "resolve_approver rs fresh credential =
     (case and_then (resolve rs fresh credential) (verify_resolution rs) of
        Inl e \<Rightarrow> Inl (if e \<in> set principal_errors then ''APPROVER_CREDENTIAL_REJECTED'' else e)
      | Inr p \<Rightarrow> Inr p)"

definition check_bindings :: "approval_call \<Rightarrow> json \<Rightarrow> (reason, unit) result" where
  "check_bindings c parameters =
     (let q = cl_requirement c in
      and_then (require (aq_action_type q = cl_action_type c) ''APPROVAL_ACTION_MISMATCH'') (\<lambda>_.
      and_then (require (aq_target_id q = cl_target_id c) ''APPROVAL_TARGET_MISMATCH'') (\<lambda>_.
      and_then (require (aq_parameters_sha256 q = sha256_json parameters) ''APPROVAL_PARAMETERS_MISMATCH'') (\<lambda>_.
      require (aq_evidence_sha256 q = cl_evidence_sha256 c) ''APPROVAL_EVIDENCE_MISMATCH''))))"

definition check_approval ::
  "approval_config \<Rightarrow> pystr \<Rightarrow> instant \<Rightarrow> approval_call \<Rightarrow> approval_state \<Rightarrow> (reason, authenticated_principal) result" where
  "check_approval cfg fresh now c st =
     and_then (require (\<not> (cl_action_type c = [] \<or> cl_target_id c = [] \<or> cl_evidence_sha256 c = []
         \<or> \<not> (case cl_parameters c of PDict _ \<Rightarrow> True | _ \<Rightarrow> False))) ''APPROVAL_SCOPE_TYPE_INVALID'') (\<lambda>_.
     and_then (case copy_exact_json (cl_parameters c) of None \<Rightarrow> Inl ''APPROVAL_PARAMETERS_INVALID''
               | Some v \<Rightarrow> Inr v) (\<lambda>parameters.
     and_then (verify_requirement cfg (Some now) (cl_requirement c) st) (\<lambda>_.
     and_then (resolve_approver (gk_resolver cfg) fresh (cl_credential c)) (\<lambda>approver.
     and_then (check_approver (aq_required_authority (cl_requirement c)) approver) (\<lambda>_.
     and_then (check_bindings c parameters) (\<lambda>_. Inr approver))))))"

definition draft_receipt ::
  "approval_config \<Rightarrow> pystr \<Rightarrow> instant \<Rightarrow> approval_call \<Rightarrow> authenticated_principal \<Rightarrow> approval_receipt" where
  "draft_receipt cfg receipt now c approver =
     (let q = cl_requirement c;
          base = \<lparr>re_receipt_id = receipt, re_issuer_instance_id = gk_issuer_instance_id cfg,
             re_approval_id = aq_approval_id q, re_request_id = aq_request_id q,
             re_decision_id = aq_decision_id q, re_approver_id = pr_id approver,
             re_approving_authority = aq_required_authority q, re_action_type = cl_action_type c,
             re_target_id = cl_target_id c, re_parameters_sha256 = aq_parameters_sha256 q,
             re_evidence_sha256 = cl_evidence_sha256 c, re_requirement_scope_sha256 = aq_scope_sha256 q,
             re_approved_at = isoformat now, re_signature = [], re_status = ''APPROVED_FOR_REEVALUATION''\<rparr>
      in base\<lparr>re_signature := hmac_json (gk_signing_key cfg) (receipt_unsigned base)\<rparr>)"

definition receipt_matches :: "approval_call \<Rightarrow> authenticated_principal \<Rightarrow> approval_receipt \<Rightarrow> bool" where
  "receipt_matches c approver r \<longleftrightarrow>
     (let q = cl_requirement c in
      re_approver_id r = pr_id approver \<and> re_approving_authority r = aq_required_authority q
      \<and> re_action_type r = cl_action_type c \<and> re_target_id r = cl_target_id c
      \<and> re_parameters_sha256 r = aq_parameters_sha256 q \<and> re_evidence_sha256 r = cl_evidence_sha256 c
      \<and> re_requirement_scope_sha256 r = aq_scope_sha256 q)"

definition commit_approval ::
  "(approval_receipt \<Rightarrow> (reason, unit) result) option \<Rightarrow> approval_receipt \<Rightarrow> pystr \<Rightarrow> approval_state
     \<Rightarrow> (reason, approval_receipt) result \<times> approval_state" where
  "commit_approval commit r approval st =
     (case (case commit of None \<Rightarrow> Inr () | Some f \<Rightarrow> f r) of
        Inl e \<Rightarrow> (Inl e, st)
      | Inr _ \<Rightarrow> (Inr r, st\<lparr>st_used := List.insert approval (st_used st),
                           st_pending := dict_pop approval (st_pending st)\<rparr>))"

definition consume_approval ::
  "approval_config \<Rightarrow> pystr \<Rightarrow> instant \<Rightarrow> (approval_receipt \<Rightarrow> (reason, unit) result) option \<Rightarrow> approval_call
     \<Rightarrow> authenticated_principal \<Rightarrow> approval_state \<Rightarrow> (reason, approval_receipt) result \<times> approval_state" where
  "consume_approval cfg receipt now commit c approver st =
     (let q = cl_requirement c; approval = aq_approval_id q in
      if approval \<in> set (st_used st) then (Inl ''APPROVAL_REPLAY'', st)
      else if map_of (st_requirements st) approval \<noteq> Some q then (Inl ''APPROVAL_NOT_REGISTERED'', st)
      else case map_of (st_pending st) approval of
          None \<Rightarrow>
            if receipt = [] then (Inl ''APPROVAL_RECEIPT_ID_INVALID'', st)
            else (let r = draft_receipt cfg receipt now c approver
                  in commit_approval commit r approval
                       (st\<lparr>st_pending := dict_set approval r (st_pending st)\<rparr>))
        | Some r \<Rightarrow>
            if \<not> receipt_matches c approver r then (Inl ''APPROVAL_PENDING_CONFLICT'', st)
            else commit_approval commit r approval st)"

definition approve ::
  "approval_config \<Rightarrow> pystr \<Rightarrow> pystr \<Rightarrow> instant \<Rightarrow> (approval_receipt \<Rightarrow> (reason, unit) result) option
     \<Rightarrow> approval_call \<Rightarrow> approval_state \<Rightarrow> (reason, approval_receipt) result \<times> approval_state" where
  "approve cfg fresh receipt clock commit c st =
     (let now = whole_second clock in
      case check_approval cfg fresh now c st of
        Inl e \<Rightarrow> (Inl e, st)
      | Inr approver \<Rightarrow> consume_approval cfg receipt now commit c approver st)"

subsection \<open>What the methods do\<close>

lemma requirement_base_frame [simp]:
  "requirement_base (q\<lparr>aq_scope_sha256 := x\<rparr>) = requirement_base q"
  "requirement_base (q\<lparr>aq_signature := s\<rparr>) = requirement_base q"
  by (simp_all add: requirement_base_def requirement_members_def dict_pop_def)

lemma issue_requirement_Inr:
  assumes "issue_requirement cfg a clock rq st = (Inr q, st')"
  shows "q = signed_requirement cfg a (whole_second clock) rq"
    "st' = st\<lparr>st_requirements := dict_set a q (st_requirements st),
       st_issued_decision_ids := List.insert (dn_decision_id (rq_decision rq)) (st_issued_decision_ids st)\<rparr>"
    "representable (whole_second clock + gk_ttl_seconds cfg * micros)" "rq_reason_codes rq \<noteq> []"
    "a \<notin> fst ` set (st_requirements st)" "dn_outcome (rq_decision rq) = ''ESCALATE''"
  using assms by (auto simp: issue_requirement_def Let_def split: if_splits)

lemma issue_requirement_Inl: "issue_requirement cfg a clock rq st = (Inl e, st') \<Longrightarrow> st' = st"
  by (auto simp: issue_requirement_def Let_def split: if_splits)

lemma scoped_and_signed:
  fixes b :: approval_requirement and key :: string
  defines "s \<equiv> b\<lparr>aq_scope_sha256 := sha256_json (JObj (requirement_base b))\<rparr>"
  defines "q \<equiv> s\<lparr>aq_signature := hmac_json key (requirement_signed s)\<rparr>"
  shows "aq_scope_sha256 q = sha256_json (JObj (requirement_base q))"
    "aq_signature q = hmac_json key (requirement_signed q)"
proof -
  show "aq_scope_sha256 q = sha256_json (JObj (requirement_base q))" unfolding q_def s_def by simp
  show "aq_signature q = hmac_json key (requirement_signed q)"
    unfolding q_def requirement.payload_frame requirement.signature_set ..
qed

lemma signed_requirement_fields:
  "aq_approval_id (signed_requirement cfg a now rq) = a"
  "aq_issuer_instance_id (signed_requirement cfg a now rq) = gk_issuer_instance_id cfg"
  "aq_status (signed_requirement cfg a now rq) = ''PENDING''"
  "aq_reason_codes (signed_requirement cfg a now rq) = rq_reason_codes rq"
  "aq_created_at (signed_requirement cfg a now rq) = isoformat now"
  "aq_expires_at (signed_requirement cfg a now rq) = isoformat (now + gk_ttl_seconds cfg * micros)"
  "aq_scope_sha256 (signed_requirement cfg a now rq) = sha256_json (JObj (requirement_base (signed_requirement cfg a now rq)))"
  "aq_signature (signed_requirement cfg a now rq)
     = hmac_json (gk_signing_key cfg) (requirement_signed (signed_requirement cfg a now rq))"
  unfolding signed_requirement_def Let_def
  by (simp_all only: scoped_and_signed, simp_all add: draft_requirement_def Let_def)

lemma issued_requirement_verifies:
  assumes "issue_requirement cfg a clock rq st = (Inr q, st')" "representable clock" "0 < gk_ttl_seconds cfg"
    "case at' of None \<Rightarrow> True | Some now \<Rightarrow> whole_second clock \<le> now \<and> now < whole_second clock + gk_ttl_seconds cfg * micros"
  shows "verify_requirement cfg at' q st' = Inr ()"
proof -
  note i = issue_requirement_Inr [OF assms(1)]
  have "representable (whole_second clock)" by (rule representable_whole_second [OF assms(2)])
  then have "parse_timestamp ''APPROVAL_TIME_INVALID'' (aq_created_at q) = Inr (whole_second clock)"
    "parse_timestamp ''APPROVAL_TIME_INVALID'' (aq_expires_at q) = Inr (whole_second clock + gk_ttl_seconds cfg * micros)"
    unfolding i(1) signed_requirement_fields using i(3) by simp_all
  moreover have "map_of (st_requirements st') (aq_approval_id q) = Some q"
    unfolding i(2) by (simp add: map_of_dict_set i(1) signed_requirement_fields(1))
  ultimately show ?thesis
    unfolding verify_requirement_def
    using assms(3,4) i(1,4) signed_requirement_fields(2-4,7,8) [of cfg a "whole_second clock" rq]
    by (auto simp: compare_digest_def micros_def split: option.splits)
qed

lemma verify_requirement_Inr:
  assumes "verify_requirement cfg (Some now) q st = Inr ()"
  shows "map_of (st_requirements st) (aq_approval_id q) = Some q" "requirement.authentic (gk_signing_key cfg) q"
    "\<exists>created expires. parse_timestamp ''APPROVAL_TIME_INVALID'' (aq_created_at q) = Inr created
       \<and> parse_timestamp ''APPROVAL_TIME_INVALID'' (aq_expires_at q) = Inr expires \<and> created \<le> now \<and> now < expires"
  using assms by (auto simp: verify_requirement_def requirement.authentic_def not_less not_le)

lemma resolve_approver_registered:
  assumes "match_record rs credential = Some p" "32 \<le> length credential"
  shows "resolve_approver rs fresh credential = Inr p"
proof -
  obtain v where "resolve rs fresh credential = Inr v" "rp_principal v = p"
    using assms by (auto simp: resolve_def Let_def)
  then show ?thesis using resolved_verifies [of rs fresh credential v] by (simp add: resolve_approver_def)
qed

lemma resolve_approver_Inr:
  assumes "resolve_approver rs fresh credential = Inr p"
  shows "match_record rs credential = Some p" "32 \<le> length credential"
  using assms by (auto simp: resolve_approver_def resolve_def verify_resolution_def Let_def
      split: sum.splits option.splits if_splits)

lemma commit_approval_Inr:
  "commit_approval commit r a st = (Inr r', st') \<Longrightarrow> r' = r \<and> st' = st\<lparr>st_used := List.insert a (st_used st),
     st_pending := dict_pop a (st_pending st)\<rparr>"
  by (auto simp: commit_approval_def split: option.splits sum.splits)

lemma commit_approval_Inl: "commit_approval commit r a st = (Inl e, st') \<Longrightarrow> st' = st"
  by (auto simp: commit_approval_def split: option.splits sum.splits)

lemma consume_approval_Inr:
  assumes "consume_approval cfg receipt now commit c p st = (Inr r, st')"
  shows "aq_approval_id (cl_requirement c) \<notin> set (st_used st)"
    "map_of (st_requirements st) (aq_approval_id (cl_requirement c)) = Some (cl_requirement c)"
    "set (st_used st') = insert (aq_approval_id (cl_requirement c)) (set (st_used st))"
    "st_requirements st' = st_requirements st" "receipt_matches c p r"
  using assms
  by (auto simp: consume_approval_def Let_def receipt_matches_def draft_receipt_def
      split: if_splits option.splits dest!: commit_approval_Inr)

lemma consume_approval_Inl:
  assumes "consume_approval cfg receipt now commit c p st = (Inl e, st')"
  shows "st_requirements st' = st_requirements st" "st_used st' = st_used st"
  using assms
  by (auto simp: consume_approval_def Let_def split: if_splits option.splits dest!: commit_approval_Inl)

lemma approve_Inr:
  assumes "approve cfg fresh receipt clock commit c st = (Inr r, st')"
  obtains p where "check_approval cfg fresh (whole_second clock) c st = Inr p"
    "consume_approval cfg receipt (whole_second clock) commit c p st = (Inr r, st')"
  using assms by (auto simp: approve_def Let_def split: sum.splits)

lemma approve_Inl:
  assumes "approve cfg fresh receipt clock commit c st = (Inl e, st')"
  shows "st_requirements st' = st_requirements st" "st_used st' = st_used st"
  using assms by (auto simp: approve_def Let_def split: sum.splits dest: consume_approval_Inl)

subsection \<open>Single use, by the ledger contract\<close>

datatype approval_op =
    IssueRequirement pystr instant requirement_request
  | Approve pystr pystr instant "(approval_receipt \<Rightarrow> (reason, unit) result) option" approval_call

definition approval_exec :: "approval_config \<Rightarrow> approval_op \<Rightarrow> approval_state \<Rightarrow> approval_state" where
  "approval_exec cfg oper st =
     (case oper of
        IssueRequirement a clock rq \<Rightarrow> snd (issue_requirement cfg a clock rq st)
      | Approve fresh receipt clock commit c \<Rightarrow> snd (approve cfg fresh receipt clock commit c st))"

definition approval_issues :: "approval_config \<Rightarrow> approval_op \<Rightarrow> approval_state \<Rightarrow> pystr option" where
  "approval_issues cfg oper st =
     (case oper of
        IssueRequirement a clock rq \<Rightarrow> if is_ok (fst (issue_requirement cfg a clock rq st)) then Some a else None
      | _ \<Rightarrow> None)"

definition approval_consumes :: "approval_config \<Rightarrow> approval_op \<Rightarrow> approval_state \<Rightarrow> pystr option" where
  "approval_consumes cfg oper st =
     (case oper of
        Approve fresh receipt clock commit c \<Rightarrow>
          if is_ok (fst (approve cfg fresh receipt clock commit c st))
          then Some (aq_approval_id (cl_requirement c)) else None
      | _ \<Rightarrow> None)"

definition approval_lookup :: "approval_state \<Rightarrow> pystr \<Rightarrow> auth_state option" where
  "approval_lookup st a =
     (if a \<in> set (st_used st) then Some Consumed
      else if a \<in> fst ` set (st_requirements st) then Some Issued else None)"

definition approval_inv :: "approval_state \<Rightarrow> bool" where
  "approval_inv st \<longleftrightarrow> set (st_used st) \<subseteq> fst ` set (st_requirements st)"

lemma approval_step:
  "(\<exists>a q. approval_issues cfg oper st = Some a \<and> a \<notin> fst ` set (st_requirements st)
      \<and> st_requirements (approval_exec cfg oper st) = dict_set a q (st_requirements st)
      \<and> st_used (approval_exec cfg oper st) = st_used st \<and> approval_consumes cfg oper st = None)
   \<or> (\<exists>a. approval_consumes cfg oper st = Some a \<and> a \<in> fst ` set (st_requirements st) \<and> a \<notin> set (st_used st)
      \<and> st_requirements (approval_exec cfg oper st) = st_requirements st
      \<and> set (st_used (approval_exec cfg oper st)) = insert a (set (st_used st)) \<and> approval_issues cfg oper st = None)
   \<or> (approval_issues cfg oper st = None \<and> approval_consumes cfg oper st = None
      \<and> st_requirements (approval_exec cfg oper st) = st_requirements st
      \<and> st_used (approval_exec cfg oper st) = st_used st)"
proof (cases oper)
  case (IssueRequirement a clock rq)
  then show ?thesis
    using issue_requirement_Inr(2,5) [of cfg a clock rq st] issue_requirement_Inl [of cfg a clock rq st]
    by (cases "issue_requirement cfg a clock rq st"; cases "fst (issue_requirement cfg a clock rq st)")
      (fastforce simp: approval_issues_def approval_consumes_def approval_exec_def)+
next
  case (Approve fresh receipt clock commit c)
  obtain res st' where ap: "approve cfg fresh receipt clock commit c st = (res, st')" by (cases "approve cfg fresh receipt clock commit c st")
  show ?thesis
  proof (cases res)
    case (Inl e)
    then show ?thesis
      using Approve ap approve_Inl [of cfg fresh receipt clock commit c st e st']
      by (simp add: approval_issues_def approval_consumes_def approval_exec_def)
  next
    case (Inr r)
    then obtain p where "consume_approval cfg receipt (whole_second clock) commit c p st = (Inr r, st')"
      using ap approve_Inr by metis
    note f = consume_approval_Inr [OF this]
    have "aq_approval_id (cl_requirement c) \<in> fst ` set (st_requirements st)"
      using map_of_SomeD [OF f(2)] by force
    then show ?thesis
      using Approve ap Inr f by (simp add: approval_issues_def approval_consumes_def approval_exec_def)
  qed
qed

interpretation approvals: single_use_ledger approval_inv approval_lookup "approval_exec cfg" "approval_issues cfg"
  "approval_consumes cfg" for cfg
proof (unfold_locales, goal_cases)
  case (1 st oper)
  then show ?case
    using approval_step [of cfg oper st]
    by (elim disjE exE conjE) (simp_all add: approval_inv_def keys_dict_set subset_insertI2)
next
  case (2 st oper a)
  then show ?case using approval_step [of cfg oper st] by (auto simp: approval_lookup_def)
next
  case (3 st oper a)
  then show ?case using approval_step [of cfg oper st] by (auto simp: approval_lookup_def)
next
  case (4 st a oper)
  then show ?case
    using approval_step [of cfg oper st] by (auto simp: approval_lookup_def spent_def keys_dict_set split: if_splits)
next
  case (5 st oper a)
  then show ?case using approval_step [of cfg oper st] by (auto simp: approval_lookup_def approval_inv_def)
next
  case (6 st a oper)
  then show ?case
    using approval_step [of cfg oper st]
    by (elim disjE exE conjE, simp_all add: approval_lookup_def keys_dict_set split: if_splits) blast
qed

subsection \<open>Properties\<close>

text \<open>A requirement the gate issued passes its own verification until it expires: scope digest, signature,
  issuer, registration and interval all hold from the moment of issue up to the end of its time to live.\<close>

theorem issued_requirement_valid:
  assumes "issue_requirement cfg a clock rq st = (Inr q, st')" "representable clock" "0 < gk_ttl_seconds cfg"
    "whole_second clock \<le> now" "now < whole_second clock + gk_ttl_seconds cfg * micros"
  shows "verify_requirement cfg (Some now) q st' = Inr () \<and> verify_requirement cfg None q st' = Inr ()"
  using issued_requirement_verifies [OF assms(1-3), of "Some now"] issued_requirement_verifies [OF assms(1-3), of None]
    assms(4,5) by simp

text \<open>C24. A receipt exists only for a human decision on the exact scope: the requirement is registered,
  authentic, in time and unused, the credential belongs to a registered, trusted principal with a
  human session, the approver role and the required authority, the receipt carries the reviewed
  action, target, parameters and evidence, and the requirement is used afterwards.\<close>

theorem approval_sound:
  assumes "approve cfg fresh receipt clock commit c st = (Inr r, st')"
  defines "q \<equiv> cl_requirement c"
  shows "map_of (st_requirements st) (aq_approval_id q) = Some q
    \<and> aq_signature q = hmac_json (gk_signing_key cfg) (requirement_signed q)
    \<and> aq_approval_id q \<notin> set (st_used st) \<and> aq_approval_id q \<in> set (st_used st')
    \<and> (\<exists>expires. parse_timestamp ''APPROVAL_TIME_INVALID'' (aq_expires_at q) = Inr expires \<and> whole_second clock < expires)
    \<and> (\<exists>p. match_record (gk_resolver cfg) (cl_credential c) = Some p \<and> pr_security_status p = Trusted
         \<and> pr_human_session p \<and> ''HUMAN_APPROVER'' \<in> set (pr_roles p)
         \<and> aq_required_authority q \<in> set (pr_authority p) \<and> re_approver_id r = pr_id p)
    \<and> re_action_type r = aq_action_type q \<and> re_target_id r = aq_target_id q
    \<and> re_evidence_sha256 r = aq_evidence_sha256 q \<and> re_requirement_scope_sha256 r = aq_scope_sha256 q
    \<and> (\<exists>v. copy_exact_json (cl_parameters c) = Some v \<and> re_parameters_sha256 r = sha256_json v)"
proof -
  obtain p where p: "check_approval cfg fresh (whole_second clock) c st = Inr p"
    "consume_approval cfg receipt (whole_second clock) commit c p st = (Inr r, st')"
    using approve_Inr [OF assms(1)] by metis
  note f = consume_approval_Inr [OF p(2)]
  have checks: "verify_requirement cfg (Some (whole_second clock)) q st = Inr ()"
    "resolve_approver (gk_resolver cfg) fresh (cl_credential c) = Inr p"
    "check_approver (aq_required_authority q) p = Inr ()"
    and v: "\<exists>v. copy_exact_json (cl_parameters c) = Some v \<and> check_bindings c v = Inr ()"
    using p(1) unfolding q_def by (auto simp: check_approval_def split: option.splits)
  note w = verify_requirement_Inr [OF checks(1)]
  have "pr_security_status p = Trusted \<and> pr_human_session p \<and> ''HUMAN_APPROVER'' \<in> set (pr_roles p)
     \<and> aq_required_authority q \<in> set (pr_authority p)"
    using checks(3) by (auto simp: check_approver_def)
  then show ?thesis
    using f w v resolve_approver_Inr(1) [OF checks(2)] unfolding q_def
    by (auto simp: receipt_matches_def check_bindings_def requirement.authentic_iff Let_def)
qed

text \<open>Over every sequence of issues and approvals starting from an empty gate, each requirement is consumed
  at most once, only after it was issued, and stays consumed.\<close>

theorem approval_consumed_once:
  "consumptions (approval_exec cfg) (approval_consumes cfg) a ops no_approvals \<le> 1
    \<and> (consumptions (approval_exec cfg) (approval_consumes cfg) a ops no_approvals > 0 \<longrightarrow>
         issued_in (approval_exec cfg) (approval_issues cfg) a ops no_approvals
         \<and> a \<in> set (st_used (run_ops (approval_exec cfg) ops no_approvals)))"
proof -
  have inv: "approval_inv no_approvals" and new: "approval_lookup no_approvals a = None"
    by (simp_all add: approval_inv_def approval_lookup_def no_approvals_def)
  show ?thesis
    using approvals.consumed_at_most_once [OF inv] approvals.consumed_only_if_issued [OF inv new]
      approvals.consumed_then_final [OF inv, of cfg a ops]
    by (auto simp: approval_lookup_def split: if_splits)
qed

subsection \<open>A reviewed escalation\<close>

definition sample_credential :: string where
  "sample_credential = replicate 32 (CHR ''k'')"

definition sample_human :: authenticated_principal where
  "sample_human =
     \<lparr>pr_id = ''analyst-1'', pr_type = ''HUMAN_ANALYST'', pr_authenticated = True, pr_roles = [''HUMAN_APPROVER''],
      pr_authority = [''ISOLATE_TIER_0''], pr_security_status = Trusted, pr_identity_source = ''sso'',
      pr_human_session = True, pr_reason_code = []\<rparr>"

definition sample_gate :: approval_config where
  "sample_gate =
     \<lparr>gk_signing_key = replicate 32 (CHR ''s''), gk_ttl_seconds = 3600, gk_issuer_instance_id = ''gate-1'',
      gk_resolver = \<lparr>rs_records = [(sha256_bytes sample_credential, sample_human)],
        rs_signing_key = replicate 32 (CHR ''r''), rs_instance_id = ''resolver-1''\<rparr>\<rparr>"

definition sample_escalation :: requirement_request where
  "sample_escalation =
     \<lparr>rq_decision =
        \<lparr>dn_decision_id = ''d-1'', dn_request_id = ''req-1'', dn_decided_at = ''2026-01-01T00:00:00+00:00'',
         dn_policy_id = ''soc-policy'', dn_policy_version = ''0.3.0'', dn_policy_sha256 = [],
         dn_outcome = ''ESCALATE'', dn_reason_codes = [''PROTECTED_ASSET''], dn_applicable_rules = [''R4''],
         dn_requested_action = JObj [], dn_permitted_action = None,
         dn_authority = assess_authority decided_request sample_principal ''ISOLATE_TIER_0'',
         dn_evidence = None, dn_consequence = None, dn_constraints = [], dn_explanation = JObj [],
         dn_request_sha256 = [], dn_decision_context_sha256 = [], dn_approval_requirement = None,
         dn_latency_ms = 0\<rparr>,
      rq_action_type = ''NETWORK_ISOLATE'', rq_target_id = ''DOMAIN_CONTROLLER_01'',
      rq_parameters = JObj [(''duration_seconds'', JInt 600), (''preserve_management'', JBool True)],
      rq_evidence_sha256 = ''e'', rq_required_authority = ''ISOLATE_TIER_0'', rq_reason_codes = [''PROTECTED_ASSET'']\<rparr>"

definition sample_review :: "approval_requirement \<Rightarrow> approval_call" where
  "sample_review q =
     \<lparr>cl_requirement = q, cl_credential = sample_credential, cl_action_type = ''NETWORK_ISOLATE'',
      cl_target_id = ''DOMAIN_CONTROLLER_01'', cl_parameters = pyval_of (rq_parameters sample_escalation),
      cl_evidence_sha256 = ''e''\<rparr>"

lemma sample_now_facts: "representable sample_now" "representable (whole_second sample_now + 3600 * micros)"
  "whole_second sample_now = sample_now"
  by code_simp+

lemma sample_issue:
  obtains q st where "issue_requirement sample_gate ''a-1'' sample_now sample_escalation no_approvals = (Inr q, st)"
    "q = signed_requirement sample_gate ''a-1'' sample_now sample_escalation"
    "st_used st = []" "st_pending st = []" "map_of (st_requirements st) ''a-1'' = Some q"
proof -
  let ?q = "signed_requirement sample_gate ''a-1'' sample_now sample_escalation"
  let ?d = "rq_decision sample_escalation"
  have "dn_outcome ?d = ''ESCALATE''" "dn_permitted_action ?d = None" "dn_approval_requirement ?d = None"
    "rq_reason_codes sample_escalation = dn_reason_codes ?d" "dn_reason_codes ?d \<noteq> []"
    "rq_required_authority sample_escalation = aa_required_authority (dn_authority ?d)"
    by (simp_all add: sample_escalation_def assess_authority_def Let_def)
  moreover have "gk_ttl_seconds sample_gate = 3600" by (simp add: sample_gate_def)
  ultimately have "issue_requirement sample_gate ''a-1'' sample_now sample_escalation no_approvals
      = (Inr ?q, no_approvals\<lparr>st_requirements := [(''a-1'', ?q)], st_issued_decision_ids := [dn_decision_id ?d]\<rparr>)"
    using sample_now_facts(2) unfolding sample_now_facts(3)
    by (simp add: issue_requirement_def Let_def no_approvals_def sample_now_facts(3))
  then show thesis by (rule that [OF _ refl]) (simp_all add: no_approvals_def)
qed

theorem issued_requirement_valid_witness:
  "\<exists>q st. issue_requirement sample_gate ''a-1'' sample_now sample_escalation no_approvals = (Inr q, st)
     \<and> verify_requirement sample_gate (Some (sample_now + 60 * micros)) q st = Inr ()"
proof -
  obtain q st where "issue_requirement sample_gate ''a-1'' sample_now sample_escalation no_approvals = (Inr q, st)"
    by (rule sample_issue)
  moreover have "0 < gk_ttl_seconds sample_gate" "gk_ttl_seconds sample_gate = 3600"
    "whole_second sample_now \<le> sample_now + 60 * micros"
    "sample_now + 60 * micros < whole_second sample_now + gk_ttl_seconds sample_gate * micros"
    by (simp_all add: sample_gate_def sample_now_facts(3) micros_def)
  ultimately show ?thesis using issued_requirement_valid [OF _ sample_now_facts(1)] by blast
qed

lemma sample_approval:
  obtains q st r st' where
    "issue_requirement sample_gate ''a-1'' sample_now sample_escalation no_approvals = (Inr q, st)"
    "approve sample_gate ''1'' ''receipt-1'' sample_now None (sample_review q) st = (Inr r, st')"
proof -
  obtain q st where q: "issue_requirement sample_gate ''a-1'' sample_now sample_escalation no_approvals = (Inr q, st)"
    "q = signed_requirement sample_gate ''a-1'' sample_now sample_escalation"
    "st_used st = []" "st_pending st = []" "map_of (st_requirements st) ''a-1'' = Some q"
    by (rule sample_issue)
  have "verify_requirement sample_gate (Some sample_now) q st = Inr ()"
    by (rule issued_requirement_verifies [OF q(1) sample_now_facts(1)])
      (simp_all add: sample_gate_def sample_now_facts micros_def)
  moreover have "resolve_approver (gk_resolver sample_gate) ''1'' sample_credential = Inr sample_human"
    by (rule resolve_approver_registered) (simp_all add: match_record_def sample_gate_def sample_credential_def)
  moreover have "check_approver ''ISOLATE_TIER_0'' sample_human = Inr ()"
    by (simp add: check_approver_def sample_human_def approver_types_def)
  moreover have "aq_approval_id q = ''a-1''" "aq_action_type q = ''NETWORK_ISOLATE''"
    "aq_target_id q = ''DOMAIN_CONTROLLER_01''" "aq_evidence_sha256 q = ''e''"
    "aq_required_authority q = ''ISOLATE_TIER_0''"
    "aq_parameters_sha256 q = sha256_json (rq_parameters sample_escalation)"
    unfolding q(2) by (simp_all add: signed_requirement_def draft_requirement_def sample_escalation_def Let_def)
  moreover have "pyval_of (rq_parameters sample_escalation) = PDict [(PStr ''duration_seconds'', PInt 600),
      (PStr ''preserve_management'', PBool True)]"
    by (simp add: sample_escalation_def)
  ultimately have "\<exists>r st'. approve sample_gate ''1'' ''receipt-1'' sample_now None (sample_review q) st = (Inr r, st')"
    using q(3-5) copy_exact_json_pyval_of [of "rq_parameters sample_escalation"]
    by (simp add: approve_def check_approval_def sample_now_facts sample_review_def consume_approval_def
        commit_approval_def check_bindings_def Let_def)
  with q(1) that show thesis by blast
qed

theorem approval_sound_witness:
  "\<exists>q st r st'. issue_requirement sample_gate ''a-1'' sample_now sample_escalation no_approvals = (Inr q, st)
     \<and> approve sample_gate ''1'' ''receipt-1'' sample_now None (sample_review q) st = (Inr r, st')
     \<and> aq_approval_id q \<in> set (st_used st')"
proof -
  obtain q st r st' where a: "issue_requirement sample_gate ''a-1'' sample_now sample_escalation no_approvals = (Inr q, st)"
    "approve sample_gate ''1'' ''receipt-1'' sample_now None (sample_review q) st = (Inr r, st')"
    by (rule sample_approval)
  have "cl_requirement (sample_review q) = q" by (simp add: sample_review_def)
  with approval_sound [OF a(2)] a show ?thesis by metis
qed

theorem approval_consumed_once_witness:
  "\<exists>c. consumptions (approval_exec sample_gate) (approval_consumes sample_gate) ''a-1''
       [IssueRequirement ''a-1'' sample_now sample_escalation, Approve ''1'' ''receipt-1'' sample_now None c] no_approvals = 1
     \<and> ''a-1'' \<in> set (st_used (run_ops (approval_exec sample_gate)
       [IssueRequirement ''a-1'' sample_now sample_escalation, Approve ''1'' ''receipt-1'' sample_now None c] no_approvals))"
proof -
  obtain q st r st' where a: "issue_requirement sample_gate ''a-1'' sample_now sample_escalation no_approvals = (Inr q, st)"
    "approve sample_gate ''1'' ''receipt-1'' sample_now None (sample_review q) st = (Inr r, st')"
    by (rule sample_approval)
  have "aq_approval_id (cl_requirement (sample_review q)) = ''a-1''"
    using issue_requirement_Inr(1) [OF a(1)] by (simp add: sample_review_def signed_requirement_fields)
  then have n: "consumptions (approval_exec sample_gate) (approval_consumes sample_gate) ''a-1''
       [IssueRequirement ''a-1'' sample_now sample_escalation, Approve ''1'' ''receipt-1'' sample_now None (sample_review q)]
       no_approvals = 1"
    using a by (simp add: approval_consumes_def approval_exec_def)
  have "''a-1'' \<in> set (st_used (run_ops (approval_exec sample_gate)
       [IssueRequirement ''a-1'' sample_now sample_escalation, Approve ''1'' ''receipt-1'' sample_now None (sample_review q)]
       no_approvals))"
    using approval_consumed_once n by (metis zero_less_one)
  with n show ?thesis by blast
qed

end
