(* ===== verification/P3Authorization.thy ===== *)
theory P3Authorization
  imports P3Decision P3Metrics MemLedger Sealed
begin

text \<open>
  \<open>AuthorizationGate\<close> of \<open>phase3/authorization.py\<close> on the in-memory control ledger: a signed
  decision verification buys one token, and a token is validated against every binding and consumed
  once. The constructor arguments are the record \<open>gate\<close>; the ledger and the metrics it writes
  are \<open>auth_world\<close>. Clock readings (\<open>clock\<close> of the gate, \<open>lnow\<close> of the ledger) and fresh identifiers
  are arguments. An \<open>AuthorizationError\<close> counts as an authorization failure; a Python error
  does not and passes through.
\<close>

record gate =
  gt_signing_key :: string
  gt_verification_key :: string
  gt_verifier_id :: pystr
  gt_ttl_seconds :: int
  gt_issuer_instance_id :: pystr

record auth_world =
  aw_ledger :: mem_ledger
  aw_metrics :: metric_state

definition make_gate :: "string \<Rightarrow> string \<Rightarrow> pystr \<Rightarrow> int \<Rightarrow> pystr option \<Rightarrow> pystr \<Rightarrow> (reason, gate) result" where
  "make_gate key verification_key verifier ttl issuer fresh =
     and_then (require (\<not> length key < 32) ''ValueError'') (\<lambda>_.
     and_then (require (\<not> (ttl < 1 \<or> ttl > 3600)) ''ValueError'') (\<lambda>_.
     and_then (require (\<not> (length verification_key < 32 \<or> verifier = [])) ''ValueError'') (\<lambda>_.
     Inr \<lparr>gt_signing_key = key, gt_verification_key = verification_key, gt_verifier_id = verifier,
          gt_ttl_seconds = ttl, gt_issuer_instance_id = or_default issuer (''issuer-'' @ fresh)\<rparr>)))"

definition python_errors :: "reason list" where
  "python_errors = [''TypeError'', ''ValueError'', ''OverflowError'', ''KeyError'']"

definition refuse :: "reason \<Rightarrow> auth_world \<Rightarrow> (reason, 'a) result \<times> auth_world" where
  "refuse e w =
     (Inl e, if e \<in> set python_errors then w
             else w\<lparr>aw_metrics := record_authorization_failure (aw_metrics w)\<rparr>)"

subsection \<open>Signed forms\<close>

interpretation token: sealed_value token_unsigned_dict tk_signature "\<lambda>s t. t\<lparr>tk_signature := s\<rparr>"
  by unfold_locales (simp_all add: token_unsigned_dict_def token_unsigned_members_def)

interpretation verification: sealed_value verification_unsigned_dict dv_signature "\<lambda>s v. v\<lparr>dv_signature := s\<rparr>"
  by unfold_locales (simp_all add: verification_unsigned_dict_def)

subsection \<open>Issuing\<close>

text \<open>\<open>verification_bound\<close>: every clause of the conjunction, in the order of the source. The age compares
  as a number of microseconds, since \<open>60.0\<close> seconds is exact.\<close>

definition verification_fresh :: "instant \<Rightarrow> decision_verification \<Rightarrow> (reason, bool) result" where
  "verification_fresh now v =
     (case parse_timestamp ''AUTHORIZATION_TIME_INVALID'' (dv_verified_at v) of
        Inl e \<Rightarrow> if e = ''AUTHORIZATION_TIME_INVALID'' then Inr False else Inl e
      | Inr t \<Rightarrow> Inr (0 \<le> now - t \<and> now - t \<le> 60 * micros))"

definition verification_bound ::
  "gate \<Rightarrow> instant \<Rightarrow> decision_record \<Rightarrow> pystr \<Rightarrow> decision_verification \<Rightarrow> (reason, bool) result" where
  "verification_bound g now d agent v =
     and_then (verification_fresh now v) (\<lambda>fresh.
     and_then (compare_digest (hmac_json (gt_verification_key g) (verification_unsigned_dict v)) (dv_signature v)) (\<lambda>same.
     Inr (same \<and> dv_verifier_instance_id v = gt_verifier_id g \<and> dv_passed v
          \<and> dv_decision_id v = dn_decision_id d
          \<and> dv_decision_context_sha256 v = dn_decision_context_sha256 d
          \<and> dv_decision_sha256 v = authorization_sha256 d
          \<and> dv_request_sha256 v = dn_request_sha256 d \<and> dv_principal_id v = agent
          \<and> dv_policy_sha256 v = dn_policy_sha256 d
          \<and> aa_principal_id (dn_authority d) = agent \<and> fresh)))"

definition as_dict :: "json \<Rightarrow> (reason, json) result" where
  "as_dict v = (case v of JObj _ \<Rightarrow> Inr v | _ \<Rightarrow> Inl ''TypeError'')"

definition draft_token ::
  "gate \<Rightarrow> pystr \<Rightarrow> pystr \<Rightarrow> instant \<Rightarrow> decision_record \<Rightarrow> pystr \<Rightarrow> pystr \<Rightarrow> json
     \<Rightarrow> (reason, authorization_token) result" where
  "draft_token g token_id nonce now d agent target_state permitted =
     and_then (get_as as_str ''type'' permitted) (\<lambda>action.
     and_then (get_as as_str ''target'' permitted) (\<lambda>target.
     and_then (get_as as_dict ''parameters'' permitted) (\<lambda>parameters.
     and_then (require (representable (now + gt_ttl_seconds g * micros)) ''OverflowError'') (\<lambda>_.
     (let t = \<lparr>tk_token_id = token_id, tk_issuer_instance_id = gt_issuer_instance_id g,
           tk_request_id = dn_request_id d, tk_decision_id = dn_decision_id d, tk_agent_id = agent,
           tk_action_type = action, tk_target_id = target, tk_permitted_parameters = parameters,
           tk_issued_at = isoformat now, tk_expires_at = isoformat (now + gt_ttl_seconds g * micros),
           tk_policy_id = dn_policy_id d, tk_policy_version = dn_policy_version d,
           tk_policy_sha256 = dn_policy_sha256 d,
           tk_decision_context_sha256 = dn_decision_context_sha256 d,
           tk_target_state_sha256 = target_state, tk_nonce = nonce, tk_signature = []\<rparr>
      in Inr (t\<lparr>tk_signature := hmac_json (gt_signing_key g) (token_unsigned_dict t)\<rparr>))))))"

definition issue ::
  "gate \<Rightarrow> (nat \<Rightarrow> pystr) \<Rightarrow> pystr \<Rightarrow> pystr \<Rightarrow> instant \<Rightarrow> decision_record \<Rightarrow> pystr \<Rightarrow> pystr \<Rightarrow> decision_verification
     \<Rightarrow> auth_world \<Rightarrow> (reason, authorization_token) result \<times> auth_world" where
  "issue g lnow token_id nonce clock d agent target_state v w =
     (let now = whole_second clock in
      if dn_outcome d \<notin> set automatic_outcomes then refuse ''AUTHORIZATION_OUTCOME_PROHIBITED'' w
      else case verification_bound g now d agent v of
        Inl e \<Rightarrow> refuse e w
      | Inr bound \<Rightarrow>
          if \<not> bound then refuse ''AUTHORIZATION_DECISION_NOT_VERIFIED'' w
          else case dn_permitted_action d of
            Some (JObj permitted) \<Rightarrow>
              (case draft_token g token_id nonce now d agent target_state (JObj permitted) of
                 Inl e \<Rightarrow> refuse e w
               | Inr t \<Rightarrow>
                   (case register lnow token_id (Some (dv_verification_id v)) (Some (dn_decision_id d))
                       (Some (tk_issued_at t)) (aw_ledger w) of
                      Inl e \<Rightarrow> refuse e w
                    | Inr l \<Rightarrow> (Inr t, w\<lparr>aw_ledger := l\<rparr>)))
          | _ \<Rightarrow> refuse ''AUTHORIZATION_SCOPE_MISSING'' w)"

subsection \<open>Consuming\<close>

record token_bindings =
  tb_request_id :: pystr
  tb_decision_id :: pystr
  tb_agent_id :: pystr
  tb_action_type :: pystr
  tb_target_id :: pystr
  tb_parameters :: json
  tb_policy_id :: pystr
  tb_policy_version :: pystr
  tb_policy_sha256 :: pystr
  tb_decision_context_sha256 :: pystr
  tb_target_state_sha256 :: pystr

definition token_binding_checks :: "authorization_token \<Rightarrow> token_bindings \<Rightarrow> (pystr \<times> bool) list" where
  "token_binding_checks t b =
     [(''REQUEST'', tk_request_id t = tb_request_id b), (''DECISION'', tk_decision_id t = tb_decision_id b),
      (''AGENT'', tk_agent_id t = tb_agent_id b), (''ACTION'', tk_action_type t = tb_action_type b),
      (''TARGET'', tk_target_id t = tb_target_id b),
      (''PARAMETERS'', py_eq (tk_permitted_parameters t) (tb_parameters b)),
      (''POLICY_ID'', tk_policy_id t = tb_policy_id b),
      (''POLICY_VERSION'', tk_policy_version t = tb_policy_version b),
      (''POLICY_DIGEST'', tk_policy_sha256 t = tb_policy_sha256 b),
      (''DECISION_CONTEXT'', tk_decision_context_sha256 t = tb_decision_context_sha256 b),
      (''TARGET_STATE'', tk_target_state_sha256 t = tb_target_state_sha256 b)]"

definition validate_token ::
  "gate \<Rightarrow> instant \<Rightarrow> authorization_token \<Rightarrow> token_bindings \<Rightarrow> mem_ledger \<Rightarrow> (reason, unit) result" where
  "validate_token g now t b l =
     and_then (compare_digest (hmac_json (gt_signing_key g) (token_unsigned_dict t)) (tk_signature t)) (\<lambda>same.
     and_then (require same ''AUTHORIZATION_SIGNATURE_INVALID'') (\<lambda>_.
     and_then (require (tk_issuer_instance_id t = gt_issuer_instance_id g) ''AUTHORIZATION_ISSUER_MISMATCH'') (\<lambda>_.
     and_then (ledger_state (tk_token_id t) l) (\<lambda>state.
     and_then (require (state = Some Issued) ''AUTHORIZATION_REPLAY'') (\<lambda>_.
     and_then (for_each (\<lambda>(name, same). require same (''AUTHORIZATION_'' @ name @ ''_MISMATCH''))
         (token_binding_checks t b)) (\<lambda>_.
     and_then (parse_timestamp ''AUTHORIZATION_TIME_INVALID'' (tk_issued_at t)) (\<lambda>issued.
     and_then (require (\<not> now < issued) ''AUTHORIZATION_NOT_YET_VALID'') (\<lambda>_.
     and_then (parse_timestamp ''AUTHORIZATION_TIME_INVALID'' (tk_expires_at t)) (\<lambda>expires.
     require (\<not> now \<ge> expires) ''AUTHORIZATION_EXPIRED'')))))))))"

definition validate_and_consume ::
  "gate \<Rightarrow> (nat \<Rightarrow> pystr) \<Rightarrow> instant \<Rightarrow> authorization_token \<Rightarrow> token_bindings \<Rightarrow> pystr option \<Rightarrow> pystr option
     \<Rightarrow> pystr option \<Rightarrow> json option \<Rightarrow> auth_world \<Rightarrow> (reason, unit) result \<times> auth_world" where
  "validate_and_consume g lnow now t b attempt_id binding key summary w =
     (case and_then (validate_token g now t b (aw_ledger w)) (\<lambda>_.
             consume_once lnow (tk_token_id t) attempt_id binding (Some (isoformat (whole_second now))) key summary
               (aw_ledger w)) of
        Inl e \<Rightarrow> refuse e w
      | Inr l \<Rightarrow> (Inr (), w\<lparr>aw_ledger := l\<rparr>))"

text \<open>The two durable records after an attempt; a ledger error becomes an \<open>AttemptPersistenceError\<close> with
  its code.\<close>

definition gate_record_outcome ::
  "(nat \<Rightarrow> pystr) \<Rightarrow> pystr \<Rightarrow> attempt_state \<Rightarrow> pystr \<Rightarrow> pystr \<Rightarrow> auth_world \<Rightarrow> (reason, unit) result \<times> auth_world" where
  "gate_record_outcome lnow attempt_id outcome_state outcome_sha256 completed_at w =
     (case record_attempt_outcome lnow attempt_id outcome_state outcome_sha256 completed_at (aw_ledger w) of
        Inl e \<Rightarrow> (Inl e, w)
      | Inr l \<Rightarrow> (Inr (), w\<lparr>aw_ledger := l\<rparr>))"

definition gate_record_receipt ::
  "(nat \<Rightarrow> pystr) \<Rightarrow> pystr \<Rightarrow> pystr \<Rightarrow> pystr \<Rightarrow> pystr \<Rightarrow> auth_world \<Rightarrow> (reason, unit) result \<times> auth_world" where
  "gate_record_receipt lnow attempt_id receipt_sha256 outcome_sha256 recorded_at w =
     (case record_adapter_receipt lnow attempt_id receipt_sha256 outcome_sha256 recorded_at (aw_ledger w) of
        Inl e \<Rightarrow> (Inl e, w)
      | Inr l \<Rightarrow> (Inr (), w\<lparr>aw_ledger := l\<rparr>))"

subsection \<open>What the methods do\<close>

lemma refuse_ledger [simp]: "aw_ledger (snd (refuse e w)) = aw_ledger w" "fst (refuse e w) = Inl e"
  by (simp_all add: refuse_def)

lemma refuse_not_Inr [simp]: "refuse e w \<noteq> (Inr x, w')"
  by (simp add: refuse_def)

lemma refuse_Inl: "refuse e w = (Inl e', w') \<Longrightarrow> e' = e \<and> aw_ledger w' = aw_ledger w"
  by (auto simp: refuse_def)

lemma draft_token_Inr:
  assumes "draft_token g i n now d agent ts permitted = Inr t"
  shows "tk_token_id t = i" "tk_issuer_instance_id t = gt_issuer_instance_id g" "tk_request_id t = dn_request_id d"
    "tk_decision_id t = dn_decision_id d" "tk_agent_id t = agent" "tk_issued_at t = isoformat now"
    "tk_expires_at t = isoformat (now + gt_ttl_seconds g * micros)" "tk_policy_id t = dn_policy_id d"
    "tk_policy_version t = dn_policy_version d" "tk_policy_sha256 t = dn_policy_sha256 d"
    "tk_decision_context_sha256 t = dn_decision_context_sha256 d" "tk_target_state_sha256 t = ts"
    "get_as as_str ''type'' permitted = Inr (tk_action_type t)"
    "get_as as_str ''target'' permitted = Inr (tk_target_id t)"
    "get_as as_dict ''parameters'' permitted = Inr (tk_permitted_parameters t)"
    "tk_signature t = hmac_json (gt_signing_key g) (token_unsigned_dict t)"
    "representable (now + gt_ttl_seconds g * micros)"
  using assms by (auto simp: draft_token_def Let_def token_unsigned_dict_def token_unsigned_members_def)

lemma verification_bound_True:
  assumes "verification_bound g now d agent v = Inr True"
  shows "verification.authentic (gt_verification_key g) v" "dv_verifier_instance_id v = gt_verifier_id g" "dv_passed v"
    "dv_decision_id v = dn_decision_id d" "dv_decision_sha256 v = authorization_sha256 d"
    "dv_decision_context_sha256 v = dn_decision_context_sha256 d"
    "dv_request_sha256 v = dn_request_sha256 d" "dv_principal_id v = agent" "dv_policy_sha256 v = dn_policy_sha256 d"
    "aa_principal_id (dn_authority d) = agent"
    "\<exists>t. parse_timestamp ''AUTHORIZATION_TIME_INVALID'' (dv_verified_at v) = Inr t \<and> t \<le> now \<and> now \<le> t + 60 * micros"
  using assms
  by (auto simp: verification_bound_def verification.authentic_def verification_fresh_def split: sum.splits if_splits)

lemma issue_Inr:
  assumes "issue g lnow i n clock d agent ts v w = (Inr t, w')"
  obtains kvs l where "dn_outcome d \<in> set automatic_outcomes"
    "verification_bound g (whole_second clock) d agent v = Inr True" "dn_permitted_action d = Some (JObj kvs)"
    "draft_token g i n (whole_second clock) d agent ts (JObj kvs) = Inr t"
    "register lnow i (Some (dv_verification_id v)) (Some (dn_decision_id d)) (Some (tk_issued_at t)) (aw_ledger w) = Inr l"
    "w' = w\<lparr>aw_ledger := l\<rparr>"
  using assms by (auto simp: issue_def Let_def split: if_splits sum.splits option.splits json.splits)

lemma issue_Inl: "issue g lnow i n clock d agent ts v w = (Inl e, w') \<Longrightarrow> aw_ledger w' = aw_ledger w"
  by (auto simp: issue_def Let_def dest!: refuse_Inl split: if_splits sum.splits option.splits json.splits)

lemma validate_token_Inr:
  assumes "validate_token g now t b l = Inr ()"
  shows "token.authentic (gt_signing_key g) t" "tk_issuer_instance_id t = gt_issuer_instance_id g"
    "auth_of l (tk_token_id t) = Some Issued" "\<forall>c \<in> set (token_binding_checks t b). snd c"
    "\<exists>issued expires. parse_timestamp ''AUTHORIZATION_TIME_INVALID'' (tk_issued_at t) = Inr issued
       \<and> parse_timestamp ''AUTHORIZATION_TIME_INVALID'' (tk_expires_at t) = Inr expires \<and> issued \<le> now \<and> now < expires"
  using assms
  by (auto simp: validate_token_def token.authentic_def ledger_state_def auth_of_def for_each_Inr not_less not_le)

lemma validate_and_consume_Inr:
  assumes "validate_and_consume g lnow now t b a bd k s w = (Inr (), w')"
  obtains l where "validate_token g now t b (aw_ledger w) = Inr ()"
    "consume_once lnow (tk_token_id t) a bd (Some (isoformat (whole_second now))) k s (aw_ledger w) = Inr l"
    "w' = w\<lparr>aw_ledger := l\<rparr>"
  using assms by (auto simp: validate_and_consume_def split: sum.splits)

lemma validate_and_consume_Inl:
  "validate_and_consume g lnow now t b a bd k s w = (Inl e, w') \<Longrightarrow> aw_ledger w' = aw_ledger w"
  by (auto simp: validate_and_consume_def dest!: refuse_Inl split: sum.splits)

subsection \<open>The gate refines the ledger\<close>

datatype gate_op =
    IssueToken "nat \<Rightarrow> pystr" pystr pystr instant decision_record pystr pystr decision_verification
  | ConsumeToken "nat \<Rightarrow> pystr" instant authorization_token token_bindings "pystr option" "pystr option"
      "pystr option" "json option"
  | GateOutcome "nat \<Rightarrow> pystr" pystr attempt_state pystr pystr
  | GateReceipt "nat \<Rightarrow> pystr" pystr pystr pystr pystr

definition gate_exec :: "gate \<Rightarrow> gate_op \<Rightarrow> auth_world \<Rightarrow> auth_world" where
  "gate_exec g oper w =
     (case oper of
        IssueToken lnow i n clock d agent ts v \<Rightarrow> snd (issue g lnow i n clock d agent ts v w)
      | ConsumeToken lnow now t b a bd k s \<Rightarrow> snd (validate_and_consume g lnow now t b a bd k s w)
      | GateOutcome lnow a st dg tm \<Rightarrow> snd (gate_record_outcome lnow a st dg tm w)
      | GateReceipt lnow a rc dg tm \<Rightarrow> snd (gate_record_receipt lnow a rc dg tm w))"

definition gate_issues :: "gate \<Rightarrow> gate_op \<Rightarrow> auth_world \<Rightarrow> pystr option" where
  "gate_issues g oper w =
     (case oper of
        IssueToken lnow i n clock d agent ts v \<Rightarrow>
          if is_ok (fst (issue g lnow i n clock d agent ts v w)) then Some i else None
      | _ \<Rightarrow> None)"

definition gate_consumes :: "gate \<Rightarrow> gate_op \<Rightarrow> auth_world \<Rightarrow> pystr option" where
  "gate_consumes g oper w =
     (case oper of
        ConsumeToken lnow now t b a bd k s \<Rightarrow>
          if is_ok (fst (validate_and_consume g lnow now t b a bd k s w)) then Some (tk_token_id t) else None
      | _ \<Rightarrow> None)"

text \<open>Every call is one ledger operation or leaves the ledger alone.\<close>

lemma gate_step:
  "(aw_ledger (gate_exec g oper w) = aw_ledger w \<and> gate_issues g oper w = None \<and> gate_consumes g oper w = None)
   \<or> (\<exists>lop. aw_ledger (gate_exec g oper w) = exec_op lop (aw_ledger w)
        \<and> gate_issues g oper w = op_issues lop (aw_ledger w) \<and> gate_consumes g oper w = op_consumes lop (aw_ledger w))"
proof (cases oper)
  case (IssueToken lnow i n clock d agent ts v)
  show ?thesis
  proof (cases "fst (issue g lnow i n clock d agent ts v w)")
    case (Inl e)
    then have "aw_ledger (snd (issue g lnow i n clock d agent ts v w)) = aw_ledger w"
      by (metis issue_Inl prod.collapse)
    then show ?thesis using IssueToken Inl by (simp add: gate_exec_def gate_issues_def gate_consumes_def)
  next
    case (Inr t)
    then obtain w' where "issue g lnow i n clock d agent ts v w = (Inr t, w')" by (metis prod.collapse)
    moreover from this obtain l where
      "register lnow i (Some (dv_verification_id v)) (Some (dn_decision_id d)) (Some (tk_issued_at t)) (aw_ledger w) = Inr l"
      "w' = w\<lparr>aw_ledger := l\<rparr>"
      by (rule issue_Inr)
    ultimately show ?thesis
      using IssueToken
      by (intro disjI2 exI [of _ "(lnow, Register i (Some (dv_verification_id v)) (Some (dn_decision_id d))
          (Some (tk_issued_at t)))"])
        (simp add: gate_exec_def gate_issues_def gate_consumes_def exec_op_def apply_op_def op_issues_def op_consumes_def)
  qed
next
  case (ConsumeToken lnow now t b a bd k s)
  show ?thesis
  proof (cases "fst (validate_and_consume g lnow now t b a bd k s w)")
    case (Inl e)
    then have "aw_ledger (snd (validate_and_consume g lnow now t b a bd k s w)) = aw_ledger w"
      by (metis validate_and_consume_Inl prod.collapse)
    then show ?thesis using ConsumeToken Inl by (simp add: gate_exec_def gate_issues_def gate_consumes_def)
  next
    case (Inr u)
    then obtain w' where "validate_and_consume g lnow now t b a bd k s w = (Inr (), w')"
      by (metis prod.collapse old.unit.exhaust)
    moreover from this obtain l where
      "consume_once lnow (tk_token_id t) a bd (Some (isoformat (whole_second now))) k s (aw_ledger w) = Inr l"
      "w' = w\<lparr>aw_ledger := l\<rparr>"
      by (rule validate_and_consume_Inr)
    ultimately show ?thesis
      using ConsumeToken
      by (intro disjI2 exI [of _ "(lnow, ConsumeOnce (tk_token_id t) a bd (Some (isoformat (whole_second now))) k s)"])
        (simp add: gate_exec_def gate_issues_def gate_consumes_def exec_op_def apply_op_def op_issues_def op_consumes_def)
  qed
next
  case (GateOutcome lnow a st dg tm)
  then show ?thesis
    by (intro disjI2 exI [of _ "(lnow, RecordOutcome a st dg tm)"])
      (simp add: gate_exec_def gate_issues_def gate_consumes_def exec_op_def apply_op_def op_issues_def op_consumes_def
        gate_record_outcome_def split: sum.splits)
next
  case (GateReceipt lnow a rc dg tm)
  then show ?thesis
    by (intro disjI2 exI [of _ "(lnow, RecordReceipt a rc dg tm)"])
      (simp add: gate_exec_def gate_issues_def gate_consumes_def exec_op_def apply_op_def op_issues_def op_consumes_def
        gate_record_receipt_def split: sum.splits)
qed

interpretation gates: single_use_ledger "\<lambda>w. ledger_inv (aw_ledger w)" "\<lambda>w. auth_of (aw_ledger w)" "gate_exec g"
  "gate_issues g" "gate_consumes g" for g
proof (unfold_locales, goal_cases)
  case (1 w oper)
  then show ?case using gate_step [of g oper w] by (auto simp: mem.inv_exec)
next
  case (2 w oper t)
  then show ?case using gate_step [of g oper w] mem.consume_needs_issued by fastforce
next
  case (3 w oper t)
  then show ?case using gate_step [of g oper w] mem.consume_leaves_consumed by fastforce
next
  case (4 w t oper)
  then show ?case using gate_step [of g oper w] mem.spent_final by fastforce
next
  case (5 w oper t)
  then show ?case using gate_step [of g oper w] mem.issue_is_fresh by fastforce
next
  case (6 w t oper)
  then show ?case using gate_step [of g oper w] mem.absent_stays_absent by fastforce
qed

lemma issued_token_validates:
  assumes "issue g lnow i n clock d agent ts v w = (Inr t, w')" "representable clock"
    "whole_second clock \<le> now" "now < whole_second clock + gt_ttl_seconds g * micros"
    "\<forall>c \<in> set (token_binding_checks t b). snd c" "is_identifier i"
  shows "validate_token g now t b (aw_ledger w') = Inr ()"
proof -
  obtain kvs l where issued: "draft_token g i n (whole_second clock) d agent ts (JObj kvs) = Inr t"
    "register lnow i (Some (dv_verification_id v)) (Some (dn_decision_id d)) (Some (tk_issued_at t)) (aw_ledger w) = Inr l"
    "w' = w\<lparr>aw_ledger := l\<rparr>"
    by (rule issue_Inr [OF assms(1)])
  note t = draft_token_Inr [OF issued(1)]
  have "auth_of l i = Some Issued" using register_facts [OF issued(2)] by blast
  moreover have "representable (whole_second clock)" by (rule representable_whole_second [OF assms(2)])
  ultimately show ?thesis
    unfolding validate_token_def
    using t assms(3-6) issued(3)
    by (auto simp: ledger_state_def auth_of_def for_each_Inr case_prod_beta compare_digest_def)
qed

subsection \<open>Properties\<close>

text \<open>A token is issued only for an automatic decision that was verified: the verification receipt is
  authentic, from the trusted verifier, passed, at most sixty seconds old, and bound to this very
  decision, request, principal and policy; the token carries exactly the permitted command and
  the bindings of the decision, is itself authentic, and its identifier turns from unknown to Issued.\<close>

theorem issue_sound:
  assumes "issue g lnow i n clock d agent ts v w = (Inr t, w')"
  shows "dn_outcome d \<in> {''ALLOW'', ''ALLOW_CONSTRAINED''}
    \<and> dv_signature v = hmac_json (gt_verification_key g) (verification_unsigned_dict v)
    \<and> dv_verifier_instance_id v = gt_verifier_id g \<and> dv_passed v
    \<and> dv_decision_sha256 v = authorization_sha256 d \<and> dv_request_sha256 v = dn_request_sha256 d
    \<and> dv_principal_id v = agent \<and> aa_principal_id (dn_authority d) = agent
    \<and> (\<exists>u. parse_timestamp ''AUTHORIZATION_TIME_INVALID'' (dv_verified_at v) = Inr u
          \<and> u \<le> whole_second clock \<and> whole_second clock \<le> u + 60 * micros)
    \<and> (\<exists>kvs. dn_permitted_action d = Some (JObj kvs) \<and> map_of kvs ''type'' = Some (JStr (tk_action_type t))
          \<and> map_of kvs ''target'' = Some (JStr (tk_target_id t))
          \<and> map_of kvs ''parameters'' = Some (tk_permitted_parameters t))
    \<and> tk_decision_id t = dn_decision_id d \<and> tk_policy_sha256 t = dn_policy_sha256 d
    \<and> tk_decision_context_sha256 t = dn_decision_context_sha256 d \<and> tk_target_state_sha256 t = ts
    \<and> tk_signature t = hmac_json (gt_signing_key g) (token_unsigned_dict t)
    \<and> auth_of (aw_ledger w) i = None \<and> auth_of (aw_ledger w') i = Some Issued \<and> aw_metrics w' = aw_metrics w"
proof -
  obtain kvs l where issued: "dn_outcome d \<in> set automatic_outcomes"
    "verification_bound g (whole_second clock) d agent v = Inr True" "dn_permitted_action d = Some (JObj kvs)"
    "draft_token g i n (whole_second clock) d agent ts (JObj kvs) = Inr t"
    "register lnow i (Some (dv_verification_id v)) (Some (dn_decision_id d)) (Some (tk_issued_at t)) (aw_ledger w) = Inr l"
    "w' = w\<lparr>aw_ledger := l\<rparr>"
    by (rule issue_Inr [OF assms])
  have "map_of kvs ''type'' = Some (JStr (tk_action_type t)) \<and> map_of kvs ''target'' = Some (JStr (tk_target_id t))
      \<and> map_of kvs ''parameters'' = Some (tk_permitted_parameters t)"
    using draft_token_Inr(13-15) [OF issued(4)]
    by (auto simp: get_as_def as_str_def as_dict_def split: option.splits json.splits)
  then show ?thesis
    using issued(1,3,6) verification_bound_True [OF issued(2)] draft_token_Inr [OF issued(4)] register_facts [OF issued(5)]
    by (auto simp: automatic_outcomes_def verification.authentic_iff)
qed

text \<open>Consumption succeeds only for an authentic token of this issuer that is still Issued, inside its
  interval, and whose every binding matches the call; then the token is Consumed and no other
  token changes. A refusal leaves the ledger as it was.\<close>

theorem consume_sound:
  assumes "validate_and_consume g lnow now t b a bd k s w = (r, w')"
  shows "(r = Inr () \<longrightarrow>
      tk_signature t = hmac_json (gt_signing_key g) (token_unsigned_dict t)
      \<and> tk_issuer_instance_id t = gt_issuer_instance_id g
      \<and> tk_request_id t = tb_request_id b \<and> tk_decision_id t = tb_decision_id b \<and> tk_agent_id t = tb_agent_id b
      \<and> tk_action_type t = tb_action_type b \<and> tk_target_id t = tb_target_id b
      \<and> py_eq (tk_permitted_parameters t) (tb_parameters b) \<and> tk_policy_sha256 t = tb_policy_sha256 b
      \<and> tk_decision_context_sha256 t = tb_decision_context_sha256 b
      \<and> tk_target_state_sha256 t = tb_target_state_sha256 b
      \<and> (\<exists>expires. parse_timestamp ''AUTHORIZATION_TIME_INVALID'' (tk_expires_at t) = Inr expires \<and> now < expires)
      \<and> auth_of (aw_ledger w) (tk_token_id t) = Some Issued \<and> auth_of (aw_ledger w') (tk_token_id t) = Some Consumed
      \<and> (\<forall>u. u \<noteq> tk_token_id t \<longrightarrow> auth_of (aw_ledger w') u = auth_of (aw_ledger w) u))
    \<and> ((\<exists>e. r = Inl e) \<longrightarrow> aw_ledger w' = aw_ledger w)"
proof (cases r)
  case (Inl e)
  then show ?thesis using assms validate_and_consume_Inl by blast
next
  case (Inr u)
  then have "validate_and_consume g lnow now t b a bd k s w = (Inr (), w')" using assms by simp
  then obtain l where l: "validate_token g now t b (aw_ledger w) = Inr ()"
    "consume_once lnow (tk_token_id t) a bd (Some (isoformat (whole_second now))) k s (aw_ledger w) = Inr l"
    "w' = w\<lparr>aw_ledger := l\<rparr>"
    by (rule validate_and_consume_Inr)
  show ?thesis
    using validate_token_Inr [OF l(1)] consume_once_facts [OF l(2)] l(3) Inr
    by (auto simp: token_binding_checks_def token.authentic_iff)
qed

text \<open>Issue and consume fit together: a freshly issued token, presented with the bindings of its decision
  inside its interval, is consumed, and presenting it a second time is refused as a replay.\<close>

theorem issue_then_consume:
  assumes "issue g lnow i n clock d agent ts v w = (Inr t, w')" "representable clock"
    "whole_second clock \<le> now" "now < whole_second clock + gt_ttl_seconds g * micros"
    "\<forall>c \<in> set (token_binding_checks t b). snd c" "is_identifier i"
  shows "\<exists>w2. validate_and_consume g lnow now t b None None k s w' = (Inr (), w2)
    \<and> fst (validate_and_consume g lnow now t b a bd k' s' w2) = Inl ''AUTHORIZATION_REPLAY''"
proof -
  note valid = issued_token_validates [OF assms]
  obtain kvs where "draft_token g i n (whole_second clock) d agent ts (JObj kvs) = Inr t"
    by (rule issue_Inr [OF assms(1)])
  note t = draft_token_Inr [OF this]
  have issued: "map_of (authorization_states (aw_ledger w')) i = Some Issued"
    using validate_token_Inr(3) [OF valid] t(1) by (simp add: auth_of_def)
  then obtain l where l: "consume_once lnow i None None (Some (isoformat (whole_second now))) k s (aw_ledger w') = Inr l"
    using assms(6) by (auto simp: consume_once_def check_consume_arguments_def)
  have "validate_token g now t b l = Inl ''AUTHORIZATION_REPLAY''"
    using consume_once_facts [OF l] valid assms(6) t(1)
    by (auto simp: validate_token_def and_then_Inl ledger_state_def auth_of_def)
  then show ?thesis
    using valid l t(1) by (simp add: validate_and_consume_def)
qed

text \<open>C33. Over every sequence of gate calls on an empty ledger a token is consumed at most once, and only if
  the gate issued it: the gate refines the single-use ledger.\<close>

theorem gate_token_consumed_once:
  "consumptions (gate_exec g) (gate_consumes g) i ops \<lparr>aw_ledger = empty_ledger, aw_metrics = m\<rparr> \<le> 1
   \<and> (consumptions (gate_exec g) (gate_consumes g) i ops \<lparr>aw_ledger = empty_ledger, aw_metrics = m\<rparr> > 0
      \<longrightarrow> issued_in (gate_exec g) (gate_issues g) i ops \<lparr>aw_ledger = empty_ledger, aw_metrics = m\<rparr>)"
proof -
  let ?w = "\<lparr>aw_ledger = empty_ledger, aw_metrics = m\<rparr>"
  have inv: "ledger_inv (aw_ledger ?w)" and new: "auth_of (aw_ledger ?w) i = None"
    by (simp_all add: empty_ledger_inv) (simp add: auth_of_def empty_ledger_def)
  then show ?thesis using gates.consumed_at_most_once [OF inv] gates.consumed_only_if_issued [OF inv new] by blast
qed

subsection \<open>An authorized isolation\<close>

definition sample_auth_gate :: gate where
  "sample_auth_gate =
     \<lparr>gt_signing_key = replicate 32 (CHR ''a''), gt_verification_key = replicate 32 (CHR ''v''),
      gt_verifier_id = ''verifier-1'', gt_ttl_seconds = 300, gt_issuer_instance_id = ''issuer-1''\<rparr>"

definition sample_command :: json where
  "sample_command = JObj [(''duration_seconds'', JInt 600), (''preserve_management'', JBool True)]"

definition allowed_decision :: decision_record where
  "allowed_decision =
     \<lparr>dn_decision_id = ''d-1'', dn_request_id = ''req-1'', dn_decided_at = ''2026-01-01T00:00:00+00:00'',
      dn_policy_id = ''soc-policy'', dn_policy_version = ''0.3.0'', dn_policy_sha256 = ''p'',
      dn_outcome = ''ALLOW'', dn_reason_codes = [''AUTHORIZED_AGENT''], dn_applicable_rules = [''R9''],
      dn_requested_action = JObj [],
      dn_permitted_action = Some (JObj [(''type'', JStr ''NETWORK_ISOLATE''), (''target'', JStr ''ws-1''),
        (''parameters'', sample_command)]),
      dn_authority = assess_authority decided_request sample_principal ''ISOLATE'',
      dn_evidence = None, dn_consequence = None, dn_constraints = [], dn_explanation = JObj [],
      dn_request_sha256 = ''q'', dn_decision_context_sha256 = ''c'', dn_approval_requirement = None,
      dn_latency_ms = 0\<rparr>"

definition unsigned_receipt :: decision_verification where
  "unsigned_receipt =
     \<lparr>dv_verification_id = ''v-1'', dv_verifier_instance_id = ''verifier-1'', dv_decision_id = ''d-1'',
      dv_decision_context_sha256 = ''c'', dv_decision_sha256 = authorization_sha256 allowed_decision,
      dv_request_sha256 = ''q'', dv_principal_id = ''agent-1'', dv_principal_resolution_sha256 = ''r'',
      dv_policy_sha256 = ''p'', dv_passed = True, dv_checks = [], dv_blocking_reason_codes = [],
      dv_verified_at = isoformat sample_now, dv_signature = []\<rparr>"

definition sample_receipt :: decision_verification where
  "sample_receipt = unsigned_receipt\<lparr>dv_signature :=
     hmac_json (gt_verification_key sample_auth_gate) (verification_unsigned_dict unsigned_receipt)\<rparr>"

definition sample_world :: auth_world where
  "sample_world = \<lparr>aw_ledger = empty_ledger, aw_metrics = no_metrics\<rparr>"

definition issued_bindings :: "authorization_token \<Rightarrow> token_bindings" where
  "issued_bindings t =
     \<lparr>tb_request_id = tk_request_id t, tb_decision_id = tk_decision_id t, tb_agent_id = tk_agent_id t,
      tb_action_type = tk_action_type t, tb_target_id = tk_target_id t, tb_parameters = tk_permitted_parameters t,
      tb_policy_id = tk_policy_id t, tb_policy_version = tk_policy_version t, tb_policy_sha256 = tk_policy_sha256 t,
      tb_decision_context_sha256 = tk_decision_context_sha256 t, tb_target_state_sha256 = tk_target_state_sha256 t\<rparr>"

lemma issued_bindings_match:
  "json_keys_distinct (tk_permitted_parameters t) \<Longrightarrow> \<forall>c \<in> set (token_binding_checks t (issued_bindings t)). snd c"
  by (simp add: token_binding_checks_def issued_bindings_def py_eq_refl)

lemma sample_times: "representable sample_now" "whole_second sample_now = sample_now"
  "representable (sample_now + 300 * micros)" "is_offset_timestamp (isoformat sample_now)"
  by code_simp+

lemma sample_bound: "verification_bound sample_auth_gate sample_now allowed_decision ''agent-1'' sample_receipt = Inr True"
proof -
  have "verification.authentic (gt_verification_key sample_auth_gate) sample_receipt"
    using verification.authentic_seal [of _ unsigned_receipt] by (simp add: sample_receipt_def verification.seal_def)
  then have "compare_digest (hmac_json (gt_verification_key sample_auth_gate) (verification_unsigned_dict sample_receipt))
      (dv_signature sample_receipt) = Inr True" by (simp add: verification.authentic_iff)
  moreover have "dv_verified_at sample_receipt = isoformat sample_now"
    by (simp add: sample_receipt_def unsigned_receipt_def)
  then have "verification_fresh sample_now sample_receipt = Inr True"
    by (simp add: verification_fresh_def sample_times micros_def)
  ultimately show ?thesis
    unfolding verification_bound_def
    by (simp, simp add: sample_receipt_def unsigned_receipt_def sample_auth_gate_def,
        simp add: allowed_decision_def assess_authority_def sample_principal_def Let_def)
qed

lemma sample_register:
  "\<exists>l. register sample_clock ''t-1'' (Some ''v-1'') (Some ''d-1'') (Some (isoformat sample_now)) (aw_ledger sample_world)
     = Inr l"
  using sample_times(4)
  by (simp add: register_def check_optional_timestamp_def is_identifier_def or_default_def sample_world_def empty_ledger_def)

lemma sample_issue_token:
  obtains t w where "issue sample_auth_gate sample_clock ''t-1'' ''n-1'' sample_now allowed_decision ''agent-1'' ts sample_receipt
      sample_world = (Inr t, w)" "tk_permitted_parameters t = sample_command"
proof -
  obtain t where t: "draft_token sample_auth_gate ''t-1'' ''n-1'' sample_now allowed_decision ''agent-1'' ts
      (JObj [(''type'', JStr ''NETWORK_ISOLATE''), (''target'', JStr ''ws-1''), (''parameters'', sample_command)]) = Inr t"
    "tk_permitted_parameters t = sample_command"
    by (simp add: draft_token_def get_as_def as_str_def as_dict_def sample_command_def sample_auth_gate_def
        sample_times Let_def)
  have "tk_issued_at t = isoformat sample_now" using draft_token_Inr(6) [OF t(1)] .
  moreover have "dn_decision_id allowed_decision = ''d-1''" "dv_verification_id sample_receipt = ''v-1''"
    "dn_outcome allowed_decision \<in> set automatic_outcomes"
    "dn_permitted_action allowed_decision = Some (JObj [(''type'', JStr ''NETWORK_ISOLATE''), (''target'', JStr ''ws-1''),
        (''parameters'', sample_command)])"
    by (simp_all add: allowed_decision_def sample_receipt_def unsigned_receipt_def automatic_outcomes_def)
  ultimately have "\<exists>w. issue sample_auth_gate sample_clock ''t-1'' ''n-1'' sample_now allowed_decision ''agent-1'' ts
      sample_receipt sample_world = (Inr t, w)"
    using t(1) sample_bound sample_register
    by (auto simp: issue_def sample_times Let_def)
  with t(2) that show thesis by blast
qed

theorem issue_sound_witness:
  "\<exists>t w. issue sample_auth_gate sample_clock ''t-1'' ''n-1'' sample_now allowed_decision ''agent-1'' [] sample_receipt
      sample_world = (Inr t, w) \<and> auth_of (aw_ledger w) ''t-1'' = Some Issued"
proof -
  obtain t w where "issue sample_auth_gate sample_clock ''t-1'' ''n-1'' sample_now allowed_decision ''agent-1'' []
      sample_receipt sample_world = (Inr t, w)"
    by (rule sample_issue_token)
  with issue_sound [OF this] show ?thesis by blast
qed

theorem issue_then_consume_witness:
  "\<exists>t w w2. issue sample_auth_gate sample_clock ''t-1'' ''n-1'' sample_now allowed_decision ''agent-1'' [] sample_receipt
      sample_world = (Inr t, w)
    \<and> validate_and_consume sample_auth_gate sample_clock sample_now t (issued_bindings t) None None None None w
      = (Inr (), w2)"
proof -
  obtain t w where t: "issue sample_auth_gate sample_clock ''t-1'' ''n-1'' sample_now allowed_decision ''agent-1'' []
      sample_receipt sample_world = (Inr t, w)" "tk_permitted_parameters t = sample_command"
    by (rule sample_issue_token)
  have "sample_now < whole_second sample_now + gt_ttl_seconds sample_auth_gate * micros"
    "whole_second sample_now \<le> sample_now" "is_identifier ''t-1''"
    by (simp_all add: sample_times sample_auth_gate_def micros_def is_identifier_def)
  moreover have "\<forall>c \<in> set (token_binding_checks t (issued_bindings t)). snd c"
    by (rule issued_bindings_match) (simp add: t(2) sample_command_def)
  ultimately show ?thesis
    using issue_then_consume [OF t(1) sample_times(1)] t(1) by blast
qed

lemma sample_consume:
  obtains t w w2 where
    "issue sample_auth_gate sample_clock ''t-1'' ''n-1'' sample_now allowed_decision ''agent-1'' [] sample_receipt
      sample_world = (Inr t, w)"
    "validate_and_consume sample_auth_gate sample_clock sample_now t (issued_bindings t) None None None None w
      = (Inr (), w2)" "tk_token_id t = ''t-1''"
proof -
  obtain t w where t: "issue sample_auth_gate sample_clock ''t-1'' ''n-1'' sample_now allowed_decision ''agent-1'' []
      sample_receipt sample_world = (Inr t, w)" "tk_permitted_parameters t = sample_command"
    by (rule sample_issue_token)
  obtain kvs where "draft_token sample_auth_gate ''t-1'' ''n-1'' (whole_second sample_now) allowed_decision ''agent-1'' []
      (JObj kvs) = Inr t"
    by (rule issue_Inr [OF t(1)])
  note i = draft_token_Inr(1) [OF this]
  have "validate_token sample_auth_gate sample_now t (issued_bindings t) (aw_ledger w) = Inr ()"
    by (rule issued_token_validates [OF t(1) sample_times(1)])
      (use issued_bindings_match [of t] t(2) in
        \<open>simp_all add: sample_times sample_auth_gate_def micros_def is_identifier_def sample_command_def\<close>)
  moreover from validate_token_Inr(3) [OF this] obtain l where
    "consume_once sample_clock (tk_token_id t) None None (Some (isoformat (whole_second sample_now))) None None (aw_ledger w)
      = Inr l"
    using i by (auto simp: consume_once_def check_consume_arguments_def auth_of_def is_identifier_def)
  ultimately have "validate_and_consume sample_auth_gate sample_clock sample_now t (issued_bindings t) None None None None w
      = (Inr (), w\<lparr>aw_ledger := l\<rparr>)"
    by (simp add: validate_and_consume_def)
  with t(1) i that show thesis by blast
qed

theorem consume_sound_witness:
  "\<exists>t w w2. validate_and_consume sample_auth_gate sample_clock sample_now t (issued_bindings t) None None None None w
      = (Inr (), w2) \<and> auth_of (aw_ledger w2) (tk_token_id t) = Some Consumed"
proof -
  obtain t w w2 where "validate_and_consume sample_auth_gate sample_clock sample_now t (issued_bindings t) None None None
      None w = (Inr (), w2)"
    by (rule sample_consume)
  with consume_sound [OF this] show ?thesis by blast
qed

theorem gate_token_consumed_once_witness:
  "\<exists>t ops. ops = [IssueToken sample_clock ''t-1'' ''n-1'' sample_now allowed_decision ''agent-1'' [] sample_receipt,
        ConsumeToken sample_clock sample_now t (issued_bindings t) None None None None]
     \<and> consumptions (gate_exec sample_auth_gate) (gate_consumes sample_auth_gate) ''t-1'' ops sample_world = 1
     \<and> issued_in (gate_exec sample_auth_gate) (gate_issues sample_auth_gate) ''t-1'' ops sample_world"
proof -
  obtain t w w2 where
    "issue sample_auth_gate sample_clock ''t-1'' ''n-1'' sample_now allowed_decision ''agent-1'' [] sample_receipt
      sample_world = (Inr t, w)"
    "validate_and_consume sample_auth_gate sample_clock sample_now t (issued_bindings t) None None None None w
      = (Inr (), w2)" "tk_token_id t = ''t-1''"
    by (rule sample_consume)
  then have "consumptions (gate_exec sample_auth_gate) (gate_consumes sample_auth_gate) ''t-1''
      [IssueToken sample_clock ''t-1'' ''n-1'' sample_now allowed_decision ''agent-1'' [] sample_receipt,
        ConsumeToken sample_clock sample_now t (issued_bindings t) None None None None] sample_world = 1"
    by (simp add: gate_consumes_def gate_exec_def)
  then show ?thesis
    unfolding sample_world_def using gate_token_consumed_once by (metis zero_less_one)
qed

end
