(* ===== verification/PyValue.thy ===== *)
theory PyValue
  imports PyJson
begin

text \<open>
  The conversions of Python that the program applies to decoded JSON values: \<open>int\<close>, \<open>bool\<close>, \<open>str\<close>
  and \<open>repr\<close>, and the order \<open>json.loads\<close> gives the members of a canonical text.
\<close>

text \<open>\<open>int(value)\<close> and \<open>bool(value)\<close>.\<close>

definition py_space :: "char \<Rightarrow> bool" where
  "py_space c = ((of_char c :: int) \<in> set [9, 10, 11, 12, 13, 28, 29, 30, 31, 32, 133, 160])"

definition py_strip :: "pystr \<Rightarrow> pystr" where
  "py_strip s = rev (dropWhile py_space (rev (dropWhile py_space s)))"

fun int_digits :: "int \<Rightarrow> bool \<Rightarrow> pystr \<Rightarrow> int option" where
  "int_digits acc after [] = (if after then Some acc else None)"
| "int_digits acc after (c # cs) =
     (let n = (of_char c :: int) in
      if 48 \<le> n \<and> n \<le> 57 then int_digits (10 * acc + (n - 48)) True cs
      else if c = CHR ''_'' \<and> after then int_digits acc False cs else None)"

definition int_of_str :: "pystr \<Rightarrow> int option" where
  "int_of_str s =
     (case py_strip s of
        [] \<Rightarrow> None
      | c # cs \<Rightarrow>
          if c = CHR ''-'' then map_option uminus (int_digits 0 False cs)
          else if c = CHR ''+'' then int_digits 0 False cs else int_digits 0 False (c # cs))"

fun py_int :: "json \<Rightarrow> (pystr, int) result" where
  "py_int (JBool b) = Inr (if b then 1 else 0)"
| "py_int (JInt n) = Inr n"
| "py_int (JFloat x) = Inr (if x < 0 then \<lceil>x\<rceil> else \<lfloor>x\<rfloor>)"
| "py_int (JStr s) = (case int_of_str s of None \<Rightarrow> Inl ''ValueError'' | Some n \<Rightarrow> Inr n)"
| "py_int _ = Inl ''TypeError''"

fun py_bool :: "json \<Rightarrow> bool" where
  "py_bool JNull = False"
| "py_bool (JBool b) = b"
| "py_bool (JInt n) = (n \<noteq> 0)"
| "py_bool (JFloat x) = (x \<noteq> 0)"
| "py_bool (JStr s) = (s \<noteq> [])"
| "py_bool (JList xs) = (xs \<noteq> [])"
| "py_bool (JObj kvs) = (kvs \<noteq> [])"

text \<open>\<open>repr\<close> of a string: single quotes unless it holds one and no double quote, other characters than the
  printable ones of Latin-1 escaped.\<close>

definition repr_char :: "char \<Rightarrow> char \<Rightarrow> string" where
  "repr_char q c =
     (let n = (of_char c :: int) in
      if c = q \<or> c = CHR 0x5C then [CHR 0x5C, c]
      else if n = 9 then [CHR 0x5C, CHR ''t'']
      else if n = 10 then [CHR 0x5C, CHR ''n'']
      else if n = 13 then [CHR 0x5C, CHR ''r'']
      else if n < 32 \<or> 127 \<le> n \<and> n \<le> 160 \<or> n = 173
      then [CHR 0x5C, CHR ''x'', hex_digit (n div 16), hex_digit (n mod 16)]
      else [c])"

definition repr_str :: "pystr \<Rightarrow> string" where
  "repr_str s =
     (let q = (if CHR 0x27 \<in> set s \<and> CHR 0x22 \<notin> set s then CHR 0x22 else CHR 0x27)
      in [q] @ concat (map (repr_char q) s) @ [q])"

fun py_repr :: "json \<Rightarrow> string" where
  "py_repr JNull = ''None''"
| "py_repr (JBool b) = (if b then ''True'' else ''False'')"
| "py_repr (JInt n) = show_int n"
| "py_repr (JFloat x) = float_repr x"
| "py_repr (JStr s) = repr_str s"
| "py_repr (JList xs) = ''['' @ join '', '' (map py_repr xs) @ '']''"
| "py_repr (JObj kvs) = [CHR 0x7B] @ join '', '' (map (\<lambda>(k, v). repr_str k @ '': '' @ py_repr v) kvs) @ [CHR 0x7D]"

definition py_str :: "json \<Rightarrow> pystr" where
  "py_str v = (case v of JStr s \<Rightarrow> s | _ \<Rightarrow> py_repr v)"

lemma py_str_JStr [simp]: "py_str (JStr s) = s"
  by (simp add: py_str_def)

text \<open>\<open>json.loads(canonical_json(v))\<close>: the same value with the members of every object in key order.\<close>

fun key_sorted :: "json \<Rightarrow> json" where
  "key_sorted (JList xs) = JList (map key_sorted xs)"
| "key_sorted (JObj kvs) = JObj (sort_key fst (map (\<lambda>(k, v). (k, key_sorted v)) kvs))"
| "key_sorted v = v"

lemma sort_key_idem_fst: "sort_key fst (sort_key fst xs) = sort_key fst (xs :: ('k :: linorder \<times> 'v) list)"
  by (rule sort_key_id_if_sorted) simp

lemma sort_map_snd:
  "sort_key fst (map (\<lambda>(k, v). (k, f v)) xs) = map (\<lambda>(k, v). (k, f v)) (sort_key fst (xs :: ('k :: linorder \<times> 'v) list))"
proof -
  have "insort_key fst (k, f v) (map (\<lambda>(k, v). (k, f v)) ys) = map (\<lambda>(k, v). (k, f v)) (insort_key fst (k, v) ys)"
    for k v and ys :: "('k \<times> 'v) list"
    by (induction ys) auto
  then show ?thesis by (induction xs) auto
qed

lemma canonical_key_sorted: "canonical_json (key_sorted v) = canonical_json v"
proof (induction v rule: key_sorted.induct)
  case (1 xs)
  then have "map (\<lambda>x. canonical_json (key_sorted x)) xs = map canonical_json xs" by simp
  then show ?case by (simp only: key_sorted.simps canonical_json.simps map_map comp_def)
next
  case (2 kvs)
  have texts: "map (\<lambda>(k, v). (k, canonical_json v)) (map (\<lambda>(k, v). (k, key_sorted v)) kvs)
      = map (\<lambda>(k, v). (k, canonical_json v)) kvs"
    using 2 by auto
  have "sort_key fst (map (\<lambda>(k, v). (k, canonical_json v)) (sort_key fst (map (\<lambda>(k, v). (k, key_sorted v)) kvs)))
      = sort_key fst (sort_key fst (map (\<lambda>(k, v). (k, canonical_json v)) (map (\<lambda>(k, v). (k, key_sorted v)) kvs)))"
    by (simp only: sort_map_snd)
  also have "\<dots> = sort_key fst (map (\<lambda>(k, v). (k, canonical_json v)) kvs)"
    by (simp only: texts sort_key_idem_fst)
  finally show ?case by simp
qed simp_all

lemma sha256_key_sorted [simp]: "sha256_json (key_sorted v) = sha256_json v"
  by (simp add: sha256_json_def canonical_key_sorted)

end
