(* ===== verification/P3Simulation.thy ===== *)
theory P3Simulation
  imports P3Authorization PyValue
begin

text \<open>
  The closed execution boundary of \<open>phase3/simulation.py\<close> with its process-local target store: the
  observer, the broker that authorizes and executes in one step, and the read-back verifier.
  \<open>sim_world\<close> is the state the factory closes over (target states and attempt digests) with the
  ledger and metrics of the gate. The durable adapter store, an optional constructor argument, is absent.
  Clock readings and fresh identifiers are arguments. A timestamp without an offset, which the
  verifier would read in the local zone, counts as malformed.
\<close>

subsection \<open>Commands\<close>

text \<open>\<open>_normalize_command\<close>: type, target and parameters of an exact command, \<open>None\<close> for any other shape.\<close>

definition command_keys :: "pyval list" where
  "command_keys = [PStr ''type'', PStr ''target'', PStr ''parameters'']"

definition normalize_command :: "pyval \<Rightarrow> (pystr \<times> pystr \<times> json) option" where
  "normalize_command value =
     (case value of
        PDict kvs \<Rightarrow>
          if \<not> (list_all (\<lambda>kv. fst kv \<in> set command_keys) kvs \<and> list_all (\<lambda>k. k \<in> fst ` set kvs) command_keys) then None
          else (case (map_of kvs (PStr ''type''), map_of kvs (PStr ''target''), map_of kvs (PStr ''parameters'')) of
              (Some (PStr action), Some (PStr target), Some (PDict parameters)) \<Rightarrow>
                if action = [] \<or> target = [] then None
                else map_option (\<lambda>ps. (action, target, ps)) (copy_exact_json (PDict parameters))
            | _ \<Rightarrow> None)
      | _ \<Rightarrow> None)"

definition command_dict :: "pystr \<times> pystr \<times> json \<Rightarrow> json" where
  "command_dict c = (case c of (action, target, parameters) \<Rightarrow>
     JObj [(''type'', JStr action), (''target'', JStr target), (''parameters'', parameters)])"

definition members :: "json \<Rightarrow> (pystr \<times> json) list" where
  "members v = (case v of JObj kvs \<Rightarrow> kvs | _ \<Rightarrow> [])"

definition key_of :: "json \<Rightarrow> pystr \<Rightarrow> (reason, json) result" where
  "key_of v k = (case map_of (members v) k of None \<Rightarrow> Inl ''KeyError'' | Some x \<Rightarrow> Inr x)"

subsection \<open>Target states\<close>

record sim_state =
  ss_target_id :: pystr
  ss_target_type :: pystr
  ss_network_state :: pystr
  ss_management_channel :: bool
  ss_isolation_expires_at :: "pystr option"
  ss_service_health :: pystr
  ss_last_action_id :: "pystr option"

definition sim_state_members :: "sim_state \<Rightarrow> (pystr \<times> json) list" where
  "sim_state_members s =
     [(''target_id'', JStr (ss_target_id s)), (''target_type'', JStr (ss_target_type s)),
      (''network_state'', JStr (ss_network_state s)),
      (''management_channel'', JBool (ss_management_channel s)),
      (''isolation_expires_at'', jopt (ss_isolation_expires_at s)),
      (''service_health'', JStr (ss_service_health s)), (''last_action_id'', jopt (ss_last_action_id s))]"

definition sim_state_to_dict :: "sim_state \<Rightarrow> json" where
  "sim_state_to_dict s = JObj (sim_state_members s)"

record boundary =
  bd_gate :: gate
  bd_faults :: "(pystr \<times> pystr) list"

record sim_world =
  sw_auth :: auth_world
  sw_states :: "(pystr \<times> sim_state) list"
  sw_bindings :: "(pystr \<times> pystr option) list"

definition valid_fault_modes :: "pystr list" where
  "valid_fault_modes = [''NONE'', ''FAILED'', ''PARTIAL'', ''UNEXPECTED_EFFECT'']"

definition initial_state :: "pystr \<Rightarrow> target_record \<Rightarrow> sim_state" where
  "initial_state target_id record =
     \<lparr>ss_target_id = target_id, ss_target_type = tr_type record, ss_network_state = ''connected'',
      ss_management_channel = True, ss_isolation_expires_at = None, ss_service_health = ''healthy'',
      ss_last_action_id = None\<rparr>"

text \<open>\<open>build_simulated_execution_boundary\<close>: the checks of the configuration and the initial store.\<close>

definition build_boundary ::
  "gate \<Rightarrow> auth_world \<Rightarrow> (pystr \<times> target_record) list \<Rightarrow> (pystr \<times> pystr) list \<Rightarrow> (reason, boundary \<times> sim_world) result" where
  "build_boundary g auth inventory faults =
     and_then (require (inventory \<noteq> []) ''ValueError'') (\<lambda>_.
     and_then (require (list_all (\<lambda>(t, _). t \<in> fst ` set inventory) faults
                 \<and> list_all (\<lambda>(_, m). m \<in> set valid_fault_modes) faults) ''ValueError'') (\<lambda>_.
     and_then (map_result (\<lambda>(target_id, record).
         and_then (require (target_id \<noteq> []) ''ValueError'') (\<lambda>_.
         and_then (require (tr_id record = target_id) ''TypeError'') (\<lambda>_.
         Inr (target_id, initial_state target_id record)))) inventory) (\<lambda>states.
     Inr (\<lparr>bd_gate = g, bd_faults = faults\<rparr>,
          \<lparr>sw_auth = auth, sw_states = states, sw_bindings = []\<rparr>))))"

definition observe_state :: "pystr \<Rightarrow> sim_world \<Rightarrow> (reason, sim_state) result" where
  "observe_state target_id w =
     (case map_of (sw_states w) target_id of None \<Rightarrow> Inl ''TARGET_UNKNOWN'' | Some s \<Rightarrow> Inr s)"

definition observe :: "pystr \<Rightarrow> sim_world \<Rightarrow> (reason, sim_state) result" where
  "observe target_id w =
     and_then (require (target_id \<noteq> []) ''TARGET_ID_INVALID'') (\<lambda>_. observe_state target_id w)"

subsection \<open>The broker\<close>

record execute_call =
  ex_token :: "authorization_token option"
  ex_command :: pyval
  ex_request_id :: pystr
  ex_decision_id :: pystr
  ex_agent_id :: pystr
  ex_policy_id :: pystr
  ex_policy_version :: pystr
  ex_policy_sha256 :: pystr
  ex_decision_context_sha256 :: pystr
  ex_recovery_summary :: "json option"

definition count_metric :: "(metric_state \<Rightarrow> metric_state) \<Rightarrow> sim_world \<Rightarrow> sim_world" where
  "count_metric f w = w\<lparr>sw_auth := (sw_auth w)\<lparr>aw_metrics := f (aw_metrics (sw_auth w))\<rparr>\<rparr>"

definition broker_refuse :: "reason \<Rightarrow> sim_world \<Rightarrow> (reason, 'a) result \<times> sim_world" where
  "broker_refuse e w =
     (Inl e, count_metric (\<lambda>m. record_authorization_failure (record_broker_rejection m)) w)"

definition attempt_binding :: "execute_call \<Rightarrow> authorization_token \<Rightarrow> pystr \<times> pystr \<times> json \<Rightarrow> pystr \<Rightarrow> json" where
  "attempt_binding c t command state_sha256 = JObj
     [(''token_id'', JStr (tk_token_id t)), (''request_id'', JStr (ex_request_id c)),
      (''decision_id'', JStr (ex_decision_id c)), (''agent_id'', JStr (ex_agent_id c)),
      (''command'', command_dict command), (''policy_id'', JStr (ex_policy_id c)),
      (''policy_version'', JStr (ex_policy_version c)), (''policy_sha256'', JStr (ex_policy_sha256 c)),
      (''decision_context_sha256'', JStr (ex_decision_context_sha256 c)),
      (''target_state_sha256'', JStr state_sha256)]"

definition call_bindings :: "execute_call \<Rightarrow> pystr \<times> pystr \<times> json \<Rightarrow> pystr \<Rightarrow> token_bindings" where
  "call_bindings c command state_sha256 =
     (case command of (action, target, parameters) \<Rightarrow>
      \<lparr>tb_request_id = ex_request_id c, tb_decision_id = ex_decision_id c, tb_agent_id = ex_agent_id c,
       tb_action_type = action, tb_target_id = target, tb_parameters = parameters,
       tb_policy_id = ex_policy_id c, tb_policy_version = ex_policy_version c,
       tb_policy_sha256 = ex_policy_sha256 c, tb_decision_context_sha256 = ex_decision_context_sha256 c,
       tb_target_state_sha256 = state_sha256\<rparr>)"

text \<open>What happens under the state lock: a boundary error that the broker reports, an applied or failed
  transition, or a Python error in the middle of the update.\<close>

datatype transition = Rejected pystr | Applied bool pystr | Raised reason

definition apply_transition ::
  "boundary \<Rightarrow> authorization_token \<Rightarrow> pystr \<Rightarrow> instant \<Rightarrow> pystr \<times> pystr \<times> json \<Rightarrow> sim_state \<Rightarrow> transition \<times> sim_state" where
  "apply_transition bd t attempt_id attempted_at command s =
     (case command of (action, target, parameters) \<Rightarrow>
      let fault = (case map_of (bd_faults bd) target of Some m \<Rightarrow> m | None \<Rightarrow> ''NONE'') in
      if sha256_json (sim_state_to_dict s) \<noteq> tk_target_state_sha256 t then
        (Rejected ''TARGET_STATE_PRECONDITION_CHANGED: Target state changed after authorization validation.'', s)
      else if action \<noteq> ''NETWORK_ISOLATE'' then
        (Rejected ''ACTION_NOT_IMPLEMENTED: The synthetic target implements only NETWORK_ISOLATE.'', s)
      else if fault = ''FAILED'' then
        (Applied False ''Injected synthetic downstream failure; no state changed.'', s)
      else (case and_then (and_then (key_of parameters ''duration_seconds'') py_int) (\<lambda>d.
                and_then (key_of parameters ''preserve_management'') (\<lambda>p. Inr (d, py_bool p))) of
          Inl e \<Rightarrow> (Raised e, s)
        | Inr (duration, preserve) \<Rightarrow>
            (let s1 = s\<lparr>ss_last_action_id := Some attempt_id, ss_network_state := ''isolated''\<rparr> in
             if fault = ''PARTIAL'' then
               (Applied True ''Injected partial transition in the synthetic target.'',
                s1\<lparr>ss_isolation_expires_at := None\<rparr>)
             else
               (let s2 = s1\<lparr>ss_management_channel := preserve\<rparr>; expires = attempted_at + duration * micros in
                if \<not> representable expires then (Raised ''OverflowError'', s2)
                else
                  (let s3 = s2\<lparr>ss_isolation_expires_at := Some (isoformat (whole_second expires))\<rparr> in
                   if fault = ''UNEXPECTED_EFFECT'' then
                     (Applied True ''Synthetic action completed with an injected unexpected effect.'',
                      s3\<lparr>ss_service_health := ''degraded''\<rparr>)
                   else (Applied True ''Synthetic network isolation applied to the in-memory target.'', s3))))))"

definition origin_digest :: "authorization_token \<Rightarrow> pystr \<times> pystr \<times> json \<Rightarrow> broker_result \<Rightarrow> pystr" where
  "origin_digest t command r =
     sha256_json (JObj [(''authorization'', token_to_dict True t), (''permitted_command'', command_dict command),
       (''broker_result'', broker_to_dict r)])"

definition local_receipt :: "broker_result \<Rightarrow> pystr" where
  "local_receipt r =
     sha256_json (JObj [(''execution_mode'', JStr ''process_local_simulation''),
       (''broker_result_sha256'', JStr (sha256_json (broker_to_dict r)))])"

text \<open>The steps after the token was consumed.\<close>

definition finish_execution ::
  "boundary \<Rightarrow> (nat \<Rightarrow> pystr) \<Rightarrow> authorization_token \<Rightarrow> pystr \<Rightarrow> instant \<Rightarrow> pystr \<times> pystr \<times> json \<Rightarrow> sim_state
     \<Rightarrow> sim_world \<Rightarrow> (reason, broker_result) result \<times> sim_world" where
  "finish_execution bd lnow t attempt_id attempted_at command before w =
     (case command of (action, target, parameters) \<Rightarrow>
      (let (outcome, after) = apply_transition bd t attempt_id attempted_at command before;
          w1 = w\<lparr>sw_states := dict_set target after (sw_states w)\<rparr>
      in case outcome of
          Raised e \<Rightarrow> (Inl e, w1)
        | _ \<Rightarrow>
            (let (success, message) = (case outcome of Applied b m \<Rightarrow> (b, m) | Rejected m \<Rightarrow> (False, m) | Raised e \<Rightarrow> (False, e));
                 w2 = (case outcome of Rejected m \<Rightarrow> count_metric record_broker_rejection w1 | _ \<Rightarrow> w1);
                 r = \<lparr>br_attempt_id = attempt_id, br_token_id = tk_token_id t, br_request_id = tk_request_id t,
                      br_decision_id = tk_decision_id t, br_action_type = action, br_target_id = target,
                      br_parameters = parameters, br_executed_at = isoformat attempted_at, br_attempted = True,
                      br_accepted = True, br_reported_success = success, br_message = message,
                      br_state_before_sha256 = sha256_json (sim_state_to_dict before),
                      br_state_after_sha256 = sha256_json (sim_state_to_dict after)\<rparr>;
                 w3 = w2\<lparr>sw_bindings := dict_set attempt_id (Some (origin_digest t command r)) (sw_bindings w2)\<rparr>;
                 (recorded, auth) = gate_record_receipt lnow attempt_id (local_receipt r)
                   (sha256_json (broker_to_dict r)) (isoformat attempted_at) (sw_auth w3)
             in (case recorded of Inl e \<Rightarrow> Inl e | Inr _ \<Rightarrow> Inr r, w3\<lparr>sw_auth := auth\<rparr>))))"

definition authorize_and_execute ::
  "boundary \<Rightarrow> (nat \<Rightarrow> pystr) \<Rightarrow> pystr \<Rightarrow> instant \<Rightarrow> execute_call \<Rightarrow> sim_world
     \<Rightarrow> (reason, broker_result) result \<times> sim_world" where
  "authorize_and_execute bd lnow attempt_id clock c w =
     (case ex_token c of
        None \<Rightarrow> broker_refuse ''AUTHORIZATION_MISSING'' w
      | Some t \<Rightarrow>
     (case normalize_command (ex_command c) of
        None \<Rightarrow> broker_refuse ''AUTHORIZATION_COMMAND_SHAPE_INVALID'' w
      | Some (action, target, parameters) \<Rightarrow>
     (case observe_state target w of
        Inl e \<Rightarrow> broker_refuse e w
      | Inr before \<Rightarrow>
          if attempt_id = [] then (Inl ''ATTEMPT_ID_INVALID'', w)
          else if attempt_id \<in> fst ` set (sw_bindings w) then (Inl ''ATTEMPT_ID_COLLISION'', w)
          else
            (let w1 = w\<lparr>sw_bindings := dict_set attempt_id None (sw_bindings w)\<rparr>;
                 attempted_at = whole_second clock;
                 command = (action, target, parameters);
                 state_sha256 = sha256_json (sim_state_to_dict before);
                 key = sha256_json (attempt_binding c t command state_sha256);
                 (consumed, auth) = validate_and_consume (bd_gate bd) lnow attempted_at t
                   (call_bindings c command state_sha256) (Some attempt_id) (Some key) (Some key)
                   (ex_recovery_summary c) (sw_auth w1);
                 w2 = w1\<lparr>sw_auth := auth\<rparr>
             in case consumed of
                  Inl e \<Rightarrow>
                    (Inl e, if e \<in> set python_errors then w2
                            else count_metric record_broker_rejection
                                   (w2\<lparr>sw_bindings := dict_pop attempt_id (sw_bindings w2)\<rparr>))
                | Inr _ \<Rightarrow> finish_execution bd lnow t attempt_id attempted_at command before w2))))"

subsection \<open>The read-back verifier\<close>

definition execution_times :: "authorization_token \<Rightarrow> broker_result \<Rightarrow> (instant \<times> instant \<times> instant) option" where
  "execution_times t r =
     (case (utc_instant (br_executed_at r), utc_instant (tk_issued_at t), utc_instant (tk_expires_at t)) of
        (Some executed, Some issued, Some expires) \<Rightarrow> Some (executed, issued, expires)
      | _ \<Rightarrow> None)"

definition changed_fields :: "(pystr \<times> json) list \<Rightarrow> (pystr \<times> json) list \<Rightarrow> pystr list" where
  "changed_fields before observed =
     sort (remdups (filter (\<lambda>k. \<not> py_eq (obj_get before k) (obj_get observed k))
       (map fst before @ map fst observed)))"

text \<open>The reasons collected before the target is observed, and those after.\<close>

definition call_reasons ::
  "authorization_token \<Rightarrow> (pystr \<times> pystr \<times> json) option \<Rightarrow> pystr \<Rightarrow> pystr \<Rightarrow> broker_result \<Rightarrow> pystr \<Rightarrow> pystr list" where
  "call_reasons t permitted request_id decision_id r before_sha256 =
     (if request_id \<noteq> tk_request_id t then [''VERIFICATION_REQUEST_MISMATCH''] else [])
     @ (if decision_id \<noteq> tk_decision_id t then [''VERIFICATION_DECISION_MISMATCH''] else [])
     @ (if br_token_id r \<noteq> tk_token_id t then [''VERIFICATION_TOKEN_MISMATCH''] else [])
     @ (if br_request_id r \<noteq> tk_request_id t then [''VERIFICATION_BROKER_REQUEST_MISMATCH''] else [])
     @ (if br_decision_id r \<noteq> tk_decision_id t then [''VERIFICATION_BROKER_DECISION_MISMATCH''] else [])
     @ (case permitted of
          None \<Rightarrow> [''VERIFICATION_COMMAND_SHAPE_INVALID'']
        | Some (action, target, parameters) \<Rightarrow>
            (if action \<noteq> tk_action_type t then [''VERIFICATION_COMMAND_ACTION_MISMATCH''] else [])
            @ (if target \<noteq> tk_target_id t then [''VERIFICATION_COMMAND_TARGET_MISMATCH''] else [])
            @ (if \<not> py_eq parameters (tk_permitted_parameters t)
               then [''VERIFICATION_COMMAND_PARAMETERS_MISMATCH''] else []))
     @ (if br_action_type r \<noteq> tk_action_type t then [''VERIFICATION_ACTION_MISMATCH''] else [])
     @ (if br_target_id r \<noteq> tk_target_id t then [''VERIFICATION_TARGET_MISMATCH''] else [])
     @ (if \<not> py_eq (br_parameters r) (tk_permitted_parameters t) then [''VERIFICATION_PARAMETERS_MISMATCH''] else [])
     @ (case execution_times t r of
          None \<Rightarrow> [''VERIFICATION_EXECUTION_TIME_INVALID'']
        | Some (executed, issued, expires) \<Rightarrow>
            if \<not> (issued \<le> executed \<and> executed < expires) then [''VERIFICATION_EXECUTION_TIME_INVALID''] else [])
     @ (if \<not> br_attempted r \<or> \<not> br_accepted r then [''VERIFICATION_BROKER_DISPOSITION_INVALID''] else [])
     @ (if br_attempt_id r = [] then [''VERIFICATION_ATTEMPT_INVALID''] else [])
     @ (if before_sha256 \<noteq> tk_target_state_sha256 t then [''VERIFICATION_PRESTATE_AUTHORIZATION_MISMATCH''] else [])
     @ (if br_state_before_sha256 r \<noteq> before_sha256 then [''VERIFICATION_BROKER_PRESTATE_MISMATCH''] else [])"

definition observation_reasons ::
  "authorization_token \<Rightarrow> (pystr \<times> pystr \<times> json) option \<Rightarrow> broker_result \<Rightarrow> sim_state \<Rightarrow> sim_world \<Rightarrow> pystr list" where
  "observation_reasons t permitted r observed w =
     (if br_state_after_sha256 r \<noteq> sha256_json (sim_state_to_dict observed)
      then [''VERIFICATION_BROKER_POSTSTATE_MISMATCH''] else [])
     @ (if ss_last_action_id observed \<noteq> Some (br_attempt_id r) then [''VERIFICATION_ATTEMPT_STATE_MISMATCH''] else [])
     @ (case (map_of (sw_bindings w) (br_attempt_id r), permitted) of
          (Some (Some expected), Some command) \<Rightarrow>
            if expected \<noteq> origin_digest t command r then [''VERIFICATION_ATTEMPT_ORIGIN_UNVERIFIED''] else []
        | _ \<Rightarrow> [''VERIFICATION_ATTEMPT_ORIGIN_UNVERIFIED''])"

definition allowed_changes :: "pystr list" where
  "allowed_changes = [''network_state'', ''management_channel'', ''isolation_expires_at'', ''last_action_id'']"

text \<open>\<open>expected["isolation_expires_at"]\<close>.\<close>

definition expected_expiry :: "authorization_token \<Rightarrow> broker_result \<Rightarrow> (reason, pystr option) result" where
  "expected_expiry t r =
     (case execution_times t r of
        None \<Rightarrow> Inr None
      | Some (executed, _) \<Rightarrow>
          and_then (and_then (key_of (tk_permitted_parameters t) ''duration_seconds'') py_int) (\<lambda>duration.
          and_then (require (representable (executed + duration * micros)) ''OverflowError'') (\<lambda>_.
          Inr (Some (isoformat (whole_second (executed + duration * micros)))))))"

definition expected_state :: "authorization_token \<Rightarrow> broker_result \<Rightarrow> pystr option \<Rightarrow> json" where
  "expected_state t r expiry = JObj
     [(''action_type'', JStr (tk_action_type t)), (''target_id'', JStr (tk_target_id t)),
      (''parameters'', tk_permitted_parameters t), (''network_state'', JStr ''isolated''),
      (''management_channel'', JBool (py_bool (obj_get (members (tk_permitted_parameters t)) ''preserve_management''))),
      (''isolation_expires_at_present'', JBool True), (''isolation_expires_at'', jopt expiry),
      (''last_action_id'', JStr (br_attempt_id r))]"

definition transition_checks :: "bool \<Rightarrow> pystr option \<Rightarrow> broker_result \<Rightarrow> sim_state \<Rightarrow> bool list" where
  "transition_checks preserve expiry r observed =
     [ss_network_state observed = ''isolated'', ss_management_channel observed = preserve,
      ss_isolation_expires_at observed \<noteq> None, ss_isolation_expires_at observed = expiry,
      ss_last_action_id observed = Some (br_attempt_id r)]"

text \<open>Status, rollback and reasons.\<close>

definition verification_verdict ::
  "authorization_token \<Rightarrow> broker_result \<Rightarrow> pystr list \<Rightarrow> bool \<Rightarrow> pystr list \<Rightarrow> pystr option \<Rightarrow> sim_state
     \<Rightarrow> (reason, verification_status \<times> bool \<times> pystr list) result" where
  "verification_verdict t r binding_reasons state_changed unexpected expiry observed =
     (if binding_reasons \<noteq> [] then
        Inr (if state_changed then RollbackRequired else Failed, state_changed,
             [''POST_ACTION_BINDING_FAILED''] @ binding_reasons
             @ (if state_changed then [''ROLLBACK_REQUIRED''] else []))
      else if tk_action_type t \<noteq> ''NETWORK_ISOLATE'' then
        Inr (if state_changed then RollbackRequired else Failed, state_changed,
             [''ACTION_VERIFICATION_UNSUPPORTED''] @ (if state_changed then [''ROLLBACK_REQUIRED''] else []))
      else
        and_then (key_of (tk_permitted_parameters t) ''preserve_management'') (\<lambda>preserve.
        (let checks = transition_checks (py_bool preserve) expiry r observed;
             matched = length (filter id checks)
         in Inr (if unexpected \<noteq> [] then
                   (UnexpectedEffect, True, [''UNEXPECTED_TARGET_STATE_CHANGE'', ''ROLLBACK_REQUIRED''])
                 else if matched = length checks \<and> br_reported_success r then
                   (Verified, False, [''EXPECTED_STATE_OBSERVED''])
                 else if matched = length checks then
                   (UnexpectedEffect, True, [''BROKER_REPORT_STATE_DISAGREEMENT'', ''ROLLBACK_REQUIRED''])
                 else if 0 < matched \<and> matched < length checks then
                   (Partial, True, [''PARTIAL_STATE_TRANSITION'', ''ROLLBACK_REQUIRED''])
                 else (Failed, False, [''EXPECTED_STATE_NOT_OBSERVED''])))))"

definition verify_execution ::
  "pystr \<Rightarrow> authorization_token \<Rightarrow> pyval \<Rightarrow> pystr \<Rightarrow> pystr \<Rightarrow> broker_result \<Rightarrow> json \<Rightarrow> sim_world
     \<Rightarrow> (reason, post_action_verification) result \<times> sim_world" where
  "verify_execution verification_id t permitted_command request_id decision_id r state_before w =
     (let permitted = normalize_command permitted_command;
          before = members state_before;
          before_sha256 = sha256_json (JObj before);
          called = call_reasons t permitted request_id decision_id r before_sha256;
          base = \<lparr>pv_verification_id = verification_id, pv_request_id = tk_request_id t,
             pv_decision_id = tk_decision_id t, pv_attempt_id = br_attempt_id r, pv_token_id = tk_token_id t,
             pv_action_type = tk_action_type t, pv_target_id = tk_target_id t,
             pv_parameters_sha256 = sha256_json (tk_permitted_parameters t), pv_status = Failed,
             pv_expected_state = JObj [(''action_type'', JStr (tk_action_type t)),
               (''target_id'', JStr (tk_target_id t)), (''last_action_id'', JStr (br_attempt_id r))],
             pv_observed_state = JObj [], pv_changed_fields = [], pv_unexpected_fields = [],
             pv_rollback_required = False, pv_reason_codes = [''TARGET_OBSERVATION_UNAVAILABLE'']\<rparr>
      in case observe_state (tk_target_id t) w of
          Inl _ \<Rightarrow> (Inr base, count_metric record_verification_failure w)
        | Inr observed \<Rightarrow>
            (let reasons = called @ observation_reasons t permitted r observed w;
                 changed = changed_fields before (sim_state_members observed);
                 unexpected = filter (\<lambda>k. k \<notin> set allowed_changes) changed;
                 state_changed = (\<not> py_eq (sim_state_to_dict observed) (JObj before))
             in case and_then (expected_expiry t r) (\<lambda>expiry.
                     and_then (verification_verdict t r reasons state_changed unexpected expiry observed) (\<lambda>verdict.
                     Inr (expiry, verdict))) of
                  Inl e \<Rightarrow> (Inl e, w)
                | Inr (expiry, status, rollback, verdict) \<Rightarrow>
                    (Inr (base\<lparr>pv_status := status, pv_expected_state := expected_state t r expiry,
                          pv_observed_state := sim_state_to_dict observed, pv_changed_fields := changed,
                          pv_unexpected_fields := unexpected, pv_rollback_required := rollback,
                          pv_reason_codes := ordered_unique_acc [] verdict\<rparr>),
                     if status \<noteq> Verified then count_metric record_verification_failure w else w)))"

subsection \<open>What the broker does\<close>

lemma count_metric_frame [simp]:
  "sw_states (count_metric f w) = sw_states w" "sw_bindings (count_metric f w) = sw_bindings w"
  "aw_ledger (sw_auth (count_metric f w)) = aw_ledger (sw_auth w)"
  by (simp_all add: count_metric_def)

lemma broker_refuse_frame:
  "broker_refuse e w = (res, w') \<Longrightarrow> res = Inl e \<and> sw_states w' = sw_states w \<and> aw_ledger (sw_auth w') = aw_ledger (sw_auth w)"
  by (auto simp: broker_refuse_def)

lemma receipt_keeps_auth:
  "gate_record_receipt lnow a rc dg tm w = (res, w') \<Longrightarrow> auth_of (aw_ledger w') i = auth_of (aw_ledger w) i"
  by (auto simp: gate_record_receipt_def record_adapter_receipt_def auth_of_def split: sum.splits option.splits)

lemma finish_frame:
  assumes "finish_execution bd lnow t a at' (action, target, ps) before w = (res, w')"
  shows "sw_states w' = dict_set target (snd (apply_transition bd t a at' (action, target, ps) before)) (sw_states w)"
    "auth_of (aw_ledger (sw_auth w')) i = auth_of (aw_ledger (sw_auth w)) i"
proof -
  obtain out after where tr: "apply_transition bd t a at' (action, target, ps) before = (out, after)"
    by (cases "apply_transition bd t a at' (action, target, ps) before") auto
  show "sw_states w' = dict_set target (snd (apply_transition bd t a at' (action, target, ps) before)) (sw_states w)"
    using assms unfolding tr
    by (auto simp: finish_execution_def tr Let_def split: transition.splits prod.splits sum.splits)
  show "auth_of (aw_ledger (sw_auth w')) i = auth_of (aw_ledger (sw_auth w)) i"
    using assms
    by (auto simp: finish_execution_def tr Let_def dest!: receipt_keeps_auth [of _ _ _ _ _ _ _ _ i]
        split: transition.splits prod.splits sum.splits)
qed

text \<open>Every call either stops before the token is spent, with ledger and targets as they were, or spends
  it and goes through the transition.\<close>

lemma authorize_cases:
  assumes "authorize_and_execute bd lnow a clock c w = (res, w')"
  obtains (stopped) e where "res = Inl e" "sw_states w' = sw_states w" "aw_ledger (sw_auth w') = aw_ledger (sw_auth w)"
  | (spent) t action target ps before auth key where "ex_token c = Some t"
    "normalize_command (ex_command c) = Some (action, target, ps)" "map_of (sw_states w) target = Some before"
    "a \<noteq> []" "a \<notin> fst ` set (sw_bindings w)"
    "validate_and_consume (bd_gate bd) lnow (whole_second clock) t
       (call_bindings c (action, target, ps) (sha256_json (sim_state_to_dict before))) (Some a) (Some key) (Some key)
       (ex_recovery_summary c) (sw_auth w) = (Inr (), auth)"
    "finish_execution bd lnow t a (whole_second clock) (action, target, ps) before
       (w\<lparr>sw_bindings := dict_set a None (sw_bindings w), sw_auth := auth\<rparr>) = (res, w')"
proof (cases "ex_token c")
  case None
  then show thesis using assms stopped by (auto simp: authorize_and_execute_def dest: broker_refuse_frame)
next
  case t: (Some t)
  show thesis
  proof (cases "normalize_command (ex_command c)")
    case None
    then show thesis using assms t stopped by (auto simp: authorize_and_execute_def dest: broker_refuse_frame)
  next
    case cmd: (Some cmd)
    obtain action target ps where c3: "cmd = (action, target, ps)" by (cases cmd) auto
    show thesis
    proof (cases "map_of (sw_states w) target")
      case None
      then show thesis using assms t cmd c3 stopped
        by (auto simp: authorize_and_execute_def observe_state_def dest: broker_refuse_frame)
    next
      case before: (Some before)
      show thesis
      proof (cases "a = [] \<or> a \<in> fst ` set (sw_bindings w)")
        case True
        then show thesis using assms t cmd c3 before stopped
          by (auto simp: authorize_and_execute_def observe_state_def Let_def split: if_splits)
      next
        case fresh: False
        let ?key = "sha256_json (attempt_binding c t (action, target, ps) (sha256_json (sim_state_to_dict before)))"
        obtain consumed auth where v: "validate_and_consume (bd_gate bd) lnow (whole_second clock) t
            (call_bindings c (action, target, ps) (sha256_json (sim_state_to_dict before))) (Some a) (Some ?key) (Some ?key)
            (ex_recovery_summary c) (sw_auth w) = (consumed, auth)"
          by (cases "validate_and_consume (bd_gate bd) lnow (whole_second clock) t
            (call_bindings c (action, target, ps) (sha256_json (sim_state_to_dict before))) (Some a) (Some ?key) (Some ?key)
            (ex_recovery_summary c) (sw_auth w)")
        note step = assms [unfolded authorize_and_execute_def t option.case cmd c3 observe_state_def before Let_def split_conv
            sum.case if_not_P [OF fresh [simplified de_Morgan_disj, THEN conjunct1]]
            if_not_P [OF fresh [simplified de_Morgan_disj, THEN conjunct2]]]
        show thesis
        proof (cases consumed)
          case (Inl e)
          with v have "aw_ledger auth = aw_ledger (sw_auth w)" using validate_and_consume_Inl by simp
          with step v Inl show thesis by (intro stopped [of e]) (auto split: if_splits)
        next
          case (Inr u)
          with step v fresh show thesis by (intro spent [OF t _ before, of action ps ?key auth]) (auto simp: cmd c3)
        qed
      qed
    qed
  qed
qed

text \<open>The transition itself.\<close>

lemma apply_transition_changes:
  assumes "snd (apply_transition bd t a at' (action, target, ps) s) \<noteq> s"
  shows "sha256_json (sim_state_to_dict s) = tk_target_state_sha256 t" "action = ''NETWORK_ISOLATE''"
    "ss_network_state (snd (apply_transition bd t a at' (action, target, ps) s)) = ''isolated''"
    "ss_last_action_id (snd (apply_transition bd t a at' (action, target, ps) s)) = Some a"
    "ss_target_id (snd (apply_transition bd t a at' (action, target, ps) s)) = ss_target_id s"
  using assms
  by (auto simp: apply_transition_def Let_def split: if_splits sum.splits)

lemma dict_set_present: "map_of d k = Some v \<Longrightarrow> dict_set k v d = d"
  by (induction d) auto

text \<open>Only a spent token changes a target, and only the one it names.\<close>

lemma effect_facts:
  assumes "authorize_and_execute bd lnow a clock c w = (res, w')" "sw_states w' \<noteq> sw_states w"
  obtains t action target ps s s' where "ex_token c = Some t"
    "normalize_command (ex_command c) = Some (action, target, ps)" "map_of (sw_states w) target = Some s"
    "sw_states w' = dict_set target s' (sw_states w)" "s' \<noteq> s" "ss_network_state s' = ''isolated''"
    "ss_last_action_id s' = Some a" "action = ''NETWORK_ISOLATE''"
    "sha256_json (sim_state_to_dict s) = tk_target_state_sha256 t"
    "validate_token (bd_gate bd) (whole_second clock) t
       (call_bindings c (action, target, ps) (sha256_json (sim_state_to_dict s))) (aw_ledger (sw_auth w)) = Inr ()"
    "auth_of (aw_ledger (sw_auth w)) (tk_token_id t) = Some Issued"
    "auth_of (aw_ledger (sw_auth w')) (tk_token_id t) = Some Consumed"
    "\<forall>i. i \<noteq> tk_token_id t \<longrightarrow> auth_of (aw_ledger (sw_auth w')) i = auth_of (aw_ledger (sw_auth w)) i"
  using assms(1)
proof (cases rule: authorize_cases)
  case stopped
  then show thesis using assms(2) by simp
next
  case (spent t action target ps s auth key)
  let ?s' = "snd (apply_transition bd t a (whole_second clock) (action, target, ps) s)"
  note f = finish_frame [OF spent(7)]
  have states: "sw_states w' = dict_set target ?s' (sw_states w)" using f(1) by simp
  then have new: "?s' \<noteq> s" using assms(2) dict_set_present [OF spent(3)] by metis
  obtain l where l: "validate_token (bd_gate bd) (whole_second clock) t
       (call_bindings c (action, target, ps) (sha256_json (sim_state_to_dict s))) (aw_ledger (sw_auth w)) = Inr ()"
    "consume_once lnow (tk_token_id t) (Some a) (Some key) (Some (isoformat (whole_second (whole_second clock)))) (Some key)
      (ex_recovery_summary c) (aw_ledger (sw_auth w)) = Inr l"
    "auth = (sw_auth w)\<lparr>aw_ledger := l\<rparr>"
    by (rule validate_and_consume_Inr [OF spent(6)])
  have "\<And>i. auth_of (aw_ledger (sw_auth w')) i = auth_of l i" using f(2) l(3) by simp
  then show thesis
    using that [OF spent(1-3) states new] apply_transition_changes [OF new] l(1) consume_once_facts [OF l(2)] by metis
qed

subsection \<open>Runs of the boundary\<close>

text \<open>
  The calls a client can make on one boundary, with any arguments: issue, execute, verify. A run
  from the initial world collects its events; \<open>Effect\<close> marks an execution that changed the target store.
\<close>

datatype protocol_event =
    TokenIssued decision_record decision_verification authorization_token
  | Effect authorization_token pystr
  | Quiet

inductive protocol_step :: "boundary \<Rightarrow> sim_world \<Rightarrow> protocol_event \<Rightarrow> sim_world \<Rightarrow> bool" for bd where
  issued: "issue (bd_gate bd) lnow i n clock d agent ts v (sw_auth w) = (Inr t, auth) \<Longrightarrow>
     protocol_step bd w (TokenIssued d v t) (w\<lparr>sw_auth := auth\<rparr>)"
| not_issued: "issue (bd_gate bd) lnow i n clock d agent ts v (sw_auth w) = (Inl e, auth) \<Longrightarrow>
     protocol_step bd w Quiet (w\<lparr>sw_auth := auth\<rparr>)"
| effect: "authorize_and_execute bd lnow a clock c w = (res, w') \<Longrightarrow> sw_states w' \<noteq> sw_states w \<Longrightarrow>
     ex_token c = Some t \<Longrightarrow> protocol_step bd w (Effect t target) w'"
  if "map_of (sw_states w') target \<noteq> map_of (sw_states w) target"
| no_effect: "authorize_and_execute bd lnow a clock c w = (res, w') \<Longrightarrow> sw_states w' = sw_states w \<Longrightarrow>
     protocol_step bd w Quiet w'"
| verified: "verify_execution vid t cmd rid did r before w = (res, w') \<Longrightarrow> protocol_step bd w Quiet w'"

inductive protocol_run :: "boundary \<Rightarrow> sim_world \<Rightarrow> protocol_event list \<Rightarrow> sim_world \<Rightarrow> bool" for bd w0 where
  start: "protocol_run bd w0 [] w0"
| extend: "protocol_run bd w0 es w \<Longrightarrow> protocol_step bd w e w' \<Longrightarrow> protocol_run bd w0 (es @ [e]) w'"

definition effects_of :: "pystr \<Rightarrow> protocol_event list \<Rightarrow> nat" where
  "effects_of i es = length (filter (\<lambda>e. \<exists>t x. e = Effect t x \<and> tk_token_id t = i) es)"

definition issued_by :: "pystr \<Rightarrow> protocol_event list \<Rightarrow> bool" where
  "issued_by i es \<longleftrightarrow> (\<exists>d v t. TokenIssued d v t \<in> set es \<and> tk_token_id t = i \<and> dv_passed v
     \<and> dv_decision_sha256 v = authorization_sha256 d \<and> dn_outcome d \<in> set automatic_outcomes)"

lemma verify_frame:
  "verify_execution vid t cmd rid did r before w = (res, w') \<Longrightarrow>
     sw_states w' = sw_states w \<and> aw_ledger (sw_auth w') = aw_ledger (sw_auth w)"
  by (auto simp: verify_execution_def Let_def split: sum.splits if_splits)

lemma authorize_auth:
  assumes "authorize_and_execute bd lnow a clock c w = (res, w')"
  shows "(\<forall>i. auth_of (aw_ledger (sw_auth w')) i = auth_of (aw_ledger (sw_auth w)) i) \<or>
    (\<exists>t. ex_token c = Some t \<and> auth_of (aw_ledger (sw_auth w)) (tk_token_id t) = Some Issued
       \<and> auth_of (aw_ledger (sw_auth w')) (tk_token_id t) = Some Consumed
       \<and> (\<forall>i. i \<noteq> tk_token_id t \<longrightarrow> auth_of (aw_ledger (sw_auth w')) i = auth_of (aw_ledger (sw_auth w)) i))"
  using assms
proof (cases rule: authorize_cases)
  case (spent t action target ps s auth key)
  note f = finish_frame(2) [OF spent(7)]
  obtain l where l: "consume_once lnow (tk_token_id t) (Some a) (Some key)
      (Some (isoformat (whole_second (whole_second clock)))) (Some key)
      (ex_recovery_summary c) (aw_ledger (sw_auth w)) = Inr l" "auth = (sw_auth w)\<lparr>aw_ledger := l\<rparr>"
    using validate_and_consume_Inr [OF spent(6)] by metis
  then show ?thesis using spent(1) f consume_once_facts [OF l(1)] by simp
qed simp

definition protocol_inv :: "protocol_event list \<Rightarrow> sim_world \<Rightarrow> bool" where
  "protocol_inv es w \<longleftrightarrow>
     (\<forall>i. (auth_of (aw_ledger (sw_auth w)) i \<noteq> None \<longrightarrow> issued_by i es)
        \<and> effects_of i es \<le> (if auth_of (aw_ledger (sw_auth w)) i = Some Consumed then 1 else 0))"

lemma events_snoc [simp]:
  "effects_of i (es @ [TokenIssued d v t]) = effects_of i es" "effects_of i (es @ [Quiet]) = effects_of i es"
  "effects_of i (es @ [Effect t x]) = effects_of i es + (if tk_token_id t = i then 1 else 0)"
  "issued_by i (es @ [Quiet]) = issued_by i es" "issued_by i (es @ [Effect t x]) = issued_by i es"
  by (auto simp: effects_of_def issued_by_def)

lemma issued_by_mono: "issued_by i es \<Longrightarrow> issued_by i (es @ es')"
  by (auto simp: issued_by_def)

lemma protocol_inv_same:
  "protocol_inv es w \<Longrightarrow> \<forall>i. auth_of (aw_ledger (sw_auth w')) i = auth_of (aw_ledger (sw_auth w)) i \<Longrightarrow>
     protocol_inv (es @ [Quiet]) w'"
  by (simp add: protocol_inv_def)

lemma protocol_inv_consumed:
  assumes "protocol_inv es w" "auth_of (aw_ledger (sw_auth w)) k = Some Issued"
    "auth_of (aw_ledger (sw_auth w')) k = Some Consumed"
    "\<forall>i. i \<noteq> k \<longrightarrow> auth_of (aw_ledger (sw_auth w')) i = auth_of (aw_ledger (sw_auth w)) i"
    "e = Quiet \<or> (\<exists>t x. e = Effect t x \<and> tk_token_id t = k)"
  shows "protocol_inv (es @ [e]) w'"
  unfolding protocol_inv_def
proof (intro allI)
  fix i
  have old: "auth_of (aw_ledger (sw_auth w)) i \<noteq> None \<longrightarrow> issued_by i es"
    "effects_of i es \<le> (if auth_of (aw_ledger (sw_auth w)) i = Some Consumed then 1 else 0)"
    using assms(1) unfolding protocol_inv_def by blast+
  show "(auth_of (aw_ledger (sw_auth w')) i \<noteq> None \<longrightarrow> issued_by i (es @ [e]))
      \<and> effects_of i (es @ [e]) \<le> (if auth_of (aw_ledger (sw_auth w')) i = Some Consumed then 1 else 0)"
    using old assms(2-5) by (cases "i = k") auto
qed

lemma protocol_step_inv:
  assumes "protocol_step bd w e w'" "protocol_inv es w"
  shows "protocol_inv (es @ [e]) w'"
  using assms(1)
proof cases
  case (issued lnow i n clock d agent ts v t auth)
  obtain l where l: "dn_outcome d \<in> set automatic_outcomes"
    "verification_bound (bd_gate bd) (whole_second clock) d agent v = Inr True"
    "register lnow i (Some (dv_verification_id v)) (Some (dn_decision_id d)) (Some (tk_issued_at t)) (aw_ledger (sw_auth w)) = Inr l"
    "auth = (sw_auth w)\<lparr>aw_ledger := l\<rparr>" "tk_token_id t = i"
    using issue_Inr [OF issued(3)] draft_token_Inr(1) by metis
  have new: "issued_by i (es @ [e])"
    using l verification_bound_True(3,5) [OF l(2)] issued(1) by (auto simp: issued_by_def)
  note reg = register_facts [OF l(3)]
  show ?thesis
    unfolding protocol_inv_def
  proof (intro allI)
    fix j
    have old: "auth_of (aw_ledger (sw_auth w)) j \<noteq> None \<longrightarrow> issued_by j es"
      "effects_of j es \<le> (if auth_of (aw_ledger (sw_auth w)) j = Some Consumed then 1 else 0)"
      using assms(2) unfolding protocol_inv_def by blast+
    show "(auth_of (aw_ledger (sw_auth w')) j \<noteq> None \<longrightarrow> issued_by j (es @ [e]))
        \<and> effects_of j (es @ [e]) \<le> (if auth_of (aw_ledger (sw_auth w')) j = Some Consumed then 1 else 0)"
      using old new reg issued(1,2) l(4) by (cases "j = i") (auto intro: issued_by_mono)
  qed
next
  case (not_issued lnow i n clock d agent ts v e' auth)
  then have "aw_ledger auth = aw_ledger (sw_auth w)" using issue_Inl by blast
  then show ?thesis using protocol_inv_same [OF assms(2)] not_issued(1,2) by simp
next
  case (effect target lnow a clock c res t)
  obtain t' where "ex_token c = Some t'" "auth_of (aw_ledger (sw_auth w)) (tk_token_id t') = Some Issued"
    "auth_of (aw_ledger (sw_auth w')) (tk_token_id t') = Some Consumed"
    "\<forall>i. i \<noteq> tk_token_id t' \<longrightarrow> auth_of (aw_ledger (sw_auth w')) i = auth_of (aw_ledger (sw_auth w)) i"
    using effect_facts [OF effect(3,4)] by metis
  with protocol_inv_consumed [OF assms(2)] effect(1,5) show ?thesis by auto
next
  case (no_effect lnow a clock c res)
  then show ?thesis
    using authorize_auth [OF no_effect(2)] protocol_inv_same [OF assms(2)] protocol_inv_consumed [OF assms(2)] by blast
next
  case (verified vid t cmd rid did r before res)
  then have "aw_ledger (sw_auth w') = aw_ledger (sw_auth w)" using verify_frame by blast
  then show ?thesis using protocol_inv_same [OF assms(2)] verified(1) by simp
qed

lemma protocol_run_inv:
  assumes "protocol_run bd w0 es w" "aw_ledger (sw_auth w0) = empty_ledger"
  shows "protocol_inv es w"
  using assms(1)
proof (induction rule: protocol_run.induct)
  case start
  then show ?case using assms(2) by (simp add: protocol_inv_def effects_of_def auth_of_def empty_ledger_def)
next
  case (extend es w e w')
  then show ?case using protocol_step_inv by blast
qed

subsection \<open>Execution followed by verification\<close>

text \<open>What a successful execution reports and leaves behind.\<close>

lemma execute_Inr:
  assumes "authorize_and_execute bd lnow a clock c w = (Inr r, w')" "ex_token c = Some t"
    "normalize_command (ex_command c) = Some (action, target, ps)"
  obtains s s' out success where "map_of (sw_states w) target = Some s" "a \<noteq> []"
    "apply_transition bd t a (whole_second clock) (action, target, ps) s = (out, s')"
    "out = Applied success (br_message r) \<or> out = Rejected (br_message r) \<and> \<not> success"
    "sw_states w' = dict_set target s' (sw_states w)"
    "br_attempt_id r = a" "br_token_id r = tk_token_id t" "br_request_id r = tk_request_id t"
    "br_decision_id r = tk_decision_id t" "br_action_type r = action" "br_target_id r = target"
    "br_parameters r = ps" "br_executed_at r = isoformat (whole_second clock)" "br_attempted r" "br_accepted r"
    "br_reported_success r = success"
    "br_state_before_sha256 r = sha256_json (sim_state_to_dict s)"
    "br_state_after_sha256 r = sha256_json (sim_state_to_dict s')"
    "map_of (sw_bindings w') a = Some (Some (origin_digest t (action, target, ps) r))"
    "validate_token (bd_gate bd) (whole_second clock) t
       (call_bindings c (action, target, ps) (sha256_json (sim_state_to_dict s))) (aw_ledger (sw_auth w)) = Inr ()"
  using assms(1)
proof (cases rule: authorize_cases)
  case (spent t0 action0 target0 ps0 s auth key)
  have eqs: "t0 = t" "action0 = action" "target0 = target" "ps0 = ps" using spent(1,2) assms(2,3) by simp_all
  obtain out s' where tr: "apply_transition bd t a (whole_second clock) (action, target, ps) s = (out, s')"
    by (cases "apply_transition bd t a (whole_second clock) (action, target, ps) s") auto
  have v: "validate_token (bd_gate bd) (whole_second clock) t
       (call_bindings c (action, target, ps) (sha256_json (sim_state_to_dict s))) (aw_ledger (sw_auth w)) = Inr ()"
    using validate_and_consume_Inr [OF spent(6)] eqs by metis
  show thesis
    using spent(7) spent(3,4) v unfolding eqs
    by (cases out; intro that [OF _ _ tr])
      (auto simp: finish_execution_def tr Let_def map_of_dict_set split: prod.splits sum.splits)
qed simp

text \<open>The reasons of the verifier are empty for an honest record.\<close>

lemma honest_reasons:
  assumes "normalize_command cmd = Some (tk_action_type t, tk_target_id t, tk_permitted_parameters t)"
    "json_keys_distinct (tk_permitted_parameters t)"
    "br_token_id r = tk_token_id t" "br_request_id r = tk_request_id t" "br_decision_id r = tk_decision_id t"
    "br_action_type r = tk_action_type t" "br_target_id r = tk_target_id t"
    "br_parameters r = tk_permitted_parameters t" "br_attempted r" "br_accepted r" "br_attempt_id r \<noteq> []"
    "execution_times t r = Some (executed, issued, expires)" "issued \<le> executed" "executed < expires"
    "tk_target_state_sha256 t = before" "br_state_before_sha256 r = before"
  shows "call_reasons t (normalize_command cmd) (tk_request_id t) (tk_decision_id t) r before = []"
  using assms by (simp add: call_reasons_def py_eq_refl)

lemma state_keys_distinct [simp]: "json_keys_distinct (sim_state_to_dict s)"
  by (simp add: sim_state_to_dict_def sim_state_members_def jopt_def split: option.splits)

lemma obj_get_state [simp]:
  "obj_get (sim_state_members s) ''target_id'' = JStr (ss_target_id s)"
  "obj_get (sim_state_members s) ''target_type'' = JStr (ss_target_type s)"
  "obj_get (sim_state_members s) ''network_state'' = JStr (ss_network_state s)"
  "obj_get (sim_state_members s) ''management_channel'' = JBool (ss_management_channel s)"
  "obj_get (sim_state_members s) ''isolation_expires_at'' = jopt (ss_isolation_expires_at s)"
  "obj_get (sim_state_members s) ''service_health'' = JStr (ss_service_health s)"
  "obj_get (sim_state_members s) ''last_action_id'' = jopt (ss_last_action_id s)"
  by (simp_all add: obj_get_def sim_state_members_def)

lemma unexpected_fields_iff:
  "filter (\<lambda>k. k \<notin> set allowed_changes) (changed_fields (sim_state_members s) (sim_state_members s')) = [] \<longleftrightarrow>
     ss_target_id s' = ss_target_id s \<and> ss_target_type s' = ss_target_type s \<and> ss_service_health s' = ss_service_health s"
proof -
  have keys: "map fst (sim_state_members s) = [''target_id'', ''target_type'', ''network_state'', ''management_channel'',
      ''isolation_expires_at'', ''service_health'', ''last_action_id'']" for s
    by (simp add: sim_state_members_def)
  show ?thesis
    unfolding changed_fields_def keys filter_empty_conv set_sort set_remdups
    by (simp add: allowed_changes_def)
qed

text \<open>The status a fault mode leads to.\<close>

definition fault_status :: "pystr \<Rightarrow> verification_status" where
  "fault_status fault =
     (if fault = ''FAILED'' then Failed else if fault = ''PARTIAL'' then Partial
      else if fault = ''UNEXPECTED_EFFECT'' then UnexpectedEffect else Verified)"

lemma apply_transition_applied:
  fixes bd :: boundary and s :: sim_state and a target :: pystr and at' d :: int and p :: bool
  assumes "sha256_json (sim_state_to_dict s) = tk_target_state_sha256 t"
    "map_of (members ps) ''duration_seconds'' = Some (JInt d)" "map_of (members ps) ''preserve_management'' = Some (JBool p)"
    "representable (at' + d * micros)"
  defines "fault \<equiv> (case map_of (bd_faults bd) target of Some m \<Rightarrow> m | None \<Rightarrow> ''NONE'')"
  defines "s1 \<equiv> s\<lparr>ss_last_action_id := Some a, ss_network_state := ''isolated''\<rparr>"
  defines "s3 \<equiv> s1\<lparr>ss_management_channel := p, ss_isolation_expires_at := Some (isoformat (whole_second (at' + d * micros)))\<rparr>"
  shows "\<exists>m. apply_transition bd t a at' (''NETWORK_ISOLATE'', target, ps) s =
     (if fault = ''FAILED'' then (Applied False m, s)
      else if fault = ''PARTIAL'' then (Applied True m, s1\<lparr>ss_isolation_expires_at := None\<rparr>)
      else if fault = ''UNEXPECTED_EFFECT'' then (Applied True m, s3\<lparr>ss_service_health := ''degraded''\<rparr>)
      else (Applied True m, s3))"
  unfolding apply_transition_def fault_def [symmetric] split_conv s1_def s3_def
  using assms(1-4) by (auto simp: key_of_def Let_def)

lemma utc_parse: "parse_timestamp code x = Inr t \<Longrightarrow> utc_instant x = Some t"
  by (auto simp: parse_timestamp_def utc_instant_def split: option.splits if_splits)

lemma utc_isoformat [simp]: "representable t \<Longrightarrow> utc_instant (isoformat t) = Some t"
  by (simp add: utc_instant_def fromisoformat_isoformat)

lemma changed_iff: "py_eq (sim_state_to_dict s) (JObj (sim_state_members s))"
  using py_eq_refl [OF state_keys_distinct [of s]] by (simp only: sim_state_to_dict_def)

lemma execute_verify_status:
  assumes exec: "authorize_and_execute bd lnow a clock c w = (Inr r, w')" "ex_token c = Some t"
    and cmd: "normalize_command (ex_command c) = Some (''NETWORK_ISOLATE'', tk_target_id t, tk_permitted_parameters t)"
    and ps: "map_of (members (tk_permitted_parameters t)) ''duration_seconds'' = Some (JInt d)"
      "map_of (members (tk_permitted_parameters t)) ''preserve_management'' = Some (JBool p)"
      "json_keys_distinct (tk_permitted_parameters t)"
    and time: "representable clock" "representable (whole_second clock + d * micros)"
    and s: "map_of (sw_states w) (tk_target_id t) = Some s" "ss_service_health s \<noteq> ''degraded''"
      "ss_last_action_id s \<noteq> Some a"
  defines "fault \<equiv> (case map_of (bd_faults bd) (tk_target_id t) of Some m \<Rightarrow> m | None \<Rightarrow> ''NONE'')"
  shows "\<exists>v w2. verify_execution vid t (ex_command c) (ex_request_id c) (ex_decision_id c) r (sim_state_to_dict s) w' = (Inr v, w2)
     \<and> pv_status v = fault_status fault \<and> (pv_rollback_required v \<longleftrightarrow> fault \<in> {''PARTIAL'', ''UNEXPECTED_EFFECT''})"
proof -
  obtain s0 s' out success where x: "map_of (sw_states w) (tk_target_id t) = Some s0" "a \<noteq> []"
    "apply_transition bd t a (whole_second clock) (''NETWORK_ISOLATE'', tk_target_id t, tk_permitted_parameters t) s0 = (out, s')"
    "out = Applied success (br_message r) \<or> out = Rejected (br_message r) \<and> \<not> success"
    "sw_states w' = dict_set (tk_target_id t) s' (sw_states w)"
    "br_attempt_id r = a" "br_token_id r = tk_token_id t" "br_request_id r = tk_request_id t"
    "br_decision_id r = tk_decision_id t" "br_action_type r = ''NETWORK_ISOLATE''" "br_target_id r = tk_target_id t"
    "br_parameters r = tk_permitted_parameters t" "br_executed_at r = isoformat (whole_second clock)" "br_attempted r"
    "br_accepted r" "br_reported_success r = success" "br_state_before_sha256 r = sha256_json (sim_state_to_dict s0)"
    "br_state_after_sha256 r = sha256_json (sim_state_to_dict s')"
    "map_of (sw_bindings w') a = Some (Some (origin_digest t (''NETWORK_ISOLATE'', tk_target_id t, tk_permitted_parameters t) r))"
    "validate_token (bd_gate bd) (whole_second clock) t (call_bindings c (''NETWORK_ISOLATE'', tk_target_id t,
       tk_permitted_parameters t) (sha256_json (sim_state_to_dict s0))) (aw_ledger (sw_auth w)) = Inr ()"
    by (rule execute_Inr [OF exec cmd])
  have s0: "s0 = s" using x(1) s(1) by simp
  note v = validate_token_Inr [OF x(20)]
  have bind: "tk_request_id t = ex_request_id c" "tk_decision_id t = ex_decision_id c" "tk_action_type t = ''NETWORK_ISOLATE''"
    "tk_target_state_sha256 t = sha256_json (sim_state_to_dict s)"
    using v(4) unfolding s0 by (simp_all add: token_binding_checks_def call_bindings_def)
  obtain issued expires where times: "utc_instant (tk_issued_at t) = Some issued" "utc_instant (tk_expires_at t) = Some expires"
    "issued \<le> whole_second clock" "whole_second clock < expires"
    using v(5) utc_parse by metis
  have executed: "execution_times t r = Some (whole_second clock, issued, expires)"
    using times(1,2) representable_whole_second [OF time(1)] by (simp add: execution_times_def x(13))
  have called: "call_reasons t (normalize_command (ex_command c)) (ex_request_id c) (ex_decision_id c) r
      (sha256_json (JObj (members (sim_state_to_dict s)))) = []"
    unfolding bind(1,2) [symmetric]
    by (rule honest_reasons [OF _ ps(3) x(7-9) _ x(11,12) x(14,15) _ executed times(3,4)])
      (simp_all add: cmd x bind s0 members_def sim_state_to_dict_def)
  have observed: "observe_state (tk_target_id t) w' = Inr s'"
    by (simp add: observe_state_def x(5) map_of_dict_set)
  let ?expiry = "isoformat (whole_second (whole_second clock + d * micros))"
  have expiry: "expected_expiry t r = Inr (Some ?expiry)"
    using time(2) by (simp add: expected_expiry_def executed key_of_def ps)
  have origin: "observation_reasons t (normalize_command (ex_command c)) r s' w'
      = (if ss_last_action_id s' \<noteq> Some a then [''VERIFICATION_ATTEMPT_STATE_MISMATCH''] else [])"
    by (simp add: observation_reasons_def x cmd)
  obtain m where tr: "(out, s') =
     (if fault = ''FAILED'' then (Applied False m, s)
      else if fault = ''PARTIAL'' then (Applied True m, s\<lparr>ss_last_action_id := Some a, ss_network_state := ''isolated'',
          ss_isolation_expires_at := None\<rparr>)
      else if fault = ''UNEXPECTED_EFFECT'' then (Applied True m, s\<lparr>ss_last_action_id := Some a,
          ss_network_state := ''isolated'', ss_management_channel := p, ss_isolation_expires_at := Some ?expiry,
          ss_service_health := ''degraded''\<rparr>)
      else (Applied True m, s\<lparr>ss_last_action_id := Some a, ss_network_state := ''isolated'',
          ss_management_channel := p, ss_isolation_expires_at := Some ?expiry\<rparr>))"
    using apply_transition_applied [OF bind(4) [symmetric] ps(1,2) time(2), of bd a "tk_target_id t"] x(3)
    unfolding fault_def s0 by auto
  have verdict: "\<exists>verdict. verification_verdict t r
       (observation_reasons t (normalize_command (ex_command c)) r s' w')
       (\<not> py_eq (sim_state_to_dict s') (JObj (sim_state_members s)))
       (filter (\<lambda>k. k \<notin> set allowed_changes) (changed_fields (sim_state_members s) (sim_state_members s')))
       (Some ?expiry) s' = Inr (fault_status fault, fault \<in> {''PARTIAL'', ''UNEXPECTED_EFFECT''}, verdict)"
  proof (cases "fault = ''FAILED''")
    case True
    then have same: "s' = s" using tr by simp
    show ?thesis
      unfolding origin unfolding same using True s(3) by (simp add: verification_verdict_def changed_iff fault_status_def)
  next
    case False
    then have last: "ss_last_action_id s' = Some a" and net: "ss_network_state s' = ''isolated''" and "success"
      using tr x(4) by (auto split: if_splits)
    moreover have "filter (\<lambda>k. k \<notin> set allowed_changes) (changed_fields (sim_state_members s) (sim_state_members s')) = []
        \<longleftrightarrow> fault \<noteq> ''UNEXPECTED_EFFECT''"
      unfolding unexpected_fields_iff using tr False s(2) by (auto split: if_splits)
    moreover have "fault = ''PARTIAL'' \<Longrightarrow> ss_isolation_expires_at s' = None"
      "fault \<noteq> ''PARTIAL'' \<Longrightarrow> ss_isolation_expires_at s' = Some ?expiry \<and> ss_management_channel s' = p"
      using tr False by (auto split: if_splits)
    ultimately show ?thesis
      using False by (simp add: verification_verdict_def origin bind(3) key_of_def ps transition_checks_def x(6,16)
          fault_status_def)
  qed
  then obtain verdict where verdict: "verification_verdict t r
       (observation_reasons t (normalize_command (ex_command c)) r s' w')
       (\<not> py_eq (sim_state_to_dict s') (JObj (sim_state_members s)))
       (filter (\<lambda>k. k \<notin> set allowed_changes) (changed_fields (sim_state_members s) (sim_state_members s')))
       (Some ?expiry) s' = Inr (fault_status fault, fault \<in> {''PARTIAL'', ''UNEXPECTED_EFFECT''}, verdict)"
    by blast
  have "members (sim_state_to_dict s) = sim_state_members s" by (simp add: members_def sim_state_to_dict_def)
  then show ?thesis
    using called verdict unfolding verify_execution_def Let_def observed expiry
    by simp
qed

subsection \<open>Properties\<close>

lemma boundary_effect:
  assumes "authorize_and_execute bd lnow a clock c w = (res, w')"
    "map_of (sw_states w') x \<noteq> map_of (sw_states w) x"
  shows "(\<exists>t s. ex_token c = Some t \<and> tk_signature t = hmac_json (gt_signing_key (bd_gate bd)) (token_unsigned_dict t)
       \<and> tk_target_id t = x \<and> tk_action_type t = ''NETWORK_ISOLATE''
       \<and> map_of (sw_states w) x = Some s \<and> sha256_json (sim_state_to_dict s) = tk_target_state_sha256 t
       \<and> (\<exists>expires. utc_instant (tk_expires_at t) = Some expires \<and> whole_second clock < expires)
       \<and> auth_of (aw_ledger (sw_auth w)) (tk_token_id t) = Some Issued
       \<and> auth_of (aw_ledger (sw_auth w')) (tk_token_id t) = Some Consumed)
    \<and> (\<forall>y. y \<noteq> x \<longrightarrow> map_of (sw_states w') y = map_of (sw_states w) y)"
proof -
  have "sw_states w' \<noteq> sw_states w" using assms(2) by metis
  with assms(1) obtain t action target ps s s' where f: "ex_token c = Some t"
    "map_of (sw_states w) target = Some s" "sw_states w' = dict_set target s' (sw_states w)" "action = ''NETWORK_ISOLATE''"
    "sha256_json (sim_state_to_dict s) = tk_target_state_sha256 t"
    "validate_token (bd_gate bd) (whole_second clock) t
       (call_bindings c (action, target, ps) (sha256_json (sim_state_to_dict s))) (aw_ledger (sw_auth w)) = Inr ()"
    "auth_of (aw_ledger (sw_auth w)) (tk_token_id t) = Some Issued"
    "auth_of (aw_ledger (sw_auth w')) (tk_token_id t) = Some Consumed"
    by (rule effect_facts)
  note v = validate_token_Inr [OF f(6)]
  have bind: "tk_target_id t = target" "tk_action_type t = ''NETWORK_ISOLATE''"
    using v(4) f(4) by (simp_all add: token_binding_checks_def call_bindings_def)
  have x: "x = target" using assms(2) f(3) by (auto simp: map_of_dict_set split: if_splits)
  have "\<forall>y. y \<noteq> x \<longrightarrow> map_of (sw_states w') y = map_of (sw_states w) y"
    using f(3) x by (simp add: map_of_dict_set)
  moreover have "\<exists>expires. utc_instant (tk_expires_at t) = Some expires \<and> whole_second clock < expires"
    using v(5) utc_parse by metis
  moreover note v(1) [unfolded token.authentic_iff]
  ultimately show ?thesis
    using f(1,2,5,7,8) bind unfolding x by (intro conjI exI [of _ t] exI [of _ s]) simp_all
qed

text \<open>C6. No effect without authority: whenever a call to the broker changes the state of some target, the call
  carried an authentic, unexpired token for NETWORK_ISOLATE on exactly that target in exactly the
  state it was authorized for; the token was Issued before and is Consumed after, and every other
  target keeps its state.\<close>

theorem effect_needs_authority:
  assumes "authorize_and_execute bd lnow a clock c w = (res, w')"
    "map_of (sw_states w') x \<noteq> map_of (sw_states w) x"
  shows "(\<exists>t s. ex_token c = Some t \<and> tk_signature t = hmac_json (gt_signing_key (bd_gate bd)) (token_unsigned_dict t)
       \<and> tk_target_id t = x \<and> tk_action_type t = ''NETWORK_ISOLATE''
       \<and> map_of (sw_states w) x = Some s \<and> sha256_json (sim_state_to_dict s) = tk_target_state_sha256 t
       \<and> (\<exists>expires. utc_instant (tk_expires_at t) = Some expires \<and> whole_second clock < expires)
       \<and> auth_of (aw_ledger (sw_auth w)) (tk_token_id t) = Some Issued
       \<and> auth_of (aw_ledger (sw_auth w')) (tk_token_id t) = Some Consumed)
    \<and> (\<forall>y. y \<noteq> x \<longrightarrow> map_of (sw_states w') y = map_of (sw_states w) y)"
  by (rule boundary_effect [OF assms])

text \<open>C7. Over every run of issues, executions and verifications with arbitrary arguments, starting from an
  empty ledger, each token changes a target at most once, and only after the gate issued that
  token for a decision whose verification passed.\<close>

theorem run_effects_authorized:
  assumes "protocol_run bd w0 es w" "aw_ledger (sw_auth w0) = empty_ledger"
  shows "effects_of i es \<le> 1 \<and> (effects_of i es > 0 \<longrightarrow> issued_by i es)"
proof -
  have "auth_of (aw_ledger (sw_auth w)) i \<noteq> None \<longrightarrow> issued_by i es"
    "effects_of i es \<le> (if auth_of (aw_ledger (sw_auth w)) i = Some Consumed then 1 else 0)"
    using protocol_run_inv [OF assms] unfolding protocol_inv_def by blast+
  then show ?thesis by (cases "auth_of (aw_ledger (sw_auth w)) i = Some Consumed") simp_all
qed

text \<open>Execution and read-back agree on every fault mode: an executed isolation is reported VERIFIED when
  nothing was injected, FAILED without rollback when the target did not act, PARTIAL with rollback
  on a partial transition, and UNEXPECTED_EFFECT with rollback when another field changed.\<close>

theorem execute_then_verify:
  assumes "authorize_and_execute bd lnow a clock c w = (Inr r, w')" "ex_token c = Some t"
    "normalize_command (ex_command c) = Some (''NETWORK_ISOLATE'', tk_target_id t, tk_permitted_parameters t)"
    "map_of (members (tk_permitted_parameters t)) ''duration_seconds'' = Some (JInt d)"
    "map_of (members (tk_permitted_parameters t)) ''preserve_management'' = Some (JBool p)"
    "json_keys_distinct (tk_permitted_parameters t)"
    "representable clock" "representable (whole_second clock + d * micros)"
    "map_of (sw_states w) (tk_target_id t) = Some s" "ss_service_health s \<noteq> ''degraded''"
    "ss_last_action_id s \<noteq> Some a"
  shows "\<exists>v w2. verify_execution vid t (ex_command c) (ex_request_id c) (ex_decision_id c) r (sim_state_to_dict s) w' = (Inr v, w2)
     \<and> pv_status v = fault_status (case map_of (bd_faults bd) (tk_target_id t) of Some m \<Rightarrow> m | None \<Rightarrow> ''NONE'')
     \<and> (pv_rollback_required v \<longleftrightarrow> (case map_of (bd_faults bd) (tk_target_id t) of Some m \<Rightarrow> m | None \<Rightarrow> ''NONE'')
          \<in> {''PARTIAL'', ''UNEXPECTED_EFFECT''})"
  by (rule execute_verify_status [OF assms])


subsection \<open>An executed isolation\<close>

definition sample_state :: sim_state where
  "sample_state = initial_state ''ws-1'' (sample_target ''ws-1'')"

definition sample_state_sha :: pystr where
  "sample_state_sha = sha256_json (sim_state_to_dict sample_state)"

definition sample_boundary :: boundary where
  "sample_boundary = \<lparr>bd_gate = sample_auth_gate, bd_faults = []\<rparr>"

definition sample_sim_world :: "auth_world \<Rightarrow> sim_world" where
  "sample_sim_world auth = \<lparr>sw_auth = auth, sw_states = [(''ws-1'', sample_state)], sw_bindings = []\<rparr>"

definition sample_call :: "authorization_token \<Rightarrow> execute_call" where
  "sample_call t =
     \<lparr>ex_token = Some t, ex_command = pyval_of (command_dict (''NETWORK_ISOLATE'', ''ws-1'', sample_command)),
      ex_request_id = tk_request_id t, ex_decision_id = tk_decision_id t, ex_agent_id = tk_agent_id t,
      ex_policy_id = tk_policy_id t, ex_policy_version = tk_policy_version t, ex_policy_sha256 = tk_policy_sha256 t,
      ex_decision_context_sha256 = tk_decision_context_sha256 t, ex_recovery_summary = None\<rparr>"

lemma sample_normalized:
  "normalize_command (ex_command (sample_call t)) = Some (''NETWORK_ISOLATE'', ''ws-1'', sample_command)"
  by (simp add: sample_call_def normalize_command_def command_dict_def command_keys_def sample_command_def)

lemma register_attempts:
  "register now t v d c l = Inr l' \<Longrightarrow> attempts l' = attempts l \<and> token_attempts l' = token_attempts l"
  by (auto simp: register_def)

lemma consume_reserves:
  assumes "auth_of l t = Some Issued" "map_of (attempts l) a = None" "map_of (token_attempts l) t = None"
    "is_identifier t" "is_identifier a" "is_sha256 key" "is_offset_timestamp tm"
  obtains l' row where "consume_once now t (Some a) (Some key) (Some tm) (Some key) None l = Inr l'"
    "map_of (attempts l') a = Some row" "at_state row = Reserved"
  using assms
  by (auto simp: consume_once_def check_consume_arguments_def check_reservation_def auth_of_def or_default_def is_sha256_def
      reserve_attempt_def append_event_def map_of_dict_set Let_def split: prod.splits)

lemma sample_token:
  obtains t w where "issue sample_auth_gate sample_clock ''t-1'' ''n-1'' sample_now allowed_decision ''agent-1''
      sample_state_sha sample_receipt sample_world = (Inr t, w)"
    "tk_permitted_parameters t = sample_command" "tk_token_id t = ''t-1''" "tk_action_type t = ''NETWORK_ISOLATE''"
    "tk_target_id t = ''ws-1''" "tk_target_state_sha256 t = sample_state_sha" "attempts (aw_ledger w) = []"
    "token_attempts (aw_ledger w) = []"
proof -
  obtain t w where t: "issue sample_auth_gate sample_clock ''t-1'' ''n-1'' sample_now allowed_decision ''agent-1''
      sample_state_sha sample_receipt sample_world = (Inr t, w)" "tk_permitted_parameters t = sample_command"
    by (rule sample_issue_token)
  obtain kvs l where i: "dn_permitted_action allowed_decision = Some (JObj kvs)"
    "draft_token sample_auth_gate ''t-1'' ''n-1'' (whole_second sample_now) allowed_decision ''agent-1'' sample_state_sha
      (JObj kvs) = Inr t"
    "register sample_clock ''t-1'' (Some (dv_verification_id sample_receipt)) (Some (dn_decision_id allowed_decision))
      (Some (tk_issued_at t)) (aw_ledger sample_world) = Inr l" "w = sample_world\<lparr>aw_ledger := l\<rparr>"
    using issue_Inr [OF t(1)] by metis
  have kvs: "kvs = [(''type'', JStr ''NETWORK_ISOLATE''), (''target'', JStr ''ws-1''), (''parameters'', sample_command)]"
    using i(1) by (simp add: allowed_decision_def)
  have "tk_action_type t = ''NETWORK_ISOLATE''" "tk_target_id t = ''ws-1''"
    using draft_token_Inr(13,14) [OF i(2)] unfolding kvs by (simp_all add: get_as_def as_str_def)
  then show thesis
    using that [OF t] draft_token_Inr(1,12) [OF i(2)] register_attempts [OF i(3)] i(4)
    by (simp add: sample_world_def empty_ledger_def)
qed

lemma sample_execution:
  obtains t w r w' where "issue sample_auth_gate sample_clock ''t-1'' ''n-1'' sample_now allowed_decision ''agent-1''
      sample_state_sha sample_receipt sample_world = (Inr t, w)"
    "authorize_and_execute sample_boundary sample_clock ''attempt-1'' sample_now (sample_call t) (sample_sim_world w) = (Inr r, w')"
    "tk_permitted_parameters t = sample_command" "tk_target_id t = ''ws-1''" "tk_token_id t = ''t-1''"
    "map_of (sw_states w') ''ws-1'' \<noteq> map_of (sw_states (sample_sim_world w)) ''ws-1''"
proof -
  obtain t w where t: "issue sample_auth_gate sample_clock ''t-1'' ''n-1'' sample_now allowed_decision ''agent-1''
      sample_state_sha sample_receipt sample_world = (Inr t, w)"
    "tk_permitted_parameters t = sample_command" "tk_token_id t = ''t-1''" "tk_action_type t = ''NETWORK_ISOLATE''"
    "tk_target_id t = ''ws-1''" "tk_target_state_sha256 t = sample_state_sha" "attempts (aw_ledger w) = []"
    "token_attempts (aw_ledger w) = []"
    by (rule sample_token)
  let ?cmd = "(''NETWORK_ISOLATE'', ''ws-1'', sample_command)"
  let ?b = "call_bindings (sample_call t) ?cmd sample_state_sha"
  let ?key = "sha256_json (attempt_binding (sample_call t) t ?cmd sample_state_sha)"
  have "json_keys_distinct sample_command" by (simp add: sample_command_def)
  then have "\<forall>c \<in> set (token_binding_checks t ?b). snd c"
    by (simp add: token_binding_checks_def call_bindings_def sample_call_def t py_eq_refl)
  then have valid: "validate_token sample_auth_gate sample_now t ?b (aw_ledger w) = Inr ()"
    by (intro issued_token_validates [OF t(1) sample_times(1)])
      (simp_all add: sample_times sample_auth_gate_def micros_def is_identifier_def)
  obtain l row where l: "consume_once sample_clock ''t-1'' (Some ''attempt-1'') (Some ?key)
      (Some (isoformat (whole_second sample_now))) (Some ?key) None (aw_ledger w) = Inr l"
    "map_of (attempts l) ''attempt-1'' = Some row" "at_state row = Reserved"
  proof (rule consume_reserves [of "aw_ledger w" "''t-1''" "''attempt-1''" ?key "isoformat (whole_second sample_now)" sample_clock])
    show "auth_of (aw_ledger w) ''t-1'' = Some Issued" using validate_token_Inr(3) [OF valid] t(3) by simp
  qed (use t(7,8) sample_times in \<open>simp_all add: is_identifier_def\<close>)
  have consumed: "validate_and_consume sample_auth_gate sample_clock sample_now t ?b (Some ''attempt-1'') (Some ?key) (Some ?key)
      None w = (Inr (), w\<lparr>aw_ledger := l\<rparr>)"
    using valid l(1) t(3) by (simp add: validate_and_consume_def)
  have receipt: "\<exists>l'. record_adapter_receipt sample_clock ''attempt-1'' (local_receipt r) (sha256_json (broker_to_dict r))
      (isoformat sample_now) l = Inr l'" for r
    using l(2,3) sample_times(4)
    by (simp add: record_adapter_receipt_def is_identifier_def local_receipt_def is_offset_timestamp_def)
  then obtain f where f: "\<And>r. record_adapter_receipt sample_clock ''attempt-1'' (local_receipt r)
      (sha256_json (broker_to_dict r)) (isoformat sample_now) l = Inr (f r)"
    by metis
  have "representable (sample_now + 600 * micros)" by code_simp
  then obtain m s' where tr: "apply_transition sample_boundary t ''attempt-1'' sample_now ?cmd sample_state = (Applied True m, s')"
    "ss_network_state s' = ''isolated''"
    using apply_transition_applied [of sample_state t sample_command 600 True sample_now sample_boundary "''attempt-1''" "''ws-1''"]
      t(6) by (auto simp: sample_state_sha_def sample_command_def members_def sample_boundary_def)
  have parts: "ex_token (sample_call t) = Some t" "ex_recovery_summary (sample_call t) = None"
    "bd_gate sample_boundary = sample_auth_gate" "sw_auth (sample_sim_world w) = w" "sw_bindings (sample_sim_world w) = []"
    "observe_state ''ws-1'' (sample_sim_world w) = Inr sample_state"
    by (simp_all add: sample_call_def sample_boundary_def sample_sim_world_def observe_state_def)
  have "\<exists>r w'. authorize_and_execute sample_boundary sample_clock ''attempt-1'' sample_now (sample_call t)
      (sample_sim_world w) = (Inr r, w') \<and> sw_states w' = dict_set ''ws-1'' s' (sw_states (sample_sim_world w))"
    unfolding authorize_and_execute_def parts option.case sample_normalized sum.case Let_def split_conv
    using consumed
    by (simp add: parts sample_times sample_state_sha_def finish_execution_def tr(1) gate_record_receipt_def f Let_def)
  moreover have "s' \<noteq> sample_state" using tr(2) by (auto simp: sample_state_def initial_state_def)
  ultimately show thesis using that [OF t(1) _ t(2,5,3)] by (auto simp: map_of_dict_set sample_sim_world_def)
qed

theorem effect_needs_authority_witness:
  "\<exists>t w r w'. authorize_and_execute sample_boundary sample_clock ''attempt-1'' sample_now (sample_call t) (sample_sim_world w)
       = (Inr r, w')
     \<and> auth_of (aw_ledger (sw_auth w')) (tk_token_id t) = Some Consumed"
proof -
  obtain t w r w' where e: "authorize_and_execute sample_boundary sample_clock ''attempt-1'' sample_now (sample_call t)
      (sample_sim_world w) = (Inr r, w')"
    "map_of (sw_states w') ''ws-1'' \<noteq> map_of (sw_states (sample_sim_world w)) ''ws-1''"
    by (rule sample_execution)
  have "ex_token (sample_call t) = Some t" by (simp add: sample_call_def)
  with effect_needs_authority [OF e] e(1) show ?thesis by auto
qed

lemma sample_call_facts:
  assumes "tk_permitted_parameters t = sample_command" "tk_target_id t = ''ws-1''"
  shows "ex_token (sample_call t) = Some t"
    "normalize_command (ex_command (sample_call t)) = Some (''NETWORK_ISOLATE'', tk_target_id t, tk_permitted_parameters t)"
    "map_of (members (tk_permitted_parameters t)) ''duration_seconds'' = Some (JInt 600)"
    "map_of (members (tk_permitted_parameters t)) ''preserve_management'' = Some (JBool True)"
    "json_keys_distinct (tk_permitted_parameters t)" "representable (whole_second sample_now + 600 * micros)"
    "map_of (sw_states (sample_sim_world w)) (tk_target_id t) = Some sample_state"
    "ss_service_health sample_state \<noteq> ''degraded''" "ss_last_action_id sample_state \<noteq> Some ''attempt-1''"
    "bd_faults sample_boundary = []"
proof -
  show "representable (whole_second sample_now + 600 * micros)" by code_simp
  show "ex_token (sample_call t) = Some t" by (simp add: sample_call_def)
qed (simp_all add: assms sample_normalized sample_command_def members_def sample_sim_world_def sample_state_def
    initial_state_def sample_boundary_def)

theorem execute_then_verify_witness:
  "\<exists>t w r w' v w2. authorize_and_execute sample_boundary sample_clock ''attempt-1'' sample_now (sample_call t)
       (sample_sim_world w) = (Inr r, w')
     \<and> verify_execution ''v-1'' t (ex_command (sample_call t)) (ex_request_id (sample_call t))
       (ex_decision_id (sample_call t)) r (sim_state_to_dict sample_state) w' = (Inr v, w2)
     \<and> pv_status v = Verified"
proof -
  obtain t w r w' where e: "authorize_and_execute sample_boundary sample_clock ''attempt-1'' sample_now (sample_call t)
      (sample_sim_world w) = (Inr r, w')" "tk_permitted_parameters t = sample_command" "tk_target_id t = ''ws-1''"
    by (rule sample_execution)
  note facts = sample_call_facts [OF e(2,3)]
  from execute_then_verify [OF e(1) facts(1-5) sample_times(1) facts(6-9), of "''v-1''"] e(1) facts(10) show ?thesis
    by (simp add: fault_status_def) blast
qed

lemma sample_protocol:
  obtains t w' where "protocol_run sample_boundary (sample_sim_world sample_world)
      [TokenIssued allowed_decision sample_receipt t, Effect t ''ws-1''] w'" "tk_token_id t = ''t-1''"
proof -
  obtain t w r w' where e: "issue sample_auth_gate sample_clock ''t-1'' ''n-1'' sample_now allowed_decision ''agent-1''
      sample_state_sha sample_receipt sample_world = (Inr t, w)"
    "authorize_and_execute sample_boundary sample_clock ''attempt-1'' sample_now (sample_call t)
      (sample_sim_world w) = (Inr r, w')" "tk_token_id t = ''t-1''"
    "map_of (sw_states w') ''ws-1'' \<noteq> map_of (sw_states (sample_sim_world w)) ''ws-1''"
    by (rule sample_execution)
  have w: "sample_sim_world w = (sample_sim_world sample_world)\<lparr>sw_auth := w\<rparr>"
    "bd_gate sample_boundary = sample_auth_gate" "sw_auth (sample_sim_world sample_world) = sample_world"
    "ex_token (sample_call t) = Some t"
    by (simp_all add: sample_sim_world_def sample_boundary_def sample_call_def)
  have "protocol_step sample_boundary (sample_sim_world sample_world) (TokenIssued allowed_decision sample_receipt t)
      (sample_sim_world w)"
    unfolding w(1) by (rule protocol_step.issued) (use e(1) w in simp)
  moreover have "protocol_step sample_boundary (sample_sim_world w) (Effect t ''ws-1'') w'"
    using e(4) by (intro protocol_step.effect [OF _ e(2) _ w(4)]) auto
  ultimately have "protocol_run sample_boundary (sample_sim_world sample_world)
      [TokenIssued allowed_decision sample_receipt t, Effect t ''ws-1''] w'"
    using protocol_run.extend [OF protocol_run.extend [OF protocol_run.start]] by fastforce
  with e(3) that show thesis by blast
qed

theorem run_effects_authorized_witness:
  "\<exists>t w'. protocol_run sample_boundary (sample_sim_world sample_world)
      [TokenIssued allowed_decision sample_receipt t, Effect t ''ws-1''] w'
     \<and> issued_by ''t-1'' [TokenIssued allowed_decision sample_receipt t, Effect t ''ws-1'']"
proof -
  obtain t w' where run: "protocol_run sample_boundary (sample_sim_world sample_world)
      [TokenIssued allowed_decision sample_receipt t, Effect t ''ws-1''] w'" "tk_token_id t = ''t-1''"
    by (rule sample_protocol)
  have "aw_ledger (sw_auth (sample_sim_world sample_world)) = empty_ledger"
    by (simp add: sample_sim_world_def sample_world_def)
  from run_effects_authorized [OF run(1) this, of "''t-1''"] run show ?thesis by (auto simp: effects_of_def)
qed


end
