(* ===== verification/P3Verifier.thy ===== *)
theory P3Verifier
  imports P3Validation P3Evidence P3Consequence P3Approval P3Authorization
begin

text \<open>
  The decision verifier (\<open>phase3/verifier.py\<close>): before a decision may be authorized, the request is validated
  again, evidence, consequence and decision are recomputed from it under the policy, and eight named
  checks compare the record with the recomputation. The receipt is signed with the verifier's key.
  Exact input types are the types of the arguments here. Clock readings and identifiers are arguments.
\<close>

record verifier =
  vf_signing_key :: string
  vf_attestation_keys :: attestation_keys
  vf_approval :: approval_config
  vf_resolver :: resolver
  vf_instance_id :: pystr

definition make_verifier ::
  "string \<Rightarrow> attestation_keys \<Rightarrow> approval_config \<Rightarrow> resolver \<Rightarrow> pystr option \<Rightarrow> pystr \<Rightarrow> (reason, verifier) result" where
  "make_verifier key keys approval rs instance fresh =
     and_then (require (\<not> length key < 32) ''ValueError'') (\<lambda>_.
     Inr \<lparr>vf_signing_key = key, vf_attestation_keys = keys, vf_approval = approval,
          vf_resolver = resolver_snapshot rs, vf_instance_id = or_default instance (''verifier-'' @ fresh)\<rparr>)"

definition check_row :: "pystr \<times> bool \<times> pystr \<Rightarrow> json" where
  "check_row c = (case c of (name, passed, detail) \<Rightarrow>
     JObj [(''check'', JStr name), (''passed'', JBool passed), (''detail'', JStr detail)])"

text \<open>The principal: the resolved one, or the supplied one when the resolution does not verify.\<close>

definition resolved_or_supplied :: "resolver \<Rightarrow> resolved_principal \<Rightarrow> authenticated_principal \<Rightarrow> authenticated_principal \<times> bool" where
  "resolved_or_supplied rs resolution supplied =
     (case verify_resolution rs resolution of Inl _ \<Rightarrow> (supplied, False) | Inr p \<Rightarrow> (p, p = supplied))"

definition chronology_valid :: "instant \<Rightarrow> instant \<Rightarrow> instant \<Rightarrow> decision_record \<Rightarrow> bool" where
  "chronology_valid request_time evaluated_at verifier_now d \<longleftrightarrow>
     request_time \<le> evaluated_at \<and> \<bar>verifier_now - evaluated_at\<bar> \<le> 5 * micros
     \<and> dn_decided_at d = isoformat evaluated_at"

text \<open>The fields compared one by one; \<open>==\<close> on nested JSON is Python's.\<close>

definition core_fields_agree :: "decision_record \<Rightarrow> decision_record \<Rightarrow> bool" where
  "core_fields_agree d expected \<longleftrightarrow>
     dn_outcome d = dn_outcome expected \<and> dn_reason_codes d = dn_reason_codes expected
     \<and> dn_applicable_rules d = dn_applicable_rules expected
     \<and> py_eq (dn_requested_action d) (dn_requested_action expected)
     \<and> py_eq (jnullable id (dn_permitted_action d)) (jnullable id (dn_permitted_action expected))
     \<and> py_eq (JList (dn_constraints d)) (JList (dn_constraints expected))
     \<and> dn_request_sha256 d = dn_request_sha256 expected
     \<and> dn_decision_context_sha256 d = dn_decision_context_sha256 expected"

definition requested_target :: "decision_record \<Rightarrow> (reason, json) result" where
  "requested_target d =
     (case dn_requested_action d of JObj kvs \<Rightarrow> Inr (obj_get kvs ''target'') | _ \<Rightarrow> Inl ''AttributeError'')"

definition approval_bound ::
  "decision_request \<Rightarrow> decision_record \<Rightarrow> decision_record \<Rightarrow> pystr \<Rightarrow> approval_requirement \<Rightarrow> bool" where
  "approval_bound r d expected target q \<longleftrightarrow>
     dn_outcome d = ''ESCALATE'' \<and> aq_request_id q = dr_request_id r \<and> aq_decision_id q = dn_decision_id d
     \<and> aq_decision_context_sha256 q = dn_decision_context_sha256 d \<and> aq_policy_sha256 q = dn_policy_sha256 d
     \<and> aq_policy_id q = dn_policy_id d \<and> aq_policy_version q = dn_policy_version d
     \<and> aq_action_type q = action_type_value (ac_type (dr_action r)) \<and> aq_target_id q = target
     \<and> aq_parameters_sha256 q = sha256_json (parameters_to_dict (ac_parameters (dr_action r)))
     \<and> aq_evidence_sha256 q = sha256_json (JList (map evidence_to_dict (dr_evidence r)))
     \<and> aq_required_authority q = aa_required_authority (dn_authority expected)
     \<and> aq_reason_codes q = dn_reason_codes expected"

text \<open>An \<open>ApprovalError\<close> makes the approval invalid, any other error of \<open>verify_requirement\<close> leaves the method.\<close>

definition approval_valid ::
  "verifier \<Rightarrow> approval_state \<Rightarrow> decision_request \<Rightarrow> decision_record \<Rightarrow> decision_record \<Rightarrow> pystr \<Rightarrow> (reason, bool) result" where
  "approval_valid vf st r d expected target =
     (case dn_approval_requirement d of
        None \<Rightarrow> Inr True
      | Some q \<Rightarrow>
          (case verify_requirement (vf_approval vf) None q st of
             Inl e \<Rightarrow> if e \<in> set python_errors then Inl e else Inr False
           | Inr _ \<Rightarrow> Inr (approval_bound r d expected target q)))"

definition recompute ::
  "verifier \<Rightarrow> pystr \<Rightarrow> decision_request \<Rightarrow> authenticated_principal \<Rightarrow> policy \<Rightarrow> target_record \<Rightarrow> action_policy
     \<Rightarrow> decision_record \<Rightarrow> instant
     \<Rightarrow> (reason, evidence_assessment \<times> consequence_assessment \<times> decision_record) result" where
  "recompute vf fresh r who p t ap d evaluated_at =
     and_then (assess_evidence (po_evidence p) (vf_attestation_keys vf) evaluated_at r) (\<lambda>evidence.
     and_then (assess_consequence t ap (po_consequence p) (ac_parameters (dr_action r))) (\<lambda>consequence.
     and_then (build_decision
         (Some (\<lambda>_. case dn_approval_requirement d of None \<Rightarrow> Inl ''AttributeError'' | Some q \<Rightarrow> Inr q))
         fresh (Some (dn_decision_id d)) evaluated_at r who p evidence consequence t ap) (\<lambda>expected.
     Inr (evidence, consequence, expected))))"

definition decision_checks ::
  "decision_request \<Rightarrow> policy \<Rightarrow> target_record \<Rightarrow> bool \<Rightarrow> bool \<Rightarrow> bool \<Rightarrow> json \<Rightarrow> bool \<Rightarrow> decision_record
     \<Rightarrow> evidence_assessment \<times> consequence_assessment \<times> decision_record \<Rightarrow> (pystr \<times> bool \<times> pystr) list" where
  "decision_checks r p t chronology resolution_valid supplied_target requested approval d expectation =
     (case expectation of (evidence, consequence, expected) \<Rightarrow>
     [(''P3-VERIFY-REQUEST-BINDING'',
        chronology \<and> dn_request_id d = dr_request_id r \<and> dn_request_sha256 d = request_sha256 r,
        ''Decision must bind the exact validated request.''),
      (''P3-VERIFY-POLICY-BINDING'',
        dn_policy_id d = po_policy_id p \<and> dn_policy_version d = po_version p
          \<and> dn_policy_sha256 d = sha256_json (policy_to_dict p),
        ''Decision must bind the loaded policy identity and version.''),
      (''P3-VERIFY-PRINCIPAL-BINDING'', resolution_valid \<and> dn_authority d = dn_authority expected,
        ''Decision authority must be independently recomputed from the trusted principal.''),
      (''P3-VERIFY-TARGET-BINDING'',
        supplied_target \<and> requested = JStr (ac_target (dr_action r)) \<and> ac_target (dr_action r) = tr_id t,
        ''Requested action and trusted target must agree.''),
      (''P3-VERIFY-EVIDENCE-RECOMPUTATION'', dn_evidence d = Some evidence,
        ''Evidence must match the separately recomputed assessment.''),
      (''P3-VERIFY-CONSEQUENCE-RECOMPUTATION'', dn_consequence d = Some consequence,
        ''Consequence must match the separately recomputed assessment.''),
      (''P3-VERIFY-DECISION-RECOMPUTATION'', core_fields_agree d expected,
        ''Outcome, rules, command, constraints, and context digest must be recomputed.''),
      (''P3-VERIFY-APPROVAL-ORIGIN'',
        approval \<and> ((dn_outcome d = ''ESCALATE'') = (dn_approval_requirement d \<noteq> None)),
        ''Escalation approval must be signed, registered, and exactly decision-bound.'')])"

definition draft_verification ::
  "verifier \<Rightarrow> pystr \<Rightarrow> decision_request \<Rightarrow> authenticated_principal \<Rightarrow> resolved_principal \<Rightarrow> policy \<Rightarrow> decision_record
     \<Rightarrow> (pystr \<times> bool \<times> pystr) list \<Rightarrow> instant \<Rightarrow> decision_verification" where
  "draft_verification vf verification_id r who resolution p d checks verified_at =
     (let blockers = map fst (filter (\<lambda>(_, passed, _). \<not> passed) checks) in
      \<lparr>dv_verification_id = verification_id, dv_verifier_instance_id = vf_instance_id vf,
       dv_decision_id = dn_decision_id d, dv_decision_context_sha256 = dn_decision_context_sha256 d,
       dv_decision_sha256 = authorization_sha256 d, dv_request_sha256 = request_sha256 r,
       dv_principal_id = pr_id who, dv_principal_resolution_sha256 = sha256_json (resolution_to_dict resolution),
       dv_policy_sha256 = sha256_json (policy_to_dict p), dv_passed = (blockers = []),
       dv_checks = map check_row checks, dv_blocking_reason_codes = blockers,
       dv_verified_at = isoformat verified_at, dv_signature = []\<rparr>)"

record verifier_readings =
  vr_now :: instant
  vr_verified_at :: instant
  vr_verification_id :: pystr
  vr_fresh_decision_id :: pystr

definition verify_decision ::
  "verifier \<Rightarrow> (json \<Rightarrow> bool) \<Rightarrow> approval_state \<Rightarrow> verifier_readings \<Rightarrow> decision_request \<Rightarrow> authenticated_principal
     \<Rightarrow> resolved_principal \<Rightarrow> policy \<Rightarrow> target_record \<Rightarrow> decision_record \<Rightarrow> instant
     \<Rightarrow> (reason, decision_verification) result" where
  "verify_decision vf schema_ok st rd supplied_request supplied_principal resolution p supplied_target d clock =
     and_then (validate_decision_request_dict schema_ok clock (request_to_dict supplied_request)) (\<lambda>r.
     (let (who, resolution_valid) = resolved_or_supplied (vf_resolver vf) resolution supplied_principal in
     and_then (item (po_target_inventory p) (ac_target (dr_action r))) (\<lambda>t.
     and_then (item (po_action_catalog p) (action_type_value (ac_type (dr_action r)))) (\<lambda>ap.
     (let evaluated_at = whole_second clock in
     and_then (case parse_datetime (dr_timestamp r) of None \<Rightarrow> Inl ''ValueError'' | Some i \<Rightarrow> Inr i) (\<lambda>request_time.
     and_then (recompute vf (vr_fresh_decision_id rd) r who p t ap d evaluated_at) (\<lambda>expectation.
     and_then (requested_target d) (\<lambda>requested.
     and_then (approval_valid vf st r d (snd (snd expectation)) (tr_id t)) (\<lambda>approval.
     (let checks = decision_checks r p t (chronology_valid request_time evaluated_at (vr_now rd) d) resolution_valid
            (supplied_target = t) requested approval d expectation;
          unsigned = draft_verification vf (vr_verification_id rd) r who resolution p d checks
            (whole_second (vr_verified_at rd))
      in Inr (unsigned\<lparr>dv_signature := hmac_json (vf_signing_key vf) (verification_unsigned_dict unsigned)\<rparr>)))))))))))"

subsection \<open>What a passed receipt says\<close>

lemma whole_second_twice [simp]: "whole_second (whole_second i) = whole_second i"
  by (simp add: whole_second_def micros_def)

lemma py_eq_member:
  assumes "py_eq (JObj d) v" "map_of d k = Some x"
  obtains e y where "v = JObj e" "map_of e k = Some y" "py_eq x y"
  using assms map_of_SomeD [OF assms(2)] by (cases v) (fastforce split: option.splits)+

lemma verify_decision_Inr:
  assumes "verify_decision vf schema_ok st rd r0 who0 resolution p t0 d clock = Inr v"
  obtains r who ok t ap e c x requested approval request_time where
    "validate_decision_request_dict schema_ok clock (request_to_dict r0) = Inr r"
    "resolved_or_supplied (vf_resolver vf) resolution who0 = (who, ok)"
    "map_of (po_target_inventory p) (ac_target (dr_action r)) = Some t"
    "map_of (po_action_catalog p) (action_type_value (ac_type (dr_action r))) = Some ap"
    "parse_datetime (dr_timestamp r) = Some request_time"
    "recompute vf (vr_fresh_decision_id rd) r who p t ap d (whole_second clock) = Inr (e, c, x)"
    "requested_target d = Inr requested" "approval_valid vf st r d x (tr_id t) = Inr approval"
    "v = (let u = draft_verification vf (vr_verification_id rd) r who resolution p d
              (decision_checks r p t (chronology_valid request_time (whole_second clock) (vr_now rd) d) ok
                (t0 = t) requested approval d (e, c, x)) (whole_second (vr_verified_at rd))
          in u\<lparr>dv_signature := hmac_json (vf_signing_key vf) (verification_unsigned_dict u)\<rparr>)"
proof -
  obtain r where r: "validate_decision_request_dict schema_ok clock (request_to_dict r0) = Inr r"
    using assms by (auto simp: verify_decision_def)
  obtain who ok where w: "resolved_or_supplied (vf_resolver vf) resolution who0 = (who, ok)" by fastforce
  note a = assms [unfolded verify_decision_def r and_then.simps w Let_def split_conv]
  obtain t where t: "map_of (po_target_inventory p) (ac_target (dr_action r)) = Some t"
    using a by (auto simp: item_def split: option.splits)
  note a = a [unfolded item_def t option.case and_then.simps]
  obtain ap where ap: "map_of (po_action_catalog p) (action_type_value (ac_type (dr_action r))) = Some ap"
    using a by (auto split: option.splits)
  note a = a [unfolded ap option.case and_then.simps]
  obtain i where i: "parse_datetime (dr_timestamp r) = Some i"
    using a by (auto split: option.splits)
  note a = a [unfolded i option.case and_then.simps]
  obtain e c x where x: "recompute vf (vr_fresh_decision_id rd) r who p t ap d (whole_second clock) = Inr (e, c, x)"
    using a by auto
  note a = a [unfolded x and_then.simps snd_conv]
  obtain requested where q: "requested_target d = Inr requested" using a by auto
  note a = a [unfolded q and_then.simps]
  obtain approval where ok: "approval_valid vf st r d x (tr_id t) = Inr approval" using a by auto
  note a = a [unfolded ok and_then.simps]
  show thesis by (rule that [OF r w t ap i x q ok]) (use a in \<open>simp add: Let_def\<close>)
qed

lemma passed_iff:
  "dv_passed (draft_verification vf i r who res p d checks at0) \<longleftrightarrow> (\<forall>(_, passed, _) \<in> set checks. passed)"
  by (auto simp: draft_verification_def Let_def filter_empty_conv)

lemma recompute_Inr:
  assumes "recompute vf fresh r who p t ap d i = Inr (e, c, x)"
  obtains issue where "assess_evidence (po_evidence p) (vf_attestation_keys vf) i r = Inr e"
    "assess_consequence t ap (po_consequence p) (ac_parameters (dr_action r)) = Inr c"
    "build_decision (Some issue) fresh (Some (dn_decision_id d)) i r who p e c t ap = Inr x"
  using assms by (auto simp: recompute_def)

lemma approval_valid_True:
  assumes "approval_valid vf st r d x target = Inr True" "dn_approval_requirement d = Some q"
  shows "verify_requirement (vf_approval vf) None q st = Inr ()" "approval_bound r d x target q"
  using assms by (auto simp: approval_valid_def split: sum.splits if_splits)

text \<open>Everything a passed receipt guarantees, in one place.\<close>

lemma verify_decision_passed:
  assumes "verify_decision vf schema_ok st rd r0 who0 resolution p t0 d clock = Inr v" "dv_passed v"
  obtains ap e c x issue where
    "request_ok clock r0" "verify_resolution (vf_resolver vf) resolution = Inr who0"
    "map_of (po_target_inventory p) (ac_target (dr_action r0)) = Some t0" "tr_id t0 = ac_target (dr_action r0)"
    "map_of (po_action_catalog p) (action_type_value (ac_type (dr_action r0))) = Some ap"
    "assess_evidence (po_evidence p) (vf_attestation_keys vf) (whole_second clock) r0 = Inr e"
    "assess_consequence t0 ap (po_consequence p) (ac_parameters (dr_action r0)) = Inr c"
    "build_decision (Some issue) (vr_fresh_decision_id rd) (Some (dn_decision_id d)) (whole_second clock) r0 who0 p e c t0 ap
       = Inr x"
    "dn_evidence d = Some e" "dn_consequence d = Some c" "dn_authority d = dn_authority x" "core_fields_agree d x"
    "dn_request_id d = dr_request_id r0" "dn_policy_sha256 d = sha256_json (policy_to_dict p)"
    "dn_decided_at d = isoformat (whole_second clock)"
    "dn_outcome d = ''ESCALATE'' \<longleftrightarrow> dn_approval_requirement d \<noteq> None"
    "\<And>q. dn_approval_requirement d = Some q \<Longrightarrow>
       verify_requirement (vf_approval vf) None q st = Inr () \<and> approval_bound r0 d x (tr_id t0) q"
    "dv_signature v = hmac_json (vf_signing_key vf) (verification_unsigned_dict v)"
    "dv_principal_id v = pr_id who0" "dv_decision_sha256 v = authorization_sha256 d"
    "dv_verifier_instance_id v = vf_instance_id vf" "dv_decision_id v = dn_decision_id d"
    "dv_decision_context_sha256 v = dn_decision_context_sha256 d" "dv_request_sha256 v = dn_request_sha256 d"
    "dv_policy_sha256 v = dn_policy_sha256 d" "dv_verified_at v = isoformat (whole_second (vr_verified_at rd))"
proof (rule verify_decision_Inr [OF assms(1)])
  fix r who ok t ap e c x requested approval request_time
  assume r: "validate_decision_request_dict schema_ok clock (request_to_dict r0) = Inr r"
    and w: "resolved_or_supplied (vf_resolver vf) resolution who0 = (who, ok)"
    and t: "map_of (po_target_inventory p) (ac_target (dr_action r)) = Some t"
    and ap: "map_of (po_action_catalog p) (action_type_value (ac_type (dr_action r))) = Some ap"
    and rc: "recompute vf (vr_fresh_decision_id rd) r who p t ap d (whole_second clock) = Inr (e, c, x)"
    and q: "approval_valid vf st r d x (tr_id t) = Inr approval"
    and v: "v = (let u = draft_verification vf (vr_verification_id rd) r who resolution p d
              (decision_checks r p t (chronology_valid request_time (whole_second clock) (vr_now rd) d) ok
                (t0 = t) requested approval d (e, c, x)) (whole_second (vr_verified_at rd))
          in u\<lparr>dv_signature := hmac_json (vf_signing_key vf) (verification_unsigned_dict u)\<rparr>)"
  have same: "r = r0" using validate_ok(1) [OF r] by (simp add: request_roundtrip)
  note checks = assms(2) [unfolded v Let_def, simplified, unfolded passed_iff decision_checks_def, simplified]
  have who: "who = who0" "verify_resolution (vf_resolver vf) resolution = Inr who0"
    using w checks by (auto simp: resolved_or_supplied_def split: sum.splits)
  obtain issue where x: "assess_evidence (po_evidence p) (vf_attestation_keys vf) (whole_second clock) r = Inr e"
    "assess_consequence t ap (po_consequence p) (ac_parameters (dr_action r)) = Inr c"
    "build_decision (Some issue) (vr_fresh_decision_id rd) (Some (dn_decision_id d)) (whole_second clock) r who p e c t ap = Inr x"
    by (rule recompute_Inr [OF rc])
  have t0: "t0 = t" using checks by blast
  show thesis
  proof (rule that [of ap e c issue x])
    show "request_ok clock r0" using validate_ok(2) [OF r] same by simp
    fix q' assume "dn_approval_requirement d = Some q'"
    then show "verify_requirement (vf_approval vf) None q' st = Inr () \<and> approval_bound r0 d x (tr_id t0) q'"
      using approval_valid_True [of vf st r d x "tr_id t"] q checks t0 same by simp
  next
    show "dv_signature v = hmac_json (vf_signing_key vf) (verification_unsigned_dict v)"
      "dv_principal_id v = pr_id who0" "dv_decision_sha256 v = authorization_sha256 d"
      "dv_verifier_instance_id v = vf_instance_id vf" "dv_decision_id v = dn_decision_id d"
      "dv_decision_context_sha256 v = dn_decision_context_sha256 d" "dv_request_sha256 v = dn_request_sha256 d"
      "dv_policy_sha256 v = dn_policy_sha256 d" "dv_verified_at v = isoformat (whole_second (vr_verified_at rd))"
      unfolding v who(1) Let_def using checks
      by (simp_all add: draft_verification_def Let_def verification_unsigned_dict_def)
  qed (use t ap x who checks same t0 in \<open>simp_all add: chronology_valid_def\<close>)
qed

subsection \<open>A decision that was just built\<close>

lemma decision_json_distinct:
  "json_keys_distinct (action_to_dict x)" "json_keys_distinct (parameters_to_dict ps)"
  "json_keys_distinct (jnullable id (permitted_action_for out r t ps))"
  "json_keys_distinct (JList (fst (snd (constrain_parameters ap ps))))"
  by (simp_all add: action_to_dict_def parameters_to_dict_def permitted_action_for_def jnullable_def
      constrain_parameters_def constraint_entry_def Let_def)

lemma build_decision_shape:
  assumes "build_decision f fresh (Some did) now r who p e c t ap = Inr d" "did \<noteq> []"
  shows "dn_decision_id d = did" "dn_request_id d = dr_request_id r" "dn_decided_at d = isoformat (whole_second now)"
    "dn_policy_id d = po_policy_id p" "dn_policy_version d = po_version p"
    "dn_policy_sha256 d = sha256_json (policy_to_dict p)" "dn_evidence d = Some e" "dn_consequence d = Some c"
    "dn_authority d = assess_authority r who (required_authority_for ap t)"
    "dn_requested_action d = action_to_dict (dr_action r)" "dn_request_sha256 d = request_sha256 r"
    "dn_permitted_action d = permitted_action_for (dn_outcome d) r t (fst (constrain_parameters ap (ac_parameters (dr_action r))))"
    "dn_constraints d = fst (snd (constrain_parameters ap (ac_parameters (dr_action r))))"
    "dn_outcome d = ''ESCALATE'' \<longleftrightarrow> dn_approval_requirement d \<noteq> None"
    "core_fields_agree d d"
proof -
  obtain ps cs rs where cp: "constrain_parameters ap (ac_parameters (dr_action r)) = (ps, cs, rs)"
    by (cases "constrain_parameters ap (ac_parameters (dr_action r))") auto
  note d = assms(1) [unfolded build_decision_def Let_def cp split_conv]
  show f: "dn_decision_id d = did" "dn_request_id d = dr_request_id r" "dn_decided_at d = isoformat (whole_second now)"
    "dn_policy_id d = po_policy_id p" "dn_policy_version d = po_version p"
    "dn_policy_sha256 d = sha256_json (policy_to_dict p)" "dn_evidence d = Some e" "dn_consequence d = Some c"
    "dn_authority d = assess_authority r who (required_authority_for ap t)"
    "dn_requested_action d = action_to_dict (dr_action r)" "dn_request_sha256 d = request_sha256 r"
    "dn_permitted_action d = permitted_action_for (dn_outcome d) r t (fst (constrain_parameters ap (ac_parameters (dr_action r))))"
    "dn_constraints d = fst (snd (constrain_parameters ap (ac_parameters (dr_action r))))"
    "dn_outcome d = ''ESCALATE'' \<longleftrightarrow> dn_approval_requirement d \<noteq> None"
    using d assms(2) unfolding cp by (auto simp: or_default_def split: if_splits option.splits)
  show "core_fields_agree d d"
    unfolding core_fields_agree_def f(10,12,13)
    by (intro conjI py_eq_refl decision_json_distinct refl)
qed

text \<open>Rebuilding with another issuer that hands back the same requirement gives the same record.\<close>

lemma build_decision_again:
  assumes "build_decision f fresh (Some did) now r who p e c t ap = Inr d" "did \<noteq> []"
    "\<And>q rq. dn_approval_requirement d = Some q \<Longrightarrow> g rq = Inr q"
  shows "build_decision (Some g) fresh' (Some did) now r who p e c t ap = Inr d"
proof -
  obtain ps cs rs where cp: "constrain_parameters ap (ac_parameters (dr_action r)) = (ps, cs, rs)"
    by (cases "constrain_parameters ap (ac_parameters (dr_action r))") auto
  show ?thesis
    using assms unfolding build_decision_def Let_def cp split_conv
    by (auto simp: or_default_def split: if_splits option.splits)
qed

lemma build_decision_issued:
  assumes "build_decision (Some f) fresh (Some did) now r who p e c t ap = Inr d" "did \<noteq> []"
    "dn_approval_requirement d = Some q"
  obtains rq where "f rq = Inr q" "dn_request_id (rq_decision rq) = dr_request_id r"
    "dn_decision_id (rq_decision rq) = did"
    "dn_decision_context_sha256 (rq_decision rq) = dn_decision_context_sha256 d"
    "dn_policy_sha256 (rq_decision rq) = dn_policy_sha256 d" "dn_policy_id (rq_decision rq) = dn_policy_id d"
    "dn_policy_version (rq_decision rq) = dn_policy_version d"
    "rq_action_type rq = action_type_value (ac_type (dr_action r))" "rq_target_id rq = tr_id t"
    "rq_parameters rq = parameters_to_dict (ac_parameters (dr_action r))"
    "rq_evidence_sha256 rq = sha256_json (JList (map evidence_to_dict (dr_evidence r)))"
    "rq_required_authority rq = aa_required_authority (dn_authority d)" "rq_reason_codes rq = dn_reason_codes d"
proof -
  obtain ps cs rs where cp: "constrain_parameters ap (ac_parameters (dr_action r)) = (ps, cs, rs)"
    by (cases "constrain_parameters ap (ac_parameters (dr_action r))") auto
  note d = assms(1) [unfolded build_decision_def Let_def cp split_conv]
  obtain rule where s: "select_rule (decision_conditions (assess_authority r who (required_authority_for ap t)) e c t ap cs)
      (po_decision_rules p) = Inr rule" using d by auto
  note d = d [unfolded s and_then.simps]
  have esc: "\<not> ru_outcome rule \<noteq> outcome_value Escalate"
  proof
    assume other: "ru_outcome rule \<noteq> outcome_value Escalate"
    show False using d [unfolded if_P [OF other]] assms(3) by auto
  qed
  note d = d [unfolded if_not_P [OF esc] option.case and_then_Inr]
  obtain q' where q: "f \<lparr>rq_decision =
      \<lparr>dn_decision_id = or_default (Some did) (''decision-'' @ fresh), dn_request_id = dr_request_id r,
       dn_decided_at = isoformat (whole_second now), dn_policy_id = po_policy_id p, dn_policy_version = po_version p,
       dn_policy_sha256 = sha256_json (policy_to_dict p), dn_outcome = ru_outcome rule,
       dn_reason_codes = dn_reason_codes d, dn_applicable_rules = [ru_id rule],
       dn_requested_action = action_to_dict (dr_action r),
       dn_permitted_action = permitted_action_for (ru_outcome rule) r t ps, dn_authority = dn_authority d,
       dn_evidence = Some e, dn_consequence = Some c, dn_constraints = cs,
       dn_explanation = decision_explanation t (dn_authority d) e c rule (dn_reason_codes d) cs JNull,
       dn_request_sha256 = request_sha256 r, dn_decision_context_sha256 = dn_decision_context_sha256 d,
       dn_approval_requirement = None, dn_latency_ms = 0\<rparr>,
      rq_action_type = action_type_value (ac_type (dr_action r)), rq_target_id = tr_id t,
      rq_parameters = parameters_to_dict (ac_parameters (dr_action r)),
      rq_evidence_sha256 = sha256_json (JList (map evidence_to_dict (dr_evidence r))),
      rq_required_authority = required_authority_for ap t, rq_reason_codes = dn_reason_codes d\<rparr> = Inr q'"
    "dn_approval_requirement d = Some q'" "dn_policy_sha256 d = sha256_json (policy_to_dict p)"
    "dn_policy_id d = po_policy_id p" "dn_policy_version d = po_version p"
    "dn_authority d = assess_authority r who (required_authority_for ap t)"
    using d by (elim exE conjE, simp) fastforce
  show ?thesis
    by (rule that [OF q(1) [unfolded option.inject [THEN iffD1, OF trans [OF q(2) [symmetric] assms(3)]]]])
      (use q assms(2) in \<open>simp_all add: or_default_def assess_authority_def Let_def\<close>)
qed

lemma issued_requirement_bound:
  assumes "build_decision (Some (\<lambda>rq. fst (issue_requirement cfg aid now' rq st0))) fresh (Some did) now r who p e c t ap
      = Inr d" "did \<noteq> []" "dn_approval_requirement d = Some q"
  shows "approval_bound r d d (tr_id t) q"
proof -
  obtain rq where rq: "fst (issue_requirement cfg aid now' rq st0) = Inr q" "dn_request_id (rq_decision rq) = dr_request_id r"
    "dn_decision_id (rq_decision rq) = did"
    "dn_decision_context_sha256 (rq_decision rq) = dn_decision_context_sha256 d"
    "dn_policy_sha256 (rq_decision rq) = dn_policy_sha256 d" "dn_policy_id (rq_decision rq) = dn_policy_id d"
    "dn_policy_version (rq_decision rq) = dn_policy_version d"
    "rq_action_type rq = action_type_value (ac_type (dr_action r))" "rq_target_id rq = tr_id t"
    "rq_parameters rq = parameters_to_dict (ac_parameters (dr_action r))"
    "rq_evidence_sha256 rq = sha256_json (JList (map evidence_to_dict (dr_evidence r)))"
    "rq_required_authority rq = aa_required_authority (dn_authority d)" "rq_reason_codes rq = dn_reason_codes d"
    by (rule build_decision_issued [OF assms])
  obtain st1 where "issue_requirement cfg aid now' rq st0 = (Inr q, st1)"
    using rq(1) by (cases "issue_requirement cfg aid now' rq st0") auto
  note q = issue_requirement_Inr(1) [OF this]
  show ?thesis
    using rq(2-) build_decision_shape(1,14) [OF assms(1,2)] assms(3)
    unfolding approval_bound_def q signed_requirement_def Let_def
    by (simp add: draft_requirement_def Let_def)
qed

text \<open>A decision built for a validated request from the policy's own target and action, presented in time with a
  genuine resolution, passes every check.\<close>

lemma recomputed_decision_passes:
  assumes "policy_from_dict policy_ok v = Inr p"
    "validate_decision_request_dict schema_ok clock (request_to_dict r) = Inr r"
    "verify_resolution (vf_resolver vf) resolution = Inr who"
    "map_of (po_target_inventory p) (ac_target (dr_action r)) = Some t"
    "map_of (po_action_catalog p) (action_type_value (ac_type (dr_action r))) = Some ap"
    "assess_evidence (po_evidence p) (vf_attestation_keys vf) (whole_second clock) r = Inr e"
    "assess_consequence t ap (po_consequence p) (ac_parameters (dr_action r)) = Inr c"
    "build_decision (Some (\<lambda>rq. fst (issue_requirement (vf_approval vf) aid clock' rq st0))) fresh (Some did)
       (whole_second clock) r who p e c t ap = Inr d" "did \<noteq> []"
    "\<forall>q. dn_approval_requirement d = Some q \<longrightarrow> verify_requirement (vf_approval vf) None q st = Inr ()"
    "parse_datetime (dr_timestamp r) = Some request_time" "request_time \<le> whole_second clock"
    "\<bar>vr_now rd - whole_second clock\<bar> \<le> 5 * micros"
  shows "\<exists>w. verify_decision vf schema_ok st rd r who resolution p t d clock = Inr w \<and> dv_passed w
    \<and> dv_blocking_reason_codes w = []"
proof -
  note f = build_decision_shape [OF assms(8,9)]
  have t: "tr_id t = ac_target (dr_action r)"
  proof -
    obtain v' where "build_policy v' = Inr p"
      using assms(1) by (auto simp: policy_from_dict_def split: json.splits)
    from build_policy_keyed [OF this] show ?thesis
      using map_of_SomeD [OF assms(4)] by (auto simp: policy_keyed_def list_all_iff)
  qed
  have x: "recompute vf (vr_fresh_decision_id rd) r who p t ap d (whole_second clock) = Inr (e, c, d)"
    using build_decision_again [OF assms(8,9), of "\<lambda>_. case dn_approval_requirement d of None \<Rightarrow> Inl ''AttributeError'' | Some q \<Rightarrow> Inr q"]
      assms(6,7) f(1) by (simp add: recompute_def)
  have bound: "approval_bound r d d (tr_id t) q" if "dn_approval_requirement d = Some q" for q
    by (rule issued_requirement_bound [OF assms(8,9) that])
  have approval: "approval_valid vf st r d d (tr_id t) = Inr True"
    using assms(10) bound by (auto simp: approval_valid_def split: option.splits)
  have requested: "requested_target d = Inr (JStr (ac_target (dr_action r)))"
    by (simp add: requested_target_def f(10) action_to_dict_def obj_get_def)
  have chronology: "chronology_valid request_time (whole_second clock) (vr_now rd) d"
    using assms(12,13) f(3) by (simp add: chronology_valid_def)
  let ?checks = "decision_checks r p t True True True (JStr (ac_target (dr_action r))) True d (e, c, d)"
  let ?u = "draft_verification vf (vr_verification_id rd) r who resolution p d ?checks (whole_second (vr_verified_at rd))"
  have passed: "\<forall>(_, passed, _) \<in> set ?checks. passed"
    using f(2,4-11,14,15) t by (simp add: decision_checks_def)
  have "verify_decision vf schema_ok st rd r who resolution p t d clock
        = Inr (?u\<lparr>dv_signature := hmac_json (vf_signing_key vf) (verification_unsigned_dict ?u)\<rparr>)"
    by (simp add: verify_decision_def assms(2-5,11) resolved_or_supplied_def item_def x requested approval chronology Let_def)
  moreover have "dv_passed (?u\<lparr>dv_signature := hmac_json (vf_signing_key vf) (verification_unsigned_dict ?u)\<rparr>)"
    using passed by (simp add: passed_iff)
  moreover have "dv_blocking_reason_codes (?u\<lparr>dv_signature := hmac_json (vf_signing_key vf) (verification_unsigned_dict ?u)\<rparr>) = []"
    using passed by (auto simp: draft_verification_def Let_def filter_empty_conv)
  ultimately show ?thesis by blast
qed

text \<open>The gate accepts such a receipt for the same decision, within the minute.\<close>

lemma verified_decision_bound:
  assumes "verify_decision vf schema_ok st rd r who resolution p t d clock = Inr v" "dv_passed v"
    "gt_verification_key g = vf_signing_key vf" "gt_verifier_id g = vf_instance_id vf" "representable (vr_verified_at rd)"
    "whole_second (vr_verified_at rd) \<le> now" "now \<le> whole_second (vr_verified_at rd) + 60 * micros"
  shows "verification_bound g now d (pr_id who) v = Inr True"
proof (rule verify_decision_passed [OF assms(1,2)])
  fix ap e c x issue
  assume x: "build_decision (Some issue) (vr_fresh_decision_id rd) (Some (dn_decision_id d)) (whole_second clock) r who p e c t ap = Inr x"
    and d: "dn_authority d = dn_authority x"
    and v: "dv_signature v = hmac_json (vf_signing_key vf) (verification_unsigned_dict v)"
    "dv_principal_id v = pr_id who" "dv_decision_sha256 v = authorization_sha256 d"
    "dv_verifier_instance_id v = vf_instance_id vf" "dv_decision_id v = dn_decision_id d"
    "dv_decision_context_sha256 v = dn_decision_context_sha256 d" "dv_request_sha256 v = dn_request_sha256 d"
    "dv_policy_sha256 v = dn_policy_sha256 d" "dv_verified_at v = isoformat (whole_second (vr_verified_at rd))"
  have "dn_authority x = assess_authority r who (required_authority_for ap t)"
    using x by (auto simp: build_decision_def Let_def split: prod.splits if_splits option.splits)
  then have "aa_principal_id (dn_authority d) = pr_id who" by (simp add: d assess_authority_def Let_def)
  moreover have "verification_fresh now v = Inr True"
    using representable_whole_second [OF assms(5)] assms(6,7) v(9)
    by (simp add: verification_fresh_def)
  ultimately show ?thesis
    using v assms(2-4) by (simp add: verification_bound_def)
qed

subsection \<open>Properties\<close>

text \<open>C21. A receipt that passed stands for a complete recomputation: the request is valid at the clock
  reading, the principal is the one the resolver vouches for, the target is the policy's own
  record, and evidence, consequence, authority, outcome, command and context digest of the decision
  are those of a decision rebuilt from scratch; an escalation carries a requirement this gate
  registered for exactly this decision, and any other outcome carries none.\<close>

theorem verification_sound:
  assumes "verify_decision vf schema_ok st rd r who resolution p t d clock = Inr v" "dv_passed v"
  shows "dv_signature v = hmac_json (vf_signing_key vf) (verification_unsigned_dict v)
    \<and> dv_decision_sha256 v = authorization_sha256 d \<and> dv_principal_id v = pr_id who
    \<and> request_ok clock r \<and> verify_resolution (vf_resolver vf) resolution = Inr who
    \<and> map_of (po_target_inventory p) (ac_target (dr_action r)) = Some t
    \<and> (\<exists>ap e c x issue. map_of (po_action_catalog p) (action_type_value (ac_type (dr_action r))) = Some ap
         \<and> assess_evidence (po_evidence p) (vf_attestation_keys vf) (whole_second clock) r = Inr e
         \<and> assess_consequence t ap (po_consequence p) (ac_parameters (dr_action r)) = Inr c
         \<and> build_decision (Some issue) (vr_fresh_decision_id rd) (Some (dn_decision_id d)) (whole_second clock) r who p e c t ap
              = Inr x
         \<and> dn_evidence d = Some e \<and> dn_consequence d = Some c \<and> dn_authority d = dn_authority x
         \<and> dn_outcome d = dn_outcome x \<and> dn_reason_codes d = dn_reason_codes x
         \<and> py_eq (jnullable id (dn_permitted_action d)) (jnullable id (dn_permitted_action x))
         \<and> dn_decision_context_sha256 d = dn_decision_context_sha256 x)
    \<and> (dn_outcome d = ''ESCALATE'' \<longleftrightarrow> dn_approval_requirement d \<noteq> None)
    \<and> (\<forall>q. dn_approval_requirement d = Some q \<longrightarrow> verify_requirement (vf_approval vf) None q st = Inr ()
         \<and> aq_decision_id q = dn_decision_id d \<and> aq_decision_context_sha256 q = dn_decision_context_sha256 d)"
proof (rule verify_decision_passed [OF assms])
  fix ap e c x issue
  assume core: "core_fields_agree d x"
    and q: "\<And>q. dn_approval_requirement d = Some q \<Longrightarrow>
       verify_requirement (vf_approval vf) None q st = Inr () \<and> approval_bound r d x (tr_id t) q"
    and rest: "request_ok clock r" "verify_resolution (vf_resolver vf) resolution = Inr who"
    "map_of (po_target_inventory p) (ac_target (dr_action r)) = Some t"
    "map_of (po_action_catalog p) (action_type_value (ac_type (dr_action r))) = Some ap"
    "assess_evidence (po_evidence p) (vf_attestation_keys vf) (whole_second clock) r = Inr e"
    "assess_consequence t ap (po_consequence p) (ac_parameters (dr_action r)) = Inr c"
    "build_decision (Some issue) (vr_fresh_decision_id rd) (Some (dn_decision_id d)) (whole_second clock) r who p e c t ap
       = Inr x"
    "dn_evidence d = Some e" "dn_consequence d = Some c" "dn_authority d = dn_authority x"
    "dn_outcome d = ''ESCALATE'' \<longleftrightarrow> dn_approval_requirement d \<noteq> None"
    "dv_signature v = hmac_json (vf_signing_key vf) (verification_unsigned_dict v)"
    "dv_principal_id v = pr_id who" "dv_decision_sha256 v = authorization_sha256 d"
  have "\<forall>q. dn_approval_requirement d = Some q \<longrightarrow> verify_requirement (vf_approval vf) None q st = Inr ()
         \<and> aq_decision_id q = dn_decision_id d \<and> aq_decision_context_sha256 q = dn_decision_context_sha256 d"
    using q by (simp add: approval_bound_def)
  with core [unfolded core_fields_agree_def] rest show ?thesis by blast
qed

text \<open>C22. A decision built in time for a validated request, with the policy's own target and action and
  a genuine resolution, always passes: the two computations agree and the verifier blocks nothing.\<close>

theorem built_decision_verifies:
  assumes "policy_from_dict policy_ok v = Inr p"
    "validate_decision_request_dict schema_ok clock (request_to_dict r) = Inr r"
    "verify_resolution (vf_resolver vf) resolution = Inr who"
    "map_of (po_target_inventory p) (ac_target (dr_action r)) = Some t"
    "map_of (po_action_catalog p) (action_type_value (ac_type (dr_action r))) = Some ap"
    "assess_evidence (po_evidence p) (vf_attestation_keys vf) (whole_second clock) r = Inr e"
    "assess_consequence t ap (po_consequence p) (ac_parameters (dr_action r)) = Inr c"
    "build_decision (Some (\<lambda>rq. fst (issue_requirement (vf_approval vf) aid clock' rq st0))) fresh (Some did)
       (whole_second clock) r who p e c t ap = Inr d" "did \<noteq> []"
    "\<forall>q. dn_approval_requirement d = Some q \<longrightarrow> verify_requirement (vf_approval vf) None q st = Inr ()"
    "parse_datetime (dr_timestamp r) = Some request_time" "request_time \<le> whole_second clock"
    "\<bar>vr_now rd - whole_second clock\<bar> \<le> 5 * micros"
  shows "\<exists>w. verify_decision vf schema_ok st rd r who resolution p t d clock = Inr w \<and> dv_passed w
    \<and> dv_blocking_reason_codes w = []"
  by (rule recomputed_decision_passes [OF assms])

text \<open>A justified token isolates exactly the requested target, for at most the requested and the catalogued duration
  and keeping management access; the agent is the resolved, trusted principal with the required authority, the
  policy's record of the target is outside every approval boundary, and every evidence item is authentic, accepted
  and fresh at the time of the decision.\<close>

definition justified_token ::
  "verifier \<Rightarrow> policy \<Rightarrow> resolved_principal \<Rightarrow> authenticated_principal \<Rightarrow> decision_request \<Rightarrow> target_record \<Rightarrow> instant
     \<Rightarrow> authorization_token \<Rightarrow> bool" where
  "justified_token vf p resolution who r t decided tok \<longleftrightarrow>
     verify_resolution (vf_resolver vf) resolution = Inr who
     \<and> pr_authenticated who \<and> pr_security_status who = Trusted \<and> pr_id who = ag_id (dr_agent r)
     \<and> map_of (po_target_inventory p) (ac_target (dr_action r)) = Some t
     \<and> tr_criticality t \<notin> {''HIGH'', ''TIER_0''} \<and> \<not> tr_human_approval_required t
     \<and> tk_action_type tok = ''NETWORK_ISOLATE'' \<and> tk_target_id tok = ac_target (dr_action r)
     \<and> (\<exists>ap ps. map_of (po_action_catalog p) ''NETWORK_ISOLATE'' = Some ap
          \<and> ay_required_authority ap \<in> set (pr_authority who)
          \<and> py_eq (tk_permitted_parameters tok) (parameters_to_dict ps)
          \<and> ap_duration_seconds ps \<le> ay_maximum_duration_seconds ap
          \<and> ap_duration_seconds ps \<le> ap_duration_seconds (ac_parameters (dr_action r))
          \<and> ap_preserve_management ps)
     \<and> (\<forall>x \<in> set (dr_evidence r). item_accepted (po_evidence p) (vf_attestation_keys vf) decided (ac_target (dr_action r)) x
          \<and> item_fresh (po_evidence p) decided x)"

lemma issued_token_justified:
  assumes "policy_from_dict policy_ok pv = Inr p"
    "verify_decision vf schema_ok st rd r who resolution p t d clock = Inr v"
    "issue g lnow i n clock' d agent ts v w = (Inr tok, w')"
  shows "agent = pr_id who \<and> justified_token vf p resolution who r t (whole_second clock) tok"
proof -
  obtain kvs where issued: "dn_outcome d \<in> set automatic_outcomes" "verification_bound g (whole_second clock') d agent v = Inr True"
    "dn_permitted_action d = Some (JObj kvs)" "draft_token g i n (whole_second clock') d agent ts (JObj kvs) = Inr tok"
    by (rule issue_Inr [OF assms(3)])
  note tok = draft_token_Inr(13-15) [OF issued(4)]
  show ?thesis
  proof (rule verify_decision_passed [OF assms(2) verification_bound_True(3) [OF issued(2)]])
    fix ap e c x issuer
    assume who: "verify_resolution (vf_resolver vf) resolution = Inr who" "dv_principal_id v = pr_id who"
      and t: "map_of (po_target_inventory p) (ac_target (dr_action r)) = Some t" "tr_id t = ac_target (dr_action r)"
      and ap: "map_of (po_action_catalog p) (action_type_value (ac_type (dr_action r))) = Some ap"
      and e: "assess_evidence (po_evidence p) (vf_attestation_keys vf) (whole_second clock) r = Inr e"
      and c: "assess_consequence t ap (po_consequence p) (ac_parameters (dr_action r)) = Inr c"
      and x: "build_decision (Some issuer) (vr_fresh_decision_id rd) (Some (dn_decision_id d)) (whole_second clock) r who p e c t ap
        = Inr x"
      and core: "core_fields_agree d x"
    have ap': "map_of (po_action_catalog p) ''NETWORK_ISOLATE'' = Some ap"
      using ap by (cases "ac_type (dr_action r)") simp
    have "dn_outcome x \<in> {''ALLOW'', ''ALLOW_CONSTRAINED''}"
      using issued(1) core by (simp add: core_fields_agree_def automatic_outcomes_def)
    note safe = automatic_decision_facts [OF assms(1) ap' e c x this]
    then obtain ps where ps: "dn_permitted_action x = Some (JObj [(''type'', JStr ''NETWORK_ISOLATE''), (''target'', JStr (tr_id t)),
           (''parameters'', parameters_to_dict ps)])" "ap_duration_seconds ps \<le> ay_maximum_duration_seconds ap"
         "ap_duration_seconds ps \<le> ap_duration_seconds (ac_parameters (dr_action r))" "ap_preserve_management ps"
      by blast
    have same: "py_eq (JObj kvs) (JObj [(''type'', JStr ''NETWORK_ISOLATE''), (''target'', JStr (tr_id t)),
           (''parameters'', parameters_to_dict ps)])"
      using core by (simp add: core_fields_agree_def issued(3) ps(1) jnullable_def)
    have fields: "map_of kvs ''type'' = Some (JStr (tk_action_type tok))" "map_of kvs ''target'' = Some (JStr (tk_target_id tok))"
      "map_of kvs ''parameters'' = Some (tk_permitted_parameters tok)"
      using tok by (auto simp: get_as_def as_str_def as_dict_def split: option.splits json.splits)
    have "tk_action_type tok = ''NETWORK_ISOLATE''" by (rule py_eq_member [OF same fields(1)]) auto
    moreover have "tk_target_id tok = tr_id t" by (rule py_eq_member [OF same fields(2)]) auto
    moreover have "py_eq (tk_permitted_parameters tok) (parameters_to_dict ps)"
      by (rule py_eq_member [OF same fields(3)]) auto
    moreover have "agent = pr_id who" using verification_bound_True(8) [OF issued(2)] who(2) by simp
    ultimately show ?thesis using safe ps(2-4) who(1) t ap' unfolding justified_token_def by auto
  qed
qed


text \<open>C34. The verifier is stricter about time than request validation: a request stamped ahead of the
  truncated clock, even by a fraction of the current second, is inside the permitted skew of validation and
  yet no decision on it ever passes verification.\<close>

theorem future_request_never_passes:
  assumes "verify_decision vf schema_ok st rd r who resolution p t d clock = Inr v"
    "parse_datetime (dr_timestamp r) = Some request_time" "whole_second clock < request_time"
  shows "request_time \<le> clock + 300 * micros \<and> \<not> dv_passed v"
proof (rule verify_decision_Inr [OF assms(1)])
  fix r' who' ok t' ap e c x requested approval request_time'
  assume r: "validate_decision_request_dict schema_ok clock (request_to_dict r) = Inr r'"
    and i: "parse_datetime (dr_timestamp r') = Some request_time'"
    and v: "v = (let u = draft_verification vf (vr_verification_id rd) r' who' resolution p d
              (decision_checks r' p t' (chronology_valid request_time' (whole_second clock) (vr_now rd) d) ok
                (t = t') requested approval d (e, c, x)) (whole_second (vr_verified_at rd))
          in u\<lparr>dv_signature := hmac_json (vf_signing_key vf) (verification_unsigned_dict u)\<rparr>)"
  have same: "r' = r" using validate_ok(1) [OF r] by (simp add: request_roundtrip)
  then have "\<not> chronology_valid request_time' (whole_second clock) (vr_now rd) d"
    using assms(2,3) i by (simp add: chronology_valid_def)
  then have "\<not> dv_passed v" by (simp add: v Let_def passed_iff decision_checks_def)
  moreover have "request_time \<le> clock + 300 * micros"
    using validate_ok(2) [OF r] assms(2) same
    by (auto simp: request_ok_def times_ok_def max_request_future_skew_def)
  ultimately show ?thesis by simp
qed

subsection \<open>A verified isolation\<close>

definition verifier_policy :: policy where
  "verifier_policy = sample_policy\<lparr>po_target_inventory := (''ws-1'', sample_target ''ws-1'') # po_target_inventory sample_policy\<rparr>"

definition sample_verifier :: verifier where
  "sample_verifier =
     \<lparr>vf_signing_key = replicate 32 (CHR ''v''), vf_attestation_keys = sample_keys, vf_approval = sample_gate,
      vf_resolver = \<lparr>rs_records = [(sha256_bytes resolver_credential, sample_principal)],
        rs_signing_key = ''key'', rs_instance_id = ''resolver-1''\<rparr>,
      vf_instance_id = ''verifier-1''\<rparr>"

definition sample_readings :: verifier_readings where
  "sample_readings = \<lparr>vr_now = sample_now, vr_verified_at = sample_now, vr_verification_id = ''v-1'', vr_fresh_decision_id = ''1''\<rparr>"

lemma verifier_policy_loads: "policy_from_dict (\<lambda>_. True) (policy_to_dict verifier_policy) = Inr verifier_policy"
proof -
  have "policy_keyed verifier_policy" "po_schema_version verifier_policy = policy_schema_version" "policy_safe verifier_policy"
    by code_simp+
  with build_policy_roundtrip [of verifier_policy] show ?thesis
    by (simp add: policy_from_dict_def policy_safe_def policy_to_dict_def)
qed

lemma sample_resolution:
  obtains resolution where "verify_resolution (vf_resolver sample_verifier) resolution = Inr sample_principal"
proof -
  have "match_record (vf_resolver sample_verifier) resolver_credential = Some sample_principal"
    by (simp add: match_record_map_of sample_verifier_def)
  then obtain v where "resolve (vf_resolver sample_verifier) ''1'' resolver_credential = Inr v" "rp_principal v = sample_principal"
    by (auto simp: resolve_def resolver_credential_def Let_def)
  with resolved_verifies that show thesis by metis
qed

lemma hmac_length [simp]: "length (hmac_json k v) = 64" "length (sha256_json v) = 64"
  using sha256_hex_wellformed by (simp_all add: hmac_json_def hmac_sha256_hex_def sha256_json_def Let_def)

lemma decided_request_validates_when:
  assumes "representable (clock + max_request_future_skew)" "sample_now \<le> clock + max_request_future_skew"
  shows "validate_decision_request_dict (\<lambda>_. True) clock (request_to_dict decided_request) = Inr decided_request"
proof -
  let ?v = "request_to_dict decided_request"
  have ev: "dr_evidence decided_request = [sample_item ''edr-1'' ''EDR'', sample_item ''siem-1'' ''SIEM'']"
    "dr_context decided_request = dr_context sample_request"
    by (simp_all add: decided_request_def evidence_request_def)
  have fields: "ev_id (sample_item n ty) = n" "ev_payload (sample_item n ty) = JObj []"
    "ev_supports (sample_item n ty) = [''COMPROMISE'']" "ev_contradicts (sample_item n ty) = []"
    "ev_observed_at (sample_item n ty) = ''2025-12-31T23:59:00+00:00''" for n ty
    by (simp_all add: sample_item_def Let_def)
  have "length (float_repr (fl (9 / 10))) \<le> 20" by code_simp
  then have "encoding_bound ?v \<le> 19999" "encoding_bound (dr_context decided_request) \<le> 9999"
    by (simp_all add: request_to_dict_def decided_request_def evidence_request_def sample_request_def agent_to_dict_def
        action_to_dict_def parameters_to_dict_def target_to_dict_def evidence_to_dict_def provenance_to_dict_def
        integrity_to_dict_def jstrs_def schema_version_def float_bounds sample_item_def Let_def calculate_content_sha256_def)
  then have sizes: "encoded_size ?v \<le> max_request_bytes" "encoded_size (dr_context decided_request) \<le> max_context_bytes"
    by (intro encoded_size_le; simp add: max_request_bytes_def max_context_bytes_def)+
  have depth: "json_depth_bound ?v \<le> max_json_depth"
    by (simp add: json_depth_bound_eq max_json_depth_def request_to_dict_def decided_request_def evidence_request_def
        sample_request_def agent_to_dict_def action_to_dict_def parameters_to_dict_def target_to_dict_def evidence_to_dict_def
        provenance_to_dict_def integrity_to_dict_def jstrs_def sample_item_def Let_def)
  have "encoded_size (JObj []) \<le> max_evidence_payload_bytes"
    by (intro encoded_size_le) (simp add: max_evidence_payload_bytes_def)
  then have payloads: "for_each check_evidence_item (map evidence_to_dict (dr_evidence decided_request)) = Inr ()"
    by (simp add: ev fields check_evidence_item_def evidence_to_dict_def get_as_def as_list_def jstrs_def as_str_def not_less)
  have "representable (sample_now + max_request_future_skew)" by code_simp
  moreover note assms
  moreover have "parse_datetime ''2026-01-01T00:00:00Z'' = Some sample_now" by code_simp
  ultimately have items: "check_request_times clock ?v (map evidence_to_dict (dr_evidence decided_request)) = Inr ()"
    using sample_age(1)
    by (simp add: check_request_times_def check_evidence_time_def timestamp_of_def get_as_def as_str_def request_to_dict_def
        evidence_to_dict_def ev fields decided_request_def evidence_request_def sample_request_def micros_def
        max_request_future_skew_def)
  have ids: "map_result (get_as as_str ''id'') (map evidence_to_dict (dr_evidence decided_request)) = Inr [''edr-1'', ''siem-1'']"
    by (simp add: ev get_as_def as_str_def evidence_to_dict_def fields)
  have parts: "get_as (get_as as_str ''target'') ''action'' ?v = Inr ''ws-1''"
    "get_as (get_as as_str ''id'') ''target'' ?v = Inr ''ws-1''"
    "get_as (as_list Inr) ''evidence'' ?v = Inr (map evidence_to_dict (dr_evidence decided_request))"
    "member ''context'' ?v = Inr (dr_context decided_request)"
    by (simp_all add: request_to_dict_def get_as_def as_str_def as_list_def action_to_dict_def target_to_dict_def
        decided_request_def evidence_request_def sample_request_def)
  obtain kvs where v: "?v = JObj kvs" "map_of kvs ''schema_version'' = Some (JStr schema_version)"
    by (simp add: request_to_dict_def decided_request_def evidence_request_def sample_request_def)
  show ?thesis
    using sizes depth payloads items parts ids v request_roundtrip [of decided_request]
    by (simp add: validate_decision_request_dict_def not_less)
qed

lemma decided_request_validates:
  "validate_decision_request_dict (\<lambda>_. True) sample_now (request_to_dict decided_request) = Inr decided_request"
  by (rule decided_request_validates_when; code_simp)

lemma verified_sample:
  obtains resolution d e c where
    "verify_resolution (vf_resolver sample_verifier) resolution = Inr sample_principal"
    "assess_evidence (po_evidence verifier_policy) (vf_attestation_keys sample_verifier) (whole_second sample_now) decided_request
      = Inr e"
    "assess_consequence (sample_target ''ws-1'') sample_action (po_consequence verifier_policy)
      (ac_parameters (dr_action decided_request)) = Inr c"
    "build_decision (Some (\<lambda>rq. fst (issue_requirement (vf_approval sample_verifier) ''a-1'' sample_now rq no_approvals))) ''1''
      (Some ''d-1'') (whole_second sample_now) decided_request sample_principal verifier_policy e c (sample_target ''ws-1'')
      sample_action = Inr d"
    "dn_outcome d = ''ALLOW''" "dn_approval_requirement d = None"
proof -
  have same: "po_evidence verifier_policy = po_evidence sample_policy" "po_consequence verifier_policy = po_consequence sample_policy"
    by (simp_all add: verifier_policy_def)
  obtain resolution where r: "verify_resolution (vf_resolver sample_verifier) resolution = Inr sample_principal"
    by (rule sample_resolution)
  obtain e where e: "assess_evidence (po_evidence sample_policy) sample_keys sample_now decided_request = Inr e"
    "ea_automation_grade e" "ea_invalid_evidence_ids e = []" "ea_poisoned_evidence_ids e = []"
    by (rule decided_evidence)
  obtain c where c: "assess_consequence (sample_target ''ws-1'') sample_action (po_consequence sample_policy)
      (ac_parameters (dr_action decided_request)) = Inr c" "\<not> ca_human_approval_required c"
    by (rule decided_consequence)
  let ?a = "assess_authority decided_request sample_principal (required_authority_for sample_action (sample_target ''ws-1''))"
  have safe: "policy_safe verifier_policy" by (rule policy_from_dict_safe [OF verifier_policy_loads])
  obtain rule where rule: "select_rule (decision_conditions ?a e c (sample_target ''ws-1'') sample_action
      (decision_constraints decided_request sample_action)) (po_decision_rules verifier_policy) = Inr rule" "ru_outcome rule = ''ALLOW''"
    using select_rule_reference [OF safe] decided [OF e(2-4) c(2)] by (metis outcome_value.simps(1))
  obtain ps cs rs where cp: "constrain_parameters sample_action (ac_parameters (dr_action decided_request)) = (ps, cs, rs)"
    by (cases "constrain_parameters sample_action (ac_parameters (dr_action decided_request))") auto
  have "\<exists>d. build_decision (Some (\<lambda>rq. fst (issue_requirement (vf_approval sample_verifier) ''a-1'' sample_now rq no_approvals))) ''1''
      (Some ''d-1'') (whole_second sample_now) decided_request sample_principal verifier_policy e c (sample_target ''ws-1'')
      sample_action = Inr d \<and> dn_outcome d = ''ALLOW'' \<and> dn_approval_requirement d = None"
    using rule by (simp add: build_decision_def cp Let_def)
  moreover have "vf_attestation_keys sample_verifier = sample_keys" by (simp add: sample_verifier_def)
  ultimately show thesis
    using that [OF r, unfolded same sample_times(2)] e(1) c(1) by (auto simp: sample_times(2))
qed

lemma sample_request_facts:
  "map_of (po_target_inventory verifier_policy) (ac_target (dr_action decided_request)) = Some (sample_target ''ws-1'')"
  "map_of (po_action_catalog verifier_policy) (action_type_value (ac_type (dr_action decided_request))) = Some sample_action"
  "parse_datetime (dr_timestamp decided_request) = Some sample_now" "\<bar>vr_now sample_readings - whole_second sample_now\<bar> \<le> 5 * micros"
proof -
  have "parse_datetime ''2026-01-01T00:00:00Z'' = Some sample_now" by code_simp
  then show "parse_datetime (dr_timestamp decided_request) = Some sample_now"
    by (simp add: decided_request_def evidence_request_def sample_request_def)
qed (simp_all add: verifier_policy_def sample_policy_def sample_action_def decided_request_def evidence_request_def
    sample_request_def sample_readings_def sample_times(2) micros_def)

theorem built_decision_verifies_witness:
  "\<exists>resolution d w. verify_decision sample_verifier (\<lambda>_. True) no_approvals sample_readings decided_request sample_principal
     resolution verifier_policy (sample_target ''ws-1'') d sample_now = Inr w \<and> dv_passed w \<and> dn_outcome d = ''ALLOW''"
proof (rule verified_sample)
  fix resolution d e c
  assume r: "verify_resolution (vf_resolver sample_verifier) resolution = Inr sample_principal"
    "assess_evidence (po_evidence verifier_policy) (vf_attestation_keys sample_verifier) (whole_second sample_now) decided_request
      = Inr e"
    "assess_consequence (sample_target ''ws-1'') sample_action (po_consequence verifier_policy)
      (ac_parameters (dr_action decided_request)) = Inr c"
    "build_decision (Some (\<lambda>rq. fst (issue_requirement (vf_approval sample_verifier) ''a-1'' sample_now rq no_approvals))) ''1''
      (Some ''d-1'') (whole_second sample_now) decided_request sample_principal verifier_policy e c (sample_target ''ws-1'')
      sample_action = Inr d"
    and d: "dn_outcome d = ''ALLOW''" "dn_approval_requirement d = None"
  have "\<exists>w. verify_decision sample_verifier (\<lambda>_. True) no_approvals sample_readings decided_request sample_principal
     resolution verifier_policy (sample_target ''ws-1'') d sample_now = Inr w \<and> dv_passed w \<and> dv_blocking_reason_codes w = []"
    by (rule built_decision_verifies [OF verifier_policy_loads decided_request_validates r(1) sample_request_facts(1,2) r(2-4) _ _
          sample_request_facts(3)])
      (simp_all add: d sample_times(2) sample_request_facts(4) [unfolded sample_times(2)])
  with d show ?thesis by blast
qed

lemma verified_sample_receipt:
  obtains resolution d w where "verify_decision sample_verifier (\<lambda>_. True) no_approvals sample_readings decided_request
     sample_principal resolution verifier_policy (sample_target ''ws-1'') d sample_now = Inr w" "dv_passed w"
    "dn_outcome d = ''ALLOW''" "dn_decision_id d = ''d-1''" "dn_permitted_action d = Some (JObj [(''type'', JStr ''NETWORK_ISOLATE''),
      (''target'', JStr ''ws-1''), (''parameters'', sample_command)])"
proof (rule verified_sample)
  fix resolution d e c
  assume r: "verify_resolution (vf_resolver sample_verifier) resolution = Inr sample_principal"
    "assess_evidence (po_evidence verifier_policy) (vf_attestation_keys sample_verifier) (whole_second sample_now) decided_request
      = Inr e"
    "assess_consequence (sample_target ''ws-1'') sample_action (po_consequence verifier_policy)
      (ac_parameters (dr_action decided_request)) = Inr c"
    "build_decision (Some (\<lambda>rq. fst (issue_requirement (vf_approval sample_verifier) ''a-1'' sample_now rq no_approvals))) ''1''
      (Some ''d-1'') (whole_second sample_now) decided_request sample_principal verifier_policy e c (sample_target ''ws-1'')
      sample_action = Inr d"
    and d: "dn_outcome d = ''ALLOW''" "dn_approval_requirement d = None"
  have did: "''d-1'' \<noteq> []" by simp
  note f = build_decision_shape [OF r(4) did]
  have "dn_permitted_action d = Some (JObj [(''type'', JStr ''NETWORK_ISOLATE''), (''target'', JStr ''ws-1''),
      (''parameters'', sample_command)])"
    unfolding f(12) d(1)
    by (simp add: permitted_action_for_def automatic_outcomes_def sample_target_def constrain_parameters_def sample_action_def
        sample_policy_def decided_request_def evidence_request_def sample_request_def Let_def parameters_to_dict_def sample_command_def)
  moreover have "\<exists>w. verify_decision sample_verifier (\<lambda>_. True) no_approvals sample_readings decided_request sample_principal
     resolution verifier_policy (sample_target ''ws-1'') d sample_now = Inr w \<and> dv_passed w \<and> dv_blocking_reason_codes w = []"
    by (rule recomputed_decision_passes [OF verifier_policy_loads decided_request_validates r(1) sample_request_facts(1,2) r(2-4)
          did _ sample_request_facts(3)])
      (simp_all add: d sample_times(2) sample_request_facts(4) [unfolded sample_times(2)])
  ultimately show thesis using d(1) f(1) that by blast
qed

theorem verification_sound_witness:
  "\<exists>resolution d w. verify_decision sample_verifier (\<lambda>_. True) no_approvals sample_readings decided_request sample_principal
     resolution verifier_policy (sample_target ''ws-1'') d sample_now = Inr w
     \<and> dv_decision_sha256 w = authorization_sha256 d \<and> dn_outcome d = ''ALLOW''"
proof (rule verified_sample_receipt)
  fix resolution d w
  assume w: "verify_decision sample_verifier (\<lambda>_. True) no_approvals sample_readings decided_request sample_principal
     resolution verifier_policy (sample_target ''ws-1'') d sample_now = Inr w" "dv_passed w" "dn_outcome d = ''ALLOW''"
  with verification_sound [OF w(1,2)] show ?thesis by blast
qed


text \<open>The same request, seen by a clock that is one minute behind.\<close>

definition early_clock :: instant where
  "early_clock = sample_now - 60 * micros"

definition early_decision :: decision_record where
  "early_decision = allowed_decision\<lparr>dn_approval_requirement := Some no_requirement\<rparr>"

lemma assess_evidence_total:
  assumes "\<forall>e \<in> set (dr_evidence r). parse_datetime (ev_observed_at e) \<noteq> None" "er_maximum_age_seconds er \<noteq> 0"
  shows "\<exists>a. assess_evidence er keys now r = Inr a"
proof -
  have "\<exists>v. view_item er keys now target e = Inr v" if "parse_datetime (ev_observed_at e) \<noteq> None" for e target
    using that assms(2) by (auto simp: view_item_def Let_def split: prod.splits)
  then have "\<exists>vs. map_result (view_item er keys now target) es = Inr vs"
    if "\<forall>e \<in> set es. parse_datetime (ev_observed_at e) \<noteq> None" for es target
    using that by (induction es) fastforce+
  with assms(1) show ?thesis by (fastforce simp: assess_evidence_def)
qed

lemma early_verification:
  obtains resolution v where "verify_decision sample_verifier (\<lambda>_. True) no_approvals sample_readings decided_request
     sample_principal resolution verifier_policy (sample_target ''ws-1'') early_decision early_clock = Inr v"
proof -
  obtain resolution where r: "verify_resolution (vf_resolver sample_verifier) resolution = Inr sample_principal"
    by (rule sample_resolution)
  have valid: "validate_decision_request_dict (\<lambda>_. True) early_clock (request_to_dict decided_request) = Inr decided_request"
    by (rule decided_request_validates_when; code_simp)
  have "\<forall>e \<in> set (dr_evidence decided_request). ev_observed_at e = ''2025-12-31T23:59:00+00:00''"
    by (simp add: decided_request_def evidence_request_def sample_item_def Let_def)
  moreover have "er_maximum_age_seconds (po_evidence verifier_policy) \<noteq> 0"
    by (simp add: verifier_policy_def sample_policy_def)
  ultimately obtain e where e: "assess_evidence (po_evidence verifier_policy) (vf_attestation_keys sample_verifier)
      (whole_second early_clock) decided_request = Inr e"
    using assess_evidence_total [of decided_request "po_evidence verifier_policy"] sample_age(1) by fastforce
  obtain c where c: "assess_consequence (sample_target ''ws-1'') sample_action (po_consequence verifier_policy)
      (ac_parameters (dr_action decided_request)) = Inr c"
    using decided_consequence by (auto simp: verifier_policy_def)
  obtain x where x: "build_decision (Some (\<lambda>_. Inr no_requirement)) ''1'' (Some (dn_decision_id early_decision))
      (whole_second early_clock) decided_request sample_principal verifier_policy e c (sample_target ''ws-1'') sample_action = Inr x"
    using build_decision_total [OF policy_from_dict_safe [OF verifier_policy_loads], of "\<lambda>_. Inr no_requirement"] by blast
  have "recompute sample_verifier ''1'' decided_request sample_principal verifier_policy (sample_target ''ws-1'') sample_action
      early_decision (whole_second early_clock) = Inr (e, c, x)"
    using e c x by (simp add: recompute_def early_decision_def)
  moreover have "requested_target early_decision = Inr (obj_get [] ''target'')"
    by (simp add: requested_target_def early_decision_def allowed_decision_def)
  moreover have "approval_valid sample_verifier no_approvals decided_request early_decision x (tr_id (sample_target ''ws-1'')) = Inr False"
    by (simp add: approval_valid_def early_decision_def verify_requirement_def no_requirement_def python_errors_def sha256_json_def)
  ultimately show thesis
    using that [of resolution] valid r sample_request_facts(1-3)
    by (simp add: verify_decision_def resolved_or_supplied_def item_def sample_readings_def Let_def)
qed

theorem future_request_never_passes_witness:
  "\<exists>resolution v. verify_decision sample_verifier (\<lambda>_. True) no_approvals sample_readings decided_request
     sample_principal resolution verifier_policy (sample_target ''ws-1'') early_decision early_clock = Inr v \<and> \<not> dv_passed v"
proof (rule early_verification)
  fix resolution v
  assume v: "verify_decision sample_verifier (\<lambda>_. True) no_approvals sample_readings decided_request
     sample_principal resolution verifier_policy (sample_target ''ws-1'') early_decision early_clock = Inr v"
  have "whole_second early_clock < sample_now" by code_simp
  with future_request_never_passes [OF v sample_request_facts(3)] v show ?thesis by blast
qed

end
