(* ===== verification/CanonicalText.thy ===== *)
theory CanonicalText
  imports PyJson
begin

text \<open>
  The canonical text of a value can be read in one way only: no proper prefix of the text of a value,
  followed by the end of the text or by a separator, is the text of another. Two objects with the same
  canonical text therefore have the same keys and, member by member, the same canonical text. The audit
  chain rests on this: what a digest is computed over determines the previous digest it links to.
\<close>

subsection \<open>Texts without a separator\<close>

definition delim :: "char \<Rightarrow> bool" where
  "delim c \<longleftrightarrow> c = CHR '','' \<or> c = CHR '']'' \<or> c = CHR 0x7D"

definition delimited :: "string \<Rightarrow> bool" where
  "delimited r \<longleftrightarrow> r = [] \<or> delim (hd r)"

definition number_chars :: "char set" where
  "number_chars = set ''0123456789+-.e''"

lemma show_nat_chars: "0 \<le> n \<Longrightarrow> set (show_nat n) \<subseteq> number_chars \<and> show_nat n \<noteq> []"
proof (induction n rule: show_nat.induct)
  case (1 n)
  have digit: "char_of (48 + k) \<in> number_chars" if "0 \<le> k" "k < 10" for k :: int
  proof -
    from that have "k \<in> set [0..9]" by simp
    moreover have "list_all (\<lambda>k::int. char_of (48 + k) \<in> number_chars) [0..9]"
      unfolding number_chars_def by code_simp
    ultimately show ?thesis by (simp only: list_all_iff)
  qed
  show ?case
  proof (cases "n < 10")
    case True
    then show ?thesis using 1(2) digit [of n] by (subst (1 2) show_nat.simps) simp
  next
    case False
    then show ?thesis using 1 digit [of "n mod 10"] by (subst (1 2) show_nat.simps) simp
  qed
qed

lemma number_chars_simps [simp]:
  "CHR ''0'' \<in> number_chars" "CHR ''-'' \<in> number_chars" "CHR ''+'' \<in> number_chars"
  "CHR ''.'' \<in> number_chars" "CHR ''e'' \<in> number_chars"
  by (simp_all add: number_chars_def)

lemma show_int_chars: "set (show_int n) \<subseteq> number_chars \<and> show_int n \<noteq> []"
  using show_nat_chars [of n] show_nat_chars [of "- n"] by (auto simp: show_int_def)

lemma round_half_even_nonneg: "0 \<le> x \<Longrightarrow> 0 \<le> round_half_even x"
  by (auto simp: round_half_even_def Let_def)

lemma decimal_candidate_nonneg: "0 < x \<Longrightarrow> 0 \<le> fst (decimal_candidate x n)"
  by (simp add: decimal_candidate_def Let_def round_half_even_nonneg pow10_def)

lemma shortest_decimal_nonneg: "0 < x \<Longrightarrow> 0 \<le> fst (shortest_decimal x)"
proof -
  assume x: "0 < x"
  let ?cs = "filter (\<lambda>(d, k). fl (of_int d * pow10 k) = x) (map (decimal_candidate x) [1..<18])"
  show ?thesis
  proof (cases ?cs)
    case Nil
    then show ?thesis by (simp add: shortest_decimal_def decimal_candidate_nonneg x)
  next
    case (Cons c cs)
    then have "c \<in> set ?cs" by simp
    then obtain n where "c = decimal_candidate x n" by (auto simp del: upt_Suc upt_rec_numeral)
    with Cons show ?thesis by (simp add: shortest_decimal_def decimal_candidate_nonneg x del: upt_Suc upt_rec_numeral)
  qed
qed

lemma float_repr_pos_chars: "0 < x \<Longrightarrow> set (float_repr_pos x) \<subseteq> number_chars \<and> float_repr_pos x \<noteq> []"
proof -
  assume x: "0 < x"
  obtain d k where dk: "shortest_decimal x = (d, k)" by (cases "shortest_decimal x")
  note d = show_nat_chars [of d] show_nat_chars
  have "0 \<le> d" using shortest_decimal_nonneg [OF x] dk by simp
  then show ?thesis
    using d by (auto simp: float_repr_pos_def dk Let_def dest!: in_set_takeD in_set_dropD)
qed

lemma float_repr_chars: "set (float_repr x) \<subseteq> number_chars \<and> float_repr x \<noteq> []"
  using float_repr_pos_chars [of x] float_repr_pos_chars [of "- x"] by (auto simp: float_repr_def)


definition atom_text :: "string \<Rightarrow> bool" where
  "atom_text t \<longleftrightarrow> t \<noteq> [] \<and> list_all (\<lambda>c. \<not> delim c) t \<and> hd t \<notin> {CHR 0x22, CHR ''['', CHR 0x7B}"

lemma number_text_atom: "set t \<subseteq> number_chars \<and> t \<noteq> [] \<Longrightarrow> atom_text t"
proof -
  assume t: "set t \<subseteq> number_chars \<and> t \<noteq> []"
  then have "hd t \<in> number_chars" by (cases t) auto
  moreover have "\<not> delim c \<and> c \<notin> {CHR 0x22, CHR ''['', CHR 0x7B}" if "c \<in> number_chars" for c
    using that by (auto simp: number_chars_def delim_def)
  ultimately show ?thesis using t by (auto simp: atom_text_def list_all_iff)
qed

lemma split_atom:
  assumes "atom_text t" "atom_text t'" "delimited r" "delimited r'" "t @ r = t' @ r'"
  shows "t = t' \<and> r = r'"
proof -
  have "takeWhile (\<lambda>c. \<not> delim c) (s @ q) = s" if "atom_text s" "delimited q" for s q
    using that by (cases q) (auto simp: atom_text_def delimited_def list_all_iff takeWhile_eq_Nil_iff)
  from this [OF assms(1,3)] this [OF assms(2,4)] show ?thesis using assms(5) by simp
qed

subsection \<open>Strings\<close>

definition escape_length :: "string \<Rightarrow> nat" where
  "escape_length s = (if hd s \<noteq> CHR 0x5C then 1 else if hd (tl s) \<noteq> CHR ''u'' then 2 else 6)"

definition hex_value :: "char \<Rightarrow> int" where
  "hex_value c = (let n = of_char c in if n < 58 then n - 48 else n - 87)"

definition unescape :: "string \<Rightarrow> char" where
  "unescape s =
     (if hd s \<noteq> CHR 0x5C then hd s
      else if hd (tl s) = CHR ''u'' then char_of (16 * hex_value (s ! 4) + hex_value (s ! 5))
      else if hd (tl s) = CHR ''b'' then char_of (8::int)
      else if hd (tl s) = CHR ''t'' then char_of (9::int)
      else if hd (tl s) = CHR ''n'' then char_of (10::int)
      else if hd (tl s) = CHR ''f'' then char_of (12::int)
      else if hd (tl s) = CHR ''r'' then char_of (13::int)
      else hd (tl s))"

lemma escape_char_shape:
  "hd (escape_char c) \<noteq> CHR 0x22 \<and> length (escape_char c) = escape_length (escape_char c)
    \<and> unescape (escape_char c) = c"
proof -
  have "list_all (\<lambda>c. hd (escape_char c) \<noteq> CHR 0x22 \<and> length (escape_char c) = escape_length (escape_char c)
      \<and> unescape (escape_char c) = c) (map (char_of :: int \<Rightarrow> char) [0..255])" by code_simp
  moreover have "c \<in> set (map (char_of :: int \<Rightarrow> char) [0..255])"
  proof -
    have "0 \<le> (of_char c :: int)" "(of_char c :: int) \<le> 255" by (cases c; simp add: of_char_def)+
    then show ?thesis by (auto intro!: image_eqI [of _ _ "of_char c"])
  qed
  ultimately show ?thesis unfolding list_all_iff by blast
qed

lemma escape_char_Cons: "\<exists>a s. escape_char c = a # s \<and> a \<noteq> CHR 0x22"
proof -
  have "0 < escape_length s" for s by (simp add: escape_length_def)
  then have "0 < length (escape_char c)" using escape_char_shape [of c] by simp
  then show ?thesis using escape_char_shape [of c] by (cases "escape_char c") auto
qed

lemma split_escape:
  assumes "escape_char c @ r = escape_char c' @ r'"
  shows "c = c' \<and> r = r'"
proof -
  note shape = escape_char_shape [of c] escape_char_shape [of c']
  have ne: "escape_char d \<noteq> []" for d using escape_char_Cons [of d] by auto
  have hd: "hd (escape_char c) = hd (escape_char c')"
    using arg_cong [OF assms, of hd] ne by (simp add: hd_append)
  moreover have "hd (tl (escape_char c)) = hd (tl (escape_char c'))" if "hd (escape_char c) = CHR 0x5C"
  proof -
    have two: "tl (escape_char d) \<noteq> []" if "hd (escape_char d) = CHR 0x5C" for d
    proof -
      have "2 \<le> escape_length (escape_char d)" using that by (simp add: escape_length_def)
      then have "2 \<le> length (escape_char d)" using escape_char_shape [of d] by linarith
      then show ?thesis by (cases "escape_char d") auto
    qed
    have "hd (tl (escape_char c @ r)) = hd (tl (escape_char c' @ r'))" using assms by simp
    then show ?thesis using ne two [of c] two [of c'] that hd by (simp add: tl_append2 hd_append)
  qed
  ultimately have "escape_length (escape_char c) = escape_length (escape_char c')"
    by (simp add: escape_length_def)
  with shape have "length (escape_char c) = length (escape_char c')" by presburger
  with assms have same: "escape_char c = escape_char c' \<and> r = r'" by simp
  have "c = unescape (escape_char c)" by (rule shape(1) [THEN conjunct2, THEN conjunct2, symmetric])
  also have "\<dots> = unescape (escape_char c')" using same by simp
  also have "\<dots> = c'" using shape(2) by blast
  finally show ?thesis using same by simp
qed

lemma split_string_body:
  "concat (map escape_char s) @ CHR 0x22 # r = concat (map escape_char s') @ CHR 0x22 # r' \<Longrightarrow> s = s' \<and> r = r'"
proof (induction s arbitrary: s')
  case Nil
  then show ?case
  proof (cases s')
    case (Cons d ds)
    then show ?thesis using Nil escape_char_Cons [of d] by auto
  qed simp
next
  case (Cons c s)
  show ?case
  proof (cases s')
    case Nil
    then show ?thesis using Cons.prems escape_char_Cons [of c] by auto
  next
    case (Cons d ds)
    with Cons.prems have "escape_char c @ (concat (map escape_char s) @ CHR 0x22 # r)
        = escape_char d @ (concat (map escape_char ds) @ CHR 0x22 # r')" by simp
    from split_escape [OF this] Cons.IH [of ds] Cons show ?thesis by simp
  qed
qed

lemma split_string: "json_string s @ r = json_string s' @ r' \<Longrightarrow> s = s' \<and> r = r'"
  using split_string_body [of s r s' r'] by (simp add: json_string_def)

lemma json_string_inj [simp]: "json_string s = json_string s' \<longleftrightarrow> s = s'"
  using split_string [of s "[]" s' "[]"] by auto


subsection \<open>Lists and objects\<close>

definition opens :: "string \<Rightarrow> bool" where
  "opens t \<longleftrightarrow> t \<noteq> [] \<and> \<not> delim (hd t)"

lemma opens_append [simp]: "opens t \<Longrightarrow> opens (t @ r)"
  by (auto simp: opens_def)

lemma delimited_simps [simp]: "delimited []" "delimited (c # r) \<longleftrightarrow> delim c"
  by (simp_all add: delimited_def)

lemma delim_simps [simp]: "delim CHR '',''" "delim CHR '']''" "delim CHR 0x7D" "\<not> delim CHR ''[''" "\<not> delim CHR 0x7B"
    "\<not> delim CHR 0x22"
  by (simp_all add: delim_def)

lemma opens_not_delim: "opens t \<Longrightarrow> delim c \<Longrightarrow> c # r = t @ r' \<Longrightarrow> False"
  by (cases t) (auto simp: opens_def)

lemma join_Cons: "join sep (x # xs) = x @ (if xs = [] then [] else sep @ join sep xs)"
  by (cases xs) auto

lemma split_join:
  assumes "\<And>x y r r'. x \<in> set xs \<Longrightarrow> y \<in> set ys \<Longrightarrow> delimited r \<Longrightarrow> delimited r' \<Longrightarrow> x @ r = y @ r' \<Longrightarrow> x = y \<and> r = r'"
    and "list_all opens xs" "list_all opens ys" "delim c" "c \<noteq> CHR '',''"
    and "join '','' xs @ c # r = join '','' ys @ c # r'"
  shows "xs = ys \<and> r = r'"
  using assms
proof (induction xs arbitrary: ys)
  case Nil
  show ?case
  proof (cases ys)
    case (Cons y ys')
    with Nil show ?thesis using opens_not_delim [of y c r] by (auto simp: join_Cons)
  qed (use Nil in simp)
next
  case (Cons x xs)
  show ?case
  proof (cases ys)
    case Nil
    with Cons.prems show ?thesis using opens_not_delim [of x c r'] by (auto simp: join_Cons dest: sym)
  next
    case (Cons y ys')
    let ?rest = "\<lambda>zs q. (if zs = [] then [] else '','' @ join '','' zs) @ c # q"
    have "x @ ?rest xs r = y @ ?rest ys' r'" using Cons.prems(6) Cons by (simp add: join_Cons)
    have ends: "delimited (?rest zs q)" for zs q using Cons.prems(4) by simp
    have "x = y \<and> ?rest xs r = ?rest ys' r'"
      by (rule Cons.prems(1) [OF _ _ ends ends \<open>x @ ?rest xs r = y @ ?rest ys' r'\<close>]) (simp_all add: Cons)
    then have xy: "x = y" and rest: "?rest xs r = ?rest ys' r'" by (rule conjunct1, rule conjunct2)
    have "(xs = []) = (ys' = [])" using rest Cons.prems(5) by (cases "xs = []"; cases "ys' = []") simp_all
    with rest have "join '','' xs @ c # r = join '','' ys' @ c # r'" by (cases "xs = []") simp_all
    moreover have "x' \<in> set xs \<Longrightarrow> y' \<in> set ys' \<Longrightarrow> delimited q \<Longrightarrow> delimited q' \<Longrightarrow> x' @ q = y' @ q' \<Longrightarrow> x' = y' \<and> q = q'"
      for x' y' q q' by (rule Cons.prems(1)) (simp_all add: Cons)
    ultimately have "xs = ys' \<and> r = r'" using Cons.IH [of ys'] Cons.prems(2-5) Cons by simp
    with xy Cons show ?thesis by simp
  qed
qed

definition member_text :: "pystr \<Rightarrow> string \<Rightarrow> string" where
  "member_text k t = json_string k @ '':'' @ t"

lemma split_member:
  assumes "member_text k t @ r = member_text k' t' @ r'"
  shows "k = k' \<and> t @ r = t' @ r'"
proof -
  have "json_string k @ '':'' @ t @ r = json_string k' @ '':'' @ t' @ r'"
    using assms by (simp add: member_text_def)
  from split_string [OF this] show ?thesis by simp
qed

lemma member_text_opens: "opens (member_text k t)"
  by (simp add: opens_def member_text_def json_string_def)

definition member_texts :: "(pystr \<times> json) list \<Rightarrow> (pystr \<times> string) list" where
  "member_texts kvs = sort_key fst (map (\<lambda>(k, v). (k, canonical_json v)) kvs)"

lemma canonical_object:
  "canonical_json (JObj kvs) = CHR 0x7B # join '','' (map (\<lambda>(k, t). member_text k t) (member_texts kvs)) @ [CHR 0x7D]"
  by (simp add: member_texts_def member_text_def)

lemma set_member_texts: "set (member_texts kvs) = (\<lambda>(k, v). (k, canonical_json v)) ` set kvs"
  by (simp add: member_texts_def)

lemma canonical_start:
  "case v of JStr s \<Rightarrow> canonical_json v = json_string s
     | JList xs \<Rightarrow> hd (canonical_json v) = CHR ''['' | JObj kvs \<Rightarrow> hd (canonical_json v) = CHR 0x7B
     | _ \<Rightarrow> atom_text (canonical_json v)"
  using number_text_atom [OF show_int_chars] number_text_atom [OF float_repr_chars]
  by (cases v) (auto simp: atom_text_def delim_def)

lemma atom_opens: "atom_text t \<Longrightarrow> opens t"
  by (cases t) (auto simp: atom_text_def opens_def)

lemma canonical_opens: "opens (canonical_json v)"
proof (cases v)
  case (JStr s)
  then show ?thesis by (simp add: opens_def json_string_def)
qed (use atom_opens [of "canonical_json v"] canonical_start [of v] in \<open>simp_all add: opens_def delim_def\<close>)


lemma canonical_shape:
  obtains s where "v = JStr s" "hd (canonical_json v) = CHR 0x22"
  | xs where "v = JList xs" "hd (canonical_json v) = CHR ''[''"
  | kvs where "v = JObj kvs" "hd (canonical_json v) = CHR 0x7B"
  | "atom_text (canonical_json v)" "hd (canonical_json v) \<notin> {CHR 0x22, CHR ''['', CHR 0x7B}"
proof -
  have "json_string s = CHR 0x22 # concat (map escape_char s) @ [CHR 0x22]" for s by (simp add: json_string_def)
  then show thesis using canonical_start [of v] that
    by (cases v) (simp_all add: atom_text_def)
qed

lemma same_start:
  assumes "canonical_json v @ r = canonical_json v' @ r'"
  shows "hd (canonical_json v) = hd (canonical_json v')"
  using arg_cong [OF assms, of hd] canonical_opens [of v] canonical_opens [of v']
  by (simp add: hd_append opens_def)

lemma split_atom_value:
  assumes "atom_text (canonical_json v)" "delimited r" "delimited r'" "canonical_json v @ r = canonical_json v' @ r'"
  shows "canonical_json v = canonical_json v' \<and> r = r'"
proof -
  have "hd (canonical_json v') \<notin> {CHR 0x22, CHR ''['', CHR 0x7B}"
    using same_start [OF assms(4)] assms(1) by (simp add: atom_text_def)
  then have "atom_text (canonical_json v')" by (cases v' rule: canonical_shape) auto
  from split_atom [OF assms(1) this assms(2-4)] show ?thesis .
qed

lemma canonical_split:
  "delimited r \<Longrightarrow> delimited r' \<Longrightarrow> canonical_json v @ r = canonical_json v' @ r'
   \<Longrightarrow> canonical_json v = canonical_json v' \<and> r = r'"
proof (induction v arbitrary: v' r r' rule: canonical_json.induct)
  case (6 xs)
  have "hd (canonical_json v') = CHR ''[''" using same_start [OF 6(4)] by simp
  then obtain ys where v': "v' = JList ys" by (cases v' rule: canonical_shape) auto
  have "map canonical_json xs = map canonical_json ys \<and> r = r'"
  proof (rule split_join [where c = "CHR '']''"])
    fix t u q q'
    assume "t \<in> set (map canonical_json xs)" "u \<in> set (map canonical_json ys)" and d: "delimited q" "delimited q'"
      and eq: "t @ q = u @ q'"
    then obtain x y where x: "x \<in> set xs" "t = canonical_json x" "u = canonical_json y" by auto
    show "t = u \<and> q = q'" using 6(1) [OF x(1) d] eq x(2,3) by blast
  qed (use 6(4) v' canonical_opens in \<open>simp_all add: list_all_iff\<close>)
  then show ?case using v' by simp
next
  case (7 kvs)
  have "hd (canonical_json v') = CHR 0x7B" using same_start [OF 7(4)] by simp
  then obtain ms where v': "v' = JObj ms" by (cases v' rule: canonical_shape) auto
  let ?texts = "\<lambda>d. map (\<lambda>(k, t). member_text k t) (member_texts d)"
  have "?texts kvs = ?texts ms \<and> r = r'"
  proof (rule split_join [where c = "CHR 0x7D"])
    fix t u q q'
    assume "t \<in> set (?texts kvs)" "u \<in> set (?texts ms)" and d: "delimited q" "delimited q'" and eq: "t @ q = u @ q'"
    then obtain p k y where p: "p \<in> set kvs" "t = member_text (fst p) (canonical_json (snd p))"
        "u = member_text k (canonical_json y)"
      by (auto simp: set_member_texts)
    have "member_text (fst p) (canonical_json (snd p)) @ q = member_text k (canonical_json y) @ q'" using eq p(2,3) by simp
    from split_member [OF this] have k: "fst p = k" and rest: "canonical_json (snd p) @ q = canonical_json y @ q'" by auto
    have "canonical_json (snd p) = canonical_json y \<and> q = q'"
      using 7(1) [OF p(1) prod.collapse d rest] by blast
    with k p(2,3) show "t = u \<and> q = q'" by simp
  qed (use 7(4) v' member_text_opens in \<open>auto simp: list_all_iff canonical_object simp del: canonical_json.simps\<close>)
  then show ?case using v' by (simp add: canonical_object del: canonical_json.simps)
next
  case (5 s)
  have "hd (canonical_json v') = CHR 0x22" using same_start [OF 5(3)] by (simp add: json_string_def)
  then obtain s' where v': "v' = JStr s'" by (cases v' rule: canonical_shape) auto
  have "json_string s @ r = json_string s' @ r'" using 5(3) v' by simp
  from split_string [OF this] v' show ?case by simp
next
  case 1
  show ?case by (rule split_atom_value [OF _ 1]) (use canonical_start [of JNull] in simp)
next
  case (2 b)
  show ?case by (rule split_atom_value [OF _ 2]) (use canonical_start [of "JBool b"] in simp)
next
  case (3 n)
  show ?case by (rule split_atom_value [OF _ 3]) (use canonical_start [of "JInt n"] in simp)
next
  case (4 x)
  show ?case by (rule split_atom_value [OF _ 4]) (use canonical_start [of "JFloat x"] in simp)
qed

text \<open>Two objects with the same text have the same text member by member.\<close>

lemma same_members:
  assumes "canonical_json (JObj d) = canonical_json (JObj e)"
  shows "member_texts d = member_texts e"
proof -
  let ?texts = "\<lambda>d. map (\<lambda>(k, t). member_text k t) (member_texts d)"
  have eq: "join '','' (?texts d) @ CHR 0x7D # [] = join '','' (?texts e) @ CHR 0x7D # []"
    using assms by (simp add: canonical_object del: canonical_json.simps)
  have "?texts d = ?texts e \<and> [] = ([] :: string)"
  proof (rule split_join [OF _ _ _ _ _ eq])
    fix t u q q'
    assume "t \<in> set (?texts d)" "u \<in> set (?texts e)" and ends: "delimited q" "delimited q'" and "t @ q = u @ q'"
    then obtain k x k' y where *: "t = member_text k (canonical_json x)" "u = member_text k' (canonical_json y)"
        "member_text k (canonical_json x) @ q = member_text k' (canonical_json y) @ q'"
      by (auto simp: set_member_texts)
    from split_member [OF *(3)] canonical_split [OF ends, of x y] * show "t = u \<and> q = q'" by simp
  qed (auto simp: list_all_iff member_text_opens)
  moreover have "inj (\<lambda>(k, t). member_text k t)"
  proof (rule injI, clarify)
    fix k t k' t'
    assume "member_text k t = member_text k' t'"
    then show "k = k' \<and> t = t'" using split_member [of k t "[]" k' t' "[]"] by simp
  qed
  ultimately show ?thesis using map_injective [of _ "member_texts d" "member_texts e"] by blast
qed

lemma map_of_sort_key:
  "distinct (map fst xs) \<Longrightarrow> map_of (sort_key fst xs) = map_of (xs :: ('k :: linorder \<times> 'v) list)"
  by (rule map_of_inject_set [THEN iffD2]) (simp_all add: distinct_map)

lemma same_text_same_member:
  assumes "canonical_json (JObj d) = canonical_json (JObj e)" "distinct (map fst d)" "distinct (map fst e)"
  shows "map_option canonical_json (map_of d k) = map_option canonical_json (map_of e k)"
proof -
  have keys: "map fst (map (\<lambda>(k, v). (k, canonical_json v)) f) = map fst f" for f :: "(pystr \<times> json) list"
    by (induction f) auto
  have "map_of (member_texts f) = (\<lambda>k. map_option canonical_json (map_of f k))" if "distinct (map fst f)" for f
    using that keys [of f] by (simp add: member_texts_def map_of_sort_key map_of_map fun_eq_iff del: map_map)
  from this [OF assms(2)] this [OF assms(3)] same_members [OF assms(1)] show ?thesis by metis
qed

lemma same_text_string: "canonical_json (JStr s) = canonical_json v \<longleftrightarrow> v = JStr s"
proof
  assume eq: "canonical_json (JStr s) = canonical_json v"
  then have "hd (canonical_json v) = CHR 0x22" by (metis canonical_json.simps(5) json_string_def append_Cons list.sel(1))
  then obtain s' where "v = JStr s'" by (cases v rule: canonical_shape) auto
  with eq show "v = JStr s" by simp
qed simp

end
