(* ===== verification/AuditLog.thy ===== *)
theory AuditLog
  imports CanonicalText PyValue
begin

text \<open>
  The hash-chained audit log (\<open>audit.py\<close>) and the phase 3 chain check of \<open>phase3/audit.py\<close>: appending a
  row, reopening the rows of a file, and the verification of a chain with its error texts. A row is a
  \<open>dict\<close> of JSON values. The interface \<open>hash_chain\<close> states what a chain promises over any digest; it is
  interpreted on the rows and their canonical texts. Writing the bytes of a row to a descriptor is not modelled.
\<close>

type_synonym audit_row = "(pystr \<times> json) list"

record audit_log =
  al_rows :: "audit_row list"
  al_previous_hash :: pystr
  al_sequence :: int

definition genesis_hash :: pystr where
  "genesis_hash = replicate 64 CHR ''0''"

definition new_audit_log :: audit_log where
  "new_audit_log = \<lparr>al_rows = [], al_previous_hash = genesis_hash, al_sequence = 0\<rparr>"

subsection \<open>Appending\<close>

definition audit_body :: "int \<Rightarrow> pystr \<Rightarrow> pystr \<Rightarrow> pystr \<Rightarrow> json \<Rightarrow> audit_row" where
  "audit_body sequence recorded_at record_type previous_hash payload =
     [(''sequence'', JInt sequence), (''recorded_at'', JStr recorded_at), (''record_type'', JStr record_type),
      (''previous_hash'', JStr previous_hash), (''payload'', payload)]"

text \<open>The row kept is a copy of the body; the row returned is decoded from its canonical text.\<close>

definition audit_append :: "pystr \<Rightarrow> pystr \<Rightarrow> json \<Rightarrow> audit_log \<Rightarrow> json \<times> audit_log" where
  "audit_append recorded_at record_type payload al =
     (let body = audit_body (al_sequence al) recorded_at record_type (al_previous_hash al) payload;
          record_hash = sha256_json (JObj body);
          row = body @ [(''record_hash'', JStr record_hash)]
      in (key_sorted (JObj row),
          \<lparr>al_rows = al_rows al @ [row], al_previous_hash = record_hash, al_sequence = al_sequence al + 1\<rparr>))"

subsection \<open>Verification\<close>

fun verify_indexed_rows :: "pystr \<Rightarrow> (nat \<times> audit_row) list \<Rightarrow> pystr list" where
  "verify_indexed_rows previous [] = []"
| "verify_indexed_rows previous ((index, row) # rest) =
     (let claimed = obj_get row ''record_hash'';
          body = dict_pop ''record_hash'' row;
          calculated = sha256_json (JObj body)
      in (if obj_get body ''previous_hash'' \<noteq> JStr previous
          then [''Record '' @ show_int (int index) @ '' previous_hash does not match the chain.''] else [])
         @ (if claimed \<noteq> JStr calculated
            then [''Record '' @ show_int (int index) @ '' hash is invalid.''] else [])
         @ verify_indexed_rows (py_str claimed) rest)"

definition verify_rows :: "audit_row list \<Rightarrow> bool \<times> pystr list" where
  "verify_rows rows = (let errors = verify_indexed_rows genesis_hash (enumerate 0 rows) in (errors = [], errors))"

definition sequence_errors :: "audit_row list \<Rightarrow> pystr list" where
  "sequence_errors rows =
     concat (map (\<lambda>(index, row).
         if py_eq (obj_get row ''sequence'') (JInt (int index)) then []
         else [''Record '' @ show_int (int index) @ '' sequence is not contiguous from zero.'']) (enumerate 0 rows))"

definition validate_phase3_audit_chain :: "audit_row list \<Rightarrow> bool \<times> pystr list" where
  "validate_phase3_audit_chain rows =
     (let (valid, chain_errors) = verify_rows rows; errors = chain_errors @ sequence_errors rows
      in (valid \<and> errors = [], errors))"

text \<open>The constructor on an existing, non-empty file with the given decoded rows.\<close>

definition reopen :: "audit_row list \<Rightarrow> (pystr, audit_log) result" where
  "reopen rows =
     (if \<not> fst (verify_rows rows) then Inl ''ValueError''
      else if rows = [] then Inl ''IndexError''
      else (case map_of (last rows) ''record_hash'' of
          None \<Rightarrow> Inl ''KeyError''
        | Some h \<Rightarrow> (case map_of (last rows) ''sequence'' of
            None \<Rightarrow> Inl ''KeyError''
          | Some q \<Rightarrow> and_then (py_int q) (\<lambda>n.
              Inr \<lparr>al_rows = rows, al_previous_hash = py_str h, al_sequence = n + 1\<rparr>))))"

subsection \<open>What a hash chain promises\<close>

text \<open>\<open>text\<close> is what the digest of a record is computed over; it determines the link to the record before.\<close>

locale hash_chain =
  fixes proper :: "'r \<Rightarrow> bool" and covered :: "'r \<Rightarrow> 't" and link :: "'r \<Rightarrow> 'h" and digest :: "'t \<Rightarrow> 'h"
  assumes covered_link: "proper r \<Longrightarrow> proper s \<Longrightarrow> covered r = covered s \<Longrightarrow> link r = link s"
begin

fun chain :: "'h \<Rightarrow> 'r list \<Rightarrow> bool" where
  "chain h [] = True"
| "chain h (r # rs) = (link r = h \<and> chain (digest (covered r)) rs)"

definition tip :: "'h \<Rightarrow> 'r list \<Rightarrow> 'h" where
  "tip h rs = (if rs = [] then h else digest (covered (last rs)))"

definition collision :: "'r list \<Rightarrow> 'r list \<Rightarrow> bool" where
  "collision rs ss \<longleftrightarrow> (\<exists>r \<in> set rs. \<exists>s \<in> set ss. covered r \<noteq> covered s \<and> digest (covered r) = digest (covered s))"

lemma tip_simps [simp]: "tip h [] = h" "tip h (rs @ [r]) = digest (covered r)"
  by (simp_all add: tip_def)

lemma tip_Cons: "tip h (r # rs) = tip (digest (covered r)) rs"
  by (simp add: tip_def)

lemma chain_snoc: "chain h (rs @ [r]) \<longleftrightarrow> chain h rs \<and> link r = tip h rs"
  by (induction rs arbitrary: h) (auto simp: tip_Cons)

text \<open>The tip commits to the whole chain: a second chain with the same tip covers the same records, or two
  records with different contents share a digest, or a record hashes to the start value.\<close>

lemma tip_commits:
  assumes "chain h rs" "chain h ss" "\<forall>r \<in> set rs \<union> set ss. proper r" "tip h rs = tip h ss"
  shows "map covered rs = map covered ss \<or> collision rs ss \<or> (\<exists>r \<in> set rs \<union> set ss. digest (covered r) = h)"
  using assms
proof (induction rs arbitrary: ss rule: rev_induct)
  case Nil
  then show ?case by (cases ss rule: rev_cases) auto
next
  case (snoc r rs)
  show ?case
  proof (cases ss rule: rev_cases)
    case Nil
    with snoc.prems show ?thesis by auto
  next
    case (snoc ss' s)
    note ss = this
    show ?thesis
    proof (cases "covered r = covered s")
      case True
      have "link r = link s" using snoc.prems(3) ss True by (auto intro: covered_link)
      then have "tip h rs = tip h ss'" using snoc.prems(1,2) ss by (simp add: chain_snoc)
      then have "map covered rs = map covered ss' \<or> collision rs ss' \<or> (\<exists>r \<in> set rs \<union> set ss'. digest (covered r) = h)"
        using snoc.IH [of ss'] snoc.prems ss by (simp add: chain_snoc)
      then show ?thesis using ss True by (auto simp: collision_def)
    next
      case False
      with snoc.prems(4) ss show ?thesis by (auto simp: collision_def)
    qed
  qed
qed

end

text \<open>A row is covered by the canonical text of its members other than the hash.\<close>

definition row_text :: "audit_row \<Rightarrow> pystr" where
  "row_text row = canonical_json (JObj (dict_pop ''record_hash'' row))"

definition row_link :: "audit_row \<Rightarrow> pystr" where
  "row_link row = canonical_json (obj_get (dict_pop ''record_hash'' row) ''previous_hash'')"

definition text_digest :: "pystr \<Rightarrow> pystr" where
  "text_digest t = canonical_json (JStr (sha256_str t))"

lemma distinct_dict_pop: "distinct (map fst d) \<Longrightarrow> distinct (map fst (dict_pop k d))"
  by (induction d) (auto simp: dict_pop_def)

interpretation audit_chain: hash_chain "\<lambda>row. distinct (map fst row)" row_text row_link text_digest
proof
  fix r s :: audit_row
  assume "distinct (map fst r)" "distinct (map fst s)" "row_text r = row_text s"
  then have "map_option canonical_json (map_of (dict_pop ''record_hash'' r) k)
      = map_option canonical_json (map_of (dict_pop ''record_hash'' s) k)" for k
    by (intro same_text_same_member) (simp_all add: row_text_def distinct_dict_pop)
  from this [of "''previous_hash''"] show "row_link r = row_link s"
    by (auto simp: row_link_def obj_get_def split: option.splits)
qed

lemma text_digest_row: "text_digest (row_text row) = json_string (sha256_json (JObj (dict_pop ''record_hash'' row)))"
  by (simp add: text_digest_def row_text_def sha256_str_def sha256_json_def)


subsection \<open>Verified rows\<close>

definition hash_matches :: "audit_row \<Rightarrow> bool" where
  "hash_matches row \<longleftrightarrow> obj_get row ''record_hash'' = JStr (sha256_json (JObj (dict_pop ''record_hash'' row)))"

lemma row_link_eq: "row_link row = json_string h \<longleftrightarrow> obj_get (dict_pop ''record_hash'' row) ''previous_hash'' = JStr h"
proof -
  have "canonical_json v = json_string h \<longleftrightarrow> v = JStr h" for v
    using same_text_string [of h v] by (auto simp del: same_text_string)
  then show ?thesis by (simp add: row_link_def)
qed

lemma verify_indexed_iff:
  "verify_indexed_rows previous (enumerate i rows) = []
    \<longleftrightarrow> audit_chain.chain (json_string previous) rows \<and> list_all hash_matches rows"
  by (induction rows arbitrary: previous i) (auto simp: Let_def row_link_eq hash_matches_def text_digest_row)

lemma verify_rows_iff:
  "fst (verify_rows rows) \<longleftrightarrow> audit_chain.chain (json_string genesis_hash) rows \<and> list_all hash_matches rows"
  by (simp add: verify_rows_def Let_def verify_indexed_iff)

lemma sequence_errors_snoc:
  "sequence_errors (rows @ [row]) = [] \<longleftrightarrow>
     sequence_errors rows = [] \<and> py_eq (obj_get row ''sequence'') (JInt (int (length rows)))"
  by (simp add: sequence_errors_def enumerate_append_eq)

lemma valid_phase3_iff:
  "validate_phase3_audit_chain rows = (True, []) \<longleftrightarrow> fst (verify_rows rows) \<and> sequence_errors rows = []"
  by (auto simp: validate_phase3_audit_chain_def verify_rows_def Let_def)

subsection \<open>The invariant of a log\<close>

definition good_log :: "audit_log \<Rightarrow> bool" where
  "good_log al \<longleftrightarrow>
     validate_phase3_audit_chain (al_rows al) = (True, []) \<and> al_sequence al = int (length (al_rows al))
     \<and> json_string (al_previous_hash al) = audit_chain.tip (json_string genesis_hash) (al_rows al)
     \<and> list_all (\<lambda>row. distinct (map fst row)) (al_rows al)"

lemma good_new [inv_intro]: "good_log new_audit_log"
  by (simp add: good_log_def new_audit_log_def validate_phase3_audit_chain_def verify_rows_def sequence_errors_def)

definition audit_row_of :: "audit_log \<Rightarrow> pystr \<Rightarrow> pystr \<Rightarrow> json \<Rightarrow> audit_row" where
  "audit_row_of al recorded_at record_type payload =
     (let body = audit_body (al_sequence al) recorded_at record_type (al_previous_hash al) payload
      in body @ [(''record_hash'', JStr (sha256_json (JObj body)))])"

lemma audit_append_rows: "al_rows (snd (audit_append t y p al)) = al_rows al @ [audit_row_of al t y p]"
  by (simp add: audit_append_def audit_row_of_def Let_def)

lemma pop_row_of: "dict_pop ''record_hash'' (audit_row_of al t y p) = audit_body (al_sequence al) t y (al_previous_hash al) p"
  by (simp add: audit_row_of_def Let_def dict_pop_def audit_body_def)

lemma row_of_members [simp]:
  "obj_get (audit_row_of al t y p) ''record_hash'' = JStr (sha256_json (JObj (audit_body (al_sequence al) t y (al_previous_hash al) p)))"
  "obj_get (audit_row_of al t y p) ''sequence'' = JInt (al_sequence al)"
  "obj_get (audit_row_of al t y p) ''recorded_at'' = JStr t"
  "obj_get (audit_row_of al t y p) ''record_type'' = JStr y"
  "obj_get (audit_row_of al t y p) ''payload'' = p"
  "distinct (map fst (audit_row_of al t y p))"
  by (simp_all add: audit_row_of_def Let_def audit_body_def obj_get_def)

lemma good_append [inv_intro]:
  assumes "good_log al"
  shows "good_log (snd (audit_append t y p al))"
proof -
  have "hash_matches (audit_row_of al t y p)" by (simp add: hash_matches_def pop_row_of)
  moreover have "row_link (audit_row_of al t y p) = json_string (al_previous_hash al)"
    by (simp add: row_link_eq pop_row_of audit_body_def obj_get_def)
  moreover have "al_sequence (snd (audit_append t y p al)) = al_sequence al + 1"
      "al_previous_hash (snd (audit_append t y p al)) = sha256_json (JObj (audit_body (al_sequence al) t y (al_previous_hash al) p))"
    by (simp_all add: audit_append_def Let_def)
  ultimately show ?thesis using assms
    by (simp add: good_log_def audit_append_rows valid_phase3_iff verify_rows_iff audit_chain.chain_snoc
        sequence_errors_snoc text_digest_row pop_row_of same_number_def)
qed

type_synonym audit_entry = "pystr \<times> pystr \<times> json"

definition audit_run :: "audit_entry list \<Rightarrow> audit_log \<Rightarrow> audit_log" where
  "audit_run entries al = fold (\<lambda>(t, y, p) l. snd (audit_append t y p l)) entries al"

lemma audit_run_simps [simp]:
  "audit_run [] al = al"
  "audit_run ((t, y, p) # es) al = audit_run es (snd (audit_append t y p al))"
  by (simp_all add: audit_run_def)

lemma good_run [inv_intro]: "good_log al \<Longrightarrow> good_log (audit_run es al)"
  by (induction es arbitrary: al) (auto simp: good_append)

definition entry_of :: "audit_row \<Rightarrow> json \<times> json \<times> json" where
  "entry_of row = (obj_get row ''recorded_at'', obj_get row ''record_type'', obj_get row ''payload'')"

lemma run_entries:
  "map entry_of (al_rows (audit_run es al))
     = map entry_of (al_rows al) @ map (\<lambda>(t, y, p). (JStr t, JStr y, p)) es"
  by (induction es arbitrary: al) (auto simp: audit_append_rows entry_of_def)

text \<open>C28. Whatever is appended, the log verifies: the rows form a contiguous hash chain from the start value,
  they hold exactly the appended entries in order, and the next sequence number is their count.\<close>

theorem audit_log_verifies:
  "validate_phase3_audit_chain (al_rows (audit_run es new_audit_log)) = (True, [])
   \<and> verify_rows (al_rows (audit_run es new_audit_log)) = (True, [])
   \<and> map entry_of (al_rows (audit_run es new_audit_log)) = map (\<lambda>(t, y, p). (JStr t, JStr y, p)) es
   \<and> al_sequence (audit_run es new_audit_log) = int (length es)"
proof -
  have good: "good_log (audit_run es new_audit_log)" by (intro inv_intro)
  have entries: "map entry_of (al_rows (audit_run es new_audit_log)) = map (\<lambda>(t, y, p). (JStr t, JStr y, p)) es"
    by (simp add: run_entries new_audit_log_def)
  from arg_cong [OF this, of length] have "length (al_rows (audit_run es new_audit_log)) = length es" by simp
  with good entries show ?thesis by (simp add: good_log_def valid_phase3_iff) (simp add: verify_rows_def Let_def)
qed

subsection \<open>Reopening a file\<close>

text \<open>The rows read back from a file: each decoded from its canonical text.\<close>

definition decoded_row :: "audit_row \<Rightarrow> audit_row" where
  "decoded_row row = sort_key fst (map (\<lambda>(k, v). (k, key_sorted v)) row)"

lemma decoded_row_json: "JObj (decoded_row row) = key_sorted (JObj row)"
  by (simp add: decoded_row_def)

lemma canonical_decoded_row: "canonical_json (JObj (decoded_row row)) = canonical_json (JObj row)"
  by (simp only: decoded_row_json canonical_key_sorted)

lemma sha256_decoded: "sha256_json (JObj (decoded_row row)) = sha256_json (JObj row)"
  by (simp only: sha256_json_def canonical_decoded_row)

lemma keys_decoded: "map fst (map (\<lambda>(k, v). (k, f v)) d) = map fst d"
  by (induction d) auto

lemma distinct_decoded_row [simp]: "distinct (map fst (decoded_row row)) \<longleftrightarrow> distinct (map fst row)"
proof -
  have "distinct (map fst (sort_key fst d)) \<longleftrightarrow> distinct (map fst d)" for d :: audit_row
    by (simp add: distinct_map)
  then show ?thesis by (simp only: decoded_row_def keys_decoded)
qed

lemma map_of_decoded: "distinct (map fst row) \<Longrightarrow> map_of (decoded_row row) k = map_option key_sorted (map_of row k)"
  by (simp add: decoded_row_def map_of_sort_key keys_decoded map_of_map del: map_map)

lemma pop_decoded: "dict_pop k (decoded_row row) = decoded_row (dict_pop k row)"
proof -
  have "filter (\<lambda>(k', _). k' \<noteq> k) (map (\<lambda>(k, v). (k, key_sorted v)) d) = map (\<lambda>(k, v). (k, key_sorted v)) (dict_pop k d)"
    for d by (induction d) (auto simp: dict_pop_def)
  then show ?thesis by (simp add: decoded_row_def dict_pop_def filter_sort)
qed

lemma row_text_decoded [simp]: "row_text (decoded_row row) = row_text row"
  by (simp only: row_text_def pop_decoded canonical_decoded_row)

lemma obj_get_decoded: "distinct (map fst row) \<Longrightarrow> obj_get (decoded_row row) k = key_sorted (obj_get row k)"
  by (simp add: obj_get_def map_of_decoded split: option.splits)

lemma key_sorted_JStr [simp]: "key_sorted v = JStr s \<longleftrightarrow> v = JStr s"
  by (cases v) auto

lemma hash_matches_decoded: "distinct (map fst row) \<Longrightarrow> hash_matches (decoded_row row) \<longleftrightarrow> hash_matches row"
  by (simp add: hash_matches_def obj_get_decoded pop_decoded sha256_decoded)

lemma row_link_decoded: "distinct (map fst row) \<Longrightarrow> row_link (decoded_row row) = row_link row"
  by (simp add: row_link_def pop_decoded obj_get_decoded distinct_dict_pop canonical_key_sorted)

lemma chain_decoded:
  "list_all (\<lambda>row. distinct (map fst row)) rows \<Longrightarrow>
   audit_chain.chain h (map decoded_row rows) = audit_chain.chain h rows"
  by (induction rows arbitrary: h) (auto simp: row_link_decoded)

lemma num_of_key_sorted [simp]: "num_of (key_sorted v) = num_of v"
  by (cases v) auto

lemma py_eq_int_number: "py_eq v (JInt n) \<longleftrightarrow> num_of v = Some (of_int n)"
  by (cases v) (auto simp: same_number_def)

lemma sequence_errors_decoded:
  "list_all (\<lambda>row. distinct (map fst row)) rows \<Longrightarrow> sequence_errors (map decoded_row rows) = [] \<longleftrightarrow> sequence_errors rows = []"
  by (induction rows rule: rev_induct)
    (simp_all add: sequence_errors_snoc py_eq_int_number obj_get_decoded)

lemma tip_decoded: "audit_chain.tip h (map decoded_row rows) = audit_chain.tip h rows"
  by (simp add: audit_chain.tip_def last_map)

lemma valid_decoded:
  "list_all (\<lambda>row. distinct (map fst row)) rows \<Longrightarrow>
   validate_phase3_audit_chain (map decoded_row rows) = (True, []) \<longleftrightarrow> validate_phase3_audit_chain rows = (True, [])"
  by (auto simp: valid_phase3_iff verify_rows_iff chain_decoded sequence_errors_decoded list_all_iff hash_matches_decoded)


lemma py_int_number: "num_of v = Some (of_int n) \<Longrightarrow> py_int v = Inr n"
  by (cases v) (auto split: if_splits)

lemma reopen_good:
  assumes "good_log al" "al_rows al \<noteq> []"
  obtains al' where "reopen (map decoded_row (al_rows al)) = Inr al'" "good_log al'"
    "al_rows al' = map decoded_row (al_rows al)"
    "al_previous_hash al' = al_previous_hash al" "al_sequence al' = al_sequence al"
proof -
  obtain rs row where rows: "al_rows al = rs @ [row]" using assms(2) by (cases "al_rows al" rule: rev_cases) auto
  let ?new = "\<lparr>al_rows = map decoded_row (al_rows al), al_previous_hash = al_previous_hash al, al_sequence = al_sequence al\<rparr>"
  have valid: "validate_phase3_audit_chain (al_rows al) = (True, [])" and seq: "al_sequence al = int (length rs) + 1"
    and tip: "json_string (al_previous_hash al) = text_digest (row_text row)"
    and proper: "list_all (\<lambda>row. distinct (map fst row)) (al_rows al)" "distinct (map fst row)"
    using assms(1) by (simp_all add: good_log_def rows)
  have last: "last (map decoded_row (al_rows al)) = decoded_row row" by (simp add: rows)
  have "hash_matches row" using valid by (simp add: valid_phase3_iff verify_rows_iff rows)
  then have "obj_get row ''record_hash'' = JStr (al_previous_hash al)" using tip by (simp add: hash_matches_def text_digest_row)
  then have hash: "map_of (decoded_row row) ''record_hash'' = Some (JStr (al_previous_hash al))"
    using proper(2) by (simp add: map_of_decoded obj_get_def split: option.splits)
  have "num_of (obj_get row ''sequence'') = Some (of_int (int (length rs)))"
    using valid by (simp add: valid_phase3_iff rows sequence_errors_snoc py_eq_int_number)
  then have "num_of (obj_get (decoded_row row) ''sequence'') = Some (of_int (int (length rs)))"
    using proper(2) by (simp add: obj_get_decoded)
  then obtain q where q: "map_of (decoded_row row) ''sequence'' = Some q" "num_of q = Some (of_int (int (length rs)))"
    by (cases "map_of (decoded_row row) ''sequence''") (simp_all add: obj_get_def)
  note n = py_int_number [OF q(2)]
  have valid': "validate_phase3_audit_chain (map decoded_row (al_rows al)) = (True, [])"
    using valid proper(1) by (simp add: valid_decoded)
  then have "fst (verify_rows (map decoded_row (al_rows al)))" by (simp add: valid_phase3_iff)
  then have "reopen (map decoded_row (al_rows al)) = Inr ?new"
    using assms(2) by (simp add: reopen_def last hash q(1) n seq py_str_def)
  moreover have "good_log ?new"
    using assms(1) valid' by (simp add: good_log_def tip_decoded list_all_iff)
  ultimately show thesis by (rule that) simp_all
qed

text \<open>A restart continues the chain: reopening the file of a non-empty log takes up the same tip and the
  same sequence number, and whatever is appended then still verifies together with the rows before.\<close>

theorem audit_restart_continues:
  assumes "es \<noteq> []"
  shows "\<exists>al'. reopen (map decoded_row (al_rows (audit_run es new_audit_log))) = Inr al'
    \<and> al_previous_hash al' = al_previous_hash (audit_run es new_audit_log)
    \<and> al_sequence al' = al_sequence (audit_run es new_audit_log)
    \<and> (\<forall>fs. validate_phase3_audit_chain (al_rows (audit_run fs al')) = (True, []))"
proof -
  have good: "good_log (audit_run es new_audit_log)" by (intro inv_intro)
  have "length (al_rows (audit_run es new_audit_log)) = length es"
    using arg_cong [OF run_entries [of es new_audit_log], of length] by (simp add: new_audit_log_def)
  with assms have "al_rows (audit_run es new_audit_log) \<noteq> []" by auto
  from reopen_good [OF good this] obtain al' where
    al': "reopen (map decoded_row (al_rows (audit_run es new_audit_log))) = Inr al'" "good_log al'"
      "al_previous_hash al' = al_previous_hash (audit_run es new_audit_log)"
      "al_sequence al' = al_sequence (audit_run es new_audit_log)"
    by metis
  have "validate_phase3_audit_chain (al_rows (audit_run fs al')) = (True, [])" for fs
    using good_run [OF al'(2)] by (simp add: good_log_def)
  with al' show ?thesis by blast
qed

subsection \<open>Tampering\<close>

lemma same_row_members:
  assumes "row_text r = row_text s" "hash_matches r" "hash_matches s" "distinct (map fst r)" "distinct (map fst s)"
  shows "map_option canonical_json (map_of r k) = map_option canonical_json (map_of s k)"
proof (cases "k = ''record_hash''")
  case True
  have "map_of q ''record_hash'' = Some (JStr (sha256_json (JObj (dict_pop ''record_hash'' q))))" if "hash_matches q" for q
    using that by (auto simp: hash_matches_def obj_get_def split: option.splits)
  moreover have "sha256_json (JObj (dict_pop ''record_hash'' r)) = sha256_json (JObj (dict_pop ''record_hash'' s))"
    using assms(1) by (simp add: sha256_json_def row_text_def)
  ultimately show ?thesis using assms(2,3) True by simp
next
  case False
  have "map_of (dict_pop ''record_hash'' q) k = map_of q k" for q :: audit_row
    using False by (induction q) (auto simp: dict_pop_def)
  then show ?thesis
    using same_text_same_member [OF assms(1) [unfolded row_text_def] distinct_dict_pop [OF assms(4)] distinct_dict_pop [OF assms(5)]]
    by metis
qed

text \<open>C26. The last record hash commits to the whole log: of two non-empty logs that verify and end in the same
  record hash, either every member of every row has the same canonical text in both, or two of their rows with
  different texts have the same SHA-256, or one of their rows hashes to the all-zero start value.\<close>

theorem audit_tip_commits:
  assumes "fst (verify_rows rows)" "fst (verify_rows rows')" "rows \<noteq> []" "rows' \<noteq> []"
    and "\<forall>r \<in> set rows \<union> set rows'. distinct (map fst r)"
    and "obj_get (last rows) ''record_hash'' = obj_get (last rows') ''record_hash''"
  shows "(length rows = length rows' \<and> (\<forall>i < length rows. \<forall>k.
            map_option canonical_json (map_of (rows ! i) k) = map_option canonical_json (map_of (rows' ! i) k)))
    \<or> (\<exists>r \<in> set rows. \<exists>s \<in> set rows'. row_text r \<noteq> row_text s \<and> sha256_str (row_text r) = sha256_str (row_text s))
    \<or> (\<exists>r \<in> set rows \<union> set rows'. sha256_str (row_text r) = genesis_hash)"
proof -
  have chains: "audit_chain.chain (json_string genesis_hash) rows" "audit_chain.chain (json_string genesis_hash) rows'"
    and hashes: "list_all hash_matches rows" "list_all hash_matches rows'"
    using assms(1,2) by (simp_all add: verify_rows_iff)
  have "hash_matches (last rows)" "hash_matches (last rows')" using hashes assms(3,4) by (simp_all add: list_all_iff)
  then have "text_digest (row_text (last rows)) = text_digest (row_text (last rows'))"
    using assms(6) by (simp add: hash_matches_def text_digest_row)
  then have tips: "audit_chain.tip (json_string genesis_hash) rows = audit_chain.tip (json_string genesis_hash) rows'"
    using assms(3,4) by (simp add: audit_chain.tip_def)
  have digests: "text_digest t = text_digest t' \<longleftrightarrow> sha256_str t = sha256_str t'" "text_digest t = json_string h \<longleftrightarrow> sha256_str t = h"
    for t t' h by (simp_all add: text_digest_def)
  have members: "length rows = length rows' \<and> (\<forall>i < length rows. \<forall>k.
            map_option canonical_json (map_of (rows ! i) k) = map_option canonical_json (map_of (rows' ! i) k))"
    if same: "map row_text rows = map row_text rows'"
  proof (intro conjI allI impI)
    show len: "length rows = length rows'" using arg_cong [OF same, of length] by simp
    fix i k assume i: "i < length rows"
    with same len have "row_text (rows ! i) = row_text (rows' ! i)" by (metis nth_map)
    with i len hashes assms(5) show "map_option canonical_json (map_of (rows ! i) k) = map_option canonical_json (map_of (rows' ! i) k)"
      by (intro same_row_members) (auto simp: list_all_length)
  qed
  from audit_chain.tip_commits [OF chains assms(5) tips] show ?thesis
    unfolding audit_chain.collision_def digests using members by blast
qed


subsection \<open>A log of two rows\<close>

definition sample_entries :: "audit_entry list" where
  "sample_entries =
     [(''2026-01-01T00:00:00+00:00'', ''REQUEST_RECEIVED'', JObj [(''request_id'', JStr ''r-1''), (''attempt'', JInt 1)]),
      (''2026-01-01T00:00:01+00:00'', ''REQUEST_REJECTED'', JObj [(''request_id'', JStr ''r-1'')])]"

theorem audit_restart_continues_witness:
  "\<exists>al'. reopen (map decoded_row (al_rows (audit_run sample_entries new_audit_log))) = Inr al'
    \<and> al_previous_hash al' = al_previous_hash (audit_run sample_entries new_audit_log)
    \<and> al_sequence al' = al_sequence (audit_run sample_entries new_audit_log)
    \<and> (\<forall>fs. validate_phase3_audit_chain (al_rows (audit_run fs al')) = (True, []))"
  by (rule audit_restart_continues) (simp add: sample_entries_def)

theorem audit_tip_commits_witness:
  "let rows = al_rows (audit_run sample_entries new_audit_log); rows' = map decoded_row rows in
    (length rows = length rows' \<and> (\<forall>i < length rows. \<forall>k.
            map_option canonical_json (map_of (rows ! i) k) = map_option canonical_json (map_of (rows' ! i) k)))
    \<or> (\<exists>r \<in> set rows. \<exists>s \<in> set rows'. row_text r \<noteq> row_text s \<and> sha256_str (row_text r) = sha256_str (row_text s))
    \<or> (\<exists>r \<in> set rows \<union> set rows'. sha256_str (row_text r) = genesis_hash)"
proof -
  let ?rows = "al_rows (audit_run sample_entries new_audit_log)"
  have good: "good_log (audit_run sample_entries new_audit_log)" by (intro inv_intro)
  then have proper: "list_all (\<lambda>row. distinct (map fst row)) ?rows" and valid: "validate_phase3_audit_chain ?rows = (True, [])"
    by (simp_all add: good_log_def)
  have rows: "?rows \<noteq> []" by (simp add: sample_entries_def audit_append_rows)
  have "validate_phase3_audit_chain (map decoded_row ?rows) = (True, [])" using valid proper by (simp add: valid_decoded)
  with valid have "fst (verify_rows ?rows)" "fst (verify_rows (map decoded_row ?rows))" by (simp_all add: valid_phase3_iff)
  moreover have "hash_matches (last ?rows)" using \<open>fst (verify_rows ?rows)\<close> rows by (simp add: verify_rows_iff list_all_iff)
  then have "obj_get (last ?rows) ''record_hash'' = obj_get (last (map decoded_row ?rows)) ''record_hash''"
    using rows proper by (simp add: last_map obj_get_decoded hash_matches_def list_all_iff)
  ultimately show ?thesis
    unfolding Let_def using rows proper by (intro audit_tip_commits) (auto simp: list_all_iff)
qed

end
