(* ===== verification/P3Audit.thy ===== *)
theory P3Audit
  imports AuditLog P3Request
begin

text \<open>
  The closed lifecycle of one phase 3 request: \<open>validate_phase3_lifecycle\<close> of \<open>phase3/audit.py\<close>, section by
  section. The input is a list of decoded audit rows, in which every tuple is a list. An error is a text
  of the returned list; a \<open>KeyError\<close> or \<open>TypeError\<close> that the function does not catch is \<open>Inl\<close>.
\<close>

type_synonym json_dict = "(pystr \<times> json) list"

subsection \<open>Python operators on decoded values\<close>

text \<open>\<open>str(d.get(k, ""))\<close> and \<open>d.get(k, default)\<close>.\<close>

definition get_str :: "json_dict \<Rightarrow> pystr \<Rightarrow> pystr" where
  "get_str d k = (case map_of d k of None \<Rightarrow> '''' | Some v \<Rightarrow> py_str v)"

definition get_default :: "json_dict \<Rightarrow> pystr \<Rightarrow> json \<Rightarrow> json" where
  "get_default d k v = (case map_of d k of None \<Rightarrow> v | Some w \<Rightarrow> w)"

text \<open>\<open>v in {"a", "b"}\<close>: a list or an object is not hashable.\<close>

definition in_literals :: "json \<Rightarrow> pystr list \<Rightarrow> (reason, bool) result" where
  "in_literals v names =
     (case v of JList _ \<Rightarrow> Inl ''TypeError'' | JObj _ \<Rightarrow> Inl ''TypeError''
      | _ \<Rightarrow> Inr (list_ex (\<lambda>n. v = JStr n) names))"

text \<open>\<open>"s" in v\<close> and \<open>tuple(v)\<close>.\<close>

definition py_contains :: "pystr \<Rightarrow> json \<Rightarrow> (reason, bool) result" where
  "py_contains s v =
     (case v of JStr t \<Rightarrow> Inr (list_ex (\<lambda>i. take (length s) (drop i t) = s) [0..<Suc (length t)])
      | JList xs \<Rightarrow> Inr (list_ex (py_eq (JStr s)) xs)
      | JObj kvs \<Rightarrow> Inr (s \<in> set (map fst kvs))
      | _ \<Rightarrow> Inl ''TypeError'')"

definition py_tuple :: "json \<Rightarrow> (reason, json list) result" where
  "py_tuple v =
     (case v of JStr t \<Rightarrow> Inr (map (\<lambda>c. JStr [c]) t) | JList xs \<Rightarrow> Inr xs
      | JObj kvs \<Rightarrow> Inr (map (\<lambda>p. JStr (fst p)) kvs) | _ \<Rightarrow> Inl ''TypeError'')"

definition is_dict :: "json \<Rightarrow> bool" where
  "is_dict v = (case v of JObj _ \<Rightarrow> True | _ \<Rightarrow> False)"

definition dict_of :: "json \<Rightarrow> json_dict" where
  "dict_of v = (case v of JObj d \<Rightarrow> d | _ \<Rightarrow> [])"

text \<open>\<open>not a.get(n) or a.get(n) != b.get(m)\<close> for some pair of names, and \<open>a.get(n) != b.get(m)\<close>.\<close>

definition agree :: "json_dict \<Rightarrow> pystr \<Rightarrow> json_dict \<Rightarrow> pystr \<Rightarrow> bool" where
  "agree a n b m \<longleftrightarrow> py_eq (obj_get a n) (obj_get b m)"

definition unbound :: "json_dict \<Rightarrow> json_dict \<Rightarrow> (pystr \<times> pystr) list \<Rightarrow> bool" where
  "unbound a b names \<longleftrightarrow> list_ex (\<lambda>(n, m). \<not> py_bool (obj_get a n) \<or> \<not> agree a n b m) names"

definition same_names :: "pystr list \<Rightarrow> (pystr \<times> pystr) list" where
  "same_names names = map (\<lambda>n. (n, n)) names"

text \<open>\<open>if c: errors.append(message)\<close>.\<close>

definition fault :: "bool \<Rightarrow> pystr \<Rightarrow> pystr list" where
  "fault c message = (if c then [message] else [])"

lemma fault_Nil [simp]: "fault c m = [] \<longleftrightarrow> \<not> c"
  by (simp add: fault_def)

subsection \<open>Stages\<close>

definition row_types :: "audit_row list \<Rightarrow> pystr list" where
  "row_types rows = map (\<lambda>row. get_str row ''record_type'') rows"

definition approval_suffix :: "pystr list \<Rightarrow> bool" where
  "approval_suffix types \<longleftrightarrow> types \<noteq> [] \<and> last types = ''APPROVAL_RECORDED''"

definition core_stages :: "pystr list \<Rightarrow> pystr list" where
  "core_stages types = (if approval_suffix types then butlast types else types)"

definition normal_prefix :: "pystr list" where
  "normal_prefix = [''REQUEST_RECEIVED'', ''REQUEST_VALIDATED'', ''IDENTITY_EVALUATED'', ''EVIDENCE_EVALUATED'',
     ''CONSEQUENCE_EVALUATED'', ''POLICY_EVALUATED'', ''DECISION_VERIFIED'', ''DECISION_PRODUCED'']"

definition early_prefixes :: "pystr list list" where
  "early_prefixes =
     [[''REQUEST_RECEIVED'', ''REQUEST_REJECTED'', ''DECISION_PRODUCED''],
      [''REQUEST_RECEIVED'', ''REQUEST_VALIDATED'', ''REQUEST_REJECTED'', ''DECISION_PRODUCED''],
      [''REQUEST_RECEIVED'', ''REQUEST_VALIDATED'', ''IDENTITY_EVALUATED'', ''DECISION_PRODUCED''],
      [''REQUEST_RECEIVED'', ''REQUEST_VALIDATED'', ''POLICY_EVALUATION_FAILED'', ''DECISION_PRODUCED'']]"

definition control_failure_prefixes :: "pystr list list" where
  "control_failure_prefixes =
     map (\<lambda>optional. [''REQUEST_RECEIVED'', ''REQUEST_VALIDATED'', ''IDENTITY_EVALUATED''] @ optional
                       @ [''CONTROL_PLANE_FAILURE'', ''DECISION_PRODUCED''])
       [[], [''EVIDENCE_EVALUATED''], [''EVIDENCE_EVALUATED'', ''CONSEQUENCE_EVALUATED''],
        [''EVIDENCE_EVALUATED'', ''CONSEQUENCE_EVALUATED'', ''POLICY_EVALUATED''],
        [''EVIDENCE_EVALUATED'', ''CONSEQUENCE_EVALUATED'', ''POLICY_EVALUATED'', ''DECISION_VERIFIED'']]"

definition starts_with :: "pystr list \<Rightarrow> pystr list \<Rightarrow> bool" where
  "starts_with candidate core \<longleftrightarrow> take (length candidate) core = candidate"

definition lifecycle_prefix :: "pystr list \<Rightarrow> pystr list option" where
  "lifecycle_prefix core =
     (if starts_with normal_prefix core
      then Some (normal_prefix @
             (if length core > length normal_prefix \<and> core ! length normal_prefix = ''APPROVAL_REQUIREMENT_PRODUCED''
              then [''APPROVAL_REQUIREMENT_PRODUCED''] else []))
      else find (\<lambda>c. starts_with c core) (early_prefixes @ control_failure_prefixes))"

definition nonexecuting_tail :: "pystr list" where
  "nonexecuting_tail = [''AUTHORIZATION_NOT_ISSUED'', ''BROKER_SKIPPED'', ''ACTION_SKIPPED'', ''VERIFICATION_SKIPPED'',
     ''FINAL_STATE_RECORDED'']"

definition authorized_tails :: "pystr list list" where
  "authorized_tails =
     [[''AUTHORIZATION_PRODUCED'', ''BROKER_INVOKED'', ''ACTION_ATTEMPTED'', ''VERIFICATION_PERFORMED'', ''FINAL_STATE_RECORDED''],
      [''AUTHORIZATION_PRODUCED'', ''BROKER_INVOKED'', ''BROKER_REJECTED'', ''ACTION_SKIPPED'', ''VERIFICATION_SKIPPED'',
       ''FINAL_STATE_RECORDED''],
      [''AUTHORIZATION_PRODUCED'', ''BROKER_INVOKED'', ''BROKER_FAILURE'', ''ACTION_ATTEMPTED'', ''VERIFICATION_PERFORMED'',
       ''FINAL_STATE_RECORDED''],
      [''AUTHORIZATION_PRODUCED'', ''BROKER_INVOKED'', ''POST_EFFECT_ACCOUNTING_FAILURE'', ''FINAL_STATE_RECORDED''],
      [''AUTHORIZATION_PRODUCED'', ''BROKER_INVOKED'', ''ACTION_ATTEMPTED'', ''POST_EFFECT_ACCOUNTING_FAILURE'',
       ''FINAL_STATE_RECORDED''],
      [''AUTHORIZATION_PRODUCED'', ''BROKER_INVOKED'', ''ACTION_ATTEMPTED'', ''VERIFICATION_PERFORMED'',
       ''POST_EFFECT_ACCOUNTING_FAILURE'', ''FINAL_STATE_RECORDED'']]"

definition stage_errors :: "pystr list \<Rightarrow> pystr list" where
  "stage_errors core =
     (let prefix = lifecycle_prefix core; tail = drop (case prefix of None \<Rightarrow> 0 | Some p \<Rightarrow> length p) core
      in fault (prefix = None) ''Lifecycle control-plane stage order is not a closed template.''
         @ fault (\<not> list_ex (\<lambda>t. tail = t) (nonexecuting_tail # authorized_tails))
             ''Lifecycle action-path stage order is not a closed template.'')"

subsection \<open>Correlation\<close>

definition opening_errors :: "pystr list \<Rightarrow> pystr list" where
  "opening_errors types =
     (let core = core_stages types
      in fault (hd types \<noteq> ''REQUEST_RECEIVED'') ''Lifecycle must begin with REQUEST_RECEIVED.''
         @ fault (core = [] \<or> last core \<noteq> ''FINAL_STATE_RECORDED'')
             ''Lifecycle must close with FINAL_STATE_RECORDED before any approval suffix.'')"

text \<open>\<open>len(ids) != 1 or "" in ids\<close> of the set of identifiers.\<close>

definition uncorrelated :: "pystr \<Rightarrow> json_dict list \<Rightarrow> bool" where
  "uncorrelated k payloads \<longleftrightarrow>
     (let ids = map (\<lambda>p. get_str p k) payloads in length (remdups ids) \<noteq> 1 \<or> [] \<in> set ids)"

definition from_validation :: "pystr list \<Rightarrow> json_dict list \<Rightarrow> json_dict list" where
  "from_validation types payloads = drop (length (takeWhile (\<lambda>t. t \<noteq> ''REQUEST_VALIDATED'') types)) payloads"

definition stable_request_id :: "pystr list \<Rightarrow> json_dict list \<Rightarrow> pystr" where
  "stable_request_id types payloads =
     (if ''REQUEST_VALIDATED'' \<in> set types then get_str (hd (from_validation types payloads)) ''request_id'' else '''')"

definition correlation_errors :: "pystr list \<Rightarrow> json_dict list \<Rightarrow> pystr list" where
  "correlation_errors types payloads =
     fault (\<not> distinct types) ''Lifecycle record types must occur exactly once.''
     @ fault (uncorrelated ''intake_id'' payloads) ''Lifecycle intake_id correlation is incomplete or inconsistent.''
     @ fault (uncorrelated ''decision_id'' payloads) ''Lifecycle decision_id correlation is incomplete or inconsistent.''
     @ (if ''REQUEST_VALIDATED'' \<in> set types then
          (let stable_id = stable_request_id types payloads
           in fault (stable_id = [] \<or> list_ex (\<lambda>p. get_str p ''request_id'' \<noteq> stable_id) (from_validation types payloads))
                ''Validated lifecycle must use one stable request_id after validation.'')
        else fault (uncorrelated ''request_id'' payloads) ''Rejected lifecycle request_id correlation is inconsistent.'')"

subsection \<open>Records by type\<close>

definition row_payload :: "audit_row \<Rightarrow> json_dict" where
  "row_payload row = dict_of (obj_get row ''payload'')"

text \<open>\<open>{row["record_type"]: row["payload"] for row in records}\<close>: the last row of a type counts.\<close>

definition typed_row :: "audit_row \<Rightarrow> (reason, unit) result" where
  "typed_row row =
     (case map_of row ''record_type'' of None \<Rightarrow> Inl ''KeyError''
      | Some v \<Rightarrow> and_then (in_literals v []) (\<lambda>_. Inr ()))"

definition by_type :: "audit_row list \<Rightarrow> pystr \<Rightarrow> json_dict option" where
  "by_type rows name =
     map_option row_payload (find (\<lambda>row. obj_get row ''record_type'' = JStr name) (rev rows))"

definition payload_of :: "audit_row list \<Rightarrow> pystr \<Rightarrow> json_dict" where
  "payload_of rows name = (case by_type rows name of None \<Rightarrow> [] | Some d \<Rightarrow> d)"

subsection \<open>Decision, policy and verification\<close>

definition decision_bindings :: "(pystr \<times> pystr) list" where
  "decision_bindings =
     same_names [''decision_context_sha256'', ''decision_sha256'', ''request_sha256'', ''principal_id'', ''policy_sha256'']"

definition policy_names :: "(pystr \<times> pystr) list" where
  "policy_names = same_names [''policy_id'', ''policy_version'', ''policy_sha256'']"

definition outcome_allowed :: "json_dict \<Rightarrow> (reason, bool) result" where
  "outcome_allowed decision = in_literals (obj_get decision ''outcome'') [''ALLOW'', ''ALLOW_CONSTRAINED'']"

definition verified_or_denied :: "json_dict \<Rightarrow> json_dict \<Rightarrow> json_dict \<Rightarrow> (reason, pystr list) result" where
  "verified_or_denied decision policy verification =
     (if obj_get verification ''passed'' = JBool True then
        Inr (fault (\<not> agree decision ''outcome'' policy ''outcome'' \<or> \<not> agree decision ''reason_codes'' policy ''reason_codes'')
               ''Authoritative decision does not match the evaluated policy result.''
             @ fault (unbound decision verification decision_bindings)
               ''Authoritative decision does not bind the verified decision projection.'')
      else and_then (if obj_get decision ''outcome'' \<noteq> JStr ''DENY'' then Inr False
             else py_contains ''DECISION_VERIFIER_FAILED'' (get_default decision ''reason_codes'' (JList []))) (\<lambda>denied.
           Inr (fault (\<not> denied) ''Verifier disagreement did not produce an authoritative DENY.'')))"

definition policy_section ::
  "json_dict \<Rightarrow> json_dict \<Rightarrow> json_dict \<Rightarrow> json_dict \<Rightarrow> json_dict \<Rightarrow> (reason, pystr list) result" where
  "policy_section decision policy verification request identity =
     and_then (verified_or_denied decision policy verification) (\<lambda>es.
     and_then (outcome_allowed decision) (\<lambda>allowed.
     Inr (es
       @ fault (unbound decision policy policy_names) ''Authoritative decision does not bind the evaluated policy.''
       @ fault (unbound decision request (same_names [''request_sha256'']))
           ''Authoritative decision does not bind the validated request.''
       @ fault (unbound decision identity (same_names [''principal_id'']))
           ''Authoritative decision does not bind the resolved principal.''
       @ fault (unbound decision request
           (same_names [''requested_action_type'', ''requested_target_id'', ''requested_parameters_sha256'']))
           ''Authoritative decision does not bind the validated request action.''
       @ fault (allowed \<and> (\<not> agree decision ''action_type'' decision ''requested_action_type''
                              \<or> \<not> agree decision ''target_id'' decision ''requested_target_id''))
           ''Permitted action type or target differs from the validated request.'')))"

subsection \<open>Approval\<close>

text \<open>\<open>d[k]\<close>, and the scope digest with its caught errors.\<close>

definition member :: "json_dict \<Rightarrow> pystr \<Rightarrow> (reason, json) result" where
  "member d k = (case map_of d k of None \<Rightarrow> Inl ''KeyError'' | Some v \<Rightarrow> Inr v)"

definition scope_names :: "(pystr \<times> pystr) list" where
  "scope_names =
     [(''approval_id'', ''approval_id''), (''issuer_instance_id'', ''issuer_instance_id''), (''request_id'', ''request_id_bound''),
      (''decision_id'', ''decision_id_bound''), (''decision_context_sha256'', ''decision_context_sha256''),
      (''policy_id'', ''policy_id''), (''policy_version'', ''policy_version''), (''policy_sha256'', ''policy_sha256''),
      (''action_type'', ''action_type''), (''target_id'', ''target_id''), (''parameters_sha256'', ''parameters_sha256''),
      (''evidence_sha256'', ''evidence_sha256''), (''reason_codes'', ''reason_codes''),
      (''required_approving_authority'', ''required_approving_authority''), (''created_at'', ''created_at''),
      (''expires_at'', ''expires_at''), (''status'', ''status'')]"

definition requirement_scope :: "json_dict \<Rightarrow> (reason, json) result" where
  "requirement_scope requirement =
     and_then (map_result (\<lambda>(name, source).
         and_then (member requirement source) (\<lambda>v.
         and_then (if name = ''reason_codes'' then and_then (py_tuple v) (\<lambda>xs. Inr (JList xs)) else Inr v) (\<lambda>w.
         Inr (name, w)))) scope_names) (\<lambda>kvs. Inr (JObj kvs))"

definition requirement_section :: "pystr \<Rightarrow> json_dict \<Rightarrow> json_dict \<Rightarrow> json_dict \<Rightarrow> pystr list" where
  "requirement_section stable_id decision policy requirement =
     fault (\<not> py_eq (obj_get requirement ''request_id_bound'') (JStr stable_id)
          \<or> \<not> agree requirement ''decision_id_bound'' decision ''decision_id''
          \<or> unbound requirement decision (same_names [''decision_context_sha256''])
          \<or> \<not> agree requirement ''reason_codes'' decision ''reason_codes''
          \<or> obj_get requirement ''status'' \<noteq> JStr ''PENDING'')
       ''Approval requirement does not bind the authoritative decision.''
     @ fault (unbound requirement policy policy_names) ''Approval requirement does not bind the evaluated policy.''
     @ fault (\<not> agree requirement ''action_type'' decision ''requested_action_type''
          \<or> \<not> agree requirement ''target_id'' decision ''requested_target_id''
          \<or> \<not> agree requirement ''parameters_sha256'' decision ''requested_parameters_sha256'')
       ''Approval requirement does not bind the requested action scope.''
     @ fault (case requirement_scope requirement of Inl _ \<Rightarrow> True
          | Inr scope \<Rightarrow> obj_get requirement ''scope_sha256'' \<noteq> JStr (sha256_json scope))
       ''Approval requirement scope digest is invalid.''"

text \<open>Three members of two objects read as instants: \<open>None\<close> where the \<open>try\<close> block catches an error.\<close>

definition instant_at :: "json_dict \<Rightarrow> pystr \<Rightarrow> instant option" where
  "instant_at d k = (case map_of d k of None \<Rightarrow> None | Some v \<Rightarrow> utc_instant (py_str v))"

definition interval_errors :: "instant option \<Rightarrow> instant option \<Rightarrow> instant option \<Rightarrow> pystr \<Rightarrow> pystr \<Rightarrow> pystr list" where
  "interval_errors start middle stop outside invalid =
     (case (start, middle, stop) of
        (Some a, Some t, Some b) \<Rightarrow> fault (\<not> (a \<le> t \<and> t < b)) outside
      | _ \<Rightarrow> [invalid])"

definition receipt_bindings :: "(pystr \<times> pystr) list" where
  "receipt_bindings =
     [(''approval_id'', ''approval_id''), (''scope_sha256'', ''requirement_scope_sha256''),
      (''issuer_instance_id'', ''issuer_instance_id''), (''action_type'', ''action_type''), (''target_id'', ''target_id''),
      (''parameters_sha256'', ''parameters_sha256''), (''evidence_sha256'', ''evidence_sha256''),
      (''required_approving_authority'', ''approving_authority'')]"

definition approval_section :: "bool \<Rightarrow> json_dict \<Rightarrow> json_dict \<Rightarrow> json_dict \<Rightarrow> json_dict \<Rightarrow> pystr list" where
  "approval_section approval_present decision final requirement approval =
     fault (obj_get decision ''outcome'' \<noteq> JStr ''ESCALATE'' \<or> \<not> approval_present)
       ''Only a closed ESCALATE lifecycle may record approval.''
     @ fault (unbound requirement approval receipt_bindings)
       ''Approval receipt does not bind the exact recorded requirement.''
     @ fault (\<not> py_bool (obj_get approval ''receipt_id'') \<or> \<not> py_bool (obj_get approval ''approver_id'')
          \<or> obj_get approval ''status'' \<noteq> JStr ''APPROVED_FOR_REEVALUATION''
          \<or> obj_get approval ''reevaluation_required'' \<noteq> JBool True
          \<or> obj_get approval ''authorization_produced'' \<noteq> JBool False
          \<or> \<not> py_eq (obj_get final ''operational_effects'') (JInt 0))
       ''Approval receipt disposition or no-effect boundary is invalid.''
     @ interval_errors (instant_at requirement ''created_at'') (instant_at approval ''approved_at'')
         (instant_at requirement ''expires_at'')
         ''Approval receipt time is outside the requirement interval.'' ''Approval lifecycle timestamps are invalid.''"

subsection \<open>Authorization\<close>

definition immutable_verification_fields :: "pystr list" where
  "immutable_verification_fields =
     [''verification_id'', ''request_id'', ''decision_id'', ''attempt_id'', ''token_id'', ''action_type'', ''target_id'',
      ''parameters_sha256'', ''expected_state'', ''observed_state'', ''changed_fields'', ''unexpected_fields'']"

definition projected :: "json_dict \<Rightarrow> json" where
  "projected d = JObj (map (\<lambda>n. (n, obj_get d n)) immutable_verification_fields)"

text \<open>The action and the verification: recorded, or embedded in the accounting failure.\<close>

definition effective_action :: "json_dict \<Rightarrow> json_dict \<Rightarrow> json_dict" where
  "effective_action accounting action =
     (if accounting \<noteq> [] \<and> action = [] \<and> is_dict (obj_get accounting ''action'')
      then dict_of (obj_get accounting ''action'') else action)"

definition final_accounting :: "json_dict \<Rightarrow> bool" where
  "final_accounting accounting \<longleftrightarrow> obj_get accounting ''failed_record_type'' = JStr ''FINAL_STATE_RECORDED''"

definition effective_verification :: "json_dict \<Rightarrow> json_dict \<Rightarrow> json_dict" where
  "effective_verification accounting recorded =
     (if accounting \<noteq> [] \<and> is_dict (obj_get accounting ''verification'') \<and> (final_accounting accounting \<or> recorded = [])
      then dict_of (obj_get accounting ''verification'') else recorded)"

definition embedded_errors :: "json_dict \<Rightarrow> json_dict \<Rightarrow> pystr list" where
  "embedded_errors accounting recorded =
     fault (is_dict (obj_get accounting ''verification'') \<and> final_accounting accounting
          \<and> (recorded = [] \<or> sha256_json (projected recorded)
                \<noteq> sha256_json (projected (dict_of (obj_get accounting ''verification'')))))
       (''Post-effect final-accounting verification does not bind '' @ ''the durable verification record.'')"

definition accounting_errors :: "(pystr \<Rightarrow> bool) \<Rightarrow> pystr \<Rightarrow> json_dict \<Rightarrow> json_dict \<Rightarrow> json_dict \<Rightarrow> json_dict \<Rightarrow> pystr list" where
  "accounting_errors present token_id accounting recorded action final =
     (if accounting = [] then []
      else embedded_errors accounting recorded
        @ (let expected = (if present ''VERIFICATION_PERFORMED'' then ''FINAL_STATE_RECORDED''
                           else if present ''ACTION_ATTEMPTED'' then ''VERIFICATION_PERFORMED'' else ''ACTION_ATTEMPTED'')
           in fault (obj_get accounting ''failed_record_type'' \<noteq> JStr expected
                \<or> \<not> py_bool (obj_get accounting ''failure_type'')
                \<or> obj_get accounting ''token_id'' \<noteq> JStr token_id
                \<or> \<not> agree accounting ''attempt_id'' action ''attempt_id''
                \<or> \<not> agree accounting ''operational_effects'' final ''operational_effects'')
             ''Post-effect accounting failure record is incomplete or inconsistent.''))"

definition authorization_bindings :: "(pystr \<times> pystr) list" where
  "authorization_bindings =
     [(''principal_id'', ''agent_id''), (''action_type'', ''action_type''), (''target_id'', ''target_id''),
      (''parameters_sha256'', ''parameters_sha256''), (''policy_id'', ''policy_id''), (''policy_version'', ''policy_version''),
      (''policy_sha256'', ''policy_sha256''), (''decision_context_sha256'', ''decision_context_sha256''),
      (''decision_sha256'', ''decision_sha256''), (''request_sha256'', ''request_sha256'')]"

definition token_errors :: "pystr \<Rightarrow> json_dict \<Rightarrow> json_dict \<Rightarrow> json_dict \<Rightarrow> json_dict \<Rightarrow> json_dict \<Rightarrow> pystr list" where
  "token_errors token_id decision authorization broker action verification =
     fault (token_id = [] \<or> get_str broker ''token_id'' \<noteq> token_id)
       ''Authorization and broker token correlation is incomplete.''
     @ fault (unbound decision authorization authorization_bindings)
       ''Authorization does not bind the authoritative decision scope.''
     @ fault (case map_of authorization ''permitted_parameters'' of None \<Rightarrow> True
          | Some ps \<Rightarrow> obj_get authorization ''parameters_sha256'' \<noteq> JStr (sha256_json ps))
       ''Authorization parameter projection is inconsistent.''
     @ fault (unbound broker authorization (same_names [''action_type'', ''target_id'', ''parameters_sha256'']))
       ''Broker invocation does not bind the authorization scope.''
     @ fault (action \<noteq> [] \<and> get_str action ''token_id'' \<noteq> token_id) ''ACTION_ATTEMPTED token correlation is incomplete.''
     @ fault (verification \<noteq> [] \<and> get_str verification ''token_id'' \<noteq> token_id)
       ''VERIFICATION_PERFORMED token correlation is incomplete.''"

subsection \<open>Post-action verification\<close>

text \<open>\<open>sha256_json(d[k])\<close> compared with a recorded digest, for a member that is not \<open>None\<close>.\<close>

definition digest_differs :: "json_dict \<Rightarrow> pystr \<Rightarrow> json_dict \<Rightarrow> pystr \<Rightarrow> bool" where
  "digest_differs d k e m \<longleftrightarrow>
     obj_get d k \<noteq> JNull \<and> obj_get e m \<noteq> JStr (sha256_json (obj_get d k))"

definition scoped_payload_errors :: "bool \<Rightarrow> json_dict \<Rightarrow> json_dict \<Rightarrow> json_dict \<Rightarrow> pystr list" where
  "scoped_payload_errors broker_failure authorization action verification =
     (let known = obj_get action ''outcome_known'' \<noteq> JBool False; scope = same_names [''action_type'', ''target_id'']
      in fault (\<not> known \<and> \<not> broker_failure) ''Unknown action outcome is not paired with a broker failure.''
         @ fault (known \<and> unbound action authorization scope) ''Action attempt does not bind the authorization scope.''
         @ fault (unbound verification authorization scope)
             ''Post-action verification does not bind the authorization scope.'')"

definition observed_errors :: "json_dict \<Rightarrow> json_dict \<Rightarrow> json_dict \<Rightarrow> json_dict \<Rightarrow> pystr list" where
  "observed_errors authorization action verification final =
     (case obj_get verification ''observed_state'' of
        JObj observed \<Rightarrow>
          fault (\<not> agree observed ''target_id'' authorization ''target_id'')
            ''Independent observed state does not bind the authorization target.''
          @ fault (obj_get action ''state_after_sha256'' \<noteq> JNull
                \<and> obj_get action ''state_after_sha256'' \<noteq> JStr (sha256_json (JObj observed)))
            ''Action result does not match independent observed state.''
          @ fault (obj_get final ''target_state_sha256'' \<noteq> JStr (sha256_json (JObj observed)))
            ''Final state does not match independent observation.''
      | _ \<Rightarrow> [''Post-action verification lacks an observed state object.''])"

definition expected_errors :: "json_dict \<Rightarrow> json_dict \<Rightarrow> pystr list" where
  "expected_errors authorization verification =
     (let expected = obj_get verification ''expected_state''; e = dict_of expected in
      if \<not> is_dict expected \<or> \<not> agree e ''action_type'' authorization ''action_type''
         \<or> \<not> agree e ''target_id'' authorization ''target_id''
      then [''Post-action expected state does not bind the authorization scope.'']
      else fault (digest_differs e ''parameters'' authorization ''parameters_sha256'')
             ''Post-action expected parameters do not bind the authorization.'')"

definition transition_errors :: "json_dict \<Rightarrow> json_dict \<Rightarrow> json_dict \<Rightarrow> pystr list" where
  "transition_errors authorization action final =
     (let s0 = obj_get action ''state_before_sha256''; s1 = obj_get action ''state_after_sha256'' in
      if s0 = JNull \<or> s1 = JNull then []
      else fault (\<not> py_eq s0 (obj_get authorization ''target_state_sha256''))
             ''Authorization target-state precondition does not match the action.''
        @ interval_errors (instant_at authorization ''issued_at'') (instant_at action ''executed_at'')
            (instant_at authorization ''expires_at'')
            ''Action time is outside the authorization interval.'' ''Authorization or action timestamp is invalid.''
        @ fault (\<not> py_eq (obj_get final ''operational_effects'') (JInt (if py_eq s0 s1 then 0 else 1)))
            ''Final operational-effect count does not match the state transition.'')"

text \<open>The conditions of a \<open>VERIFIED\<close> disposition; \<open>tuple()\<close> of the unexpected fields may raise.\<close>

definition verified_semantics ::
  "json_dict \<Rightarrow> json_dict \<Rightarrow> json_dict \<Rightarrow> json_dict \<Rightarrow> json list \<Rightarrow> (reason, bool) result" where
  "verified_semantics authorization action verification final reasons =
     (let permitted = get_default authorization ''permitted_parameters'' (JObj []);
          observed = obj_get verification ''observed_state''; o' = dict_of observed;
          expected = obj_get verification ''expected_state''; e = dict_of expected
      in and_then (py_tuple (get_default verification ''unexpected_fields'' (JList []))) (\<lambda>unexpected.
         Inr (obj_get action ''attempted'' = JBool True \<and> obj_get action ''accepted'' = JBool True
           \<and> obj_get action ''reported_success'' = JBool True \<and> is_dict observed \<and> is_dict expected
           \<and> obj_get o' ''network_state'' = JStr ''isolated''
           \<and> (is_dict permitted \<and> agree o' ''management_channel'' (dict_of permitted) ''preserve_management'')
           \<and> agree o' ''isolation_expires_at'' e ''isolation_expires_at''
           \<and> agree o' ''last_action_id'' action ''attempt_id''
           \<and> unexpected = [] \<and> obj_get verification ''rollback_required'' = JBool False
           \<and> reasons = [JStr ''EXPECTED_STATE_OBSERVED'']
           \<and> py_eq (obj_get final ''operational_effects'') (JInt 1))))"

definition effect_statuses :: "pystr list" where
  "effect_statuses = [''PARTIAL'', ''UNEXPECTED_EFFECT'', ''ROLLBACK_REQUIRED'']"

definition disposition_errors ::
  "json_dict \<Rightarrow> json_dict \<Rightarrow> json_dict \<Rightarrow> json_dict \<Rightarrow> (reason, pystr list) result" where
  "disposition_errors authorization action verification final =
     (let status = obj_get verification ''status''; rollback = obj_get verification ''rollback_required'';
          reasons = obj_get verification ''reason_codes''
      in and_then (in_literals status ([''VERIFIED'', ''FAILED''] @ effect_statuses)) (\<lambda>closed.
         case reasons of
           JList codes \<Rightarrow>
             if \<not> closed \<or> rollback \<notin> {JBool True, JBool False}
             then Inr [''Post-action verification disposition is invalid.'']
             else if status = JStr ''VERIFIED'' then
               and_then (verified_semantics authorization action verification final codes) (\<lambda>ok.
               Inr (fault (\<not> ok) ''VERIFIED disposition does not match the recorded state transition.''))
             else if status = JStr ''FAILED'' then
               Inr (fault (rollback \<noteq> JBool False) ''FAILED disposition cannot conceal a rollback requirement.'')
             else Inr (fault (rollback \<noteq> JBool True \<or> JStr ''ROLLBACK_REQUIRED'' \<notin> set codes)
                    ''Non-verified effect disposition is missing rollback semantics.'')
         | _ \<Rightarrow> Inr [''Post-action verification disposition is invalid.'']))"

definition post_action_section ::
  "bool \<Rightarrow> json_dict \<Rightarrow> json_dict \<Rightarrow> json_dict \<Rightarrow> json_dict \<Rightarrow> (reason, pystr list) result" where
  "post_action_section broker_failure authorization action verification final =
     (if action = [] \<or> verification = [] then Inr []
      else and_then (disposition_errors authorization action verification final) (\<lambda>disposition.
        Inr (fault (get_str action ''attempt_id'' = [] \<or> get_str verification ''attempt_id'' \<noteq> get_str action ''attempt_id'')
               ''Action and verification attempt correlation is incomplete.''
          @ fault (\<not> agree final ''verification_status'' verification ''status'') ''Final verification status is inconsistent.''
          @ scoped_payload_errors broker_failure authorization action verification
          @ fault (digest_differs action ''parameters'' authorization ''parameters_sha256'')
              ''Action parameters do not bind the authorization.''
          @ fault (\<not> agree verification ''parameters_sha256'' authorization ''parameters_sha256'')
              ''Post-action verification parameters do not bind the authorization.''
          @ observed_errors authorization action verification final
          @ expected_errors authorization verification
          @ transition_errors authorization action final
          @ disposition)))"

subsection \<open>The lifecycle\<close>

definition authorization_section ::
  "audit_row list \<Rightarrow> json_dict \<Rightarrow> json_dict \<Rightarrow> json_dict \<Rightarrow> (reason, pystr list) result" where
  "authorization_section rows decision final authorization =
     (let present = (\<lambda>name. by_type rows name \<noteq> None);
          broker = payload_of rows ''BROKER_INVOKED'';
          accounting = payload_of rows ''POST_EFFECT_ACCOUNTING_FAILURE'';
          recorded = payload_of rows ''VERIFICATION_PERFORMED'';
          token_id = get_str authorization ''token_id'';
          action = effective_action accounting (payload_of rows ''ACTION_ATTEMPTED'');
          verification = effective_verification accounting recorded
      in and_then (outcome_allowed decision) (\<lambda>allowed.
         and_then (post_action_section (present ''BROKER_FAILURE'') authorization action verification final) (\<lambda>post.
         Inr (fault (\<not> allowed) ''Authorization exists for a non-allow decision.''
           @ accounting_errors present token_id accounting recorded action final
           @ token_errors token_id decision authorization broker action verification
           @ post))))"

fun contains_secret :: "json \<Rightarrow> bool" where
  "contains_secret (JObj kvs) =
     list_ex (\<lambda>(k, v). ascii_lower k \<in> {''signature'', ''signing_key'', ''secret''} \<or> contains_secret v) kvs"
| "contains_secret (JList xs) = list_ex contains_secret xs"
| "contains_secret _ = False"

definition lifecycle_errors :: "audit_row list \<Rightarrow> (reason, pystr list) result" where
  "lifecycle_errors rows =
     (let types = row_types rows; payloads = map row_payload rows;
          decision = payload_of rows ''DECISION_PRODUCED''; final = payload_of rows ''FINAL_STATE_RECORDED'';
          approval_present = by_type rows ''APPROVAL_REQUIREMENT_PRODUCED'' \<noteq> None;
          policy = payload_of rows ''POLICY_EVALUATED''; verification = payload_of rows ''DECISION_VERIFIED'';
          request = payload_of rows ''REQUEST_VALIDATED''; identity = payload_of rows ''IDENTITY_EVALUATED'';
          requirement = payload_of rows ''APPROVAL_REQUIREMENT_PRODUCED''
      in and_then (for_each typed_row rows) (\<lambda>_.
         and_then (if policy \<noteq> [] \<and> by_type rows ''CONTROL_PLANE_FAILURE'' = None
                   then policy_section decision policy verification request identity else Inr []) (\<lambda>policy_errors.
         and_then (case by_type rows ''AUTHORIZATION_PRODUCED'' of
                     Some authorization \<Rightarrow> authorization_section rows decision final authorization
                   | None \<Rightarrow> and_then (outcome_allowed decision) (\<lambda>allowed.
                       Inr (fault allowed ''Allowed lifecycle is missing authorization.''))) (\<lambda>authorization_errors.
         Inr (correlation_errors types payloads @ stage_errors (core_stages types)
           @ fault (\<not> agree decision ''outcome'' final ''outcome'')
               ''Final outcome does not match the authoritative decision record.''
           @ fault (approval_present \<noteq> (obj_get decision ''outcome'' = JStr ''ESCALATE''))
               ''Approval requirement presence does not match ESCALATE outcome.''
           @ policy_errors
           @ (if approval_present
              then requirement_section (stable_request_id types payloads) decision policy requirement else [])
           @ (if approval_suffix types
              then approval_section approval_present decision final requirement (payload_of rows ''APPROVAL_RECORDED'') else [])
           @ authorization_errors
           @ fault (list_ex (\<lambda>row. contains_secret (JObj row)) rows)
               ''Lifecycle contains secret or reusable signature material.'')))))"

definition validate_phase3_lifecycle :: "audit_row list \<Rightarrow> (reason, bool \<times> pystr list) result" where
  "validate_phase3_lifecycle rows =
     (if rows = [] then Inr (False, [''Phase 3 lifecycle is empty.''])
      else (let opening = opening_errors (row_types rows) in
        if list_ex (\<lambda>row. \<not> is_dict (obj_get row ''payload'')) rows
        then Inr (False, opening @ [''Every lifecycle record must contain an object payload.''])
        else and_then (lifecycle_errors rows) (\<lambda>errors.
          Inr (opening @ errors = [], opening @ errors))))"

subsection \<open>Accepted lifecycles\<close>

lemma accepted_lifecycle:
  assumes "validate_phase3_lifecycle rows = Inr (True, es)"
  shows "rows \<noteq> [] \<and> opening_errors (row_types rows) = [] \<and> es = [] \<and> lifecycle_errors rows = Inr []
    \<and> list_all (\<lambda>row. is_dict (obj_get row ''payload'')) rows"
  using assms
  by (auto simp: validate_phase3_lifecycle_def Let_def list_ex_iff list_all_iff split: if_splits)

lemma accepted_sections:
  assumes "lifecycle_errors rows = Inr []"
  shows "correlation_errors (row_types rows) (map row_payload rows) = []"
    and "stage_errors (core_stages (row_types rows)) = []"
    and "agree (payload_of rows ''DECISION_PRODUCED'') ''outcome'' (payload_of rows ''FINAL_STATE_RECORDED'') ''outcome''"
    and "(by_type rows ''APPROVAL_REQUIREMENT_PRODUCED'' \<noteq> None)
      = (obj_get (payload_of rows ''DECISION_PRODUCED'') ''outcome'' = JStr ''ESCALATE'')"
    and "payload_of rows ''POLICY_EVALUATED'' \<noteq> [] \<Longrightarrow> by_type rows ''CONTROL_PLANE_FAILURE'' = None \<Longrightarrow>
      policy_section (payload_of rows ''DECISION_PRODUCED'') (payload_of rows ''POLICY_EVALUATED'')
        (payload_of rows ''DECISION_VERIFIED'') (payload_of rows ''REQUEST_VALIDATED'')
        (payload_of rows ''IDENTITY_EVALUATED'') = Inr []"
    and "by_type rows ''APPROVAL_REQUIREMENT_PRODUCED'' \<noteq> None \<Longrightarrow>
      requirement_section (stable_request_id (row_types rows) (map row_payload rows))
        (payload_of rows ''DECISION_PRODUCED'') (payload_of rows ''POLICY_EVALUATED'')
        (payload_of rows ''APPROVAL_REQUIREMENT_PRODUCED'') = []"
    and "approval_suffix (row_types rows) \<Longrightarrow>
      approval_section (by_type rows ''APPROVAL_REQUIREMENT_PRODUCED'' \<noteq> None) (payload_of rows ''DECISION_PRODUCED'')
        (payload_of rows ''FINAL_STATE_RECORDED'') (payload_of rows ''APPROVAL_REQUIREMENT_PRODUCED'')
        (payload_of rows ''APPROVAL_RECORDED'') = []"
    and "by_type rows ''AUTHORIZATION_PRODUCED'' = None \<Longrightarrow> outcome_allowed (payload_of rows ''DECISION_PRODUCED'') = Inr False"
    and "by_type rows ''AUTHORIZATION_PRODUCED'' = Some authorization \<Longrightarrow>
      authorization_section rows (payload_of rows ''DECISION_PRODUCED'') (payload_of rows ''FINAL_STATE_RECORDED'')
        authorization = Inr []"
    and "list_all (\<lambda>row. \<not> contains_secret (JObj row)) rows"
  using assms by (auto simp: lifecycle_errors_def Let_def list_ex_iff list_all_iff split: if_splits option.splits)

lemma outcome_allowed_Inr:
  "outcome_allowed d = Inr b \<Longrightarrow> b \<longleftrightarrow> obj_get d ''outcome'' \<in> {JStr ''ALLOW'', JStr ''ALLOW_CONSTRAINED''}"
  by (auto simp: outcome_allowed_def in_literals_def split: json.splits)

lemma unbound_iff: "\<not> unbound a b names \<longleftrightarrow> (\<forall>(n, m) \<in> set names. py_bool (obj_get a n) \<and> agree a n b m)"
  by (auto simp: unbound_def list_ex_iff)

subsection \<open>Stages of an accepted lifecycle\<close>

definition closed_prefixes :: "pystr list list" where
  "closed_prefixes = [normal_prefix, normal_prefix @ [''APPROVAL_REQUIREMENT_PRODUCED'']]
     @ early_prefixes @ control_failure_prefixes"

lemma starts_with_append: "starts_with c core \<Longrightarrow> core = c @ drop (length c) core"
  by (metis append_take_drop_id starts_with_def)

lemma lifecycle_prefix_closed:
  assumes "lifecycle_prefix core = Some p"
  shows "core = p @ drop (length p) core \<and> p \<in> set closed_prefixes"
proof (cases "starts_with normal_prefix core")
  case True
  note core = starts_with_append [OF True]
  show ?thesis
  proof (cases "length core > length normal_prefix \<and> core ! length normal_prefix = ''APPROVAL_REQUIREMENT_PRODUCED''")
    case appr: True
    then have "drop (length normal_prefix) core = ''APPROVAL_REQUIREMENT_PRODUCED'' # drop (Suc (length normal_prefix)) core"
      by (simp add: Cons_nth_drop_Suc [symmetric])
    with core have "core = (normal_prefix @ [''APPROVAL_REQUIREMENT_PRODUCED'']) @ drop (Suc (length normal_prefix)) core"
      by (metis append_Cons append_Nil append_assoc)
    moreover have p: "p = normal_prefix @ [''APPROVAL_REQUIREMENT_PRODUCED'']"
      using assms True appr by (simp add: lifecycle_prefix_def)
    moreover have "length p = Suc (length normal_prefix)" using p by simp
    ultimately show ?thesis by (simp only:) (simp add: closed_prefixes_def)
  next
    case False
    with core show ?thesis using assms True by (auto simp: lifecycle_prefix_def closed_prefixes_def)
  qed
next
  case False
  then have "find (\<lambda>c. starts_with c core) (early_prefixes @ control_failure_prefixes) = Some p"
    using assms by (simp add: lifecycle_prefix_def)
  from find_Some_in [OF this] show ?thesis using starts_with_append [of p core] by (auto simp: closed_prefixes_def)
qed

lemma accepted_stages:
  assumes "stage_errors core = []"
  obtains p t where "core = p @ t" "p \<in> set closed_prefixes" "t \<in> set (nonexecuting_tail # authorized_tails)"
proof -
  obtain p where p: "lifecycle_prefix core = Some p" using assms by (cases "lifecycle_prefix core") (simp_all add: stage_errors_def)
  then have "drop (length p) core \<in> set (nonexecuting_tail # authorized_tails)"
    using assms by (auto simp: stage_errors_def list_ex_iff)
  with lifecycle_prefix_closed [OF p] that show thesis by metis
qed

text \<open>C27. An accepted lifecycle is closed: its record types are, each once, a control-plane template, an action-path
  template and possibly the recorded approval; one intake and one decision identifier run through it; the
  final outcome is the decision's; an approval requirement is there exactly for an escalation and an
  authorization exactly for an allowing outcome; a recorded approval belongs to an escalation without any
  effect; and no record carries a signature, signing key or secret.\<close>

theorem accepted_lifecycle_closed:
  assumes "validate_phase3_lifecycle rows = Inr (True, es)"
  shows "(\<exists>p \<in> set closed_prefixes. \<exists>t \<in> set (nonexecuting_tail # authorized_tails).
        row_types rows = p @ t @ (if approval_suffix (row_types rows) then [''APPROVAL_RECORDED''] else []))
    \<and> distinct (row_types rows) \<and> hd (row_types rows) = ''REQUEST_RECEIVED''
    \<and> (\<forall>k \<in> {''intake_id'', ''decision_id''}. \<exists>x. x \<noteq> [] \<and> (\<forall>row \<in> set rows. get_str (row_payload row) k = x))
    \<and> agree (payload_of rows ''DECISION_PRODUCED'') ''outcome'' (payload_of rows ''FINAL_STATE_RECORDED'') ''outcome''
    \<and> (by_type rows ''APPROVAL_REQUIREMENT_PRODUCED'' \<noteq> None
        \<longleftrightarrow> obj_get (payload_of rows ''DECISION_PRODUCED'') ''outcome'' = JStr ''ESCALATE'')
    \<and> (by_type rows ''AUTHORIZATION_PRODUCED'' \<noteq> None
        \<longleftrightarrow> obj_get (payload_of rows ''DECISION_PRODUCED'') ''outcome'' \<in> {JStr ''ALLOW'', JStr ''ALLOW_CONSTRAINED''})
    \<and> (approval_suffix (row_types rows) \<longrightarrow> obj_get (payload_of rows ''DECISION_PRODUCED'') ''outcome'' = JStr ''ESCALATE''
        \<and> py_eq (obj_get (payload_of rows ''FINAL_STATE_RECORDED'') ''operational_effects'') (JInt 0))
    \<and> (\<forall>row \<in> set rows. \<not> contains_secret (JObj row))"
proof -
  note acc = accepted_lifecycle [OF assms]
  then have rows: "rows \<noteq> []" and errors: "lifecycle_errors rows = Inr []" by blast+
  note sec = accepted_sections [OF errors]
  obtain p t where pt: "core_stages (row_types rows) = p @ t" "p \<in> set closed_prefixes"
      "t \<in> set (nonexecuting_tail # authorized_tails)"
    by (rule accepted_stages [OF sec(2)])
  have "row_types rows = core_stages (row_types rows) @ (if approval_suffix (row_types rows) then [''APPROVAL_RECORDED''] else [])"
    by (auto simp: core_stages_def approval_suffix_def) (metis append_butlast_last_id)
  with pt have stages: "\<exists>p \<in> set closed_prefixes. \<exists>t \<in> set (nonexecuting_tail # authorized_tails).
      row_types rows = p @ t @ (if approval_suffix (row_types rows) then [''APPROVAL_RECORDED''] else [])"
    by (metis append_assoc)
  have corr: "distinct (row_types rows)" "\<not> uncorrelated ''intake_id'' (map row_payload rows)"
      "\<not> uncorrelated ''decision_id'' (map row_payload rows)"
    using sec(1) by (simp_all add: correlation_errors_def)
  have one: "\<exists>x. x \<noteq> [] \<and> (\<forall>row \<in> set rows. get_str (row_payload row) k = x)"
    if u: "\<not> uncorrelated k (map row_payload rows)" for k
  proof -
    let ?ids = "map (\<lambda>p. get_str p k) (map row_payload rows)"
    obtain x where "remdups ?ids = [x]" "[] \<notin> set ?ids"
      using u by (auto simp: uncorrelated_def Let_def length_Suc_conv)
    then have "set ?ids = {x}" by (metis set_remdups list.set(1,2))
    with \<open>[] \<notin> set ?ids\<close> show ?thesis by (intro exI [of _ x]) auto
  qed
  have "outcome_allowed (payload_of rows ''DECISION_PRODUCED'') = Inr (by_type rows ''AUTHORIZATION_PRODUCED'' \<noteq> None)"
    using sec(8,9) by (cases "by_type rows ''AUTHORIZATION_PRODUCED''") (auto simp: authorization_section_def Let_def)
  note allowed = outcome_allowed_Inr [OF this]
  show ?thesis
    using stages corr(1) one [OF corr(2)] one [OF corr(3)] acc sec(3,4,7,10) allowed
    by (simp add: opening_errors_def Let_def approval_section_def list_all_iff)
qed

subsection \<open>Authorized lifecycles\<close>

lemma authorization_section_Inr:
  assumes "authorization_section rows decision final authorization = Inr []"
  shows "outcome_allowed decision = Inr True"
    and "post_action_section (by_type rows ''BROKER_FAILURE'' \<noteq> None) authorization
        (effective_action (payload_of rows ''POST_EFFECT_ACCOUNTING_FAILURE'') (payload_of rows ''ACTION_ATTEMPTED''))
        (effective_verification (payload_of rows ''POST_EFFECT_ACCOUNTING_FAILURE'') (payload_of rows ''VERIFICATION_PERFORMED''))
        final = Inr []"
    and "token_errors (get_str authorization ''token_id'') decision authorization (payload_of rows ''BROKER_INVOKED'')
        (effective_action (payload_of rows ''POST_EFFECT_ACCOUNTING_FAILURE'') (payload_of rows ''ACTION_ATTEMPTED''))
        (effective_verification (payload_of rows ''POST_EFFECT_ACCOUNTING_FAILURE'') (payload_of rows ''VERIFICATION_PERFORMED''))
        = []"
  using assms by (auto simp: authorization_section_def Let_def)

lemma verified_or_denied_allowed:
  assumes "verified_or_denied decision policy verification = Inr []" "outcome_allowed decision = Inr True"
  shows "obj_get verification ''passed'' = JBool True \<and> agree decision ''outcome'' policy ''outcome''
    \<and> agree decision ''reason_codes'' policy ''reason_codes'' \<and> \<not> unbound decision verification decision_bindings"
  using assms outcome_allowed_Inr [OF assms(2)] by (auto simp: verified_or_denied_def split: if_splits)

text \<open>C25. In an accepted lifecycle whose policy was evaluated without a control failure, an authorization stands
  on a passed verification: the decision has the outcome and the reasons of the evaluated policy and binds the
  verified projection, the validated request and the resolved principal, permits the requested action type and
  target only, and the authorization repeats agent, action, target, parameters, policy and digests of the
  decision, with the digest of its own permitted parameters.\<close>

theorem accepted_authorization_justified:
  assumes "validate_phase3_lifecycle rows = Inr (True, es)" "by_type rows ''AUTHORIZATION_PRODUCED'' = Some authorization"
    and "payload_of rows ''POLICY_EVALUATED'' \<noteq> []" "by_type rows ''CONTROL_PLANE_FAILURE'' = None"
  shows "let decision = payload_of rows ''DECISION_PRODUCED''; verification = payload_of rows ''DECISION_VERIFIED'';
        policy = payload_of rows ''POLICY_EVALUATED''; request = payload_of rows ''REQUEST_VALIDATED'' in
      obj_get verification ''passed'' = JBool True
      \<and> agree decision ''outcome'' policy ''outcome'' \<and> agree decision ''reason_codes'' policy ''reason_codes''
      \<and> (\<forall>(n, m) \<in> set decision_bindings. agree decision n verification m)
      \<and> (\<forall>(n, m) \<in> set policy_names. agree decision n policy m)
      \<and> agree decision ''request_sha256'' request ''request_sha256''
      \<and> agree decision ''principal_id'' (payload_of rows ''IDENTITY_EVALUATED'') ''principal_id''
      \<and> agree decision ''action_type'' decision ''requested_action_type''
      \<and> agree decision ''target_id'' decision ''requested_target_id''
      \<and> agree decision ''requested_target_id'' request ''requested_target_id''
      \<and> (\<forall>(n, m) \<in> set authorization_bindings. py_bool (obj_get decision n) \<and> agree decision n authorization m)
      \<and> (\<exists>ps. map_of authorization ''permitted_parameters'' = Some ps
           \<and> obj_get authorization ''parameters_sha256'' = JStr (sha256_json ps))
      \<and> get_str authorization ''token_id'' \<noteq> []
      \<and> get_str (payload_of rows ''BROKER_INVOKED'') ''token_id'' = get_str authorization ''token_id''"
proof -
  have "lifecycle_errors rows = Inr []" using accepted_lifecycle [OF assms(1)] by blast
  note sec = accepted_sections [OF this]
  note policy = sec(5) [OF assms(3,4)]
  note auth = authorization_section_Inr [OF sec(9) [OF assms(2)]]
  have verified: "verified_or_denied (payload_of rows ''DECISION_PRODUCED'') (payload_of rows ''POLICY_EVALUATED'')
      (payload_of rows ''DECISION_VERIFIED'') = Inr []"
    using policy by (auto simp: policy_section_def)
  show ?thesis
    using verified_or_denied_allowed [OF verified auth(1)] policy auth
    by (auto simp: Let_def policy_section_def token_errors_def unbound_iff same_names_def split: option.splits)
qed

lemma disposition_verified:
  assumes "disposition_errors authorization action verification final = Inr []" "obj_get verification ''status'' = JStr ''VERIFIED''"
  shows "\<exists>codes. verified_semantics authorization action verification final codes = Inr True"
  using assms by (cases "obj_get verification ''reason_codes''") (auto simp: disposition_errors_def Let_def split: if_splits)

lemma disposition_of_verified:
  assumes "obj_get verification ''status'' = JStr ''VERIFIED''" "obj_get verification ''rollback_required'' = JBool False"
    "obj_get verification ''reason_codes'' = JList codes"
    and "verified_semantics authorization action verification final codes = Inr True"
  shows "disposition_errors authorization action verification final = Inr []"
  using assms by (simp add: disposition_errors_def in_literals_def Let_def)

lemma post_action_Inr:
  assumes "post_action_section bf authorization action verification final = Inr []" "action \<noteq> []" "verification \<noteq> []"
  shows "disposition_errors authorization action verification final = Inr []"
    and "observed_errors authorization action verification final = []"
    and "agree final ''verification_status'' verification ''status''"
    and "get_str action ''attempt_id'' \<noteq> []" "get_str verification ''attempt_id'' = get_str action ''attempt_id''"
    and "transition_errors authorization action final = []"
    and "scoped_payload_errors bf authorization action verification = []"
  using assms by (auto simp: post_action_section_def)

text \<open>In an accepted lifecycle without an accounting failure, a \<open>VERIFIED\<close> action is what was observed: an
  attempted, accepted and reported isolation whose independently observed state is the authorized target,
  isolated by exactly this attempt with the permitted management channel, whose digest is the recorded final
  state, with one operational effect, no unexpected field and no rollback required.\<close>

theorem accepted_verified_observed:
  assumes "validate_phase3_lifecycle rows = Inr (True, es)" "by_type rows ''AUTHORIZATION_PRODUCED'' = Some authorization"
    and "payload_of rows ''POST_EFFECT_ACCOUNTING_FAILURE'' = []"
    and "by_type rows ''ACTION_ATTEMPTED'' = Some action" "action \<noteq> []"
    and "by_type rows ''VERIFICATION_PERFORMED'' = Some verification" "obj_get verification ''status'' = JStr ''VERIFIED''"
  shows "let final = payload_of rows ''FINAL_STATE_RECORDED'' in
      obj_get action ''attempted'' = JBool True \<and> obj_get action ''accepted'' = JBool True
      \<and> obj_get action ''reported_success'' = JBool True
      \<and> (\<exists>observed. obj_get verification ''observed_state'' = JObj observed
           \<and> agree observed ''target_id'' authorization ''target_id''
           \<and> obj_get observed ''network_state'' = JStr ''isolated''
           \<and> agree observed ''last_action_id'' action ''attempt_id''
           \<and> agree observed ''management_channel''
               (dict_of (get_default authorization ''permitted_parameters'' (JObj []))) ''preserve_management''
           \<and> obj_get final ''target_state_sha256'' = JStr (sha256_json (JObj observed)))
      \<and> agree final ''verification_status'' verification ''status''
      \<and> py_eq (obj_get final ''operational_effects'') (JInt 1)
      \<and> obj_get verification ''rollback_required'' = JBool False
      \<and> py_tuple (get_default verification ''unexpected_fields'' (JList [])) = Inr []"
proof -
  have "lifecycle_errors rows = Inr []" using accepted_lifecycle [OF assms(1)] by blast
  note auth = authorization_section_Inr(2) [OF accepted_sections(9) [OF this assms(2)]]
  have verification: "verification \<noteq> []" using assms(7) by (auto simp: obj_get_def)
  have "post_action_section (by_type rows ''BROKER_FAILURE'' \<noteq> None) authorization action verification
      (payload_of rows ''FINAL_STATE_RECORDED'') = Inr []"
    using auth assms(3-6) verification by (simp add: effective_action_def effective_verification_def payload_of_def)
  note post = post_action_Inr [OF this assms(5) verification]
  obtain codes where "verified_semantics authorization action verification (payload_of rows ''FINAL_STATE_RECORDED'') codes = Inr True"
    using disposition_verified [OF post(1) assms(7)] by blast
  note semantics = this [unfolded verified_semantics_def Let_def and_then_Inr]
  obtain observed where observed: "obj_get verification ''observed_state'' = JObj observed"
    using post(2) by (auto simp: observed_errors_def split: json.splits)
  show ?thesis
    using semantics post(2,3) observed by (auto simp: Let_def observed_errors_def dict_of_def)
qed

subsection \<open>Rows by type and payload\<close>

text \<open>\<open>recorded rows xs\<close>: the rows carry the types and the payloads of \<open>xs\<close>.\<close>

definition recorded :: "audit_row list \<Rightarrow> (pystr \<times> json_dict) list \<Rightarrow> bool" where
  "recorded rows xs \<longleftrightarrow>
     map (\<lambda>row. (obj_get row ''record_type'', obj_get row ''payload'')) rows = map (\<lambda>x. (JStr (fst x), JObj (snd x))) xs"

lemma get_str_obj_get: "obj_get row k = JStr s \<Longrightarrow> get_str row k = s"
  by (auto simp: obj_get_def get_str_def split: option.splits)

lemma recorded_Cons: "recorded (row # rows) (x # xs) \<longleftrightarrow>
    obj_get row ''record_type'' = JStr (fst x) \<and> obj_get row ''payload'' = JObj (snd x) \<and> recorded rows xs"
  by (auto simp: recorded_def)

lemma recorded_induct [consumes 1, case_names Nil Cons]:
  assumes "recorded rows xs" "P [] []"
    and "\<And>row rows t d xs. obj_get row ''record_type'' = JStr t \<Longrightarrow> obj_get row ''payload'' = JObj d \<Longrightarrow> recorded rows xs
        \<Longrightarrow> P rows xs \<Longrightarrow> P (row # rows) ((t, d) # xs)"
  shows "P rows xs"
  using assms(1)
proof (induction rows arbitrary: xs)
  case Nil
  then show ?case using assms(2) by (simp add: recorded_def)
next
  case (Cons row rows)
  then obtain t d xs' where "xs = (t, d) # xs'" by (cases xs) (auto simp: recorded_def)
  with Cons assms(3) show ?case by (auto simp: recorded_Cons)
qed

lemma recorded_types: "recorded rows xs \<Longrightarrow> row_types rows = map fst xs"
  by (induction rule: recorded_induct) (simp_all add: row_types_def get_str_obj_get)

lemma recorded_payloads: "recorded rows xs \<Longrightarrow> map row_payload rows = map snd xs"
  by (induction rule: recorded_induct) (simp_all add: row_payload_def dict_of_def)

lemma recorded_dicts: "recorded rows xs \<Longrightarrow> \<not> list_ex (\<lambda>row. \<not> is_dict (obj_get row ''payload'')) rows"
  by (induction rule: recorded_induct) (simp_all add: is_dict_def)

lemma recorded_typed: "recorded rows xs \<Longrightarrow> for_each typed_row rows = Inr ()"
  by (induction rule: recorded_induct) (auto simp: typed_row_def in_literals_def obj_get_def split: option.splits)

lemma by_type_Cons:
  "by_type (row # rows) n = (case by_type rows n of
     None \<Rightarrow> if obj_get row ''record_type'' = JStr n then Some (row_payload row) else None | Some d \<Rightarrow> Some d)"
proof -
  have "find P (ys @ zs) = (case find P ys of None \<Rightarrow> find P zs | Some y \<Rightarrow> Some y)" for P and ys zs :: "audit_row list"
    by (induction ys) auto
  then show ?thesis by (simp add: by_type_def split: option.splits)
qed

lemma recorded_by_type: "recorded rows xs \<Longrightarrow> by_type rows n = map_of (rev xs) n"
proof (induction rule: recorded_induct)
  case Nil
  then show ?case by (simp add: by_type_def)
next
  case (Cons row rows t d xs)
  then show ?case
    by (cases "map_of (rev xs) n") (simp_all add: by_type_Cons map_add_def row_payload_def dict_of_def)
qed

subsection \<open>An isolation on record\<close>

definition life_ids :: json_dict where
  "life_ids = [(''intake_id'', JStr ''intake-1''), (''request_id'', JStr ''r-1''), (''decision_id'', JStr ''d-1'')]"

definition life_rows :: "(pystr \<times> json_dict) list \<Rightarrow> audit_row list" where
  "life_rows xs = map (\<lambda>x. [(''record_type'', JStr (fst x)), (''payload'', JObj (life_ids @ snd x))]) xs"

lemma life_rows_recorded: "recorded (life_rows xs) (map (\<lambda>x. (fst x, life_ids @ snd x)) xs)"
  by (simp add: recorded_def life_rows_def obj_get_def)

lemma life_rows_by_type: "by_type (life_rows xs) n = map_option ((@) life_ids) (map_of (rev xs) n)"
proof -
  have "(\<lambda>x. (fst x, life_ids @ snd x)) = (\<lambda>(k, v). (k, life_ids @ v))" by auto
  note eq = this
  show ?thesis unfolding recorded_by_type [OF life_rows_recorded] rev_map eq map_of_map by simp
qed

definition life_parameters :: json where
  "life_parameters = JObj [(''duration_seconds'', JInt 600), (''preserve_management'', JBool True)]"

definition life_observed :: json where
  "life_observed = JObj [(''target_id'', JStr ''ws-1''), (''network_state'', JStr ''isolated''), (''management_channel'', JBool True),
     (''isolation_expires_at'', JStr ''2026-01-01T00:10:05+00:00''), (''last_action_id'', JStr ''a-1'')]"

definition life_scope :: json_dict where
  "life_scope = [(''action_type'', JStr ''NETWORK_ISOLATE''), (''target_id'', JStr ''ws-1''),
     (''parameters_sha256'', JStr (sha256_json life_parameters))]"

definition life_digests :: json_dict where
  "life_digests = [(''decision_context_sha256'', JStr ''c''), (''decision_sha256'', JStr ''d''), (''request_sha256'', JStr ''q''),
     (''policy_id'', JStr ''p''), (''policy_version'', JStr ''1''), (''policy_sha256'', JStr ''s'')]"

definition life_requested :: json_dict where
  "life_requested = [(''requested_action_type'', JStr ''NETWORK_ISOLATE''), (''requested_target_id'', JStr ''ws-1''),
     (''requested_parameters_sha256'', JStr (sha256_json life_parameters))]"

definition life_decision :: "pystr \<times> json_dict" where
  "life_decision = (''DECISION_PRODUCED'', ([(''outcome'', JStr ''ALLOW''), (''reason_codes'', JList [JStr ''LOW_RISK'']),
     (''principal_id'', JStr ''agent-1'')] @ life_requested @ life_scope @ life_digests))"

definition life_execution :: "(pystr \<times> json_dict) list" where
  "life_execution =
     [(''AUTHORIZATION_PRODUCED'', ([(''token_id'', JStr ''t-1''), (''agent_id'', JStr ''agent-1''),
        (''permitted_parameters'', life_parameters), (''issued_at'', JStr ''2026-01-01T00:00:00+00:00''),
        (''expires_at'', JStr ''2026-01-01T00:05:00+00:00''), (''target_state_sha256'', JStr ''before'')] @ life_scope @ life_digests)),
      (''BROKER_INVOKED'', ((''token_id'', JStr ''t-1'') # life_scope)),
      (''ACTION_ATTEMPTED'', ([(''attempt_id'', JStr ''a-1''), (''token_id'', JStr ''t-1''), (''attempted'', JBool True),
        (''accepted'', JBool True), (''reported_success'', JBool True), (''state_before_sha256'', JStr ''before''),
        (''state_after_sha256'', JStr (sha256_json life_observed)), (''executed_at'', JStr ''2026-01-01T00:00:05+00:00'')]
        @ life_scope)),
      (''VERIFICATION_PERFORMED'', ([(''attempt_id'', JStr ''a-1''), (''token_id'', JStr ''t-1''), (''status'', JStr ''VERIFIED''),
        (''observed_state'', life_observed),
        (''expected_state'', JObj [(''action_type'', JStr ''NETWORK_ISOLATE''), (''target_id'', JStr ''ws-1''),
           (''isolation_expires_at'', JStr ''2026-01-01T00:10:05+00:00'')]),
        (''unexpected_fields'', JList []), (''rollback_required'', JBool False),
        (''reason_codes'', JList [JStr ''EXPECTED_STATE_OBSERVED''])] @ life_scope)),
      (''FINAL_STATE_RECORDED'', [(''outcome'', JStr ''ALLOW''), (''verification_status'', JStr ''VERIFIED''),
        (''operational_effects'', JInt 1), (''target_state_sha256'', JStr (sha256_json life_observed))])]"

definition verified_life :: "(pystr \<times> json_dict) list" where
  "verified_life =
     [(''REQUEST_RECEIVED'', []),
      (''REQUEST_VALIDATED'', ((''request_sha256'', JStr ''q'') # life_requested)),
      (''IDENTITY_EVALUATED'', [(''principal_id'', JStr ''agent-1'')]),
      (''EVIDENCE_EVALUATED'', []), (''CONSEQUENCE_EVALUATED'', []),
      (''POLICY_EVALUATED'', ([(''outcome'', JStr ''ALLOW''), (''reason_codes'', JList [JStr ''LOW_RISK''])] @ life_digests)),
      (''DECISION_VERIFIED'', ([(''passed'', JBool True), (''principal_id'', JStr ''agent-1'')] @ life_digests)),
      life_decision] @ life_execution"

definition rejected_life :: "(pystr \<times> json_dict) list" where
  "rejected_life =
     [(''REQUEST_RECEIVED'', []), (''REQUEST_REJECTED'', [(''reason_code'', JStr ''SCHEMA_INVALID'')]), life_decision]
     @ life_execution"

lemma life_times [simp]:
  "utc_instant ''2026-01-01T00:00:00+00:00'' = Some 63902822400000000"
  "utc_instant ''2026-01-01T00:00:05+00:00'' = Some 63902822405000000"
  "utc_instant ''2026-01-01T00:05:00+00:00'' = Some 63902822700000000"
  by code_simp+


lemma life_hash [simp]: "sha256_json v \<noteq> ''before''" "sha256_json v \<noteq> []"
  using sha256_hex_wellformed [of "utf8 (canonical_json v)"] by (auto simp: sha256_json_def)

lemmas life_defs = life_decision_def life_execution_def life_requested_def life_scope_def life_digests_def life_ids_def

definition life_payload :: "nat \<Rightarrow> json_dict" where
  "life_payload n = life_ids @ snd ((life_decision # life_execution) ! n)"

lemma life_by_type:
  "xs = before @ [life_decision] @ life_execution \<Longrightarrow>
   by_type (life_rows xs) ''FINAL_STATE_RECORDED'' = Some (life_payload 5)
   \<and> by_type (life_rows xs) ''VERIFICATION_PERFORMED'' = Some (life_payload 4)
   \<and> by_type (life_rows xs) ''ACTION_ATTEMPTED'' = Some (life_payload 3)
   \<and> by_type (life_rows xs) ''BROKER_INVOKED'' = Some (life_payload 2)
   \<and> by_type (life_rows xs) ''AUTHORIZATION_PRODUCED'' = Some (life_payload 1)
   \<and> by_type (life_rows xs) ''DECISION_PRODUCED'' = Some (life_payload 0)"
  by (simp add: life_rows_by_type life_payload_def life_execution_def life_decision_def)

text \<open>The members of the decision, the authorization, the broker call, the action, the verification and the final state.\<close>

lemmas life_payload_defs = life_payload_def life_defs

lemma life_members_0:
  "map_of (life_payload 0) ''outcome'' = Some (JStr ''ALLOW'')"
  "map_of (life_payload 0) ''reason_codes'' = Some (JList [JStr ''LOW_RISK''])"
  "map_of (life_payload 0) ''principal_id'' = Some (JStr ''agent-1'')"
  "map_of (life_payload 0) ''requested_action_type'' = Some (JStr ''NETWORK_ISOLATE'')"
  "map_of (life_payload 0) ''requested_target_id'' = Some (JStr ''ws-1'')"
  "map_of (life_payload 0) ''requested_parameters_sha256'' = Some (JStr (sha256_json life_parameters))"
  "map_of (life_payload 0) ''action_type'' = Some (JStr ''NETWORK_ISOLATE'')"
  "map_of (life_payload 0) ''target_id'' = Some (JStr ''ws-1'')"
  "map_of (life_payload 0) ''parameters_sha256'' = Some (JStr (sha256_json life_parameters))"
  "map_of (life_payload 0) ''decision_context_sha256'' = Some (JStr ''c'')"
  "map_of (life_payload 0) ''decision_sha256'' = Some (JStr ''d'')"
  "map_of (life_payload 0) ''request_sha256'' = Some (JStr ''q'')"
  "map_of (life_payload 0) ''policy_id'' = Some (JStr ''p'')"
  "map_of (life_payload 0) ''policy_version'' = Some (JStr ''1'')"
  "map_of (life_payload 0) ''policy_sha256'' = Some (JStr ''s'')"
  by (simp_all add: life_payload_defs del: One_nat_def)

lemma life_members_1:
  "map_of (life_payload 1) ''action_type'' = Some (JStr ''NETWORK_ISOLATE'')"
  "map_of (life_payload 1) ''target_id'' = Some (JStr ''ws-1'')"
  "map_of (life_payload 1) ''parameters_sha256'' = Some (JStr (sha256_json life_parameters))"
  "map_of (life_payload 1) ''decision_context_sha256'' = Some (JStr ''c'')"
  "map_of (life_payload 1) ''decision_sha256'' = Some (JStr ''d'')"
  "map_of (life_payload 1) ''request_sha256'' = Some (JStr ''q'')"
  "map_of (life_payload 1) ''policy_id'' = Some (JStr ''p'')"
  "map_of (life_payload 1) ''policy_version'' = Some (JStr ''1'')"
  "map_of (life_payload 1) ''policy_sha256'' = Some (JStr ''s'')"
  "map_of (life_payload 1) ''token_id'' = Some (JStr ''t-1'')"
  "map_of (life_payload 1) ''agent_id'' = Some (JStr ''agent-1'')"
  "map_of (life_payload 1) ''permitted_parameters'' = Some life_parameters"
  "map_of (life_payload 1) ''issued_at'' = Some (JStr ''2026-01-01T00:00:00+00:00'')"
  "map_of (life_payload 1) ''expires_at'' = Some (JStr ''2026-01-01T00:05:00+00:00'')"
  "map_of (life_payload 1) ''target_state_sha256'' = Some (JStr ''before'')"
  by (simp_all add: life_payload_defs del: One_nat_def)

lemma life_members_2:
  "map_of (life_payload 2) ''action_type'' = Some (JStr ''NETWORK_ISOLATE'')"
  "map_of (life_payload 2) ''target_id'' = Some (JStr ''ws-1'')"
  "map_of (life_payload 2) ''parameters_sha256'' = Some (JStr (sha256_json life_parameters))"
  "map_of (life_payload 2) ''token_id'' = Some (JStr ''t-1'')"
  by (simp_all add: life_payload_defs del: One_nat_def)

lemma life_members_3:
  "map_of (life_payload 3) ''action_type'' = Some (JStr ''NETWORK_ISOLATE'')"
  "map_of (life_payload 3) ''target_id'' = Some (JStr ''ws-1'')"
  "map_of (life_payload 3) ''parameters_sha256'' = Some (JStr (sha256_json life_parameters))"
  "map_of (life_payload 3) ''token_id'' = Some (JStr ''t-1'')"
  "map_of (life_payload 3) ''attempt_id'' = Some (JStr ''a-1'')"
  "map_of (life_payload 3) ''attempted'' = Some (JBool True)"
  "map_of (life_payload 3) ''accepted'' = Some (JBool True)"
  "map_of (life_payload 3) ''reported_success'' = Some (JBool True)"
  "map_of (life_payload 3) ''outcome_known'' = None"
  "map_of (life_payload 3) ''parameters'' = None"
  "map_of (life_payload 3) ''state_before_sha256'' = Some (JStr ''before'')"
  "map_of (life_payload 3) ''state_after_sha256'' = Some (JStr (sha256_json life_observed))"
  "map_of (life_payload 3) ''executed_at'' = Some (JStr ''2026-01-01T00:00:05+00:00'')"
  by (simp_all add: life_payload_defs del: One_nat_def)

lemma life_members_4:
  "map_of (life_payload 4) ''action_type'' = Some (JStr ''NETWORK_ISOLATE'')"
  "map_of (life_payload 4) ''target_id'' = Some (JStr ''ws-1'')"
  "map_of (life_payload 4) ''parameters_sha256'' = Some (JStr (sha256_json life_parameters))"
  "map_of (life_payload 4) ''token_id'' = Some (JStr ''t-1'')"
  "map_of (life_payload 4) ''attempt_id'' = Some (JStr ''a-1'')"
  "map_of (life_payload 4) ''status'' = Some (JStr ''VERIFIED'')"
  "map_of (life_payload 4) ''observed_state'' = Some life_observed"
  "map_of (life_payload 4) ''expected_state'' = Some (JObj [(''action_type'', JStr ''NETWORK_ISOLATE''), (''target_id'', JStr ''ws-1''),
     (''isolation_expires_at'', JStr ''2026-01-01T00:10:05+00:00'')])"
  "map_of (life_payload 4) ''unexpected_fields'' = Some (JList [])"
  "map_of (life_payload 4) ''rollback_required'' = Some (JBool False)"
  "map_of (life_payload 4) ''reason_codes'' = Some (JList [JStr ''EXPECTED_STATE_OBSERVED''])"
  by (simp_all add: life_payload_defs del: One_nat_def)

lemma life_members_5:
  "map_of (life_payload 5) ''outcome'' = Some (JStr ''ALLOW'')"
  "map_of (life_payload 5) ''verification_status'' = Some (JStr ''VERIFIED'')"
  "map_of (life_payload 5) ''operational_effects'' = Some (JInt 1)"
  "map_of (life_payload 5) ''target_state_sha256'' = Some (JStr (sha256_json life_observed))"
  by (simp_all add: life_payload_defs del: One_nat_def)

lemmas life_members = life_members_0 life_members_1 life_members_2 life_members_3 life_members_4 life_members_5

lemma life_payload_Cons [simp]: "life_payload n \<noteq> []"
  by (simp del: One_nat_def add: life_payload_def life_ids_def)

lemma life_authorization:
  assumes "xs = before @ [life_decision] @ life_execution"
    and "by_type (life_rows xs) ''POST_EFFECT_ACCOUNTING_FAILURE'' = None"
  shows "authorization_section (life_rows xs) (life_payload 0) (life_payload 5) (life_payload 1) = Inr []"
proof -
  note defs = life_members obj_get_def agree_def unbound_def same_names_def get_str_def get_default_def dict_of_def is_dict_def
    same_number_def life_observed_def life_parameters_def
  have allowed: "outcome_allowed (life_payload 0) = Inr True" by (simp del: One_nat_def add: outcome_allowed_def in_literals_def defs)
  have tokens: "token_errors (get_str (life_payload 1) ''token_id'') (life_payload 0) (life_payload 1) (life_payload 2)
      (life_payload 3) (life_payload 4) = []"
    by (simp del: One_nat_def add: token_errors_def authorization_bindings_def defs)
  have "verified_semantics (life_payload 1) (life_payload 3) (life_payload 4) (life_payload 5) [JStr ''EXPECTED_STATE_OBSERVED'']
      = Inr True"
    by (simp del: One_nat_def add: verified_semantics_def py_tuple_def Let_def defs)
  then have disposition: "disposition_errors (life_payload 1) (life_payload 3) (life_payload 4) (life_payload 5) = Inr []"
    by (intro disposition_of_verified) (simp_all del: One_nat_def add: defs)
  have "observed_errors (life_payload 1) (life_payload 3) (life_payload 4) (life_payload 5) = []"
    by (simp del: One_nat_def add: observed_errors_def defs)
  moreover have "expected_errors (life_payload 1) (life_payload 4) = []"
    by (simp del: One_nat_def add: expected_errors_def digest_differs_def defs)
  moreover have "transition_errors (life_payload 1) (life_payload 3) (life_payload 5) = []"
    by (simp del: One_nat_def add: transition_errors_def interval_errors_def instant_at_def defs)
  ultimately have "post_action_section bf (life_payload 1) (life_payload 3) (life_payload 4) (life_payload 5) = Inr []" for bf
    using disposition by (simp del: One_nat_def add: post_action_section_def scoped_payload_errors_def digest_differs_def defs)
  with allowed tokens life_by_type [OF assms(1)] assms(2) show ?thesis
    by (simp del: One_nat_def add: authorization_section_def payload_of_def effective_action_def effective_verification_def accounting_errors_def
        Let_def)
qed


declare contains_secret.simps(1) [simp del]

definition secret_name :: "pystr \<Rightarrow> bool" where
  "secret_name k \<longleftrightarrow> ascii_lower k \<in> {''signature'', ''signing_key'', ''secret''}"

lemma contains_secret_obj: "contains_secret (JObj kvs) \<longleftrightarrow> list_ex (\<lambda>p. secret_name (fst p) \<or> contains_secret (snd p)) kvs"
  by (simp add: contains_secret.simps(1) secret_name_def list_ex_iff case_prod_beta)

lemma plain_names:
  "list_all (\<lambda>k. \<not> secret_name k) [''record_type'', ''payload'', ''intake_id'', ''request_id'', ''decision_id'', ''outcome'',
     ''reason_codes'', ''principal_id'', ''requested_action_type'', ''requested_target_id'', ''requested_parameters_sha256'',
     ''action_type'', ''target_id'', ''parameters_sha256'', ''decision_context_sha256'', ''decision_sha256'', ''request_sha256'',
     ''policy_id'', ''policy_version'', ''policy_sha256'', ''token_id'', ''agent_id'', ''permitted_parameters'', ''issued_at'',
     ''expires_at'', ''target_state_sha256'', ''attempt_id'', ''attempted'', ''accepted'', ''reported_success'',
     ''state_before_sha256'', ''state_after_sha256'', ''executed_at'', ''status'', ''observed_state'', ''expected_state'',
     ''unexpected_fields'', ''rollback_required'', ''verification_status'', ''operational_effects'', ''duration_seconds'',
     ''preserve_management'', ''network_state'', ''management_channel'', ''isolation_expires_at'', ''last_action_id'', ''passed'',
     ''reason_code'']"
  by code_simp

lemmas plain_name = plain_names [simplified]

lemma life_secrets:
  "list_ex (\<lambda>row. contains_secret (JObj row)) (life_rows xs) \<longleftrightarrow> list_ex (\<lambda>x. contains_secret (JObj (snd x))) xs"
  by (induction xs) (simp_all add: life_rows_def life_ids_def contains_secret_obj plain_name)

lemma life_secret_free:
  "\<not> list_ex (\<lambda>x. contains_secret (JObj (snd x))) verified_life"
  "\<not> list_ex (\<lambda>x. contains_secret (JObj (snd x))) rejected_life"
  by (simp_all add: verified_life_def rejected_life_def life_defs life_observed_def life_parameters_def contains_secret_obj
      plain_name)

lemma correlated_const:
  assumes "ds \<noteq> []" "\<And>d. d \<in> set ds \<Longrightarrow> get_str d k = s" "s \<noteq> []"
  shows "\<not> uncorrelated k ds"
proof -
  have "set (map (\<lambda>d. get_str d k) ds) = {s}" using assms(1,2) by (cases ds) auto
  with assms(3) show ?thesis by (simp add: uncorrelated_def Let_def length_remdups_card_conv)
qed

lemma stable_const:
  assumes "\<And>d. d \<in> set (from_validation types ds) \<Longrightarrow> get_str d ''request_id'' = s" "s \<noteq> []"
    and "''REQUEST_VALIDATED'' \<in> set types" "length ds = length types"
  shows "stable_request_id types ds = s
    \<and> \<not> list_ex (\<lambda>d. get_str d ''request_id'' \<noteq> s) (from_validation types ds)"
proof -
  have "x \<in> set ts \<Longrightarrow> length (takeWhile (\<lambda>t. t \<noteq> x) ts) < length ts" for x and ts :: "pystr list"
    by (induction ts) auto
  from this [OF assms(3)] have "from_validation types ds \<noteq> []" using assms(4) by (simp add: from_validation_def)
  then show ?thesis using assms(1,3) by (simp add: stable_request_id_def list_ex_iff)
qed

lemma life_correlation:
  assumes "distinct (map fst xs)" "xs \<noteq> []"
  shows "correlation_errors (map fst xs) (map (\<lambda>x. life_ids @ snd x) xs) = []"
proof -
  have str: "get_str (life_ids @ d) ''intake_id'' = ''intake-1''" "get_str (life_ids @ d) ''request_id'' = ''r-1''"
    "get_str (life_ids @ d) ''decision_id'' = ''d-1''" for d
    by (simp_all add: get_str_def life_ids_def)
  let ?ds = "map (\<lambda>x. life_ids @ snd x) xs"
  have one: "\<not> uncorrelated k ?ds" if "\<And>d. get_str (life_ids @ d) k = s" "s \<noteq> []" for k s
    by (rule correlated_const [where s = s]) (use that assms(2) in auto)
  have "d \<in> set (from_validation ts ?ds) \<Longrightarrow> get_str d ''request_id'' = ''r-1''" for d ts
    unfolding from_validation_def by (drule in_set_dropD) (auto simp: str)
  then have "stable_request_id (map fst xs) ?ds = ''r-1''
    \<and> \<not> list_ex (\<lambda>d. get_str d ''request_id'' \<noteq> ''r-1'') (from_validation (map fst xs) ?ds)"
    if "''REQUEST_VALIDATED'' \<in> set (map fst xs)"
    using that by (intro stable_const) auto
  then show ?thesis
    using assms(1) one [OF str(1)] one [OF str(2)] one [OF str(3)]
    by (simp add: correlation_errors_def Let_def)
qed

lemma life_accepted:
  assumes xs: "xs = before @ [life_decision] @ life_execution" "before \<noteq> []" "fst (hd before) = ''REQUEST_RECEIVED''"
    and "distinct (map fst xs)" "stage_errors (map fst xs) = []" "\<not> list_ex (\<lambda>x. contains_secret (JObj (snd x))) xs"
    and absent: "map_of (rev xs) ''POST_EFFECT_ACCOUNTING_FAILURE'' = None" "map_of (rev xs) ''APPROVAL_REQUIREMENT_PRODUCED'' = None"
    and policy: "payload_of (life_rows xs) ''POLICY_EVALUATED'' \<noteq> [] \<Longrightarrow> by_type (life_rows xs) ''CONTROL_PLANE_FAILURE'' = None \<Longrightarrow>
        policy_section (life_payload 0) (payload_of (life_rows xs) ''POLICY_EVALUATED'') (payload_of (life_rows xs) ''DECISION_VERIFIED'')
          (payload_of (life_rows xs) ''REQUEST_VALIDATED'') (payload_of (life_rows xs) ''IDENTITY_EVALUATED'') = Inr []"
  shows "validate_phase3_lifecycle (life_rows xs) = Inr (True, [])"
proof -
  note rec = life_rows_recorded [of xs]
  have types: "row_types (life_rows xs) = map fst xs" by (simp add: recorded_types [OF rec] comp_def)
  have last: "\<not> approval_suffix (map fst xs)" "last (map fst xs) = ''FINAL_STATE_RECORDED''" "hd (map fst xs) = ''REQUEST_RECEIVED''"
    using xs by (simp_all add: approval_suffix_def life_execution_def hd_append hd_map)
  then have core: "core_stages (map fst xs) = map fst xs" by (simp add: core_stages_def)
  have none: "by_type (life_rows xs) ''POST_EFFECT_ACCOUNTING_FAILURE'' = None" "by_type (life_rows xs) ''APPROVAL_REQUIREMENT_PRODUCED'' = None"
    using absent by (simp_all add: life_rows_by_type)
  have payloads: "map row_payload (life_rows xs) = map (\<lambda>x. life_ids @ snd x) xs"
    using recorded_payloads [OF rec] by (simp add: comp_def)
  have agree: "agree (life_payload 0) ''outcome'' (life_payload 5) ''outcome''"
    "obj_get (life_payload 0) ''outcome'' \<noteq> JStr ''ESCALATE''"
    by (simp_all add: agree_def obj_get_def life_members)
  note by_type = life_by_type [OF xs(1)]
  have "xs \<noteq> []" using xs(1,2) by simp
  have "lifecycle_errors (life_rows xs) = Inr []"
    using assms(4-6) policy life_authorization [OF xs(1) none(1)] by_type none agree last core
      life_correlation [OF assms(4)] \<open>xs \<noteq> []\<close>
    by (simp add: lifecycle_errors_def Let_def recorded_typed [OF rec] types payloads life_secrets payload_of_def)
  moreover have "opening_errors (row_types (life_rows xs)) = []"
    using last core \<open>xs \<noteq> []\<close> by (simp add: opening_errors_def types Let_def)
  moreover have "life_rows xs \<noteq> []" using \<open>xs \<noteq> []\<close> by (simp add: life_rows_def)
  ultimately show ?thesis using recorded_dicts [OF rec] by (simp add: validate_phase3_lifecycle_def)
qed


lemma rejected_accepted: "validate_phase3_lifecycle (life_rows rejected_life) = Inr (True, [])"
proof (rule life_accepted [where before = "take 2 rejected_life"])
  show "\<not> list_ex (\<lambda>x. contains_secret (JObj (snd x))) rejected_life" by (rule life_secret_free)
  show "stage_errors (map fst rejected_life) = []" unfolding rejected_life_def life_decision_def life_execution_def list.map fst_conv append.simps by code_simp
qed (simp_all add: rejected_life_def life_decision_def life_execution_def
    payload_of_def life_rows_by_type)

lemma verified_accepted: "validate_phase3_lifecycle (life_rows verified_life) = Inr (True, [])"
proof (rule life_accepted [where before = "take 7 verified_life"])
  show "\<not> list_ex (\<lambda>x. contains_secret (JObj (snd x))) verified_life" by (rule life_secret_free)
  show "stage_errors (map fst verified_life) = []" unfolding verified_life_def life_decision_def life_execution_def list.map fst_conv append.simps by code_simp
  show "policy_section (life_payload 0) (payload_of (life_rows verified_life) ''POLICY_EVALUATED'')
      (payload_of (life_rows verified_life) ''DECISION_VERIFIED'') (payload_of (life_rows verified_life) ''REQUEST_VALIDATED'')
      (payload_of (life_rows verified_life) ''IDENTITY_EVALUATED'') = Inr []"
    by (simp add: policy_section_def verified_or_denied_def outcome_allowed_def in_literals_def unbound_def agree_def obj_get_def
      payload_of_def life_rows_by_type verified_life_def life_members same_names_def decision_bindings_def policy_names_def
      life_decision_def life_execution_def life_requested_def life_digests_def life_ids_def)
qed (simp_all add: verified_life_def life_decision_def life_execution_def
    life_rows_by_type)


theorem accepted_lifecycle_closed_witness:
  "distinct (row_types (life_rows verified_life))
   \<and> (by_type (life_rows verified_life) ''AUTHORIZATION_PRODUCED'' \<noteq> None
      \<longleftrightarrow> obj_get (payload_of (life_rows verified_life) ''DECISION_PRODUCED'') ''outcome'' \<in> {JStr ''ALLOW'', JStr ''ALLOW_CONSTRAINED''})"
  using accepted_lifecycle_closed [OF verified_accepted] by (elim conjE) (intro conjI)

theorem accepted_authorization_justified_witness:
  "let decision = payload_of (life_rows verified_life) ''DECISION_PRODUCED'' in
     agree decision ''action_type'' decision ''requested_action_type''
     \<and> obj_get (payload_of (life_rows verified_life) ''DECISION_VERIFIED'') ''passed'' = JBool True"
proof -
  have facts: "by_type (life_rows verified_life) ''AUTHORIZATION_PRODUCED'' = Some (life_payload 1)"
      "by_type (life_rows verified_life) ''CONTROL_PLANE_FAILURE'' = None" "payload_of (life_rows verified_life) ''POLICY_EVALUATED'' \<noteq> []"
    using life_by_type [of verified_life "take 7 verified_life"]
    by (simp_all add: payload_of_def life_rows_by_type verified_life_def life_decision_def life_execution_def life_ids_def)
  from accepted_authorization_justified [OF verified_accepted facts(1,3,2)] show ?thesis
    unfolding Let_def by blast
qed

theorem accepted_verified_observed_witness:
  "py_eq (obj_get (payload_of (life_rows verified_life) ''FINAL_STATE_RECORDED'') ''operational_effects'') (JInt 1)
   \<and> obj_get (life_payload 3) ''accepted'' = JBool True"
proof -
  have facts: "by_type (life_rows verified_life) ''AUTHORIZATION_PRODUCED'' = Some (life_payload 1)"
      "payload_of (life_rows verified_life) ''POST_EFFECT_ACCOUNTING_FAILURE'' = []"
      "by_type (life_rows verified_life) ''ACTION_ATTEMPTED'' = Some (life_payload 3)"
      "by_type (life_rows verified_life) ''VERIFICATION_PERFORMED'' = Some (life_payload 4)"
    using life_by_type [of verified_life "take 7 verified_life"]
    by (simp_all add: payload_of_def life_rows_by_type verified_life_def life_decision_def life_execution_def life_ids_def)
  have "obj_get (life_payload 4) ''status'' = JStr ''VERIFIED''" by (simp add: obj_get_def life_members)
  from accepted_verified_observed [OF verified_accepted facts(1-3) life_payload_Cons facts(4) this]
  show ?thesis unfolding Let_def by blast
qed


end
