(* ===== verification/P3Engine.thy ===== *)
theory P3Engine
  imports P3Audit P3Verifier P3Simulation
begin

text \<open>
  \<open>Phase3DecisionFirewall\<close> of \<open>phase3/engine.py\<close> in its process-local configuration: in-memory audit log, control
  ledger and target store. \<open>process_json\<close> takes a request from its bytes to a recorded final state, through
  validation, identity, evidence, consequence, decision, verification, authorization, broker and read-back. The
  clock readings, fresh identifiers and latencies of one call are a record of readings. \<open>strict_json_loads\<close> is the
  decoder argument \<open>loads\<close>. The durable configuration, its startup and its recovery are not modelled.
\<close>

subsection \<open>Configuration, state and readings\<close>

record engine =
  en_policy :: policy
  en_policy_sha256 :: pystr
  en_resolver :: resolver
  en_attestation_keys :: attestation_keys
  en_approval :: approval_config
  en_verifier :: verifier
  en_gate :: gate
  en_boundary :: boundary

record engine_world =
  ew_log :: audit_log
  ew_sim :: sim_world
  ew_approvals :: approval_state

text \<open>\<open>rd_decision_id\<close> is \<open>None\<close> when the identifier factory raises. The ledger and the audit log stamp their own rows.\<close>

record readings =
  rd_recorded_at :: "nat \<Rightarrow> pystr"
  rd_ledger_at :: "nat \<Rightarrow> pystr"
  rd_decision_id :: "pystr option"
  rd_now :: instant
  rd_fallback_now :: instant
  rd_latency_ms :: rat
  rd_approval_id :: pystr
  rd_approval_at :: instant
  rd_verifier :: verifier_readings
  rd_token_id :: pystr
  rd_nonce :: pystr
  rd_issued_at :: instant
  rd_attempt_id :: pystr
  rd_attempted_at :: instant
  rd_verification_id :: pystr
  rd_completed_at :: instant

record phase3_result =
  p3_decision :: decision_record
  p3_authorization :: "authorization_token option"
  p3_broker_result :: "broker_result option"
  p3_verification :: "post_action_verification option"
  p3_final_state :: "json option"
  p3_audit_records :: "audit_row list"

text \<open>A step of the engine: its result, or the exception it raises, beside the state it leaves.\<close>

type_synonym 'a step_result = "(reason, 'a) result \<times> engine_world"

type_synonym engine_result = "phase3_result step_result"

definition on_result :: "'a step_result \<Rightarrow> (reason \<Rightarrow> engine_world \<Rightarrow> 'b) \<Rightarrow> ('a \<Rightarrow> engine_world \<Rightarrow> 'b) \<Rightarrow> 'b" where
  "on_result m failed f = (case m of (Inl e, w) \<Rightarrow> failed e w | (Inr x, w) \<Rightarrow> f x w)"

definition run_then :: "'a step_result \<Rightarrow> ('a \<Rightarrow> engine_world \<Rightarrow> 'b step_result) \<Rightarrow> 'b step_result" where
  "run_then m f = on_result m (\<lambda>e w. (Inl e, w)) f"

definition deterministic_failure_id :: "pystr \<Rightarrow> pystr list \<Rightarrow> pystr" where
  "deterministic_failure_id prefix bindings = prefix @ ''-'' @ take 24 (sha256_json (jstrs (prefix # bindings)))"

text \<open>\<open>type(exc).__name__\<close>: a reason code belongs to the exception class of the component that raised it.\<close>

definition builtin_errors :: "reason list" where
  "builtin_errors = python_errors @ [''AttributeError'', ''IndexError'', ''RuntimeError'', ''StopIteration'',
     ''ZeroDivisionError'']"

definition exception_name :: "pystr \<Rightarrow> reason \<Rightarrow> pystr" where
  "exception_name own e = (if e \<in> set builtin_errors then e else own)"

subsection \<open>Recording\<close>

record correlation =
  co_intake :: pystr
  co_request :: pystr
  co_decision :: pystr

definition audit_payload :: "correlation \<Rightarrow> json_dict \<Rightarrow> json_dict" where
  "audit_payload c payload =
     fold (\<lambda>(k, v) d. dict_set k v d) payload
       [(''intake_id'', JStr (co_intake c)), (''request_id'', JStr (co_request c)), (''decision_id'', JStr (co_decision c))]"

text \<open>\<open>_append\<close> on the in-memory log: the row is written, then read back with the whole chain.\<close>

definition engine_append :: "readings \<Rightarrow> correlation \<Rightarrow> pystr \<times> json_dict \<Rightarrow> engine_world \<Rightarrow> unit step_result" where
  "engine_append rd c x w =
     (let al = ew_log w;
          (record, al') = audit_append (rd_recorded_at rd (length (al_rows al))) (fst x) (JObj (audit_payload c (snd x))) al;
          rows = al_rows al'
      in (if length rows \<noteq> length (al_rows al) + 1 \<or> rows = []
             \<or> canonical_json (JObj (last rows)) \<noteq> canonical_json record \<or> \<not> fst (validate_phase3_audit_chain rows)
          then Inl ''RuntimeError'' else Inr (), w\<lparr>ew_log := al'\<rparr>))"

fun log_rows :: "readings \<Rightarrow> correlation \<Rightarrow> (pystr \<times> json_dict) list \<Rightarrow> engine_world \<Rightarrow> unit step_result" where
  "log_rows rd c [] w = (Inr (), w)"
| "log_rows rd c (x # xs) w = run_then (engine_append rd c x w) (\<lambda>_. log_rows rd c xs)"

definition engine_metric :: "(metric_state \<Rightarrow> metric_state) \<Rightarrow> engine_world \<Rightarrow> engine_world" where
  "engine_metric f w = w\<lparr>ew_sim := count_metric f (ew_sim w)\<rparr>"

text \<open>\<open>_validated_result\<close>: the records since \<open>start\<close> close a lifecycle of the valid chain.\<close>

definition validated_result ::
  "nat \<Rightarrow> decision_record \<Rightarrow> authorization_token option \<Rightarrow> broker_result option \<Rightarrow> post_action_verification option
     \<Rightarrow> json option \<Rightarrow> engine_world \<Rightarrow> engine_result" where
  "validated_result start d t r v final w =
     (let rows = drop start (al_rows (ew_log w)) in
      case validate_phase3_lifecycle rows of
        Inl e \<Rightarrow> (Inl e, w)
      | Inr (valid, _) \<Rightarrow>
          if \<not> fst (validate_phase3_audit_chain (al_rows (ew_log w))) \<or> \<not> valid then (Inl ''RuntimeError'', w)
          else (Inr \<lparr>p3_decision = d, p3_authorization = t, p3_broker_result = r, p3_verification = v,
                 p3_final_state = final, p3_audit_records = rows\<rparr>, w))"

subsection \<open>Decisions that fail closed\<close>

definition fail_closed_decision ::
  "engine \<Rightarrow> correlation \<Rightarrow> pystr \<Rightarrow> authenticated_principal \<Rightarrow> reason \<Rightarrow> pystr list \<Rightarrow> json \<Rightarrow> instant \<Rightarrow> decision_record" where
  "fail_closed_decision en c rq_digest who reason additional requested decided_at =
     (let reasons = ordered_unique_acc [] ([''INVALID_REQUEST'', reason] @ additional);
          authority = \<lparr>aa_authenticated = pr_authenticated who, aa_principal_id = pr_id who, aa_claimed_agent_id = '''',
             aa_attributes_match = False, aa_trusted_roles = sort (pr_roles who),
             aa_trusted_authority = sort (pr_authority who), aa_required_authority = ''unresolved'',
             aa_authorized = False, aa_reason_codes = [reason]\<rparr>
      in \<lparr>dn_decision_id = co_decision c, dn_request_id = co_request c,
          dn_decided_at = isoformat (whole_second decided_at), dn_policy_id = po_policy_id (en_policy en),
          dn_policy_version = po_version (en_policy en), dn_policy_sha256 = en_policy_sha256 en, dn_outcome = ''DENY'',
          dn_reason_codes = reasons, dn_applicable_rules = [''P3-FAIL-CLOSED''], dn_requested_action = requested,
          dn_permitted_action = None, dn_authority = authority, dn_evidence = None, dn_consequence = None,
          dn_constraints = [],
          dn_explanation = JObj [(''decision'', JStr ''DENY''), (''reason_codes'', jstrs reasons),
            (''evidence_assessment'', JNull), (''applicable_policies'', jstrs [''P3-FAIL-CLOSED'']),
            (''agent_authority'', authority_to_dict authority), (''target_criticality'', JStr ''UNRESOLVED''),
            (''risk_and_consequence'', JNull), (''conflicting_evidence'', JNull), (''missing_evidence'', JList []),
            (''constraints'', JList []), (''human_approval_requirement'', JNull),
            (''agent_recommendation_is_authoritative'', JBool False),
            (''agent_confidence_is_authoritative'', JBool False)],
          dn_request_sha256 = rq_digest,
          dn_decision_context_sha256 = sha256_json (JObj [(''request_sha256'', JStr rq_digest),
            (''policy_id'', JStr (po_policy_id (en_policy en))), (''policy_version'', JStr (po_version (en_policy en))),
            (''policy_sha256'', JStr (en_policy_sha256 en)), (''outcome'', JStr ''DENY''),
            (''reason_codes'', jstrs reasons)]),
          dn_approval_requirement = None, dn_latency_ms = 0\<rparr>)"

definition nonexecuting_rows :: "decision_record \<Rightarrow> (pystr \<times> json_dict) list" where
  "nonexecuting_rows d =
     [(''AUTHORIZATION_NOT_ISSUED'', [(''outcome'', JStr (dn_outcome d))]),
      (''BROKER_SKIPPED'', [(''reason'', JStr ''Decision did not authorize execution.'')]),
      (''ACTION_SKIPPED'', [(''operational_effects'', JInt 0)]),
      (''VERIFICATION_SKIPPED'', [(''status'', JStr ''NOT_APPLICABLE'')])]"

definition observed_target :: "decision_record \<Rightarrow> engine_world \<Rightarrow> json option" where
  "observed_target d w =
     (case obj_get (dict_of (dn_requested_action d)) ''target'' of
        JStr t \<Rightarrow> (case observe t (ew_sim w) of Inl _ \<Rightarrow> None | Inr s \<Rightarrow> Some (sim_state_to_dict s))
      | _ \<Rightarrow> None)"

definition finish_nonexecuting ::
  "readings \<Rightarrow> nat \<Rightarrow> pystr \<Rightarrow> int \<Rightarrow> decision_record \<Rightarrow> engine_world \<Rightarrow> engine_result" where
  "finish_nonexecuting rd start intake conflicts decision w =
     (let d = decision\<lparr>dn_latency_ms := rd_latency_ms rd\<rparr>;
          c = \<lparr>co_intake = intake, co_request = dn_request_id d, co_decision = dn_decision_id d\<rparr>
      in run_then (log_rows rd c (nonexecuting_rows d) w) (\<lambda>_ w1.
         (let final = observed_target d w1 in
          run_then (log_rows rd c
             [(''FINAL_STATE_RECORDED'', [(''outcome'', JStr (dn_outcome d)), (''operational_effects'', JInt 0),
                (''target_state_sha256'', JStr (case final of None \<Rightarrow> '''' | Some s \<Rightarrow> sha256_json s))])] w1) (\<lambda>_ w2.
          validated_result start d None None None final
            (engine_metric (record_decision (dn_outcome d) (dn_applicable_rules d) conflicts (rd_latency_ms rd)) w2)))))"

text \<open>A failure record, the fail-closed decision and the closing records; some paths record the context digest.\<close>

definition deny ::
  "engine \<Rightarrow> readings \<Rightarrow> nat \<Rightarrow> correlation \<Rightarrow> pystr \<Rightarrow> authenticated_principal \<Rightarrow> (pystr \<times> json_dict) \<Rightarrow> reason
     \<Rightarrow> pystr list \<Rightarrow> json \<Rightarrow> instant \<Rightarrow> bool \<Rightarrow> int \<Rightarrow> engine_world \<Rightarrow> engine_result" where
  "deny en rd start c rq_digest who failure reason additional requested decided_at with_context conflicts w =
     (let d = fail_closed_decision en c rq_digest who reason additional requested decided_at in
      run_then (log_rows rd c
         [failure,
          (''DECISION_PRODUCED'', [(''outcome'', JStr (dn_outcome d)), (''reason_codes'', jstrs (dn_reason_codes d))]
             @ (if with_context then [(''decision_context_sha256'', JStr (dn_decision_context_sha256 d))] else []))] w)
        (\<lambda>_. finish_nonexecuting rd start (co_intake c) conflicts d))"

definition reason_row :: "pystr \<Rightarrow> reason \<Rightarrow> pystr \<times> json_dict" where
  "reason_row record_type reason = (record_type, [(''reason_code'', JStr reason)])"

definition stage_row :: "pystr \<Rightarrow> reason \<Rightarrow> pystr \<Rightarrow> pystr \<times> json_dict" where
  "stage_row record_type reason stage = (record_type, [(''reason_code'', JStr reason), (''stage'', JStr stage)])"

subsection \<open>Payloads\<close>

definition received_row :: "string \<Rightarrow> pystr \<times> json_dict" where
  "received_row raw = (''REQUEST_RECEIVED'',
     [(''raw_sha256'', JStr (sha256_hex raw)), (''raw_size_bytes'', JInt (int (length raw)))])"

definition validated_row :: "decision_request \<Rightarrow> pystr \<times> json_dict" where
  "validated_row r = (''REQUEST_VALIDATED'',
     [(''schema_version'', JStr (dr_schema_version r)), (''request_sha256'', JStr (request_sha256 r)),
      (''requested_action_type'', JStr (action_type_value (ac_type (dr_action r)))),
      (''requested_target_id'', JStr (ac_target (dr_action r))),
      (''requested_parameters_sha256'', JStr (sha256_json (parameters_to_dict (ac_parameters (dr_action r)))))])"

definition dict_row :: "pystr \<Rightarrow> json \<Rightarrow> pystr \<times> json_dict" where
  "dict_row record_type v = (record_type, dict_of v)"

definition policy_row :: "decision_record \<Rightarrow> pystr \<times> json_dict" where
  "policy_row d = (''POLICY_EVALUATED'',
     [(''policy_id'', JStr (dn_policy_id d)), (''policy_version'', JStr (dn_policy_version d)),
      (''policy_sha256'', JStr (dn_policy_sha256 d)), (''outcome'', JStr (dn_outcome d)),
      (''applicable_rules'', jstrs (dn_applicable_rules d)), (''reason_codes'', jstrs (dn_reason_codes d))])"

text \<open>\<open>_decision_audit_payload\<close>; the requested action is a dictionary with these three members.\<close>

definition decision_payload :: "decision_record \<Rightarrow> json_dict" where
  "decision_payload d =
     (let requested = dict_of (dn_requested_action d); permitted = dict_of (jnullable id (dn_permitted_action d));
          of_permitted = (\<lambda>v. if permitted = [] then JNull else v)
      in [(''outcome'', JStr (dn_outcome d)), (''reason_codes'', jstrs (dn_reason_codes d)),
          (''decision_context_sha256'', JStr (dn_decision_context_sha256 d)),
          (''decision_sha256'', JStr (authorization_sha256 d)), (''request_sha256'', JStr (dn_request_sha256 d)),
          (''principal_id'', JStr (aa_principal_id (dn_authority d))), (''policy_id'', JStr (dn_policy_id d)),
          (''policy_version'', JStr (dn_policy_version d)), (''policy_sha256'', JStr (dn_policy_sha256 d)),
          (''requested_action_sha256'', JStr (sha256_json (dn_requested_action d))),
          (''requested_action_type'', obj_get requested ''type''), (''requested_target_id'', obj_get requested ''target''),
          (''requested_parameters_sha256'', JStr (sha256_json (obj_get requested ''parameters''))),
          (''action_type'', of_permitted (obj_get permitted ''type'')),
          (''target_id'', of_permitted (obj_get permitted ''target'')),
          (''parameters_sha256'', of_permitted (JStr (sha256_json (obj_get permitted ''parameters''))))])"

definition requirement_payload :: "approval_requirement \<Rightarrow> json_dict" where
  "requirement_payload q =
     [(''approval_id'', JStr (aq_approval_id q)), (''issuer_instance_id'', JStr (aq_issuer_instance_id q)),
      (''request_id_bound'', JStr (aq_request_id q)), (''decision_id_bound'', JStr (aq_decision_id q)),
      (''decision_context_sha256'', JStr (aq_decision_context_sha256 q)), (''policy_id'', JStr (aq_policy_id q)),
      (''policy_version'', JStr (aq_policy_version q)), (''policy_sha256'', JStr (aq_policy_sha256 q)),
      (''action_type'', JStr (aq_action_type q)), (''target_id'', JStr (aq_target_id q)),
      (''parameters_sha256'', JStr (aq_parameters_sha256 q)), (''evidence_sha256'', JStr (aq_evidence_sha256 q)),
      (''reason_codes'', jstrs (aq_reason_codes q)), (''scope_sha256'', JStr (aq_scope_sha256 q)),
      (''created_at'', JStr (aq_created_at q)), (''expires_at'', JStr (aq_expires_at q)),
      (''status'', JStr (aq_status q)), (''required_approving_authority'', JStr (aq_required_authority q))]"

definition authorization_payload :: "authorization_token \<Rightarrow> decision_verification \<Rightarrow> json_dict" where
  "authorization_payload t v =
     [(''token_id'', JStr (tk_token_id t)), (''agent_id'', JStr (tk_agent_id t)),
      (''action_type'', JStr (tk_action_type t)), (''target_id'', JStr (tk_target_id t)),
      (''permitted_parameters'', tk_permitted_parameters t),
      (''parameters_sha256'', JStr (sha256_json (tk_permitted_parameters t))),
      (''issued_at'', JStr (tk_issued_at t)), (''expires_at'', JStr (tk_expires_at t)),
      (''policy_id'', JStr (tk_policy_id t)), (''policy_version'', JStr (tk_policy_version t)),
      (''policy_sha256'', JStr (tk_policy_sha256 t)),
      (''decision_context_sha256'', JStr (tk_decision_context_sha256 t)),
      (''decision_sha256'', JStr (dv_decision_sha256 v)), (''request_sha256'', JStr (dv_request_sha256 v)),
      (''target_state_sha256'', JStr (tk_target_state_sha256 t))]"

definition broker_payload :: "authorization_token \<Rightarrow> json_dict \<Rightarrow> json_dict" where
  "broker_payload t command =
     [(''token_id'', JStr (tk_token_id t)), (''action_type'', obj_get command ''type''),
      (''target_id'', obj_get command ''target''),
      (''parameters_sha256'', JStr (sha256_json (get_default command ''parameters'' (JObj []))))]"

definition final_row :: "decision_record \<Rightarrow> verification_status option \<Rightarrow> bool \<Rightarrow> json \<Rightarrow> pystr \<times> json_dict" where
  "final_row d status effect final = (''FINAL_STATE_RECORDED'',
     [(''outcome'', JStr (dn_outcome d))]
     @ (case status of None \<Rightarrow> [] | Some s \<Rightarrow> [(''verification_status'', JStr (verification_status_value s))])
     @ [(''operational_effects'', JInt (if effect then 1 else 0)), (''target_state_sha256'', JStr (sha256_json final))])"

definition recovery_summary :: "authenticated_principal \<Rightarrow> decision_request \<Rightarrow> pystr \<Rightarrow> decision_record \<Rightarrow> json" where
  "recovery_summary who r decision_id d = JObj
     [(''summary_version'', JStr ''1''), (''principal_id'', JStr (pr_id who)), (''request_id'', JStr (dr_request_id r)),
      (''request_sha256'', JStr (request_sha256 r)), (''decision_id'', JStr decision_id),
      (''decision_outcome'', JStr (dn_outcome d)), (''decision_sha256'', JStr (authorization_sha256 d)),
      (''decision_context_sha256'', JStr (dn_decision_context_sha256 d)), (''policy_sha256'', JStr (dn_policy_sha256 d)),
      (''decided_at'', JStr (dn_decided_at d))]"

subsection \<open>Execution\<close>

text \<open>The class of what \<open>broker.execute\<close> raised. A ledger error after the effect is an \<open>AttemptPersistenceError\<close>: only then is
  the attempt on record without a Python error. Before the effect it is an \<open>AuthorizationError\<close>.\<close>

definition broker_exception :: "pystr \<Rightarrow> sim_world \<Rightarrow> sim_world \<Rightarrow> reason \<Rightarrow> pystr" where
  "broker_exception attempt_id w w' e =
     (if e \<in> set builtin_errors then e
      else if e \<in> {''ATTEMPT_ID_INVALID'', ''ATTEMPT_ID_COLLISION''} then ''SimulationBoundaryError''
      else if map_of (sw_bindings w) attempt_id = None \<and> map_of (sw_bindings w') attempt_id \<noteq> None
      then ''AttemptPersistenceError'' else ''AuthorizationError'')"

definition final_observation :: "pystr \<Rightarrow> engine_world \<Rightarrow> json \<times> bool" where
  "final_observation target_id w =
     (case observe target_id (ew_sim w) of
        Inl _ \<Rightarrow> (JObj [(''target_id'', JStr target_id), (''state_unavailable'', JBool True)], True)
      | Inr s \<Rightarrow> (sim_state_to_dict s, False))"

definition failure_verification ::
  "authorization_token \<Rightarrow> pystr \<Rightarrow> pystr \<Rightarrow> pystr \<Rightarrow> pystr list \<Rightarrow> json \<Rightarrow> json \<times> bool \<Rightarrow> post_action_verification" where
  "failure_verification t request_id decision_id attempt_id reasons before observation =
     (case observation of (final, observation_failed) \<Rightarrow>
      let changed = (observation_failed \<or> \<not> py_eq final before) in
      \<lparr>pv_verification_id = deterministic_failure_id ''verify'' [tk_token_id t, attempt_id],
       pv_request_id = request_id, pv_decision_id = decision_id, pv_attempt_id = attempt_id,
       pv_token_id = tk_token_id t, pv_action_type = tk_action_type t, pv_target_id = tk_target_id t,
       pv_parameters_sha256 = sha256_json (tk_permitted_parameters t),
       pv_status = (if changed then RollbackRequired else Failed),
       pv_expected_state = JObj [(''action_type'', JStr (tk_action_type t)), (''target_id'', JStr (tk_target_id t)),
         (''last_action_id'', JStr attempt_id)],
       pv_observed_state = final, pv_changed_fields = changed_fields (dict_of before) (dict_of final),
       pv_unexpected_fields = [], pv_rollback_required = changed,
       pv_reason_codes = reasons @ (if observation_failed then [''POST_ACTION_OBSERVATION_FAILED''] else [])
         @ (if changed then [''ROLLBACK_REQUIRED''] else [])\<rparr>)"

text \<open>The closing records of an authorized request: final state, metrics, result.\<close>

definition close_authorized ::
  "readings \<Rightarrow> nat \<Rightarrow> correlation \<Rightarrow> int \<Rightarrow> decision_record \<Rightarrow> authorization_token \<Rightarrow> broker_result option
     \<Rightarrow> post_action_verification option \<Rightarrow> bool \<Rightarrow> json \<Rightarrow> engine_world \<Rightarrow> engine_result" where
  "close_authorized rd start c conflicts decision t r v effect final w =
     (let d = decision\<lparr>dn_latency_ms := rd_latency_ms rd\<rparr> in
      run_then (log_rows rd c [final_row d (map_option pv_status v) effect final] w) (\<lambda>_ w1.
      validated_result start d (Some t) r v (Some final)
        (engine_metric (record_decision (dn_outcome d) (dn_applicable_rules d) conflicts (rd_latency_ms rd)) w1)))"

text \<open>\<open>except AuthorizationError\<close>: nothing was executed, the state before counts as the final one.\<close>

definition close_rejected ::
  "readings \<Rightarrow> nat \<Rightarrow> correlation \<Rightarrow> int \<Rightarrow> decision_record \<Rightarrow> authorization_token \<Rightarrow> reason \<Rightarrow> json \<Rightarrow> engine_world
     \<Rightarrow> engine_result" where
  "close_rejected rd start c conflicts decision t e before w =
     run_then (log_rows rd c
       [(''BROKER_REJECTED'', [(''token_id'', JStr (tk_token_id t)), (''reason_code'', JStr e)]),
        (''ACTION_SKIPPED'', [(''operational_effects'', JInt 0), (''reason_code'', JStr e)]),
        (''VERIFICATION_SKIPPED'', [(''status'', JStr ''NOT_APPLICABLE''), (''reason_code'', JStr e)])] w) (\<lambda>_.
     close_authorized rd start c conflicts decision t None None False before)"

text \<open>Any other exception of the broker: the outcome is unknown, the target is observed again.\<close>

definition close_failure ::
  "readings \<Rightarrow> nat \<Rightarrow> correlation \<Rightarrow> int \<Rightarrow> pystr \<Rightarrow> decision_record \<Rightarrow> authorization_token \<Rightarrow> pystr \<Rightarrow> json
     \<Rightarrow> engine_world \<Rightarrow> engine_result" where
  "close_failure rd start c conflicts target_id decision t stage before w =
     (let observation = final_observation target_id w;
          attempt_id = (if stage = ''AttemptPersistenceError'' then rd_attempt_id rd
            else deterministic_failure_id ''failed-attempt'' [tk_token_id t, co_request c, co_decision c]);
          v = failure_verification t (co_request c) (co_decision c) attempt_id [''BROKER_INTERNAL_FAILURE''] before observation;
          effect = pv_rollback_required v;
          w1 = engine_metric (\<lambda>m. record_verification_failure (record_broker_rejection m)) w
      in run_then (log_rows rd c
        [(''BROKER_FAILURE'', [(''token_id'', JStr (tk_token_id t)), (''reason_code'', JStr ''BROKER_INTERNAL_FAILURE''),
            (''stage'', JStr stage)]),
         (''ACTION_ATTEMPTED'', [(''attempt_id'', JStr attempt_id), (''token_id'', JStr (tk_token_id t)),
            (''outcome_known'', JBool False), (''operational_effects'', JInt (if effect then 1 else 0))]),
         dict_row ''VERIFICATION_PERFORMED'' (post_verification_to_dict v)] w1) (\<lambda>_.
      close_authorized rd start c conflicts decision t None (Some v) effect (fst observation)))"

text \<open>The broker reported: read-back verification, or its failure record. An append that fails here finds the in-memory chain
  broken already; the alternate accounting record of \<open>_close_post_effect_accounting_failure\<close> then goes to the same broken
  chain and raises the same error.\<close>

definition verified_execution ::
  "readings \<Rightarrow> correlation \<Rightarrow> authorization_token \<Rightarrow> pyval \<Rightarrow> broker_result \<Rightarrow> json \<Rightarrow> engine_world
     \<Rightarrow> post_action_verification \<times> engine_world" where
  "verified_execution rd c t command r before w =
     (case verify_execution (rd_verification_id rd) t command (co_request c) (co_decision c) r before (ew_sim w) of
        (Inr v, sim) \<Rightarrow> (v, w\<lparr>ew_sim := sim\<rparr>)
      | (Inl e, sim) \<Rightarrow>
          (let w1 = w\<lparr>ew_sim := sim\<rparr>
           in (failure_verification t (tk_request_id t) (tk_decision_id t) (br_attempt_id r)
                 [''VERIFIER_INTERNAL_FAILURE'', exception_name ''SimulationBoundaryError'' e] before
                 (final_observation (tk_target_id t) w1),
               engine_metric record_verification_failure w1)))"

definition close_executed ::
  "readings \<Rightarrow> nat \<Rightarrow> correlation \<Rightarrow> int \<Rightarrow> decision_record \<Rightarrow> authorization_token \<Rightarrow> pyval \<Rightarrow> broker_result \<Rightarrow> json
     \<Rightarrow> engine_world \<Rightarrow> engine_result" where
  "close_executed rd start c conflicts decision t command r before w =
     run_then (log_rows rd c [dict_row ''ACTION_ATTEMPTED'' (broker_to_dict r)] w) (\<lambda>_ w1.
     (case verified_execution rd c t command r before w1 of (v, w2) \<Rightarrow>
      run_then (log_rows rd c [dict_row ''VERIFICATION_PERFORMED'' (post_verification_to_dict v)] w2) (\<lambda>_.
      close_authorized rd start c conflicts decision t (Some r) (Some v) (\<not> py_eq (pv_observed_state v) before)
        (pv_observed_state v))))"

definition execution_call ::
  "engine \<Rightarrow> correlation \<Rightarrow> authenticated_principal \<Rightarrow> decision_request \<Rightarrow> decision_record \<Rightarrow> authorization_token \<Rightarrow> json
     \<Rightarrow> execute_call" where
  "execution_call en c who r d t command =
     \<lparr>ex_token = Some t, ex_command = pyval_of command, ex_request_id = co_request c, ex_decision_id = co_decision c,
      ex_agent_id = pr_id who, ex_policy_id = po_policy_id (en_policy en), ex_policy_version = po_version (en_policy en),
      ex_policy_sha256 = en_policy_sha256 en, ex_decision_context_sha256 = dn_decision_context_sha256 d,
      ex_recovery_summary = Some (recovery_summary who r (co_decision c) d)\<rparr>"

definition execute_authorized ::
  "engine \<Rightarrow> readings \<Rightarrow> nat \<Rightarrow> correlation \<Rightarrow> int \<Rightarrow> authenticated_principal \<Rightarrow> decision_request \<Rightarrow> pystr \<Rightarrow> decision_record
     \<Rightarrow> decision_verification \<Rightarrow> json \<Rightarrow> authorization_token \<Rightarrow> engine_world \<Rightarrow> engine_result" where
  "execute_authorized en rd start c conflicts who r target_id d v before t w =
     (let command = (case dn_permitted_action d of None \<Rightarrow> JObj [] | Some a \<Rightarrow> a) in
      run_then (log_rows rd c
        [(''DECISION_PRODUCED'', decision_payload d), (''AUTHORIZATION_PRODUCED'', authorization_payload t v),
         (''BROKER_INVOKED'', broker_payload t (dict_of command))] w) (\<lambda>_ w1.
      (case authorize_and_execute (en_boundary en) (rd_ledger_at rd) (rd_attempt_id rd) (rd_attempted_at rd)
          (execution_call en c who r d t command) (ew_sim w1) of
         (Inr b, sim) \<Rightarrow> close_executed rd start c conflicts d t (pyval_of command) b before (w1\<lparr>ew_sim := sim\<rparr>)
       | (Inl e, sim) \<Rightarrow>
           (let stage = broker_exception (rd_attempt_id rd) (ew_sim w1) sim e; w2 = w1\<lparr>ew_sim := sim\<rparr> in
            if stage = ''AuthorizationError'' then close_rejected rd start c conflicts d t e before w2
            else close_failure rd start c conflicts target_id d t stage before w2))))"

definition control_failure ::
  "engine \<Rightarrow> readings \<Rightarrow> nat \<Rightarrow> correlation \<Rightarrow> authenticated_principal \<Rightarrow> decision_request \<Rightarrow> reason \<Rightarrow> pystr \<Rightarrow> bool \<Rightarrow> int
     \<Rightarrow> engine_world \<Rightarrow> engine_result" where
  "control_failure en rd start c who r reason stage with_context conflicts =
     deny en rd start c (request_sha256 r) who (stage_row ''CONTROL_PLANE_FAILURE'' reason stage) reason []
       (action_to_dict (dr_action r)) (rd_now rd) with_context conflicts"

subsection \<open>Authorization of a verified decision\<close>

definition issue_authorization ::
  "engine \<Rightarrow> readings \<Rightarrow> authenticated_principal \<Rightarrow> pystr \<Rightarrow> decision_record \<Rightarrow> decision_verification \<Rightarrow> engine_world
     \<Rightarrow> (json \<times> authorization_token) step_result" where
  "issue_authorization en rd who target_id d v w =
     (case observe target_id (ew_sim w) of
        Inl e \<Rightarrow> (Inl e, w)
      | Inr s \<Rightarrow>
          (let before = sim_state_to_dict s;
               (issued, auth) = issue (en_gate en) (rd_ledger_at rd) (rd_token_id rd) (rd_nonce rd) (rd_issued_at rd) d
                 (pr_id who) (sha256_json before) v (sw_auth (ew_sim w));
               w1 = w\<lparr>ew_sim := (ew_sim w)\<lparr>sw_auth := auth\<rparr>\<rparr>
           in case issued of Inl e \<Rightarrow> (Inl e, w1) | Inr t \<Rightarrow> (Inr (before, t), w1)))"

text \<open>The exception classes of the observer and of the gate.\<close>

definition issue_exception :: "reason \<Rightarrow> pystr" where
  "issue_exception e =
     exception_name (if e \<in> {''TARGET_UNKNOWN'', ''TARGET_ID_INVALID''} then ''SimulationBoundaryError'' else ''AuthorizationError'') e"

text \<open>A verification that did not pass turns the decision into a denial.\<close>

definition denied_by_verifier :: "decision_record \<Rightarrow> decision_verification \<Rightarrow> decision_record" where
  "denied_by_verifier d v =
     (let reasons = dn_reason_codes d @ [''DECISION_VERIFIER_FAILED''];
          explanation = fold (\<lambda>(k, x) e. dict_set k x e)
            [(''decision'', JStr ''DENY''), (''reason_codes'', jstrs reasons),
             (''verifier_blockers'', jstrs (dv_blocking_reason_codes v)), (''human_approval_requirement'', JNull)]
            (dict_of (dn_explanation d))
      in d\<lparr>dn_outcome := ''DENY'', dn_reason_codes := reasons,
           dn_applicable_rules := dn_applicable_rules d @ [''P3-FAIL-CLOSED-VERIFIER''], dn_permitted_action := None,
           dn_constraints := [], dn_approval_requirement := None, dn_explanation := JObj explanation,
           dn_decision_context_sha256 := sha256_json (JObj [(''prior_context'', JStr (dn_decision_context_sha256 d)),
             (''outcome'', JStr ''DENY''), (''reason_codes'', jstrs reasons)])\<rparr>)"

definition authorize_decision ::
  "engine \<Rightarrow> readings \<Rightarrow> nat \<Rightarrow> correlation \<Rightarrow> int \<Rightarrow> authenticated_principal \<Rightarrow> decision_request \<Rightarrow> pystr \<Rightarrow> decision_record
     \<Rightarrow> decision_verification \<Rightarrow> engine_world \<Rightarrow> engine_result" where
  "authorize_decision en rd start c conflicts who r target_id decision v w =
     (let d = (if dv_passed v then decision else denied_by_verifier decision v) in
      if dn_outcome d \<notin> set automatic_outcomes then
        run_then (log_rows rd c
          ((''DECISION_PRODUCED'', decision_payload d)
           # (case dn_approval_requirement d of None \<Rightarrow> []
              | Some q \<Rightarrow> [(''APPROVAL_REQUIREMENT_PRODUCED'', requirement_payload q)])) w) (\<lambda>_.
        finish_nonexecuting rd start (co_intake c) conflicts d)
      else on_result (issue_authorization en rd who target_id d v w)
        (\<lambda>e. control_failure en rd start c who r ''AUTHORIZATION_PRECONDITION_FAILURE'' (issue_exception e) True conflicts)
        (\<lambda>(before, t). execute_authorized en rd start c conflicts who r target_id d v before t))"

subsection \<open>Evaluation of a claimed request\<close>

text \<open>The approval gate registers the requirement it issued.\<close>

definition register_issued :: "decision_record \<Rightarrow> approval_state \<Rightarrow> approval_state" where
  "register_issued d st =
     (case dn_approval_requirement d of None \<Rightarrow> st
      | Some q \<Rightarrow> st\<lparr>st_requirements := dict_set (aq_approval_id q) q (st_requirements st),
          st_issued_decision_ids := List.insert (dn_decision_id d) (st_issued_decision_ids st)\<rparr>)"

definition decide_step ::
  "engine \<Rightarrow> readings \<Rightarrow> pystr \<Rightarrow> decision_request \<Rightarrow> authenticated_principal \<Rightarrow> target_record \<Rightarrow> action_policy
     \<Rightarrow> evidence_assessment \<Rightarrow> consequence_assessment \<Rightarrow> engine_world \<Rightarrow> decision_record step_result" where
  "decide_step en rd decision_id r who t ap evidence consequence w =
     (case build_decision
         (Some (\<lambda>rq. fst (issue_requirement (en_approval en) (rd_approval_id rd) (rd_approval_at rd) rq (ew_approvals w))))
         [] (Some decision_id) (rd_now rd) r who (en_policy en) evidence consequence t ap of
        Inl e \<Rightarrow> (Inl e, w)
      | Inr d \<Rightarrow> (Inr d, w\<lparr>ew_approvals := register_issued d (ew_approvals w)\<rparr>))"

text \<open>The \<open>try\<close> block: evidence, consequence and decision, the first two with their records.\<close>

definition evaluate ::
  "engine \<Rightarrow> readings \<Rightarrow> correlation \<Rightarrow> decision_request \<Rightarrow> authenticated_principal \<Rightarrow> target_record \<Rightarrow> action_policy
     \<Rightarrow> engine_world \<Rightarrow> (evidence_assessment \<times> decision_record) step_result" where
  "evaluate en rd c r who t ap w =
     (case assess_evidence (po_evidence (en_policy en)) (en_attestation_keys en) (rd_now rd) r of
        Inl e \<Rightarrow> (Inl e, w)
      | Inr evidence \<Rightarrow>
          run_then (log_rows rd c [dict_row ''EVIDENCE_EVALUATED'' (evidence_assessment_to_dict evidence)] w) (\<lambda>_ w1.
          (case assess_consequence t ap (po_consequence (en_policy en)) (ac_parameters (dr_action r)) of
             Inl e \<Rightarrow> (Inl e, w1)
           | Inr consequence \<Rightarrow>
               run_then (log_rows rd c [dict_row ''CONSEQUENCE_EVALUATED'' (consequence_to_dict consequence)] w1) (\<lambda>_ w2.
               run_then (decide_step en rd (co_decision c) r who t ap evidence consequence w2) (\<lambda>d w3.
               (Inr (evidence, d), w3))))))"

definition verify_step ::
  "engine \<Rightarrow> (json \<Rightarrow> bool) \<Rightarrow> readings \<Rightarrow> decision_request \<Rightarrow> authenticated_principal \<Rightarrow> resolved_principal option
     \<Rightarrow> target_record \<Rightarrow> decision_record \<Rightarrow> engine_world \<Rightarrow> (reason, decision_verification) result" where
  "verify_step en schema_ok rd r who resolution t d w =
     (case resolution of
        None \<Rightarrow> Inl ''TypeError''
      | Some v \<Rightarrow> verify_decision (en_verifier en) schema_ok (ew_approvals w) (rd_verifier rd) r who v (en_policy en) t d
          (rd_now rd))"

definition verify_evaluated ::
  "engine \<Rightarrow> (json \<Rightarrow> bool) \<Rightarrow> readings \<Rightarrow> nat \<Rightarrow> correlation \<Rightarrow> authenticated_principal \<Rightarrow> resolved_principal option
     \<Rightarrow> decision_request \<Rightarrow> target_record \<Rightarrow> int \<Rightarrow> decision_record \<Rightarrow> engine_world \<Rightarrow> engine_result" where
  "verify_evaluated en schema_ok rd start c who resolution r t conflicts d w =
     (case verify_step en schema_ok rd r who resolution t d w of
        Inl e \<Rightarrow> control_failure en rd start c who r ''DECISION_VERIFIER_INTERNAL_FAILURE''
            (exception_name ''RequestValidationError'' e) True conflicts w
      | Inr v \<Rightarrow>
          run_then (log_rows rd c [dict_row ''DECISION_VERIFIED'' (verification_unsigned_dict v)] w)
            (\<lambda>_. authorize_decision en rd start c conflicts who r (tr_id t) d v))"

definition evaluate_claimed ::
  "engine \<Rightarrow> (json \<Rightarrow> bool) \<Rightarrow> readings \<Rightarrow> nat \<Rightarrow> correlation \<Rightarrow> authenticated_principal \<Rightarrow> resolved_principal option
     \<Rightarrow> decision_request \<Rightarrow> target_record \<Rightarrow> action_policy \<Rightarrow> engine_world \<Rightarrow> engine_result" where
  "evaluate_claimed en schema_ok rd start c who resolution r t ap w =
     run_then (log_rows rd c
        [dict_row ''IDENTITY_EVALUATED'' (authority_to_dict (assess_authority r who (required_authority_for ap t)))] w) (\<lambda>_ w1.
     on_result (evaluate en rd c r who t ap w1)
       (\<lambda>e. control_failure en rd start c who r ''INTERNAL_CONTROL_FAILURE'' (exception_name ''ApprovalError'' e) False 0)
       (\<lambda>(evidence, d) w2. run_then (log_rows rd c [policy_row d] w2)
          (\<lambda>_. verify_evaluated en schema_ok rd start c who resolution r t (int (ea_conflict_count evidence)) d)))"

subsection \<open>Admission of a validated request\<close>

definition unmatched_authority :: "authenticated_principal \<Rightarrow> decision_request \<Rightarrow> reason \<Rightarrow> authority_assessment" where
  "unmatched_authority who r reason =
     \<lparr>aa_authenticated = pr_authenticated who, aa_principal_id = pr_id who, aa_claimed_agent_id = ag_id (dr_agent r),
      aa_attributes_match = False, aa_trusted_roles = sort (pr_roles who), aa_trusted_authority = sort (pr_authority who),
      aa_required_authority = ''unresolved'', aa_authorized = False, aa_reason_codes = [reason]\<rparr>"

definition untrusted_reason :: "authenticated_principal \<Rightarrow> reason" where
  "untrusted_reason who =
     (if pr_reason_code who \<noteq> [] then pr_reason_code who
      else if \<not> pr_authenticated who then ''AGENT_NOT_AUTHENTICATED'' else ''AGENT_SECURITY_STATUS_INVALID'')"

definition claims_match :: "authenticated_principal \<Rightarrow> agent_claims \<Rightarrow> bool" where
  "claims_match who a \<longleftrightarrow>
     pr_id who = ag_id a \<and> pr_type who = ag_type a \<and> same_set (pr_roles who) (ag_roles a)
     \<and> same_set (pr_authority who) (ag_authority a) \<and> pr_security_status who = ag_security_status a \<and> ag_authenticated a"

definition max_request_age_seconds :: int where
  "max_request_age_seconds = 300"

text \<open>The age is a number of seconds in the source; both bounds are whole, so microseconds compare alike.\<close>

definition preflight_reason :: "instant \<Rightarrow> decision_request \<Rightarrow> reason option" where
  "preflight_reason now r =
     (let age = (case parse_datetime (dr_timestamp r) of
            None \<Rightarrow> (max_request_age_seconds + 1) * micros | Some request_time \<Rightarrow> now - request_time)
      in if age < -300 * micros then Some ''REQUEST_TIMESTAMP_FUTURE''
         else if age > max_request_age_seconds * micros then Some ''REQUEST_TIMESTAMP_STALE'' else None)"

definition catalogued :: "policy \<Rightarrow> decision_request \<Rightarrow> (reason, target_record \<times> action_policy) result" where
  "catalogued p r =
     and_then (item (po_target_inventory p) (ac_target (dr_action r))) (\<lambda>t.
     and_then (item (po_action_catalog p) (action_type_value (ac_type (dr_action r)))) (\<lambda>ap. Inr (t, ap)))"

text \<open>\<open>claim_request\<close>: the reason of a refusal, if any, and the ledger.\<close>

definition claim_step :: "readings \<Rightarrow> authenticated_principal \<Rightarrow> decision_request \<Rightarrow> engine_world \<Rightarrow> reason option \<times> engine_world" where
  "claim_step rd who r w =
     (let auth = sw_auth (ew_sim w) in
      case claim_request (rd_ledger_at rd) (pr_id who) (dr_request_id r) (request_sha256 r) (Some (isoformat (rd_now rd)))
          (aw_ledger auth) of
        Inl e \<Rightarrow> (Some ''CONTROL_LEDGER_UNAVAILABLE'', w)
      | Inr (claimed, l) \<Rightarrow>
          (case claimed of NewRequest \<Rightarrow> None | DuplicateRequest \<Rightarrow> Some ''DUPLICATE_REQUEST''
             | ConflictRequest \<Rightarrow> Some ''REQUEST_ID_CONFLICT'',
           w\<lparr>ew_sim := (ew_sim w)\<lparr>sw_auth := auth\<lparr>aw_ledger := l\<rparr>\<rparr>\<rparr>))"

definition admit ::
  "engine \<Rightarrow> (json \<Rightarrow> bool) \<Rightarrow> readings \<Rightarrow> nat \<Rightarrow> correlation \<Rightarrow> authenticated_principal \<Rightarrow> resolved_principal option
     \<Rightarrow> decision_request \<Rightarrow> engine_world \<Rightarrow> engine_result" where
  "admit en schema_ok rd start c who resolution r w =
     (let refuse = (\<lambda>failure reason additional with_context.
            deny en rd start c (request_sha256 r) who failure reason additional (action_to_dict (dr_action r)) (rd_now rd)
              with_context 0);
          identity = (\<lambda>reason. dict_row ''IDENTITY_EVALUATED'' (authority_to_dict (unmatched_authority who r reason)))
      in if \<not> pr_authenticated who \<or> pr_security_status who \<noteq> Trusted then
           refuse (identity (untrusted_reason who)) (untrusted_reason who) [''AGENT_NOT_AUTHENTICATED'', ''AGENT_IDENTITY_MISMATCH'']
             True w
         else if \<not> claims_match who (dr_agent r) then
           refuse (identity ''AGENT_ATTRIBUTE_MISMATCH'') ''AGENT_ATTRIBUTE_MISMATCH'' [] True w
         else case preflight_reason (rd_now rd) r of
           Some reason \<Rightarrow> refuse (reason_row ''REQUEST_REJECTED'' reason) reason [] False w
         | None \<Rightarrow>
        (case catalogued (en_policy en) r of
           Inl e \<Rightarrow> refuse (reason_row ''POLICY_EVALUATION_FAILED'' ''TARGET_OR_ACTION_UNKNOWN'') ''TARGET_OR_ACTION_UNKNOWN'' [] False w
         | Inr (t, ap) \<Rightarrow>
        (case claim_step rd who r w of
           (Some reason, w1) \<Rightarrow> refuse (reason_row ''REQUEST_REJECTED'' reason) reason [] False w1
         | (None, w1) \<Rightarrow> evaluate_claimed en schema_ok rd start c who resolution r t ap w1)))"

subsection \<open>One request\<close>

text \<open>\<open>load_decision_request_json\<close>: bytes to a typed request. \<open>loads\<close> is \<open>None\<close> where \<open>strict_json_loads\<close> raises.\<close>

definition load_decision_request_json ::
  "(json \<Rightarrow> bool) \<Rightarrow> (string \<Rightarrow> json option) \<Rightarrow> instant \<Rightarrow> string \<Rightarrow> (reason, decision_request) result" where
  "load_decision_request_json schema_ok loads now raw =
     and_then (require (\<not> length raw > max_request_bytes) ''REQUEST_TOO_LARGE'') (\<lambda>_.
     (case loads raw of
        None \<Rightarrow> Inl ''REQUEST_JSON_INVALID''
      | Some v \<Rightarrow>
          and_then (require (is_dict v) ''REQUEST_NOT_OBJECT'') (\<lambda>_.
          validate_decision_request_dict schema_ok now v)))"

text \<open>After \<open>REQUEST_RECEIVED\<close>. An identifier that failed is replaced only when the factory raised.\<close>

definition process_received ::
  "engine \<Rightarrow> (json \<Rightarrow> bool) \<Rightarrow> (string \<Rightarrow> json option) \<Rightarrow> readings \<Rightarrow> nat \<Rightarrow> correlation \<Rightarrow> string
     \<Rightarrow> authenticated_principal \<Rightarrow> resolved_principal option \<Rightarrow> engine_world \<Rightarrow> engine_result" where
  "process_received en schema_ok loads rd start c raw who resolution w =
     (let reject = (\<lambda>failure reason.
            deny en rd start c (sha256_hex raw) who failure reason [] (JObj []) (rd_fallback_now rd) False 0 w)
      in if rd_decision_id rd \<in> {None, Some []} then
           reject (reason_row ''REQUEST_REJECTED'' ''DECISION_IDENTIFIER_FAILURE'') ''DECISION_IDENTIFIER_FAILURE''
         else (case load_decision_request_json schema_ok loads (rd_now rd) raw of
           Inl e \<Rightarrow>
             if e \<in> set builtin_errors then
               reject (stage_row ''REQUEST_REJECTED'' ''REQUEST_VALIDATION_INTERNAL_FAILURE'' e)
                 ''REQUEST_VALIDATION_INTERNAL_FAILURE''
             else reject (reason_row ''REQUEST_REJECTED'' e) e
         | Inr r \<Rightarrow>
             (let c1 = c\<lparr>co_request := dr_request_id r\<rparr> in
              run_then (log_rows rd c1 [validated_row r] w) (\<lambda>_. admit en schema_ok rd start c1 who resolution r))))"

definition intake_correlation :: "readings \<Rightarrow> string \<Rightarrow> correlation" where
  "intake_correlation rd raw =
     (let digest = sha256_hex raw; intake = ''intake-'' @ take 16 digest; provisional = ''invalid-'' @ take 16 digest
      in \<lparr>co_intake = intake, co_request = provisional,
          co_decision = (case rd_decision_id rd of Some i \<Rightarrow> i
            | None \<Rightarrow> deterministic_failure_id ''decision'' [intake, provisional])\<rparr>)"

definition process_authenticated ::
  "engine \<Rightarrow> (json \<Rightarrow> bool) \<Rightarrow> (string \<Rightarrow> json option) \<Rightarrow> readings \<Rightarrow> string \<Rightarrow> authenticated_principal
     \<Rightarrow> resolved_principal option \<Rightarrow> engine_world \<Rightarrow> engine_result" where
  "process_authenticated en schema_ok loads rd raw who resolution w =
     (let c = intake_correlation rd raw in
      run_then (log_rows rd c [received_row raw] w)
        (\<lambda>_. process_received en schema_ok loads rd (length (al_rows (ew_log w))) c raw who resolution))"

definition unresolved_principal :: "reason \<Rightarrow> authenticated_principal" where
  "unresolved_principal e =
     \<lparr>pr_id = ''UNRESOLVED_INVOCATION'', pr_type = ''UNAUTHENTICATED'', pr_authenticated = False, pr_roles = [],
      pr_authority = [], pr_security_status = UnknownSecurity,
      pr_identity_source = ''firewall_trusted_credential_resolver'', pr_human_session = False, pr_reason_code = e\<rparr>"

definition invocation ::
  "resolver \<Rightarrow> pystr \<Rightarrow> string \<Rightarrow> (reason, authenticated_principal \<times> resolved_principal option) result" where
  "invocation rs fresh credential =
     (case and_then (resolve rs fresh credential) (\<lambda>v. and_then (verify_resolution rs v) (\<lambda>p. Inr (p, Some v))) of
        Inl e \<Rightarrow> if e \<in> set principal_errors then Inr (unresolved_principal e, None) else Inl e
      | Inr x \<Rightarrow> Inr x)"

definition decisions_total :: "engine_world \<Rightarrow> nat" where
  "decisions_total w = sum_list (map snd (ms_dispositions (aw_metrics (sw_auth (ew_sim w)))))"

definition decision_count :: "pystr \<Rightarrow> engine_world \<Rightarrow> nat" where
  "decision_count outcome w =
     (if outcome \<in> set counted_outcomes then count_of (ms_dispositions (aw_metrics (sw_auth (ew_sim w)))) outcome else 0)"

definition attempt_disposition :: "broker_result \<Rightarrow> post_action_verification option \<Rightarrow> attempt_state" where
  "attempt_disposition b v =
     (if map_option pv_status v = Some Verified then VerifiedEffect
      else if \<not> br_reported_success b then FailedNoEffect else RecoveryRequired)"

text \<open>The outcome of the attempt, recorded in the in-memory ledger.\<close>

definition record_outcome :: "readings \<Rightarrow> phase3_result \<Rightarrow> engine_world \<Rightarrow> engine_result" where
  "record_outcome rd res w =
     (case p3_broker_result res of
        None \<Rightarrow> (Inr res, w)
      | Some b \<Rightarrow>
          (let (recorded, auth) = gate_record_outcome (rd_ledger_at rd) (br_attempt_id b)
             (attempt_disposition b (p3_verification res))
             (sha256_json (JObj [(''broker_result'', broker_to_dict b),
                (''verification'', jnullable post_verification_to_dict (p3_verification res))]))
             (isoformat (whole_second (rd_completed_at rd))) (sw_auth (ew_sim w))
           in (case recorded of Inl e \<Rightarrow> Inl e | Inr _ \<Rightarrow> Inr res, w\<lparr>ew_sim := (ew_sim w)\<lparr>sw_auth := auth\<rparr>\<rparr>)))"

definition process_json ::
  "engine \<Rightarrow> (json \<Rightarrow> bool) \<Rightarrow> (string \<Rightarrow> json option) \<Rightarrow> pystr \<Rightarrow> readings \<Rightarrow> string \<Rightarrow> string \<Rightarrow> engine_world
     \<Rightarrow> engine_result" where
  "process_json en schema_ok loads fresh rd raw credential w =
     (case invocation (en_resolver en) fresh credential of
        Inl e \<Rightarrow> (Inl e, w)
      | Inr (who, resolution) \<Rightarrow>
          if sha256_json (policy_to_dict (en_policy en)) \<noteq> en_policy_sha256 en then (Inl ''RuntimeError'', w)
          else run_then (process_authenticated en schema_ok loads rd raw who resolution w) (\<lambda>res w1.
            (let outcome = dn_outcome (p3_decision res) in
             if decisions_total w1 \<noteq> decisions_total w + 1
                \<or> decision_count outcome w1 \<noteq> decision_count outcome w + 1 then (Inl ''RuntimeError'', w1)
             else record_outcome rd res w1)))"

subsection \<open>Construction\<close>

text \<open>\<open>hmac.new(key, msg, hashlib.sha256).digest()\<close>, and the keys derived from the signing key.\<close>

definition hmac_sha256_bytes :: "string \<Rightarrow> string \<Rightarrow> string" where
  "hmac_sha256_bytes key msg =
     (let k0 = (if length key > 64 then map char_of (sha256_bytes key) else key);
          k = map of_char k0 @ replicate (64 - length k0) (0::int);
          pad = (\<lambda>b. map (\<lambda>x. char_of (x XOR b)) k)
      in map char_of (sha256_bytes (pad 0x5c @ map char_of (sha256_bytes (pad 0x36 @ msg)))))"

record engine_arguments =
  ea_policy :: policy
  ea_signing_key :: string
  ea_attestation_keys :: attestation_keys
  ea_resolver :: resolver
  ea_faults :: "(pystr \<times> pystr) list"
  ea_verifier_uuid :: pystr
  ea_approval_uuid :: pystr
  ea_ledger_issuer :: pystr

text \<open>The process-local constructor: no audit path, no ledger path, no adapter path.\<close>

definition make_engine :: "(json \<Rightarrow> bool) \<Rightarrow> engine_arguments \<Rightarrow> (reason, engine \<times> engine_world) result" where
  "make_engine policy_schema_ok args =
     (let key = ea_signing_key args;
          digests = sha256_bytes key # map (\<lambda>p. sha256_bytes (snd p)) (ea_attestation_keys args)
            @ credential_digests (ea_resolver args)
      in and_then (require (\<not> length key < 32) ''TypeError'') (\<lambda>_.
      and_then (require (distinct digests) ''ValueError'') (\<lambda>_.
      and_then (policy_from_dict policy_schema_ok (policy_to_dict (ea_policy args))) (\<lambda>p.
      (let rs = resolver_snapshot (ea_resolver args);
           verifier_key = hmac_sha256_bytes key ''phase3-decision-verifier'';
           approval_key = hmac_sha256_bytes key ''phase3-human-approval''
       in and_then (attestation_verifier (ea_attestation_keys args)
              (remdups (map fst (er_trusted_sources (po_evidence p))))) (\<lambda>keys.
       and_then (make_approval_config approval_key (po_approval_ttl_seconds p) rs None (ea_approval_uuid args)) (\<lambda>approval.
       and_then (make_verifier verifier_key keys approval rs None (ea_verifier_uuid args)) (\<lambda>vf.
       and_then (make_gate key verifier_key (vf_instance_id vf) (po_authorization_ttl_seconds p)
           (Some (ea_ledger_issuer args)) []) (\<lambda>g.
       and_then (build_boundary g \<lparr>aw_ledger = empty_ledger, aw_metrics = no_metrics\<rparr> (po_target_inventory p)
           (ea_faults args)) (\<lambda>(bd, sim).
       Inr (\<lparr>en_policy = p, en_policy_sha256 = sha256_json (policy_to_dict p), en_resolver = rs,
              en_attestation_keys = keys, en_approval = approval, en_verifier = vf, en_gate = g, en_boundary = bd\<rparr>,
            \<lparr>ew_log = new_audit_log, ew_sim = sim, ew_approvals = no_approvals\<rparr>)))))))))))"

subsection \<open>Human approval\<close>

definition rows_of_decision :: "pystr \<Rightarrow> audit_row list \<Rightarrow> audit_row list" where
  "rows_of_decision decision_id rows = filter (\<lambda>row. obj_get (row_payload row) ''decision_id'' = JStr decision_id) rows"

definition receipt_payload :: "approval_requirement \<Rightarrow> approval_receipt \<Rightarrow> json_dict" where
  "receipt_payload q r =
     [(''approval_id'', JStr (aq_approval_id q)), (''receipt_id'', JStr (re_receipt_id r)),
      (''issuer_instance_id'', JStr (re_issuer_instance_id r)), (''approver_id'', JStr (re_approver_id r)),
      (''approving_authority'', JStr (re_approving_authority r)), (''action_type'', JStr (re_action_type r)),
      (''target_id'', JStr (re_target_id r)), (''parameters_sha256'', JStr (re_parameters_sha256 r)),
      (''evidence_sha256'', JStr (re_evidence_sha256 r)),
      (''requirement_scope_sha256'', JStr (re_requirement_scope_sha256 r)), (''status'', JStr (re_status r)),
      (''approved_at'', JStr (re_approved_at r)), (''reevaluation_required'', JBool True),
      (''authorization_produced'', JBool False)]"

definition approval_rows :: "pystr \<Rightarrow> audit_row list \<Rightarrow> audit_row list" where
  "approval_rows approval_id rows =
     filter (\<lambda>row. obj_get row ''record_type'' = JStr ''APPROVAL_RECORDED''
       \<and> obj_get (row_payload row) ''approval_id'' = JStr approval_id) rows"

text \<open>\<open>commit_receipt\<close>: an identical record that is already there is enough, a different one is a conflict.\<close>

definition commit_receipt ::
  "readings \<Rightarrow> correlation \<Rightarrow> approval_requirement \<Rightarrow> approval_receipt \<Rightarrow> engine_world \<Rightarrow> unit step_result" where
  "commit_receipt rd c q r w =
     (let payload = receipt_payload q r; existing = approval_rows (aq_approval_id q) (al_rows (ew_log w)) in
      if existing \<noteq> [] then
        (if length existing = 1
            \<and> canonical_json (obj_get (hd existing) ''payload'') = canonical_json (JObj (audit_payload c payload))
         then (Inr (), w) else (Inl ''APPROVAL_AUDIT_CONFLICT'', w))
      else engine_append rd c (''APPROVAL_RECORDED'', payload) w)"

definition approval_correlation :: "approval_requirement \<Rightarrow> engine_world \<Rightarrow> correlation" where
  "approval_correlation q w =
     (let matching = rows_of_decision (aq_decision_id q) (al_rows (ew_log w)) in
      \<lparr>co_intake = (if matching = [] then ''approval-'' @ aq_request_id q
          else get_str (row_payload (last matching)) ''intake_id''),
       co_request = aq_request_id q, co_decision = aq_decision_id q\<rparr>)"

text \<open>An append that fails, as a \<open>RuntimeError\<close>, has still written the row of the pending receipt.\<close>

definition approve_for_reevaluation ::
  "engine \<Rightarrow> readings \<Rightarrow> pystr \<Rightarrow> pystr \<Rightarrow> approval_call \<Rightarrow> engine_world \<Rightarrow> approval_receipt step_result" where
  "approve_for_reevaluation en rd fresh receipt call w =
     (let q = cl_requirement call; c = approval_correlation q w in
      case approve (en_approval en) fresh receipt (rd_approval_at rd) (Some (\<lambda>r. fst (commit_receipt rd c q r w))) call
          (ew_approvals w) of
        (Inr r, st) \<Rightarrow> (Inr r, (snd (commit_receipt rd c q r w))\<lparr>ew_approvals := st\<rparr>)
      | (Inl e, st) \<Rightarrow>
          (Inl e, (if e \<noteq> ''RuntimeError'' then w
             else (case map_of (st_pending st) (aq_approval_id q) of None \<Rightarrow> w | Some r \<Rightarrow> snd (commit_receipt rd c q r w)))
             \<lparr>ew_approvals := st\<rparr>))"

end
