(* ===== verification/P3EngineInvariant.thy ===== *)
theory P3EngineInvariant
  imports P3Engine
begin

text \<open>
  What every call of the engine keeps. The locale \<open>engine_invariant\<close> lists the operations that change the state of the engine;
  whatever each of them keeps, a whole call keeps. It is interpreted on the soundness of log, ledger and metrics here and
  on the claimed requests in the next theory.
\<close>

declare log_rows.simps [simp del]

locale engine_invariant =
  fixes I :: "engine_world \<Rightarrow> bool"
  assumes append: "I w \<Longrightarrow> engine_append rd c x w = (res, w') \<Longrightarrow> I w'"
    and decided: "I w \<Longrightarrow> I (engine_metric (record_decision outcome rules conflicts ms) w)"
    and failed: "I w \<Longrightarrow> I (engine_metric record_verification_failure w)"
    and rejected: "I w \<Longrightarrow> I (engine_metric record_broker_rejection w)"
    and approvals: "I w \<Longrightarrow> I (w\<lparr>ew_approvals := st\<rparr>)"
    and claim: "I w \<Longrightarrow> claim_step rd who r w = (refused, w') \<Longrightarrow> I w'"
    and issuing: "I w \<Longrightarrow> issue_authorization en rd who target d v w = (issued, w') \<Longrightarrow> I w'"
    and executing: "I w \<Longrightarrow> authorize_and_execute bd lnow attempt clock call (ew_sim w) = (executed, sim) \<Longrightarrow> I (w\<lparr>ew_sim := sim\<rparr>)"
    and verifying: "I w \<Longrightarrow> verify_execution vid t command rid did b before (ew_sim w) = (verified, sim) \<Longrightarrow> I (w\<lparr>ew_sim := sim\<rparr>)"
    and outcome: "I w \<Longrightarrow> record_outcome rd result w = (out, w') \<Longrightarrow> I w'"
begin

lemma run_then: "I (snd m) \<Longrightarrow> (\<And>x w1. m = (Inr x, w1) \<Longrightarrow> I w1 \<Longrightarrow> I (snd (f x w1))) \<Longrightarrow> I (snd (run_then m f))"
  by (cases m; cases "fst m") (auto simp: run_then_def on_result_def)

lemma on_result:
  "I (snd m) \<Longrightarrow> (\<And>e w1. I w1 \<Longrightarrow> I (snd (g e w1))) \<Longrightarrow> (\<And>x w1. I w1 \<Longrightarrow> I (snd (f x w1))) \<Longrightarrow> I (snd (on_result m g f))"
  by (cases m; cases "fst m") (auto simp: on_result_def)

lemma appended: "I w \<Longrightarrow> I (snd (engine_append rd c x w))"
  using append by (metis surjective_pairing)

lemma rows: "I w \<Longrightarrow> I (snd (log_rows rd c xs w))"
proof (induction xs arbitrary: w)
  case (Cons x xs)
  show ?case unfolding log_rows.simps
    by (rule run_then [OF appended [OF Cons.prems]]) (rule Cons.IH)
qed (simp add: log_rows.simps)

lemma result: "I w \<Longrightarrow> I (snd (validated_result start d t r v final w))"
  by (auto simp: validated_result_def Let_def split: sum.split prod.split)

lemma finish: "I w \<Longrightarrow> I (snd (finish_nonexecuting rd start intake n d w))"
  unfolding finish_nonexecuting_def Let_def by (intro run_then rows result decided)

lemma deny: "I w \<Longrightarrow> I (snd (deny en rd start c q who failure reason additional requested at0 ctx n w))"
  unfolding deny_def Let_def by (intro run_then rows finish)

lemma control_failure: "I w \<Longrightarrow> I (snd (control_failure en rd start c who r reason stage ctx n w))"
  unfolding control_failure_def by (rule deny)

lemma close: "I w \<Longrightarrow> I (snd (close_authorized rd start c n d t r v effect final w))"
  unfolding close_authorized_def Let_def by (intro run_then rows result decided)

lemma close_rejected: "I w \<Longrightarrow> I (snd (close_rejected rd start c n d t e before w))"
  unfolding close_rejected_def by (intro run_then rows close)

lemma broker_failed: "I w \<Longrightarrow> I (engine_metric (\<lambda>m. record_verification_failure (record_broker_rejection m)) w)"
  using failed [OF rejected, of w] by (simp add: engine_metric_def count_metric_def)

lemma close_failure: "I w \<Longrightarrow> I (snd (close_failure rd start c n target d t stage before w))"
  unfolding close_failure_def Let_def by (intro run_then rows close broker_failed)

lemma verified_execution: "I w \<Longrightarrow> verified_execution rd c t command r before w = (v, w') \<Longrightarrow> I w'"
  by (auto simp: verified_execution_def Let_def split: prod.splits sum.splits dest: verifying intro: failed)

lemma close_executed: "I w \<Longrightarrow> I (snd (close_executed rd start c n d t command r before w))"
  unfolding close_executed_def
  by (intro run_then rows) (auto split: prod.split intro!: run_then rows close dest: verified_execution)

lemma execute: "I w \<Longrightarrow> I (snd (execute_authorized en rd start c n who r target d v before t w))"
  unfolding execute_authorized_def Let_def
  by (rule run_then [OF rows])
    (auto split: prod.split sum.split dest: executing intro!: close_executed close_rejected close_failure)

lemma authorize: "I w \<Longrightarrow> I (snd (authorize_decision en rd start c n who r target d v w))"
proof -
  assume w: "I w"
  have "I (snd (issue_authorization en rd who target d v w))" for d using issuing [OF w] by (metis surjective_pairing)
  then show ?thesis
    using w by (auto simp: authorize_decision_def Let_def intro!: run_then rows finish on_result control_failure execute)
qed

lemma evaluation: "I w \<Longrightarrow> I (snd (evaluate en rd c r who t ap w))"
  by (auto simp: evaluate_def decide_step_def split: sum.split intro!: run_then rows approvals)

lemma verify: "I w \<Longrightarrow> I (snd (verify_evaluated en schema_ok rd start c who resolution r t n d w))"
  by (auto simp: verify_evaluated_def split: sum.split intro!: run_then rows control_failure authorize)

lemma claimed: "I w \<Longrightarrow> I (snd (evaluate_claimed en schema_ok rd start c who resolution r t ap w))"
  unfolding evaluate_claimed_def
  by (auto intro!: run_then rows on_result evaluation control_failure verify split: prod.split)

lemma admission: "I w \<Longrightarrow> I (snd (admit en schema_ok rd start c who resolution r w))"
  by (auto simp: admit_def Let_def split: option.split sum.split prod.split dest: claim intro!: deny claimed)

lemma processing: "I w \<Longrightarrow> I (snd (process_authenticated en schema_ok loads rd raw who resolution w))"
  by (auto simp: process_authenticated_def process_received_def Let_def split: sum.split intro!: run_then rows deny admission)

lemma process_json:
  assumes "I w" "process_json en schema_ok loads fresh rd raw credential w = (out, w')"
  shows "I w'"
proof -
  have "I (snd (record_outcome rd res w1))" if "I w1" for res w1 using outcome [OF that] by (metis surjective_pairing)
  then have "I (snd (process_json en schema_ok loads fresh rd raw credential w))"
    using assms(1) by (auto simp: process_json_def Let_def split: sum.split intro!: run_then processing)
  then show ?thesis by (simp add: assms(2))
qed

lemma approving:
  assumes "I w" "approve_for_reevaluation en rd fresh receipt call w = (out, w')"
  shows "I w'"
proof -
  have commit: "I (snd (commit_receipt rd c q r w))" for c q r
    unfolding commit_receipt_def Let_def using assms(1) appended by simp
  show ?thesis
    using assms commit
    by (auto simp: approve_for_reevaluation_def Let_def intro!: approvals split: prod.splits sum.splits option.splits if_splits)
qed

end

subsection \<open>Sound worlds\<close>

definition dispositions :: "auth_world \<Rightarrow> (pystr \<times> nat) list" where
  "dispositions a = ms_dispositions (aw_metrics a)"

lemma disposition_simps [simp]:
  "dispositions (a\<lparr>aw_ledger := l\<rparr>) = dispositions a"
  "dispositions (a\<lparr>aw_metrics := record_authorization_failure m\<rparr>) = ms_dispositions m"
  "dispositions (sw_auth (count_metric record_broker_rejection sim)) = dispositions (sw_auth sim)"
  "dispositions (sw_auth (count_metric record_verification_failure sim)) = dispositions (sw_auth sim)"
  "dispositions (sw_auth (count_metric (\<lambda>m. record_authorization_failure (record_broker_rejection m)) sim)) = dispositions (sw_auth sim)"
  by (simp_all add: dispositions_def count_metric_def record_authorization_failure_def record_broker_rejection_def
      record_verification_failure_def)

lemma issue_dispositions: "issue g lnow i n clock d agent ts v a = (res, a') \<Longrightarrow> dispositions a' = dispositions a"
  by (auto simp: issue_def refuse_def Let_def dispositions_def record_authorization_failure_def
      split: if_splits sum.splits option.splits json.splits)

lemma consume_dispositions: "validate_and_consume g lnow now t b a bd k s w = (res, w') \<Longrightarrow> dispositions w' = dispositions w"
  by (auto simp: validate_and_consume_def refuse_def dispositions_def record_authorization_failure_def split: sum.splits)

lemma receipt_dispositions: "gate_record_receipt lnow a r dg tm w = (res, w') \<Longrightarrow> dispositions w' = dispositions w"
  by (auto simp: gate_record_receipt_def split: sum.splits)

lemma outcome_dispositions: "gate_record_outcome lnow a st dg tm w = (res, w') \<Longrightarrow> dispositions w' = dispositions w"
  by (auto simp: gate_record_outcome_def split: sum.splits)

lemma finish_dispositions:
  "finish_execution bd lnow t a clock command before w = (res, w') \<Longrightarrow> dispositions (sw_auth w') = dispositions (sw_auth w)"
  by (auto simp: finish_execution_def Let_def split: prod.splits transition.splits sum.splits dest!: receipt_dispositions)

lemma authorize_dispositions:
  assumes "authorize_and_execute bd lnow a clock c w = (res, w')"
  shows "dispositions (sw_auth w') = dispositions (sw_auth w)"
proof -
  have "dispositions (sw_auth w') = dispositions auth"
    if "finish_execution bd lnow t a clock command before (v\<lparr>sw_auth := auth\<rparr>) = (res, w')" for t clock command before v auth
    using finish_dispositions [OF that] by simp
  then show ?thesis
    using assms
    by (auto simp: authorize_and_execute_def broker_refuse_def Let_def dest!: consume_dispositions
        split: option.splits prod.splits sum.splits if_splits)
qed

lemma verify_dispositions:
  "verify_execution vid t cmd rid did r before w = (res, w') \<Longrightarrow> dispositions (sw_auth w') = dispositions (sw_auth w)"
  by (auto simp: verify_execution_def Let_def split: sum.splits if_splits)

lemma finish_ledger:
  "finish_execution bd lnow t a clock command before w = (res, w') \<Longrightarrow> ledger_inv (aw_ledger (sw_auth w))
     \<Longrightarrow> ledger_inv (aw_ledger (sw_auth w'))"
  by (auto simp: finish_execution_def gate_record_receipt_def Let_def dest: receipt_inv
      split: prod.splits transition.splits sum.splits)

lemma authorize_ledger:
  assumes "authorize_and_execute bd lnow a clock c w = (res, w')" "ledger_inv (aw_ledger (sw_auth w))"
  shows "ledger_inv (aw_ledger (sw_auth w'))"
  using assms(1)
proof (cases rule: authorize_cases)
  case (stopped e)
  then show ?thesis using assms(2) by simp
next
  case (spent t action target ps s auth key)
  have "ledger_inv (aw_ledger auth)"
    by (rule validate_and_consume_Inr [OF spent(6)]) (auto dest: consume_inv [OF assms(2)])
  then show ?thesis using finish_ledger [OF spent(7)] by simp
qed

lemma issue_ledger: "issue g lnow i n clock d agent ts v a = (res, a') \<Longrightarrow> ledger_inv (aw_ledger a) \<Longrightarrow> ledger_inv (aw_ledger a')"
  by (cases res) (auto dest!: issue_Inl elim!: issue_Inr dest: register_inv)

text \<open>The audit log is an intact chain, the ledger satisfies its invariant, the disposition counters have one entry per outcome.\<close>

definition engine_sound :: "engine_world \<Rightarrow> bool" where
  "engine_sound w \<longleftrightarrow> good_log (ew_log w) \<and> ledger_inv (aw_ledger (sw_auth (ew_sim w)))
     \<and> distinct (map fst (dispositions (sw_auth (ew_sim w))))"

lemma append_effect:
  "engine_append rd c x w = (res, w') \<Longrightarrow>
     w' = w\<lparr>ew_log := snd (audit_append (rd_recorded_at rd (length (al_rows (ew_log w)))) (fst x) (JObj (audit_payload c (snd x)))
       (ew_log w))\<rparr>"
  by (auto simp: engine_append_def Let_def split: prod.splits)

interpretation sound: engine_invariant engine_sound
proof (unfold_locales, goal_cases)
  case (1 w rd c x res w')
  then show ?case using good_append by (auto simp: engine_sound_def dest!: append_effect)
next
  case (2 w outcome rules conflicts ms)
  then show ?case
    by (simp add: engine_sound_def engine_metric_def dispositions_def count_metric_def record_decision_def distinct_count_up)
next
  case (6 w rd who r refused w')
  then show ?case
    by (auto simp: engine_sound_def claim_step_def Let_def split: sum.splits prod.splits dest: claim_inv)
next
  case (7 w en rd who target d v issued w')
  then show ?case
    by (auto simp: engine_sound_def issue_authorization_def Let_def split: sum.splits prod.splits
        dest: issue_ledger issue_dispositions)
next
  case (8 w bd lnow attempt clock call executed sim)
  then show ?case using authorize_ledger [OF 8(2)] authorize_dispositions [OF 8(2)] by (simp add: engine_sound_def)
next
  case (9 w vid t command rid did b before verified sim)
  then show ?case using verify_frame [OF 9(2)] verify_dispositions [OF 9(2)] by (simp add: engine_sound_def)
next
  case (10 w rd result out w')
  then show ?case
    by (auto simp: engine_sound_def record_outcome_def Let_def gate_record_outcome_def
        split: option.splits prod.splits sum.splits dest: outcome_inv)
qed (simp_all add: engine_sound_def engine_metric_def)

lemma boundary_auth: "build_boundary g auth inventory faults = Inr (bd, sim) \<Longrightarrow> sw_auth sim = auth"
  by (auto simp: build_boundary_def)

text \<open>The constructor starts the engine in a sound world, on the policy it decoded and pinned.\<close>

lemma made_engine_ready:
  assumes "make_engine policy_ok args = Inr (en, w)"
  shows "engine_sound w" "policy_from_dict policy_ok (policy_to_dict (ea_policy args)) = Inr (en_policy en)"
    "en_policy_sha256 en = sha256_json (policy_to_dict (en_policy en))"
  using assms
  by (auto simp: make_engine_def Let_def engine_sound_def good_new empty_ledger_inv dispositions_def no_metrics_def
      dest!: boundary_auth)

text \<open>C19. The engine stays sound: whatever one call of \<open>process_json\<close> or \<open>approve_for_reevaluation\<close> receives and
  however it ends, with a result or an exception, it leaves the audit log an intact hash chain, the control ledger
  within its invariant and the disposition counters with one entry per outcome.\<close>

theorem engine_stays_sound:
  assumes "engine_sound w"
  shows "engine_sound (snd (process_json en schema_ok loads fresh rd raw credential w))
    \<and> engine_sound (snd (approve_for_reevaluation en rd fresh receipt call w))"
  using sound.process_json [OF assms] sound.approving [OF assms] by (metis surjective_pairing)

end
