(* ===== verification/P3EngineSafety.thy ===== *)
theory P3EngineSafety
  imports P3EngineInvariant
begin

text \<open>
  What one call of the phase 3 engine may do. Recording, denying and closing leave the targets and the ledger alone;
  a target changes in one place only, and the conditions on the way there are the theorem \<open>engine_effect_justified\<close>.
\<close>

subsection \<open>Quiet steps\<close>

definition quiet :: "engine_world \<Rightarrow> engine_world \<Rightarrow> bool" where
  "quiet w w' \<longleftrightarrow> sw_states (ew_sim w') = sw_states (ew_sim w) \<and> aw_ledger (sw_auth (ew_sim w')) = aw_ledger (sw_auth (ew_sim w))"

lemma quiet_refl [simp]: "quiet w w"
  by (simp add: quiet_def)

lemma quiet_trans: "quiet w w' \<Longrightarrow> quiet w' w'' \<Longrightarrow> quiet w w''"
  by (simp add: quiet_def)

lemma quiet_log [simp]: "quiet w (w\<lparr>ew_log := al\<rparr>)" "quiet w (w\<lparr>ew_approvals := st\<rparr>)" "quiet w (engine_metric f w)"
  by (simp_all add: quiet_def engine_metric_def)

lemma quiet_run_then:
  assumes "quiet w (snd m)" "\<And>x w1. m = (Inr x, w1) \<Longrightarrow> quiet w1 (snd (f x w1))"
  shows "quiet w (snd (run_then m f))"
proof (cases m)
  case (Pair r w1)
  then show ?thesis using assms by (cases r) (auto simp: run_then_def on_result_def intro: quiet_trans)
qed

lemma quiet_engine_append [simp]: "quiet w (snd (engine_append rd c x w))"
  by (simp add: engine_append_def Let_def split: prod.split)

lemma quiet_log_rows [simp]: "quiet w (snd (log_rows rd c xs w))"
  by (induction xs arbitrary: w) (auto simp: log_rows.simps intro: quiet_run_then)

lemma quiet_validated_result [simp]: "quiet w (snd (validated_result start d t r v final w))"
  by (auto simp: validated_result_def Let_def split: sum.split prod.split)

lemma quiet_finish [simp]: "quiet w (snd (finish_nonexecuting rd start intake n d w))"
  unfolding finish_nonexecuting_def Let_def
  by (intro quiet_run_then quiet_log_rows) (rule quiet_trans [OF quiet_log(3) quiet_validated_result])

lemma quiet_deny [simp]: "quiet w (snd (deny en rd start c q who failure reason additional requested at0 ctx n w))"
  unfolding deny_def Let_def by (intro quiet_run_then) simp_all

lemma quiet_close_authorized [simp]: "quiet w (snd (close_authorized rd start c n d t r v effect final w))"
  unfolding close_authorized_def Let_def
  by (intro quiet_run_then quiet_log_rows) (rule quiet_trans [OF quiet_log(3) quiet_validated_result])

lemma quiet_close_rejected [simp]: "quiet w (snd (close_rejected rd start c n d t e before w))"
  unfolding close_rejected_def by (intro quiet_run_then) simp_all

lemma quiet_close_failure [simp]: "quiet w (snd (close_failure rd start c n target d t stage before w))"
  unfolding close_failure_def Let_def
  by (rule quiet_run_then [OF quiet_trans [OF quiet_log(3) quiet_log_rows]]) simp

lemma quiet_verified_execution: "verified_execution rd c t command r before w = (v, w') \<Longrightarrow> quiet w w'"
  by (auto simp: verified_execution_def quiet_def Let_def engine_metric_def split: prod.splits sum.splits dest!: verify_frame)

lemma quiet_close_executed [simp]: "quiet w (snd (close_executed rd start c n d t command r before w))"
  unfolding close_executed_def
  by (intro quiet_run_then) (auto split: prod.split intro!: quiet_run_then intro: quiet_trans [OF quiet_verified_execution])

lemma quiet_observed: "issue_authorization en rd who target d v w = (r, w') \<Longrightarrow>
    sw_states (ew_sim w') = sw_states (ew_sim w)"
  by (auto simp: issue_authorization_def Let_def split: sum.splits prod.splits)

lemma quiet_decide [simp]: "quiet w (snd (decide_step en rd i r who t ap e c w))"
  by (simp add: decide_step_def split: sum.split)

lemma quiet_evaluate [simp]: "quiet w (snd (evaluate en rd c r who t ap w))"
  unfolding evaluate_def by (auto split: sum.split intro!: quiet_run_then)

subsection \<open>Recording\<close>

definition plain_row :: "audit_row \<Rightarrow> bool" where
  "plain_row row \<longleftrightarrow> (contains_secret (JObj row) \<longrightarrow> contains_secret (obj_get row ''payload''))"

lemma audit_row_plain: "plain_row (audit_row_of al t y p)"
proof -
  have "list_all (\<lambda>k. \<not> secret_name k) [''sequence'', ''recorded_at'', ''record_type'', ''previous_hash'', ''payload'', ''record_hash'']"
    by code_simp
  then show ?thesis
    by (auto simp: plain_row_def audit_row_of_def audit_body_def contains_secret_obj Let_def obj_get_def)
qed

text \<open>On an intact log every append succeeds. \<open>logged start w xs\<close>: the log is intact and its rows from \<open>start\<close> on carry
  the types and payloads \<open>xs\<close>, and no secret outside the payload.\<close>

definition stamped :: "correlation \<Rightarrow> (pystr \<times> json_dict) list \<Rightarrow> (pystr \<times> json_dict) list" where
  "stamped c xs = map (\<lambda>x. (fst x, audit_payload c (snd x))) xs"

definition logged :: "nat \<Rightarrow> engine_world \<Rightarrow> (pystr \<times> json_dict) list \<Rightarrow> bool" where
  "logged start w xs \<longleftrightarrow> good_log (ew_log w) \<and> start \<le> length (al_rows (ew_log w))
     \<and> recorded (drop start (al_rows (ew_log w))) xs \<and> list_all plain_row (drop start (al_rows (ew_log w)))"

lemma logged_start: "good_log (ew_log w) \<Longrightarrow> logged (length (al_rows (ew_log w))) w []"
  by (simp add: logged_def recorded_def)

lemma logged_log: "logged start w xs \<Longrightarrow> ew_log w' = ew_log w \<Longrightarrow> logged start w' xs"
  by (simp add: logged_def)

lemma engine_append_logged:
  assumes "logged start w xs"
  obtains al where "engine_append rd c x w = (Inr (), w\<lparr>ew_log := al\<rparr>)"
    "logged start (w\<lparr>ew_log := al\<rparr>) (xs @ stamped c [x])"
proof -
  let ?t = "rd_recorded_at rd (length (al_rows (ew_log w)))" and ?p = "JObj (audit_payload c (snd x))"
  obtain row al where a: "audit_append ?t (fst x) ?p (ew_log w) = (row, al)" by fastforce
  have good: "good_log al" using good_append [of "ew_log w" ?t "fst x" ?p] assms a by (simp add: logged_def)
  have rows: "al_rows al = al_rows (ew_log w) @ [audit_row_of (ew_log w) ?t (fst x) ?p]"
    using audit_append_rows [of ?t "fst x" ?p "ew_log w"] a by simp
  moreover have "canonical_json row = canonical_json (JObj (audit_row_of (ew_log w) ?t (fst x) ?p))"
  proof -
    have "row = key_sorted (JObj (audit_row_of (ew_log w) ?t (fst x) ?p))"
      using a by (simp add: audit_append_def audit_row_of_def Let_def del: key_sorted.simps)
    then show ?thesis by (simp only: canonical_key_sorted)
  qed
  ultimately have "engine_append rd c x w = (Inr (), w\<lparr>ew_log := al\<rparr>)"
    using good by (simp add: engine_append_def a good_log_def Let_def)
  moreover have "logged start (w\<lparr>ew_log := al\<rparr>) (xs @ stamped c [x])"
    using assms good rows audit_row_plain by (simp add: logged_def recorded_def stamped_def)
  ultimately show thesis using that by blast
qed

lemma log_rows_logged:
  assumes "logged start w xs"
  obtains al where "log_rows rd c ys w = (Inr (), w\<lparr>ew_log := al\<rparr>)" "logged start (w\<lparr>ew_log := al\<rparr>) (xs @ stamped c ys)"
  using assms
proof (induction ys arbitrary: w xs thesis)
  case Nil
  then show ?case by (simp add: log_rows.simps stamped_def) (metis engine_world.surjective engine_world.update_convs(1))
next
  case (Cons y ys)
  obtain al where al: "engine_append rd c y w = (Inr (), w\<lparr>ew_log := al\<rparr>)" "logged start (w\<lparr>ew_log := al\<rparr>) (xs @ stamped c [y])"
    by (rule engine_append_logged [OF Cons.prems(2)])
  obtain al' where "log_rows rd c ys (w\<lparr>ew_log := al\<rparr>) = (Inr (), w\<lparr>ew_log := al'\<rparr>)"
      "logged start (w\<lparr>ew_log := al'\<rparr>) (xs @ stamped c [y] @ stamped c ys)"
    using Cons.IH [OF _ al(2)] by auto
  then show ?case
    using Cons.prems(1) al(1) by (auto simp: log_rows.simps run_then_def on_result_def stamped_def)
qed

lemma run_then_Inr [simp]: "run_then (Inr x, w) f = f x w"
  by (simp add: run_then_def on_result_def)

subsection \<open>The way to an effect\<close>

definition touched :: "pystr \<Rightarrow> engine_world \<Rightarrow> engine_world \<Rightarrow> bool" where
  "touched x w w' \<longleftrightarrow> map_of (sw_states (ew_sim w')) x \<noteq> map_of (sw_states (ew_sim w)) x"

lemma quiet_untouched: "quiet w w' \<Longrightarrow> \<not> touched x w w'"
  by (simp add: quiet_def touched_def)

lemma touched_quiet: "quiet w w1 \<Longrightarrow> touched x w w' \<longleftrightarrow> touched x w1 w'"
  by (simp add: quiet_def touched_def)

lemma touched_run_then:
  assumes "run_then m f = (out, w')" "touched x w w'" "quiet w (snd m)"
  obtains y w1 where "m = (Inr y, w1)" "quiet w w1" "touched x w1 w'" "f y w1 = (out, w')"
proof (cases m)
  case (Pair r w1)
  then show thesis
    using assms that touched_quiet [of w w1 x w'] by (cases r) (auto simp: run_then_def on_result_def dest: quiet_untouched)
qed

lemma touched_not_quiet: "f = (out, w') \<Longrightarrow> touched x w w' \<Longrightarrow> quiet w (snd f) \<Longrightarrow> thesis"
  by (auto dest: quiet_untouched)

lemma deny_effectless [simp]:
  "touched x w w' \<Longrightarrow> deny en rd start c q who failure reason additional requested at0 ctx n w \<noteq> (out, w')"
  using quiet_deny by (metis quiet_untouched snd_conv)

lemma control_failure_effectless [simp]:
  "touched x w w' \<Longrightarrow> control_failure en rd start c who r reason stage ctx n w \<noteq> (out, w')"
  by (simp add: control_failure_def)

lemma process_effect:
  assumes "process_authenticated en schema_ok loads rd raw who resolution w = (out, w')" "touched x w w'"
  obtains r w1 c start where "load_decision_request_json schema_ok loads (rd_now rd) raw = Inr r" "quiet w w1" "touched x w1 w'"
    "co_request c = dr_request_id r" "rd_decision_id rd = Some (co_decision c)" "co_decision c \<noteq> []"
    "admit en schema_ok rd start c who resolution r w1 = (out, w')"
proof (rule touched_run_then [OF assms(1) [unfolded process_authenticated_def Let_def] assms(2) quiet_log_rows])
  fix w1
  assume w1: "quiet w w1" "touched x w1 w'"
  assume step: "process_received en schema_ok loads rd (length (al_rows (ew_log w))) (intake_correlation rd raw) raw who resolution w1
      = (out, w')"
  note p = step [unfolded process_received_def Let_def]
  have id: "rd_decision_id rd \<notin> {None, Some []}"
  proof
    assume "rd_decision_id rd \<in> {None, Some []}"
    with p show False using w1(2) by simp
  qed
  obtain r where r: "load_decision_request_json schema_ok loads (rd_now rd) raw = Inr r"
    using p w1(2) id by (cases "load_decision_request_json schema_ok loads (rd_now rd) raw") (simp_all split: if_splits)
  show thesis
  proof (rule touched_run_then [OF _ w1(2) quiet_log_rows])
    show "run_then (log_rows rd ((intake_correlation rd raw)\<lparr>co_request := dr_request_id r\<rparr>) [validated_row r] w1)
        (\<lambda>_. admit en schema_ok rd (length (al_rows (ew_log w))) ((intake_correlation rd raw)\<lparr>co_request := dr_request_id r\<rparr>)
          who resolution r) = (out, w')"
      using p unfolding if_not_P [OF id] r by simp
  next
    fix w2 
    assume "quiet w1 w2" "touched x w2 w'" "admit en schema_ok rd (length (al_rows (ew_log w)))
        ((intake_correlation rd raw)\<lparr>co_request := dr_request_id r\<rparr>) who resolution r w2 = (out, w')"
    then show thesis
      using id w1(1) by (intro that [OF r]) (auto simp: intake_correlation_def Let_def intro: quiet_trans)
  qed
qed

lemma admit_effect:
  assumes "admit en schema_ok rd start c who resolution r w = (out, w')" "touched x w w'"
  obtains t ap w1 where "pr_authenticated who" "pr_security_status who = Trusted" "claims_match who (dr_agent r)"
    "preflight_reason (rd_now rd) r = None" "catalogued (en_policy en) r = Inr (t, ap)" "claim_step rd who r w = (None, w1)"
    "touched x w1 w'" "evaluate_claimed en schema_ok rd start c who resolution r t ap w1 = (out, w')"
proof -
  note p = assms(1) [unfolded admit_def Let_def]
  have who: "pr_authenticated who" "pr_security_status who = Trusted" "claims_match who (dr_agent r)"
    "preflight_reason (rd_now rd) r = None"
    using p assms(2) by (auto split: if_splits option.splits)
  obtain t ap where t: "catalogued (en_policy en) r = Inr (t, ap)"
    using p assms(2) who by (auto split: sum.splits)
  obtain reason w1 where w1: "claim_step rd who r w = (reason, w1)" by fastforce
  have "sw_states (ew_sim w1) = sw_states (ew_sim w)"
    using w1 by (auto simp: claim_step_def Let_def split: sum.splits prod.splits)
  then have touched: "touched x w1 w'" using assms(2) by (simp add: touched_def)
  show thesis
    using p who t w1 touched by (cases reason) (auto intro: that)
qed

lemma verified_effect:
  assumes "verify_evaluated en schema_ok rd start c who resolution r t n d w = (out, w')" "touched x w w'"
  obtains v res w1 where "resolution = Some res" "quiet w w1" "touched x w1 w'"
    "verify_decision (en_verifier en) schema_ok (ew_approvals w) (rd_verifier rd) r who res (en_policy en) t d (rd_now rd) = Inr v"
    "authorize_decision en rd start c n who r (tr_id t) d v w1 = (out, w')"
proof -
  obtain v where v: "verify_step en schema_ok rd r who resolution t d w = Inr v"
    "run_then (log_rows rd c [dict_row ''DECISION_VERIFIED'' (verification_unsigned_dict v)] w)
       (\<lambda>_. authorize_decision en rd start c n who r (tr_id t) d v) = (out, w')"
    using assms by (auto simp: verify_evaluated_def split: sum.splits)
  then obtain res where res: "resolution = Some res" by (auto simp: verify_step_def split: option.splits)
  show thesis
    by (rule touched_run_then [OF v(2) assms(2) quiet_log_rows], rule that [OF res])
      (use v(1) res in \<open>simp_all add: verify_step_def\<close>)
qed

lemma evaluate_effect:
  assumes "evaluate_claimed en schema_ok rd start c who resolution r t ap w = (out, w')" "touched x w w'"
  obtains d n w1 where "quiet w w1" "touched x w1 w'" "verify_evaluated en schema_ok rd start c who resolution r t n d w1 = (out, w')"
proof (rule touched_run_then [OF assms(1) [unfolded evaluate_claimed_def] assms(2) quiet_log_rows])
  fix w1
  let ?fail = "\<lambda>e. control_failure en rd start c who r ''INTERNAL_CONTROL_FAILURE'' (exception_name ''ApprovalError'' e) False 0"
  let ?next = "\<lambda>(evidence, d) w2. run_then (log_rows rd c [policy_row d] w2)
          (\<lambda>_. verify_evaluated en schema_ok rd start c who resolution r t (int (ea_conflict_count evidence)) d)"
  assume w1: "quiet w w1" "touched x w1 w'" "on_result (evaluate en rd c r who t ap w1) ?fail ?next = (out, w')"
  obtain res w2 where w2: "evaluate en rd c r who t ap w1 = (res, w2)" by fastforce
  have q2: "quiet w1 w2" using quiet_evaluate [of w1 en rd c r who t ap] w2 by simp
  have t2: "touched x w2 w'" using touched_quiet [OF q2] w1(2) by blast
  obtain evidence d where res: "res = Inr (evidence, d)"
    using w1(3) w2 t2 by (cases res) (auto simp: on_result_def)
  have d: "?next (evidence, d) w2 = (out, w')" using w1(3) by (simp add: w2 res on_result_def)
  show thesis
    by (rule touched_run_then [OF d [unfolded split_conv] t2 quiet_log_rows], rule that)
      (use w1(1) q2 in \<open>auto intro: quiet_trans\<close>)
qed

lemma authorize_effect:
  assumes "authorize_decision en rd start c n who r target d v w = (out, w')" "touched x w w'"
  obtains before tok w1 where "issue_authorization en rd who target d v w = (Inr (before, tok), w1)" "touched x w1 w'"
    "dv_passed v" "execute_authorized en rd start c n who r target d v before tok w1 = (out, w')"
proof -
  let ?d = "if dv_passed v then d else denied_by_verifier d v"
  have "\<not> dn_outcome ?d \<notin> set automatic_outcomes"
  proof
    assume no: "dn_outcome ?d \<notin> set automatic_outcomes"
    show False
      by (rule touched_run_then [OF assms(1) [unfolded authorize_decision_def Let_def if_P [OF no]] assms(2) quiet_log_rows])
        (metis quiet_finish quiet_untouched snd_conv)
  qed
  then have p: "dv_passed v" "on_result (issue_authorization en rd who target d v w)
        (\<lambda>e. control_failure en rd start c who r ''AUTHORIZATION_PRECONDITION_FAILURE'' (issue_exception e) True n)
        (\<lambda>(before, t). execute_authorized en rd start c n who r target d v before t) = (out, w')"
    using assms(1) by (auto simp: authorize_decision_def denied_by_verifier_def automatic_outcomes_def Let_def split: if_splits)
  obtain res w1 where i: "issue_authorization en rd who target d v w = (res, w1)" by fastforce
  have "touched x w1 w'" using quiet_observed [OF i] assms(2) by (simp add: touched_def)
  with p i that show thesis by (cases res) (auto simp: on_result_def)
qed

lemma execute_effect:
  assumes "execute_authorized en rd start c n who r target d v before tok w = (out, w')" "touched x w w'"
  obtains w1 call res sim where "quiet w w1" "ex_token call = Some tok"
    "authorize_and_execute (en_boundary en) (rd_ledger_at rd) (rd_attempt_id rd) (rd_attempted_at rd) call (ew_sim w1) = (res, sim)"
    "sw_states (ew_sim w') = sw_states sim" "aw_ledger (sw_auth (ew_sim w')) = aw_ledger (sw_auth sim)"
proof (rule touched_run_then [OF assms(1) [unfolded execute_authorized_def Let_def] assms(2) quiet_log_rows])
  fix w1
  let ?command = "case dn_permitted_action d of None \<Rightarrow> JObj [] | Some a \<Rightarrow> a"
  let ?call = "execution_call en c who r d tok ?command"
  assume w1: "quiet w w1" and p: "(case authorize_and_execute (en_boundary en) (rd_ledger_at rd) (rd_attempt_id rd) (rd_attempted_at rd)
          ?call (ew_sim w1) of
         (Inr b, sim) \<Rightarrow> close_executed rd start c n d tok (pyval_of ?command) b before (w1\<lparr>ew_sim := sim\<rparr>)
       | (Inl e, sim) \<Rightarrow>
           if broker_exception (rd_attempt_id rd) (ew_sim w1) sim e = ''AuthorizationError''
           then close_rejected rd start c n d tok e before (w1\<lparr>ew_sim := sim\<rparr>)
           else close_failure rd start c n target d tok (broker_exception (rd_attempt_id rd) (ew_sim w1) sim e) before
                  (w1\<lparr>ew_sim := sim\<rparr>)) = (out, w')"
  obtain res sim where a: "authorize_and_execute (en_boundary en) (rd_ledger_at rd) (rd_attempt_id rd) (rd_attempted_at rd)
      ?call (ew_sim w1) = (res, sim)" by fastforce
  have "quiet (w1\<lparr>ew_sim := sim\<rparr>) w'"
    using arg_cong [OF p, of snd] by (cases res) (auto simp: a split: if_splits)
  then show thesis
    by (intro that [OF w1 _ a]) (simp_all add: quiet_def execution_call_def)
qed

subsection \<open>Claimed requests\<close>

abbreviation claims_of :: "engine_world \<Rightarrow> pystr \<times> pystr \<Rightarrow> pystr option" where
  "claims_of w \<equiv> map_of (requests (aw_ledger (sw_auth (ew_sim w))))"

lemma receipt_requests: "gate_record_receipt lnow a rc dg tm w = (res, w') \<Longrightarrow> requests (aw_ledger w') = requests (aw_ledger w)"
  by (auto simp: gate_record_receipt_def record_adapter_receipt_def split: sum.splits option.splits)

lemma outcome_requests: "gate_record_outcome lnow a st dg tm w = (res, w') \<Longrightarrow> requests (aw_ledger w') = requests (aw_ledger w)"
  by (auto simp: gate_record_outcome_def record_attempt_outcome_def split: sum.splits option.splits if_splits)

lemma issue_requests:
  assumes "issue g lnow i n clock d agent ts v w = (res, w')"
  shows "requests (aw_ledger w') = requests (aw_ledger w)"
proof (cases res)
  case (Inl e)
  then show ?thesis using issue_Inl assms by metis
next
  case (Inr t)
  then obtain l where "register lnow i (Some (dv_verification_id v)) (Some (dn_decision_id d)) (Some (tk_issued_at t)) (aw_ledger w) = Inr l"
    "w' = w\<lparr>aw_ledger := l\<rparr>"
    using issue_Inr assms by metis
  then show ?thesis by (auto simp: register_def)
qed

lemma authorize_requests:
  assumes "authorize_and_execute bd lnow a clock c w = (res, w')"
  shows "requests (aw_ledger (sw_auth w')) = requests (aw_ledger (sw_auth w))"
  using assms
proof (cases rule: authorize_cases)
  case (spent t action target ps s auth key)
  obtain l where l: "consume_once lnow (tk_token_id t) (Some a) (Some key)
      (Some (isoformat (whole_second (whole_second clock)))) (Some key)
      (ex_recovery_summary c) (aw_ledger (sw_auth w)) = Inr l" "auth = (sw_auth w)\<lparr>aw_ledger := l\<rparr>"
    using validate_and_consume_Inr [OF spent(6)] by metis
  have "requests (aw_ledger (sw_auth w')) = requests (aw_ledger auth)"
    using spent(7)
    by (auto simp: finish_execution_def Let_def dest!: receipt_requests split: transition.splits prod.splits sum.splits)
  then show ?thesis using consume_requests [OF l(1)] l(2) by simp
qed simp

lemma claim_facts:
  assumes "claim_step rd who r w = (reason, w1)"
  shows "sw_states (ew_sim w1) = sw_states (ew_sim w)"
    "reason = None \<Longrightarrow> claims_of w (pr_id who, dr_request_id r) = None
       \<and> claims_of w1 (pr_id who, dr_request_id r) = Some (request_sha256 r)"
    "auth_of (aw_ledger (sw_auth (ew_sim w1))) i = auth_of (aw_ledger (sw_auth (ew_sim w))) i"
  using assms
  by (auto simp: claim_step_def claim_request_def append_event_def auth_of_def Let_def map_of_dict_set
      split: sum.splits prod.splits option.splits if_splits)

subsection \<open>Effects\<close>

lemma preflight_age:
  "preflight_reason now r = None \<Longrightarrow> \<exists>i. parse_datetime (dr_timestamp r) = Some i \<and> \<bar>now - i\<bar> \<le> 300 * micros"
  by (auto simp: preflight_reason_def max_request_age_seconds_def micros_def Let_def split: option.splits if_splits)

lemma catalogued_Inr: "catalogued p r = Inr (t, ap) \<Longrightarrow> map_of (po_target_inventory p) (ac_target (dr_action r)) = Some t"
  by (auto simp: catalogued_def item_def split: option.splits)

text \<open>What an authenticated call that touches a target has behind it.\<close>

definition effect_behind ::
  "engine \<Rightarrow> readings \<Rightarrow> authenticated_principal \<Rightarrow> resolved_principal \<Rightarrow> decision_request \<Rightarrow> authorization_token \<Rightarrow> bool" where
  "effect_behind en rd who resolution r tok \<longleftrightarrow>
     claims_match who (dr_agent r)
     \<and> (\<exists>i. parse_datetime (dr_timestamp r) = Some i \<and> \<bar>rd_now rd - i\<bar> \<le> 300 * micros)
     \<and> (\<exists>t. justified_token (en_verifier en) (en_policy en) resolution who r t (whole_second (rd_now rd)) tok)
     \<and> (\<exists>expires. utc_instant (tk_expires_at tok) = Some expires \<and> whole_second (rd_attempted_at rd) < expires)"

lemma authenticated_effect:
  assumes policy: "policy_from_dict policy_ok pv = Inr (en_policy en)"
    and run: "process_authenticated en schema_ok loads rd raw who resolution w = (out, w')" and x: "touched x w w'"
  obtains r res tok where "resolution = Some res" "load_decision_request_json schema_ok loads (rd_now rd) raw = Inr r"
    "x = ac_target (dr_action r)" "effect_behind en rd who res r tok"
    "claims_of w (pr_id who, dr_request_id r) = None" "claims_of w' (pr_id who, dr_request_id r) = Some (request_sha256 r)"
    "auth_of (aw_ledger (sw_auth (ew_sim w))) (tk_token_id tok) = None"
    "auth_of (aw_ledger (sw_auth (ew_sim w'))) (tk_token_id tok) = Some Consumed"
    "\<forall>y. y \<noteq> x \<longrightarrow> map_of (sw_states (ew_sim w')) y = map_of (sw_states (ew_sim w)) y"
proof (rule process_effect [OF run x])
  fix r w1 c start
  assume r: "load_decision_request_json schema_ok loads (rd_now rd) raw = Inr r" and q1: "quiet w w1" and t1: "touched x w1 w'"
    and a: "admit en schema_ok rd start c who resolution r w1 = (out, w')"
  show thesis
  proof (rule admit_effect [OF a t1])
    fix t ap w2
    assume who: "claims_match who (dr_agent r)" "preflight_reason (rd_now rd) r = None"
      and cl: "claim_step rd who r w1 = (None, w2)" and t2: "touched x w2 w'"
      and ev: "evaluate_claimed en schema_ok rd start c who resolution r t ap w2 = (out, w')"
    obtain d n w3 where q3: "quiet w2 w3" and t3: "touched x w3 w'"
      and ve: "verify_evaluated en schema_ok rd start c who resolution r t n d w3 = (out, w')"
      by (rule evaluate_effect [OF ev t2])
    obtain v res w4 where v: "resolution = Some res" "quiet w3 w4" "touched x w4 w'"
      "verify_decision (en_verifier en) schema_ok (ew_approvals w3) (rd_verifier rd) r who res (en_policy en) t d (rd_now rd) = Inr v"
      "authorize_decision en rd start c n who r (tr_id t) d v w4 = (out, w')"
      by (rule verified_effect [OF ve t3])
    show thesis
    proof (rule authorize_effect [OF v(5,3)])
      fix before tok w5
      assume i: "issue_authorization en rd who (tr_id t) d v w4 = (Inr (before, tok), w5)" and t5: "touched x w5 w'"
        and ex: "execute_authorized en rd start c n who r (tr_id t) d v before tok w5 = (out, w')"
      obtain auth where iss: "issue (en_gate en) (rd_ledger_at rd) (rd_token_id rd) (rd_nonce rd) (rd_issued_at rd) d (pr_id who)
          (sha256_json before) v (sw_auth (ew_sim w4)) = (Inr tok, auth)" "w5 = w4\<lparr>ew_sim := (ew_sim w4)\<lparr>sw_auth := auth\<rparr>\<rparr>"
        using i by (auto simp: issue_authorization_def Let_def split: sum.splits prod.splits)
      have just: "justified_token (en_verifier en) (en_policy en) res who r t (whole_second (rd_now rd)) tok"
        using issued_token_justified [OF policy v(4) iss(1)] by blast
      have new: "auth_of (aw_ledger (sw_auth (ew_sim w4))) (tk_token_id tok) = None"
        using issue_Inr [OF iss(1)] register_facts draft_token_Inr(1) by metis
      show thesis
      proof (rule execute_effect [OF ex t5])
        fix w6 call out' sim
        assume q6: "quiet w5 w6" and call: "ex_token call = Some tok"
          and au: "authorize_and_execute (en_boundary en) (rd_ledger_at rd) (rd_attempt_id rd) (rd_attempted_at rd) call (ew_sim w6)
            = (out', sim)"
          and w': "sw_states (ew_sim w') = sw_states sim" "aw_ledger (sw_auth (ew_sim w')) = aw_ledger (sw_auth sim)"
        have same: "sw_states (ew_sim w6) = sw_states (ew_sim w)"
          "auth_of (aw_ledger (sw_auth (ew_sim w4))) (tk_token_id tok) = auth_of (aw_ledger (sw_auth (ew_sim w))) (tk_token_id tok)"
          "claims_of w1 k = claims_of w k" "claims_of w6 k = claims_of w2 k" "claims_of w' k = claims_of w6 k" for k
          using q1 q3 q6 v(2) claim_facts(1,3) [OF cl] iss(2) issue_requests [OF iss(1)] authorize_requests [OF au] w'
          by (simp_all add: quiet_def)
        have changed: "map_of (sw_states sim) x \<noteq> map_of (sw_states (ew_sim w6)) x"
          using x w'(1) same(1) by (simp add: touched_def)
        note be = boundary_effect [OF au changed]
        then have "tk_target_id tok = x" using call by auto
        moreover have "tk_target_id tok = ac_target (dr_action r)" using just by (simp add: justified_token_def)
        moreover have "effect_behind en rd who res r tok"
          using who preflight_age [OF who(2)] just be call by (auto simp: effect_behind_def)
        ultimately show thesis
          using be call new same claim_facts(2) [OF cl] w' by (intro that [OF v(1) r]) auto
      qed
    qed
  qed
qed

lemma record_outcome_frame:
  assumes "record_outcome rd res w = (out, w')"
  shows "sw_states (ew_sim w') = sw_states (ew_sim w)" "claims_of w' k = claims_of w k"
    "auth_of (aw_ledger (sw_auth (ew_sim w'))) i = auth_of (aw_ledger (sw_auth (ew_sim w))) i"
proof -
  have auth: "auth_of (aw_ledger a') i = auth_of (aw_ledger a) i" if "gate_record_outcome lnow b st dg tm a = (r, a')"
    for lnow b st dg tm a r a'
    using that by (auto simp: gate_record_outcome_def record_attempt_outcome_def auth_of_def
      split: sum.splits option.splits if_splits)
  show "sw_states (ew_sim w') = sw_states (ew_sim w)" "claims_of w' k = claims_of w k"
    "auth_of (aw_ledger (sw_auth (ew_sim w'))) i = auth_of (aw_ledger (sw_auth (ew_sim w))) i"
    using assms by (auto simp: record_outcome_def Let_def dest: auth outcome_requests split: option.splits prod.splits)
qed

lemma process_json_authenticated:
  assumes "process_json en schema_ok loads fresh rd raw credential w = (out, w')"
  obtains (none) "w' = w"
  | (some) who resolution out1 w1 where "invocation (en_resolver en) fresh credential = Inr (who, resolution)"
    "process_authenticated en schema_ok loads rd raw who resolution w = (out1, w1)"
    "sw_states (ew_sim w') = sw_states (ew_sim w1)" "\<And>k. claims_of w' k = claims_of w1 k"
    "\<And>i. auth_of (aw_ledger (sw_auth (ew_sim w'))) i = auth_of (aw_ledger (sw_auth (ew_sim w1))) i"
proof (cases "invocation (en_resolver en) fresh credential")
  case (Inl e)
  then show thesis using assms none by (simp add: process_json_def)
next
  case (Inr p)
  obtain who resolution where i: "invocation (en_resolver en) fresh credential = Inr (who, resolution)"
    using Inr by (cases p) auto
  obtain out1 w1 where p: "process_authenticated en schema_ok loads rd raw who resolution w = (out1, w1)" by fastforce
  note a = assms [unfolded process_json_def i sum.case split_conv p run_then_def on_result_def]
  show thesis
  proof (cases "sha256_json (policy_to_dict (en_policy en)) \<noteq> en_policy_sha256 en")
    case True
    then show thesis using a none by simp
  next
    case False
    note a = a [unfolded if_not_P [OF False]]
    have "w' = w1 \<or> (\<exists>res. record_outcome rd res w1 = (out, w'))"
      using a by (cases out1) (auto simp: Let_def split: if_splits)
    then show thesis using some [OF i p] record_outcome_frame by metis
  qed
qed

text \<open>C1. What an executed request has behind it, end to end: if a call of \<open>process_json\<close> changes the state of a target,
  whatever the call returns or raises, then its bytes are a valid request for exactly that target, its credential resolves to the
  agent that the request claims, the request is at most five minutes old or early, it was not claimed before and is claimed
  now, and the broker acted on an unexpired token that was not known before, is consumed now and is justified by principal,
  policy and evidence. No other target changes.\<close>

theorem engine_effect_justified:
  assumes "policy_from_dict policy_ok pv = Inr (en_policy en)"
    and "process_json en schema_ok loads fresh rd raw credential w = (out, w')" and "touched x w w'"
  shows "\<exists>r who resolution tok.
      invocation (en_resolver en) fresh credential = Inr (who, Some resolution)
      \<and> load_decision_request_json schema_ok loads (rd_now rd) raw = Inr r
      \<and> x = ac_target (dr_action r) \<and> effect_behind en rd who resolution r tok
      \<and> claims_of w (pr_id who, dr_request_id r) = None
      \<and> claims_of w' (pr_id who, dr_request_id r) = Some (request_sha256 r)
      \<and> auth_of (aw_ledger (sw_auth (ew_sim w))) (tk_token_id tok) = None
      \<and> auth_of (aw_ledger (sw_auth (ew_sim w'))) (tk_token_id tok) = Some Consumed
      \<and> (\<forall>y. y \<noteq> x \<longrightarrow> \<not> touched y w w')"
  using assms(2)
proof (cases rule: process_json_authenticated)
  case none
  then show ?thesis using assms(3) by (simp add: touched_def)
next
  case (some who resolution out1 w1)
  have "touched x w w1" using assms(3) some(3) by (simp add: touched_def)
  then show ?thesis
    by (rule authenticated_effect [OF assms(1) some(2)]) (use some in \<open>auto simp: touched_def\<close>)
qed

subsection \<open>A request executes once\<close>

record engine_call =
  ca_fresh :: pystr
  ca_readings :: readings
  ca_raw :: string
  ca_credential :: string

definition call_key :: "engine \<Rightarrow> (json \<Rightarrow> bool) \<Rightarrow> (string \<Rightarrow> json option) \<Rightarrow> engine_call \<Rightarrow> pystr \<times> pystr" where
  "call_key en schema_ok loads k =
     (case (invocation (en_resolver en) (ca_fresh k) (ca_credential k),
            load_decision_request_json schema_ok loads (rd_now (ca_readings k)) (ca_raw k)) of
        (Inr (who, _), Inr r) \<Rightarrow> (pr_id who, dr_request_id r) | _ \<Rightarrow> ([], []))"

definition has_effect :: "engine_world \<Rightarrow> engine_world \<Rightarrow> bool" where
  "has_effect w w' \<longleftrightarrow>
     list_ex (\<lambda>x. map_of (sw_states (ew_sim w')) x \<noteq> map_of (sw_states (ew_sim w)) x) (map fst (sw_states (ew_sim w)))"

text \<open>The keys of the calls of a run that changed a target, and the world after the run.\<close>

fun engine_run :: "engine \<Rightarrow> (json \<Rightarrow> bool) \<Rightarrow> (string \<Rightarrow> json option) \<Rightarrow> engine_call list \<Rightarrow> engine_world
    \<Rightarrow> (pystr \<times> pystr) list \<times> engine_world" where
  "engine_run en schema_ok loads [] w = ([], w)"
| "engine_run en schema_ok loads (k # ks) w =
     (let w1 = snd (process_json en schema_ok loads (ca_fresh k) (ca_readings k) (ca_raw k) (ca_credential k) w);
          (keys, w') = engine_run en schema_ok loads ks w1
      in ((if has_effect w w1 then [call_key en schema_ok loads k] else []) @ keys, w'))"

lemma process_effect_key:
  assumes "policy_from_dict policy_ok pv = Inr (en_policy en)" "has_effect w w'"
    and "process_json en schema_ok loads (ca_fresh k) (ca_readings k) (ca_raw k) (ca_credential k) w = (out, w')"
  shows "claims_of w (call_key en schema_ok loads k) = None \<and> claims_of w' (call_key en schema_ok loads k) \<noteq> None"
proof -
  obtain x where x: "touched x w w'" using assms(2) by (auto simp: has_effect_def list_ex_iff touched_def)
  show ?thesis
    using assms(3)
  proof (cases rule: process_json_authenticated)
    case none
    then show ?thesis using x by (simp add: touched_def)
  next
    case (some who resolution out1 w1)
    have "touched x w w1" using x some(3) by (simp add: touched_def)
    then show ?thesis
      by (rule authenticated_effect [OF assms(1) some(2)]) (use some in \<open>simp add: call_key_def\<close>)
  qed
qed

text \<open>A claim is never forgotten.\<close>

interpretation kept: engine_invariant "\<lambda>w. claims_of w key = Some digest" for key digest
proof (unfold_locales, goal_cases)
  case (6 w rd who r res w')
  then show ?case
    by (auto simp: claim_step_def claim_request_def append_event_def Let_def map_of_dict_set
        split: sum.splits prod.splits option.splits if_splits)
next
  case (7 w en rd who target d v res w')
  then show ?case by (auto simp: issue_authorization_def Let_def split: sum.splits prod.splits dest!: issue_requests)
next
  case (8 w bd lnow a clock c res sim)
  then show ?case using authorize_requests [OF 8(2)] by simp
next
  case (10 w rd r res w')
  then show ?case using record_outcome_frame(2) [OF 10(2)] by simp
qed (auto simp: engine_append_def engine_metric_def Let_def split: prod.splits dest!: verify_frame)

lemma engine_run_keys:
  assumes "policy_from_dict policy_ok pv = Inr (en_policy en)"
  shows "distinct (fst (engine_run en schema_ok loads ks w))
    \<and> (\<forall>key \<in> set (fst (engine_run en schema_ok loads ks w)). claims_of w key = None)"
proof (induction ks arbitrary: w)
  case (Cons k ks)
  obtain out w1 where w1: "process_json en schema_ok loads (ca_fresh k) (ca_readings k) (ca_raw k) (ca_credential k) w = (out, w1)"
    by fastforce
  have "claims_of w key = None" if "claims_of w1 key = None" for key
    using kept.process_json [OF _ w1, of key] that by (cases "claims_of w key") auto
  then show ?case
    using Cons.IH [of w1] process_effect_key [OF assms _ w1]
    by (auto simp: w1 Let_def split: prod.split)
qed simp

text \<open>C2. A request executes at most once: in any sequence of calls from any world, with any readings, identifiers, bytes and
  credentials, the calls that changed a target carry pairwise different pairs of principal and request identifier,
  and none of these pairs had been claimed before.\<close>

theorem request_executes_once:
  assumes "policy_from_dict policy_ok pv = Inr (en_policy en)"
  shows "distinct (fst (engine_run en schema_ok loads ks w))
    \<and> (\<forall>key \<in> set (fst (engine_run en schema_ok loads ks w)). claims_of w key = None)"
  by (rule engine_run_keys [OF assms])

end
