(* ===== verification/P3EngineClosure.thy ===== *)
theory P3EngineClosure
  imports P3EngineSafety
begin

text \<open>
  Every way through the engine that executes nothing closes: on an intact log the records of the request form an accepted
  lifecycle, so \<open>_validated_result\<close> returns the result and never raises.
\<close>

subsection \<open>Stamped payloads\<close>

definition id_names :: "pystr list" where
  "id_names = [''intake_id'', ''request_id'', ''decision_id'']"

definition ids_of :: "correlation \<Rightarrow> json_dict" where
  "ids_of c = [(''intake_id'', JStr (co_intake c)), (''request_id'', JStr (co_request c)), (''decision_id'', JStr (co_decision c))]"

definition fresh_payload :: "json_dict \<Rightarrow> bool" where
  "fresh_payload p \<longleftrightarrow> distinct (map fst p) \<and> list_all (\<lambda>k. k \<notin> set id_names) (map fst p)"

lemma dict_set_new: "k \<notin> set (map fst d) \<Longrightarrow> dict_set k v d = d @ [(k, v)]"
  by (induction d rule: list.induct) auto

lemma fold_dict_set: "distinct (map fst d @ map fst p) \<Longrightarrow> fold (\<lambda>(k, v) d. dict_set k v d) p d = d @ p"
proof (induction p arbitrary: d)
  case (Cons x p)
  then show ?case by (cases x) (simp add: dict_set_new)
qed simp

lemma audit_payload_fresh: "fresh_payload p \<Longrightarrow> audit_payload c p = ids_of c @ p"
  unfolding audit_payload_def ids_of_def [symmetric]
  by (rule fold_dict_set) (auto simp: fresh_payload_def ids_of_def id_names_def list_all_iff)

lemma ids_get [simp]:
  "get_str (ids_of c @ p) ''intake_id'' = co_intake c" "get_str (ids_of c @ p) ''request_id'' = co_request c"
  "get_str (ids_of c @ p) ''decision_id'' = co_decision c"
  by (simp_all add: ids_of_def get_str_def)

lemma ids_plain [simp]: "contains_secret (JObj (ids_of c @ p)) \<longleftrightarrow> contains_secret (JObj p)"
  by (simp add: ids_of_def contains_secret_obj plain_name)

lemma ids_member [simp]: "k \<notin> set id_names \<Longrightarrow> obj_get (ids_of c @ p) k = obj_get p k"
  by (simp add: ids_of_def obj_get_def id_names_def)

text \<open>A recorded sequence with the identifiers of its correlation: \<open>correlated c0 c xs\<close> holds when every payload has the
  intake and decision identifier of \<open>c\<close>, and the request identifier is that of \<open>c0\<close> before validation, of \<open>c\<close> after.\<close>

fun carries :: "correlation \<Rightarrow> json_dict \<Rightarrow> bool" where
  "carries c p \<longleftrightarrow> get_str p ''intake_id'' = co_intake c \<and> get_str p ''decision_id'' = co_decision c
     \<and> get_str p ''request_id'' = co_request c \<and> \<not> contains_secret (JObj p)"

lemma engine_names:
  "list_all (\<lambda>k. \<not> secret_name k) [''reason'', ''reason_code'', ''stage'', ''raw_sha256'', ''raw_size_bytes'', ''schema_version'',
     ''authenticated'', ''claimed_agent_id'', ''attributes_match'', ''trusted_roles'', ''trusted_authority'',
     ''required_authority'', ''authorized'']"
  by code_simp

lemmas engine_name = plain_name engine_names [simplified]

definition well_formed_ids :: "correlation \<Rightarrow> bool" where
  "well_formed_ids c \<longleftrightarrow> co_intake c \<noteq> [] \<and> co_request c \<noteq> [] \<and> co_decision c \<noteq> []"

lemma uncorrelated_const:
  assumes "xs \<noteq> []" "\<forall>x \<in> set xs. get_str (snd x) k = s" "s \<noteq> []"
  shows "\<not> uncorrelated k (map snd xs)"
  by (rule correlated_const [where s = s]) (use assms in auto)

lemma correlation_rejected:
  assumes "distinct (map fst xs)" "xs \<noteq> []" "''REQUEST_VALIDATED'' \<notin> set (map fst xs)"
    "\<forall>x \<in> set xs. carries c (snd x)" "well_formed_ids c"
  shows "correlation_errors (map fst xs) (map snd xs) = []"
proof -
  have "\<not> uncorrelated ''intake_id'' (map snd xs)" "\<not> uncorrelated ''decision_id'' (map snd xs)"
    "\<not> uncorrelated ''request_id'' (map snd xs)"
    using assms(4,5) uncorrelated_const [OF assms(2), of "''intake_id''" "co_intake c"]
      uncorrelated_const [OF assms(2), of "''decision_id''" "co_decision c"]
      uncorrelated_const [OF assms(2), of "''request_id''" "co_request c"]
    by (simp_all add: well_formed_ids_def)
  then show ?thesis using assms(1,3) by (simp add: correlation_errors_def)
qed

lemma correlation_validated:
  assumes "distinct (map fst (x # y # xs))" "fst x = ''REQUEST_RECEIVED''" "fst y = ''REQUEST_VALIDATED''"
    "carries c0 (snd x)" "\<forall>z \<in> set (y # xs). carries c (snd z)" "well_formed_ids c"
    "co_intake c0 = co_intake c" "co_decision c0 = co_decision c"
  shows "correlation_errors (map fst (x # y # xs)) (map snd (x # y # xs)) = []
    \<and> stable_request_id (map fst (x # y # xs)) (map snd (x # y # xs)) = co_request c"
proof -
  have f: "from_validation (map fst (x # y # xs)) (map snd (x # y # xs)) = map snd (y # xs)"
    using assms(2,3) by (simp add: from_validation_def)
  have s: "stable_request_id (map fst (x # y # xs)) (map snd (x # y # xs)) = co_request c"
    unfolding stable_request_id_def f using assms(3,5) by simp
  have "\<not> uncorrelated ''intake_id'' (map snd (x # y # xs))" "\<not> uncorrelated ''decision_id'' (map snd (x # y # xs))"
    using assms(4-8) uncorrelated_const [of "x # y # xs" "''intake_id''" "co_intake c"]
      uncorrelated_const [of "x # y # xs" "''decision_id''" "co_decision c"]
    by (simp_all add: well_formed_ids_def)
  moreover have "\<not> list_ex (\<lambda>p. get_str p ''request_id'' \<noteq> co_request c) (map snd (y # xs))"
    using assms(5) by (auto simp: list_ex_iff)
  ultimately show ?thesis
    using assms(1,3,6) s f by (simp add: correlation_errors_def well_formed_ids_def Let_def)
qed

subsection \<open>Denied requests\<close>

definition denied_types :: "pystr list list" where
  "denied_types = map (\<lambda>p. p @ nonexecuting_tail) (early_prefixes @ control_failure_prefixes)"

lemma denied_types_closed:
  "list_all (\<lambda>ts. ts \<noteq> [] \<and> stage_errors ts = [] \<and> distinct ts \<and> opening_errors ts = [] \<and> \<not> approval_suffix ts \<and> core_stages ts = ts
     \<and> ''APPROVAL_REQUIREMENT_PRODUCED'' \<notin> set ts \<and> ''AUTHORIZATION_PRODUCED'' \<notin> set ts
     \<and> (''POLICY_EVALUATED'' \<in> set ts \<longrightarrow> ''CONTROL_PLANE_FAILURE'' \<in> set ts)) denied_types"
  by code_simp

lemma recorded_payload_of: "recorded rows xs \<Longrightarrow> payload_of rows n = (case map_of (rev xs) n of None \<Rightarrow> [] | Some d \<Rightarrow> d)"
  by (simp add: payload_of_def recorded_by_type)

lemma by_type_absent: "recorded rows xs \<Longrightarrow> n \<notin> set (map fst xs) \<Longrightarrow> by_type rows n = None"
  by (auto simp: recorded_by_type map_of_eq_None_iff)

lemma by_type_present: "recorded rows xs \<Longrightarrow> n \<in> set (map fst xs) \<Longrightarrow> by_type rows n \<noteq> None"
  by (auto simp: recorded_by_type map_of_eq_None_iff)

lemma secret_free_rows:
  assumes "list_all plain_row rows" "recorded rows xs" "\<forall>x \<in> set xs. \<not> contains_secret (JObj (snd x))"
  shows "\<not> list_ex (\<lambda>row. contains_secret (JObj row)) rows"
  using assms(2,1,3) by (induction rule: recorded_induct) (auto simp: plain_row_def)

lemma denied_accepted:
  assumes rec: "recorded rows xs" and plain: "list_all plain_row rows"
    and types: "map fst xs \<in> set denied_types"
    and corr: "correlation_errors (map fst xs) (map snd xs) = []"
    and secrets: "\<forall>x \<in> set xs. \<not> contains_secret (JObj (snd x))"
    and outcome: "obj_get (payload_of rows ''DECISION_PRODUCED'') ''outcome'' = JStr ''DENY''"
      "obj_get (payload_of rows ''FINAL_STATE_RECORDED'') ''outcome'' = JStr ''DENY''"
  shows "validate_phase3_lifecycle rows = Inr (True, [])"
proof -
  note t = denied_types_closed [unfolded list_all_iff, rule_format, OF types]
  have rt: "row_types rows = map fst xs" by (rule recorded_types [OF rec])
  have failed: "by_type rows ''CONTROL_PLANE_FAILURE'' \<noteq> None" if "payload_of rows ''POLICY_EVALUATED'' \<noteq> []"
  proof (rule by_type_present [OF rec])
    have "by_type rows ''POLICY_EVALUATED'' \<noteq> None"
    proof
      assume none: "by_type rows ''POLICY_EVALUATED'' = None"
      show False using that unfolding payload_of_def none by simp
    qed
    then have "''POLICY_EVALUATED'' \<in> set (map fst xs)" by (rule contrapos_np) (rule by_type_absent [OF rec])
    then show "''CONTROL_PLANE_FAILURE'' \<in> set (map fst xs)" using t by (elim conjE) (erule mp)
  qed
  have policy: "\<not> (payload_of rows ''POLICY_EVALUATED'' \<noteq> [] \<and> by_type rows ''CONTROL_PLANE_FAILURE'' = None)"
    using failed by blast
  have allowed: "outcome_allowed (payload_of rows ''DECISION_PRODUCED'') = Inr False"
    by (simp add: outcome_allowed_def outcome in_literals_def)
  have "lifecycle_errors rows = Inr []"
    using t policy outcome allowed corr by_type_absent [OF rec, of "''APPROVAL_REQUIREMENT_PRODUCED''"]
      by_type_absent [OF rec, of "''AUTHORIZATION_PRODUCED''"] secret_free_rows [OF plain rec secrets]
    by (simp only: lifecycle_errors_def Let_def recorded_typed [OF rec] rt recorded_payloads [OF rec] agree_def policy if_False)
      simp
  moreover have "rows \<noteq> []" using t rt by (auto simp: row_types_def)
  ultimately show ?thesis
    using t rt recorded_dicts [OF rec] by (simp add: validate_phase3_lifecycle_def)
qed

subsection \<open>Refusals close\<close>

definition nonexecuting_records :: "decision_record \<Rightarrow> pystr \<Rightarrow> (pystr \<times> json_dict) list" where
  "nonexecuting_records d digest = nonexecuting_rows d
     @ [(''FINAL_STATE_RECORDED'', [(''outcome'', JStr (dn_outcome d)), (''operational_effects'', JInt 0),
          (''target_state_sha256'', JStr digest)])]"

text \<open>The result of a call that executed nothing, with the decision \<open>d\<close>: an accepted lifecycle on an intact log, nothing
  authorized, no target and no ledger entry changed, one decision counted.\<close>

definition closed_result :: "engine_world \<Rightarrow> phase3_result \<Rightarrow> engine_world \<Rightarrow> bool" where
  "closed_result w res w' \<longleftrightarrow>
     p3_authorization res = None \<and> p3_broker_result res = None \<and> p3_verification res = None
     \<and> good_log (ew_log w') \<and> validate_phase3_lifecycle (p3_audit_records res) = Inr (True, []) \<and> quiet w w'
     \<and> (\<exists>outcome rules n ms. outcome = dn_outcome (p3_decision res)
          \<and> aw_metrics (sw_auth (ew_sim w')) = record_decision outcome rules n ms (aw_metrics (sw_auth (ew_sim w))))"

definition closes :: "engine_world \<Rightarrow> decision_record \<Rightarrow> engine_result \<Rightarrow> bool" where
  "closes w d out \<longleftrightarrow> (\<exists>res w'. out = (Inr res, w') \<and> p3_decision res = d \<and> closed_result w res w')"

lemma good_log_valid: "good_log al \<Longrightarrow> fst (validate_phase3_audit_chain (al_rows al))"
  by (simp add: good_log_def)

lemma finish_closes:
  assumes log: "logged start w xs"
    and accepted: "\<And>rows digest. recorded rows (xs @ stamped \<lparr>co_intake = intake, co_request = dn_request_id d, co_decision = dn_decision_id d\<rparr>
        (nonexecuting_records d digest)) \<Longrightarrow> list_all plain_row rows \<Longrightarrow> validate_phase3_lifecycle rows = Inr (True, [])"
  shows "closes w (d\<lparr>dn_latency_ms := rd_latency_ms rd\<rparr>) (finish_nonexecuting rd start intake n d w)"
proof -
  let ?d = "d\<lparr>dn_latency_ms := rd_latency_ms rd\<rparr>"
  let ?c = "\<lparr>co_intake = intake, co_request = dn_request_id ?d, co_decision = dn_decision_id ?d\<rparr>"
  obtain al where al: "log_rows rd ?c (nonexecuting_rows ?d) w = (Inr (), w\<lparr>ew_log := al\<rparr>)"
    "logged start (w\<lparr>ew_log := al\<rparr>) (xs @ stamped ?c (nonexecuting_rows ?d))"
    by (rule log_rows_logged [OF log])
  let ?w1 = "w\<lparr>ew_log := al\<rparr>"
  define digest where "digest = (case observed_target ?d ?w1 of None \<Rightarrow> '''' | Some s \<Rightarrow> sha256_json s)"
  let ?f = "[(''FINAL_STATE_RECORDED'', [(''outcome'', JStr (dn_outcome ?d)), (''operational_effects'', JInt 0),
          (''target_state_sha256'', JStr digest)])]"
  obtain al' where al': "log_rows rd ?c ?f ?w1 = (Inr (), ?w1\<lparr>ew_log := al'\<rparr>)"
    "logged start (?w1\<lparr>ew_log := al'\<rparr>) ((xs @ stamped ?c (nonexecuting_rows ?d)) @ stamped ?c ?f)"
    by (rule log_rows_logged [OF al(2)])
  have "xs @ stamped ?c (nonexecuting_records d digest) = (xs @ stamped ?c (nonexecuting_rows ?d)) @ stamped ?c ?f"
    by (simp add: stamped_def nonexecuting_records_def nonexecuting_rows_def)
  then have ok: "validate_phase3_lifecycle (drop start (al_rows al')) = Inr (True, [])"
    using accepted [of "drop start (al_rows al')" digest] al'(2) by (simp add: logged_def)
  have good: "good_log al'" using al'(2) by (simp add: logged_def)
  show ?thesis
    unfolding finish_nonexecuting_def Let_def al(1) run_then_Inr digest_def [symmetric] al'(1)
    using ok good good_log_valid [OF good]
    by (auto simp: closes_def closed_result_def validated_result_def engine_metric_def count_metric_def quiet_def Let_def)
qed

lemma carries_stamped: "fresh_payload p \<Longrightarrow> \<not> contains_secret (JObj p) \<Longrightarrow> carries c (audit_payload c p)"
  by (simp add: audit_payload_fresh)

text \<open>The records of one request so far: \<open>REQUEST_RECEIVED\<close> under the provisional request identifier, then, from
  \<open>REQUEST_VALIDATED\<close> on, everything under the identifier of the request.\<close>

definition opened :: "correlation \<Rightarrow> (pystr \<times> json_dict) list \<Rightarrow> bool" where
  "opened c xs \<longleftrightarrow>
     (\<exists>x. xs = [x] \<and> fst x = ''REQUEST_RECEIVED'' \<and> carries c (snd x))
     \<or> (\<exists>c0 x y ys. xs = x # y # ys \<and> fst x = ''REQUEST_RECEIVED'' \<and> fst y = ''REQUEST_VALIDATED'' \<and> carries c0 (snd x)
          \<and> co_intake c0 = co_intake c \<and> co_decision c0 = co_decision c \<and> (\<forall>z \<in> set (y # ys). carries c (snd z)))"

lemma opened_secrets: "opened c xs \<Longrightarrow> \<forall>x \<in> set xs. \<not> contains_secret (JObj (snd x))"
  by (auto simp: opened_def)

lemma opened_correlated:
  assumes "opened c xs" "well_formed_ids c" "distinct (map fst (xs @ ys))" "\<forall>z \<in> set ys. carries c (snd z)"
    "''REQUEST_VALIDATED'' \<notin> set (map fst ys)"
  shows "correlation_errors (map fst (xs @ ys)) (map snd (xs @ ys)) = []"
  using assms(1) unfolding opened_def
proof (elim disjE exE conjE)
  fix x
  assume x: "xs = [x]" "fst x = ''REQUEST_RECEIVED''" "carries c (snd x)"
  show ?thesis by (rule correlation_rejected) (use x assms(2-5) in auto)
next
  fix c0 x y zs
  assume x: "xs = x # y # zs" "fst x = ''REQUEST_RECEIVED''" "fst y = ''REQUEST_VALIDATED''" "carries c0 (snd x)"
    "co_intake c0 = co_intake c" "co_decision c0 = co_decision c" "\<forall>z \<in> set (y # zs). carries c (snd z)"
  have "correlation_errors (map fst (x # y # zs @ ys)) (map snd (x # y # zs @ ys)) = []
    \<and> stable_request_id (map fst (x # y # zs @ ys)) (map snd (x # y # zs @ ys)) = co_request c"
    by (rule correlation_validated [OF _ x(2-4) _ assms(2) x(5,6)])
      (use assms(3,4) x in \<open>auto simp del: carries.simps\<close>)
  then show ?thesis unfolding x(1) by simp
qed

lemma deny_closes:
  assumes log: "logged start w xs" and opened: "opened c xs" and ids: "well_formed_ids c"
    and failure: "fresh_payload (snd failure)" "\<not> contains_secret (JObj (snd failure))" "fst failure \<noteq> ''REQUEST_VALIDATED''"
    and types: "map fst xs @ [fst failure, ''DECISION_PRODUCED''] @ nonexecuting_tail \<in> set denied_types"
  shows "closes w ((fail_closed_decision en c digest who reason additional requested at0)\<lparr>dn_latency_ms := rd_latency_ms rd\<rparr>)
    (deny en rd start c digest who failure reason additional requested at0 ctx n w)"
proof -
  define d where "d = fail_closed_decision en c digest who reason additional requested at0"
  let ?dp = "[(''outcome'', JStr (dn_outcome d)), (''reason_codes'', jstrs (dn_reason_codes d))]
             @ (if ctx then [(''decision_context_sha256'', JStr (dn_decision_context_sha256 d))] else [])"
  let ?ys = "[failure, (''DECISION_PRODUCED'', ?dp)]"
  have d: "dn_outcome d = ''DENY''" "dn_request_id d = co_request c" "dn_decision_id d = co_decision c"
    by (simp_all add: d_def fail_closed_decision_def Let_def)
  obtain al where al: "log_rows rd c ?ys w = (Inr (), w\<lparr>ew_log := al\<rparr>)"
    "logged start (w\<lparr>ew_log := al\<rparr>) (xs @ stamped c ?ys)"
    by (rule log_rows_logged [OF log])
  let ?w1 = "w\<lparr>ew_log := al\<rparr>"
  have dp: "fresh_payload ?dp" "\<not> contains_secret (JObj ?dp)"
    by (auto simp: fresh_payload_def id_names_def contains_secret_obj engine_name jstrs_def list_ex_iff)
  have "closes ?w1 (d\<lparr>dn_latency_ms := rd_latency_ms rd\<rparr>) (finish_nonexecuting rd start (co_intake c) n d ?w1)"
  proof (rule finish_closes [OF al(2)])
    fix rows fd
    let ?c = "\<lparr>co_intake = co_intake c, co_request = dn_request_id d, co_decision = dn_decision_id d\<rparr>"
    let ?zs = "stamped c ?ys @ stamped c (nonexecuting_records d fd)"
    have c: "?c = c" by (simp add: d)
    assume "recorded rows ((xs @ stamped c ?ys) @ stamped ?c (nonexecuting_records d fd))" and plain: "list_all plain_row rows"
    then have rec: "recorded rows (xs @ ?zs)" by (simp add: c)
    have types': "map fst (xs @ ?zs) \<in> set denied_types"
      using types by (simp add: stamped_def comp_def nonexecuting_records_def nonexecuting_rows_def nonexecuting_tail_def)
    have carried: "\<forall>z \<in> set ?zs. carries c (snd z)"
      using carries_stamped [OF failure(1,2)] carries_stamped [OF dp]
      by (auto simp: stamped_def nonexecuting_records_def nonexecuting_rows_def fresh_payload_def id_names_def
          contains_secret_obj engine_name intro!: carries_stamped simp del: carries.simps)
    have distinct: "distinct (map fst (xs @ ?zs))"
      using denied_types_closed [unfolded list_all_iff, rule_format, OF types'] by (elim conjE)
    have fresh: "''REQUEST_VALIDATED'' \<notin> set (map fst ?zs)"
      using failure(3) by (simp add: stamped_def nonexecuting_records_def nonexecuting_rows_def)
    show "validate_phase3_lifecycle rows = Inr (True, [])"
    proof (rule denied_accepted [OF rec plain types' opened_correlated [OF opened ids distinct carried fresh]])
      show "\<forall>x \<in> set (xs @ ?zs). \<not> contains_secret (JObj (snd x))"
        using opened_secrets [OF opened] carried by auto
      show "obj_get (payload_of rows ''DECISION_PRODUCED'') ''outcome'' = JStr ''DENY''"
        "obj_get (payload_of rows ''FINAL_STATE_RECORDED'') ''outcome'' = JStr ''DENY''"
        by (auto simp: recorded_payload_of [OF rec] stamped_def nonexecuting_records_def nonexecuting_rows_def
            audit_payload_fresh [OF dp(1)] audit_payload_fresh fresh_payload_def id_names_def d obj_get_def ids_of_def)
    qed
  qed
  then show ?thesis
    unfolding deny_def Let_def d_def [symmetric] al(1) run_then_Inr
    by (simp add: closes_def closed_result_def quiet_def)
qed

subsection \<open>Every refusal\<close>

text \<open>The first check that a request fails, if any.\<close>

definition admission_refusal ::
  "engine \<Rightarrow> readings \<Rightarrow> authenticated_principal \<Rightarrow> decision_request \<Rightarrow> engine_world \<Rightarrow> reason option" where
  "admission_refusal en rd who r w =
     (if \<not> pr_authenticated who \<or> pr_security_status who \<noteq> Trusted then Some (untrusted_reason who)
      else if \<not> claims_match who (dr_agent r) then Some ''AGENT_ATTRIBUTE_MISMATCH''
      else if preflight_reason (rd_now rd) r \<noteq> None then preflight_reason (rd_now rd) r
      else (case catalogued (en_policy en) r of
          Inl _ \<Rightarrow> Some ''TARGET_OR_ACTION_UNKNOWN'' | Inr _ \<Rightarrow> fst (claim_step rd who r w)))"

definition refusal ::
  "engine \<Rightarrow> (json \<Rightarrow> bool) \<Rightarrow> (string \<Rightarrow> json option) \<Rightarrow> readings \<Rightarrow> string \<Rightarrow> authenticated_principal \<Rightarrow> engine_world
     \<Rightarrow> reason option" where
  "refusal en schema_ok loads rd raw who w =
     (if rd_decision_id rd = None then Some ''DECISION_IDENTIFIER_FAILURE''
      else case load_decision_request_json schema_ok loads (rd_now rd) raw of
        Inl e \<Rightarrow> Some (if e \<in> set builtin_errors then ''REQUEST_VALIDATION_INTERNAL_FAILURE'' else e)
      | Inr r \<Rightarrow> admission_refusal en rd who r w)"

definition denied_with :: "reason \<Rightarrow> engine_world \<Rightarrow> engine_result \<Rightarrow> bool" where
  "denied_with reason w out \<longleftrightarrow>
     (\<exists>res w'. out = (Inr res, w') \<and> closed_result w res w' \<and> dn_outcome (p3_decision res) = ''DENY''
        \<and> reason \<in> set (dn_reason_codes (p3_decision res)) \<and> dn_permitted_action (p3_decision res) = None)"

lemma denied_types_early:
  "[''REQUEST_RECEIVED''] @ [''REQUEST_REJECTED'', ''DECISION_PRODUCED''] @ nonexecuting_tail \<in> set denied_types"
  "list_all (\<lambda>t. [''REQUEST_RECEIVED'', ''REQUEST_VALIDATED''] @ [t, ''DECISION_PRODUCED''] @ nonexecuting_tail \<in> set denied_types)
     [''REQUEST_REJECTED'', ''IDENTITY_EVALUATED'', ''POLICY_EVALUATION_FAILED'']"
  by (code_simp, code_simp)

lemma closed_from:
  assumes "closed_result w res w'" "quiet w0 w" "aw_metrics (sw_auth (ew_sim w)) = aw_metrics (sw_auth (ew_sim w0))"
  shows "closed_result w0 res w'"
  using assms(1) quiet_trans [OF assms(2)] unfolding closed_result_def assms(3) by blast

lemma deny_denies:
  assumes "closes w ((fail_closed_decision en c digest who reason additional requested at0)\<lparr>dn_latency_ms := ms\<rparr>) out" "quiet w0 w"
    "aw_metrics (sw_auth (ew_sim w)) = aw_metrics (sw_auth (ew_sim w0))"
  shows "denied_with reason w0 out"
proof -
  let ?d = "(fail_closed_decision en c digest who reason additional requested at0)\<lparr>dn_latency_ms := ms\<rparr>"
  obtain res w' where r: "out = (Inr res, w')" "p3_decision res = ?d" "closed_result w res w'"
    using assms(1) unfolding closes_def by blast
  have "closed_result w0 res w'" by (rule closed_from [OF r(3) assms(2,3)])
  moreover have "dn_outcome ?d = ''DENY'' \<and> reason \<in> set (dn_reason_codes ?d) \<and> dn_permitted_action ?d = None"
    by (simp add: fail_closed_decision_def Let_def set_ordered_unique_acc)
  ultimately show ?thesis unfolding denied_with_def using r(1,2) by metis
qed

lemma refused_claim:
  assumes "claim_step rd who r w = (Some reason, w1)"
  shows "quiet w w1" "aw_metrics (sw_auth (ew_sim w1)) = aw_metrics (sw_auth (ew_sim w))" "ew_log w1 = ew_log w"
  using assms
  by (auto simp: claim_step_def claim_request_def quiet_def Let_def split: sum.splits prod.splits option.splits if_splits)

lemma admit_denies:
  assumes log: "logged start w xs" and opened: "opened c xs" "map fst xs = [''REQUEST_RECEIVED'', ''REQUEST_VALIDATED'']"
    and ids: "well_formed_ids c" and refused: "admission_refusal en rd who r w = Some reason"
  shows "denied_with reason w (admit en schema_ok rd start c who resolution r w)"
proof -
  have refuse: "denied_with reason w (deny en rd start c digest who (t, p) reason additional requested at0 ctx n w1)"
    if "t \<in> {''REQUEST_REJECTED'', ''IDENTITY_EVALUATED'', ''POLICY_EVALUATION_FAILED''}" "fresh_payload p"
      "\<not> contains_secret (JObj p)" "quiet w w1" "aw_metrics (sw_auth (ew_sim w1)) = aw_metrics (sw_auth (ew_sim w))"
      "ew_log w1 = ew_log w"
    for t p digest additional requested at0 ctx n w1
  proof (rule deny_denies [OF deny_closes that(4,5)])
    show "logged start w1 xs" using log that(6) by (rule logged_log)
    show "map fst xs @ [fst (t, p), ''DECISION_PRODUCED''] @ nonexecuting_tail \<in> set denied_types"
      using denied_types_early(2) that(1) opened(2) by auto
  qed (use opened ids that in auto)
  have reason: "fresh_payload (snd (reason_row t reason))" "\<not> contains_secret (JObj (snd (reason_row t reason)))" for t
    by (simp_all add: reason_row_def fresh_payload_def id_names_def contains_secret_obj engine_name)
  have identity: "fresh_payload (dict_of (authority_to_dict a))" "\<not> contains_secret (JObj (dict_of (authority_to_dict a)))" for a
    by (simp_all add: authority_to_dict_def dict_of_def fresh_payload_def id_names_def contains_secret_obj engine_name
        jstrs_def list_ex_iff)
  show ?thesis
  proof (cases "claim_step rd who r w")
    case (Pair claimed w1)
    then show ?thesis
      using refused refuse refuse [OF _ _ _ refused_claim [of rd who r w reason w1]] reason identity
      by (auto simp: admit_def admission_refusal_def Let_def reason_row_def dict_row_def
          split: if_splits option.splits sum.splits prod.splits)
  qed
qed

lemma denied_from:
  "denied_with reason w out \<Longrightarrow> quiet w0 w \<Longrightarrow> aw_metrics (sw_auth (ew_sim w)) = aw_metrics (sw_auth (ew_sim w0))
     \<Longrightarrow> denied_with reason w0 out"
  unfolding denied_with_def by (auto dest: closed_from)

lemma received_plain: "fresh_payload (snd (received_row raw))" "\<not> contains_secret (JObj (snd (received_row raw)))"
  by (simp_all add: received_row_def fresh_payload_def id_names_def contains_secret_obj engine_name)

lemma validated_plain: "fresh_payload (snd (validated_row r))" "\<not> contains_secret (JObj (snd (validated_row r)))"
  by (simp_all add: validated_row_def fresh_payload_def id_names_def contains_secret_obj engine_name)

lemma received_denies:
  assumes log: "logged start w (stamped c [received_row raw])" and c: "c = intake_correlation rd raw"
    and id: "rd_decision_id rd \<noteq> Some []" "\<And>r. load_decision_request_json schema_ok loads (rd_now rd) raw = Inr r \<Longrightarrow> dr_request_id r \<noteq> []"
    and refused: "refusal en schema_ok loads rd raw who w = Some reason"
  shows "denied_with reason w (process_received en schema_ok loads rd start c raw who resolution w)"
proof -
  have ids: "well_formed_ids c" "co_request c \<noteq> []"
    using id(1)
    by (cases "rd_decision_id rd";
        simp add: c well_formed_ids_def intake_correlation_def deterministic_failure_id_def Let_def)+
  have opened: "opened c (stamped c [received_row raw])"
    unfolding opened_def
    by (intro disjI1 exI [of _ "(fst (received_row raw), audit_payload c (snd (received_row raw)))"] conjI)
      (simp add: stamped_def, simp add: received_row_def, simp add: carries_stamped [OF received_plain] del: carries.simps)
  have reject: "denied_with reason w (deny en rd start c digest who (''REQUEST_REJECTED'', p) reason additional requested at0 ctx n w)"
    if "fresh_payload p" "\<not> contains_secret (JObj p)" for p digest additional requested at0 ctx n
  proof (rule deny_denies [OF deny_closes quiet_refl refl])
    show "map fst (stamped c [received_row raw]) @ [fst (''REQUEST_REJECTED'', p), ''DECISION_PRODUCED''] @ nonexecuting_tail
        \<in> set denied_types"
      using denied_types_early(1) by (simp add: stamped_def received_row_def)
  qed (use log opened ids that in auto)
  have plain: "fresh_payload (snd (reason_row t e))" "\<not> contains_secret (JObj (snd (reason_row t e)))"
    "fresh_payload (snd (stage_row t e st))" "\<not> contains_secret (JObj (snd (stage_row t e st)))" for t e st
    by (simp_all add: reason_row_def stage_row_def fresh_payload_def id_names_def contains_secret_obj engine_name)
  show ?thesis
  proof (cases "rd_decision_id rd = None")
    case True
    then show ?thesis
      using refused reject plain by (simp add: process_received_def refusal_def reason_row_def Let_def)
  next
    case False
    show ?thesis
    proof (cases "load_decision_request_json schema_ok loads (rd_now rd) raw")
      case (Inl e)
      then show ?thesis
        using refused reject plain False id(1)
        by (auto simp: process_received_def refusal_def reason_row_def stage_row_def Let_def)
    next
      case (Inr r)
      let ?c = "c\<lparr>co_request := dr_request_id r\<rparr>"
      obtain al where al: "log_rows rd ?c [validated_row r] w = (Inr (), w\<lparr>ew_log := al\<rparr>)"
        "logged start (w\<lparr>ew_log := al\<rparr>) (stamped c [received_row raw] @ stamped ?c [validated_row r])"
        by (rule log_rows_logged [OF log])
      have refused': "admission_refusal en rd who r (w\<lparr>ew_log := al\<rparr>) = Some reason"
        using refused False Inr
        by (auto simp: refusal_def admission_refusal_def claim_step_def Let_def split: option.splits sum.splits prod.splits if_splits)
      have "denied_with reason (w\<lparr>ew_log := al\<rparr>) (admit en schema_ok rd start ?c who resolution r (w\<lparr>ew_log := al\<rparr>))"
      proof (rule admit_denies [OF al(2) _ _ _ refused'])
        show "opened ?c (stamped c [received_row raw] @ stamped ?c [validated_row r])"
          using carries_stamped [OF received_plain, where c = c] carries_stamped [OF validated_plain, where c = ?c]
          unfolding opened_def
          by (intro disjI2 exI [of _ c]) (simp add: stamped_def received_row_def validated_row_def del: carries.simps)
        show "well_formed_ids ?c" using ids id(2) [OF Inr] by (simp add: well_formed_ids_def)
      qed (simp add: stamped_def received_row_def validated_row_def)
      then have "denied_with reason w (admit en schema_ok rd start ?c who resolution r (w\<lparr>ew_log := al\<rparr>))"
        by (rule denied_from) simp_all
      then show ?thesis
        using al(1) False id(1) by (auto simp: process_received_def Inr Let_def)
    qed
  qed
qed

lemma authenticated_denies:
  assumes log: "good_log (ew_log w)" and id: "rd_decision_id rd \<noteq> Some []"
    "\<And>r. load_decision_request_json schema_ok loads (rd_now rd) raw = Inr r \<Longrightarrow> dr_request_id r \<noteq> []"
    and refused: "refusal en schema_ok loads rd raw who w = Some reason"
  shows "denied_with reason w (process_authenticated en schema_ok loads rd raw who resolution w)"
proof -
  let ?c = "intake_correlation rd raw" and ?n = "length (al_rows (ew_log w))"
  obtain al where al: "log_rows rd ?c [received_row raw] w = (Inr (), w\<lparr>ew_log := al\<rparr>)"
    "logged ?n (w\<lparr>ew_log := al\<rparr>) ([] @ stamped ?c [received_row raw])"
    by (rule log_rows_logged [OF logged_start [OF log]])
  have refused': "refusal en schema_ok loads rd raw who (w\<lparr>ew_log := al\<rparr>) = Some reason"
    using refused
    by (auto simp: refusal_def admission_refusal_def claim_step_def Let_def split: option.splits sum.splits prod.splits if_splits)
  have "denied_with reason (w\<lparr>ew_log := al\<rparr>)
      (process_received en schema_ok loads rd ?n ?c raw who resolution (w\<lparr>ew_log := al\<rparr>))"
    by (rule received_denies [OF _ refl id refused']) (use al(2) in simp_all)
  then have "denied_with reason w (process_received en schema_ok loads rd ?n ?c raw who resolution (w\<lparr>ew_log := al\<rparr>))"
    by (rule denied_from) simp_all
  then show ?thesis by (simp add: process_authenticated_def Let_def al(1))
qed

text \<open>C3. A refused request closes: on an intact audit log with the pinned policy, when the request fails a check before it is
  claimed (no decision identifier, invalid bytes, an untrusted or mismatched principal, a stale or future timestamp, an
  unknown target or action, an unusable or repeated claim), \<open>process_json\<close> raises nothing. It returns a denial that names the first
  failed check, permits and authorizes nothing, leaves every target and the ledger unchanged, counts one decision, and
  whose records are an accepted lifecycle on an intact log.\<close>

theorem refused_request_closes:
  assumes "good_log (ew_log w)" "distinct (map fst (ms_dispositions (aw_metrics (sw_auth (ew_sim w)))))"
    and "sha256_json (policy_to_dict (en_policy en)) = en_policy_sha256 en" "rd_decision_id rd \<noteq> Some []"
    and "\<And>r. load_decision_request_json schema_ok loads (rd_now rd) raw = Inr r \<Longrightarrow> dr_request_id r \<noteq> []"
    and "invocation (en_resolver en) fresh credential = Inr (who, resolution)"
    and "refusal en schema_ok loads rd raw who w = Some reason"
  shows "denied_with reason w (process_json en schema_ok loads fresh rd raw credential w)"
proof -
  obtain res w' where r: "process_authenticated en schema_ok loads rd raw who resolution w = (Inr res, w')"
    "closed_result w res w'" "dn_outcome (p3_decision res) = ''DENY''"
    and d: "denied_with reason w (Inr res, w')"
    using authenticated_denies [OF assms(1,4,5,7), of resolution] by (auto simp: denied_with_def)
  have m: "decisions_total w' = decisions_total w + 1" "decision_count ''DENY'' w' = decision_count ''DENY'' w + 1"
    using r(2,3) assms(2)
    by (auto simp: closed_result_def decisions_total_def decision_count_def record_decision_def sum_count_up
        count_of_count_up counted_outcomes_def)
  have "record_outcome rd res w' = (Inr res, w')" using r(2) by (simp add: record_outcome_def closed_result_def)
  then show ?thesis using d r(1,3) m assms(3,6) by (simp add: process_json_def Let_def)
qed

subsection \<open>The empty identifier\<close>

text \<open>An identifier factory that returns the empty string is meant to end in a denial as well. The empty identifier stays in the
  records, their lifecycle is not accepted, and the call ends in an exception.\<close>

lemma unidentified_rejected:
  assumes "recorded rows (xs @ stamped c ys)" "co_decision c = []" "ys \<noteq> []" "\<forall>y \<in> set ys. fresh_payload (snd y)"
  shows "validate_phase3_lifecycle rows \<noteq> Inr (True, es)"
proof
  assume "validate_phase3_lifecycle rows = Inr (True, es)"
  then have "correlation_errors (row_types rows) (map row_payload rows) = []"
    using accepted_lifecycle accepted_sections(1) by blast
  then have "\<not> uncorrelated ''decision_id'' (map snd (xs @ stamped c ys))"
    by (simp add: recorded_payloads [OF assms(1)] correlation_errors_def fault_def split: if_splits)
  moreover obtain y zs where y: "ys = y # zs" using assms(3) by (cases ys) auto
  then have "get_str (audit_payload c (snd y)) ''decision_id'' = []" using assms(2,4) by (simp add: audit_payload_fresh)
  ultimately show False by (auto simp: uncorrelated_def Let_def stamped_def y)
qed

lemma finish_unidentified:
  assumes log: "logged start w xs" and d: "dn_decision_id d = []"
  shows "\<exists>e w'. finish_nonexecuting rd start intake n d w = (Inl e, w')"
proof -
  let ?d = "d\<lparr>dn_latency_ms := rd_latency_ms rd\<rparr>"
  let ?c = "\<lparr>co_intake = intake, co_request = dn_request_id ?d, co_decision = dn_decision_id ?d\<rparr>"
  obtain al where al: "log_rows rd ?c (nonexecuting_rows ?d) w = (Inr (), w\<lparr>ew_log := al\<rparr>)"
    "logged start (w\<lparr>ew_log := al\<rparr>) (xs @ stamped ?c (nonexecuting_rows ?d))"
    by (rule log_rows_logged [OF log])
  let ?f = "\<lambda>digest. [(''FINAL_STATE_RECORDED'', [(''outcome'', JStr (dn_outcome ?d)), (''operational_effects'', JInt 0),
          (''target_state_sha256'', JStr digest)])]"
  define digest where "digest = (case observed_target ?d (w\<lparr>ew_log := al\<rparr>) of None \<Rightarrow> '''' | Some s \<Rightarrow> sha256_json s)"
  obtain al' where al': "log_rows rd ?c (?f digest) (w\<lparr>ew_log := al\<rparr>) = (Inr (), w\<lparr>ew_log := al\<rparr>\<lparr>ew_log := al'\<rparr>)"
    "logged start (w\<lparr>ew_log := al\<rparr>\<lparr>ew_log := al'\<rparr>) ((xs @ stamped ?c (nonexecuting_rows ?d)) @ stamped ?c (?f digest))"
    by (rule log_rows_logged [OF al(2)])
  have "recorded (drop start (al_rows al')) ((xs @ stamped ?c (nonexecuting_rows ?d)) @ stamped ?c (?f digest))"
    using al'(2) by (simp add: logged_def)
  then have "validate_phase3_lifecycle (drop start (al_rows al')) \<noteq> Inr (True, es)" for es
    by (rule unidentified_rejected) (simp_all add: d fresh_payload_def id_names_def)
  then show ?thesis
    unfolding finish_nonexecuting_def Let_def al(1) run_then_Inr digest_def [symmetric] al'(1)
    by (auto simp: validated_result_def engine_metric_def Let_def split: sum.split prod.split)
qed

lemma empty_identifier_raises:
  assumes "good_log (ew_log w)" "rd_decision_id rd = Some []"
  shows "\<exists>e w'. process_authenticated en schema_ok loads rd raw who resolution w = (Inl e, w')"
proof -
  let ?c = "intake_correlation rd raw" and ?n = "length (al_rows (ew_log w))"
  let ?d = "fail_closed_decision en ?c (sha256_hex raw) who ''DECISION_IDENTIFIER_FAILURE'' [] (JObj []) (rd_fallback_now rd)"
  let ?ys = "[reason_row ''REQUEST_REJECTED'' ''DECISION_IDENTIFIER_FAILURE'',
      (''DECISION_PRODUCED'', [(''outcome'', JStr (dn_outcome ?d)), (''reason_codes'', jstrs (dn_reason_codes ?d))])]"
  obtain al where al: "log_rows rd ?c [received_row raw] w = (Inr (), w\<lparr>ew_log := al\<rparr>)"
    "logged ?n (w\<lparr>ew_log := al\<rparr>) ([] @ stamped ?c [received_row raw])"
    by (rule log_rows_logged [OF logged_start [OF assms(1)]])
  obtain al' where al': "log_rows rd ?c ?ys (w\<lparr>ew_log := al\<rparr>) = (Inr (), w\<lparr>ew_log := al\<rparr>\<lparr>ew_log := al'\<rparr>)"
    "logged ?n (w\<lparr>ew_log := al\<rparr>\<lparr>ew_log := al'\<rparr>) (([] @ stamped ?c [received_row raw]) @ stamped ?c ?ys)"
    by (rule log_rows_logged [OF al(2)])
  have d: "dn_decision_id ?d = []"
    using assms(2) by (simp add: fail_closed_decision_def intake_correlation_def Let_def)
  show ?thesis
    using finish_unidentified [OF al'(2) d] al'(1)
    by (simp add: process_authenticated_def process_received_def deny_def al(1) assms(2) Let_def)
qed

end
