(* ===== verification/P3EngineExamples.thy ===== *)
theory P3EngineExamples
  imports P3EngineClosure
begin

text \<open>
  An engine with one workstation, one agent and one request, and the calls that show the hypotheses of the engine's
  properties satisfied: a request that is carried out, and one that is refused.
\<close>

definition sample_engine :: engine where
  "sample_engine =
     \<lparr>en_policy = verifier_policy, en_policy_sha256 = sha256_json (policy_to_dict verifier_policy),
      en_resolver = vf_resolver sample_verifier, en_attestation_keys = sample_keys, en_approval = sample_gate,
      en_verifier = sample_verifier, en_gate = sample_auth_gate, en_boundary = sample_boundary\<rparr>"

definition sample_engine_world :: engine_world where
  "sample_engine_world =
     \<lparr>ew_log = new_audit_log, ew_sim = sample_sim_world sample_world, ew_approvals = no_approvals\<rparr>"

definition sample_engine_readings :: readings where
  "sample_engine_readings =
     \<lparr>rd_recorded_at = sample_clock, rd_ledger_at = sample_clock, rd_decision_id = Some ''d-1'', rd_now = sample_now,
      rd_fallback_now = sample_now, rd_latency_ms = 1, rd_approval_id = ''a-1'', rd_approval_at = sample_now,
      rd_verifier = sample_readings, rd_token_id = ''t-1'', rd_nonce = ''n-1'', rd_issued_at = sample_now,
      rd_attempt_id = ''attempt-1'', rd_attempted_at = sample_now, rd_verification_id = ''v-2'',
      rd_completed_at = sample_now\<rparr>"

definition sample_loads :: "string \<Rightarrow> json option" where
  "sample_loads raw = (if raw = ''request'' then Some (request_to_dict decided_request) else None)"

lemma sample_engine_simps [simp]:
  "en_policy sample_engine = verifier_policy" "en_resolver sample_engine = vf_resolver sample_verifier"
  "en_policy_sha256 sample_engine = sha256_json (policy_to_dict verifier_policy)"
  "en_attestation_keys sample_engine = sample_keys" "en_approval sample_engine = sample_gate"
  "en_verifier sample_engine = sample_verifier" "en_gate sample_engine = sample_auth_gate"
  "en_boundary sample_engine = sample_boundary" "vf_approval sample_verifier = sample_gate"
  "vf_attestation_keys sample_verifier = sample_keys"
  by (simp_all add: sample_engine_def sample_verifier_def)

lemma sample_readings_simps [simp]:
  "rd_ledger_at sample_engine_readings = sample_clock" "rd_decision_id sample_engine_readings = Some ''d-1''"
  "rd_now sample_engine_readings = sample_now" "rd_approval_id sample_engine_readings = ''a-1''"
  "rd_approval_at sample_engine_readings = sample_now" "rd_verifier sample_engine_readings = sample_readings"
  "rd_token_id sample_engine_readings = ''t-1''" "rd_nonce sample_engine_readings = ''n-1''"
  "rd_issued_at sample_engine_readings = sample_now" "rd_attempt_id sample_engine_readings = ''attempt-1''"
  "rd_attempted_at sample_engine_readings = sample_now"
  by (simp_all add: sample_engine_readings_def)

lemma sample_engine_sound: "engine_sound sample_engine_world"
  by (simp add: engine_sound_def sample_engine_world_def good_new sample_sim_world_def sample_world_def empty_ledger_inv
      dispositions_def no_metrics_def)

subsection \<open>A refused request\<close>

theorem refused_request_closes_witness:
  "denied_with ''REQUEST_JSON_INVALID'' sample_engine_world
     (process_json sample_engine (\<lambda>_. True) sample_loads ''1'' sample_engine_readings ''garbage'' ''nobody'' sample_engine_world)"
proof (rule refused_request_closes)
  show "good_log (ew_log sample_engine_world)" by (simp add: sample_engine_world_def good_new)
  show "invocation (en_resolver sample_engine) ''1'' ''nobody'' = Inr (unresolved_principal ''INVOCATION_CREDENTIAL_INVALID'', None)"
    by (simp add: invocation_def resolve_def principal_errors_def)
  show "refusal sample_engine (\<lambda>_. True) sample_loads sample_engine_readings ''garbage'' (unresolved_principal ''INVOCATION_CREDENTIAL_INVALID'')
      sample_engine_world = Some ''REQUEST_JSON_INVALID''"
    by (simp add: refusal_def load_decision_request_json_def sample_loads_def max_request_bytes_def builtin_errors_def python_errors_def)
qed (simp_all add: sample_engine_world_def sample_sim_world_def sample_world_def no_metrics_def load_decision_request_json_def
    sample_loads_def max_request_bytes_def)

subsection \<open>A request that is carried out\<close>

lemma sample_invocation:
  obtains res where "invocation (vf_resolver sample_verifier) ''1'' resolver_credential = Inr (sample_principal, Some res)"
    "verify_resolution (vf_resolver sample_verifier) res = Inr sample_principal"
proof -
  have "match_record (vf_resolver sample_verifier) resolver_credential = Some sample_principal"
    by (simp add: match_record_map_of sample_verifier_def)
  then obtain v where v: "resolve (vf_resolver sample_verifier) ''1'' resolver_credential = Inr v" "rp_principal v = sample_principal"
    by (auto simp: resolve_def resolver_credential_def Let_def)
  note ok = resolved_verifies [OF v(1), unfolded v(2)]
  show thesis by (rule that [OF _ ok]) (simp add: invocation_def v(1) ok)
qed

lemma sample_load:
  "load_decision_request_json (\<lambda>_. True) sample_loads sample_now ''request'' = Inr decided_request"
  using decided_request_validates
  by (simp add: load_decision_request_json_def sample_loads_def max_request_bytes_def is_dict_def request_to_dict_def)

lemma build_decision_given: "i \<noteq> [] \<Longrightarrow> build_decision factory fresh (Some i) = build_decision factory fresh' (Some i)"
  by (intro ext) (simp only: build_decision_def or_default_def option.case if_False)

lemma sample_evaluation:
  assumes "verify_resolution (vf_resolver sample_verifier) res = Inr sample_principal"
  obtains e c d v where
    "assess_evidence (po_evidence verifier_policy) sample_keys sample_now decided_request = Inr e"
    "assess_consequence (sample_target ''ws-1'') sample_action (po_consequence verifier_policy)
      (ac_parameters (dr_action decided_request)) = Inr c"
    "build_decision (Some (\<lambda>rq. fst (issue_requirement sample_gate ''a-1'' sample_now rq no_approvals))) []
      (Some ''d-1'') sample_now decided_request sample_principal verifier_policy e c (sample_target ''ws-1'') sample_action = Inr d"
    "dn_outcome d = ''ALLOW''" "dn_approval_requirement d = None" "dn_permitted_action d = Some (JObj [(''type'', JStr ''NETWORK_ISOLATE''),
      (''target'', JStr ''ws-1''), (''parameters'', sample_command)])"
    "verify_decision sample_verifier (\<lambda>_. True) no_approvals sample_readings decided_request sample_principal res
      verifier_policy (sample_target ''ws-1'') d sample_now = Inr v" "dv_passed v" "dv_verification_id v = ''v-1''"
proof (rule verified_sample)
  fix resolution d e c
  assume r: "assess_evidence (po_evidence verifier_policy) (vf_attestation_keys sample_verifier) (whole_second sample_now) decided_request
      = Inr e"
    "assess_consequence (sample_target ''ws-1'') sample_action (po_consequence verifier_policy)
      (ac_parameters (dr_action decided_request)) = Inr c"
    "build_decision (Some (\<lambda>rq. fst (issue_requirement (vf_approval sample_verifier) ''a-1'' sample_now rq no_approvals))) ''1''
      (Some ''d-1'') (whole_second sample_now) decided_request sample_principal verifier_policy e c (sample_target ''ws-1'')
      sample_action = Inr d"
    and d: "dn_outcome d = ''ALLOW''" "dn_approval_requirement d = None"
  have did: "''d-1'' \<noteq> []" by simp
  note f = build_decision_shape [OF r(3) did]
  have p: "dn_permitted_action d = Some (JObj [(''type'', JStr ''NETWORK_ISOLATE''), (''target'', JStr ''ws-1''),
      (''parameters'', sample_command)])"
    unfolding f(12) d(1)
    by (simp add: permitted_action_for_def automatic_outcomes_def sample_target_def constrain_parameters_def sample_action_def
        sample_policy_def decided_request_def evidence_request_def sample_request_def Let_def parameters_to_dict_def sample_command_def)
  obtain v where v: "verify_decision sample_verifier (\<lambda>_. True) no_approvals sample_readings decided_request sample_principal
     res verifier_policy (sample_target ''ws-1'') d sample_now = Inr v" "dv_passed v"
    using recomputed_decision_passes [OF verifier_policy_loads decided_request_validates assms sample_request_facts(1,2) r did _
        sample_request_facts(3), of no_approvals sample_readings]
    by (auto simp: d sample_times(2) sample_request_facts(4) [unfolded sample_times(2)])
  have vid: "dv_verification_id v = ''v-1''"
    by (rule verify_decision_Inr [OF v(1)]) (simp add: Let_def draft_verification_def sample_readings_def)
  show thesis
  proof (rule that [OF _ r(2) _ d p v vid])
    show "build_decision (Some (\<lambda>rq. fst (issue_requirement sample_gate ''a-1'' sample_now rq no_approvals))) []
        (Some ''d-1'') sample_now decided_request sample_principal verifier_policy e c (sample_target ''ws-1'') sample_action = Inr d"
      using r(3) by (simp add: sample_times(2) build_decision_given [of "''d-1''" _ "[]" "''1''"])
  qed (use r(1) in \<open>simp add: sample_times(2)\<close>)
qed

lemma sample_claim:
  obtains l where "claim_request sample_clock ''agent-1'' (dr_request_id decided_request) (request_sha256 decided_request)
      (Some (isoformat sample_now)) (aw_ledger sample_world) = Inr (NewRequest, l)"
    "authorization_states l = []" "verification_ids l = {}" "decision_ids l = {}" "attempts l = []" "token_attempts l = []"
  by (rule that [of "append_event sample_clock ''REQUEST_CLAIMED'' (''agent-1'' @ '':'' @ dr_request_id decided_request)
        [(''request_sha256'', JStr (request_sha256 decided_request))]
        ((aw_ledger sample_world)\<lparr>requests := dict_set (''agent-1'', dr_request_id decided_request) (request_sha256 decided_request)
           (requests (aw_ledger sample_world))\<rparr>)"])
    (simp_all add: claim_request_def sample_world_def empty_ledger_def append_event_def is_identifier_def request_sha256_def
      decided_request_def evidence_request_def sample_request_def check_optional_timestamp_def sample_times)

lemma sample_engine_issue:
  assumes "authorization_states l = []" "verification_ids l = {}" "decision_ids l = {}" "attempts l = []" "token_attempts l = []"
    "dn_outcome d = ''ALLOW''" "dn_decision_id d = ''d-1''" "dn_permitted_action d = Some (JObj [(''type'', JStr ''NETWORK_ISOLATE''),
      (''target'', JStr ''ws-1''), (''parameters'', sample_command)])"
    "verification_bound sample_auth_gate sample_now d ''agent-1'' v = Inr True" "dv_verification_id v = ''v-1''"
  obtains t l2 where "issue sample_auth_gate sample_clock ''t-1'' ''n-1'' sample_now d ''agent-1'' sample_state_sha v
      (sample_world\<lparr>aw_ledger := l\<rparr>) = (Inr t, sample_world\<lparr>aw_ledger := l2\<rparr>)"
    "attempts l2 = []" "token_attempts l2 = []" "tk_token_id t = ''t-1''" "tk_request_id t = dn_request_id d"
    "tk_decision_id t = ''d-1''" "tk_agent_id t = ''agent-1''" "tk_action_type t = ''NETWORK_ISOLATE''" "tk_target_id t = ''ws-1''"
    "tk_permitted_parameters t = sample_command" "tk_policy_id t = dn_policy_id d" "tk_policy_version t = dn_policy_version d"
    "tk_policy_sha256 t = dn_policy_sha256 d" "tk_decision_context_sha256 t = dn_decision_context_sha256 d"
    "tk_target_state_sha256 t = sample_state_sha"
proof -
  let ?p = "JObj [(''type'', JStr ''NETWORK_ISOLATE''), (''target'', JStr ''ws-1''), (''parameters'', sample_command)]"
  obtain t where t: "draft_token sample_auth_gate ''t-1'' ''n-1'' sample_now d ''agent-1'' sample_state_sha ?p = Inr t"
    by (simp add: draft_token_def get_as_def as_str_def as_dict_def sample_command_def sample_auth_gate_def sample_times Let_def)
  note f = draft_token_Inr [OF t]
  obtain l2 where l2: "register sample_clock ''t-1'' (Some ''v-1'') (Some ''d-1'') (Some (isoformat sample_now)) l = Inr l2"
    using assms(1-3) sample_times(4) by (simp add: register_def check_optional_timestamp_def is_identifier_def or_default_def)
  have "issue sample_auth_gate sample_clock ''t-1'' ''n-1'' sample_now d ''agent-1'' sample_state_sha v
      (sample_world\<lparr>aw_ledger := l\<rparr>) = (Inr t, sample_world\<lparr>aw_ledger := l2\<rparr>)"
    using t l2 f(6) assms(6-10) by (simp add: issue_def sample_times Let_def automatic_outcomes_def)
  then show thesis
    using register_attempts [OF l2] f assms(4,5,7)
    by (intro that [of t l2]) (simp_all add: get_as_def as_str_def as_dict_def sample_command_def)
qed

lemma consume_reserves_recorded:
  assumes "auth_of l t = Some Issued" "map_of (attempts l) a = None" "map_of (token_attempts l) t = None"
    "is_identifier t" "is_identifier a" "is_sha256 key" "is_offset_timestamp tm" "validate_recovery_summary s = Inr s"
  obtains l' row where "consume_once now t (Some a) (Some key) (Some tm) (Some key) (Some s) l = Inr l'"
    "map_of (attempts l') a = Some row" "at_state row = Reserved"
  using assms
  by (auto simp: consume_once_def check_consume_arguments_def check_reservation_def auth_of_def or_default_def is_sha256_def
      reserve_attempt_def append_event_def map_of_dict_set Let_def split: prod.splits)

text \<open>The broker carries out a call that is bound to a freshly issued token.\<close>

lemma sample_call_executes:
  assumes "ex_token call = Some t" "normalize_command (ex_command call) = Some (''NETWORK_ISOLATE'', ''ws-1'', sample_command)"
    "\<forall>b \<in> set (token_binding_checks t (call_bindings call (''NETWORK_ISOLATE'', ''ws-1'', sample_command) sample_state_sha)). snd b"
    "issue sample_auth_gate sample_clock ''t-1'' n sample_now d agent sample_state_sha v a = (Inr t, auth)"
    "attempts (aw_ledger auth) = []" "token_attempts (aw_ledger auth) = []" "tk_token_id t = ''t-1''"
    "tk_target_state_sha256 t = sample_state_sha"
    "ex_recovery_summary call = Some s" "validate_recovery_summary s = Inr s"
  obtains r sim where "authorize_and_execute sample_boundary sample_clock ''attempt-1'' sample_now call (sample_sim_world auth)
      = (r, sim)" "map_of (sw_states sim) ''ws-1'' \<noteq> Some sample_state"
proof -
  let ?cmd = "(''NETWORK_ISOLATE'', ''ws-1'', sample_command)"
  let ?b = "call_bindings call ?cmd sample_state_sha" and ?key = "sha256_json (attempt_binding call t ?cmd sample_state_sha)"
  have valid: "validate_token sample_auth_gate sample_now t ?b (aw_ledger auth) = Inr ()"
    using assms(3) by (intro issued_token_validates [OF assms(4) sample_times(1)])
      (simp_all add: sample_times sample_auth_gate_def micros_def is_identifier_def)
  obtain l row where l: "consume_once sample_clock ''t-1'' (Some ''attempt-1'') (Some ?key)
      (Some (isoformat (whole_second sample_now))) (Some ?key) (Some s) (aw_ledger auth) = Inr l"
  proof (rule consume_reserves_recorded [of "aw_ledger auth" "''t-1''" "''attempt-1''" ?key "isoformat (whole_second sample_now)" s
        sample_clock])
    show "auth_of (aw_ledger auth) ''t-1'' = Some Issued" using validate_token_Inr(3) [OF valid] assms(7) by simp
  qed (use assms(5,6,10) sample_times in \<open>simp_all add: is_identifier_def\<close>)
  have consumed: "validate_and_consume sample_auth_gate sample_clock sample_now t ?b (Some ''attempt-1'') (Some ?key) (Some ?key)
      (Some s) auth = (Inr (), auth\<lparr>aw_ledger := l\<rparr>)"
    using valid l(1) assms(7) by (simp add: validate_and_consume_def)
  have "representable (sample_now + 600 * micros)" by code_simp
  then obtain m s' where tr: "apply_transition sample_boundary t ''attempt-1'' sample_now ?cmd sample_state = (Applied True m, s')"
    "ss_network_state s' = ''isolated''"
    using apply_transition_applied [of sample_state t sample_command 600 True sample_now sample_boundary "''attempt-1''" "''ws-1''"]
      assms(8) by (auto simp: sample_state_sha_def sample_command_def members_def sample_boundary_def)
  have parts: "bd_gate sample_boundary = sample_auth_gate" "sw_auth (sample_sim_world auth) = auth"
    "sw_bindings (sample_sim_world auth) = []" "observe_state ''ws-1'' (sample_sim_world auth) = Inr sample_state"
    by (simp_all add: sample_boundary_def sample_sim_world_def observe_state_def)
  have "\<exists>r sim. authorize_and_execute sample_boundary sample_clock ''attempt-1'' sample_now call (sample_sim_world auth) = (r, sim)
      \<and> sw_states sim = dict_set ''ws-1'' s' (sw_states (sample_sim_world auth))"
    unfolding authorize_and_execute_def parts assms(1,2,9) option.case sum.case Let_def split_conv
    using consumed
    by (simp add: parts sample_times sample_state_sha_def finish_execution_def tr(1) Let_def split: prod.split)
  moreover have "s' \<noteq> sample_state" using tr(2) by (auto simp: sample_state_def initial_state_def)
  ultimately show thesis using that by (auto simp: map_of_dict_set)
qed

definition isolated :: "'a \<times> engine_world \<Rightarrow> bool" where
  "isolated m \<longleftrightarrow> map_of (sw_states (ew_sim (snd m))) ''ws-1'' \<noteq> Some sample_state"

lemma isolated_quiet: "isolated (x, w) \<Longrightarrow> quiet w (snd m) \<Longrightarrow> isolated m"
  by (simp add: isolated_def quiet_def)

definition sample_recovery :: "decision_record \<Rightarrow> json" where
  "sample_recovery d = recovery_summary sample_principal decided_request ''d-1'' d"

lemma sample_recovery_valid:
  assumes "dn_outcome d = ''ALLOW''" "dn_decided_at d = isoformat sample_now" "dn_policy_sha256 d = sha256_json x"
    "dn_decision_context_sha256 d = sha256_json y"
  shows "validate_recovery_summary (sample_recovery d) = Inr (sample_recovery d)"
proof -
  have keys: "list_all (\<lambda>k. ascii_lower k \<notin> set authority_bearing_keys) recovery_summary_keys" by code_simp
  have "free_of_keys authority_bearing_keys (sample_recovery d)"
    using keys by (simp add: sample_recovery_def recovery_summary_def recovery_summary_keys_def)
  then have "reject_authority_bearing_keys authority_bearing_keys rc (sample_recovery d) = Inr ()" for rc
    by (simp add: reject_authority_bearing_keys_iff sample_recovery_def recovery_summary_def)
  then show ?thesis
    using assms sample_times(4)
    by (simp add: validate_recovery_summary_def Let_def sample_recovery_def recovery_summary_def obj_get_def closed_keys_def
        recovery_summary_keys_def json_identifier_def json_text_def json_sha256_def decision_outcomes_def is_identifier_def
        sample_principal_def decided_request_def evidence_request_def sample_request_def request_sha256_def authorization_sha256_def)
qed

text \<open>The world after the claim: only the ledger differs from the start.\<close>

definition claimed_sim :: "mem_ledger \<Rightarrow> sim_world" where
  "claimed_sim l = sample_sim_world (sample_world\<lparr>aw_ledger := l\<rparr>)"

text \<open>What \<open>sample_evaluation\<close> says of decision and receipt.\<close>

definition allowed_sample :: "decision_record \<Rightarrow> decision_verification \<Rightarrow> bool" where
  "allowed_sample d v \<longleftrightarrow> dn_outcome d = ''ALLOW'' \<and> dn_decision_id d = ''d-1'' \<and> dn_request_id d = dr_request_id decided_request
     \<and> dn_decided_at d = isoformat sample_now \<and> dn_policy_id d = po_policy_id verifier_policy
     \<and> dn_policy_version d = po_version verifier_policy \<and> dn_policy_sha256 d = sha256_json (policy_to_dict verifier_policy)
     \<and> (\<exists>y. dn_decision_context_sha256 d = sha256_json y)
     \<and> dn_permitted_action d = Some (JObj [(''type'', JStr ''NETWORK_ISOLATE''), (''target'', JStr ''ws-1''),
         (''parameters'', sample_command)])
     \<and> dv_passed v \<and> dv_verification_id v = ''v-1''
     \<and> verification_bound sample_auth_gate sample_now d ''agent-1'' v = Inr True"

lemma sample_authorized:
  assumes log: "logged start w xs" and sim: "ew_sim w = claimed_sim l"
    and l: "authorization_states l = []" "verification_ids l = {}" "decision_ids l = {}" "attempts l = []" "token_attempts l = []"
    and d: "allowed_sample d v"
  shows "isolated (authorize_decision sample_engine sample_engine_readings start
    \<lparr>co_intake = i, co_request = dr_request_id decided_request, co_decision = ''d-1''\<rparr> n sample_principal decided_request
    (tr_id (sample_target ''ws-1'')) d v w)"
proof -
  let ?c = "\<lparr>co_intake = i, co_request = dr_request_id decided_request, co_decision = ''d-1''\<rparr>"
  obtain t l2 where t: "issue sample_auth_gate sample_clock ''t-1'' ''n-1'' sample_now d ''agent-1'' sample_state_sha v
      (sample_world\<lparr>aw_ledger := l\<rparr>) = (Inr t, sample_world\<lparr>aw_ledger := l2\<rparr>)"
    "attempts l2 = []" "token_attempts l2 = []" "tk_token_id t = ''t-1''" "tk_request_id t = dn_request_id d"
    "tk_decision_id t = ''d-1''" "tk_agent_id t = ''agent-1''" "tk_action_type t = ''NETWORK_ISOLATE''" "tk_target_id t = ''ws-1''"
    "tk_permitted_parameters t = sample_command" "tk_policy_id t = dn_policy_id d" "tk_policy_version t = dn_policy_version d"
    "tk_policy_sha256 t = dn_policy_sha256 d" "tk_decision_context_sha256 t = dn_decision_context_sha256 d"
    "tk_target_state_sha256 t = sample_state_sha"
    by (rule sample_engine_issue [OF l, of d v]) (use d in \<open>auto simp: allowed_sample_def\<close>)
  let ?w = "w\<lparr>ew_sim := claimed_sim l2\<rparr>" and ?before = "sim_state_to_dict sample_state"
  let ?command = "JObj [(''type'', JStr ''NETWORK_ISOLATE''), (''target'', JStr ''ws-1''), (''parameters'', sample_command)]"
  let ?call = "execution_call sample_engine ?c sample_principal decided_request d t ?command"
  have obs: "observe ''ws-1'' (claimed_sim l) = Inr sample_state"
    by (simp add: observe_def observe_state_def claimed_sim_def sample_sim_world_def)
  have claimed: "sw_auth (claimed_sim l) = sample_world\<lparr>aw_ledger := l\<rparr>"
    "(claimed_sim l)\<lparr>sw_auth := sample_world\<lparr>aw_ledger := l2\<rparr>\<rparr> = claimed_sim l2" "pr_id sample_principal = ''agent-1''"
    by (simp_all add: claimed_sim_def sample_sim_world_def sample_principal_def)
  have "sha256_json ?before = sample_state_sha" by (simp add: sample_state_sha_def)
  then have iss: "issue_authorization sample_engine sample_engine_readings sample_principal ''ws-1'' d v w = (Inr (?before, t), ?w)"
    using t(1) by (simp add: issue_authorization_def sim obs claimed)
  obtain al where al: "log_rows sample_engine_readings ?c
      [(''DECISION_PRODUCED'', decision_payload d), (''AUTHORIZATION_PRODUCED'', authorization_payload t v),
       (''BROKER_INVOKED'', broker_payload t (dict_of ?command))] ?w = (Inr (), ?w\<lparr>ew_log := al\<rparr>)"
    by (rule log_rows_logged [OF logged_log [OF log, of ?w]]) simp
  have normal: "normalize_command (ex_command ?call) = Some (''NETWORK_ISOLATE'', ''ws-1'', sample_command)"
    by (simp add: execution_call_def normalize_command_def command_dict_def command_keys_def sample_command_def)
  have "json_keys_distinct sample_command" by (simp add: sample_command_def)
  then have bound: "\<forall>b \<in> set (token_binding_checks t (call_bindings ?call (''NETWORK_ISOLATE'', ''ws-1'', sample_command) sample_state_sha)).
      snd b"
    using d by (simp add: token_binding_checks_def call_bindings_def execution_call_def t py_eq_refl allowed_sample_def
        sample_principal_def)
  obtain r sim' where ex: "authorize_and_execute sample_boundary sample_clock ''attempt-1'' sample_now ?call (claimed_sim l2) = (r, sim')"
    "map_of (sw_states sim') ''ws-1'' \<noteq> Some sample_state"
    unfolding claimed_sim_def
  proof (rule sample_call_executes [OF _ normal bound t(1) _ _ t(4,15)])
    show "validate_recovery_summary (sample_recovery d) = Inr (sample_recovery d)"
      using d sample_recovery_valid by (auto simp: allowed_sample_def)
  qed (use t in \<open>simp_all add: execution_call_def sample_recovery_def\<close>)
  have iso: "isolated ((), ?w\<lparr>ew_log := al, ew_sim := sim'\<rparr>)" using ex(2) by (simp add: isolated_def)
  have d': "dn_permitted_action d = Some ?command" "dv_passed v" "dn_outcome d \<in> set automatic_outcomes"
    using d by (simp_all add: allowed_sample_def automatic_outcomes_def)
  have "isolated (execute_authorized sample_engine sample_engine_readings start ?c n sample_principal decided_request ''ws-1'' d v
      ?before t ?w)"
    using ex(1) by (cases r) (simp_all add: execute_authorized_def al d'(1) isolated_quiet [OF iso] Let_def)
  then show ?thesis
    using d' by (simp add: authorize_decision_def iss on_result_def sample_target_def)
qed

lemma sample_allowed:
  assumes "verify_resolution (vf_resolver sample_verifier) res = Inr sample_principal"
  obtains e c d v where
    "assess_evidence (po_evidence verifier_policy) sample_keys sample_now decided_request = Inr e"
    "assess_consequence (sample_target ''ws-1'') sample_action (po_consequence verifier_policy)
      (ac_parameters (dr_action decided_request)) = Inr c"
    "build_decision (Some (\<lambda>rq. fst (issue_requirement sample_gate ''a-1'' sample_now rq no_approvals))) []
      (Some ''d-1'') sample_now decided_request sample_principal verifier_policy e c (sample_target ''ws-1'') sample_action = Inr d"
    "dn_approval_requirement d = None"
    "verify_decision sample_verifier (\<lambda>_. True) no_approvals sample_readings decided_request sample_principal res
      verifier_policy (sample_target ''ws-1'') d sample_now = Inr v" "allowed_sample d v"
proof (rule sample_evaluation [OF assms])
  fix e c d v
  assume e: "assess_evidence (po_evidence verifier_policy) sample_keys sample_now decided_request = Inr e"
    "assess_consequence (sample_target ''ws-1'') sample_action (po_consequence verifier_policy)
      (ac_parameters (dr_action decided_request)) = Inr c"
    "build_decision (Some (\<lambda>rq. fst (issue_requirement sample_gate ''a-1'' sample_now rq no_approvals))) []
      (Some ''d-1'') sample_now decided_request sample_principal verifier_policy e c (sample_target ''ws-1'') sample_action = Inr d"
    and d: "dn_outcome d = ''ALLOW''" "dn_approval_requirement d = None"
    "dn_permitted_action d = Some (JObj [(''type'', JStr ''NETWORK_ISOLATE''),
      (''target'', JStr ''ws-1''), (''parameters'', sample_command)])"
    and v: "verify_decision sample_verifier (\<lambda>_. True) no_approvals sample_readings decided_request sample_principal res
      verifier_policy (sample_target ''ws-1'') d sample_now = Inr v" "dv_passed v" "dv_verification_id v = ''v-1''"
  have "''d-1'' \<noteq> []" by simp
  note f = build_decision_shape [OF e(3) this]
  have "verification_bound sample_auth_gate sample_now d (pr_id sample_principal) v = Inr True"
    by (rule verified_decision_bound [OF v(1,2)])
      (simp_all add: sample_auth_gate_def sample_verifier_def sample_readings_def sample_times micros_def)
  then have "verification_bound sample_auth_gate sample_now d ''agent-1'' v = Inr True"
    by (simp add: sample_principal_def)
  moreover have "\<exists>y. dn_decision_context_sha256 d = sha256_json y"
    using e(3) d(1) by (auto simp: build_decision_def Let_def split: prod.splits if_splits option.splits)
  ultimately have "allowed_sample d v" using d v f by (simp add: allowed_sample_def sample_times(2))
  then show thesis by (intro that [OF e d(2) v(1)])
qed

lemma sample_processed:
  obtains out w' where "process_json sample_engine (\<lambda>_. True) sample_loads ''1'' sample_engine_readings ''request''
      resolver_credential sample_engine_world = (out, w')" "touched ''ws-1'' sample_engine_world w'"
proof -
  let ?rd = sample_engine_readings and ?raw = "''request''" and ?t = "sample_target ''ws-1''"
  obtain res where res: "invocation (vf_resolver sample_verifier) ''1'' resolver_credential = Inr (sample_principal, Some res)"
    "verify_resolution (vf_resolver sample_verifier) res = Inr sample_principal"
    by (rule sample_invocation)
  obtain e c d v where ev: "assess_evidence (po_evidence verifier_policy) sample_keys sample_now decided_request = Inr e"
    "assess_consequence ?t sample_action (po_consequence verifier_policy) (ac_parameters (dr_action decided_request)) = Inr c"
    "build_decision (Some (\<lambda>rq. fst (issue_requirement sample_gate ''a-1'' sample_now rq no_approvals))) []
      (Some ''d-1'') sample_now decided_request sample_principal verifier_policy e c ?t sample_action = Inr d"
    "dn_approval_requirement d = None"
    "verify_decision sample_verifier (\<lambda>_. True) no_approvals sample_readings decided_request sample_principal res
      verifier_policy ?t d sample_now = Inr v" "allowed_sample d v"
    by (rule sample_allowed [OF res(2)])
  define i where "i = co_intake (intake_correlation ?rd ?raw)"
  let ?c = "\<lparr>co_intake = i, co_request = dr_request_id decided_request, co_decision = ''d-1''\<rparr>"
  have c: "(intake_correlation ?rd ?raw)\<lparr>co_request := dr_request_id decided_request\<rparr> = ?c"
    by (simp add: i_def intake_correlation_def Let_def)
  have verified: "isolated (verify_evaluated sample_engine (\<lambda>_. True) ?rd start ?c sample_principal (Some res) decided_request ?t n d w)"
    if w: "logged start w xs" "ew_sim w = claimed_sim l" "ew_approvals w = no_approvals"
      and l: "authorization_states l = []" "verification_ids l = {}" "decision_ids l = {}" "attempts l = []" "token_attempts l = []"
    for start n w xs l
  proof -
    obtain al where al: "log_rows ?rd ?c [dict_row ''DECISION_VERIFIED'' (verification_unsigned_dict v)] w = (Inr (), w\<lparr>ew_log := al\<rparr>)"
      "logged start (w\<lparr>ew_log := al\<rparr>) (xs @ stamped ?c [dict_row ''DECISION_VERIFIED'' (verification_unsigned_dict v)])"
      by (rule log_rows_logged [OF w(1)])
    show ?thesis
      using sample_authorized [OF al(2) _ l ev(6)] w(2)
      by (simp add: verify_evaluated_def verify_step_def w(3) ev(5) al(1))
  qed
  have claimed: "isolated (evaluate_claimed sample_engine (\<lambda>_. True) ?rd start ?c sample_principal (Some res) decided_request ?t
      sample_action w)"
    if w: "logged start w xs" "ew_sim w = claimed_sim l" "ew_approvals w = no_approvals"
      and l: "authorization_states l = []" "verification_ids l = {}" "decision_ids l = {}" "attempts l = []" "token_attempts l = []"
    for start w xs l
  proof -
    let ?r1 = "[dict_row ''IDENTITY_EVALUATED'' (authority_to_dict (assess_authority decided_request sample_principal
        (required_authority_for sample_action ?t)))]"
    obtain al1 where al1: "log_rows ?rd ?c ?r1 w = (Inr (), w\<lparr>ew_log := al1\<rparr>)" "logged start (w\<lparr>ew_log := al1\<rparr>) (xs @ stamped ?c ?r1)"
      by (rule log_rows_logged [OF w(1)])
    let ?r2 = "[dict_row ''EVIDENCE_EVALUATED'' (evidence_assessment_to_dict e)]"
    obtain al2 where al2: "log_rows ?rd ?c ?r2 (w\<lparr>ew_log := al1\<rparr>) = (Inr (), w\<lparr>ew_log := al2\<rparr>)"
      "logged start (w\<lparr>ew_log := al2\<rparr>) ((xs @ stamped ?c ?r1) @ stamped ?c ?r2)"
      by (rule log_rows_logged [OF al1(2), of ?rd ?c ?r2]) simp
    let ?r3 = "[dict_row ''CONSEQUENCE_EVALUATED'' (consequence_to_dict c)]"
    obtain al3 where al3: "log_rows ?rd ?c ?r3 (w\<lparr>ew_log := al2\<rparr>) = (Inr (), w\<lparr>ew_log := al3\<rparr>)"
      "logged start (w\<lparr>ew_log := al3\<rparr>) (((xs @ stamped ?c ?r1) @ stamped ?c ?r2) @ stamped ?c ?r3)"
      by (rule log_rows_logged [OF al2(2), of ?rd ?c ?r3]) simp
    have same: "w\<lparr>ew_log := al3, ew_approvals := no_approvals\<rparr> = w\<lparr>ew_log := al3\<rparr>" using w(3) by (cases w) simp
    have "evaluate sample_engine ?rd ?c decided_request sample_principal ?t sample_action (w\<lparr>ew_log := al1\<rparr>)
        = (Inr (e, d), w\<lparr>ew_log := al3\<rparr>)"
      by (simp add: evaluate_def ev(1,2) al2(1) al3(1) decide_step_def w(3) ev(3,4) register_issued_def same)
    moreover obtain al4 where al4: "log_rows ?rd ?c [policy_row d] (w\<lparr>ew_log := al3\<rparr>) = (Inr (), w\<lparr>ew_log := al4\<rparr>)"
      "logged start (w\<lparr>ew_log := al4\<rparr>) ((((xs @ stamped ?c ?r1) @ stamped ?c ?r2) @ stamped ?c ?r3) @ stamped ?c [policy_row d])"
      by (rule log_rows_logged [OF al3(2), of ?rd ?c "[policy_row d]"]) simp
    ultimately show ?thesis
      using verified [OF al4(2) _ _ l] w(2,3) by (simp add: evaluate_claimed_def al1(1) on_result_def)
  qed
  obtain l where l: "claim_request sample_clock ''agent-1'' (dr_request_id decided_request) (request_sha256 decided_request)
      (Some (isoformat sample_now)) (aw_ledger sample_world) = Inr (NewRequest, l)"
    "authorization_states l = []" "verification_ids l = {}" "decision_ids l = {}" "attempts l = []" "token_attempts l = []"
    by (rule sample_claim)
  have admitted: "isolated (admit sample_engine (\<lambda>_. True) ?rd start ?c sample_principal (Some res) decided_request w)"
    if w: "logged start w xs" "ew_sim w = sample_sim_world sample_world" "ew_approvals w = no_approvals" for start w xs
  proof -
    have cs: "claim_step ?rd sample_principal decided_request w = (None, w\<lparr>ew_sim := claimed_sim l\<rparr>)"
      using l(1) by (simp add: claim_step_def w(2) claimed_sim_def sample_sim_world_def sample_principal_def Let_def)
    have who: "pr_authenticated sample_principal" "pr_security_status sample_principal = Trusted"
      "claims_match sample_principal (dr_agent decided_request)"
      by (simp_all add: sample_principal_def claims_match_def decided_request_def evidence_request_def sample_request_def same_set_def)
    have age: "preflight_reason sample_now decided_request = None"
      using sample_request_facts(3) by (simp add: preflight_reason_def max_request_age_seconds_def micros_def)
    have cat: "catalogued verifier_policy decided_request = Inr (?t, sample_action)"
      using sample_request_facts(1,2) by (simp add: catalogued_def item_def)
    show ?thesis
      using claimed [OF logged_log [OF w(1), of "w\<lparr>ew_sim := claimed_sim l\<rparr>"] _ _ l(2-6)] w(3)
      by (simp add: admit_def who age cat cs)
  qed
  let ?w = sample_engine_world and ?intake = "intake_correlation ?rd ?raw"
  have good: "good_log (ew_log ?w)" by (simp add: sample_engine_world_def good_new)
  obtain al0 where al0: "log_rows ?rd ?intake [received_row ?raw] ?w = (Inr (), ?w\<lparr>ew_log := al0\<rparr>)"
    "logged (length (al_rows (ew_log ?w))) (?w\<lparr>ew_log := al0\<rparr>) ([] @ stamped ?intake [received_row ?raw])"
    by (rule log_rows_logged [OF logged_start [OF good]])
  obtain al1 where al1: "log_rows ?rd ?c [validated_row decided_request] (?w\<lparr>ew_log := al0\<rparr>) = (Inr (), ?w\<lparr>ew_log := al1\<rparr>)"
    "logged (length (al_rows (ew_log ?w))) (?w\<lparr>ew_log := al1\<rparr>)
      (([] @ stamped ?intake [received_row ?raw]) @ stamped ?c [validated_row decided_request])"
    by (rule log_rows_logged [OF al0(2), of ?rd ?c "[validated_row decided_request]"]) simp
  have "load_decision_request_json (\<lambda>_. True) sample_loads (rd_now ?rd) ?raw = Inr decided_request" by (simp add: sample_load)
  then have step: "process_received sample_engine (\<lambda>_. True) sample_loads ?rd start ?intake ?raw sample_principal (Some res) (?w\<lparr>ew_log := al0\<rparr>)
      = admit sample_engine (\<lambda>_. True) ?rd start ?c sample_principal (Some res) decided_request (?w\<lparr>ew_log := al1\<rparr>)" for start
    by (simp add: process_received_def Let_def c al1(1))
  have "isolated (process_authenticated sample_engine (\<lambda>_. True) sample_loads ?rd ?raw sample_principal (Some res) ?w)"
    unfolding process_authenticated_def Let_def al0(1) run_then_Inr step
    by (rule admitted [OF al1(2)]) (simp_all add: sample_engine_world_def)
  moreover obtain out1 w1 where p: "process_authenticated sample_engine (\<lambda>_. True) sample_loads ?rd ?raw sample_principal (Some res) ?w
      = (out1, w1)" by fastforce
  ultimately have w1: "touched ''ws-1'' ?w w1"
    by (simp add: isolated_def touched_def sample_engine_world_def sample_sim_world_def)
  obtain out w' where r: "process_json sample_engine (\<lambda>_. True) sample_loads ''1'' ?rd ?raw resolver_credential ?w = (out, w')"
    by fastforce
  have "sw_states (ew_sim w') = sw_states (ew_sim w1)"
    using r record_outcome_frame(1)
    by (cases out1) (auto simp: process_json_def res(1) p run_then_def on_result_def Let_def split: if_splits)
  then show thesis using that [OF r] w1 by (simp add: touched_def)
qed

theorem engine_effect_justified_witness:
  "\<exists>out w' r who resolution tok.
     process_json sample_engine (\<lambda>_. True) sample_loads ''1'' sample_engine_readings ''request'' resolver_credential
       sample_engine_world = (out, w')
     \<and> load_decision_request_json (\<lambda>_. True) sample_loads sample_now ''request'' = Inr r
     \<and> effect_behind sample_engine sample_engine_readings who resolution r tok
     \<and> auth_of (aw_ledger (sw_auth (ew_sim w'))) (tk_token_id tok) = Some Consumed"
proof (rule sample_processed)
  fix out w'
  assume p: "process_json sample_engine (\<lambda>_. True) sample_loads ''1'' sample_engine_readings ''request''
      resolver_credential sample_engine_world = (out, w')" "touched ''ws-1'' sample_engine_world w'"
  have "policy_from_dict (\<lambda>_. True) (policy_to_dict verifier_policy) = Inr (en_policy sample_engine)"
    by (simp add: verifier_policy_loads)
  from engine_effect_justified [OF this p] p(1) show ?thesis by auto
qed

theorem request_executes_once_witness:
  "distinct (fst (engine_run sample_engine (\<lambda>_. True) sample_loads
     (replicate 2 \<lparr>ca_fresh = ''1'', ca_readings = sample_engine_readings, ca_raw = ''request'', ca_credential = resolver_credential\<rparr>)
     sample_engine_world))"
proof -
  have "policy_from_dict (\<lambda>_. True) (policy_to_dict verifier_policy) = Inr (en_policy sample_engine)"
    by (simp add: verifier_policy_loads)
  from request_executes_once [OF this] show ?thesis by blast
qed

theorem engine_stays_sound_witness:
  "engine_sound (snd (process_json sample_engine (\<lambda>_. True) sample_loads ''1'' sample_engine_readings ''request'' resolver_credential
     sample_engine_world))"
  using engine_stays_sound [OF sample_engine_sound] by blast

end
