(* ===== verification/P1Case.thy ===== *)
theory P1Case
  imports PyJson PyTime
begin

text \<open>
  The data of the phase 1 firewall (\<open>schemas.py\<close>, \<open>execution.py\<close>): evidence events, identity cases, dispositions
  and execution modes, with their JSON form. A \<open>number\<close> is an \<open>int\<close> or a finite \<open>float\<close> as decoded from JSON.
  Fields hold values of the types the source declares; \<open>attributes\<close> holds any JSON object.
\<close>

subsection \<open>Loops that may raise\<close>

text \<open>\<open>for x in xs\<close> over a state: the first raise ends the loop.\<close>

fun fold_result :: "('a \<Rightarrow> 's \<Rightarrow> ('e, 's) result) \<Rightarrow> 'a list \<Rightarrow> 's \<Rightarrow> ('e, 's) result" where
  "fold_result f [] s = Inr s"
| "fold_result f (x # xs) s = and_then (f x s) (fold_result f xs)"

lemma fold_result_append: "fold_result f (xs @ ys) s = and_then (fold_result f xs s) (fold_result f ys)"
proof (induction xs arbitrary: s)
  case (Cons x xs)
  then show ?case by (cases "f x s") simp_all
qed simp

lemma fold_result_cong:
  assumes "\<And>x s. x \<in> set xs \<Longrightarrow> f x s = g x s"
  shows "fold_result f xs s = fold_result g xs s"
  using assms
proof (induction xs arbitrary: s)
  case (Cons x xs)
  have "f x s = g x s" by (simp add: Cons.prems)
  moreover have "fold_result f xs = fold_result g xs" using Cons by (simp add: fun_eq_iff)
  ultimately show ?case by simp
qed simp

text \<open>A property of the state that every pass keeps holds after the loop; a pass that never raises gives a loop that
  never raises.\<close>

lemma fold_result_invariant:
  assumes "fold_result f xs s = Inr s'" and "P s"
    and "\<And>x t t'. x \<in> set xs \<Longrightarrow> P t \<Longrightarrow> f x t = Inr t' \<Longrightarrow> P t'"
  shows "P s'"
  using assms
proof (induction xs arbitrary: s)
  case (Cons x xs)
  then obtain t where "f x s = Inr t" "fold_result f xs t = Inr s'" by auto
  with Cons show ?case by (metis list.set_intros)
qed simp

lemma fold_result_total:
  assumes "P s" and "\<And>x t. x \<in> set xs \<Longrightarrow> P t \<Longrightarrow> f x t = Inr (g x t) \<and> P (g x t)"
  shows "fold_result f xs s = Inr (fold g xs s) \<and> P (fold g xs s)"
  using assms
proof (induction xs arbitrary: s)
  case (Cons x xs)
  have "f x s = Inr (g x s) \<and> P (g x s)" using Cons.prems by simp
  with Cons show ?case by simp
qed simp

subsection \<open>Dictionaries\<close>

definition dict_default :: "('k \<times> 'v) list \<Rightarrow> 'k \<Rightarrow> 'v \<Rightarrow> 'v" where
  "dict_default d k z = (case map_of d k of Some v \<Rightarrow> v | None \<Rightarrow> z)"

text \<open>\<open>d[k].append(v)\<close> and \<open>d[k].extend(vs)\<close> of a \<open>defaultdict(list)\<close>.\<close>

definition dict_extend :: "'k \<Rightarrow> 'v list \<Rightarrow> ('k \<times> 'v list) list \<Rightarrow> ('k \<times> 'v list) list" where
  "dict_extend k vs d = dict_set k (dict_default d k [] @ vs) d"

lemma dict_default_set [simp]:
  "dict_default (dict_set k v d) k' z = (if k' = k then v else dict_default d k' z)"
  by (simp add: dict_default_def map_of_dict_set)

lemma dict_default_extend [simp]:
  "dict_default (dict_extend k vs d) k' [] = (if k' = k then dict_default d k [] @ vs else dict_default d k' [])"
  by (simp add: dict_extend_def)

lemma keys_dict_extend: "fst ` set (dict_extend k vs d) = insert k (fst ` set d)"
  by (simp add: dict_extend_def keys_dict_set)

lemma dict_set_keeps_keys: "k \<in> fst ` set d \<Longrightarrow> map fst (dict_set k v d) = map fst d"
  by (induction d) (auto simp: rev_image_eqI)

lemma dict_set_twice [simp]: "dict_set k v' (dict_set k v d) = dict_set k v' d"
  by (induction d) auto

subsection \<open>Numbers\<close>

datatype number = IntNumber int | FloatNumber rat

fun number_value :: "number \<Rightarrow> rat" where
  "number_value (IntNumber n) = of_int n"
| "number_value (FloatNumber x) = x"

fun number_json :: "number \<Rightarrow> json" where
  "number_json (IntNumber n) = JInt n"
| "number_json (FloatNumber x) = JFloat x"

text \<open>\<open>float(value)\<close>: an \<open>int\<close> from \<open>2 ^ 1024 - 2 ^ 970\<close> on rounds past the largest float and raises.\<close>

fun py_float :: "number \<Rightarrow> (pystr, rat) result" where
  "py_float (IntNumber n) = (if \<bar>n\<bar> < 2 ^ 1024 - 2 ^ 970 then Inr (fl (of_int n)) else Inl ''OverflowError'')"
| "py_float (FloatNumber x) = Inr x"

fun json_number :: "json \<Rightarrow> number option" where
  "json_number (JInt n) = Some (IntNumber n)"
| "json_number (JFloat x) = Some (FloatNumber x)"
| "json_number _ = None"

lemma json_number_json [simp]: "json_number (number_json n) = Some n"
  by (cases n) simp_all

lemma json_number_Some: "json_number j = Some n \<longleftrightarrow> j = number_json n"
  by (cases j; cases n) auto

lemma number_json_simps [simp]:
  "number_json x = number_json y \<longleftrightarrow> x = y"
  "number_json x = JInt n \<longleftrightarrow> x = IntNumber n" "JInt n = number_json x \<longleftrightarrow> x = IntNumber n"
  "number_json x = JFloat r \<longleftrightarrow> x = FloatNumber r" "JFloat r = number_json x \<longleftrightarrow> x = FloatNumber r"
  "number_json x \<noteq> JNull" "number_json x \<noteq> JBool b" "number_json x \<noteq> JStr s"
  "number_json x \<noteq> JList js" "number_json x \<noteq> JObj kvs"
  by (cases x; cases y; auto)+

subsection \<open>Cases\<close>

datatype case_disposition = NoAction | Investigate | ContainReversible | EscalateHuman

fun disposition_text :: "case_disposition \<Rightarrow> pystr" where
  "disposition_text NoAction = ''NO_ACTION''"
| "disposition_text Investigate = ''INVESTIGATE''"
| "disposition_text ContainReversible = ''CONTAIN_REVERSIBLE''"
| "disposition_text EscalateHuman = ''ESCALATE_HUMAN''"

record evidence_event =
  ee_event_id :: pystr
  ee_case_id :: pystr
  ee_source_type :: pystr
  ee_source_instance :: pystr
  ee_observed_at :: pystr
  ee_collected_at :: pystr
  ee_integrity :: pystr
  ee_provenance_id :: pystr
  ee_trust_score :: number
  ee_entity_refs :: "pystr list"
  ee_attributes :: "(pystr \<times> json) list"
  ee_untrusted_text :: pystr
  ee_instructional :: bool

definition event_to_dict :: "evidence_event \<Rightarrow> json" where
  "event_to_dict e = JObj
     [(''event_id'', JStr (ee_event_id e)), (''case_id'', JStr (ee_case_id e)),
      (''source_type'', JStr (ee_source_type e)), (''source_instance'', JStr (ee_source_instance e)),
      (''observed_at'', JStr (ee_observed_at e)), (''collected_at'', JStr (ee_collected_at e)),
      (''integrity'', JStr (ee_integrity e)), (''provenance_id'', JStr (ee_provenance_id e)),
      (''trust_score'', number_json (ee_trust_score e)), (''entity_refs'', jstrs (ee_entity_refs e)),
      (''attributes'', JObj (ee_attributes e)), (''untrusted_text'', JStr (ee_untrusted_text e)),
      (''contains_instructional_content'', JBool (ee_instructional e))]"

record identity_case =
  ic_case_id :: pystr
  ic_opened_at :: pystr
  ic_subject_id :: pystr
  ic_privilege_level :: pystr
  ic_break_glass :: bool
  ic_asset_id :: pystr
  ic_asset_criticality :: number
  ic_events :: "evidence_event list"

definition case_to_dict :: "identity_case \<Rightarrow> json" where
  "case_to_dict c = JObj
     [(''case_id'', JStr (ic_case_id c)), (''opened_at'', JStr (ic_opened_at c)),
      (''subject_id'', JStr (ic_subject_id c)), (''privilege_level'', JStr (ic_privilege_level c)),
      (''break_glass'', JBool (ic_break_glass c)), (''asset_id'', JStr (ic_asset_id c)),
      (''asset_criticality'', number_json (ic_asset_criticality c)),
      (''events'', JList (map event_to_dict (ic_events c)))]"

abbreviation case_event_ids :: "identity_case \<Rightarrow> pystr list" where
  "case_event_ids c \<equiv> map ee_event_id (ic_events c)"

subsection \<open>Execution modes\<close>

datatype execution_mode = SyntheticSimulation | HistoricalReplay | ShadowReadOnly

fun mode_text :: "execution_mode \<Rightarrow> pystr" where
  "mode_text SyntheticSimulation = ''synthetic_simulation''"
| "mode_text HistoricalReplay = ''historical_replay''"
| "mode_text ShadowReadOnly = ''shadow_read_only''"

definition is_read_only :: "execution_mode \<Rightarrow> bool" where
  "is_read_only m = (m \<in> set [HistoricalReplay, ShadowReadOnly])"

lemma is_read_only_simps [simp]:
  "\<not> is_read_only SyntheticSimulation" "is_read_only HistoricalReplay" "is_read_only ShadowReadOnly"
  by (simp_all add: is_read_only_def)

end
