(* ===== verification/P1Features.thy ===== *)
theory P1Features
  imports P1Case
begin

text \<open>
  The typed boundary of the model's input: \<open>feature_contract.py\<close> and \<open>features.py\<close>. An attribute of an event
  reaches a feature only when its name is declared, its source type is authorized for that name and its value
  has the exact declared type; every refusal is the message of the exception raised.
\<close>

subsection \<open>Declared attributes\<close>

definition max_failed_logins :: int where
  "max_failed_logins = 1000000"

definition boolean_attribute_sources :: "(pystr \<times> pystr list) list" where
  "boolean_attribute_sources =
     [(''new_device'', [''identity'']), (''impossible_travel'', [''identity'']),
      (''threat_ip'', [''network'', ''threat_intel'']), (''mfa_fatigue'', [''identity'']),
      (''token_reuse'', [''identity'']), (''credential_dumping'', [''endpoint'']),
      (''lateral_movement'', [''network'']), (''unusual_admin_action'', [''endpoint'']),
      (''edr_malware'', [''endpoint'']), (''after_hours'', [''identity'']), (''known_vpn'', [''network'']),
      (''approved_travel'', [''user_context'']), (''maintenance_window'', [''change_management'']),
      (''service_account_baseline'', [''change_management'']), (''strong_mfa'', [''identity'']),
      (''device_noncompliant'', [''endpoint'']), (''oauth_grant'', [''identity''])]"

definition integer_attribute_sources :: "(pystr \<times> pystr list) list" where
  "integer_attribute_sources = [(''failed_logins'', [''identity''])]"

definition evidence_attribute_sources :: "(pystr \<times> pystr list) list" where
  "evidence_attribute_sources = [(''source_conflict'', [''network''])]"

definition modeled_attribute_sources :: "(pystr \<times> pystr list) list" where
  "modeled_attribute_sources = boolean_attribute_sources @ integer_attribute_sources"

definition modeled_attribute_names :: "pystr list" where
  "modeled_attribute_names = map fst modeled_attribute_sources"

definition boolean_attribute_names :: "pystr list" where
  "boolean_attribute_names = map fst boolean_attribute_sources"

subsection \<open>Checks\<close>

text \<open>\<open>[A-Za-z0-9][A-Za-z0-9._:-]{0,127}\<close>, matched in full.\<close>

definition alnum_char :: "char \<Rightarrow> bool" where
  "alnum_char c = (let n = (of_char c :: int) in
     (48 \<le> n \<and> n \<le> 57) \<or> (65 \<le> n \<and> n \<le> 90) \<or> (97 \<le> n \<and> n \<le> 122))"

fun identifier_pattern :: "pystr \<Rightarrow> bool" where
  "identifier_pattern [] = False"
| "identifier_pattern (c # cs) =
     (alnum_char c \<and> length cs \<le> 127 \<and> list_all (\<lambda>d. alnum_char d \<or> d \<in> set ''._:-'') cs)"

definition contract_identifier :: "json \<Rightarrow> pystr \<Rightarrow> (pystr, pystr) result" where
  "contract_identifier value label =
     (case value of
        JStr s \<Rightarrow> if identifier_pattern s then Inr s else Inl (label @ '' must be an identifier.'')
      | _ \<Rightarrow> Inl (label @ '' must be an identifier.''))"

definition contract_unit_interval :: "json \<Rightarrow> pystr \<Rightarrow> (pystr, rat) result" where
  "contract_unit_interval value label =
     (case json_number value of
        None \<Rightarrow> Inl (label @ '' must be numeric.'')
      | Some n \<Rightarrow>
          (case py_float n of
             Inr x \<Rightarrow> if 0 \<le> x \<and> x \<le> 1 then Inr x else Inl (label @ '' must be finite and within [0, 1].'')
           | Inl _ \<Rightarrow> Inl (label @ '' must be finite and within [0, 1].'')))"

definition contract_boolean :: "json \<Rightarrow> pystr \<Rightarrow> (pystr, bool) result" where
  "contract_boolean value message = (case value of JBool b \<Rightarrow> Inr b | _ \<Rightarrow> Inl message)"

definition required_inventory :: "pystr list" where
  "required_inventory = [''asset_id'', ''privilege_level'', ''break_glass'', ''asset_criticality'']"

definition validate_inventory ::
  "pystr \<Rightarrow> pystr \<Rightarrow> bool \<Rightarrow> rat \<Rightarrow> (pystr \<times> json) list \<Rightarrow> (pystr, unit) result" where
  "validate_inventory asset privilege glass criticality attributes =
     and_then (require (list_all (\<lambda>k. k \<in> fst ` set attributes) required_inventory)
       ''asset_inventory attributes must include asset_id, privilege_level, break_glass, and asset_criticality.'') (\<lambda>_.
     and_then (contract_identifier (obj_get attributes ''asset_id'') ''asset_inventory.attributes.asset_id'') (\<lambda>a.
     and_then (contract_identifier (obj_get attributes ''privilege_level'')
       ''asset_inventory.attributes.privilege_level'') (\<lambda>p.
     and_then (contract_boolean (obj_get attributes ''break_glass'')
       ''asset_inventory.attributes.break_glass must be a boolean.'') (\<lambda>g.
     and_then (contract_unit_interval (obj_get attributes ''asset_criticality'')
       ''asset_inventory.attributes.asset_criticality'') (\<lambda>x.
     and_then (require (a = asset) ''Canonical asset_id must equal asset_inventory.attributes.asset_id.'') (\<lambda>_.
     and_then (require (p = privilege)
       ''Canonical privilege_level must equal asset_inventory.attributes.privilege_level.'') (\<lambda>_.
     and_then (require (g = glass) ''Canonical break_glass must equal asset_inventory.attributes.break_glass.'') (\<lambda>_.
     require (x = criticality)
       ''Canonical asset_criticality must equal asset_inventory.attributes.asset_criticality.''))))))))"

definition validate_case_context ::
  "json \<Rightarrow> json \<Rightarrow> json \<Rightarrow> json \<Rightarrow> (pystr \<times> json) list list \<Rightarrow> (pystr, rat) result" where
  "validate_case_context asset_id privilege_level break_glass asset_criticality inventory =
     and_then (contract_identifier asset_id ''case.asset_id'') (\<lambda>a.
     and_then (contract_identifier privilege_level ''case.privilege_level'') (\<lambda>p.
     and_then (contract_boolean break_glass ''case.break_glass must be a boolean.'') (\<lambda>g.
     and_then (contract_unit_interval asset_criticality ''case.asset_criticality'') (\<lambda>x.
     and_then (require (inventory \<noteq> []) ''Case requires at least one asset_inventory event.'') (\<lambda>_.
     and_then (for_each (validate_inventory a p g x) inventory) (\<lambda>_.
     Inr x))))))"

subsection \<open>Selection\<close>

definition boolean_value :: "json \<Rightarrow> pystr \<Rightarrow> (pystr, json) result" where
  "boolean_value value label = and_then (contract_boolean value (label @ '' must be a boolean.'')) (\<lambda>b. Inr (JBool b))"

definition integer_value :: "json \<Rightarrow> pystr \<Rightarrow> (pystr, json) result" where
  "integer_value value label =
     and_then
       (case json_number value of
          None \<Rightarrow> Inl (label @ '' must be an integer.'')
        | Some (IntNumber n) \<Rightarrow> Inr n
        | Some (FloatNumber x) \<Rightarrow>
            if of_int \<lfloor>x\<rfloor> = x then Inr \<lfloor>x\<rfloor> else Inl (label @ '' must be an integer.''))
       (\<lambda>candidate.
          if 0 \<le> candidate \<and> candidate \<le> max_failed_logins then Inr (JInt candidate)
          else Inl (label @ '' must be finite and within [0, '' @ show_int max_failed_logins @ ''].''))"

text \<open>One declared name of the selection loop; \<open>failed_logins\<close> is the one attribute that is not boolean, and the float
  of a JSON value is finite.\<close>

definition select_attribute ::
  "pystr \<Rightarrow> (pystr \<times> json) list \<Rightarrow> pystr \<Rightarrow> pystr \<times> pystr list \<Rightarrow> (pystr \<times> json) list \<Rightarrow> (pystr, (pystr \<times> json) list) result" where
  "select_attribute source_type attributes label entry selected =
     (case map_of attributes (fst entry) of
        None \<Rightarrow> Inr selected
      | Some value \<Rightarrow>
          and_then (require (source_type \<in> set (snd entry))
            (label @ ''.'' @ fst entry @ '' is not authorized for this source_type.'')) (\<lambda>_.
          and_then (if fst entry = ''failed_logins'' then integer_value value (label @ ''.'' @ fst entry)
                    else boolean_value value (label @ ''.'' @ fst entry)) (\<lambda>v.
          Inr (dict_set (fst entry) v selected))))"

definition select_modeled_attributes ::
  "pystr \<Rightarrow> (pystr \<times> json) list \<Rightarrow> pystr \<Rightarrow> (pystr, (pystr \<times> json) list) result" where
  "select_modeled_attributes source_type attributes label =
     and_then (contract_identifier (JStr source_type) ''event.source_type'') (\<lambda>_.
     fold_result (select_attribute source_type attributes label) modeled_attribute_sources [])"

definition select_evidence_attributes ::
  "pystr \<Rightarrow> (pystr \<times> json) list \<Rightarrow> pystr \<Rightarrow> (pystr, (pystr \<times> json) list) result" where
  "select_evidence_attributes source_type attributes label =
     and_then (contract_identifier (JStr source_type) ''event.source_type'') (\<lambda>_.
     fold_result (select_attribute source_type attributes label) evidence_attribute_sources [])"

subsection \<open>Features\<close>

definition feature_names :: "pystr list" where
  "feature_names =
     [''failed_login_intensity'', ''new_device'', ''impossible_travel'', ''threat_ip'', ''mfa_fatigue'',
      ''token_reuse'', ''credential_dumping'', ''lateral_movement'', ''unusual_admin_action'', ''edr_malware'',
      ''after_hours'', ''privilege_global_admin'', ''asset_criticality'', ''known_vpn'', ''approved_travel'',
      ''maintenance_window'', ''service_account_baseline'', ''strong_mfa'', ''device_noncompliant'', ''oauth_grant'']"

type_synonym feature_values = "(pystr \<times> rat) list"
type_synonym feature_trace = "(pystr \<times> pystr list) list"

text \<open>The two loops over the attributes of one event. The last branches are the assertions of the source.\<close>

definition login_feature ::
  "pystr \<Rightarrow> (pystr \<times> json) list \<Rightarrow> feature_values \<times> feature_trace \<Rightarrow> (pystr, feature_values \<times> feature_trace) result" where
  "login_feature event_id modeled st =
     (case map_of modeled ''failed_logins'' of
        None \<Rightarrow> Inr st
      | Some value \<Rightarrow>
          (case value of
             JInt n \<Rightarrow>
               if 0 \<le> n \<and> n \<le> max_failed_logins then
                 Inr (dict_set ''failed_login_intensity''
                        (max (dict_default (fst st) ''failed_login_intensity'' 0) (min (fl (of_int n / 20)) 1)) (fst st),
                      dict_extend ''failed_login_intensity'' [event_id] (snd st))
               else Inl ''Validated failed_logins invariant was not preserved.''
           | _ \<Rightarrow> Inl ''Validated failed_logins invariant was not preserved.''))"

definition boolean_feature ::
  "pystr \<Rightarrow> (pystr \<times> json) list \<Rightarrow> pystr \<Rightarrow> feature_values \<times> feature_trace \<Rightarrow> (pystr, feature_values \<times> feature_trace) result" where
  "boolean_feature event_id modeled key st =
     (case map_of modeled key of
        None \<Rightarrow> Inr st
      | Some (JBool b) \<Rightarrow>
          let numeric = (if b then 1 else 0)
          in Inr (if numeric > dict_default (fst st) key 0 then dict_set key numeric (fst st) else fst st,
                  dict_extend key [event_id] (snd st))
      | Some _ \<Rightarrow> Inl ''Validated modeled-boolean invariant was not preserved.'')"

definition attributes_label :: "evidence_event \<Rightarrow> pystr" where
  "attributes_label e = ''event['' @ ee_event_id e @ ''].attributes''"

definition event_features ::
  "evidence_event \<Rightarrow> feature_values \<times> feature_trace \<Rightarrow> (pystr, feature_values \<times> feature_trace) result" where
  "event_features e st =
     and_then (select_modeled_attributes (ee_source_type e) (ee_attributes e) (attributes_label e)) (\<lambda>modeled.
     and_then (login_feature (ee_event_id e) modeled st) (\<lambda>st'.
     fold_result (boolean_feature (ee_event_id e) modeled) boolean_attribute_names st'))"

definition inventory_events :: "identity_case \<Rightarrow> evidence_event list" where
  "inventory_events c = filter (\<lambda>e. ee_source_type e = ''asset_inventory'') (ic_events c)"

definition initial_features :: "identity_case \<Rightarrow> rat \<Rightarrow> feature_values" where
  "initial_features c criticality =
     dict_set ''asset_criticality'' criticality
       (dict_set ''privilege_global_admin'' (if ic_privilege_level c = ''global_admin'' then 1 else 0)
         (map (\<lambda>name. (name, 0)) feature_names))"

definition extract_features :: "identity_case \<Rightarrow> (pystr, feature_values \<times> feature_trace) result" where
  "extract_features c =
     and_then (validate_case_context (JStr (ic_asset_id c)) (JStr (ic_privilege_level c)) (JBool (ic_break_glass c))
       (number_json (ic_asset_criticality c)) (map ee_attributes (inventory_events c))) (\<lambda>criticality.
     and_then (fold_result event_features (ic_events c) (initial_features c criticality, [])) (\<lambda>(values, trace).
       let ids = map ee_event_id (inventory_events c)
       in Inr (values, dict_extend ''asset_criticality'' ids (dict_extend ''privilege_global_admin'' ids trace))))"

definition vectorize :: "feature_values \<Rightarrow> rat list" where
  "vectorize features = map (\<lambda>name. dict_default features name 0) feature_names"


subsection \<open>Simple equations\<close>

lemma contract_identifier_Inr [simp]:
  "contract_identifier v l = Inr s \<longleftrightarrow> v = JStr s \<and> identifier_pattern s"
  by (auto simp: contract_identifier_def split: json.splits)

lemma contract_boolean_Inr [simp]: "contract_boolean v l = Inr b \<longleftrightarrow> v = JBool b"
  by (auto simp: contract_boolean_def split: json.splits)

lemma boolean_value_Inr [simp]: "boolean_value v l = Inr w \<longleftrightarrow> (\<exists>b. v = JBool b \<and> w = JBool b)"
  by (auto simp: boolean_value_def)

lemma contract_unit_interval_Inr:
  "contract_unit_interval v l = Inr x \<longleftrightarrow> (\<exists>n. v = number_json n \<and> py_float n = Inr x \<and> 0 \<le> x \<and> x \<le> 1)"
  by (auto simp: contract_unit_interval_def json_number_Some split: option.splits sum.splits)

text \<open>An accepted count is the number the JSON value denotes.\<close>

lemma integer_value_Inr:
  "integer_value v l = Inr w
     \<longleftrightarrow> (\<exists>x n. v = number_json x \<and> number_value x = of_int n \<and> 0 \<le> n \<and> n \<le> max_failed_logins \<and> w = JInt n)"
proof -
  have *: "of_int \<lfloor>x\<rfloor> = x \<longleftrightarrow> (\<exists>n. x = of_int n)" for x :: rat by auto
  show ?thesis
  proof (cases "json_number v")
    case None
    then have "v \<noteq> number_json x" for x by auto
    with None show ?thesis by (simp add: integer_value_def)
  next
    case (Some y)
    then have v: "v = number_json y" by (simp add: json_number_Some)
    show ?thesis
    proof (cases y)
      case (IntNumber k)
      then show ?thesis using Some by (auto simp: integer_value_def v)
    next
      case (FloatNumber r)
      then show ?thesis using Some by (auto simp: integer_value_def v *)
    qed
  qed
qed

lemma names_distinct [simp]:
  "distinct modeled_attribute_names" "distinct boolean_attribute_names" "distinct feature_names"
  "''failed_logins'' \<notin> set boolean_attribute_names" "distinct (map fst modeled_attribute_sources)"
  "distinct (map fst evidence_attribute_sources)"
  by code_simp+

lemma boolean_names_are_features: "set boolean_attribute_names \<subseteq> set feature_names"
  by code_simp

lemma other_features:
  "set feature_names = set boolean_attribute_names
     \<union> {''failed_login_intensity'', ''privilege_global_admin'', ''asset_criticality''}"
  "''failed_login_intensity'' \<notin> set boolean_attribute_names"
  "''privilege_global_admin'' \<notin> set boolean_attribute_names"
  "''asset_criticality'' \<notin> set boolean_attribute_names"
  by code_simp+

subsection \<open>What is selected\<close>

definition attribute_value :: "pystr \<Rightarrow> json \<Rightarrow> json \<Rightarrow> bool" where
  "attribute_value name value kept \<longleftrightarrow>
     (if name = ''failed_logins''
      then \<exists>x n. value = number_json x \<and> number_value x = of_int n \<and> 0 \<le> n \<and> n \<le> max_failed_logins \<and> kept = JInt n
      else \<exists>b. value = JBool b \<and> kept = JBool b)"

lemma attribute_value_step:
  "(if name = ''failed_logins'' then integer_value v l else boolean_value v l) = Inr w \<longleftrightarrow> attribute_value name v w"
  by (auto simp: attribute_value_def integer_value_Inr)

lemma select_attribute_Inr:
  "select_attribute s a l entry sel = Inr m \<longleftrightarrow>
     (case map_of a (fst entry) of
        None \<Rightarrow> m = sel
      | Some v \<Rightarrow> s \<in> set (snd entry) \<and> (\<exists>w. attribute_value (fst entry) v w \<and> m = dict_set (fst entry) w sel))"
proof (cases "map_of a (fst entry)")
  case None
  then show ?thesis by (auto simp: select_attribute_def)
next
  case (Some v)
  then show ?thesis
    using attribute_value_step [of "fst entry" v "l @ ''.'' @ fst entry"]
    by (simp add: select_attribute_def) blast
qed

text \<open>What the selection leaves for one declared name.\<close>

definition kept_attribute ::
  "pystr \<Rightarrow> (pystr \<times> json) list \<Rightarrow> (pystr \<times> json) list \<Rightarrow> (pystr \<times> json) list \<Rightarrow> pystr \<times> pystr list \<Rightarrow> bool" where
  "kept_attribute s a sel m entry \<longleftrightarrow>
     (case map_of a (fst entry) of
        None \<Rightarrow> map_of m (fst entry) = map_of sel (fst entry)
      | Some v \<Rightarrow> s \<in> set (snd entry) \<and> (\<exists>w. attribute_value (fst entry) v w \<and> map_of m (fst entry) = Some w))"

lemma select_fold:
  assumes "fold_result (select_attribute s a l) es sel = Inr m" and "distinct (map fst es)"
  shows "(\<forall>k. k \<notin> fst ` set es \<longrightarrow> map_of m k = map_of sel k) \<and> (\<forall>e \<in> set es. kept_attribute s a sel m e)"
  using assms
proof (induction es arbitrary: sel)
  case (Cons e es)
  then obtain m' where m': "select_attribute s a l e sel = Inr m'"
    and rest: "fold_result (select_attribute s a l) es m' = Inr m" by auto
  from Cons.IH [OF rest] Cons.prems(2)
  have frame: "\<forall>k. k \<notin> fst ` set es \<longrightarrow> map_of m k = map_of m' k"
    and tail: "\<forall>d \<in> set es. kept_attribute s a m' m d" by auto
  have m'_sel: "k \<noteq> fst e \<Longrightarrow> map_of m' k = map_of sel k" for k
    using m' by (auto simp: select_attribute_Inr map_of_dict_set split: option.splits)
  have kept: "map_of m (fst e) = map_of m' (fst e)" using frame Cons.prems(2) by simp
  have "kept_attribute s a sel m e"
    using m' kept by (auto simp: kept_attribute_def select_attribute_Inr map_of_dict_set split: option.splits)
  moreover have "kept_attribute s a sel m d" if "d \<in> set es" for d
  proof -
    have "fst d \<noteq> fst e" using that Cons.prems(2) by (auto simp: image_iff)
    moreover have "kept_attribute s a m' m d" using that tail by blast
    ultimately show ?thesis by (simp add: kept_attribute_def m'_sel split: option.splits)
  qed
  moreover have "map_of m k = map_of sel k" if "k \<notin> fst ` set (e # es)" for k
    using that frame m'_sel [of k] by simp
  ultimately show ?case by simp
qed simp

lemma select_fold_total:
  assumes "\<And>e v. e \<in> set es \<Longrightarrow> map_of a (fst e) = Some v \<Longrightarrow> s \<in> set (snd e) \<and> (\<exists>w. attribute_value (fst e) v w)"
  shows "\<exists>m. fold_result (select_attribute s a l) es sel = Inr m"
  using assms
proof (induction es arbitrary: sel)
  case (Cons e es)
  have "\<exists>m'. select_attribute s a l e sel = Inr m'"
  proof (cases "map_of a (fst e)")
    case None
    then show ?thesis by (simp add: select_attribute_def)
  next
    case (Some v)
    with Cons.prems [of e v] show ?thesis by (auto simp: select_attribute_Inr)
  qed
  then obtain m' where "select_attribute s a l e sel = Inr m'" by blast
  moreover have "\<exists>m. fold_result (select_attribute s a l) es m' = Inr m"
    using Cons.prems by (intro Cons.IH) simp
  ultimately show ?case by simp
qed simp

lemma select_keys:
  "fold_result (select_attribute s a l) es sel = Inr m \<Longrightarrow> distinct (map fst sel) \<Longrightarrow>
     distinct (map fst m) \<and> fst ` set m \<subseteq> fst ` set sel \<union> fst ` set es"
proof (induction es arbitrary: sel)
  case (Cons e es)
  then obtain m' where m': "select_attribute s a l e sel = Inr m'"
    and rest: "fold_result (select_attribute s a l) es m' = Inr m" by auto
  have d: "distinct (map fst m')"
    using m' Cons.prems by (auto simp: select_attribute_Inr distinct_dict_set split: option.splits)
  have "fst ` set m' \<subseteq> insert (fst e) (fst ` set sel)"
    using m' keys_dict_set [of "fst e" _ sel] by (auto simp: select_attribute_Inr split: option.splits)
  moreover from Cons.IH [OF rest d] have "distinct (map fst m)" "fst ` set m \<subseteq> fst ` set m' \<union> fst ` set es" by simp_all
  ultimately show ?case by (simp, blast)
qed simp

lemma modeled_members:
  assumes "select_modeled_attributes s a l = Inr m"
  shows "identifier_pattern s" "fst ` set m \<subseteq> set modeled_attribute_names" "distinct (map fst m)"
    and "\<forall>e \<in> set modeled_attribute_sources. kept_attribute s a [] m e"
    and "k \<in> set modeled_attribute_names \<Longrightarrow> map_of m k = None \<longleftrightarrow> map_of a k = None"
proof -
  have f: "fold_result (select_attribute s a l) modeled_attribute_sources [] = Inr m" and "identifier_pattern s"
    using assms by (auto simp: select_modeled_attributes_def)
  then show "identifier_pattern s" by simp
  show "fst ` set m \<subseteq> set modeled_attribute_names" "distinct (map fst m)"
    using select_keys [OF f] by (auto simp: modeled_attribute_names_def)
  show kept: "\<forall>e \<in> set modeled_attribute_sources. kept_attribute s a [] m e"
    using select_fold [OF f] by simp
  show "map_of m k = None \<longleftrightarrow> map_of a k = None" if "k \<in> set modeled_attribute_names"
  proof -
    from that obtain e where "e \<in> set modeled_attribute_sources" "k = fst e"
      by (auto simp: modeled_attribute_names_def)
    with kept show ?thesis by (auto simp: kept_attribute_def split: option.splits)
  qed
qed

end
