(* ===== verification/P1FeatureFacts.thy ===== *)
theory P1FeatureFacts
  imports P1Features
begin

text \<open>
  What the features say: the type and range of every value, the events each feature is traced to, the meaning of
  a feature in terms of the events of the case, and that nothing else of an event can reach the model.
\<close>

subsection \<open>One event\<close>

lemma boolean_feature_Inr:
  "boolean_feature i m k st = Inr st' \<longleftrightarrow>
     (case map_of m k of
        None \<Rightarrow> st' = st
      | Some v \<Rightarrow> (\<exists>b. v = JBool b \<and>
          fst st' = (if b \<and> dict_default (fst st) k 0 < 1 then dict_set k 1 (fst st)
                     else if \<not> b \<and> dict_default (fst st) k 0 < 0 then dict_set k 0 (fst st) else fst st) \<and>
          snd st' = dict_extend k [i] (snd st)))"
  by (cases st') (auto simp: boolean_feature_def Let_def split: option.splits json.splits)

lemma login_feature_Inr:
  "login_feature i m st = Inr st' \<longleftrightarrow>
     (case map_of m ''failed_logins'' of
        None \<Rightarrow> st' = st
      | Some v \<Rightarrow> (\<exists>n. v = JInt n \<and> 0 \<le> n \<and> n \<le> max_failed_logins \<and>
          fst st' = dict_set ''failed_login_intensity''
                      (max (dict_default (fst st) ''failed_login_intensity'' 0) (min (fl (of_int n / 20)) 1)) (fst st) \<and>
          snd st' = dict_extend ''failed_login_intensity'' [i] (snd st)))"
  by (cases st') (auto simp: login_feature_def split: option.splits json.splits)

text \<open>The meaning of the attributes of one event for the features.\<close>

definition bears :: "pystr \<Rightarrow> evidence_event \<Rightarrow> bool" where
  "bears k e = (map_of (ee_attributes e) k \<noteq> None)"

definition asserts :: "pystr \<Rightarrow> evidence_event \<Rightarrow> bool" where
  "asserts k e = (map_of (ee_attributes e) k = Some (JBool True))"

definition login_intensity :: "evidence_event \<Rightarrow> rat" where
  "login_intensity e =
     (case map_of (ee_attributes e) ''failed_logins'' of
        None \<Rightarrow> 0
      | Some v \<Rightarrow> (case json_number v of None \<Rightarrow> 0 | Some n \<Rightarrow> min (fl (number_value n / 20)) 1))"

lemma login_intensity_unit: "(\<forall>v. map_of (ee_attributes e) ''failed_logins'' = Some v \<longrightarrow> (\<exists>w. attribute_value ''failed_logins'' v w)) \<Longrightarrow>
    0 \<le> login_intensity e \<and> login_intensity e \<le> 1"
  by (auto simp: login_intensity_def attribute_value_def binary64.rnd_nonneg split: option.splits)

lemma boolean_features_fold:
  assumes "fold_result (boolean_feature i m) ks st = Inr st'" and "distinct ks"
    and "set ks \<subseteq> fst ` set (fst st)" and "\<forall>k \<in> set ks. dict_default (fst st) k 0 \<in> {0, 1}"
  shows "map fst (fst st') = map fst (fst st)
    \<and> (\<forall>k. dict_default (fst st') k 0 =
          (if k \<in> set ks \<and> map_of m k = Some (JBool True) then 1 else dict_default (fst st) k 0))
    \<and> (\<forall>k. dict_default (snd st') k [] = dict_default (snd st) k [] @ (if k \<in> set ks \<and> map_of m k \<noteq> None then [i] else []))
    \<and> fst ` set (snd st') \<subseteq> fst ` set (snd st) \<union> set ks
    \<and> (\<forall>k \<in> set ks. \<forall>v. map_of m k = Some v \<longrightarrow> (\<exists>b. v = JBool b))"
  using assms
proof (induction ks arbitrary: st)
  case (Cons k ks)
  then obtain st1 where st1: "boolean_feature i m k st = Inr st1"
    and rest: "fold_result (boolean_feature i m) ks st1 = Inr st'" by auto
  have keys: "map fst (fst st1) = map fst (fst st)"
    using st1 Cons.prems by (auto simp: boolean_feature_Inr dict_set_keeps_keys split: option.splits if_splits)
  then have keys': "fst ` set (fst st1) = fst ` set (fst st)" by (metis list.set_map)
  have "fst st1 = (if map_of m k = Some (JBool True) \<and> dict_default (fst st) k 0 < 1 then dict_set k 1 (fst st) else fst st)"
  proof -
    have "dict_default (fst st) k 0 = 0 \<or> dict_default (fst st) k 0 = 1" using Cons.prems(4) by simp
    then show ?thesis
      using st1 by (elim disjE) (auto simp: boolean_feature_Inr simp del: dict_default_set split: option.splits if_splits)
  qed
  then have vals: "dict_default (fst st1) j 0 =
      (if j = k \<and> map_of m k = Some (JBool True) then 1 else dict_default (fst st) j 0)" for j
    using Cons.prems(4) by auto
  have trace: "dict_default (snd st1) j [] = dict_default (snd st) j [] @ (if j = k \<and> map_of m k \<noteq> None then [i] else [])" for j
    using st1 by (auto simp: boolean_feature_Inr split: option.splits)
  have "snd st1 = snd st \<or> snd st1 = dict_extend k [i] (snd st)"
    using st1 by (cases "map_of m k") (auto simp: boolean_feature_Inr)
  then have tkeys: "fst ` set (snd st1) \<subseteq> insert k (fst ` set (snd st))"
    by (elim disjE) (simp_all add: keys_dict_extend subset_insertI)
  have here: "\<forall>v. map_of m k = Some v \<longrightarrow> (\<exists>b. v = JBool b)"
    using st1 by (auto simp: boolean_feature_Inr)
  have "distinct ks" "set ks \<subseteq> fst ` set (fst st1)" "\<forall>j \<in> set ks. dict_default (fst st1) j 0 \<in> {0, 1}"
    using Cons.prems keys' vals by auto
  from Cons.IH [OF rest this] have IH:
    "map fst (fst st') = map fst (fst st1)"
    "\<And>j. dict_default (fst st') j 0 = (if j \<in> set ks \<and> map_of m j = Some (JBool True) then 1 else dict_default (fst st1) j 0)"
    "\<And>j. dict_default (snd st') j [] = dict_default (snd st1) j [] @ (if j \<in> set ks \<and> map_of m j \<noteq> None then [i] else [])"
    "fst ` set (snd st') \<subseteq> fst ` set (snd st1) \<union> set ks"
    "\<forall>j \<in> set ks. \<forall>v. map_of m j = Some v \<longrightarrow> (\<exists>b. v = JBool b)" by blast+
  have k: "k \<notin> set ks" using Cons.prems by simp
  have "fst ` set (snd st') \<subseteq> fst ` set (snd st) \<union> set (k # ks)" using IH(4) tkeys by (simp, blast)
  moreover have "map fst (fst st') = map fst (fst st)" by (simp add: IH(1) keys)
  moreover have "\<forall>j. dict_default (fst st') j 0 =
      (if j \<in> set (k # ks) \<and> map_of m j = Some (JBool True) then 1 else dict_default (fst st) j 0)"
    by (auto simp: IH(2) vals)
  moreover have "\<forall>j. dict_default (snd st') j [] =
      dict_default (snd st) j [] @ (if j \<in> set (k # ks) \<and> map_of m j \<noteq> None then [i] else [])"
    using k by (auto simp: IH(3) trace)
  ultimately show ?case using IH(5) here by simp
qed simp

text \<open>The state of the loop after some events, read through the events themselves.\<close>

definition features_of :: "feature_values \<Rightarrow> evidence_event list \<Rightarrow> feature_values \<times> feature_trace \<Rightarrow> bool" where
  "features_of start es st \<longleftrightarrow>
     map fst (fst st) = map fst start
     \<and> (\<forall>k \<in> set boolean_attribute_names.
          dict_default (fst st) k 0 = (if \<exists>e \<in> set es. asserts k e then 1 else 0)
          \<and> dict_default (snd st) k [] = map ee_event_id (filter (bears k) es))
     \<and> dict_default (fst st) ''failed_login_intensity'' 0 = fold (\<lambda>e x. max x (login_intensity e)) es 0
     \<and> dict_default (snd st) ''failed_login_intensity'' [] = map ee_event_id (filter (bears ''failed_logins'') es)
     \<and> (\<forall>k. k \<notin> set boolean_attribute_names \<and> k \<noteq> ''failed_login_intensity'' \<longrightarrow>
          dict_default (fst st) k 0 = dict_default start k 0 \<and> k \<notin> fst ` set (snd st))"

text \<open>An event the selection accepts: every declared attribute it bears is authorized and well typed.\<close>

definition declared_event :: "evidence_event \<Rightarrow> bool" where
  "declared_event e \<longleftrightarrow> identifier_pattern (ee_source_type e)
     \<and> (\<forall>(k, srcs) \<in> set modeled_attribute_sources. \<forall>v. map_of (ee_attributes e) k = Some v \<longrightarrow>
          ee_source_type e \<in> set srcs \<and> (\<exists>w. attribute_value k v w))"

lemma declared_source:
  "declared_event e \<Longrightarrow> (k, srcs) \<in> set modeled_attribute_sources \<Longrightarrow> map_of (ee_attributes e) k = Some v \<Longrightarrow>
     ee_source_type e \<in> set srcs \<and> (\<exists>w. attribute_value k v w)"
  by (fastforce simp: declared_event_def)

lemma boolean_member:
  assumes "k \<in> set boolean_attribute_names"
  obtains srcs where "(k, srcs) \<in> set modeled_attribute_sources" "k \<noteq> ''failed_logins''"
proof -
  have "k \<noteq> ''failed_logins''" using assms names_distinct(4) by blast
  moreover from assms obtain p where "p \<in> set boolean_attribute_sources" "k = fst p"
    by (auto simp: boolean_attribute_names_def)
  then have "(k, snd p) \<in> set modeled_attribute_sources" by (simp add: modeled_attribute_sources_def)
  ultimately show thesis using that by blast
qed

lemma login_member: "(''failed_logins'', [''identity'']) \<in> set modeled_attribute_sources"
  by (simp add: modeled_attribute_sources_def integer_attribute_sources_def)

lemma declared_selects: "declared_event e \<longleftrightarrow>
    (\<exists>m. select_modeled_attributes (ee_source_type e) (ee_attributes e) l = Inr m)"
proof
  assume d: "declared_event e"
  then have "\<exists>m. fold_result (select_attribute (ee_source_type e) (ee_attributes e) l) modeled_attribute_sources [] = Inr m"
    by (intro select_fold_total) (auto simp: declared_event_def)
  with d show "\<exists>m. select_modeled_attributes (ee_source_type e) (ee_attributes e) l = Inr m"
    by (simp add: select_modeled_attributes_def declared_event_def)
next
  assume "\<exists>m. select_modeled_attributes (ee_source_type e) (ee_attributes e) l = Inr m"
  then obtain m where m: "select_modeled_attributes (ee_source_type e) (ee_attributes e) l = Inr m" by blast
  from modeled_members(1,4) [OF m] show "declared_event e"
    by (fastforce simp: declared_event_def kept_attribute_def)
qed

lemma selected_values:
  assumes "select_modeled_attributes s a l = Inr m"
  shows "k \<in> set boolean_attribute_names \<Longrightarrow> map_of m k = map_of a k"
    and "k \<in> set boolean_attribute_names \<Longrightarrow> map_of a k = Some v \<Longrightarrow> \<exists>b. v = JBool b"
    and "map_of m ''failed_logins'' = None \<longleftrightarrow> map_of a ''failed_logins'' = None"
    and "map_of a ''failed_logins'' = Some v \<Longrightarrow> \<exists>x n. v = number_json x \<and> number_value x = of_int n
      \<and> 0 \<le> n \<and> n \<le> max_failed_logins \<and> map_of m ''failed_logins'' = Some (JInt n)"
proof -
  note kept = modeled_members(4) [OF assms]
  show "map_of m k = map_of a k" if k: "k \<in> set boolean_attribute_names"
  proof -
    from boolean_member [OF k] obtain srcs where "(k, srcs) \<in> set modeled_attribute_sources" and n: "k \<noteq> ''failed_logins''" .
    then have "kept_attribute s a [] m (k, srcs)" using kept by blast
    with n show ?thesis by (auto simp: kept_attribute_def attribute_value_def split: option.splits)
  qed
  show "\<exists>b. v = JBool b" if k: "k \<in> set boolean_attribute_names" and v: "map_of a k = Some v"
  proof -
    from boolean_member [OF k] obtain srcs where "(k, srcs) \<in> set modeled_attribute_sources" and n: "k \<noteq> ''failed_logins''" .
    then have "kept_attribute s a [] m (k, srcs)" using kept by blast
    with n v show ?thesis by (auto simp: kept_attribute_def attribute_value_def)
  qed
  from kept login_member have "kept_attribute s a [] m (''failed_logins'', [''identity''])" by blast
  then show "map_of m ''failed_logins'' = None \<longleftrightarrow> map_of a ''failed_logins'' = None"
    and "map_of a ''failed_logins'' = Some v \<Longrightarrow> \<exists>x n. v = number_json x \<and> number_value x = of_int n
      \<and> 0 \<le> n \<and> n \<le> max_failed_logins \<and> map_of m ''failed_logins'' = Some (JInt n)"
    by (auto simp: kept_attribute_def attribute_value_def split: option.splits)
qed


lemma fold_max_le: "x \<le> fold (\<lambda>e x. max x (f e)) es (x :: rat)"
proof (induction es arbitrary: x)
  case (Cons e es)
  have "max x (f e) \<le> fold (\<lambda>e x. max x (f e)) es (max x (f e))" by (rule Cons.IH)
  then show ?case by simp
qed simp

lemma event_features_step:
  assumes st: "event_features e st = Inr st'" and of: "features_of start es st"
    and start: "map fst start = feature_names"
  shows "declared_event e \<and> features_of start (es @ [e]) st'"
proof -
  define l where "l = attributes_label e"
  obtain m st1 where m: "select_modeled_attributes (ee_source_type e) (ee_attributes e) l = Inr m"
    and login: "login_feature (ee_event_id e) m st = Inr st1"
    and bools: "fold_result (boolean_feature (ee_event_id e) m) boolean_attribute_names st1 = Inr st'"
    using st by (auto simp: event_features_def l_def)
  note sel = selected_values [OF m]
  have keys: "map fst (fst st) = feature_names" using of start by (simp add: features_of_def)
  then have fli: "''failed_login_intensity'' \<in> fst ` set (fst st)"
    by (simp add: list.set_map [symmetric] other_features del: list.set_map)
  have "map fst (dict_set ''failed_login_intensity'' x (fst st)) = feature_names" for x
    using fli keys by (simp add: dict_set_keeps_keys)
  then have keys1: "map fst (fst st1) = feature_names"
    using login keys by (cases "map_of m ''failed_logins''") (auto simp: login_feature_Inr)
  have val1: "dict_default (fst st1) k 0 =
      (if k = ''failed_login_intensity'' then max (dict_default (fst st) k 0) (login_intensity e) else dict_default (fst st) k 0)"
    if nonneg: "0 \<le> dict_default (fst st) ''failed_login_intensity'' 0" for k
  proof (cases "map_of (ee_attributes e) ''failed_logins''")
    case None
    with login sel(3) nonneg show ?thesis by (simp add: login_feature_Inr login_intensity_def max_def)
  next
    case (Some v)
    from sel(4) [OF Some] obtain x n where v: "v = number_json x" "number_value x = of_int n"
      and mn: "map_of m ''failed_logins'' = Some (JInt n)" by blast
    from login have "fst st1 = dict_set ''failed_login_intensity''
        (max (dict_default (fst st) ''failed_login_intensity'' 0) (min (fl (of_int n / 20)) 1)) (fst st)"
      by (simp add: login_feature_Inr mn)
    with Some v show ?thesis by (simp add: login_intensity_def)
  qed
  have trace1: "dict_default (snd st1) k [] = dict_default (snd st) k []
      @ (if k = ''failed_login_intensity'' \<and> bears ''failed_logins'' e then [ee_event_id e] else [])" for k
    using login sel(3) by (auto simp: login_feature_Inr bears_def split: option.splits)
  have "snd st1 = snd st \<or> snd st1 = dict_extend ''failed_login_intensity'' [ee_event_id e] (snd st)"
    using login by (cases "map_of m ''failed_logins''") (auto simp: login_feature_Inr)
  then have tkeys1: "fst ` set (snd st1) \<subseteq> insert ''failed_login_intensity'' (fst ` set (snd st))"
    by (elim disjE) (simp_all add: keys_dict_extend subset_insertI)
  have nonneg: "0 \<le> dict_default (fst st) ''failed_login_intensity'' 0"
    using of fold_max_le [of 0 login_intensity es] by (simp add: features_of_def)
  have fix1: "k \<noteq> ''failed_login_intensity'' \<Longrightarrow> dict_default (fst st1) k 0 = dict_default (fst st) k 0" for k
    using val1 [OF nonneg, of k] by simp
  have neq: "k \<in> set boolean_attribute_names \<Longrightarrow> k \<noteq> ''failed_login_intensity''" for k
    using other_features(2) by blast
  have "set boolean_attribute_names \<subseteq> fst ` set (fst st1)"
    using keys1 boolean_names_are_features by (simp add: list.set_map [symmetric] del: list.set_map)
  moreover have "\<forall>k \<in> set boolean_attribute_names. dict_default (fst st1) k 0 \<in> {0, 1}"
    using of fix1 neq by (auto simp: features_of_def)
  ultimately have B:
    "map fst (fst st') = map fst (fst st1)"
    "\<And>k. dict_default (fst st') k 0 =
       (if k \<in> set boolean_attribute_names \<and> map_of m k = Some (JBool True) then 1 else dict_default (fst st1) k 0)"
    "\<And>k. dict_default (snd st') k [] = dict_default (snd st1) k []
       @ (if k \<in> set boolean_attribute_names \<and> map_of m k \<noteq> None then [ee_event_id e] else [])"
    "fst ` set (snd st') \<subseteq> fst ` set (snd st1) \<union> set boolean_attribute_names"
    using boolean_features_fold [OF bools names_distinct(2)] by blast+
  have "declared_event e" using m declared_selects by blast
  moreover have "map fst (fst st') = map fst start" by (simp add: B keys1 start)
  moreover have "dict_default (fst st') k 0 = (if \<exists>d \<in> set (es @ [e]). asserts k d then 1 else 0)
      \<and> dict_default (snd st') k [] = map ee_event_id (filter (bears k) (es @ [e]))"
    if k: "k \<in> set boolean_attribute_names" for k
    using of k neq [OF k] sel(1) [OF k] trace1 [of k]
    by (auto simp: features_of_def B fix1 asserts_def bears_def)
  moreover have "dict_default (fst st') ''failed_login_intensity'' 0 = fold (\<lambda>e x. max x (login_intensity e)) (es @ [e]) 0
      \<and> dict_default (snd st') ''failed_login_intensity'' [] = map ee_event_id (filter (bears ''failed_logins'') (es @ [e]))"
    using of val1 [OF nonneg] trace1 other_features(2) by (simp add: features_of_def B)
  moreover have "dict_default (fst st') k 0 = dict_default start k 0 \<and> k \<notin> fst ` set (snd st')"
    if "k \<notin> set boolean_attribute_names" "k \<noteq> ''failed_login_intensity''" for k
  proof -
    have "k \<notin> fst ` set (snd st)" and "dict_default (fst st) k 0 = dict_default start k 0"
      using of that by (simp_all add: features_of_def)
    moreover from this that tkeys1 B(4) have "k \<notin> fst ` set (snd st')" by (meson UnE insertE subsetD)
    ultimately show ?thesis using that fix1 [of k] by (simp add: B(2))
  qed
  ultimately show ?thesis by (simp add: features_of_def)
qed


lemma fold_event_features:
  assumes "fold_result event_features es (start, []) = Inr st" and start: "map fst start = feature_names"
    and zero: "\<forall>k \<in> set boolean_attribute_names \<union> {''failed_login_intensity''}. dict_default start k 0 = 0"
  shows "(\<forall>e \<in> set es. declared_event e) \<and> features_of start es st"
  using assms(1)
proof (induction es arbitrary: st rule: rev_induct)
  case Nil
  then show ?case using zero by (auto simp: features_of_def dict_default_def)
next
  case (snoc e es)
  then obtain st0 where st0: "fold_result event_features es (start, []) = Inr st0" "event_features e st0 = Inr st"
    by (auto simp: fold_result_append)
  from snoc.IH [OF st0(1)] have IH: "\<forall>d \<in> set es. declared_event d" "features_of start es st0" by simp_all
  from event_features_step [OF st0(2) IH(2) start] IH(1) show ?case by simp
qed

lemma initial_features_keys: "map fst (initial_features c x) = feature_names"
  by (simp add: initial_features_def feature_names_def)

lemma default_initial:
  "dict_default (initial_features c x) k 0 =
     (if k = ''asset_criticality'' then x
      else if k = ''privilege_global_admin'' then (if ic_privilege_level c = ''global_admin'' then 1 else 0) else 0)"
proof -
  have "dict_default (map (\<lambda>name. (name, 0 :: rat)) ns) k 0 = 0" for ns
    by (induction ns) (auto simp: dict_default_def)
  then show ?thesis by (simp add: initial_features_def)
qed

text \<open>Everything known of an extraction that returns.\<close>

lemma extract_features_Inr:
  assumes "extract_features c = Inr (values, trace)"
  obtains x st where "py_float (ic_asset_criticality c) = Inr x" "0 \<le> x" "x \<le> 1" "inventory_events c \<noteq> []"
    "\<forall>e \<in> set (ic_events c). declared_event e" "features_of (initial_features c x) (ic_events c) st" "fst st = values"
    "trace = dict_extend ''asset_criticality'' (map ee_event_id (inventory_events c))
       (dict_extend ''privilege_global_admin'' (map ee_event_id (inventory_events c)) (snd st))"
proof -
  from assms obtain x st where v: "validate_case_context (JStr (ic_asset_id c)) (JStr (ic_privilege_level c))
      (JBool (ic_break_glass c)) (number_json (ic_asset_criticality c)) (map ee_attributes (inventory_events c)) = Inr x"
    and f: "fold_result event_features (ic_events c) (initial_features c x, []) = Inr st"
    and r: "fst st = values" "trace = dict_extend ''asset_criticality'' (map ee_event_id (inventory_events c))
       (dict_extend ''privilege_global_admin'' (map ee_event_id (inventory_events c)) (snd st))"
    by (auto simp: extract_features_def Let_def)
  from v have x: "contract_unit_interval (number_json (ic_asset_criticality c)) ''case.asset_criticality'' = Inr x"
    and i: "inventory_events c \<noteq> []" by (auto simp: validate_case_context_def)
  have "\<forall>k \<in> set boolean_attribute_names \<union> {''failed_login_intensity''}. dict_default (initial_features c x) k 0 = 0"
    using other_features(3,4) by (auto simp: default_initial)
  note facts = fold_event_features [OF f initial_features_keys this]
  from x have "py_float (ic_asset_criticality c) = Inr x" "0 \<le> x" "x \<le> 1" by (auto simp: contract_unit_interval_Inr)
  from that [OF this i conjunct1 [OF facts] conjunct2 [OF facts] r] show thesis .
qed

lemma fold_max_bounds:
  "(\<forall>e \<in> set es. f e \<le> (1 :: rat)) \<Longrightarrow> x \<le> 1 \<Longrightarrow> fold (\<lambda>e x. max x (f e)) es x \<le> 1"
  by (induction es arbitrary: x) auto

lemma fold_max_is_Max:
  "fold (\<lambda>e x. max x (f e)) es (x :: rat) = Max (insert x (f ` set es))"
proof (induction es arbitrary: x)
  case (Cons e es)
  have "Max (insert (max x (f e)) (f ` set es)) = Max (insert x (insert (f e) (f ` set es)))"
    by (cases "f ` set es = {}") (auto simp: max.assoc)
  then show ?case by (simp add: Cons.IH insert_commute)
qed simp

lemma declared_intensity: "declared_event e \<Longrightarrow> 0 \<le> login_intensity e \<and> login_intensity e \<le> 1"
  using login_member by (intro login_intensity_unit) (fastforce simp: declared_event_def)

lemma map_of_feature_values:
  "map fst values = feature_names \<Longrightarrow> (k, x) \<in> set values \<Longrightarrow> dict_default values k z = x"
  using names_distinct(3) by (simp add: dict_default_def map_of_is_SomeI)

text \<open>C15. Features are typed: an extraction that returns has one value for each of the declared features, in order;
  every value lies in the unit interval, the indicators are exactly 0 or 1; every trace is of a declared feature and
  names events of the case; and every declared attribute of every event is from an authorized source and has its
  exact type.\<close>

theorem features_typed:
  assumes "extract_features c = Inr (values, trace)"
  shows "map fst values = feature_names
    \<and> (\<forall>(k, x) \<in> set values. 0 \<le> x \<and> x \<le> 1
         \<and> (k \<in> set boolean_attribute_names \<or> k = ''privilege_global_admin'' \<longrightarrow> x = 0 \<or> x = 1))
    \<and> fst ` set trace \<subseteq> set feature_names
    \<and> (\<forall>k. set (dict_default trace k []) \<subseteq> set (case_event_ids c))
    \<and> (\<forall>e \<in> set (ic_events c). declared_event e)"
proof -
  obtain x st where x: "0 \<le> x" "x \<le> 1" and dec: "\<forall>e \<in> set (ic_events c). declared_event e"
    and of: "features_of (initial_features c x) (ic_events c) st" and fst: "fst st = values"
    and tr: "trace = dict_extend ''asset_criticality'' (map ee_event_id (inventory_events c))
       (dict_extend ''privilege_global_admin'' (map ee_event_id (inventory_events c)) (snd st))"
    using extract_features_Inr [OF assms] by metis
  have keys: "map fst values = feature_names" using of fst by (simp add: features_of_def initial_features_keys)
  have "0 \<le> dict_default values k 0 \<and> dict_default values k 0 \<le> 1
      \<and> (k \<in> set boolean_attribute_names \<or> k = ''privilege_global_admin'' \<longrightarrow> dict_default values k 0 \<in> {0, 1})" for k
  proof -
    consider "k \<in> set boolean_attribute_names" | "k = ''failed_login_intensity''"
      | "k \<notin> set boolean_attribute_names" "k \<noteq> ''failed_login_intensity''" by blast
    then show ?thesis
    proof cases
      case 1
      with of fst show ?thesis by (simp add: features_of_def)
    next
      case 2
      have "dict_default values k 0 \<le> 1"
        using of fst dec declared_intensity 2 by (auto simp: features_of_def intro!: fold_max_bounds)
      with 2 of fst fold_max_le [of 0 login_intensity "ic_events c"] other_features(2) show ?thesis
        by (simp add: features_of_def)
    next
      case 3
      then have "dict_default values k 0 = dict_default (initial_features c x) k 0"
        using of fst by (simp add: features_of_def)
      with x 3 other_features(4) show ?thesis
        by (cases "ic_privilege_level c = ''global_admin''") (auto simp: default_initial)
    qed
  qed
  then have "0 \<le> x \<and> x \<le> 1 \<and> (k \<in> set boolean_attribute_names \<or> k = ''privilege_global_admin'' \<longrightarrow> x = 0 \<or> x = 1)"
    if "(k, x) \<in> set values" for k x
    using map_of_feature_values [OF keys that, of 0] by (metis insertE singletonD)
  then have "\<forall>(k, x) \<in> set values. 0 \<le> x \<and> x \<le> 1
      \<and> (k \<in> set boolean_attribute_names \<or> k = ''privilege_global_admin'' \<longrightarrow> x = 0 \<or> x = 1)" by blast
  moreover have "fst ` set trace \<subseteq> set feature_names"
    using of by (auto simp: tr keys_dict_extend other_features(1) features_of_def)
  moreover have "set (dict_default trace k []) \<subseteq> set (case_event_ids c)" for k
  proof -
    have "set (dict_default (snd st) k []) \<subseteq> set (case_event_ids c)"
    proof (cases "k \<in> set boolean_attribute_names \<or> k = ''failed_login_intensity''")
      case True
      with of show ?thesis by (auto simp: features_of_def)
    next
      case False
      with of have "k \<notin> fst ` set (snd st)" by (simp add: features_of_def)
      then have "map_of (snd st) k = None" by (simp add: map_of_eq_None_iff)
      then show ?thesis by (simp add: dict_default_def)
    qed
    then show ?thesis by (auto simp: tr inventory_events_def)
  qed
  ultimately show ?thesis using keys dec by blast
qed


text \<open>C18. Features mean what the events say: an indicator is 1 exactly when some event asserts it (and every event
  bearing the attribute is of an authorized source), its trace is the list of the events bearing it in order, the
  login intensity is the largest of the events', the context features are those of the case and trace to its
  inventory events.\<close>

theorem features_meaning:
  assumes "extract_features c = Inr (values, trace)"
  shows "(\<forall>(k, srcs) \<in> set boolean_attribute_sources.
       dict_default values k 0 = (if \<exists>e \<in> set (ic_events c). asserts k e then 1 else 0)
       \<and> dict_default trace k [] = map ee_event_id (filter (bears k) (ic_events c))
       \<and> (\<forall>e \<in> set (ic_events c). bears k e \<longrightarrow> ee_source_type e \<in> set srcs))
    \<and> dict_default values ''failed_login_intensity'' 0 = Max (insert 0 (login_intensity ` set (ic_events c)))
    \<and> dict_default values ''privilege_global_admin'' 0 = (if ic_privilege_level c = ''global_admin'' then 1 else 0)
    \<and> Inr (dict_default values ''asset_criticality'' 0) = py_float (ic_asset_criticality c)
    \<and> dict_default trace ''asset_criticality'' [] = map ee_event_id (inventory_events c)
    \<and> inventory_events c \<noteq> []"
proof -
  obtain x st where x: "py_float (ic_asset_criticality c) = Inr x" and i: "inventory_events c \<noteq> []"
    and dec: "\<forall>e \<in> set (ic_events c). declared_event e"
    and of: "features_of (initial_features c x) (ic_events c) st" and fst: "fst st = values"
    and tr: "trace = dict_extend ''asset_criticality'' (map ee_event_id (inventory_events c))
       (dict_extend ''privilege_global_admin'' (map ee_event_id (inventory_events c)) (snd st))"
    using extract_features_Inr [OF assms] by metis
  have "dict_default values k 0 = (if \<exists>e \<in> set (ic_events c). asserts k e then 1 else 0)
      \<and> dict_default trace k [] = map ee_event_id (filter (bears k) (ic_events c))
      \<and> (\<forall>e \<in> set (ic_events c). bears k e \<longrightarrow> ee_source_type e \<in> set srcs)"
    if ks: "(k, srcs) \<in> set boolean_attribute_sources" for k srcs
  proof -
    have k: "k \<in> set boolean_attribute_names" using ks by (force simp: boolean_attribute_names_def)
    with other_features(3,4) have n: "k \<noteq> ''privilege_global_admin''" "k \<noteq> ''asset_criticality''" by blast+
    have "(k, srcs) \<in> set modeled_attribute_sources" using ks by (simp add: modeled_attribute_sources_def)
    with dec have "\<forall>e \<in> set (ic_events c). bears k e \<longrightarrow> ee_source_type e \<in> set srcs"
      using declared_source by (auto simp: bears_def)
    with of k n fst show ?thesis by (simp add: features_of_def tr)
  qed
  moreover have ctx: "dict_default values k 0 = dict_default (initial_features c x) k 0 \<and> dict_default (snd st) k [] = []"
    if "k \<in> {''privilege_global_admin'', ''asset_criticality''}" for k
  proof -
    have "k \<notin> set boolean_attribute_names" "k \<noteq> ''failed_login_intensity''" using that other_features(3,4) by auto
    with of fst have "dict_default values k 0 = dict_default (initial_features c x) k 0" "k \<notin> fst ` set (snd st)"
      by (simp_all add: features_of_def)
    moreover from this(2) have "map_of (snd st) k = None" by (simp add: map_of_eq_None_iff)
    ultimately show ?thesis by (simp add: dict_default_def)
  qed
  moreover have "dict_default values ''failed_login_intensity'' 0 = Max (insert 0 (login_intensity ` set (ic_events c)))"
    using of fst by (simp add: features_of_def fold_max_is_Max)
  ultimately show ?thesis using x i ctx [of "''asset_criticality''"] ctx [of "''privilege_global_admin''"]
    by (auto simp: tr default_initial)
qed

subsection \<open>What cannot reach the model\<close>

text \<open>The event with its free text, its integrity, provenance, trust and times and every undeclared attribute removed.\<close>

definition declared_names :: "pystr list" where
  "declared_names = modeled_attribute_names @ required_inventory"

definition redacted :: "evidence_event \<Rightarrow> evidence_event" where
  "redacted e = e\<lparr>ee_source_instance := [], ee_observed_at := [], ee_collected_at := [], ee_integrity := [],
     ee_provenance_id := [], ee_trust_score := IntNumber 0, ee_entity_refs := [], ee_untrusted_text := [],
     ee_instructional := False, ee_attributes := filter (\<lambda>(k, _). k \<in> set declared_names) (ee_attributes e)\<rparr>"

lemma map_of_declared: "k \<in> set declared_names \<Longrightarrow> map_of (ee_attributes (redacted e)) k = map_of (ee_attributes e) k"
proof -
  assume "k \<in> set declared_names"
  then have "map_of (filter (\<lambda>(k, _). k \<in> set declared_names) d) k = map_of d k" for d :: "(pystr \<times> json) list"
    by (induction d) auto
  then show ?thesis by (simp add: redacted_def)
qed

lemma select_redacted:
  "select_modeled_attributes s (ee_attributes (redacted e)) l = select_modeled_attributes s (ee_attributes e) l"
proof -
  have "map_of (ee_attributes (redacted e)) (fst n) = map_of (ee_attributes e) (fst n)"
    if "n \<in> set modeled_attribute_sources" for n
    using that by (intro map_of_declared) (auto simp: declared_names_def modeled_attribute_names_def)
  then show ?thesis
    by (auto simp: select_modeled_attributes_def select_attribute_def intro!: arg_cong2 [of _ _ _ _ and_then] fold_result_cong)
qed

lemma event_features_redacted: "event_features (redacted e) = event_features e"
proof -
  have "ee_event_id (redacted e) = ee_event_id e" "ee_source_type (redacted e) = ee_source_type e"
    by (simp_all add: redacted_def)
  then show ?thesis by (simp add: fun_eq_iff event_features_def attributes_label_def select_redacted)
qed

lemma validate_inventory_redacted:
  "validate_inventory a p g x (ee_attributes (redacted e)) = validate_inventory a p g x (ee_attributes e)"
proof -
  have m: "map_of (ee_attributes (redacted e)) k = map_of (ee_attributes e) k" if "k \<in> set required_inventory" for k
    using that by (intro map_of_declared) (simp add: declared_names_def)
  then have "k \<in> fst ` set (ee_attributes (redacted e)) \<longleftrightarrow> k \<in> fst ` set (ee_attributes e)" if "k \<in> set required_inventory" for k
    using that by (metis map_of_eq_None_iff)
  then have "list_all (\<lambda>k. k \<in> fst ` set (ee_attributes (redacted e))) required_inventory
      = list_all (\<lambda>k. k \<in> fst ` set (ee_attributes e)) required_inventory"
    by (simp add: list_all_iff)
  moreover have "obj_get (ee_attributes (redacted e)) k = obj_get (ee_attributes e) k" if "k \<in> set required_inventory" for k
    using m [OF that] by (simp add: obj_get_def)
  ultimately show ?thesis by (simp add: validate_inventory_def required_inventory_def)
qed

text \<open>C13. Only declared attributes of authorized sources reach the model: removing the untrusted text, the undeclared
  attributes and every other field of the events leaves the features, their traces and every refusal unchanged.\<close>

theorem untrusted_content_excluded:
  "extract_features (c\<lparr>ic_events := map redacted (ic_events c)\<rparr>) = extract_features c"
proof -
  define c' where "c' = c\<lparr>ic_events := map redacted (ic_events c)\<rparr>"
  have simps: "ic_asset_id c' = ic_asset_id c" "ic_privilege_level c' = ic_privilege_level c"
    "ic_break_glass c' = ic_break_glass c" "ic_asset_criticality c' = ic_asset_criticality c"
    "ic_events c' = map redacted (ic_events c)"
    by (simp_all add: c'_def)
  have type_id: "ee_source_type (redacted e) = ee_source_type e" "ee_event_id (redacted e) = ee_event_id e" for e
    by (simp_all add: redacted_def)
  have inv: "inventory_events c' = map redacted (inventory_events c)"
    by (simp add: inventory_events_def simps filter_map comp_def type_id)
  have "for_each (validate_inventory a p g x) (map ee_attributes (map redacted es))
      = for_each (validate_inventory a p g x) (map ee_attributes es)" for a p g x es
    by (induction es) (simp_all add: validate_inventory_redacted)
  then have ctx: "validate_case_context a p g x (map ee_attributes (map redacted es))
      = validate_case_context a p g x (map ee_attributes es)" for a p g x es
    by (simp add: validate_case_context_def)
  have "fold_result event_features (map redacted es) = fold_result event_features es" for es
    by (induction es) (auto simp: event_features_redacted intro!: ext)
  moreover have "initial_features c' = initial_features c" by (simp add: fun_eq_iff initial_features_def simps)
  moreover have "map ee_event_id (inventory_events c') = map ee_event_id (inventory_events c)"
    by (simp add: inv type_id)
  ultimately show ?thesis using ctx unfolding c'_def [symmetric]
    by (simp add: extract_features_def simps inv del: map_map)
qed

end
