(* ===== verification/P1Evidence.thy ===== *)
theory P1Evidence
  imports P1FeatureFacts PyRegex
begin

text \<open>
  The evidence safety layer of phase 1 (\<open>evidence.py\<close>): freshness of each event, the indicators it asserts, the
  instructions its untrusted text may contain, and the quality score with its reasons. Floating point operations
  round one by one as in the source.
\<close>

subsection \<open>Times\<close>

text \<open>\<open>datetime.fromisoformat\<close> gives an aware or a naive value; the difference of one of each raises.\<close>

datatype moment = Aware instant | Naive instant

definition parse_time :: "pystr \<Rightarrow> (pystr, moment) result" where
  "parse_time s =
     (case fromisoformat s of
        Some t \<Rightarrow> Inr (Aware t)
      | None \<Rightarrow> (case fromisoformat (s @ ''+00:00'') of Some t \<Rightarrow> Inr (Naive t) | None \<Rightarrow> Inl ''ValueError''))"

fun time_difference :: "moment \<Rightarrow> moment \<Rightarrow> (pystr, int) result" where
  "time_difference (Aware t) (Aware u) = Inr (t - u)"
| "time_difference (Naive t) (Naive u) = Inr (t - u)"
| "time_difference _ _ = Inl ''TypeError''"

definition total_seconds :: "int \<Rightarrow> rat" where
  "total_seconds us = fl (of_int us / 1000000)"

definition event_freshness :: "evidence_event \<Rightarrow> (pystr, rat) result" where
  "event_freshness e =
     and_then (parse_time (ee_collected_at e)) (\<lambda>collected.
     and_then (parse_time (ee_observed_at e)) (\<lambda>observed.
     and_then (time_difference collected observed) (\<lambda>us.
     let delay_seconds = max 0 (total_seconds us)
     in Inr (clamp 0 1 (fl (1 - fl (max 0 (fl (delay_seconds - 300)) / 6900)))))))"

subsection \<open>Indicators and instructions\<close>

definition instruction_patterns :: "rx list list" where
  "instruction_patterns =
     [[Boundary, Word ''ignore'', Spaces1, Choice [[Word ''all'', Spaces1], []],
       Choice [[Word ''prior''], [Word ''previous'']], Boundary],
      [Boundary, Choice [[Word ''system''], [Word ''assistant'']], Spaces0, Word '':'', Spaces0],
      [Boundary, Word ''do'', Spaces1, Word ''not'', Spaces1, Word ''ask'', Boundary],
      [Boundary, Word ''disable'', Spaces1, Choice [[Word ''the'', Spaces1], []], Word ''account'', Boundary]]"

definition positive_indicators :: "pystr list" where
  "positive_indicators =
     [''threat_ip'', ''token_reuse'', ''credential_dumping'', ''lateral_movement'', ''edr_malware'', ''mfa_fatigue'',
      ''oauth_grant'', ''unusual_admin_action'', ''new_device'', ''impossible_travel'']"

definition benign_indicators :: "pystr list" where
  "benign_indicators =
     [''known_vpn'', ''approved_travel'', ''maintenance_window'', ''service_account_baseline'', ''strong_mfa'']"

definition expected_sources :: "pystr list" where
  "expected_sources =
     [''asset_inventory'', ''identity'', ''network'', ''endpoint'', ''threat_intel'', ''change_management'',
      ''user_context'']"

definition instructional :: "evidence_event \<Rightarrow> bool" where
  "instructional e = (ee_instructional e \<or> list_ex (\<lambda>p. rx_search p (ee_untrusted_text e)) instruction_patterns)"

definition any_true :: "(pystr \<times> json) list \<Rightarrow> pystr list \<Rightarrow> bool" where
  "any_true modeled names = list_ex (\<lambda>key. map_of modeled key = Some (JBool True)) names"

subsection \<open>The loop over the events\<close>

record evidence_loop =
  el_freshness :: "rat list"
  el_positive :: "pystr list"
  el_benign :: "pystr list"
  el_supporting :: "pystr list"
  el_poisoned :: "pystr list"
  el_conflicts :: int

definition no_evidence :: evidence_loop where
  "no_evidence = \<lparr>el_freshness = [], el_positive = [], el_benign = [], el_supporting = [], el_poisoned = [], el_conflicts = 0\<rparr>"

definition assess_event :: "evidence_event \<Rightarrow> evidence_loop \<Rightarrow> (pystr, evidence_loop) result" where
  "assess_event e st =
     and_then (event_freshness e) (\<lambda>fresh.
     and_then (select_modeled_attributes (ee_source_type e) (ee_attributes e) (attributes_label e)) (\<lambda>modeled.
     and_then (select_evidence_attributes (ee_source_type e) (ee_attributes e) (attributes_label e)) (\<lambda>selected.
     let positive = any_true modeled positive_indicators; benign = any_true modeled benign_indicators;
         add = (\<lambda>b ids. if b then ids @ [ee_event_id e] else ids)
     in Inr \<lparr>el_freshness = el_freshness st @ [fresh],
             el_positive = add positive (el_positive st), el_benign = add benign (el_benign st),
             el_supporting = (if positive then List.insert (ee_source_type e) (el_supporting st) else el_supporting st),
             el_poisoned = add (instructional e) (el_poisoned st),
             el_conflicts = el_conflicts st
               + (if map_of selected ''source_conflict'' = Some (JBool True) then 1 else 0)\<rparr>)))"

subsection \<open>The assessment\<close>

record case_evidence =
  ce_quality :: rat
  ce_provenance_ratio :: rat
  ce_integrity_ratio :: rat
  ce_freshness :: rat
  ce_diversity :: rat
  ce_trust :: rat
  ce_supporting_sources :: int
  ce_positive_ids :: "pystr list"
  ce_benign_ids :: "pystr list"
  ce_missing :: "pystr list"
  ce_conflicts :: int
  ce_poisoned :: bool
  ce_poisoned_ids :: "pystr list"
  ce_reasons :: "pystr list"

definition evidence_to_dict :: "case_evidence \<Rightarrow> (pystr \<times> json) list" where
  "evidence_to_dict a =
     [(''evidence_quality'', JFloat (ce_quality a)), (''provenance_valid_ratio'', JFloat (ce_provenance_ratio a)),
      (''integrity_verified_ratio'', JFloat (ce_integrity_ratio a)), (''freshness_score'', JFloat (ce_freshness a)),
      (''source_diversity_score'', JFloat (ce_diversity a)), (''mean_source_trust'', JFloat (ce_trust a)),
      (''independent_supporting_sources'', JInt (ce_supporting_sources a)),
      (''positive_event_ids'', jstrs (ce_positive_ids a)), (''benign_event_ids'', jstrs (ce_benign_ids a)),
      (''missing_expected_sources'', jstrs (ce_missing a)), (''conflict_count'', JInt (ce_conflicts a)),
      (''poisoned_evidence'', JBool (ce_poisoned a)), (''poisoned_event_ids'', jstrs (ce_poisoned_ids a)),
      (''reasons'', jstrs (ce_reasons a))]"

definition mean_of :: "rat list \<Rightarrow> rat" where
  "mean_of xs = fl (fsum xs / of_nat (length xs))"

definition flags :: "bool list \<Rightarrow> rat list" where
  "flags bs = map (\<lambda>b. if b then 1 else 0) bs"

definition quality_score :: "rat \<Rightarrow> rat \<Rightarrow> rat \<Rightarrow> rat \<Rightarrow> rat \<Rightarrow> int \<Rightarrow> bool \<Rightarrow> nat \<Rightarrow> rat" where
  "quality_score provenance integrity freshness diversity trust conflicts poisoned missing =
     (let weigh = (\<lambda>w x. fl (fl w * x));
          q0 = fl (fl (fl (fl (weigh (27/100) provenance + weigh (23/100) integrity) + weigh (18/100) freshness)
                 + weigh (17/100) diversity) + weigh (15/100) trust);
          q1 = fl (q0 - min (fl (25/100)) (fl (fl (10/100) * of_int conflicts)));
          q2 = (if poisoned then fl (q1 - fl (30/100)) else q1);
          q3 = (if 2 \<le> missing then fl (q2 - fl (12/100)) else q2)
      in clamp 0 1 q3)"

definition evidence_reasons :: "rat \<Rightarrow> rat \<Rightarrow> rat \<Rightarrow> pystr list \<Rightarrow> int \<Rightarrow> bool \<Rightarrow> pystr list" where
  "evidence_reasons provenance integrity freshness missing conflicts poisoned =
     (let reasons =
        (if provenance < 1 then [''One or more evidence events lack verifiable provenance.''] else [])
        @ (if integrity < 1
           then [''One or more evidence events failed integrity verification or remain unverified.''] else [])
        @ (if freshness < fl (80/100) then [''One or more telemetry sources are stale.''] else [])
        @ (if missing \<noteq> [] then [''Expected evidence sources are missing: '' @ join '', '' missing @ ''.''] else [])
        @ (if conflicts \<noteq> 0 then [''Independent telemetry sources conflict.''] else [])
        @ (if poisoned then [''Untrusted content contains instructions directed at an AI agent; content is excluded from model input and blocks autonomous action.''] else [])
      in if reasons = []
         then [''Evidence provenance, integrity, freshness, and source diversity meet the POC baseline.'']
         else reasons)"

definition missing_sources :: "pystr list \<Rightarrow> pystr list" where
  "missing_sources sources = sort (filter (\<lambda>s. s \<notin> set sources) expected_sources)"

definition assess_evidence :: "identity_case \<Rightarrow> (pystr, case_evidence) result" where
  "assess_evidence c =
     (if ic_events c = [] then
        Inr \<lparr>ce_quality = 0, ce_provenance_ratio = 0, ce_integrity_ratio = 0, ce_freshness = 0, ce_diversity = 0,
             ce_trust = 0, ce_supporting_sources = 0, ce_positive_ids = [], ce_benign_ids = [],
             ce_missing = sort expected_sources, ce_conflicts = 0, ce_poisoned = False, ce_poisoned_ids = [],
             ce_reasons = [''No evidence events were supplied.'']\<rparr>
      else
        and_then (fold_result assess_event (ic_events c) no_evidence) (\<lambda>st.
        and_then (map_result (\<lambda>e. py_float (ee_trust_score e)) (ic_events c)) (\<lambda>trusts.
        let provenance = mean_of (flags (map (\<lambda>e. ee_provenance_id e \<noteq> []) (ic_events c)));
            integrity = mean_of (flags (map (\<lambda>e. ee_integrity e = ''verified'') (ic_events c)));
            freshness = mean_of (el_freshness st);
            sources = remdups (map ee_source_type (ic_events c));
            diversity = clamp 0 1 (fl (of_nat (length sources) / of_nat (length expected_sources)));
            trust = mean_of trusts;
            missing = missing_sources sources;
            poisoned = (el_poisoned st \<noteq> []);
            quality = quality_score provenance integrity freshness diversity trust (el_conflicts st) poisoned (length missing)
        in Inr \<lparr>ce_quality = py_round 6 quality, ce_provenance_ratio = py_round 6 provenance,
                ce_integrity_ratio = py_round 6 integrity, ce_freshness = py_round 6 freshness,
                ce_diversity = py_round 6 diversity, ce_trust = py_round 6 trust,
                ce_supporting_sources = int (length (el_supporting st)), ce_positive_ids = el_positive st,
                ce_benign_ids = el_benign st, ce_missing = missing, ce_conflicts = el_conflicts st,
                ce_poisoned = poisoned, ce_poisoned_ids = el_poisoned st,
                ce_reasons = evidence_reasons provenance integrity freshness missing (el_conflicts st) poisoned\<rparr>)))"

subsection \<open>What is assessed\<close>

definition supports_attack :: "evidence_event \<Rightarrow> bool" where
  "supports_attack e = list_ex (\<lambda>k. asserts k e) positive_indicators"

definition supports_benign :: "evidence_event \<Rightarrow> bool" where
  "supports_benign e = list_ex (\<lambda>k. asserts k e) benign_indicators"

definition assessable :: "evidence_event \<Rightarrow> bool" where
  "assessable e \<longleftrightarrow> declared_event e \<and> is_ok (event_freshness e)
     \<and> (\<forall>v. map_of (ee_attributes e) ''source_conflict'' = Some v \<longrightarrow> ee_source_type e = ''network'' \<and> (\<exists>b. v = JBool b))"

lemma indicators_boolean:
  "set positive_indicators \<subseteq> set boolean_attribute_names" "set benign_indicators \<subseteq> set boolean_attribute_names"
  by code_simp+

lemma any_true_selected:
  assumes "select_modeled_attributes (ee_source_type e) (ee_attributes e) l = Inr m"
    and "set names \<subseteq> set boolean_attribute_names"
  shows "any_true m names = list_ex (\<lambda>k. asserts k e) names"
proof -
  have "map_of m k = map_of (ee_attributes e) k" if "k \<in> set names" for k
    using selected_values(1) [OF assms(1)] assms(2) that by blast
  then show ?thesis by (auto simp: any_true_def asserts_def list_ex_iff)
qed

lemma select_evidence_Inr:
  "select_evidence_attributes s a l = Inr m \<longleftrightarrow> identifier_pattern s \<and>
     (case map_of a ''source_conflict'' of
        None \<Rightarrow> m = [] | Some v \<Rightarrow> s = ''network'' \<and> (\<exists>b. v = JBool b \<and> m = [(''source_conflict'', JBool b)]))"
  by (auto simp: select_evidence_attributes_def evidence_attribute_sources_def select_attribute_Inr attribute_value_def
      split: option.splits)

text \<open>One pass of the loop, in terms of the event.\<close>

lemma assess_event_Inr:
  "assess_event e st = Inr st' \<longleftrightarrow> assessable e \<and> (\<exists>fresh. event_freshness e = Inr fresh \<and>
     st' = \<lparr>el_freshness = el_freshness st @ [fresh],
       el_positive = el_positive st @ (if supports_attack e then [ee_event_id e] else []),
       el_benign = el_benign st @ (if supports_benign e then [ee_event_id e] else []),
       el_supporting = (if supports_attack e then List.insert (ee_source_type e) (el_supporting st) else el_supporting st),
       el_poisoned = el_poisoned st @ (if instructional e then [ee_event_id e] else []),
       el_conflicts = el_conflicts st + (if asserts ''source_conflict'' e then 1 else 0)\<rparr>)"
  (is "?lhs \<longleftrightarrow> ?rhs")
proof (cases "assessable e")
  case False
  have "\<not> ?lhs"
  proof
    assume ?lhs
    then obtain m s where "select_modeled_attributes (ee_source_type e) (ee_attributes e) (attributes_label e) = Inr m"
      and "select_evidence_attributes (ee_source_type e) (ee_attributes e) (attributes_label e) = Inr s"
      and "is_ok (event_freshness e)" by (auto simp: assess_event_def is_ok_iff)
    moreover from this have "declared_event e" using declared_selects by blast
    ultimately show False using False
      by (auto simp: assessable_def select_evidence_Inr simp del: identifier_pattern.simps split: option.splits)
  qed
  with False show ?thesis by simp
next
  case True
  then obtain fresh where f: "event_freshness e = Inr fresh" by (auto simp: assessable_def is_ok_iff)
  from True obtain m where m: "select_modeled_attributes (ee_source_type e) (ee_attributes e) (attributes_label e) = Inr m"
    unfolding assessable_def declared_selects [of e "attributes_label e"] by blast
  have "identifier_pattern (ee_source_type e)" using True by (simp add: assessable_def declared_event_def)
  with True obtain s where s: "select_evidence_attributes (ee_source_type e) (ee_attributes e) (attributes_label e) = Inr s"
    and sc: "map_of s ''source_conflict'' = Some (JBool True) \<longleftrightarrow> asserts ''source_conflict'' e"
    by (cases "map_of (ee_attributes e) ''source_conflict''")
       (fastforce simp: assessable_def select_evidence_Inr asserts_def)+
  show ?thesis
    by (auto simp: assess_event_def f m s sc True any_true_selected [OF m] indicators_boolean Let_def
        supports_attack_def supports_benign_def)
qed


definition freshness_value :: "evidence_event \<Rightarrow> rat" where
  "freshness_value e = (case event_freshness e of Inr x \<Rightarrow> x | Inl _ \<Rightarrow> 0)"

definition loop_of :: "evidence_event list \<Rightarrow> evidence_loop \<Rightarrow> bool" where
  "loop_of es st \<longleftrightarrow>
     el_freshness st = map freshness_value es
     \<and> el_positive st = map ee_event_id (filter supports_attack es)
     \<and> el_benign st = map ee_event_id (filter supports_benign es)
     \<and> set (el_supporting st) = ee_source_type ` set (filter supports_attack es) \<and> distinct (el_supporting st)
     \<and> el_poisoned st = map ee_event_id (filter instructional es)
     \<and> el_conflicts st = int (length (filter (asserts ''source_conflict'') es))"

lemma loop_of_snoc:
  assumes "loop_of es st" and "assess_event e st = Inr st'"
  shows "assessable e \<and> loop_of (es @ [e]) st'"
proof -
  from assms(2) obtain fresh where "assessable e" "event_freshness e = Inr fresh"
    "st' = \<lparr>el_freshness = el_freshness st @ [fresh],
       el_positive = el_positive st @ (if supports_attack e then [ee_event_id e] else []),
       el_benign = el_benign st @ (if supports_benign e then [ee_event_id e] else []),
       el_supporting = (if supports_attack e then List.insert (ee_source_type e) (el_supporting st) else el_supporting st),
       el_poisoned = el_poisoned st @ (if instructional e then [ee_event_id e] else []),
       el_conflicts = el_conflicts st + (if asserts ''source_conflict'' e then 1 else 0)\<rparr>"
    unfolding assess_event_Inr by blast
  with assms(1) show ?thesis by (simp add: loop_of_def freshness_value_def)
qed

lemma assess_loop:
  "fold_result assess_event es no_evidence = Inr st \<Longrightarrow> (\<forall>e \<in> set es. assessable e) \<and> loop_of es st"
proof (induction es arbitrary: st rule: rev_induct)
  case Nil
  then show ?case by (auto simp: loop_of_def no_evidence_def)
next
  case (snoc e es)
  then obtain st0 where st0: "fold_result assess_event es no_evidence = Inr st0" "assess_event e st0 = Inr st"
    by (auto simp: fold_result_append)
  from snoc.IH [OF st0(1)] loop_of_snoc [OF _ st0(2), of es] show ?case by auto
qed

lemma assess_loop_total: "\<forall>e \<in> set es. assessable e \<Longrightarrow> \<exists>st'. fold_result assess_event es st = Inr st'"
proof (induction es arbitrary: st)
  case (Cons e es)
  then obtain st' where "assess_event e st = Inr st'" by (auto simp: assess_event_Inr assessable_def is_ok_iff)
  with Cons show ?case by auto
qed simp

text \<open>An assessment that returns, in terms of the events of the case.\<close>

lemma assess_evidence_facts:
  assumes "assess_evidence c = Inr ev"
  shows "\<forall>e \<in> set (ic_events c). assessable e"
    and "ce_positive_ids ev = map ee_event_id (filter supports_attack (ic_events c))"
    and "ce_benign_ids ev = map ee_event_id (filter supports_benign (ic_events c))"
    and "ce_poisoned_ids ev = map ee_event_id (filter instructional (ic_events c))"
    and "ce_poisoned ev \<longleftrightarrow> (\<exists>e \<in> set (ic_events c). instructional e)"
    and "ce_conflicts ev = int (length (filter (asserts ''source_conflict'') (ic_events c)))"
    and "ce_supporting_sources ev = int (card (ee_source_type ` set (filter supports_attack (ic_events c))))"
    and "set (ce_missing ev) = set expected_sources - ee_source_type ` set (ic_events c)"
proof -
  show "\<forall>e \<in> set (ic_events c). assessable e"
    using assms assess_loop by (auto simp: assess_evidence_def split: if_splits)
  show "ce_positive_ids ev = map ee_event_id (filter supports_attack (ic_events c))"
    "ce_benign_ids ev = map ee_event_id (filter supports_benign (ic_events c))"
    "ce_poisoned_ids ev = map ee_event_id (filter instructional (ic_events c))"
    "ce_conflicts ev = int (length (filter (asserts ''source_conflict'') (ic_events c)))"
    using assms by (auto simp: assess_evidence_def Let_def loop_of_def dest!: assess_loop split: if_splits)
  show "ce_poisoned ev \<longleftrightarrow> (\<exists>e \<in> set (ic_events c). instructional e)"
    using assms by (auto simp: assess_evidence_def Let_def loop_of_def filter_empty_conv dest!: assess_loop split: if_splits)
  show "ce_supporting_sources ev = int (card (ee_source_type ` set (filter supports_attack (ic_events c))))"
    using assms
    by (auto simp: assess_evidence_def Let_def loop_of_def distinct_card [symmetric] simp del: set_filter
        dest!: assess_loop split: if_splits)
  show "set (ce_missing ev) = set expected_sources - ee_source_type ` set (ic_events c)"
    using assms by (auto simp: assess_evidence_def Let_def missing_sources_def split: if_splits)
qed

end
