(* ===== verification/P1Model.thy ===== *)
theory P1Model
  imports P1FeatureFacts
begin

text \<open>
  The assessment of a case by the model (\<open>model.py\<close>): \<open>assess\<close> over any predictor, and the logistic predictor
  with NumPy's \<open>exp\<close> as a parameter. Training, and the JSON form of a model, are not modelled. The scales are
  nonzero (a zero scale gives an infinity in NumPy, which is not a \<open>rat\<close>).
\<close>

record factor_row =
  fr_feature :: pystr
  fr_contribution :: rat
  fr_value :: rat

record model_assessment =
  ma_probability :: rat
  ma_version :: pystr
  ma_positive :: "factor_row list"
  ma_negative :: "factor_row list"
  ma_values :: feature_values
  ma_trace :: feature_trace

definition factor_to_dict :: "factor_row \<Rightarrow> json" where
  "factor_to_dict r = JObj [(''feature'', JStr (fr_feature r)), (''contribution'', JFloat (fr_contribution r)),
     (''value'', JFloat (fr_value r))]"

definition trace_json :: "feature_trace \<Rightarrow> json" where
  "trace_json trace = JObj (map (\<lambda>(k, ids). (k, jstrs ids)) trace)"

definition model_to_dict :: "model_assessment \<Rightarrow> (pystr \<times> json) list" where
  "model_to_dict m =
     [(''compromise_probability'', JFloat (ma_probability m)), (''model_version'', JStr (ma_version m)),
      (''top_positive_factors'', JList (map factor_to_dict (ma_positive m))),
      (''top_negative_factors'', JList (map factor_to_dict (ma_negative m))),
      (''feature_values'', JObj (map (\<lambda>(k, x). (k, JFloat x)) (ma_values m))),
      (''feature_trace'', trace_json (ma_trace m))]"

type_synonym predictor = "feature_values \<Rightarrow> rat \<times> rat list"

definition factor_rows :: "feature_values \<Rightarrow> rat list \<Rightarrow> factor_row list" where
  "factor_rows features contributions =
     map (\<lambda>(name, v). \<lparr>fr_feature = name, fr_contribution = py_round 6 v,
                       fr_value = py_round 6 (dict_default features name 0)\<rparr>) (zip feature_names contributions)"

definition assess_model :: "predictor \<Rightarrow> pystr \<Rightarrow> identity_case \<Rightarrow> (pystr, model_assessment) result" where
  "assess_model predict version c =
     and_then (extract_features c) (\<lambda>(features, trace).
     let (probability, contributions) = predict features
     in and_then (require (length contributions = length feature_names) ''ValueError'') (\<lambda>_.
     let rows = factor_rows features contributions
     in Inr \<lparr>ma_probability = py_round 8 probability, ma_version = version,
             ma_positive = take 5 (sort_key (\<lambda>r. - fr_contribution r) (filter (\<lambda>r. 0 < fr_contribution r) rows)),
             ma_negative = take 5 (sort_key fr_contribution (filter (\<lambda>r. fr_contribution r < 0) rows)),
             ma_values = map (\<lambda>(k, x). (k, py_round 6 x)) features, ma_trace = trace\<rparr>))"

subsection \<open>The logistic predictor\<close>

record logistic_model =
  lm_version :: pystr
  lm_means :: "rat list"
  lm_scales :: "rat list"
  lm_weights :: "rat list"
  lm_intercept :: rat

definition sigmoid :: "(rat \<Rightarrow> rat) \<Rightarrow> rat \<Rightarrow> rat" where
  "sigmoid np_exp v = fl (1 / fl (1 + np_exp (- max (- 30) (min 30 v))))"

definition predict_probability :: "(rat \<Rightarrow> rat) \<Rightarrow> logistic_model \<Rightarrow> predictor" where
  "predict_probability np_exp m features =
     (let x = vectorize features;
          z = map (\<lambda>(v, mean, scale). fl (fl (v - mean) / scale)) (zip x (zip (lm_means m) (lm_scales m)));
          contributions = map (\<lambda>(v, weight). fl (v * weight)) (zip z (lm_weights m));
          logit = fl (fsum contributions + lm_intercept m)
      in (sigmoid np_exp logit, contributions))"

lemma sigmoid_unit:
  assumes "\<And>v. 0 \<le> np_exp v"
  shows "0 \<le> sigmoid np_exp v \<and> sigmoid np_exp v \<le> 1"
proof -
  have "fl 1 \<le> fl (1 + np_exp w)" for w using assms [of w] by (intro fl_mono) simp
  then have *: "1 \<le> fl (1 + np_exp w)" for w by simp
  then have "0 \<le> 1 / fl (1 + np_exp w) \<and> 1 / fl (1 + np_exp w) \<le> 1" for w
    using order_trans [OF _ * [of w], of 0] by (auto simp: divide_le_eq_1)
  then show ?thesis by (simp add: sigmoid_def binary64.rnd_unit)
qed

lemma assess_model_Inr:
  assumes "assess_model predict version c = Inr m"
  obtains features where "extract_features c = Inr (features, ma_trace m)"
    "ma_probability m = py_round 8 (fst (predict features))" "ma_version m = version"
    "ma_values m = map (\<lambda>(k, x). (k, py_round 6 x)) features" "length (snd (predict features)) = length feature_names"
proof -
  from assms obtain features trace where e: "extract_features c = Inr (features, trace)"
    by (auto simp: assess_model_def)
  with assms have "ma_trace m = trace" "ma_probability m = py_round 8 (fst (predict features))" "ma_version m = version"
    "ma_values m = map (\<lambda>(k, x). (k, py_round 6 x)) features" "length (snd (predict features)) = length feature_names"
    by (cases "predict features"; auto simp: assess_model_def Let_def)+
  with e that show thesis by simp
qed

end
