(* ===== verification/P1Policy.thy ===== *)
theory P1Policy
  imports P1Evidence P1Model
begin

text \<open>
  The policy engine and the independent verifier of phase 1 (\<open>policy.py\<close>, \<open>verifier.py\<close>). A configuration holds
  the values after the conversions the code applies on use (\<open>float\<close>, \<open>int\<close>, \<open>bool\<close>); loading it from a file is not
  modelled.
\<close>

subsection \<open>Configuration and proposals\<close>

record case_policy =
  pc_policy_id :: pystr
  pc_version :: pystr
  pc_no_action_max :: rat
  pc_escalation_min :: rat
  pc_containment_min :: rat
  pc_minimum_quality :: rat
  pc_minimum_provenance :: rat
  pc_minimum_integrity :: rat
  pc_minimum_supporting :: int
  pc_maximum_missing :: int
  pc_maximum_conflicts :: int
  pc_maximum_criticality :: rat
  pc_break_glass_human :: bool
  pc_autonomous_actions :: "pystr list"
  pc_human_only_actions :: "pystr list"
  pc_poison_blocks :: bool
  pc_token_ttl_seconds :: int

record case_proposal =
  pp_disposition :: case_disposition
  pp_executable :: "pystr list"
  pp_human :: "pystr list"
  pp_investigation :: "pystr list"
  pp_rationale :: "pystr list"
  pp_rules :: "pystr list"
  pp_evidence_ids :: "pystr list"
  pp_authority :: pystr
  pp_rollback :: "(pystr \<times> pystr) list"

definition proposal_to_dict :: "case_proposal \<Rightarrow> (pystr \<times> json) list" where
  "proposal_to_dict p =
     [(''disposition'', JStr (disposition_text (pp_disposition p))), (''executable_actions'', jstrs (pp_executable p)),
      (''recommended_human_actions'', jstrs (pp_human p)), (''investigation_actions'', jstrs (pp_investigation p)),
      (''rationale'', jstrs (pp_rationale p)), (''policy_rules_applied'', jstrs (pp_rules p)),
      (''evidence_event_ids'', jstrs (pp_evidence_ids p)), (''required_authority'', JStr (pp_authority p)),
      (''rollback_plan'', JObj (map (\<lambda>(k, v). (k, JStr v)) (pp_rollback p)))]"

text \<open>\<open>f"{x:.nf}"\<close>: the exact value rounded half to even at the last digit.\<close>

definition format_fixed :: "nat \<Rightarrow> rat \<Rightarrow> string" where
  "format_fixed n x =
     (let k = round_half_even (\<bar>x\<bar> * 10 ^ n); digits = show_nat (k mod 10 ^ n)
      in (if x < 0 then ''-'' else []) @ show_nat (k div 10 ^ n) @ ''.''
         @ replicate (n - length digits) CHR ''0'' @ digits)"

definition f3 :: "rat \<Rightarrow> string" where
  "f3 x = format_fixed 3 x"

definition rollback_plan :: "(pystr \<times> pystr) list" where
  "rollback_plan =
     [(''revoke_active_sessions'', ''restore only through normal reauthentication; no session token is reinstated''),
      (''force_step_up_auth'', ''remove temporary step-up requirement after analyst review''),
      (''increase_monitoring'', ''return telemetry policy to baseline after closure'')]"

definition investigate :: "pystr list \<Rightarrow> pystr list \<Rightarrow> pystr list \<Rightarrow> case_proposal" where
  "investigate rationale rules evidence_ids =
     \<lparr>pp_disposition = Investigate, pp_executable = [], pp_human = [],
      pp_investigation = [''query_identity_history'', ''query_endpoint_telemetry'', ''validate_change_and_travel_context''],
      pp_rationale = rationale, pp_rules = rules, pp_evidence_ids = evidence_ids,
      pp_authority = ''read_only_automation'', pp_rollback = []\<rparr>"

subsection \<open>The policy\<close>

definition severe_indicators :: "pystr list" where
  "severe_indicators = [''credential_dumping'', ''lateral_movement'', ''token_reuse'', ''oauth_grant'']"

definition severe_case :: "model_assessment \<Rightarrow> bool" where
  "severe_case m = list_ex (\<lambda>name. 1 \<le> dict_default (ma_values m) name 0) severe_indicators"

definition decision_grade :: "case_policy \<Rightarrow> case_evidence \<Rightarrow> bool" where
  "decision_grade cfg ev =
     (pc_minimum_quality cfg \<le> ce_quality ev
      \<and> pc_minimum_provenance cfg \<le> ce_provenance_ratio ev
      \<and> pc_minimum_integrity cfg \<le> ce_integrity_ratio ev
      \<and> ce_conflicts ev \<le> pc_maximum_conflicts cfg
      \<and> int (length (ce_missing ev)) \<le> pc_maximum_missing cfg
      \<and> \<not> (pc_poison_blocks cfg \<and> ce_poisoned ev))"

definition automation_grade :: "case_policy \<Rightarrow> case_evidence \<Rightarrow> bool" where
  "automation_grade cfg ev = (decision_grade cfg ev \<and> pc_minimum_supporting cfg \<le> ce_supporting_sources ev)"

definition cited_evidence :: "case_evidence \<Rightarrow> pystr list" where
  "cited_evidence ev = sort (remdups (ce_positive_ids ev @ ce_benign_ids ev @ ce_poisoned_ids ev))"

definition propose :: "case_policy \<Rightarrow> identity_case \<Rightarrow> model_assessment \<Rightarrow> case_evidence \<Rightarrow> case_proposal" where
  "propose cfg c m ev =
     (let p = ma_probability m; severe = severe_case m; ids = cited_evidence ev;
          criticality = number_value (ic_asset_criticality c)
      in if ce_poisoned ev \<and> pc_poison_blocks cfg then
           investigate [''Adversarial or instructional content is present in an untrusted source; autonomous action is prohibited.'']
             [''SAFETY-POISON-ABSTAIN''] ids
         else if ic_break_glass c \<and> pc_break_glass_human cfg then
           \<lparr>pp_disposition = EscalateHuman, pp_executable = [],
            pp_human = [''disable_account'', ''revoke_active_sessions'', ''validate_emergency_use''],
            pp_investigation = [''validate_emergency_use'', ''contact_incident_commander''],
            pp_rationale = [''The subject is a break-glass identity; all containment requires explicit human authorization.''],
            pp_rules = [''AUTH-BREAK-GLASS-HUMAN''], pp_evidence_ids = ids,
            pp_authority = ''incident_commander_or_identity_owner'', pp_rollback = []\<rparr>
         else if \<not> decision_grade cfg ev then
           investigate (ce_reasons ev
               @ [''The decision firewall abstains until provenance, integrity, completeness, or corroboration is improved.''])
             [''EVIDENCE-NOT-DECISION-GRADE''] ids
         else if p \<le> pc_no_action_max cfg \<and> \<not> severe then
           \<lparr>pp_disposition = NoAction, pp_executable = [], pp_human = [], pp_investigation = [],
            pp_rationale = [''Compromise probability '' @ f3 p
              @ '' is below the no-action threshold and no severe indicator is present.''],
            pp_rules = [''RISK-BELOW-NO-ACTION-THRESHOLD''], pp_evidence_ids = ids,
            pp_authority = ''none'', pp_rollback = []\<rparr>
         else if pc_containment_min cfg \<le> p \<and> criticality \<le> pc_maximum_criticality cfg \<and> automation_grade cfg ev then
           \<lparr>pp_disposition = ContainReversible, pp_executable = pc_autonomous_actions cfg, pp_human = [],
            pp_investigation = [],
            pp_rationale = [''Compromise probability '' @ f3 p @ '', evidence quality '' @ f3 (ce_quality ev)
              @ '', and asset criticality '' @ f3 criticality @ '' satisfy the reversible-containment policy.''],
            pp_rules = [''RISK-AUTO-CONTAIN-THRESHOLD'', ''AUTH-REVERSIBLE-ACTIONS-ONLY''], pp_evidence_ids = ids,
            pp_authority = ''deterministic_policy_gate'', pp_rollback = rollback_plan\<rparr>
         else if pc_escalation_min cfg \<le> p \<or> severe then
           \<lparr>pp_disposition = EscalateHuman, pp_executable = [],
            pp_human = [''disable_account'', ''revoke_active_sessions'', ''isolate_endpoint''],
            pp_investigation = [''confirm_business_owner'', ''validate_blast_radius''],
            pp_rationale =
              (if pc_maximum_criticality cfg < criticality
               then [''Asset criticality exceeds the autonomous-action boundary.''] else [])
              @ [''Compromise probability '' @ f3 p @ '' or severe evidence requires human containment authority.''],
            pp_rules = [''RISK-HUMAN-ESCALATION'']
              @ (if pc_maximum_criticality cfg < criticality then [''AUTH-ASSET-CRITICALITY-HUMAN''] else []),
            pp_evidence_ids = ids, pp_authority = ''soc_shift_lead_or_identity_owner'', pp_rollback = []\<rparr>
         else
           investigate [''Compromise probability '' @ f3 p
               @ '' is not low enough for closure and not high enough for containment.'']
             [''RISK-UNCERTAIN-INVESTIGATE''] ids)"

subsection \<open>The verifier\<close>

type_synonym verifier_check = "pystr \<times> bool \<times> pystr"

record case_verification =
  cv_passed :: bool
  cv_checks :: "verifier_check list"
  cv_blockers :: "pystr list"

definition verification_to_dict :: "case_verification \<Rightarrow> (pystr \<times> json) list" where
  "verification_to_dict v =
     [(''passed'', JBool (cv_passed v)),
      (''checks'', JList (map (\<lambda>(name, passed, detail). JObj [(''check'', JStr name), (''passed'', JBool passed),
         (''detail'', JStr detail)]) (cv_checks v))),
      (''blocking_reasons'', jstrs (cv_blockers v))]"

definition general_checks ::
  "case_policy \<Rightarrow> identity_case \<Rightarrow> model_assessment \<Rightarrow> case_proposal \<Rightarrow> verifier_check list" where
  "general_checks cfg c m p =
     [(''MODEL-PROBABILITY-RANGE'', 0 \<le> ma_probability m \<and> ma_probability m \<le> 1, ''Probability must be within [0,1].''),
      (''TRACE-EVENTS-EXIST'', set (pp_evidence_ids p) \<subseteq> set (case_event_ids c),
       ''All cited evidence IDs must exist in the case.''),
      (''MODEL-FEATURE-TRACE'', set (concat (map snd (ma_trace m))) \<subseteq> set (case_event_ids c),
       ''Every model feature trace must resolve to a case event.''),
      (''NO-HUMAN-ONLY-EXECUTION'', set (pp_executable p) \<inter> set (pc_human_only_actions cfg) = {},
       ''Human-only actions cannot appear in the executable action set.''),
      (''EXECUTABLE-ACTIONS-ALLOWLISTED'', set (pp_executable p) \<subseteq> set (pc_autonomous_actions cfg),
       ''Executable actions must be on the autonomous allowlist.'')]"

definition containment_checks ::
  "case_policy \<Rightarrow> identity_case \<Rightarrow> model_assessment \<Rightarrow> case_evidence \<Rightarrow> case_proposal \<Rightarrow> verifier_check list" where
  "containment_checks cfg c m ev p =
     [(''CONTAIN-RISK-THRESHOLD'', pc_containment_min cfg \<le> ma_probability m,
       ''Containment requires probability >= '' @ format_fixed 2 (pc_containment_min cfg) @ ''.''),
      (''CONTAIN-EVIDENCE-QUALITY'', pc_minimum_quality cfg \<le> ce_quality ev,
       ''Evidence quality must meet the automation threshold.''),
      (''CONTAIN-PROVENANCE'', pc_minimum_provenance cfg \<le> ce_provenance_ratio ev,
       ''Evidence provenance ratio is insufficient.''),
      (''CONTAIN-INTEGRITY'', pc_minimum_integrity cfg \<le> ce_integrity_ratio ev,
       ''Evidence integrity ratio is insufficient.''),
      (''CONTAIN-CORROBORATION'', pc_minimum_supporting cfg \<le> ce_supporting_sources ev,
       ''Independent source corroboration is insufficient.''),
      (''CONTAIN-NO-CONFLICT'', ce_conflicts ev \<le> pc_maximum_conflicts cfg, ''Conflicting sources prohibit automation.''),
      (''CONTAIN-NO-POISON'', \<not> ce_poisoned ev, ''Instructional or poisoned evidence prohibits automation.''),
      (''CONTAIN-NOT-BREAK-GLASS'', \<not> ic_break_glass c, ''Break-glass identities require human authorization.''),
      (''CONTAIN-ASSET-BOUNDARY'', number_value (ic_asset_criticality c) \<le> pc_maximum_criticality cfg,
       ''Asset criticality exceeds the autonomous boundary.''),
      (''CONTAIN-ROLLBACK'', list_all (\<lambda>a. a \<in> fst ` set (pp_rollback p)) (pp_executable p),
       ''Every autonomous action requires a rollback plan.''),
      (''CONTAIN-ACTIONS-PRESENT'', pp_executable p \<noteq> [],
       ''Containment disposition requires at least one executable action.'')]"

definition verify_case ::
  "case_policy \<Rightarrow> identity_case \<Rightarrow> model_assessment \<Rightarrow> case_evidence \<Rightarrow> case_proposal \<Rightarrow> case_verification" where
  "verify_case cfg c m ev p =
     (let checks = general_checks cfg c m p
        @ (if pp_disposition p = ContainReversible then containment_checks cfg c m ev p
           else [(''NON-CONTAIN-NO-EXECUTION'', pp_executable p = [],
                  ''Non-containment dispositions cannot execute production actions.'')]);
          blockers = concat (map (\<lambda>(name, passed, detail). if passed then [] else [name @ '': '' @ detail]) checks)
      in \<lparr>cv_passed = (blockers = []), cv_checks = checks, cv_blockers = blockers\<rparr>)"

end
