(* ===== verification/P1Actions.thy ===== *)
theory P1Actions
  imports P1Policy PyValue
begin

text \<open>
  The authority of phase 1 (\<open>actions.py\<close>): the authorization gate and its signed tokens, the in-memory identity
  provider, the action broker and the verification after the actions. Clock readings and fresh identifiers are
  arguments. An \<open>AuthorizationError\<close> is told from the other exceptions, which the engine does not catch.
\<close>

datatype action_error = AuthorizationError pystr | OtherError pystr

subsection \<open>The gate\<close>

record case_token =
  ct_token_id :: pystr
  ct_case_id :: pystr
  ct_decision_hash :: pystr
  ct_permitted :: "pystr list"
  ct_issued_at :: pystr
  ct_expires_at :: pystr
  ct_signature :: pystr

definition unsigned_token :: "case_token \<Rightarrow> json" where
  "unsigned_token t = JObj
     [(''token_id'', JStr (ct_token_id t)), (''case_id'', JStr (ct_case_id t)),
      (''decision_hash'', JStr (ct_decision_hash t)), (''permitted_actions'', jstrs (ct_permitted t)),
      (''issued_at'', JStr (ct_issued_at t)), (''expires_at'', JStr (ct_expires_at t))]"

definition sign_token :: "string \<Rightarrow> case_token \<Rightarrow> pystr" where
  "sign_token key t = hmac_json key (unsigned_token t)"

definition decision_digest :: "identity_case \<Rightarrow> case_proposal \<Rightarrow> pystr" where
  "decision_digest c p = sha256_json (JObj
     [(''case_id'', JStr (ic_case_id c)), (''disposition'', JStr (disposition_text (pp_disposition p))),
      (''actions'', jstrs (pp_executable p)), (''rules'', jstrs (pp_rules p)),
      (''evidence_event_ids'', jstrs (pp_evidence_ids p))])"

definition authorize_case ::
  "case_policy \<Rightarrow> string \<Rightarrow> instant \<Rightarrow> pystr \<Rightarrow> identity_case \<Rightarrow> case_proposal \<Rightarrow> case_verification
     \<Rightarrow> (action_error, case_token option) result" where
  "authorize_case cfg key clock uuid c p v =
     (if pp_executable p = [] then Inr None
      else if \<not> cv_passed v then
        Inl (AuthorizationError ''Independent verification failed; authorization token cannot be issued.'')
      else
        let now = whole_second clock; expires = now + pc_token_ttl_seconds cfg * micros
        in if \<not> representable expires then Inl (OtherError ''OverflowError'')
           else
             let t = \<lparr>ct_token_id = ''auth-'' @ uuid, ct_case_id = ic_case_id c,
                      ct_decision_hash = decision_digest c p, ct_permitted = pp_executable p,
                      ct_issued_at = isoformat now, ct_expires_at = isoformat expires, ct_signature = []\<rparr>
             in Inr (Some (t\<lparr>ct_signature := sign_token key t\<rparr>)))"

definition validate_token :: "string \<Rightarrow> instant \<Rightarrow> case_token \<Rightarrow> pystr \<Rightarrow> pystr \<Rightarrow> (action_error, unit) result" where
  "validate_token key clock t case_id action =
     (case compare_digest (sign_token key t) (ct_signature t) of
        Inl e \<Rightarrow> Inl (OtherError e)
      | Inr same \<Rightarrow>
          and_then (require same (AuthorizationError ''Authorization token signature is invalid.'')) (\<lambda>_.
          and_then (require (ct_case_id t = case_id) (AuthorizationError ''Authorization token does not match the case.'')) (\<lambda>_.
          and_then (require (action \<in> set (ct_permitted t))
            (AuthorizationError ''Action is not permitted by the authorization token.'')) (\<lambda>_.
          case parse_time (ct_expires_at t) of
            Inl e \<Rightarrow> Inl (OtherError e)
          | Inr (Naive _) \<Rightarrow> Inl (OtherError ''TypeError'')
          | Inr (Aware expires) \<Rightarrow>
              require (clock \<le> expires) (AuthorizationError ''Authorization token has expired.'')))))"

subsection \<open>The simulated identity provider\<close>

record identity_state =
  is_subject_id :: pystr
  is_active_sessions :: int
  is_step_up_required :: bool
  is_monitoring_level :: pystr
  is_account_enabled :: bool

definition state_to_dict :: "identity_state \<Rightarrow> (pystr \<times> json) list" where
  "state_to_dict s =
     [(''subject_id'', JStr (is_subject_id s)), (''active_sessions'', JInt (is_active_sessions s)),
      (''step_up_required'', JBool (is_step_up_required s)), (''monitoring_level'', JStr (is_monitoring_level s)),
      (''account_enabled'', JBool (is_account_enabled s))]"

type_synonym target_states = "(pystr \<times> identity_state) list"

record action_result =
  ar_action :: pystr
  ar_success :: bool
  ar_before :: "(pystr \<times> json) list"
  ar_after :: "(pystr \<times> json) list"
  ar_message :: pystr
  ar_rollback :: pystr

definition result_to_dict :: "action_result \<Rightarrow> (pystr \<times> json) list" where
  "result_to_dict r =
     [(''action'', JStr (ar_action r)), (''success'', JBool (ar_success r)), (''state_before'', JObj (ar_before r)),
      (''state_after'', JObj (ar_after r)), (''message'', JStr (ar_message r)),
      (''rollback_reference'', JStr (ar_rollback r))]"

definition initialize_case :: "identity_case \<Rightarrow> target_states \<Rightarrow> target_states" where
  "initialize_case c states =
     (if ic_case_id c \<in> fst ` set states then states
      else dict_set (ic_case_id c)
        \<lparr>is_subject_id = ic_subject_id c, is_active_sessions = 2, is_step_up_required = False,
         is_monitoring_level = ''baseline'', is_account_enabled = True\<rparr> states)"

text \<open>\<open>int(text, 16)\<close> of a hexadecimal digest.\<close>

definition hex_value :: "char \<Rightarrow> int" where
  "hex_value c = (let n = (of_char c :: int) in if n \<le> 57 then n - 48 else n - 87)"

definition hex_number :: "string \<Rightarrow> int" where
  "hex_number s = fold (\<lambda>c n. 16 * n + hex_value c) s 0"

definition deterministic_failure :: "pystr \<Rightarrow> pystr \<Rightarrow> bool" where
  "deterministic_failure case_id action = (hex_number (take 8 (sha256_str (case_id @ '':'' @ action))) mod 53 = 0)"

definition apply_change :: "pystr \<Rightarrow> identity_state \<Rightarrow> (identity_state \<times> pystr) option" where
  "apply_change action s =
     (if action = ''revoke_active_sessions'' then Some (s\<lparr>is_active_sessions := 0\<rparr>, ''reauthentication_required'')
      else if action = ''force_step_up_auth'' then Some (s\<lparr>is_step_up_required := True\<rparr>, ''remove_temporary_step_up_policy'')
      else if action = ''increase_monitoring''
      then Some (s\<lparr>is_monitoring_level := ''enhanced''\<rparr>, ''restore_baseline_monitoring'')
      else None)"

definition apply_action ::
  "pystr \<Rightarrow> pystr \<Rightarrow> target_states \<Rightarrow> (action_error, action_result) result \<times> target_states" where
  "apply_action case_id action states =
     (case map_of states case_id of
        None \<Rightarrow> (Inl (OtherError ''KeyError''), states)
      | Some state \<Rightarrow>
          if deterministic_failure case_id action then
            (Inr \<lparr>ar_action = action, ar_success = False, ar_before = state_to_dict state,
                  ar_after = state_to_dict state,
                  ar_message = ''Synthetic downstream control-plane failure; no state change occurred.'',
                  ar_rollback = ''not_required_no_change''\<rparr>, states)
          else
            (case apply_change action state of
               None \<Rightarrow> (Inl (AuthorizationError (''The simulator does not implement action: '' @ action)), states)
             | Some (state', rollback) \<Rightarrow>
                 (Inr \<lparr>ar_action = action, ar_success = True, ar_before = state_to_dict state,
                       ar_after = state_to_dict state',
                       ar_message = ''Synthetic action applied to the in-memory identity state.'',
                       ar_rollback = rollback\<rparr>, dict_set case_id state' states)))"

definition execute_action ::
  "string \<Rightarrow> instant \<Rightarrow> identity_case \<Rightarrow> pystr \<Rightarrow> case_token option \<Rightarrow> target_states
     \<Rightarrow> (action_error, action_result) result \<times> target_states" where
  "execute_action key clock c action token states =
     (case token of
        None \<Rightarrow> (Inl (AuthorizationError ''No authorization token was supplied.''), states)
      | Some t \<Rightarrow>
          (case validate_token key clock t (ic_case_id c) action of
             Inl e \<Rightarrow> (Inl e, states)
           | Inr _ \<Rightarrow> apply_action (ic_case_id c) action (initialize_case c states)))"

subsection \<open>After the actions\<close>

definition expected_state :: "(pystr \<times> pystr \<times> json) list" where
  "expected_state =
     [(''revoke_active_sessions'', ''active_sessions'', JInt 0), (''force_step_up_auth'', ''step_up_required'', JBool True),
      (''increase_monitoring'', ''monitoring_level'', JStr ''enhanced'')]"

definition check_result :: "action_result \<Rightarrow> (pystr, bool \<times> json) result" where
  "check_result r =
     (case map_of expected_state (ar_action r) of
        None \<Rightarrow> Inl ''KeyError''
      | Some (field, expected) \<Rightarrow>
          let actual = obj_get (ar_after r) field; passed = (ar_success r \<and> py_eq actual expected)
          in Inr (passed, JObj [(''action'', JStr (ar_action r)), (''passed'', JBool passed), (''field'', JStr field),
               (''expected'', expected), (''actual'', actual)]))"

text \<open>\<open>PostActionVerifier.verify\<close>: whether all checks passed, and the checks.\<close>

definition verify_results :: "action_result list \<Rightarrow> (pystr, bool \<times> json list) result" where
  "verify_results results =
     and_then (map_result check_result results) (\<lambda>rows. Inr (list_all fst rows, map snd rows))"

end
