(* ===== verification/P1Engine.thy ===== *)
theory P1Engine
  imports P1Actions AuditLog
begin

text \<open>
  \<open>DecisionFirewallEngine\<close> of \<open>engine.py\<close>: one case from its events to a recorded decision, in the simulation mode
  and in the two read-only modes. The predictor of the model is any function. The clock readings and fresh
  identifiers of one call are a record of readings; appending to the audit log does not fail.
\<close>

subsection \<open>Configuration, state and readings\<close>

record case_engine =
  eg_predict :: predictor
  eg_model_version :: pystr
  eg_policy :: case_policy
  eg_mode :: execution_mode
  eg_key :: string

record case_world =
  cw_log :: audit_log
  cw_states :: target_states

record case_readings =
  cr_recorded_at :: "nat \<Rightarrow> pystr"
  cr_token_uuid :: pystr
  cr_issued_at :: instant
  cr_validated_at :: "nat \<Rightarrow> instant"
  cr_decision_uuid :: pystr
  cr_created_at :: pystr
  cr_latency_ms :: rat

definition append_row :: "case_readings \<Rightarrow> pystr \<Rightarrow> (pystr \<times> json) list \<Rightarrow> case_world \<Rightarrow> case_world" where
  "append_row rd record_type payload w =
     w\<lparr>cw_log := snd (audit_append (cr_recorded_at rd (length (al_rows (cw_log w)))) record_type (JObj payload) (cw_log w))\<rparr>"

definition for_case :: "identity_case \<Rightarrow> (pystr \<times> json) list \<Rightarrow> (pystr \<times> json) list" where
  "for_case c payload = (''case_id'', JStr (ic_case_id c)) # payload"

subsection \<open>Steps\<close>

definition policy_payload :: "execution_mode \<Rightarrow> case_proposal \<Rightarrow> (pystr \<times> json) list" where
  "policy_payload mode p =
     (if is_read_only mode
      then dict_set ''executable_actions'' (jstrs [])
             (proposal_to_dict p @ [(''counterfactual_actions'', jstrs (pp_executable p))])
      else proposal_to_dict p)"

definition downgrade :: "case_proposal \<Rightarrow> case_verification \<Rightarrow> case_proposal" where
  "downgrade p v =
     (if pp_executable p \<noteq> [] \<and> \<not> cv_passed v then
        \<lparr>pp_disposition = Investigate, pp_executable = [], pp_human = [],
         pp_investigation = [''resolve_independent_verifier_failure'', ''collect_additional_evidence''],
         pp_rationale = pp_rationale p
           @ [''Independent verification failed; the action proposal was downgraded to investigation.''],
         pp_rules = pp_rules p @ [''FAIL-SAFE-VERIFIER-DOWNGRADE''], pp_evidence_ids = pp_evidence_ids p,
         pp_authority = ''read_only_automation'', pp_rollback = []\<rparr>
      else p)"

definition observe_only :: "case_proposal \<Rightarrow> case_proposal" where
  "observe_only p = p\<lparr>pp_executable := [], pp_authority := ''read_only_observation'', pp_rollback := []\<rparr>"

definition suppressed_payload :: "execution_mode \<Rightarrow> pystr list \<Rightarrow> (pystr \<times> json) list" where
  "suppressed_payload mode counterfactual =
     [(''execution_mode'', JStr (mode_text mode)),
      (''reason'', JStr ''Historical replay and shadow modes are observation-only.''),
      (''counterfactual_actions'', jstrs counterfactual), (''authorization_attempted'', JBool False),
      (''broker_invocations'', JInt 0), (''operational_effects'', JInt 0)]"

definition authorization_payload ::
  "execution_mode \<Rightarrow> bool \<Rightarrow> case_token option \<Rightarrow> pystr \<Rightarrow> (pystr \<times> json) list" where
  "authorization_payload mode attempted token error =
     [(''execution_mode'', JStr (mode_text mode)), (''attempted'', JBool attempted), (''issued'', JBool (token \<noteq> None)),
      (''token_id'', JStr (case token of Some t \<Rightarrow> ct_token_id t | None \<Rightarrow> [])),
      (''permitted_actions'', jstrs (case token of Some t \<Rightarrow> ct_permitted t | None \<Rightarrow> [])), (''error'', JStr error)]"

definition rejected_result :: "pystr \<Rightarrow> pystr \<Rightarrow> action_result" where
  "rejected_result action message =
     \<lparr>ar_action = action, ar_success = False, ar_before = [], ar_after = [], ar_message = message, ar_rollback = ''none''\<rparr>"

text \<open>The loop over the executable actions; the index of an action selects the clock reading of its validation.\<close>

fun run_actions ::
  "case_engine \<Rightarrow> case_readings \<Rightarrow> identity_case \<Rightarrow> case_token option \<Rightarrow> nat \<Rightarrow> pystr list \<Rightarrow> case_world
     \<Rightarrow> (pystr, action_result list) result \<times> case_world" where
  "run_actions en rd c token i [] w = (Inr [], w)"
| "run_actions en rd c token i (action # actions) w =
     (let (outcome, states) = execute_action (eg_key en) (cr_validated_at rd i) c action token (cw_states w);
          w' = w\<lparr>cw_states := states\<rparr>
      in case outcome of
           Inl (OtherError e) \<Rightarrow> (Inl e, w')
         | Inl (AuthorizationError message) \<Rightarrow>
             let r = rejected_result action message;
                 (rest, w'') = run_actions en rd c token (i + 1) actions
                   (append_row rd ''ACTION_REJECTED'' (for_case c (result_to_dict r)) w')
             in (and_then rest (\<lambda>rs. Inr (r # rs)), w'')
         | Inr r \<Rightarrow>
             let (rest, w'') = run_actions en rd c token (i + 1) actions
                   (append_row rd ''ACTION_EXECUTED'' (for_case c (result_to_dict r)) w')
             in (and_then rest (\<lambda>rs. Inr (r # rs)), w''))"

definition post_action_dict :: "execution_mode \<Rightarrow> action_result list \<Rightarrow> (pystr, (pystr \<times> json) list) result" where
  "post_action_dict mode results =
     (if is_read_only mode then
        Inr [(''applicable'', JBool False), (''status'', JStr ''NOT_APPLICABLE''), (''passed'', JNull), (''checks'', JList [])]
      else
        and_then (verify_results results) (\<lambda>(passed, checks).
        Inr [(''applicable'', JBool (results \<noteq> [])),
             (''status'', JStr (if results = [] then ''NOT_APPLICABLE'' else if passed then ''VERIFIED'' else ''FAILED'')),
             (''passed'', JBool passed), (''checks'', JList checks)]))"

subsection \<open>The decision\<close>

record case_decision =
  cd_id :: pystr
  cd_case :: identity_case
  cd_created_at :: pystr
  cd_policy_id :: pystr
  cd_policy_version :: pystr
  cd_mode :: execution_mode
  cd_original :: case_disposition
  cd_counterfactual :: "pystr list"
  cd_evidence :: case_evidence
  cd_model :: model_assessment
  cd_proposal :: case_proposal
  cd_verification :: case_verification
  cd_token :: "case_token option"
  cd_authorization_error :: pystr
  cd_results :: "action_result list"
  cd_post_action :: "(pystr \<times> json) list"
  cd_attempted :: bool
  cd_broker_invocations :: nat
  cd_latency_ms :: rat

definition operational_effects :: "case_decision \<Rightarrow> nat" where
  "operational_effects d = (if is_read_only (cd_mode d) then 0 else length (filter ar_success (cd_results d)))"

definition authorization_dict :: "case_token option \<Rightarrow> pystr \<Rightarrow> json" where
  "authorization_dict token error = JObj
     [(''issued'', JBool (token \<noteq> None)), (''token_id'', JStr (case token of Some t \<Rightarrow> ct_token_id t | None \<Rightarrow> [])),
      (''decision_hash'', JStr (case token of Some t \<Rightarrow> ct_decision_hash t | None \<Rightarrow> [])),
      (''permitted_actions'', jstrs (case token of Some t \<Rightarrow> ct_permitted t | None \<Rightarrow> [])), (''error'', JStr error)]"

definition execution_control_dict :: "case_decision \<Rightarrow> json" where
  "execution_control_dict d = JObj
     [(''mode'', JStr (mode_text (cd_mode d))), (''read_only'', JBool (is_read_only (cd_mode d))),
      (''status'', JStr (if is_read_only (cd_mode d) then ''SUPPRESSED_READ_ONLY'' else ''SYNTHETIC_SIMULATION'')),
      (''authorization_attempted'', JBool (cd_attempted d)), (''broker_invocations'', JInt (int (cd_broker_invocations d))),
      (''operational_effects'', JInt (int (operational_effects d)))]"

definition traceability_dict :: "identity_case \<Rightarrow> case_proposal \<Rightarrow> model_assessment \<Rightarrow> json" where
  "traceability_dict c p m = JObj
     [(''input_event_ids'', jstrs (case_event_ids c)), (''cited_evidence_event_ids'', jstrs (pp_evidence_ids p)),
      (''feature_trace'', trace_json (ma_trace m))]"

definition decision_core :: "case_decision \<Rightarrow> (pystr \<times> json) list" where
  "decision_core d =
     (let c = cd_case d; p = cd_proposal d; m = cd_model d in
      [(''decision_id'', JStr (cd_id d)), (''case_id'', JStr (ic_case_id c)), (''subject_id'', JStr (ic_subject_id c)),
       (''asset_id'', JStr (ic_asset_id c)), (''asset_criticality'', number_json (ic_asset_criticality c)),
       (''break_glass'', JBool (ic_break_glass c)), (''created_at'', JStr (cd_created_at d)),
       (''policy_id'', JStr (cd_policy_id d)), (''policy_version'', JStr (cd_policy_version d)),
       (''model_version'', JStr (ma_version m)), (''execution_mode'', JStr (mode_text (cd_mode d))),
       (''original_disposition'', JStr (disposition_text (cd_original d))),
       (''final_disposition'', JStr (disposition_text (pp_disposition p))),
       (''counterfactual_actions'', jstrs (cd_counterfactual d)),
       (''compromise_probability'', JFloat (ma_probability m)),
       (''evidence_assessment'', JObj (evidence_to_dict (cd_evidence d))), (''model_assessment'', JObj (model_to_dict m)),
       (''proposal'', JObj (proposal_to_dict p)),
       (''independent_verification'', JObj (verification_to_dict (cd_verification d))),
       (''authorization'', authorization_dict (cd_token d) (cd_authorization_error d)),
       (''action_results'', JList (map (\<lambda>r. JObj (result_to_dict r)) (cd_results d))),
       (''post_action_verification'', JObj (cd_post_action d)),
       (''execution_control'', execution_control_dict d), (''latency_ms'', JFloat (cd_latency_ms d)),
       (''traceability'', traceability_dict c p m)])"

definition decision_hash :: "case_decision \<Rightarrow> pystr" where
  "decision_hash d = sha256_json (JObj (decision_core d))"

definition decision_to_dict :: "case_decision \<Rightarrow> json" where
  "decision_to_dict d = JObj (decision_core d @ [(''decision_record_hash'', JStr (decision_hash d))])"

subsection \<open>One case\<close>

type_synonym case_result = "(pystr, case_decision) result \<times> case_world"

definition finalize ::
  "case_engine \<Rightarrow> case_readings \<Rightarrow> identity_case \<Rightarrow> case_evidence \<Rightarrow> model_assessment \<Rightarrow> case_verification
     \<Rightarrow> case_disposition \<Rightarrow> case_proposal \<Rightarrow> pystr list \<Rightarrow> bool \<Rightarrow> case_token option \<Rightarrow> pystr
     \<Rightarrow> action_result list \<Rightarrow> nat \<Rightarrow> case_world \<Rightarrow> case_result" where
  "finalize en rd c ev m v original p counterfactual attempted token error results invocations w =
     (case post_action_dict (eg_mode en) results of
        Inl e \<Rightarrow> (Inl e, w)
      | Inr post \<Rightarrow>
          let w1 = (if results = [] then w else append_row rd ''POST_ACTION_VERIFIED'' (for_case c post) w);
              d = \<lparr>cd_id = ''dec-'' @ cr_decision_uuid rd, cd_case = c, cd_created_at = cr_created_at rd,
                   cd_policy_id = pc_policy_id (eg_policy en), cd_policy_version = pc_version (eg_policy en),
                   cd_mode = eg_mode en, cd_original = original, cd_counterfactual = counterfactual,
                   cd_evidence = ev, cd_model = m, cd_proposal = p, cd_verification = v, cd_token = token,
                   cd_authorization_error = error, cd_results = results, cd_post_action = post,
                   cd_attempted = attempted, cd_broker_invocations = invocations,
                   cd_latency_ms = py_round 3 (cr_latency_ms rd)\<rparr>
          in (Inr d, append_row rd ''DECISION_FINALIZED''
                (for_case c [(''decision_id'', JStr (cd_id d)),
                   (''final_disposition'', JStr (disposition_text (pp_disposition p))),
                   (''decision_record_hash'', JStr (decision_hash d))]) w1))"

definition simulate ::
  "case_engine \<Rightarrow> case_readings \<Rightarrow> identity_case \<Rightarrow> case_evidence \<Rightarrow> model_assessment \<Rightarrow> case_verification
     \<Rightarrow> case_disposition \<Rightarrow> case_proposal \<Rightarrow> case_token option \<Rightarrow> pystr \<Rightarrow> case_world \<Rightarrow> case_result" where
  "simulate en rd c ev m v original p token error w =
     (let w1 = append_row rd ''AUTHORIZATION_EVALUATED'' (for_case c (authorization_payload (eg_mode en) True token error)) w;
          actions = (if token = None then [] else pp_executable p);
          (outcome, w2) = run_actions en rd c token 0 actions w1
      in case outcome of
           Inl e \<Rightarrow> (Inl e, w2)
         | Inr results \<Rightarrow> finalize en rd c ev m v original p [] True token error results (length actions) w2)"

definition conclude ::
  "case_engine \<Rightarrow> case_readings \<Rightarrow> identity_case \<Rightarrow> case_evidence \<Rightarrow> model_assessment \<Rightarrow> case_verification
     \<Rightarrow> case_disposition \<Rightarrow> case_proposal \<Rightarrow> case_world \<Rightarrow> case_result" where
  "conclude en rd c ev m v original p w =
     (if is_read_only (eg_mode en) then
        let w1 = append_row rd ''EXECUTION_SUPPRESSED'' (for_case c (suppressed_payload (eg_mode en) (pp_executable p))) w;
            w2 = append_row rd ''AUTHORIZATION_EVALUATED''
                   (for_case c (authorization_payload (eg_mode en) False None [])) w1
        in finalize en rd c ev m v original (observe_only p) (pp_executable p) False None [] [] 0 w2
      else
        case authorize_case (eg_policy en) (eg_key en) (cr_issued_at rd) (cr_token_uuid rd) c p v of
          Inl (OtherError e) \<Rightarrow> (Inl e, w)
        | Inl (AuthorizationError message) \<Rightarrow> simulate en rd c ev m v original p None message w
        | Inr token \<Rightarrow> simulate en rd c ev m v original p token [] w)"

definition process_case :: "case_engine \<Rightarrow> case_readings \<Rightarrow> identity_case \<Rightarrow> case_world \<Rightarrow> case_result" where
  "process_case en rd c w =
     (let w1 = append_row rd ''CASE_RECEIVED''
            (for_case c [(''subject_id'', JStr (ic_subject_id c)), (''event_ids'', jstrs (case_event_ids c))]) w
      in case assess_evidence c of
           Inl e \<Rightarrow> (Inl e, w1)
         | Inr ev \<Rightarrow>
             let w2 = append_row rd ''EVIDENCE_ASSESSED'' (for_case c (evidence_to_dict ev)) w1
             in case assess_model (eg_predict en) (eg_model_version en) c of
                  Inl e \<Rightarrow> (Inl e, w2)
                | Inr m \<Rightarrow>
                    let w3 = append_row rd ''MODEL_ASSESSED'' (for_case c (model_to_dict m)) w2;
                        p = propose (eg_policy en) c m ev;
                        w4 = append_row rd ''POLICY_PROPOSED'' (for_case c (policy_payload (eg_mode en) p)) w3;
                        v = verify_case (eg_policy en) c m ev p;
                        w5 = append_row rd ''INDEPENDENTLY_VERIFIED'' (for_case c (verification_to_dict v)) w4
                    in conclude en rd c ev m v (pp_disposition p) (downgrade p v) w5)"

text \<open>\<open>run_engine\<close> over the cases of one file: one engine, one log; a case that raises ends the run.\<close>

fun process_cases ::
  "case_engine \<Rightarrow> (case_readings \<times> identity_case) list \<Rightarrow> case_world \<Rightarrow> (pystr, case_decision list) result \<times> case_world" where
  "process_cases en [] w = (Inr [], w)"
| "process_cases en ((rd, c) # rest) w =
     (case process_case en rd c w of
        (Inl e, w') \<Rightarrow> (Inl e, w')
      | (Inr d, w') \<Rightarrow>
          let (ds, w'') = process_cases en rest w' in (and_then ds (\<lambda>ds. Inr (d # ds)), w''))"

end
