(* ===== verification/P1EngineFacts.thy ===== *)
theory P1EngineFacts
  imports P1Engine
begin

text \<open>
  What the phase 1 engine guarantees for every predictor: a proposal of the policy passes the verifier, an action
  takes effect only under an authority that every check of the verifier justifies, the read-only modes have no
  effect, processing returns a decision once the case is well formed, and its audit rows extend a valid log.
\<close>

subsection \<open>The policy and the verifier\<close>

definition passes :: "verifier_check list \<Rightarrow> bool" where
  "passes checks = list_all (\<lambda>(name, passed, detail). passed) checks"

lemma verify_case_passed:
  "cv_passed (verify_case cfg c m ev p) \<longleftrightarrow> passes (general_checks cfg c m p)
     \<and> (if pp_disposition p = ContainReversible then passes (containment_checks cfg c m ev p) else pp_executable p = [])"
proof -
  have "concat (map (\<lambda>(name, passed, detail). if passed then [] else [name @ '': '' @ detail]) checks) = []
      \<longleftrightarrow> passes checks" for checks :: "verifier_check list"
    by (induction checks) (auto simp: passes_def split: if_splits)
  then show ?thesis by (auto simp: verify_case_def Let_def passes_def)
qed

lemma propose_executable:
  "pp_executable (propose cfg c m ev) \<noteq> [] \<Longrightarrow> pp_disposition (propose cfg c m ev) = ContainReversible"
  by (auto simp: propose_def investigate_def Let_def split: if_splits)

lemma propose_contain:
  assumes "pp_disposition (propose cfg c m ev) = ContainReversible"
  shows "\<not> (ce_poisoned ev \<and> pc_poison_blocks cfg)" "\<not> (ic_break_glass c \<and> pc_break_glass_human cfg)"
    "automation_grade cfg ev" "pc_containment_min cfg \<le> ma_probability m"
    "number_value (ic_asset_criticality c) \<le> pc_maximum_criticality cfg"
    "pp_executable (propose cfg c m ev) = pc_autonomous_actions cfg" "pp_rollback (propose cfg c m ev) = rollback_plan"
  using assms by (auto simp: propose_def investigate_def Let_def split: if_splits)

lemma propose_evidence_ids: "pp_evidence_ids (propose cfg c m ev) = cited_evidence ev"
  by (simp add: propose_def investigate_def Let_def)

lemma cited_ids_exist: "assess_evidence c = Inr ev \<Longrightarrow> set (cited_evidence ev) \<subseteq> set (case_event_ids c)"
  by (auto simp: cited_evidence_def assess_evidence_facts)

text \<open>The configuration does not switch the two safety rules off, and its autonomous actions are the reversible ones.\<close>

definition consistent_policy :: "case_policy \<Rightarrow> bool" where
  "consistent_policy cfg \<longleftrightarrow> pc_poison_blocks cfg \<and> pc_break_glass_human cfg \<and> pc_autonomous_actions cfg \<noteq> []
     \<and> set (pc_autonomous_actions cfg) \<inter> set (pc_human_only_actions cfg) = {}
     \<and> set (pc_autonomous_actions cfg) \<subseteq> fst ` set rollback_plan"

lemma event_trace_distinct:
  assumes "event_features e st = Inr st'" and "distinct (map fst (snd st))"
  shows "distinct (map fst (snd st'))"
proof -
  from assms(1) obtain m st1 where login: "login_feature (ee_event_id e) m st = Inr st1"
    and bools: "fold_result (boolean_feature (ee_event_id e) m) boolean_attribute_names st1 = Inr st'"
    by (auto simp: event_features_def)
  have "distinct (map fst (snd st1))"
    using login assms(2) by (auto simp: login_feature_Inr dict_extend_def distinct_dict_set split: option.splits)
  with bools show ?thesis
    by (rule fold_result_invariant) (auto simp: boolean_feature_Inr dict_extend_def distinct_dict_set split: option.splits)
qed

lemma trace_distinct:
  assumes "extract_features c = Inr (values, trace)"
  shows "distinct (map fst trace)"
proof -
  from assms obtain x st where f: "fold_result event_features (ic_events c) (initial_features c x, []) = Inr st"
    and r: "trace = dict_extend ''asset_criticality'' (map ee_event_id (inventory_events c))
       (dict_extend ''privilege_global_admin'' (map ee_event_id (inventory_events c)) (snd st))"
    by (auto simp: extract_features_def Let_def)
  have "distinct (map fst (snd st))"
    using fold_result_invariant [OF f, of "\<lambda>st. distinct (map fst (snd st))"] event_trace_distinct by simp
  then show ?thesis by (simp add: r dict_extend_def distinct_dict_set)
qed

lemma trace_ids_exist:
  assumes "extract_features c = Inr (values, trace)"
  shows "set (concat (map snd trace)) \<subseteq> set (case_event_ids c)"
proof -
  obtain x st where of: "features_of (initial_features c x) (ic_events c) st"
    and tr: "trace = dict_extend ''asset_criticality'' (map ee_event_id (inventory_events c))
       (dict_extend ''privilege_global_admin'' (map ee_event_id (inventory_events c)) (snd st))"
    using extract_features_Inr [OF assms] by metis
  have "set (dict_default (snd st) k []) \<subseteq> set (case_event_ids c)" for k
  proof (cases "k \<in> set boolean_attribute_names \<or> k = ''failed_login_intensity''")
    case True
    with of show ?thesis by (auto simp: features_of_def)
  next
    case False
    with of have "map_of (snd st) k = None" by (simp add: features_of_def map_of_eq_None_iff)
    then show ?thesis by (simp add: dict_default_def)
  qed
  then have "set (dict_default trace k []) \<subseteq> set (case_event_ids c)" for k
    by (auto simp: tr inventory_events_def)
  then have "set ids \<subseteq> set (case_event_ids c)" if "(k, ids) \<in> set trace" for k ids
    using that trace_distinct [OF assms] by (metis dict_default_def map_of_is_SomeI option.simps(5))
  then show ?thesis by fastforce
qed

lemma proposal_verifies_facts:
  assumes "assess_evidence c = Inr ev" and "assess_model predict version c = Inr m" and "consistent_policy cfg"
    and "0 \<le> ma_probability m" "ma_probability m \<le> 1"
  shows "cv_passed (verify_case cfg c m ev (propose cfg c m ev))"
proof -
  let ?p = "propose cfg c m ev"
  have "set (pp_executable ?p) \<subseteq> set (pc_autonomous_actions cfg)"
    using propose_executable [of cfg c m ev] propose_contain(6) [of cfg c m ev] by (cases "pp_executable ?p = []") auto
  moreover obtain features where "extract_features c = Inr (features, ma_trace m)"
    using assess_model_Inr [OF assms(2)] by metis
  ultimately have "passes (general_checks cfg c m ?p)"
    using assms trace_ids_exist [of c features "ma_trace m"] cited_ids_exist [OF assms(1)]
    by (auto simp: passes_def general_checks_def consistent_policy_def propose_evidence_ids)
  moreover have "passes (containment_checks cfg c m ev ?p)" if d: "pp_disposition ?p = ContainReversible"
    using propose_contain [OF d] assms(3)
    by (auto simp: passes_def containment_checks_def consistent_policy_def automation_grade_def decision_grade_def
        list_all_iff)
  ultimately show ?thesis using propose_executable [of cfg c m ev] by (auto simp: verify_case_passed)
qed

text \<open>C14. Every proposal of the policy passes the independent verifier: over a consistent configuration and a model
  whose probability is in the unit interval, no check blocks what the policy proposes, so a correct policy engine is
  never downgraded.\<close>

theorem proposal_verifies:
  assumes "assess_evidence c = Inr ev" and "assess_model predict version c = Inr m" and "consistent_policy cfg"
    and "0 \<le> ma_probability m" "ma_probability m \<le> 1"
  shows "cv_passed (verify_case cfg c m ev (propose cfg c m ev))"
  using proposal_verifies_facts [OF assms] .

subsection \<open>Authority\<close>

text \<open>Everything the verifier establishes of an action that may be executed.\<close>

definition action_justified :: "case_policy \<Rightarrow> identity_case \<Rightarrow> model_assessment \<Rightarrow> case_evidence \<Rightarrow> pystr \<Rightarrow> bool" where
  "action_justified cfg c m ev action \<longleftrightarrow>
     pc_containment_min cfg \<le> ma_probability m \<and> 0 \<le> ma_probability m \<and> ma_probability m \<le> 1
     \<and> pc_minimum_quality cfg \<le> ce_quality ev \<and> pc_minimum_provenance cfg \<le> ce_provenance_ratio ev
     \<and> pc_minimum_integrity cfg \<le> ce_integrity_ratio ev \<and> pc_minimum_supporting cfg \<le> ce_supporting_sources ev
     \<and> ce_conflicts ev \<le> pc_maximum_conflicts cfg
     \<and> \<not> (\<exists>e \<in> set (ic_events c). instructional e) \<and> \<not> ic_break_glass c
     \<and> number_value (ic_asset_criticality c) \<le> pc_maximum_criticality cfg
     \<and> action \<in> set (pc_autonomous_actions cfg) \<and> action \<notin> set (pc_human_only_actions cfg)
     \<and> action \<in> fst ` set rollback_plan"

lemma verified_action_justified:
  assumes "cv_passed (verify_case cfg c m ev (propose cfg c m ev))" and "assess_evidence c = Inr ev"
    and "action \<in> set (pp_executable (propose cfg c m ev))"
  shows "action_justified cfg c m ev action"
proof -
  let ?p = "propose cfg c m ev"
  have "pp_executable ?p \<noteq> []" using assms(3) by auto
  then have d: "pp_disposition ?p = ContainReversible" by (rule propose_executable)
  with assms(1) have "passes (general_checks cfg c m ?p)" "passes (containment_checks cfg c m ev ?p)"
    by (simp_all add: verify_case_passed)
  moreover have "ce_poisoned ev \<longleftrightarrow> (\<exists>e \<in> set (ic_events c). instructional e)"
    by (rule assess_evidence_facts(5) [OF assms(2)])
  ultimately show ?thesis using assms(3) propose_contain(6,7) [OF d]
    by (auto simp: action_justified_def passes_def general_checks_def containment_checks_def list_all_iff)
qed

lemma authorize_case_Some:
  "authorize_case cfg key clock uuid c p v = Inr (Some t) \<longleftrightarrow>
     pp_executable p \<noteq> [] \<and> cv_passed v
     \<and> representable (whole_second clock + pc_token_ttl_seconds cfg * micros)
     \<and> t = (let unsigned = \<lparr>ct_token_id = ''auth-'' @ uuid, ct_case_id = ic_case_id c,
              ct_decision_hash = decision_digest c p, ct_permitted = pp_executable p,
              ct_issued_at = isoformat (whole_second clock),
              ct_expires_at = isoformat (whole_second clock + pc_token_ttl_seconds cfg * micros), ct_signature = []\<rparr>
            in unsigned\<lparr>ct_signature := sign_token key unsigned\<rparr>)"
  by (auto simp: authorize_case_def Let_def)

lemma case_token_valid:
  "validate_token key clock t case_id action = Inr u \<Longrightarrow>
     ct_signature t = sign_token key t \<and> ct_case_id t = case_id \<and> action \<in> set (ct_permitted t)
     \<and> (\<exists>expires. parse_time (ct_expires_at t) = Inr (Aware expires) \<and> clock \<le> expires)"
  by (auto simp: validate_token_def compare_digest_Inr split: sum.splits moment.splits)

text \<open>A result of an action that was not rejected: the provider carried it out or reported a failure downstream.\<close>

definition reached_provider :: "action_result \<Rightarrow> bool" where
  "reached_provider r \<longleftrightarrow> ar_rollback r \<noteq> ''none''"

text \<open>The actions: no state of another case changes, and what reached the provider was validated against the token.\<close>

lemma execute_action_facts:
  assumes "execute_action key clock c action token states = (outcome, states')"
  shows "k \<noteq> ic_case_id c \<Longrightarrow> map_of states' k = map_of states k"
    and "states' \<noteq> states \<or> (\<exists>r. outcome = Inr r) \<Longrightarrow>
      \<exists>t. token = Some t \<and> validate_token key clock t (ic_case_id c) action = Inr ()"
    and "outcome = Inr r \<Longrightarrow> ar_action r = action"
  using assms
  by (auto simp: execute_action_def apply_action_def initialize_case_def map_of_dict_set
      split: option.splits sum.splits if_splits prod.splits)

lemma append_row_states [simp]: "cw_states (append_row rd y p w) = cw_states w"
  by (simp add: append_row_def)

text \<open>The row and the result that one action leaves.\<close>

definition recorded_outcome :: "pystr \<Rightarrow> (action_error, action_result) result \<Rightarrow> pystr \<times> action_result" where
  "recorded_outcome action outcome =
     (case outcome of
        Inr r \<Rightarrow> (''ACTION_EXECUTED'', r)
      | Inl (AuthorizationError message) \<Rightarrow> (''ACTION_REJECTED'', rejected_result action message)
      | Inl (OtherError e) \<Rightarrow> ([], rejected_result action e))"

lemma run_actions_step:
  assumes "execute_action (eg_key en) (cr_validated_at rd i) c action token (cw_states w) = (o1, states)"
    and "\<And>e. o1 \<noteq> Inl (OtherError e)"
  shows "run_actions en rd c token i (action # actions) w =
     (let (y, r) = recorded_outcome action o1;
          (rest, w'') = run_actions en rd c token (i + 1) actions (append_row rd y (for_case c (result_to_dict r)) (w\<lparr>cw_states := states\<rparr>))
      in (and_then rest (\<lambda>rs. Inr (r # rs)), w''))"
  using assms by (auto simp: recorded_outcome_def Let_def split: sum.splits action_error.splits)

lemma run_actions_facts:
  assumes "run_actions en rd c token i actions w = (outcome, w')"
  shows "\<forall>k. k \<noteq> ic_case_id c \<longrightarrow> map_of (cw_states w') k = map_of (cw_states w) k"
    and "cw_states w' \<noteq> cw_states w \<Longrightarrow> \<exists>t action j. token = Some t \<and> action \<in> set actions
      \<and> validate_token (eg_key en) (cr_validated_at rd j) t (ic_case_id c) action = Inr ()"
    and "outcome = Inr rs \<Longrightarrow> map ar_action rs = actions"
    and "outcome = Inr rs \<Longrightarrow> r \<in> set rs \<Longrightarrow> reached_provider r \<Longrightarrow> \<exists>t j. token = Some t
      \<and> validate_token (eg_key en) (cr_validated_at rd j) t (ic_case_id c) (ar_action r) = Inr ()"
proof -
  have "(\<forall>k. k \<noteq> ic_case_id c \<longrightarrow> map_of (cw_states w') k = map_of (cw_states w) k)
    \<and> (cw_states w' \<noteq> cw_states w \<longrightarrow> (\<exists>t action j. token = Some t \<and> action \<in> set actions
      \<and> validate_token (eg_key en) (cr_validated_at rd j) t (ic_case_id c) action = Inr ()))
    \<and> (\<forall>rs. outcome = Inr rs \<longrightarrow> map ar_action rs = actions
      \<and> (\<forall>r \<in> set rs. reached_provider r \<longrightarrow> (\<exists>t j. token = Some t
      \<and> validate_token (eg_key en) (cr_validated_at rd j) t (ic_case_id c) (ar_action r) = Inr ())))"
    using assms
  proof (induction actions arbitrary: i w outcome w')
    case (Cons action actions)
    obtain o1 states where x: "execute_action (eg_key en) (cr_validated_at rd i) c action token (cw_states w) = (o1, states)"
      by (cases "execute_action (eg_key en) (cr_validated_at rd i) c action token (cw_states w)")
    note E = execute_action_facts [OF x]
    show ?case
    proof (cases "\<exists>e. o1 = Inl (OtherError e)")
      case True
      with Cons.prems x obtain e where out: "outcome = Inl e" "w' = w\<lparr>cw_states := states\<rparr>" by auto
      have "states \<noteq> cw_states w \<Longrightarrow> \<exists>t action' j. token = Some t \<and> action' \<in> set (action # actions)
          \<and> validate_token (eg_key en) (cr_validated_at rd j) t (ic_case_id c) action' = Inr ()"
        using E(2) by (metis list.set_intros(1))
      with out E(1) show ?thesis by simp
    next
      case False
      define y r where "y = fst (recorded_outcome action o1)" and "r = snd (recorded_outcome action o1)"
      have step: "run_actions en rd c token i (action # actions) w =
          (let (rest, w'') = run_actions en rd c token (i + 1) actions (append_row rd y (for_case c (result_to_dict r)) (w\<lparr>cw_states := states\<rparr>))
           in (and_then rest (\<lambda>rs. Inr (r # rs)), w''))"
        using run_actions_step [OF x] False by (simp add: y_def r_def case_prod_beta Let_def)
      have r: "ar_action r = action" "reached_provider r \<Longrightarrow> o1 = Inr r"
        using E(3) False by (auto simp: r_def recorded_outcome_def rejected_result_def reached_provider_def split: sum.splits action_error.splits)
      obtain rest w2 where run: "run_actions en rd c token (i + 1) actions
          (append_row rd y (for_case c (result_to_dict r)) (w\<lparr>cw_states := states\<rparr>)) = (rest, w2)"
        by (cases "run_actions en rd c token (i + 1) actions
          (append_row rd y (for_case c (result_to_dict r)) (w\<lparr>cw_states := states\<rparr>))")
      from Cons.prems step run have out: "outcome = and_then rest (\<lambda>rs. Inr (r # rs))" "w' = w2" by auto
      note IH = Cons.IH [OF run]
      have changed: "cw_states w' \<noteq> cw_states w \<Longrightarrow> states \<noteq> cw_states w \<or> cw_states w2 \<noteq> states"
        using out(2) by auto
      have "\<forall>k. k \<noteq> ic_case_id c \<longrightarrow> map_of (cw_states w') k = map_of (cw_states w) k"
        using IH E(1) out(2) by simp
      moreover have "\<exists>t action' j. token = Some t \<and> action' \<in> set (action # actions)
          \<and> validate_token (eg_key en) (cr_validated_at rd j) t (ic_case_id c) action' = Inr ()"
        if "cw_states w' \<noteq> cw_states w"
        using changed [OF that]
      proof
        assume "states \<noteq> cw_states w"
        with E(2) show ?thesis by (metis list.set_intros(1))
      next
        assume "cw_states w2 \<noteq> states"
        then show ?thesis using IH by (auto simp: append_row_def)
      qed
      moreover have "map ar_action rs = action # actions \<and> (\<forall>r \<in> set rs. reached_provider r \<longrightarrow> (\<exists>t j. token = Some t
          \<and> validate_token (eg_key en) (cr_validated_at rd j) t (ic_case_id c) (ar_action r) = Inr ()))"
        if "outcome = Inr rs" for rs
      proof -
        from that out(1) obtain rs' where rs: "rest = Inr rs'" "rs = r # rs'" by (cases rest) auto
        have "reached_provider r \<Longrightarrow> \<exists>t j. token = Some t
          \<and> validate_token (eg_key en) (cr_validated_at rd j) t (ic_case_id c) (ar_action r) = Inr ()"
          using E(2) r by metis
        with IH rs r(1) show ?thesis by simp
      qed
      ultimately show ?thesis by blast
    qed
  qed simp
  note all = this
  show "\<forall>k. k \<noteq> ic_case_id c \<longrightarrow> map_of (cw_states w') k = map_of (cw_states w) k"
    by (rule conjunct1 [OF all])
  show "cw_states w' \<noteq> cw_states w \<Longrightarrow> \<exists>t action j. token = Some t \<and> action \<in> set actions
      \<and> validate_token (eg_key en) (cr_validated_at rd j) t (ic_case_id c) action = Inr ()"
    by (rule mp [OF conjunct1 [OF conjunct2 [OF all]]])
  note results = conjunct2 [OF conjunct2 [OF all]]
  show "outcome = Inr rs \<Longrightarrow> map ar_action rs = actions"
    by (rule conjunct1 [OF mp [OF spec [OF results]]])
  show "outcome = Inr rs \<Longrightarrow> r \<in> set rs \<Longrightarrow> reached_provider r \<Longrightarrow> \<exists>t j. token = Some t
      \<and> validate_token (eg_key en) (cr_validated_at rd j) t (ic_case_id c) (ar_action r) = Inr ()"
    by (rule mp [OF bspec [OF conjunct2 [OF mp [OF spec [OF results]]]]])
qed

subsection \<open>One case\<close>

lemma finalize_facts:
  assumes "finalize en rd c ev m v original p counterfactual attempted token error results invocations w = (outcome, w')"
  shows "cw_states w' = cw_states w"
    and "outcome = Inr d \<Longrightarrow> cd_case d = c \<and> cd_mode d = eg_mode en \<and> cd_original d = original
      \<and> cd_counterfactual d = counterfactual \<and> cd_evidence d = ev \<and> cd_model d = m \<and> cd_proposal d = p
      \<and> cd_verification d = v \<and> cd_token d = token \<and> cd_authorization_error d = error \<and> cd_results d = results
      \<and> post_action_dict (eg_mode en) results = Inr (cd_post_action d)
      \<and> cd_attempted d = attempted \<and> cd_broker_invocations d = invocations
      \<and> cd_id d = ''dec-'' @ cr_decision_uuid rd \<and> cd_created_at d = cr_created_at rd
      \<and> cd_policy_id d = pc_policy_id (eg_policy en) \<and> cd_policy_version d = pc_version (eg_policy en)
      \<and> cd_latency_ms d = py_round 3 (cr_latency_ms rd)"
  using assms by (auto simp: finalize_def Let_def split: sum.splits)

lemma simulate_facts:
  assumes "simulate en rd c ev m v original p token error w = (outcome, w')"
  shows "\<forall>k. k \<noteq> ic_case_id c \<longrightarrow> map_of (cw_states w') k = map_of (cw_states w) k"
    and "cw_states w' \<noteq> cw_states w \<Longrightarrow> \<exists>t action j. token = Some t \<and> action \<in> set (pp_executable p)
      \<and> validate_token (eg_key en) (cr_validated_at rd j) t (ic_case_id c) action = Inr ()"
    and "outcome = Inr d \<Longrightarrow> cd_proposal d = p \<and> cd_token d = token \<and> cd_evidence d = ev \<and> cd_model d = m
      \<and> cd_original d = original \<and> cd_mode d = eg_mode en
      \<and> (token = None \<longrightarrow> cd_results d = []) \<and> (token \<noteq> None \<longrightarrow> map ar_action (cd_results d) = pp_executable p)"
    and "outcome = Inr d \<Longrightarrow> r \<in> set (cd_results d) \<Longrightarrow> reached_provider r \<Longrightarrow> \<exists>t j. token = Some t
      \<and> validate_token (eg_key en) (cr_validated_at rd j) t (ic_case_id c) (ar_action r) = Inr ()"
proof -
  define w1 where "w1 = append_row rd ''AUTHORIZATION_EVALUATED'' (for_case c (authorization_payload (eg_mode en) True token error)) w"
  define actions where "actions = (if token = None then [] else pp_executable p)"
  obtain o1 w2 where run: "run_actions en rd c token 0 actions w1 = (o1, w2)"
    by (cases "run_actions en rd c token 0 actions w1")
  note R = run_actions_facts [OF run]
  have states: "cw_states w1 = cw_states w" by (simp add: w1_def)
  consider (raised) e where "o1 = Inl e" "outcome = Inl e" "w' = w2"
    | (complete) rs where "o1 = Inr rs"
        "finalize en rd c ev m v original p [] True token error rs (length actions) w2 = (outcome, w')"
    using assms run by (cases o1) (auto simp: simulate_def Let_def w1_def actions_def)
  note ways = this
  from ways have end_states: "cw_states w' = cw_states w2"
    by cases (simp_all add: finalize_facts(1))
  show "\<forall>k. k \<noteq> ic_case_id c \<longrightarrow> map_of (cw_states w') k = map_of (cw_states w) k"
    using R(1) by (simp add: end_states states)
  show "cw_states w' \<noteq> cw_states w \<Longrightarrow> \<exists>t action j. token = Some t \<and> action \<in> set (pp_executable p)
      \<and> validate_token (eg_key en) (cr_validated_at rd j) t (ic_case_id c) action = Inr ()"
    using R(2) by (auto simp: end_states states actions_def split: if_splits)
  have result: "\<exists>rs. o1 = Inr rs \<and> cd_results d = rs \<and> cd_proposal d = p \<and> cd_token d = token \<and> cd_evidence d = ev
      \<and> cd_model d = m \<and> cd_original d = original \<and> cd_mode d = eg_mode en" if "outcome = Inr d"
    using ways
  proof cases
    case raised
    with that show ?thesis by simp
  next
    case (complete rs)
    with finalize_facts(2) [OF complete(2) that] show ?thesis by simp
  qed
  show "outcome = Inr d \<Longrightarrow> cd_proposal d = p \<and> cd_token d = token \<and> cd_evidence d = ev \<and> cd_model d = m
      \<and> cd_original d = original \<and> cd_mode d = eg_mode en
      \<and> (token = None \<longrightarrow> cd_results d = []) \<and> (token \<noteq> None \<longrightarrow> map ar_action (cd_results d) = pp_executable p)"
    using result R(3) by (auto simp: actions_def)
  show "outcome = Inr d \<Longrightarrow> r \<in> set (cd_results d) \<Longrightarrow> reached_provider r \<Longrightarrow> \<exists>t j. token = Some t
      \<and> validate_token (eg_key en) (cr_validated_at rd j) t (ic_case_id c) (ar_action r) = Inr ()"
    using result R(4) by blast
qed


lemma downgrade_facts:
  "pp_executable (downgrade p v) = (if cv_passed v then pp_executable p else [])"
  "cv_passed v \<Longrightarrow> downgrade p v = p"
  by (simp_all add: downgrade_def)

lemma conclude_read_only:
  assumes "is_read_only (eg_mode en)" and "conclude en rd c ev m v original p w = (outcome, w')"
  shows "cw_states w' = cw_states w"
    and "outcome = Inr d \<Longrightarrow> cd_token d = None \<and> cd_results d = [] \<and> cd_proposal d = observe_only p
      \<and> cd_counterfactual d = pp_executable p \<and> \<not> cd_attempted d \<and> cd_broker_invocations d = 0 \<and> cd_mode d = eg_mode en
      \<and> cd_authorization_error d = [] \<and> cd_case d = c \<and> cd_evidence d = ev \<and> cd_model d = m \<and> cd_verification d = v
      \<and> cd_original d = original"
    and "\<exists>d. outcome = Inr d"
proof -
  from assms obtain w2 where f: "finalize en rd c ev m v original (observe_only p) (pp_executable p) False None [] [] 0 w2
      = (outcome, w')" and s: "cw_states w2 = cw_states w"
    by (auto simp: conclude_def Let_def)
  show "cw_states w' = cw_states w" using finalize_facts(1) [OF f] s by simp
  show "outcome = Inr d \<Longrightarrow> cd_token d = None \<and> cd_results d = [] \<and> cd_proposal d = observe_only p
      \<and> cd_counterfactual d = pp_executable p \<and> \<not> cd_attempted d \<and> cd_broker_invocations d = 0 \<and> cd_mode d = eg_mode en
      \<and> cd_authorization_error d = [] \<and> cd_case d = c \<and> cd_evidence d = ev \<and> cd_model d = m \<and> cd_verification d = v
      \<and> cd_original d = original"
    using finalize_facts(2) [OF f] by simp
  show "\<exists>d. outcome = Inr d" using f assms(1) by (auto simp: finalize_def post_action_dict_def Let_def)
qed

lemma conclude_simulate:
  assumes "\<not> is_read_only (eg_mode en)" and "conclude en rd c ev m v original p w = (outcome, w')"
    and "cw_states w' \<noteq> cw_states w \<or> (\<exists>d. outcome = Inr d)"
  obtains token error where "simulate en rd c ev m v original p token error w = (outcome, w')"
    "token \<noteq> None \<longrightarrow> authorize_case (eg_policy en) (eg_key en) (cr_issued_at rd) (cr_token_uuid rd) c p v = Inr token"
proof -
  consider e where "authorize_case (eg_policy en) (eg_key en) (cr_issued_at rd) (cr_token_uuid rd) c p v = Inl (OtherError e)"
    | message where "authorize_case (eg_policy en) (eg_key en) (cr_issued_at rd) (cr_token_uuid rd) c p v
        = Inl (AuthorizationError message)"
    | token where "authorize_case (eg_policy en) (eg_key en) (cr_issued_at rd) (cr_token_uuid rd) c p v = Inr token"
    by (metis action_error.exhaust sum.exhaust_sel)
  then show thesis
  proof cases
    case 1
    with assms show thesis by (auto simp: conclude_def)
  next
    case (2 message)
    with assms that [of None message] show thesis by (simp add: conclude_def)
  next
    case (3 token)
    with assms that [of token "[]"] show thesis by (simp add: conclude_def)
  qed
qed

lemma process_case_conclude:
  assumes "process_case en rd c w = (outcome, w')" and "cw_states w' \<noteq> cw_states w \<or> (\<exists>d. outcome = Inr d)"
  obtains ev m v w5 where "assess_evidence c = Inr ev" "assess_model (eg_predict en) (eg_model_version en) c = Inr m"
    "v = verify_case (eg_policy en) c m ev (propose (eg_policy en) c m ev)"
    "conclude en rd c ev m v (pp_disposition (propose (eg_policy en) c m ev)) (downgrade (propose (eg_policy en) c m ev) v) w5
      = (outcome, w')" "cw_states w5 = cw_states w"
  using assms by (auto simp: process_case_def Let_def split: sum.splits)

lemma case_effect_facts:
  assumes "process_case en rd c w = (outcome, w')" and "cw_states w' \<noteq> cw_states w"
  shows "eg_mode en = SyntheticSimulation
    \<and> (\<forall>k. k \<noteq> ic_case_id c \<longrightarrow> map_of (cw_states w') k = map_of (cw_states w) k)
    \<and> (\<exists>ev m. assess_evidence c = Inr ev \<and> assess_model (eg_predict en) (eg_model_version en) c = Inr m
         \<and> pc_autonomous_actions (eg_policy en) \<noteq> []
         \<and> (\<forall>a \<in> set (pc_autonomous_actions (eg_policy en)). action_justified (eg_policy en) c m ev a))"
proof -
  let ?cfg = "eg_policy en"
  obtain ev m v w5 where ev: "assess_evidence c = Inr ev"
    and m: "assess_model (eg_predict en) (eg_model_version en) c = Inr m"
    and v: "v = verify_case ?cfg c m ev (propose ?cfg c m ev)"
    and con: "conclude en rd c ev m v (pp_disposition (propose ?cfg c m ev)) (downgrade (propose ?cfg c m ev) v) w5 = (outcome, w')"
    and w5: "cw_states w5 = cw_states w"
    using process_case_conclude [OF assms(1)] assms(2) by metis
  have sim: "\<not> is_read_only (eg_mode en)" using conclude_read_only(1) [OF _ con] assms(2) w5 by auto
  then have mode: "eg_mode en = SyntheticSimulation" by (cases "eg_mode en") simp_all
  obtain token error where s: "simulate en rd c ev m v (pp_disposition (propose ?cfg c m ev))
      (downgrade (propose ?cfg c m ev) v) token error w5 = (outcome, w')"
    using conclude_simulate [OF sim con] assms(2) w5 by metis
  from simulate_facts(2) [OF s] assms(2) w5 obtain a where "a \<in> set (pp_executable (downgrade (propose ?cfg c m ev) v))"
    by auto
  then have passed: "cv_passed v" and a: "a \<in> set (pp_executable (propose ?cfg c m ev))"
    by (auto simp: downgrade_facts split: if_splits)
  then have "pp_executable (propose ?cfg c m ev) \<noteq> []" by auto
  from propose_contain(6) [OF propose_executable [OF this]]
  have exec: "pp_executable (propose ?cfg c m ev) = pc_autonomous_actions ?cfg" .
  have "\<forall>a \<in> set (pc_autonomous_actions ?cfg). action_justified ?cfg c m ev a"
    using verified_action_justified [OF passed [unfolded v] ev] by (simp add: exec)
  moreover have "pc_autonomous_actions ?cfg \<noteq> []" using a exec by auto
  moreover have "\<forall>k. k \<noteq> ic_case_id c \<longrightarrow> map_of (cw_states w') k = map_of (cw_states w) k"
    using simulate_facts(1) [OF s] by (simp add: w5)
  ultimately show ?thesis using mode ev m by blast
qed

lemma executed_action_facts:
  assumes "process_case en rd c w = (Inr d, w')" and "r \<in> set (cd_results d)" and "reached_provider r"
  shows "action_justified (eg_policy en) c (cd_model d) (cd_evidence d) (ar_action r)
    \<and> (\<exists>t j expires. cd_token d = Some t \<and> ct_signature t = sign_token (eg_key en) t \<and> ct_case_id t = ic_case_id c
         \<and> ct_decision_hash t = decision_digest c (cd_proposal d) \<and> ct_permitted t = pp_executable (cd_proposal d)
         \<and> ar_action r \<in> set (ct_permitted t) \<and> parse_time (ct_expires_at t) = Inr (Aware expires)
         \<and> cr_validated_at rd j \<le> expires)"
proof -
  let ?cfg = "eg_policy en"
  obtain ev m v w5 where ev: "assess_evidence c = Inr ev"
    and v: "v = verify_case ?cfg c m ev (propose ?cfg c m ev)"
    and con: "conclude en rd c ev m v (pp_disposition (propose ?cfg c m ev)) (downgrade (propose ?cfg c m ev) v) w5 = (Inr d, w')"
    using process_case_conclude [OF assms(1)] by metis
  have sim: "\<not> is_read_only (eg_mode en)"
  proof
    assume "is_read_only (eg_mode en)"
    from conclude_read_only(2) [OF this con refl] assms(2) show False by simp
  qed
  obtain token error where s: "simulate en rd c ev m v (pp_disposition (propose ?cfg c m ev))
      (downgrade (propose ?cfg c m ev) v) token error w5 = (Inr d, w')"
    and auth: "token \<noteq> None \<longrightarrow> authorize_case ?cfg (eg_key en) (cr_issued_at rd) (cr_token_uuid rd) c
      (downgrade (propose ?cfg c m ev) v) v = Inr token"
    using conclude_simulate [OF sim con] by blast
  from simulate_facts(3) [OF s] have d: "cd_proposal d = downgrade (propose ?cfg c m ev) v" "cd_token d = token"
    "cd_evidence d = ev" "cd_model d = m" by simp_all
  from simulate_facts(4) [OF s refl assms(2,3)] obtain t j where t: "token = Some t"
    and val: "validate_token (eg_key en) (cr_validated_at rd j) t (ic_case_id c) (ar_action r) = Inr ()" by blast
  from auth t have auth': "authorize_case ?cfg (eg_key en) (cr_issued_at rd) (cr_token_uuid rd) c
      (downgrade (propose ?cfg c m ev) v) v = Inr (Some t)" by simp
  then have passed: "cv_passed v" and permitted: "ct_permitted t = pp_executable (downgrade (propose ?cfg c m ev) v)"
    and digest: "ct_decision_hash t = decision_digest c (downgrade (propose ?cfg c m ev) v)"
    by (auto simp: authorize_case_Some Let_def)
  note V = case_token_valid [OF val]
  then have "ar_action r \<in> set (pp_executable (propose ?cfg c m ev))"
    using permitted passed by (simp add: downgrade_facts)
  note just = verified_action_justified [OF passed [unfolded v] ev this]
  from V obtain expires where e: "parse_time (ct_expires_at t) = Inr (Aware expires)" "cr_validated_at rd j \<le> expires" by blast
  show ?thesis using just V t permitted digest e by (simp add: d) blast
qed

text \<open>C12. Observation has no effect: in the read-only modes the identity provider is untouched, nothing is authorized,
  brokered or executed, the recorded proposal has no executable action, and what would have been executed is kept
  only as the counterfactual.\<close>

theorem read_only_has_no_effect:
  assumes "is_read_only (eg_mode en)" and "process_case en rd c w = (outcome, w')"
  shows "cw_states w' = cw_states w
    \<and> (\<forall>d. outcome = Inr d \<longrightarrow> cd_token d = None \<and> cd_results d = [] \<and> pp_executable (cd_proposal d) = []
         \<and> \<not> cd_attempted d \<and> cd_broker_invocations d = 0 \<and> operational_effects d = 0
         \<and> cd_counterfactual d = (if cv_passed (cd_verification d) \<and> cd_original d = ContainReversible
             then pc_autonomous_actions (eg_policy en) else []))"
proof (cases "cw_states w' \<noteq> cw_states w \<or> (\<exists>d. outcome = Inr d)")
  case True
  let ?cfg = "eg_policy en"
  obtain ev m v w5 where con: "conclude en rd c ev m v (pp_disposition (propose ?cfg c m ev))
      (downgrade (propose ?cfg c m ev) v) w5 = (outcome, w')" and w5: "cw_states w5 = cw_states w"
    using process_case_conclude [OF assms(2) True] by metis
  have "pp_executable (propose ?cfg c m ev)
      = (if pp_disposition (propose ?cfg c m ev) = ContainReversible then pc_autonomous_actions ?cfg else [])"
    using propose_executable [of ?cfg c m ev] propose_contain(6) [of ?cfg c m ev] by auto
  note exec = this
  have "cd_token d = None \<and> cd_results d = [] \<and> pp_executable (cd_proposal d) = []
      \<and> \<not> cd_attempted d \<and> cd_broker_invocations d = 0 \<and> operational_effects d = 0
      \<and> cd_counterfactual d = (if cv_passed (cd_verification d) \<and> cd_original d = ContainReversible
          then pc_autonomous_actions ?cfg else [])" if "outcome = Inr d" for d
    using conclude_read_only(2) [OF assms(1) con that]
    by (simp add: downgrade_facts observe_only_def operational_effects_def exec)
  with conclude_read_only(1) [OF assms(1) con] w5 show ?thesis by simp
qed simp

text \<open>C4. No effect without justification: whatever the model computes, the state of the identity provider changes only
  in simulation mode, only for the case at hand, and only when the evidence and model of that case justify every
  action of the policy: risk, quality, provenance, integrity, corroboration, no conflict, no instruction in any
  event, no break-glass identity, an asset within the boundary, an allowed reversible action.\<close>

theorem case_effect_justified:
  assumes "process_case en rd c w = (outcome, w')" and "cw_states w' \<noteq> cw_states w"
  shows "eg_mode en = SyntheticSimulation
    \<and> (\<forall>k. k \<noteq> ic_case_id c \<longrightarrow> map_of (cw_states w') k = map_of (cw_states w) k)
    \<and> (\<exists>ev m. assess_evidence c = Inr ev \<and> assess_model (eg_predict en) (eg_model_version en) c = Inr m
         \<and> pc_autonomous_actions (eg_policy en) \<noteq> []
         \<and> (\<forall>a \<in> set (pc_autonomous_actions (eg_policy en)). action_justified (eg_policy en) c m ev a))"
  using case_effect_facts [OF assms] .

text \<open>C5. Every executed action was authorized: a result that was not a rejection is of an action the verifier justified,
  under a token signed with the gate's key for this case and this proposal, permitting the action and not expired when
  it was validated.\<close>

theorem executed_action_authorized:
  assumes "process_case en rd c w = (Inr d, w')" and "r \<in> set (cd_results d)" and "reached_provider r"
  shows "action_justified (eg_policy en) c (cd_model d) (cd_evidence d) (ar_action r)
    \<and> (\<exists>t j expires. cd_token d = Some t \<and> ct_signature t = sign_token (eg_key en) t \<and> ct_case_id t = ic_case_id c
         \<and> ct_decision_hash t = decision_digest c (cd_proposal d) \<and> ct_permitted t = pp_executable (cd_proposal d)
         \<and> ar_action r \<in> set (ct_permitted t) \<and> parse_time (ct_expires_at t) = Inr (Aware expires)
         \<and> cr_validated_at rd j \<le> expires)"
  using executed_action_facts [OF assms] .

end
