(* ===== verification/P1EngineRuns.thy ===== *)
theory P1EngineRuns
  imports P1EngineFacts Sealed
begin

text \<open>
  The runs of the phase 1 engine: processing a well-formed case always returns a decision, instructions in the
  evidence stop every action, the verification after the actions tells success from failure, and the audit log of a
  processed case is a valid chain that ends with the digest of its decision.
\<close>

subsection \<open>No exception escapes\<close>

lemma parse_time_isoformat: "representable t \<Longrightarrow> parse_time (isoformat t) = Inr (Aware t)"
  by (simp add: parse_time_def fromisoformat_isoformat)

text \<open>The tokens of the gate are sealed values.\<close>

interpretation case_seal: sealed_value unsigned_token ct_signature "\<lambda>s t. t\<lparr>ct_signature := s\<rparr>"
  by unfold_locales (simp_all add: unsigned_token_def)

lemma map_result_total: "(\<And>x. x \<in> set xs \<Longrightarrow> \<exists>y. f x = Inr y) \<Longrightarrow> \<exists>ys. map_result f xs = Inr ys"
  by (induction xs) auto

lemma case_token_validates:
  assumes "authorize_case cfg key clock uuid c p v = Inr (Some t)"
  shows "validate_token key now t case_id action \<noteq> Inl (OtherError e)"
proof -
  from assms have "\<exists>u. t = case_seal.seal key u"
    unfolding authorize_case_Some Let_def case_seal.seal_def sign_token_def by blast
  then have "case_seal.authentic key t" using case_seal.authentic_seal by blast
  then have "compare_digest (sign_token key t) (ct_signature t) = Inr True"
    by (simp add: case_seal.authentic_def sign_token_def)
  moreover from assms have "parse_time (ct_expires_at t) = Inr (Aware
      (whole_second clock + pc_token_ttl_seconds cfg * micros))"
    by (auto simp: authorize_case_Some Let_def parse_time_isoformat)
  ultimately show ?thesis
    by (cases "ct_case_id t = case_id"; cases "action \<in> set (ct_permitted t)") (auto simp: validate_token_def require_def)
qed

lemma execute_action_total:
  assumes "\<And>e. validate_token key clock t (ic_case_id c) action \<noteq> Inl (OtherError e)"
    and "execute_action key clock c action (Some t) states = (outcome, states')"
  shows "outcome \<noteq> Inl (OtherError e)"
proof -
  have "ic_case_id c \<in> fst ` set (initialize_case c states)"
    by (auto simp: initialize_case_def keys_dict_set)
  then have "map_of (initialize_case c states) (ic_case_id c) \<noteq> None" by (simp add: map_of_eq_None_iff)
  with assms show ?thesis
    by (auto simp: execute_action_def apply_action_def split: option.splits sum.splits if_splits)
qed

lemma run_actions_total:
  assumes "\<And>a j e. validate_token (eg_key en) (cr_validated_at rd j) t (ic_case_id c) a \<noteq> Inl (OtherError e)"
  shows "\<exists>rs w'. run_actions en rd c (Some t) i actions w = (Inr rs, w')"
proof (induction actions arbitrary: i w)
  case (Cons action actions)
  obtain o1 states where x: "execute_action (eg_key en) (cr_validated_at rd i) c action (Some t) (cw_states w) = (o1, states)"
    by (cases "execute_action (eg_key en) (cr_validated_at rd i) c action (Some t) (cw_states w)")
  have "o1 \<noteq> Inl (OtherError e)" for e using execute_action_total [OF assms x] .
  from run_actions_step [OF x this] Cons.IH show ?case
    by (auto simp: case_prod_beta Let_def) (metis and_then.simps(2) fst_conv)
qed simp

lemma plan_keys: "fst ` set rollback_plan = fst ` set expected_state"
  by (simp add: rollback_plan_def expected_state_def)

lemma verify_results_total:
  assumes "set (map ar_action rs) \<subseteq> fst ` set rollback_plan"
  shows "\<exists>x. verify_results rs = Inr x"
proof -
  have "\<exists>y. check_result r = Inr y" if "r \<in> set rs" for r
  proof -
    have "ar_action r \<in> fst ` set expected_state" using that assms plan_keys by auto
    then have "map_of expected_state (ar_action r) \<noteq> None" by (simp add: map_of_eq_None_iff)
    then show ?thesis by (auto simp: check_result_def Let_def split: option.splits)
  qed
  from map_result_total [of rs check_result, OF this] show ?thesis by (auto simp: verify_results_def)
qed

lemma process_case_returns:
  assumes "assess_evidence c = Inr ev" and "assess_model (eg_predict en) (eg_model_version en) c = Inr m"
    and "representable (whole_second (cr_issued_at rd) + pc_token_ttl_seconds (eg_policy en) * micros)"
  shows "\<exists>d w'. process_case en rd c w = (Inr d, w')"
proof -
  let ?p = "propose (eg_policy en) c m ev"
  define v where "v = verify_case (eg_policy en) c m ev ?p"
  have simulates: "\<exists>d w'. simulate en rd c ev m v original (downgrade ?p v) token error w0 = (Inr d, w')"
    if sim: "\<not> is_read_only (eg_mode en)"
      and tok: "token = None \<or> authorize_case (eg_policy en) (eg_key en) (cr_issued_at rd) (cr_token_uuid rd) c (downgrade ?p v) v = Inr token"
    for original token error w0
  proof -
    let ?actions = "if token = None then [] else pp_executable (downgrade ?p v)"
    let ?w1 = "append_row rd ''AUTHORIZATION_EVALUATED'' (for_case c (authorization_payload (eg_mode en) True token error)) w0"
    have "\<exists>rs w2. run_actions en rd c token 0 ?actions ?w1 = (Inr rs, w2)"
    proof (cases token)
      case (Some t)
      with tok have "authorize_case (eg_policy en) (eg_key en) (cr_issued_at rd) (cr_token_uuid rd) c (downgrade ?p v) v
        = Inr (Some t)" by simp
      from run_actions_total [OF case_token_validates [OF this]] Some show ?thesis by simp
    qed simp
    then obtain rs w2 where run: "run_actions en rd c token 0 ?actions ?w1 = (Inr rs, w2)" by blast
    from run_actions_facts(3) [OF run] have acts: "map ar_action rs = ?actions" by simp
    have "set (pp_executable (downgrade ?p v)) \<subseteq> fst ` set rollback_plan"
      using verified_action_justified [of "eg_policy en" c m ev, OF _ assms(1)]
      by (auto simp: downgrade_facts v_def action_justified_def split: if_splits)
    then have "set (map ar_action rs) \<subseteq> fst ` set rollback_plan" by (auto simp: acts)
    from verify_results_total [OF this] obtain x where "verify_results rs = Inr x" by blast
    then have "\<exists>post. post_action_dict (eg_mode en) rs = Inr post" using sim by (cases x) (simp add: post_action_dict_def)
    then show ?thesis using run by (auto simp: simulate_def finalize_def Let_def)
  qed
  have "\<exists>d w'. conclude en rd c ev m v original (downgrade ?p v) w0 = (Inr d, w')" for original w0
  proof (cases "is_read_only (eg_mode en)")
    case True
    then show ?thesis using conclude_read_only(3) [OF True] by (metis surj_pair)
  next
    case False
    consider token where "authorize_case (eg_policy en) (eg_key en) (cr_issued_at rd) (cr_token_uuid rd) c (downgrade ?p v) v = Inr token"
      | message where "authorize_case (eg_policy en) (eg_key en) (cr_issued_at rd) (cr_token_uuid rd) c (downgrade ?p v) v
          = Inl (AuthorizationError message)"
      using assms(3)
      by (cases "pp_executable (downgrade ?p v) = []"; cases "cv_passed v") (simp_all add: authorize_case_def Let_def)
    then show ?thesis
      by cases (use False simulates in \<open>simp_all add: conclude_def\<close>)
  qed
  then show ?thesis using assms(1,2) by (simp add: process_case_def Let_def v_def)
qed

text \<open>C16. Processing is total: once evidence and model accept the case and the expiry of a token is a date Python can
  represent, no exception of the gate, the broker, the provider or the post-action verifier escapes, whatever the
  configuration allows: the run ends with a recorded decision.\<close>

theorem process_case_total:
  assumes "assess_evidence c = Inr ev" and "assess_model (eg_predict en) (eg_model_version en) c = Inr m"
    and "representable (whole_second (cr_issued_at rd) + pc_token_ttl_seconds (eg_policy en) * micros)"
  shows "\<exists>d w'. process_case en rd c w = (Inr d, w')"
  using process_case_returns [OF assms] .

subsection \<open>Poisoned evidence\<close>

text \<open>C11. Instructions in the evidence stop the machine: when any event of a case carries instructional content, by its
  flag or by a pattern found in its text, no action reaches the identity provider and its state is untouched, whatever
  the model and the policy say; and where the policy blocks on it, the recorded disposition is an investigation and
  nothing is attempted.\<close>

theorem poisoned_case_abstains:
  assumes "process_case en rd c w = (outcome, w')" and "e \<in> set (ic_events c)" and "instructional e"
  shows "cw_states w' = cw_states w \<and> (\<forall>d. outcome = Inr d \<longrightarrow> \<not> (\<exists>r \<in> set (cd_results d). reached_provider r))
    \<and> (pc_poison_blocks (eg_policy en) \<longrightarrow> (\<forall>d. outcome = Inr d \<longrightarrow>
         cd_original d = Investigate \<and> pp_rules (cd_proposal d) = [''SAFETY-POISON-ABSTAIN''] \<and> cd_results d = []))"
proof -
  have no: "\<not> action_justified cfg c m ev a" for cfg m ev a using assms(2,3) by (auto simp: action_justified_def)
  have "cw_states w' = cw_states w"
  proof (rule ccontr)
    assume "cw_states w' \<noteq> cw_states w"
    from case_effect_facts [OF assms(1) this] no show False by (metis list.set_intros(1) neq_Nil_conv)
  qed
  moreover have "\<not> (\<exists>r \<in> set (cd_results d). reached_provider r)" if "outcome = Inr d" for d
    using executed_action_facts [OF assms(1) [unfolded that]] no by blast
  moreover have "cd_original d = Investigate \<and> pp_rules (cd_proposal d) = [''SAFETY-POISON-ABSTAIN''] \<and> cd_results d = []"
    if d: "outcome = Inr d" and b: "pc_poison_blocks (eg_policy en)" for d
  proof -
    let ?cfg = "eg_policy en"
    have alt: "cw_states w' \<noteq> cw_states w \<or> (\<exists>d'. outcome = Inr d')" using d by blast
    obtain ev m v w5 where ev: "assess_evidence c = Inr ev"
      and con: "conclude en rd c ev m v (pp_disposition (propose ?cfg c m ev)) (downgrade (propose ?cfg c m ev) v) w5 = (outcome, w')"
      using process_case_conclude [OF assms(1) alt] by metis
    have "ce_poisoned ev" using assess_evidence_facts(5) [OF ev] assms(2,3) by blast
    with b have p: "pp_disposition (propose ?cfg c m ev) = Investigate" "pp_executable (propose ?cfg c m ev) = []"
      "pp_rules (propose ?cfg c m ev) = [''SAFETY-POISON-ABSTAIN'']"
      by (simp_all add: propose_def investigate_def Let_def)
    then have p': "downgrade (propose ?cfg c m ev) v = propose ?cfg c m ev" by (simp add: downgrade_def)
    show ?thesis
    proof (cases "is_read_only (eg_mode en)")
      case True
      from conclude_read_only(2) [OF True con d] p p' show ?thesis by (simp add: observe_only_def)
    next
      case False
      obtain token error where s: "simulate en rd c ev m v (pp_disposition (propose ?cfg c m ev))
          (downgrade (propose ?cfg c m ev) v) token error w5 = (outcome, w')"
        using conclude_simulate [OF False con] d by blast
      from simulate_facts(3) [OF s d] p p' show ?thesis by (cases token) auto
    qed
  qed
  ultimately show ?thesis by blast
qed


subsection \<open>After the actions\<close>

text \<open>A result whose check against the read-back state agrees with its own report.\<close>

definition honest_result :: "action_result \<Rightarrow> bool" where
  "honest_result r \<longleftrightarrow> (\<forall>passed row. check_result r = Inr (passed, row) \<longrightarrow> passed = ar_success r)"

lemma executed_honest:
  assumes "execute_action key clock c action token states = (Inr r, states')"
  shows "honest_result r"
proof -
  have same: "py_eq (obj_get (state_to_dict state') field) expected"
    if "apply_change action state = Some (state', rollback)" "map_of expected_state action = Some (field, expected)"
    for state state' rollback field expected
  proof -
    from that(1) consider "action = ''revoke_active_sessions''" "is_active_sessions state' = 0"
      | "action = ''force_step_up_auth''" "is_step_up_required state'"
      | "action = ''increase_monitoring''" "is_monitoring_level state' = ''enhanced''"
      by (auto simp: apply_change_def split: if_splits)
    then show ?thesis
    proof cases
      case 1
      with that(2) have "field = ''active_sessions''" "expected = JInt 0" by (simp_all add: expected_state_def)
      with 1 show ?thesis by (simp add: state_to_dict_def obj_get_def same_number_def)
    next
      case 2
      with that(2) have "field = ''step_up_required''" "expected = JBool True" by (simp_all add: expected_state_def)
      with 2 show ?thesis by (simp add: state_to_dict_def obj_get_def same_number_def)
    next
      case 3
      with that(2) have "field = ''monitoring_level''" "expected = JStr ''enhanced''" by (simp_all add: expected_state_def)
      with 3 show ?thesis by (simp add: state_to_dict_def obj_get_def)
    qed
  qed
  show ?thesis
  proof (cases "ar_success r")
    case True
    from assms have "apply_action (ic_case_id c) action (initialize_case c states) = (Inr r, states')"
      by (simp add: execute_action_def split: option.splits sum.splits)
    then obtain state where "map_of (initialize_case c states) (ic_case_id c) = Some state"
      and a: "(if deterministic_failure (ic_case_id c) action then \<not> ar_success r
        else (case apply_change action state of None \<Rightarrow> False
          | Some (state', rollback) \<Rightarrow> ar_after r = state_to_dict state' \<and> ar_action r = action))"
      by (auto simp: apply_action_def split: option.splits if_splits)
    with True obtain state' rollback where "apply_change action state = Some (state', rollback)"
      "ar_after r = state_to_dict state'" "ar_action r = action"
      by (auto split: option.splits if_splits)
    with same True show ?thesis
      by (auto simp: honest_result_def check_result_def Let_def split: option.splits)
  next
    case False
    then show ?thesis by (auto simp: honest_result_def check_result_def Let_def split: option.splits)
  qed
qed

lemma rejected_honest: "honest_result (rejected_result action message)"
  by (auto simp: honest_result_def rejected_result_def check_result_def Let_def split: option.splits)

lemma run_actions_honest:
  "run_actions en rd c token i actions w = (Inr rs, w') \<Longrightarrow> \<forall>r \<in> set rs. honest_result r"
proof (induction actions arbitrary: i w rs w')
  case (Cons action actions)
  obtain o1 states where x: "execute_action (eg_key en) (cr_validated_at rd i) c action token (cw_states w) = (o1, states)"
    by (cases "execute_action (eg_key en) (cr_validated_at rd i) c action token (cw_states w)")
  have o1: "o1 \<noteq> Inl (OtherError e)" for e using Cons.prems x by auto
  define y r where "y = fst (recorded_outcome action o1)" and "r = snd (recorded_outcome action o1)"
  obtain rest w2 where run: "run_actions en rd c token (i + 1) actions
      (append_row rd y (for_case c (result_to_dict r)) (w\<lparr>cw_states := states\<rparr>)) = (rest, w2)"
    by (cases "run_actions en rd c token (i + 1) actions
      (append_row rd y (for_case c (result_to_dict r)) (w\<lparr>cw_states := states\<rparr>))")
  from run_actions_step [OF x o1] Cons.prems run obtain rs' where rs: "rest = Inr rs'" "rs = r # rs'"
    by (cases rest) (auto simp: y_def r_def case_prod_beta Let_def)
  have "honest_result r"
    using o1 x executed_honest rejected_honest
    by (auto simp: r_def recorded_outcome_def split: sum.splits action_error.splits)
  with Cons.IH run rs show ?case by auto
qed simp

lemma verify_results_status:
  "verify_results rs = Inr (passed, checks) \<Longrightarrow> \<forall>r \<in> set rs. honest_result r \<Longrightarrow> passed = list_all ar_success rs"
proof (induction rs arbitrary: passed checks)
  case (Cons r rs)
  then obtain x rows where "check_result r = Inr x" "map_result check_result rs = Inr rows"
    "passed = (fst x \<and> list_all fst rows)" by (auto simp: verify_results_def)
  with Cons.IH [of "list_all fst rows"] Cons.prems(2) show ?case
    by (cases x) (auto simp: verify_results_def honest_result_def)
qed (simp add: verify_results_def)


subsection \<open>The audit log\<close>

text \<open>The log of one world extends that of another by rows of the given types.\<close>

definition logs :: "case_world \<Rightarrow> pystr list \<Rightarrow> case_world \<Rightarrow> bool" where
  "logs w types w' \<longleftrightarrow> (\<exists>es. cw_log w' = audit_run es (cw_log w) \<and> map (fst \<circ> snd) es = types)"

lemma logs_same [simp]: "cw_log w' = cw_log w \<Longrightarrow> logs w [] w'"
  by (auto simp: logs_def intro: exI [of _ "[]"])

lemma logs_trans: "logs w ts w1 \<Longrightarrow> logs w1 us w2 \<Longrightarrow> logs w (ts @ us) w2"
proof -
  assume "logs w ts w1" "logs w1 us w2"
  then obtain es fs where "cw_log w1 = audit_run es (cw_log w)" "map (fst \<circ> snd) es = ts"
    "cw_log w2 = audit_run fs (cw_log w1)" "map (fst \<circ> snd) fs = us" by (auto simp: logs_def)
  then show "logs w (ts @ us) w2"
    by (auto simp: logs_def audit_run_def intro!: exI [of _ "es @ fs"])
qed

lemma logs_append_row: "logs w [y] (append_row rd y p w)"
  by (auto simp: logs_def append_row_def intro!: exI [of _ "[(cr_recorded_at rd (length (al_rows (cw_log w))), y, JObj p)]"])

lemma logs_append: "logs w ts w1 \<Longrightarrow> logs w (ts @ [y]) (append_row rd y p w1)"
  by (rule logs_trans [OF _ logs_append_row])

lemma logs_states [simp]: "logs w ts (w1\<lparr>cw_states := s\<rparr>) \<longleftrightarrow> logs w ts w1" "logs (w\<lparr>cw_states := s\<rparr>) ts w1 \<longleftrightarrow> logs w ts w1"
  by (simp_all add: logs_def)

lemma logs_good: "logs w ts w' \<Longrightarrow> good_log (cw_log w) \<Longrightarrow> good_log (cw_log w')"
  by (auto simp: logs_def good_run)

lemma run_actions_logs:
  "run_actions en rd c token i actions w = (Inr rs, w') \<Longrightarrow>
     \<exists>kinds. logs w kinds w' \<and> length kinds = length actions \<and> set kinds \<subseteq> {''ACTION_EXECUTED'', ''ACTION_REJECTED''}"
proof (induction actions arbitrary: i w rs w')
  case (Cons action actions)
  obtain o1 states where x: "execute_action (eg_key en) (cr_validated_at rd i) c action token (cw_states w) = (o1, states)"
    by (cases "execute_action (eg_key en) (cr_validated_at rd i) c action token (cw_states w)")
  have o1: "o1 \<noteq> Inl (OtherError e)" for e using Cons.prems x by auto
  define y r where "y = fst (recorded_outcome action o1)" and "r = snd (recorded_outcome action o1)"
  let ?w1 = "append_row rd y (for_case c (result_to_dict r)) (w\<lparr>cw_states := states\<rparr>)"
  obtain rest w2 where run: "run_actions en rd c token (i + 1) actions ?w1 = (rest, w2)"
    by (cases "run_actions en rd c token (i + 1) actions ?w1")
  from run_actions_step [OF x o1] Cons.prems run obtain rs' where rs: "rest = Inr rs'" "w' = w2"
    by (cases rest) (auto simp: y_def r_def case_prod_beta Let_def)
  have y: "y \<in> {''ACTION_EXECUTED'', ''ACTION_REJECTED''}"
    using o1 by (auto simp: y_def recorded_outcome_def split: sum.splits action_error.splits)
  from Cons.IH run rs obtain kinds where k: "logs ?w1 kinds w'" "length kinds = length actions"
    "set kinds \<subseteq> {''ACTION_EXECUTED'', ''ACTION_REJECTED''}" by blast
  have "logs w [y] ?w1" using logs_append_row [of "w\<lparr>cw_states := states\<rparr>" y rd] by simp
  from logs_trans [OF this k(1)] k y show ?case by (intro exI [of _ "y # kinds"]) auto
qed (auto intro: exI [of _ "[]"])


definition final_payload :: "identity_case \<Rightarrow> case_decision \<Rightarrow> json" where
  "final_payload c d = JObj (for_case c
     [(''decision_id'', JStr (cd_id d)), (''final_disposition'', JStr (disposition_text (pp_disposition (cd_proposal d)))),
      (''decision_record_hash'', JStr (decision_hash d))])"

lemma finalize_logs:
  assumes "finalize en rd c ev m v original p counterfactual attempted token error results invocations w = (Inr d, w')"
  shows "logs w ((if results = [] then [] else [''POST_ACTION_VERIFIED'']) @ [''DECISION_FINALIZED'']) w'"
    and "obj_get (last (al_rows (cw_log w'))) ''payload'' = final_payload c d"
proof -
  from assms obtain post where
    w': "w' = append_row rd ''DECISION_FINALIZED''
      (for_case c [(''decision_id'', JStr (cd_id d)), (''final_disposition'', JStr (disposition_text (pp_disposition p))),
        (''decision_record_hash'', JStr (decision_hash d))])
      (if results = [] then w else append_row rd ''POST_ACTION_VERIFIED'' (for_case c post) w)" and p: "cd_proposal d = p"
    by (auto simp: finalize_def Let_def split: sum.splits)
  show "logs w ((if results = [] then [] else [''POST_ACTION_VERIFIED'']) @ [''DECISION_FINALIZED'']) w'"
    unfolding w' by (rule logs_append) (simp add: logs_append_row)
  show "obj_get (last (al_rows (cw_log w'))) ''payload'' = final_payload c d"
    by (simp add: w' append_row_def audit_append_rows final_payload_def p)
qed

lemma simulate_logs:
  assumes "simulate en rd c ev m v original p token error w = (Inr d, w')"
  shows "\<exists>kinds. length kinds = length (cd_results d) \<and> set kinds \<subseteq> {''ACTION_EXECUTED'', ''ACTION_REJECTED''}
      \<and> logs w ([''AUTHORIZATION_EVALUATED''] @ kinds
           @ (if cd_results d = [] then [] else [''POST_ACTION_VERIFIED'']) @ [''DECISION_FINALIZED'']) w'"
    and "obj_get (last (al_rows (cw_log w'))) ''payload'' = final_payload c d"
proof -
  let ?actions = "if token = None then [] else pp_executable p"
  let ?w1 = "append_row rd ''AUTHORIZATION_EVALUATED'' (for_case c (authorization_payload (eg_mode en) True token error)) w"
  obtain o1 w2 where run: "run_actions en rd c token 0 ?actions ?w1 = (o1, w2)" by (cases "run_actions en rd c token 0 ?actions ?w1")
  with assms obtain rs where o1: "o1 = Inr rs"
    and f: "finalize en rd c ev m v original p [] True token error rs (length ?actions) w2 = (Inr d, w')"
    by (cases o1) (auto simp: simulate_def Let_def)
  from finalize_facts(2) [OF f refl] have d: "cd_results d = rs" by simp
  have len: "length rs = length ?actions"
    using arg_cong [OF run_actions_facts(3) [OF run o1], of length] by simp
  from run_actions_logs run o1 obtain kinds where k: "logs ?w1 kinds w2" "length kinds = length ?actions"
    "set kinds \<subseteq> {''ACTION_EXECUTED'', ''ACTION_REJECTED''}" by blast
  from logs_trans [OF logs_append_row logs_trans [OF k(1) finalize_logs(1) [OF f]]] k len
  show "\<exists>kinds. length kinds = length (cd_results d) \<and> set kinds \<subseteq> {''ACTION_EXECUTED'', ''ACTION_REJECTED''}
      \<and> logs w ([''AUTHORIZATION_EVALUATED''] @ kinds
           @ (if cd_results d = [] then [] else [''POST_ACTION_VERIFIED'']) @ [''DECISION_FINALIZED'']) w'"
    by (intro exI [of _ kinds]) (simp add: d)
  show "obj_get (last (al_rows (cw_log w'))) ''payload'' = final_payload c d" by (rule finalize_logs(2) [OF f])
qed

lemma conclude_logs:
  assumes "conclude en rd c ev m v original p w = (Inr d, w')"
  shows "(\<exists>kinds. length kinds = length (cd_results d) \<and> set kinds \<subseteq> {''ACTION_EXECUTED'', ''ACTION_REJECTED''}
      \<and> logs w ((if is_read_only (eg_mode en) then [''EXECUTION_SUPPRESSED''] else []) @ [''AUTHORIZATION_EVALUATED''] @ kinds
           @ (if cd_results d = [] then [] else [''POST_ACTION_VERIFIED'']) @ [''DECISION_FINALIZED'']) w')
    \<and> obj_get (last (al_rows (cw_log w'))) ''payload'' = final_payload c d"
proof (cases "is_read_only (eg_mode en)")
  case True
  define w1 where "w1 = append_row rd ''EXECUTION_SUPPRESSED'' (for_case c (suppressed_payload (eg_mode en) (pp_executable p))) w"
  define w2 where "w2 = append_row rd ''AUTHORIZATION_EVALUATED'' (for_case c (authorization_payload (eg_mode en) False None [])) w1"
  from True assms have f: "finalize en rd c ev m v original (observe_only p) (pp_executable p) False None [] [] 0 w2 = (Inr d, w')"
    by (simp add: conclude_def Let_def w1_def w2_def)
  have "logs w [''EXECUTION_SUPPRESSED''] w1" "logs w1 [''AUTHORIZATION_EVALUATED''] w2"
    by (simp_all add: w1_def w2_def logs_append_row)
  from logs_trans [OF this(1) logs_trans [OF this(2) finalize_logs(1) [OF f]]] finalize_facts(2) [OF f refl]
  show ?thesis using True finalize_logs(2) [OF f] by (intro conjI exI [of _ "[]"]) simp_all
next
  case False
  obtain token error where s: "simulate en rd c ev m v original p token error w = (Inr d, w')"
    using conclude_simulate [OF False assms] by blast
  from simulate_logs [OF s] False show ?thesis by simp
qed

lemma process_case_logs:
  assumes "process_case en rd c w = (Inr d, w')"
  obtains ev m v w5 p original where "conclude en rd c ev m v original p w5 = (Inr d, w')"
    "logs w [''CASE_RECEIVED'', ''EVIDENCE_ASSESSED'', ''MODEL_ASSESSED'', ''POLICY_PROPOSED'', ''INDEPENDENTLY_VERIFIED''] w5"
proof -
  from assms obtain ev m v p original p1 p2 p3 p4 p5 where con: "conclude en rd c ev m v original p
      (append_row rd ''INDEPENDENTLY_VERIFIED'' p5 (append_row rd ''POLICY_PROPOSED'' p4 (append_row rd ''MODEL_ASSESSED'' p3
        (append_row rd ''EVIDENCE_ASSESSED'' p2 (append_row rd ''CASE_RECEIVED'' p1 w))))) = (Inr d, w')"
    by (auto simp: process_case_def Let_def split: sum.splits)
  have "logs w (((([''CASE_RECEIVED''] @ [''EVIDENCE_ASSESSED'']) @ [''MODEL_ASSESSED'']) @ [''POLICY_PROPOSED'']) @ [''INDEPENDENTLY_VERIFIED''])
      (append_row rd ''INDEPENDENTLY_VERIFIED'' p5 (append_row rd ''POLICY_PROPOSED'' p4 (append_row rd ''MODEL_ASSESSED'' p3
        (append_row rd ''EVIDENCE_ASSESSED'' p2 (append_row rd ''CASE_RECEIVED'' p1 w)))))"
    by (intro logs_append logs_append_row)
  with con that show thesis by simp
qed

text \<open>C17. The audit log commits to every decision: processing a case extends the log by exactly the rows of its stages,
  in order; a valid log stays a valid chain; and its last row names the case and carries the digest of the recorded
  decision.\<close>

theorem case_audit_complete:
  assumes "process_case en rd c w = (Inr d, w')"
  shows "(good_log (cw_log w) \<longrightarrow> good_log (cw_log w'))
    \<and> (\<exists>kinds. length kinds = length (cd_results d) \<and> set kinds \<subseteq> {''ACTION_EXECUTED'', ''ACTION_REJECTED''}
        \<and> logs w ([''CASE_RECEIVED'', ''EVIDENCE_ASSESSED'', ''MODEL_ASSESSED'', ''POLICY_PROPOSED'', ''INDEPENDENTLY_VERIFIED'']
             @ (if is_read_only (eg_mode en) then [''EXECUTION_SUPPRESSED''] else []) @ [''AUTHORIZATION_EVALUATED'']
             @ kinds @ (if cd_results d = [] then [] else [''POST_ACTION_VERIFIED'']) @ [''DECISION_FINALIZED'']) w')
    \<and> obj_get (last (al_rows (cw_log w'))) ''payload'' =
        JObj [(''case_id'', JStr (ic_case_id c)), (''decision_id'', JStr (cd_id d)),
              (''final_disposition'', JStr (disposition_text (pp_disposition (cd_proposal d)))),
              (''decision_record_hash'', JStr (decision_hash d))]"
proof -
  obtain ev m v w5 p original where con: "conclude en rd c ev m v original p w5 = (Inr d, w')"
    and w5: "logs w [''CASE_RECEIVED'', ''EVIDENCE_ASSESSED'', ''MODEL_ASSESSED'', ''POLICY_PROPOSED'', ''INDEPENDENTLY_VERIFIED''] w5"
    using process_case_logs [OF assms] .
  from conclude_logs [OF con] obtain kinds where k: "length kinds = length (cd_results d)"
    "set kinds \<subseteq> {''ACTION_EXECUTED'', ''ACTION_REJECTED''}" and l: "logs w5 ((if is_read_only (eg_mode en)
       then [''EXECUTION_SUPPRESSED''] else []) @ [''AUTHORIZATION_EVALUATED''] @ kinds
       @ (if cd_results d = [] then [] else [''POST_ACTION_VERIFIED'']) @ [''DECISION_FINALIZED'']) w'"
    and final: "obj_get (last (al_rows (cw_log w'))) ''payload'' = final_payload c d" by blast
  note all = logs_trans [OF w5 l]
  show ?thesis using all k final logs_good [OF all] by (auto simp: final_payload_def for_case_def intro!: exI [of _ kinds])
qed

end
