(* ===== verification/P1EvidenceFacts.thy ===== *)
theory P1EvidenceFacts
  imports P1Evidence
begin

text \<open>What the evidence assessment of phase 1 says of the events, and that its scores are unit values.\<close>

lemma flags_unit: "\<forall>x \<in> set (flags bs). 0 \<le> x \<and> x \<le> 1"
  by (auto simp: flags_def)

lemma mean_of_unit: "\<forall>x \<in> set xs. 0 \<le> x \<and> x \<le> 1 \<Longrightarrow> length xs < 2 ^ 53 \<Longrightarrow> xs \<noteq> [] \<Longrightarrow> 0 \<le> mean_of xs \<and> mean_of xs \<le> 1"
  using mean_unit [of xs] by (simp add: mean_of_def)

lemma event_freshness_unit: "event_freshness e = Inr x \<Longrightarrow> 0 \<le> x \<and> x \<le> 1"
  using clamp_unit by (auto simp: event_freshness_def Let_def)

lemma py_float_unit: "py_float n = Inr x \<Longrightarrow> 0 \<le> number_value n \<Longrightarrow> number_value n \<le> 1 \<Longrightarrow> 0 \<le> x \<and> x \<le> 1"
  by (cases n) (auto simp: binary64.rnd_unit split: if_splits)

text \<open>C40. Evidence scores are unit values: for events whose trust scores are in the unit interval, the quality and every
  ratio, freshness, diversity and trust score of the assessment lie in the unit interval.\<close>

theorem case_evidence_bounds:
  assumes "assess_evidence c = Inr ev" and "length (ic_events c) < 2 ^ 53"
    and "\<forall>e \<in> set (ic_events c). 0 \<le> number_value (ee_trust_score e) \<and> number_value (ee_trust_score e) \<le> 1"
  shows "\<forall>x \<in> {ce_quality ev, ce_provenance_ratio ev, ce_integrity_ratio ev, ce_freshness ev, ce_diversity ev, ce_trust ev}.
    0 \<le> x \<and> x \<le> 1"
proof (cases "ic_events c = []")
  case True
  with assms(1) show ?thesis by (auto simp: assess_evidence_def)
next
  case False
  from assms(1) False obtain st trusts where st: "fold_result assess_event (ic_events c) no_evidence = Inr st"
    and tr: "map_result (\<lambda>e. py_float (ee_trust_score e)) (ic_events c) = Inr trusts"
    by (auto simp: assess_evidence_def)
  have quality: "0 \<le> quality_score a b f d t n p k \<and> quality_score a b f d t n p k \<le> 1" for a b f d t n p k
    using clamp_unit by (simp add: quality_score_def Let_def)
  from assms(1) False st tr have ev:
      "ce_provenance_ratio ev = py_round 6 (mean_of (flags (map (\<lambda>e. ee_provenance_id e \<noteq> []) (ic_events c))))"
      "ce_integrity_ratio ev = py_round 6 (mean_of (flags (map (\<lambda>e. ee_integrity e = ''verified'') (ic_events c))))"
      "ce_freshness ev = py_round 6 (mean_of (el_freshness st))"
      "\<exists>y. ce_diversity ev = py_round 6 (clamp 0 1 y)" "ce_trust ev = py_round 6 (mean_of trusts)"
    and q: "0 \<le> ce_quality ev \<and> ce_quality ev \<le> 1"
    by (auto simp: assess_evidence_def Let_def py_round_unit quality)
  have flags: "0 \<le> mean_of (flags (map P (ic_events c))) \<and> mean_of (flags (map P (ic_events c))) \<le> 1" for P
    using mean_of_unit [OF flags_unit, of "map P (ic_events c)"] assms(2) False by (simp add: flags_def)
  have loop: "el_freshness st = map freshness_value (ic_events c)" "\<forall>e \<in> set (ic_events c). assessable e"
    using assess_loop [OF st] by (simp_all add: loop_of_def)
  have "0 \<le> freshness_value e \<and> freshness_value e \<le> 1" if "e \<in> set (ic_events c)" for e
    using loop(2) that event_freshness_unit by (auto simp: freshness_value_def assessable_def is_ok_iff split: sum.splits)
  then have fresh: "0 \<le> mean_of (el_freshness st) \<and> mean_of (el_freshness st) \<le> 1"
    using assms(2) False by (intro mean_of_unit) (auto simp: loop(1))
  have len: "length trusts = length (ic_events c)" and nth: "\<forall>i < length (ic_events c). py_float (ee_trust_score (ic_events c ! i)) = Inr (trusts ! i)"
    using map_result_Inr [OF tr] by simp_all
  have "0 \<le> x \<and> x \<le> 1" if "x \<in> set trusts" for x
  proof -
    from that obtain i where i: "i < length (ic_events c)" "x = trusts ! i" by (auto simp: in_set_conv_nth len)
    with nth have "py_float (ee_trust_score (ic_events c ! i)) = Inr x" by simp
    from py_float_unit [OF this] assms(3) i(1) show ?thesis by simp
  qed
  then have trust: "0 \<le> mean_of trusts \<and> mean_of trusts \<le> 1"
    using assms(2) False len by (intro mean_of_unit) auto
  show ?thesis using q ev flags fresh trust clamp_unit py_round_unit by auto
qed

text \<open>C39. The assessment means what the events say: the positive, benign and poisoned events are exactly those that
  assert an indicator or carry an instruction, in order; supporting sources are counted once each; conflicts count the
  events that assert one; the missing sources are the expected ones no event has.\<close>

theorem case_evidence_meaning:
  assumes "assess_evidence c = Inr ev"
  shows "ce_positive_ids ev = map ee_event_id (filter supports_attack (ic_events c))
    \<and> ce_benign_ids ev = map ee_event_id (filter supports_benign (ic_events c))
    \<and> ce_poisoned_ids ev = map ee_event_id (filter instructional (ic_events c))
    \<and> (ce_poisoned ev \<longleftrightarrow> (\<exists>e \<in> set (ic_events c). instructional e))
    \<and> ce_conflicts ev = int (length (filter (asserts ''source_conflict'') (ic_events c)))
    \<and> ce_supporting_sources ev = int (card (ee_source_type ` set (filter supports_attack (ic_events c))))
    \<and> set (ce_missing ev) = set expected_sources - ee_source_type ` set (ic_events c)"
  using assess_evidence_facts [OF assms] by blast

end
