(* ===== verification/P1Examples.thy ===== *)
theory P1Examples
  imports P1EngineRuns P1EvidenceFacts
begin

text \<open>
  Concrete cases of the phase 1 firewall under the policy of \<open>config/policy.json\<close>: a corroborated compromise on an
  ordinary asset, which is contained, and the same case with an instruction in one event, which is investigated.
\<close>

definition sample_policy1 :: case_policy where
  "sample_policy1 =
     \<lparr>pc_policy_id = ''ADF-POC-IDENTITY-001'', pc_version = ''0.1.0'', pc_no_action_max = fl (24/100),
      pc_escalation_min = fl (62/100), pc_containment_min = fl (88/100), pc_minimum_quality = fl (74/100),
      pc_minimum_provenance = fl (95/100), pc_minimum_integrity = fl (90/100), pc_minimum_supporting = 2,
      pc_maximum_missing = 1, pc_maximum_conflicts = 0, pc_maximum_criticality = fl (75/100),
      pc_break_glass_human = True,
      pc_autonomous_actions = [''revoke_active_sessions'', ''force_step_up_auth'', ''increase_monitoring''],
      pc_human_only_actions =
        [''disable_account'', ''isolate_endpoint'', ''block_network_path'', ''modify_persistent_access_policy''],
      pc_poison_blocks = True, pc_token_ttl_seconds = 120\<rparr>"

definition sample_event :: "pystr \<Rightarrow> pystr \<Rightarrow> (pystr \<times> json) list \<Rightarrow> pystr \<Rightarrow> evidence_event" where
  "sample_event event_id source attributes content =
     \<lparr>ee_event_id = event_id, ee_case_id = ''c-1'', ee_source_type = source, ee_source_instance = ''i'',
      ee_observed_at = ''2026-01-01T00:00:00+00:00'', ee_collected_at = ''2026-01-01T00:01:00+00:00'',
      ee_integrity = ''verified'', ee_provenance_id = ''p'', ee_trust_score = IntNumber 1, ee_entity_refs = [],
      ee_attributes = attributes, ee_untrusted_text = content, ee_instructional = False\<rparr>"

definition sample_case1 :: "pystr \<Rightarrow> identity_case" where
  "sample_case1 content =
     \<lparr>ic_case_id = ''c-1'', ic_opened_at = ''2026-01-01T00:02:00+00:00'', ic_subject_id = ''s'',
      ic_privilege_level = ''user'', ic_break_glass = False, ic_asset_id = ''a'', ic_asset_criticality = FloatNumber (1/2),
      ic_events =
        [sample_event ''e1'' ''asset_inventory'' [(''asset_id'', JStr ''a''), (''privilege_level'', JStr ''user''),
           (''break_glass'', JBool False), (''asset_criticality'', JFloat (1/2))] [],
         sample_event ''e2'' ''identity'' [(''failed_logins'', JInt 10), (''token_reuse'', JBool True)] content,
         sample_event ''e3'' ''network'' [(''threat_ip'', JBool True)] [],
         sample_event ''e4'' ''endpoint'' [] [], sample_event ''e5'' ''threat_intel'' [] [],
         sample_event ''e6'' ''change_management'' [] [], sample_event ''e7'' ''user_context'' [] []]\<rparr>"

definition sample_predict :: predictor where
  "sample_predict features = (fl (95/100), replicate 20 0)"

definition sample_engine1 :: "execution_mode \<Rightarrow> case_engine" where
  "sample_engine1 mode = \<lparr>eg_predict = sample_predict, eg_model_version = ''1'', eg_policy = sample_policy1,
     eg_mode = mode, eg_key = ''k''\<rparr>"

definition sample_world1 :: case_world where
  "sample_world1 = \<lparr>cw_log = new_audit_log, cw_states = []\<rparr>"

definition sample_readings1 :: case_readings where
  "sample_readings1 = \<lparr>cr_recorded_at = (\<lambda>_. ''t''), cr_token_uuid = ''u'', cr_issued_at = 0, cr_validated_at = (\<lambda>_. 0),
     cr_decision_uuid = ''d'', cr_created_at = ''2026-01-01T00:02:00+00:00'', cr_latency_ms = 1\<rparr>"



lemma sample_case_simps:
  "ic_case_id (sample_case1 t) = ''c-1''" "ic_asset_id (sample_case1 t) = ''a''" "ic_subject_id (sample_case1 t) = ''s''"
  "ic_privilege_level (sample_case1 t) = ''user''" "\<not> ic_break_glass (sample_case1 t)"
  "ic_asset_criticality (sample_case1 t) = FloatNumber (1/2)"
  by (simp_all add: sample_case1_def)

subsection \<open>The events\<close>

lemma sample_event_fresh: "event_freshness (sample_event i s a t) = Inr 1"
proof -
  have "event_freshness (sample_event [] [] [] []) = Inr 1" by code_simp
  then show ?thesis by (simp add: event_freshness_def sample_event_def)
qed

lemma sample_instructional:
  "\<not> instructional (sample_event i s a [])"
  "instructional (sample_event i s a ''ignore all prior'')"
proof -
  have "\<not> list_ex (\<lambda>p. rx_search p []) instruction_patterns" by code_simp
  then show "\<not> instructional (sample_event i s a [])" by (simp add: instructional_def sample_event_def)
  have "list_ex (\<lambda>p. rx_search p ''ignore all prior'') instruction_patterns" by code_simp
  then show "instructional (sample_event i s a ''ignore all prior'')" by (simp add: instructional_def sample_event_def)
qed

lemma sample_declared: "\<forall>e \<in> set (ic_events (sample_case1 t)). declared_event e"
  by (simp add: sample_case1_def sample_event_def declared_event_def alnum_char_def modeled_attribute_sources_def
      boolean_attribute_sources_def integer_attribute_sources_def attribute_value_def max_failed_logins_def) blast

lemma sample_assessable: "\<forall>e \<in> set (ic_events (sample_case1 t)). assessable e"
  using sample_declared [of t] by (auto simp: assessable_def sample_case1_def sample_event_fresh) (auto simp: sample_event_def)

lemma sample_supports:
  "filter supports_attack (ic_events (sample_case1 t)) =
     [sample_event ''e2'' ''identity'' [(''failed_logins'', JInt 10), (''token_reuse'', JBool True)] t,
      sample_event ''e3'' ''network'' [(''threat_ip'', JBool True)] []]"
  by (simp add: sample_case1_def supports_attack_def asserts_def positive_indicators_def sample_event_def)

text \<open>Both cases are assessed, and the one without instructions is of the quality that automation needs.\<close>

lemma sample_evidence:
  obtains ev where "assess_evidence (sample_case1 t) = Inr ev" "ce_supporting_sources ev = 2" "ce_missing ev = []"
    "ce_conflicts ev = 0" "ce_provenance_ratio ev = 1" "ce_integrity_ratio ev = 1"
    "\<not> ce_poisoned ev \<Longrightarrow> ce_quality ev = 1"
proof -
  let ?es = "ic_events (sample_case1 t)"
  obtain st where st: "fold_result assess_event ?es no_evidence = Inr st"
    using assess_loop_total [OF sample_assessable] by blast
  note l = assess_loop [OF st]
  have "map freshness_value ?es = replicate 7 1"
    by (simp add: sample_case1_def freshness_value_def sample_event_fresh numeral_nat)
  with l have fr: "el_freshness st = replicate 7 1" by (simp add: loop_of_def)
  have one: "mean_of (replicate 7 1) = 1" "mean_of (flags (replicate 7 True)) = 1" "fl 1 = 1"
    "clamp 0 1 (fl (7 / rat_of_nat (length expected_sources))) = 1"
    "py_round 6 (quality_score 1 1 1 1 1 0 False 0) = 1" "py_round 6 1 = 1"
    "missing_sources [''asset_inventory'', ''identity'', ''network'', ''endpoint'', ''threat_intel'', ''change_management'', ''user_context''] = []"
    by code_simp+
  have tr: "map_result (\<lambda>e. py_float (ee_trust_score e)) ?es = Inr (replicate 7 1)"
    by (simp add: sample_case1_def sample_event_def numeral_nat)
  have pr: "map (\<lambda>e. ee_provenance_id e \<noteq> []) ?es = replicate 7 True" "map (\<lambda>e. ee_integrity e = ''verified'') ?es = replicate 7 True"
    "?es \<noteq> []" "remdups (map ee_source_type ?es) =
      [''asset_inventory'', ''identity'', ''network'', ''endpoint'', ''threat_intel'', ''change_management'', ''user_context'']"
    by (simp_all add: sample_case1_def sample_event_def numeral_nat)
  have none: "filter (asserts ''source_conflict'') ?es = []"
    by (simp add: sample_case1_def sample_event_def asserts_def)
  with l have conf: "el_conflicts st = 0" by (simp add: loop_of_def)
  obtain ev where ev: "assess_evidence (sample_case1 t) = Inr ev" and
    facts: "ce_provenance_ratio ev = 1" "ce_integrity_ratio ev = 1" "ce_missing ev = []"
      "\<not> ce_poisoned ev \<Longrightarrow> ce_quality ev = 1"
    using pr(3) by (simp add: assess_evidence_def st tr pr fr one conf Let_def)
  note F = assess_evidence_facts [OF ev]
  have "ce_supporting_sources ev = 2" unfolding F(7) sample_supports by (simp add: sample_event_def)
  moreover have "ce_conflicts ev = 0" unfolding F(6) by (simp add: none)
  ultimately show thesis using that ev facts by blast
qed

subsection \<open>The model\<close>

lemma boolean_features_total:
  "\<forall>k \<in> set ks. \<forall>v. map_of m k = Some v \<longrightarrow> (\<exists>b. v = JBool b) \<Longrightarrow> \<exists>st'. fold_result (boolean_feature i m) ks st = Inr st'"
proof (induction ks arbitrary: st)
  case (Cons k ks)
  then have "\<exists>st'. boolean_feature i m k st = Inr st'"
    by (cases "map_of m k") (auto simp: boolean_feature_def Let_def)
  with Cons show ?case by auto
qed simp

lemma event_features_total:
  assumes "declared_event e"
  shows "\<exists>st'. event_features e st = Inr st'"
proof -
  from assms obtain m where m: "select_modeled_attributes (ee_source_type e) (ee_attributes e) (attributes_label e) = Inr m"
    unfolding declared_selects [of e "attributes_label e"] by blast
  note S = selected_values [OF m]
  have "\<exists>st1. login_feature (ee_event_id e) m st = Inr st1"
  proof (cases "map_of (ee_attributes e) ''failed_logins''")
    case None
    with S(3) show ?thesis by (simp add: login_feature_def)
  next
    case (Some v)
    from S(4) [OF this] show ?thesis by (auto simp: login_feature_def)
  qed
  then obtain st1 where "login_feature (ee_event_id e) m st = Inr st1" by blast
  moreover have "\<exists>st'. fold_result (boolean_feature (ee_event_id e) m) boolean_attribute_names st1 = Inr st'"
    using S(1,2) by (intro boolean_features_total) auto
  ultimately show ?thesis by (auto simp: event_features_def m)
qed

lemma features_total: "\<forall>e \<in> set es. declared_event e \<Longrightarrow> \<exists>st'. fold_result event_features es st = Inr st'"
proof (induction es arbitrary: st)
  case (Cons e es)
  with event_features_total [of e st] show ?case by auto
qed simp

lemma sample_features: "\<exists>x. extract_features (sample_case1 t) = Inr x"
proof -
  have "validate_case_context (JStr ''a'') (JStr ''user'') (JBool False) (JFloat (1/2))
     [[(''asset_id'', JStr ''a''), (''privilege_level'', JStr ''user''), (''break_glass'', JBool False),
       (''asset_criticality'', JFloat (1/2))]] = Inr (1/2)"
    by code_simp
  moreover have "map ee_attributes (inventory_events (sample_case1 t)) =
     [[(''asset_id'', JStr ''a''), (''privilege_level'', JStr ''user''), (''break_glass'', JBool False),
       (''asset_criticality'', JFloat (1/2))]]"
    by (simp add: inventory_events_def sample_case1_def sample_event_def)
  moreover obtain vs tr where
    "fold_result event_features (ic_events (sample_case1 t)) (initial_features (sample_case1 t) (1/2), []) = Inr (vs, tr)"
    using features_total [OF sample_declared] by (metis surj_pair)
  ultimately show ?thesis by (simp add: extract_features_def sample_case_simps Let_def)
qed

lemma sample_model:
  obtains m where "assess_model sample_predict ''1'' (sample_case1 t) = Inr m" "ma_probability m = py_round 8 (fl (95/100))"
proof -
  obtain x where x: "extract_features (sample_case1 t) = Inr x" using sample_features by blast
  have "length feature_names = 20" by code_simp
  then have "\<exists>m. assess_model sample_predict ''1'' (sample_case1 t) = Inr m \<and> ma_probability m = py_round 8 (fl (95/100))"
    by (simp add: assess_model_def x sample_predict_def case_prod_beta Let_def)
  with that show thesis by blast
qed

subsection \<open>The decision\<close>

lemma sample_policy_consistent: "consistent_policy sample_policy1"
  by (simp add: consistent_policy_def sample_policy1_def rollback_plan_def)

text \<open>Without instructions the case is contained: all three actions are authorized and succeed.\<close>

lemma sample_contained:
  assumes "assess_evidence (sample_case1 []) = Inr ev" and "assess_model sample_predict ''1'' (sample_case1 []) = Inr m"
  shows "pp_disposition (propose sample_policy1 (sample_case1 []) m ev) = ContainReversible"
    and "pp_executable (propose sample_policy1 (sample_case1 []) m ev) =
      [''revoke_active_sessions'', ''force_step_up_auth'', ''increase_monitoring'']"
    and "cv_passed (verify_case sample_policy1 (sample_case1 []) m ev (propose sample_policy1 (sample_case1 []) m ev))"
proof -
  have clean: "\<not> ce_poisoned ev"
    unfolding assess_evidence_facts(5) [OF assms(1)] by (simp add: sample_case1_def sample_instructional)
  obtain ev' where "assess_evidence (sample_case1 []) = Inr ev'" "ce_supporting_sources ev' = 2" "ce_missing ev' = []"
    "ce_conflicts ev' = 0" "ce_provenance_ratio ev' = 1" "ce_integrity_ratio ev' = 1" "\<not> ce_poisoned ev' \<Longrightarrow> ce_quality ev' = 1"
    using sample_evidence [of "[]"] by metis
  with assms(1) clean have ev: "ce_supporting_sources ev = 2" "ce_missing ev = []" "ce_conflicts ev = 0"
    "ce_provenance_ratio ev = 1" "ce_integrity_ratio ev = 1" "ce_quality ev = 1" by simp_all
  obtain m' where "assess_model sample_predict ''1'' (sample_case1 []) = Inr m'" "ma_probability m' = py_round 8 (fl (95/100))"
    using sample_model [of "[]"] by metis
  with assms(2) have m: "ma_probability m = py_round 8 (fl (95/100))" by simp
  have num: "fl (74/100) \<le> 1" "fl (95/100) \<le> 1" "fl (90/100) \<le> 1" "1 / 2 \<le> fl (75/100)"
    "fl (88/100) \<le> py_round 8 (fl (95/100))" "\<not> py_round 8 (fl (95/100)) \<le> fl (24/100)"
    "0 \<le> py_round 8 (fl (95/100))" "py_round 8 (fl (95/100)) \<le> 1"
    by code_simp+
  have "decision_grade sample_policy1 ev" "automation_grade sample_policy1 ev"
    using num(1-3) by (simp_all add: automation_grade_def decision_grade_def ev clean sample_policy1_def)
  then show "pp_disposition (propose sample_policy1 (sample_case1 []) m ev) = ContainReversible"
    "pp_executable (propose sample_policy1 (sample_case1 []) m ev) =
      [''revoke_active_sessions'', ''force_step_up_auth'', ''increase_monitoring'']"
    using num(4-6) clean
    by (simp_all add: propose_def Let_def sample_case_simps m sample_policy1_def)
  show "cv_passed (verify_case sample_policy1 (sample_case1 []) m ev (propose sample_policy1 (sample_case1 []) m ev))"
    by (rule proposal_verifies_facts [OF assms sample_policy_consistent]) (use num(7,8) in \<open>simp_all add: m\<close>)
qed

lemma sample_engine1_simps:
  "eg_predict (sample_engine1 mode) = sample_predict" "eg_model_version (sample_engine1 mode) = ''1''"
  "eg_policy (sample_engine1 mode) = sample_policy1" "eg_mode (sample_engine1 mode) = mode" "eg_key (sample_engine1 mode) = ''k''"
  "cr_issued_at sample_readings1 = 0" "cr_validated_at sample_readings1 i = 0" "pc_token_ttl_seconds sample_policy1 = 120"
  "cw_states sample_world1 = []" "cw_log sample_world1 = new_audit_log" "pc_poison_blocks sample_policy1"
  by (simp_all add: sample_engine1_def sample_readings1_def sample_policy1_def sample_world1_def)

lemma sample_expiry: "representable (whole_second 0 + 120 * micros)" "whole_second 0 + 120 * micros = 120000000"
  by code_simp+

lemma case_processed:
  obtains d w' where "process_case (sample_engine1 mode) sample_readings1 (sample_case1 t) sample_world1 = (Inr d, w')"
proof -
  obtain ev where "assess_evidence (sample_case1 t) = Inr ev" using sample_evidence [of t] by metis
  moreover obtain m where "assess_model sample_predict ''1'' (sample_case1 t) = Inr m" using sample_model [of t] by metis
  ultimately show thesis
    using process_case_returns [of "sample_case1 t" ev "sample_engine1 mode" m sample_readings1 sample_world1] sample_expiry(1) that
    by (auto simp: sample_engine1_simps)
qed

text \<open>The first action reaches the provider, which then knows the case.\<close>

lemma reached_result:
  assumes "validate_token key clock t (ic_case_id c) ''revoke_active_sessions'' = Inr ()"
  obtains r states' where "execute_action key clock c ''revoke_active_sessions'' (Some t) [] = (Inr r, states')"
    "reached_provider r" "map_of states' (ic_case_id c) \<noteq> None"
proof -
  have "\<exists>r states'. execute_action key clock c ''revoke_active_sessions'' (Some t) [] = (Inr r, states')
      \<and> reached_provider r \<and> map_of states' (ic_case_id c) \<noteq> None"
    using assms by (simp add: execute_action_def apply_action_def initialize_case_def apply_change_def reached_provider_def)
  with that show thesis by blast
qed

lemma dict_set_not_empty [simp]: "dict_set k v d \<noteq> []"
  by (induction d) (auto split: if_splits)

lemma execute_action_keeps:
  "execute_action key clock c action token states = (outcome, states') \<Longrightarrow> states \<noteq> [] \<Longrightarrow> states' \<noteq> []"
  by (auto simp: execute_action_def apply_action_def initialize_case_def split: option.splits sum.splits if_splits prod.splits)

lemma run_actions_keeps:
  "run_actions en rd c token i actions w = (outcome, w') \<Longrightarrow> cw_states w \<noteq> [] \<Longrightarrow> cw_states w' \<noteq> []"
proof (induction actions arbitrary: i w outcome w')
  case (Cons action actions)
  obtain o1 states where x: "execute_action (eg_key en) (cr_validated_at rd i) c action token (cw_states w) = (o1, states)"
    by (cases "execute_action (eg_key en) (cr_validated_at rd i) c action token (cw_states w)")
  note s = execute_action_keeps [OF x Cons.prems(2)]
  show ?case
  proof (cases "\<exists>e. o1 = Inl (OtherError e)")
    case True
    with Cons.prems(1) x s show ?thesis by auto
  next
    case False
    define y r where "y = fst (recorded_outcome action o1)" and "r = snd (recorded_outcome action o1)"
    obtain rest w2 where run: "run_actions en rd c token (i + 1) actions
        (append_row rd y (for_case c (result_to_dict r)) (w\<lparr>cw_states := states\<rparr>)) = (rest, w2)"
      by (cases "run_actions en rd c token (i + 1) actions
        (append_row rd y (for_case c (result_to_dict r)) (w\<lparr>cw_states := states\<rparr>))")
    have "w' = w2"
      using run_actions_step [OF x] False Cons.prems(1) run by (simp add: y_def r_def case_prod_beta Let_def)
    with Cons.IH [OF run] s show ?thesis by simp
  qed
qed simp

lemma case_executed:
  assumes "process_case (sample_engine1 SyntheticSimulation) sample_readings1 (sample_case1 []) sample_world1 = (Inr d, w')"
  shows "\<exists>r \<in> set (cd_results d). reached_provider r" and "cw_states w' \<noteq> cw_states sample_world1"
proof -
  let ?en = "sample_engine1 SyntheticSimulation" and ?c = "sample_case1 []"
  obtain ev m v w5 where ev: "assess_evidence ?c = Inr ev" and m: "assess_model sample_predict ''1'' ?c = Inr m"
    and v: "v = verify_case sample_policy1 ?c m ev (propose sample_policy1 ?c m ev)"
    and con: "conclude ?en sample_readings1 ?c ev m v (pp_disposition (propose sample_policy1 ?c m ev))
      (downgrade (propose sample_policy1 ?c m ev) v) w5 = (Inr d, w')" and w5: "cw_states w5 = []"
    using process_case_conclude [OF assms] unfolding sample_engine1_simps by metis
  define p where "p = propose sample_policy1 ?c m ev"
  note C = sample_contained [OF ev m]
  have v': "cv_passed v" and p: "downgrade p v = p"
    and acts: "pp_executable p = [''revoke_active_sessions'', ''force_step_up_auth'', ''increase_monitoring'']"
    using C by (simp_all add: v p_def downgrade_facts(2))
  define unsigned where "unsigned = \<lparr>ct_token_id = ''auth-'' @ cr_token_uuid sample_readings1, ct_case_id = ''c-1'',
    ct_decision_hash = decision_digest ?c p, ct_permitted = pp_executable p, ct_issued_at = isoformat (whole_second 0),
    ct_expires_at = isoformat (whole_second 0 + 120 * micros), ct_signature = []\<rparr>"
  define tok where "tok = unsigned\<lparr>ct_signature := sign_token ''k'' unsigned\<rparr>"
  have auth: "authorize_case sample_policy1 ''k'' 0 (cr_token_uuid sample_readings1) ?c p v = Inr (Some tok)"
    using v' sample_expiry(1) acts
    by (simp add: authorize_case_Some tok_def unsigned_def sample_engine1_simps sample_case_simps Let_def)
  have sim: "simulate ?en sample_readings1 ?c ev m v (pp_disposition p) p (Some tok) [] w5 = (Inr d, w')"
    using con auth by (simp add: conclude_def sample_engine1_simps p p_def [symmetric])
  have "tok = case_seal.seal ''k'' unsigned" by (simp add: tok_def case_seal.seal_def sign_token_def)
  then have "compare_digest (sign_token ''k'' tok) (ct_signature tok) = Inr True"
    using case_seal.authentic_seal [of "''k''" unsigned] by (simp add: case_seal.authentic_def sign_token_def)
  moreover have "parse_time (ct_expires_at tok) = Inr (Aware 120000000)"
    using parse_time_isoformat [OF sample_expiry(1)] by (simp add: tok_def unsigned_def sample_expiry(2))
  ultimately have "validate_token ''k'' 0 tok (ic_case_id ?c) ''revoke_active_sessions'' = Inr ()"
    by (simp add: validate_token_def sample_case_simps) (simp add: tok_def unsigned_def acts)
  from reached_result [OF this] obtain r states' where
    x: "execute_action ''k'' 0 ?c ''revoke_active_sessions'' (Some tok) [] = (Inr r, states')"
    and r: "reached_provider r" "map_of states' ''c-1'' \<noteq> None" by (metis sample_case_simps(1))
  define w6 where "w6 = append_row sample_readings1 ''AUTHORIZATION_EVALUATED''
    (for_case ?c (authorization_payload SyntheticSimulation True (Some tok) [])) w5"
  define w7 where "w7 = append_row sample_readings1 ''ACTION_EXECUTED'' (for_case ?c (result_to_dict r)) (w6\<lparr>cw_states := states'\<rparr>)"
  obtain rest w8 where run: "run_actions ?en sample_readings1 ?c (Some tok) 1 [''force_step_up_auth'', ''increase_monitoring''] w7
      = (rest, w8)" by (cases "run_actions ?en sample_readings1 ?c (Some tok) 1 [''force_step_up_auth'', ''increase_monitoring''] w7")
  have first: "run_actions ?en sample_readings1 ?c (Some tok) 0 (pp_executable p) w6 = (and_then rest (\<lambda>rs. Inr (r # rs)), w8)"
    using run x by (simp add: acts sample_engine1_simps w6_def w5 w7_def Let_def del: run_actions.simps(2))
      (simp add: run_actions.simps sample_engine1_simps w5)
  have "states' \<noteq> []" using r(2) by auto
  then have w8: "cw_states w8 \<noteq> []" using run_actions_keeps [OF run] by (simp add: w7_def)
  from sim first obtain rs where rest: "rest = Inr rs" and fin: "finalize ?en sample_readings1 ?c ev m v (pp_disposition p) p []
      True (Some tok) [] (r # rs) (length (pp_executable p)) w8 = (Inr d, w')"
    by (cases rest) (auto simp: simulate_def Let_def sample_engine1_simps w6_def)
  show "\<exists>r \<in> set (cd_results d). reached_provider r" using finalize_facts(2) [OF fin refl] r(1) by simp
  show "cw_states w' \<noteq> cw_states sample_world1" using finalize_facts(1) [OF fin] w8 by (simp add: sample_engine1_simps)
qed

subsection \<open>The properties at the samples\<close>

lemma features_typed_witness:
  "\<exists>vs tr. extract_features (sample_case1 []) = Inr (vs, tr) \<and> map fst vs = feature_names
     \<and> (\<forall>(k, x) \<in> set vs. 0 \<le> x \<and> x \<le> 1) \<and> (\<forall>e \<in> set (ic_events (sample_case1 [])). declared_event e)"
proof -
  obtain vs tr where x: "extract_features (sample_case1 []) = Inr (vs, tr)" using sample_features by (metis surj_pair)
  show ?thesis using features_typed [OF x] x by fast
qed

lemma features_meaning_witness:
  "\<exists>vs tr. extract_features (sample_case1 []) = Inr (vs, tr) \<and> dict_default vs ''token_reuse'' 0 = 1
     \<and> dict_default vs ''mfa_fatigue'' 0 = 0 \<and> dict_default tr ''token_reuse'' [] = [''e2'']"
proof -
  obtain vs tr where x: "extract_features (sample_case1 []) = Inr (vs, tr)" using sample_features by (metis surj_pair)
  have "(''token_reuse'', [''identity'']) \<in> set boolean_attribute_sources"
    "(''mfa_fatigue'', [''identity'']) \<in> set boolean_attribute_sources" by (simp_all add: boolean_attribute_sources_def)
  with conjunct1 [OF features_meaning [OF x]]
  have "dict_default vs ''token_reuse'' 0 = (if \<exists>e \<in> set (ic_events (sample_case1 [])). asserts ''token_reuse'' e then 1 else 0)"
    "dict_default vs ''mfa_fatigue'' 0 = (if \<exists>e \<in> set (ic_events (sample_case1 [])). asserts ''mfa_fatigue'' e then 1 else 0)"
    "dict_default tr ''token_reuse'' [] = map ee_event_id (filter (bears ''token_reuse'') (ic_events (sample_case1 [])))"
    by fastforce+
  with x show ?thesis by (simp add: sample_case1_def sample_event_def asserts_def bears_def)
qed

lemma case_evidence_bounds_witness:
  "\<exists>ev. assess_evidence (sample_case1 ''ignore all prior'') = Inr ev \<and> 0 \<le> ce_quality ev \<and> ce_quality ev \<le> 1"
proof -
  obtain ev where ev: "assess_evidence (sample_case1 ''ignore all prior'') = Inr ev"
    using sample_evidence [of "''ignore all prior''"] by metis
  have "\<forall>e \<in> set (ic_events (sample_case1 ''ignore all prior'')).
      0 \<le> number_value (ee_trust_score e) \<and> number_value (ee_trust_score e) \<le> 1"
    "length (ic_events (sample_case1 ''ignore all prior'')) < 2 ^ 53"
    by (simp_all add: sample_case1_def sample_event_def)
  from case_evidence_bounds [OF ev this(2,1)] ev show ?thesis by simp
qed

lemma case_evidence_meaning_witness:
  "\<exists>ev. assess_evidence (sample_case1 ''ignore all prior'') = Inr ev \<and> ce_poisoned ev \<and> ce_positive_ids ev = [''e2'', ''e3'']"
proof -
  obtain ev where ev: "assess_evidence (sample_case1 ''ignore all prior'') = Inr ev"
    using sample_evidence [of "''ignore all prior''"] by metis
  have "\<exists>e \<in> set (ic_events (sample_case1 ''ignore all prior'')). instructional e"
    by (simp add: sample_case1_def sample_instructional)
  with case_evidence_meaning [OF ev] ev show ?thesis by (simp add: sample_supports) (simp add: sample_event_def)
qed

lemma proposal_verifies_witness:
  "\<exists>ev m. assess_evidence (sample_case1 []) = Inr ev \<and> assess_model sample_predict ''1'' (sample_case1 []) = Inr m
     \<and> cv_passed (verify_case sample_policy1 (sample_case1 []) m ev (propose sample_policy1 (sample_case1 []) m ev))"
proof -
  obtain ev where ev: "assess_evidence (sample_case1 []) = Inr ev" using sample_evidence [of "[]"] by metis
  obtain m where m: "assess_model sample_predict ''1'' (sample_case1 []) = Inr m" "ma_probability m = py_round 8 (fl (95/100))"
    using sample_model [of "[]"] by metis
  have "0 \<le> py_round 8 (fl (95/100))" "py_round 8 (fl (95/100)) \<le> 1" by code_simp+
  with proposal_verifies [OF ev m(1) sample_policy_consistent] ev m show ?thesis by simp
qed

lemma read_only_has_no_effect_witness:
  "\<exists>d w'. process_case (sample_engine1 ShadowReadOnly) sample_readings1 (sample_case1 []) sample_world1 = (Inr d, w')
     \<and> cw_states w' = [] \<and> cd_token d = None \<and> cd_results d = []"
proof -
  obtain d w' where x: "process_case (sample_engine1 ShadowReadOnly) sample_readings1 (sample_case1 []) sample_world1 = (Inr d, w')"
    by (rule case_processed)
  have "is_read_only (eg_mode (sample_engine1 ShadowReadOnly))" by (simp add: sample_engine1_simps)
  from read_only_has_no_effect [OF this x] x show ?thesis by (simp add: sample_engine1_simps)
qed

lemma case_effect_justified_witness:
  "\<exists>d w' m ev. process_case (sample_engine1 SyntheticSimulation) sample_readings1 (sample_case1 []) sample_world1 = (Inr d, w')
     \<and> cw_states w' \<noteq> [] \<and> action_justified sample_policy1 (sample_case1 []) m ev ''force_step_up_auth''"
proof -
  obtain d w' where x: "process_case (sample_engine1 SyntheticSimulation) sample_readings1 (sample_case1 []) sample_world1 = (Inr d, w')"
    by (rule case_processed)
  have "''force_step_up_auth'' \<in> set (pc_autonomous_actions sample_policy1)" by (simp add: sample_policy1_def)
  with case_effect_justified [OF x case_executed(2) [OF x]] x case_executed(2) [OF x] show ?thesis
    by (fastforce simp: sample_engine1_simps)
qed

lemma executed_action_authorized_witness:
  "\<exists>d w' t. process_case (sample_engine1 SyntheticSimulation) sample_readings1 (sample_case1 []) sample_world1 = (Inr d, w')
     \<and> cd_token d = Some t \<and> ct_case_id t = ''c-1'' \<and> (\<exists>r \<in> set (cd_results d). ar_action r \<in> set (ct_permitted t))"
proof -
  obtain d w' where x: "process_case (sample_engine1 SyntheticSimulation) sample_readings1 (sample_case1 []) sample_world1 = (Inr d, w')"
    by (rule case_processed)
  obtain r where r: "r \<in> set (cd_results d)" "reached_provider r" using case_executed(1) [OF x] by blast
  from executed_action_authorized [OF x r] x r(1) show ?thesis by (auto simp: sample_case_simps)
qed

lemma process_case_total_witness:
  "\<exists>d w'. process_case (sample_engine1 HistoricalReplay) sample_readings1 (sample_case1 []) sample_world1 = (Inr d, w')"
proof -
  obtain ev where ev: "assess_evidence (sample_case1 []) = Inr ev" using sample_evidence [of "[]"] by metis
  obtain m where m: "assess_model sample_predict ''1'' (sample_case1 []) = Inr m" using sample_model [of "[]"] by metis
  show ?thesis
    by (rule process_case_total [OF ev]) (simp_all add: sample_engine1_simps m sample_expiry(1))
qed

lemma poisoned_case_abstains_witness:
  "\<exists>d w'. process_case (sample_engine1 SyntheticSimulation) sample_readings1 (sample_case1 ''ignore all prior'') sample_world1 = (Inr d, w')
     \<and> cw_states w' = [] \<and> cd_original d = Investigate"
proof -
  obtain d w' where x: "process_case (sample_engine1 SyntheticSimulation) sample_readings1 (sample_case1 ''ignore all prior'') sample_world1
      = (Inr d, w')" by (rule case_processed)
  let ?e = "sample_event ''e2'' ''identity'' [(''failed_logins'', JInt 10), (''token_reuse'', JBool True)] ''ignore all prior''"
  have "?e \<in> set (ic_events (sample_case1 ''ignore all prior''))" by (simp add: sample_case1_def)
  from poisoned_case_abstains [OF x this sample_instructional(2)] x show ?thesis by (simp add: sample_engine1_simps)
qed


lemma case_audit_complete_witness:
  "\<exists>d w'. process_case (sample_engine1 ShadowReadOnly) sample_readings1 (sample_case1 []) sample_world1 = (Inr d, w')
     \<and> good_log (cw_log w')"
proof -
  obtain d w' where x: "process_case (sample_engine1 ShadowReadOnly) sample_readings1 (sample_case1 []) sample_world1 = (Inr d, w')"
    by (rule case_processed)
  from case_audit_complete [OF x] good_new x show ?thesis by (simp add: sample_engine1_simps)
qed

end
