(* ===== verification/RefDecision.thy ===== *)
theory RefDecision
  imports P1Engine
begin

text \<open>
  The separate recomputation of read-only decisions (\<open>replay/reference_decision.py\<close>), from decoded JSON documents to
  the assurance records: the closed validation of cases, models and policies, the second implementation of evidence,
  features, model, policy and verifier, and the comparison of the stage digests. A validated document is kept as the
  record that holds its members; a result dictionary is the record whose JSON form has the same members. Decoding
  the bytes is not modelled, nor are the resource limits on them; \<open>math.exp\<close> is a parameter.
\<close>

subsection \<open>Values\<close>

definition ref_number :: "json \<Rightarrow> pystr \<Rightarrow> (pystr, rat) result" where
  "ref_number value code =
     (case json_number value of
        None \<Rightarrow> Inl code
      | Some n \<Rightarrow> (case py_float n of Inr x \<Rightarrow> Inr x | Inl _ \<Rightarrow> Inl code))"

definition ref_unit_number :: "json \<Rightarrow> pystr \<Rightarrow> (pystr, rat) result" where
  "ref_unit_number value code = and_then (ref_number value code) (\<lambda>x. if 0 \<le> x \<and> x \<le> 1 then Inr x else Inl code)"

definition ref_exact_integer :: "json \<Rightarrow> int \<Rightarrow> int \<Rightarrow> pystr \<Rightarrow> (pystr, int) result" where
  "ref_exact_integer value lower upper code =
     and_then (ref_number value code) (\<lambda>x.
     if of_int \<lfloor>x\<rfloor> = x \<and> of_int lower \<le> x \<and> x \<le> of_int upper then Inr \<lfloor>x\<rfloor> else Inl code)"

definition ref_identifier :: "json \<Rightarrow> pystr \<Rightarrow> bool \<Rightarrow> (pystr, pystr) result" where
  "ref_identifier value code allow_empty =
     (case value of
        JStr s \<Rightarrow> if allow_empty \<and> s = [] \<or> identifier_pattern s then Inr s else Inl code
      | _ \<Rightarrow> Inl code)"

definition ref_text :: "json \<Rightarrow> pystr \<Rightarrow> (pystr, pystr) result" where
  "ref_text value code = (case value of JStr s \<Rightarrow> Inr s | _ \<Rightarrow> Inl code)"

definition ref_bool :: "json \<Rightarrow> pystr \<Rightarrow> (pystr, bool) result" where
  "ref_bool value code = (case value of JBool b \<Rightarrow> Inr b | _ \<Rightarrow> Inl code)"

definition ref_list :: "json \<Rightarrow> pystr \<Rightarrow> (pystr, json list) result" where
  "ref_list value code = (case value of JList xs \<Rightarrow> Inr xs | _ \<Rightarrow> Inl code)"

definition ref_dict :: "json \<Rightarrow> pystr \<Rightarrow> (pystr, (pystr \<times> json) list) result" where
  "ref_dict value code = (case value of JObj d \<Rightarrow> Inr d | _ \<Rightarrow> Inl code)"

text \<open>A dictionary with exactly the given members.\<close>

definition ref_closed :: "json \<Rightarrow> pystr list \<Rightarrow> pystr \<Rightarrow> (pystr, (pystr \<times> json) list) result" where
  "ref_closed value members code =
     and_then (ref_dict value code) (\<lambda>d. if closed_keys members d then Inr d else Inl code)"

text \<open>\<open>value.replace("Z", "+00:00")\<close>, then an aware \<open>fromisoformat\<close>.\<close>

definition replace_z :: "pystr \<Rightarrow> pystr" where
  "replace_z s = concat (map (\<lambda>c. if c = CHR ''Z'' then ''+00:00'' else [c]) s)"

definition ref_timestamp :: "json \<Rightarrow> pystr \<Rightarrow> (pystr, instant) result" where
  "ref_timestamp value code =
     (case value of
        JStr s \<Rightarrow> (case fromisoformat (replace_z s) of Some t \<Rightarrow> Inr t | None \<Rightarrow> Inl code)
      | _ \<Rightarrow> Inl code)"

definition ref_string_list :: "json \<Rightarrow> pystr \<Rightarrow> (pystr, pystr list) result" where
  "ref_string_list value code =
     and_then (ref_list value code) (\<lambda>xs.
     and_then (map_result (\<lambda>x. ref_identifier x code False) xs) (\<lambda>checked.
     if distinct checked then Inr checked else Inl code))"

subsection \<open>Events and cases\<close>

definition ref_event_fields :: "pystr list" where
  "ref_event_fields =
     [''event_id'', ''case_id'', ''source_type'', ''source_instance'', ''observed_at'', ''collected_at'', ''integrity'',
      ''provenance_id'', ''trust_score'', ''entity_refs'', ''attributes'', ''untrusted_text'',
      ''contains_instructional_content'']"

definition ref_case_fields :: "pystr list" where
  "ref_case_fields =
     [''case_id'', ''opened_at'', ''subject_id'', ''privilege_level'', ''break_glass'', ''asset_id'',
      ''asset_criticality'', ''events'']"

definition ref_boolean_sources :: "(pystr \<times> pystr list) list" where
  "ref_boolean_sources =
     [(''new_device'', [''identity'']), (''impossible_travel'', [''identity'']),
      (''threat_ip'', [''network'', ''threat_intel'']), (''mfa_fatigue'', [''identity'']),
      (''token_reuse'', [''identity'']), (''credential_dumping'', [''endpoint'']),
      (''lateral_movement'', [''network'']), (''unusual_admin_action'', [''endpoint'']),
      (''edr_malware'', [''endpoint'']), (''after_hours'', [''identity'']), (''known_vpn'', [''network'']),
      (''approved_travel'', [''user_context'']), (''maintenance_window'', [''change_management'']),
      (''service_account_baseline'', [''change_management'']), (''strong_mfa'', [''identity'']),
      (''device_noncompliant'', [''endpoint'']), (''oauth_grant'', [''identity''])]"

definition ref_feature_names :: "pystr list" where
  "ref_feature_names =
     [''failed_login_intensity'', ''new_device'', ''impossible_travel'', ''threat_ip'', ''mfa_fatigue'',
      ''token_reuse'', ''credential_dumping'', ''lateral_movement'', ''unusual_admin_action'', ''edr_malware'',
      ''after_hours'', ''privilege_global_admin'', ''asset_criticality'', ''known_vpn'', ''approved_travel'',
      ''maintenance_window'', ''service_account_baseline'', ''strong_mfa'', ''device_noncompliant'', ''oauth_grant'']"

text \<open>\<open>value not in frozenset(...)\<close>: a list or a dictionary is not hashable.\<close>

definition ref_integrity :: "json \<Rightarrow> (pystr, pystr) result" where
  "ref_integrity value =
     (case value of
        JStr s \<Rightarrow> if s \<in> set [''verified'', ''unverified'', ''failed''] then Inr s else Inl ''REFERENCE_DECISION_EVENT''
      | JList _ \<Rightarrow> Inl ''TypeError'' | JObj _ \<Rightarrow> Inl ''TypeError''
      | _ \<Rightarrow> Inl ''REFERENCE_DECISION_EVENT'')"

definition ref_boolean_attribute :: "pystr \<Rightarrow> (pystr \<times> json) list \<Rightarrow> pystr \<times> pystr list \<Rightarrow> (pystr, unit) result" where
  "ref_boolean_attribute source_type attributes entry =
     (case map_of attributes (fst entry) of
        None \<Rightarrow> Inr ()
      | Some value \<Rightarrow>
          and_then (require (source_type \<in> set (snd entry)) ''REFERENCE_DECISION_SOURCE_CONTEXT'') (\<lambda>_.
          and_then (ref_bool value ''REFERENCE_DECISION_ATTRIBUTE_TYPE'') (\<lambda>_. Inr ())))"

definition ref_login_attribute :: "pystr \<Rightarrow> (pystr \<times> json) list \<Rightarrow> (pystr, unit) result" where
  "ref_login_attribute source_type attributes =
     (case map_of attributes ''failed_logins'' of
        None \<Rightarrow> Inr ()
      | Some value \<Rightarrow>
          and_then (require (source_type \<in> set [''identity'']) ''REFERENCE_DECISION_SOURCE_CONTEXT'') (\<lambda>_.
          and_then (ref_exact_integer value 0 1000000 ''REFERENCE_DECISION_ATTRIBUTE_TYPE'') (\<lambda>_. Inr ())))"

definition ref_validate_event :: "pystr \<Rightarrow> json \<Rightarrow> (pystr, evidence_event) result" where
  "ref_validate_event case_id value =
     and_then (ref_closed value ref_event_fields ''REFERENCE_DECISION_EVENT_SHAPE'') (\<lambda>d.
     and_then (ref_identifier (obj_get d ''event_id'') ''REFERENCE_DECISION_EVENT'' False) (\<lambda>event_id.
     and_then (ref_identifier (obj_get d ''case_id'') ''REFERENCE_DECISION_EVENT'' False) (\<lambda>bound_case.
     and_then (require (bound_case = case_id) ''REFERENCE_DECISION_EVENT_BINDING'') (\<lambda>_.
     and_then (ref_identifier (obj_get d ''source_type'') ''REFERENCE_DECISION_EVENT'' False) (\<lambda>source_type.
     and_then (ref_identifier (obj_get d ''source_instance'') ''REFERENCE_DECISION_EVENT'' False) (\<lambda>source_instance.
     and_then (ref_timestamp (obj_get d ''observed_at'') ''REFERENCE_DECISION_EVENT'') (\<lambda>observed.
     and_then (ref_timestamp (obj_get d ''collected_at'') ''REFERENCE_DECISION_EVENT'') (\<lambda>collected.
     and_then (require (observed \<le> collected) ''REFERENCE_DECISION_EVENT_TIME'') (\<lambda>_.
     and_then (ref_integrity (obj_get d ''integrity'')) (\<lambda>integrity.
     and_then (ref_identifier (obj_get d ''provenance_id'') ''REFERENCE_DECISION_EVENT'' True) (\<lambda>provenance_id.
     and_then (ref_unit_number (obj_get d ''trust_score'') ''REFERENCE_DECISION_EVENT'') (\<lambda>_.
     and_then (ref_string_list (obj_get d ''entity_refs'') ''REFERENCE_DECISION_EVENT'') (\<lambda>entity_refs.
     and_then (ref_dict (obj_get d ''attributes'') ''REFERENCE_DECISION_EVENT_SHAPE'') (\<lambda>attributes.
     and_then (require (length (canonical_json (JObj attributes)) \<le> 262144) ''REFERENCE_DECISION_RESOURCE_LIMIT'') (\<lambda>_.
     and_then (ref_text (obj_get d ''untrusted_text'') ''REFERENCE_DECISION_EVENT'') (\<lambda>untrusted_text.
     and_then (require (length untrusted_text \<le> 16384) ''REFERENCE_DECISION_RESOURCE_LIMIT'') (\<lambda>_.
     and_then (ref_bool (obj_get d ''contains_instructional_content'') ''REFERENCE_DECISION_EVENT'') (\<lambda>flag.
     and_then (for_each (ref_boolean_attribute source_type attributes) ref_boolean_sources) (\<lambda>_.
     and_then (ref_login_attribute source_type attributes) (\<lambda>_.
     and_then (ref_boolean_attribute source_type attributes (''source_conflict'', [''network''])) (\<lambda>_.
     case (obj_get d ''observed_at'', obj_get d ''collected_at'', json_number (obj_get d ''trust_score'')) of
       (JStr observed_at, JStr collected_at, Some trust) \<Rightarrow>
         Inr \<lparr>ee_event_id = event_id, ee_case_id = bound_case, ee_source_type = source_type,
              ee_source_instance = source_instance, ee_observed_at = observed_at, ee_collected_at = collected_at,
              ee_integrity = integrity, ee_provenance_id = provenance_id, ee_trust_score = trust,
              ee_entity_refs = entity_refs, ee_attributes = attributes, ee_untrusted_text = untrusted_text,
              ee_instructional = flag\<rparr>
     | _ \<Rightarrow> Inl ''REFERENCE_DECISION_EVENT'')))))))))))))))))))))"

definition ref_inventory :: "pystr \<Rightarrow> pystr \<Rightarrow> bool \<Rightarrow> rat \<Rightarrow> evidence_event \<Rightarrow> (pystr, unit) result" where
  "ref_inventory asset privilege glass criticality e =
     (let attributes = ee_attributes e in
      and_then (require (list_all (\<lambda>k. k \<in> fst ` set attributes)
          [''asset_id'', ''privilege_level'', ''break_glass'', ''asset_criticality'']) ''REFERENCE_DECISION_INVENTORY_SHAPE'') (\<lambda>_.
      and_then (ref_identifier (obj_get attributes ''asset_id'') ''REFERENCE_DECISION_INVENTORY_TYPE'' False) (\<lambda>a.
      and_then (ref_identifier (obj_get attributes ''privilege_level'') ''REFERENCE_DECISION_INVENTORY_TYPE'' False) (\<lambda>p.
      and_then (ref_unit_number (obj_get attributes ''asset_criticality'') ''REFERENCE_DECISION_INVENTORY_TYPE'') (\<lambda>x.
      and_then (ref_bool (obj_get attributes ''break_glass'') ''REFERENCE_DECISION_INVENTORY_TYPE'') (\<lambda>g.
      require (a = asset \<and> p = privilege \<and> g = glass \<and> x = criticality) ''REFERENCE_DECISION_INVENTORY_BINDING''))))))"

definition ref_validate_case :: "json \<Rightarrow> (pystr, identity_case) result" where
  "ref_validate_case value =
     and_then (ref_closed value ref_case_fields ''REFERENCE_DECISION_CASE_SHAPE'') (\<lambda>d.
     and_then (ref_identifier (obj_get d ''case_id'') ''REFERENCE_DECISION_CASE'' False) (\<lambda>case_id.
     and_then (ref_timestamp (obj_get d ''opened_at'') ''REFERENCE_DECISION_CASE'') (\<lambda>_.
     and_then (ref_text (obj_get d ''opened_at'') ''REFERENCE_DECISION_CASE'') (\<lambda>opened_at.
     and_then (ref_identifier (obj_get d ''subject_id'') ''REFERENCE_DECISION_CASE'' False) (\<lambda>subject_id.
     and_then (ref_identifier (obj_get d ''privilege_level'') ''REFERENCE_DECISION_CASE'' False) (\<lambda>privilege.
     and_then (ref_bool (obj_get d ''break_glass'') ''REFERENCE_DECISION_CASE'') (\<lambda>glass.
     and_then (ref_identifier (obj_get d ''asset_id'') ''REFERENCE_DECISION_CASE'' False) (\<lambda>asset.
     and_then (ref_unit_number (obj_get d ''asset_criticality'') ''REFERENCE_DECISION_CASE'') (\<lambda>criticality.
     and_then (ref_list (obj_get d ''events'') ''REFERENCE_DECISION_CASE_SHAPE'') (\<lambda>raw.
     and_then (require (raw \<noteq> []) ''REFERENCE_DECISION_CASE_SHAPE'') (\<lambda>_.
     and_then (require (length raw \<le> 10000) ''REFERENCE_DECISION_RESOURCE_LIMIT'') (\<lambda>_.
     and_then (map_result (ref_validate_event case_id) raw) (\<lambda>events.
     and_then (require (distinct (map ee_event_id events)) ''REFERENCE_DECISION_EVENT_DUPLICATE'') (\<lambda>_.
     let inventory = filter (\<lambda>e. ee_source_type e = ''asset_inventory'') events in
     and_then (require (inventory \<noteq> []) ''REFERENCE_DECISION_INVENTORY_MISSING'') (\<lambda>_.
     and_then (for_each (ref_inventory asset privilege glass criticality) inventory) (\<lambda>_.
     Inr \<lparr>ic_case_id = case_id, ic_opened_at = opened_at, ic_subject_id = subject_id, ic_privilege_level = privilege,
          ic_break_glass = glass, ic_asset_id = asset, ic_asset_criticality = FloatNumber criticality,
          ic_events = events\<rparr>))))))))))))))))"


subsection \<open>Models and policies\<close>

definition ref_model_fields :: "pystr list" where
  "ref_model_fields =
     [''model_type'', ''version'', ''feature_names'', ''means'', ''scales'', ''weights'', ''intercept'',
      ''training_metadata'', ''limitations'']"

definition ref_numbers :: "json \<Rightarrow> (pystr, rat list) result" where
  "ref_numbers value =
     and_then (ref_list value ''REFERENCE_DECISION_MODEL_SHAPE'') (\<lambda>xs.
     and_then (require (length xs = length ref_feature_names) ''REFERENCE_DECISION_MODEL_SHAPE'') (\<lambda>_.
     map_result (\<lambda>x. ref_number x ''REFERENCE_DECISION_MODEL_RANGE'') xs))"

definition ref_validate_model :: "json \<Rightarrow> (pystr, logistic_model) result" where
  "ref_validate_model value =
     and_then (ref_closed value ref_model_fields ''REFERENCE_DECISION_MODEL_SHAPE'') (\<lambda>d.
     and_then (require (obj_get d ''model_type'' = JStr ''logistic_regression'') ''REFERENCE_DECISION_MODEL_SHAPE'') (\<lambda>_.
     and_then (ref_identifier (obj_get d ''version'') ''REFERENCE_DECISION_MODEL_SHAPE'' False) (\<lambda>version.
     and_then (require (obj_get d ''feature_names'' = jstrs ref_feature_names) ''REFERENCE_DECISION_MODEL_FEATURES'') (\<lambda>_.
     and_then (ref_numbers (obj_get d ''means'')) (\<lambda>means.
     and_then (ref_numbers (obj_get d ''scales'')) (\<lambda>scales.
     and_then (ref_numbers (obj_get d ''weights'')) (\<lambda>weights.
     and_then (require (list_all (\<lambda>x. 0 < x) scales) ''REFERENCE_DECISION_MODEL_RANGE'') (\<lambda>_.
     and_then (ref_number (obj_get d ''intercept'') ''REFERENCE_DECISION_MODEL_RANGE'') (\<lambda>intercept.
     and_then (ref_dict (obj_get d ''training_metadata'') ''REFERENCE_DECISION_MODEL_SHAPE'') (\<lambda>metadata.
     and_then (require (length (canonical_json (JObj metadata)) \<le> 262144) ''REFERENCE_DECISION_RESOURCE_LIMIT'') (\<lambda>_.
     and_then (ref_list (obj_get d ''limitations'') ''REFERENCE_DECISION_MODEL_SHAPE'') (\<lambda>limitations.
     and_then (for_each (\<lambda>x. and_then (ref_text x ''REFERENCE_DECISION_MODEL_SHAPE'') (\<lambda>_. Inr ())) limitations) (\<lambda>_.
     and_then (require (length limitations \<le> 256 \<and> length (canonical_json (JList limitations)) \<le> 65536)
       ''REFERENCE_DECISION_RESOURCE_LIMIT'') (\<lambda>_.
     Inr \<lparr>lm_version = version, lm_means = means, lm_scales = scales, lm_weights = weights,
          lm_intercept = intercept\<rparr>))))))))))))))"

definition ref_policy_shape :: "json \<Rightarrow> pystr list \<Rightarrow> (pystr, (pystr \<times> json) list) result" where
  "ref_policy_shape value members = ref_closed value members ''REFERENCE_DECISION_POLICY_SHAPE''"

definition ref_policy_unit :: "(pystr \<times> json) list \<Rightarrow> pystr \<Rightarrow> (pystr, rat) result" where
  "ref_policy_unit d name = ref_unit_number (obj_get d name) ''REFERENCE_DECISION_POLICY_RANGE''"

definition ref_policy_int :: "(pystr \<times> json) list \<Rightarrow> pystr \<Rightarrow> int \<Rightarrow> int \<Rightarrow> (pystr, int) result" where
  "ref_policy_int d name lower upper = ref_exact_integer (obj_get d name) lower upper ''REFERENCE_DECISION_POLICY_RANGE''"

definition ref_validate_policy :: "json \<Rightarrow> (pystr, case_policy) result" where
  "ref_validate_policy value =
     and_then (ref_policy_shape value [''policy_id'', ''version'', ''thresholds'', ''evidence'', ''authority'', ''safety'']) (\<lambda>d.
     and_then (ref_identifier (obj_get d ''policy_id'') ''REFERENCE_DECISION_POLICY_SHAPE'' False) (\<lambda>policy_id.
     and_then (ref_identifier (obj_get d ''version'') ''REFERENCE_DECISION_POLICY_SHAPE'' False) (\<lambda>version.
     and_then (ref_policy_shape (obj_get d ''thresholds'')
       [''no_action_max_probability'', ''human_escalation_min_probability'', ''autonomous_containment_min_probability'']) (\<lambda>t.
     and_then (ref_policy_shape (obj_get d ''evidence'')
       [''minimum_quality'', ''minimum_provenance_ratio'', ''minimum_integrity_verified_ratio'',
        ''minimum_independent_supporting_sources'', ''maximum_missing_expected_sources_for_decision'',
        ''maximum_conflicts_for_automation'']) (\<lambda>e.
     and_then (ref_policy_shape (obj_get d ''authority'')
       [''maximum_asset_criticality_for_automation'', ''break_glass_requires_human'', ''autonomous_actions'',
        ''human_only_actions'']) (\<lambda>a.
     and_then (ref_policy_shape (obj_get d ''safety'')
       [''poisoned_evidence_blocks_automation'', ''require_independent_verifier'', ''require_rollback_plan'',
        ''authorization_token_ttl_seconds'']) (\<lambda>s.
     and_then (ref_policy_unit t ''no_action_max_probability'') (\<lambda>no_action.
     and_then (ref_policy_unit t ''human_escalation_min_probability'') (\<lambda>escalation.
     and_then (ref_policy_unit t ''autonomous_containment_min_probability'') (\<lambda>containment.
     and_then (require (no_action \<le> escalation \<and> escalation \<le> containment) ''REFERENCE_DECISION_POLICY_RANGE'') (\<lambda>_.
     and_then (ref_policy_unit e ''minimum_quality'') (\<lambda>quality.
     and_then (ref_policy_unit e ''minimum_provenance_ratio'') (\<lambda>provenance.
     and_then (ref_policy_unit e ''minimum_integrity_verified_ratio'') (\<lambda>integrity.
     and_then (ref_policy_int e ''minimum_independent_supporting_sources'' 0 7) (\<lambda>supporting.
     and_then (ref_policy_int e ''maximum_missing_expected_sources_for_decision'' 0 7) (\<lambda>missing.
     and_then (ref_policy_int e ''maximum_conflicts_for_automation'' 0 1000000) (\<lambda>conflicts.
     and_then (ref_bool (obj_get a ''break_glass_requires_human'') ''REFERENCE_DECISION_POLICY_SHAPE'') (\<lambda>glass.
     and_then (ref_string_list (obj_get a ''autonomous_actions'') ''REFERENCE_DECISION_POLICY_SHAPE'') (\<lambda>autonomous.
     and_then (ref_string_list (obj_get a ''human_only_actions'') ''REFERENCE_DECISION_POLICY_SHAPE'') (\<lambda>human.
     and_then (require (set autonomous \<inter> set human = {}) ''REFERENCE_DECISION_POLICY_RANGE'') (\<lambda>_.
     and_then (ref_policy_unit a ''maximum_asset_criticality_for_automation'') (\<lambda>criticality.
     and_then (ref_bool (obj_get s ''poisoned_evidence_blocks_automation'') ''REFERENCE_DECISION_POLICY_SHAPE'') (\<lambda>poison.
     and_then (ref_bool (obj_get s ''require_independent_verifier'') ''REFERENCE_DECISION_POLICY_SHAPE'') (\<lambda>_.
     and_then (ref_bool (obj_get s ''require_rollback_plan'') ''REFERENCE_DECISION_POLICY_SHAPE'') (\<lambda>_.
     and_then (ref_policy_int s ''authorization_token_ttl_seconds'' 1 86400) (\<lambda>ttl.
     Inr \<lparr>pc_policy_id = policy_id, pc_version = version, pc_no_action_max = no_action, pc_escalation_min = escalation,
          pc_containment_min = containment, pc_minimum_quality = quality, pc_minimum_provenance = provenance,
          pc_minimum_integrity = integrity, pc_minimum_supporting = supporting, pc_maximum_missing = missing,
          pc_maximum_conflicts = conflicts, pc_maximum_criticality = criticality, pc_break_glass_human = glass,
          pc_autonomous_actions = autonomous, pc_human_only_actions = human, pc_poison_blocks = poison,
          pc_token_ttl_seconds = ttl\<rparr>))))))))))))))))))))))))))"

subsection \<open>Features and evidence\<close>

definition ref_boolean_step :: "evidence_event \<Rightarrow> pystr \<Rightarrow> feature_values \<times> feature_trace \<Rightarrow> feature_values \<times> feature_trace" where
  "ref_boolean_step e name st =
     (case map_of (ee_attributes e) name of
        None \<Rightarrow> st
      | Some value \<Rightarrow> (if py_bool value then dict_set name 1 (fst st) else fst st,
                        dict_extend name [ee_event_id e] (snd st)))"

definition ref_login_step ::
  "evidence_event \<Rightarrow> feature_values \<times> feature_trace \<Rightarrow> (pystr, feature_values \<times> feature_trace) result" where
  "ref_login_step e st =
     (case map_of (ee_attributes e) ''failed_logins'' of
        None \<Rightarrow> Inr st
      | Some value \<Rightarrow>
          and_then (ref_exact_integer value 0 1000000 ''REFERENCE_DECISION_ATTRIBUTE_TYPE'') (\<lambda>count.
          Inr (dict_set ''failed_login_intensity''
                 (max (dict_default (fst st) ''failed_login_intensity'' 0) (min (fl (of_int count / 20)) 1)) (fst st),
               dict_extend ''failed_login_intensity'' [ee_event_id e] (snd st))))"

definition ref_event_features ::
  "evidence_event \<Rightarrow> feature_values \<times> feature_trace \<Rightarrow> (pystr, feature_values \<times> feature_trace) result" where
  "ref_event_features e st =
     and_then (ref_login_step e st) (\<lambda>st'. Inr (fold (ref_boolean_step e) (map fst ref_boolean_sources) st'))"

definition ref_features :: "identity_case \<Rightarrow> (pystr, feature_values \<times> feature_trace) result" where
  "ref_features c =
     and_then (fold_result ref_event_features (ic_events c) (map (\<lambda>name. (name, 0)) ref_feature_names, [])) (\<lambda>(values, traces).
     and_then (py_float (ic_asset_criticality c)) (\<lambda>criticality.
     let ids = map ee_event_id (filter (\<lambda>e. ee_source_type e = ''asset_inventory'') (ic_events c));
         values' = dict_set ''asset_criticality'' criticality
           (dict_set ''privilege_global_admin'' (if ic_privilege_level c = ''global_admin'' then 1 else 0) values)
     in Inr (values', dict_set ''asset_criticality'' ids (dict_set ''privilege_global_admin'' ids traces))))"

definition ref_clamp :: "rat \<Rightarrow> rat" where
  "ref_clamp v = max 0 (min 1 v)"

definition ref_instruction_patterns :: "rx list list" where
  "ref_instruction_patterns =
     [[Boundary, Word ''ignore'', Spaces1, Choice [[Word ''all'', Spaces1], []],
       Choice [[Word ''prior''], [Word ''previous'']], Boundary],
      [Boundary, Choice [[Word ''system''], [Word ''assistant'']], Spaces0, Word '':'', Spaces0],
      [Boundary, Word ''do'', Spaces1, Word ''not'', Spaces1, Word ''ask'', Boundary],
      [Boundary, Word ''disable'', Spaces1, Choice [[Word ''the'', Spaces1], []], Word ''account'', Boundary]]"

definition ref_positive :: "pystr list" where
  "ref_positive =
     [''threat_ip'', ''token_reuse'', ''credential_dumping'', ''lateral_movement'', ''edr_malware'', ''mfa_fatigue'',
      ''oauth_grant'', ''unusual_admin_action'', ''new_device'', ''impossible_travel'']"

definition ref_benign :: "pystr list" where
  "ref_benign =
     [''known_vpn'', ''approved_travel'', ''maintenance_window'', ''service_account_baseline'', ''strong_mfa'']"

definition ref_sources :: "pystr list" where
  "ref_sources =
     [''asset_inventory'', ''identity'', ''network'', ''endpoint'', ''threat_intel'', ''change_management'',
      ''user_context'']"

definition ref_any :: "evidence_event \<Rightarrow> pystr list \<Rightarrow> bool" where
  "ref_any e names = list_ex (\<lambda>name. map_of (ee_attributes e) name = Some (JBool True)) names"

definition ref_poisoned :: "evidence_event \<Rightarrow> bool" where
  "ref_poisoned e = (ee_instructional e \<or> list_ex (\<lambda>p. rx_search p (ee_untrusted_text e)) ref_instruction_patterns)"

definition ref_freshness :: "evidence_event \<Rightarrow> (pystr, rat) result" where
  "ref_freshness e =
     and_then (ref_timestamp (JStr (ee_observed_at e)) ''REFERENCE_DECISION_EVENT'') (\<lambda>observed.
     and_then (ref_timestamp (JStr (ee_collected_at e)) ''REFERENCE_DECISION_EVENT'') (\<lambda>collected.
     let delay = max 0 (fl (of_int (collected - observed) / 1000000))
     in Inr (ref_clamp (fl (1 - fl (max 0 (fl (delay - 300)) / 6900))))))"

text \<open>The lists the loop collects are the comprehensions over the events it visits.\<close>

definition ref_evidence :: "identity_case \<Rightarrow> (pystr, case_evidence) result" where
  "ref_evidence c =
     (let events = ic_events c in
      and_then (require (events \<noteq> []) ''REFERENCE_DECISION_CASE_SHAPE'') (\<lambda>_.
      and_then (map_result (\<lambda>e. and_then (ref_freshness e) (\<lambda>f. and_then (py_float (ee_trust_score e)) (\<lambda>t. Inr (f, t))))
        events) (\<lambda>pairs.
      let ids = (\<lambda>P. map ee_event_id (filter P events));
          count = of_nat (length events);
          mean = (\<lambda>xs. fl (fsum xs / count));
          provenance = mean (map (\<lambda>e. if ee_provenance_id e \<noteq> [] then 1 else 0) events);
          integrity = mean (map (\<lambda>e. if ee_integrity e = ''verified'' then 1 else 0) events);
          freshness = mean (map fst pairs);
          trust = mean (map snd pairs);
          sources = map ee_source_type events;
          supporting = card (ee_source_type ` set (filter (\<lambda>e. ref_any e ref_positive) events));
          conflicts = int (length (filter (\<lambda>e. map_of (ee_attributes e) ''source_conflict'' = Some (JBool True)) events));
          poisoned_ids = ids ref_poisoned;
          diversity = ref_clamp (fl (of_nat (card (set sources)) / of_nat (length ref_sources)));
          missing = sort (filter (\<lambda>s. s \<notin> set sources) ref_sources);
          poisoned = (poisoned_ids \<noteq> []);
          q0 = fl (fl (fl (fl (fl (fl (27/100) * provenance) + fl (fl (23/100) * integrity))
                 + fl (fl (18/100) * freshness)) + fl (fl (17/100) * diversity)) + fl (fl (15/100) * trust));
          q1 = fl (q0 - min (fl (25/100)) (fl (fl (10/100) * of_int conflicts)));
          q2 = (if poisoned then fl (q1 - fl (30/100)) else q1);
          q3 = (if 2 \<le> length missing then fl (q2 - fl (12/100)) else q2);
          reasons =
            (if provenance < 1 then [''One or more evidence events lack verifiable provenance.''] else [])
            @ (if integrity < 1
               then [''One or more evidence events failed integrity verification or remain unverified.''] else [])
            @ (if freshness < fl (80/100) then [''One or more telemetry sources are stale.''] else [])
            @ (if missing \<noteq> [] then [''Expected evidence sources are missing: '' @ join '', '' missing @ ''.''] else [])
            @ (if conflicts \<noteq> 0 then [''Independent telemetry sources conflict.''] else [])
            @ (if poisoned then [''Untrusted content contains instructions directed at an AI agent; content is excluded from model input and blocks autonomous action.''] else [])
      in Inr \<lparr>ce_quality = py_round 6 (ref_clamp q3), ce_provenance_ratio = py_round 6 provenance,
              ce_integrity_ratio = py_round 6 integrity, ce_freshness = py_round 6 freshness,
              ce_diversity = py_round 6 diversity, ce_trust = py_round 6 trust,
              ce_supporting_sources = int supporting, ce_positive_ids = ids (\<lambda>e. ref_any e ref_positive),
              ce_benign_ids = ids (\<lambda>e. ref_any e ref_benign), ce_missing = missing, ce_conflicts = conflicts,
              ce_poisoned = poisoned, ce_poisoned_ids = poisoned_ids,
              ce_reasons = (if reasons = []
                then [''Evidence provenance, integrity, freshness, and source diversity meet the POC baseline.'']
                else reasons)\<rparr>)))"

subsection \<open>Model, policy and verifier\<close>

definition ref_contributions :: "logistic_model \<Rightarrow> feature_values \<Rightarrow> rat list" where
  "ref_contributions m values =
     map (\<lambda>i. fl (fl (fl (dict_default values (ref_feature_names ! i) 0 - lm_means m ! i) / lm_scales m ! i)
                  * lm_weights m ! i)) [0..<length ref_feature_names]"

definition ref_model_assessment ::
  "(rat \<Rightarrow> rat) \<Rightarrow> logistic_model \<Rightarrow> identity_case \<Rightarrow> (pystr, model_assessment) result" where
  "ref_model_assessment math_exp m c =
     and_then (ref_features c) (\<lambda>(values, trace).
     let contributions = ref_contributions m values;
         logit = fl (fsum contributions + lm_intercept m);
         clipped = max (- 30) (min 30 logit);
         probability = fl (1 / fl (1 + math_exp (- clipped)));
         rows = map (\<lambda>(name, x). \<lparr>fr_feature = name, fr_contribution = py_round 6 x,
                                    fr_value = py_round 6 (dict_default values name 0)\<rparr>)
                  (zip ref_feature_names contributions)
     in Inr \<lparr>ma_probability = py_round 8 probability, ma_version = lm_version m,
             ma_positive = take 5 (sort_key (\<lambda>r. - fr_contribution r) (filter (\<lambda>r. 0 < fr_contribution r) rows)),
             ma_negative = take 5 (sort_key fr_contribution (filter (\<lambda>r. fr_contribution r < 0) rows)),
             ma_values = map (\<lambda>name. (name, py_round 6 (dict_default values name 0))) ref_feature_names,
             ma_trace = trace\<rparr>)"


definition ref_investigate :: "pystr list \<Rightarrow> pystr list \<Rightarrow> pystr list \<Rightarrow> case_proposal" where
  "ref_investigate rationale rules ids =
     \<lparr>pp_disposition = Investigate, pp_executable = [], pp_human = [],
      pp_investigation = [''query_identity_history'', ''query_endpoint_telemetry'', ''validate_change_and_travel_context''],
      pp_rationale = rationale, pp_rules = rules, pp_evidence_ids = ids,
      pp_authority = ''read_only_automation'', pp_rollback = []\<rparr>"

definition ref_policy_proposal ::
  "identity_case \<Rightarrow> model_assessment \<Rightarrow> case_evidence \<Rightarrow> case_policy \<Rightarrow> case_proposal" where
  "ref_policy_proposal c m ev cfg =
     (let probability = ma_probability m; criticality = number_value (ic_asset_criticality c);
          severe = list_ex (\<lambda>name. 1 \<le> dict_default (ma_values m) name 0)
                     [''credential_dumping'', ''lateral_movement'', ''token_reuse'', ''oauth_grant''];
          ids = sort (remdups (ce_positive_ids ev @ ce_benign_ids ev @ ce_poisoned_ids ev));
          decision_grade = (pc_minimum_quality cfg \<le> ce_quality ev
             \<and> pc_minimum_provenance cfg \<le> ce_provenance_ratio ev
             \<and> pc_minimum_integrity cfg \<le> ce_integrity_ratio ev
             \<and> ce_conflicts ev \<le> pc_maximum_conflicts cfg
             \<and> int (length (ce_missing ev)) \<le> pc_maximum_missing cfg
             \<and> \<not> (pc_poison_blocks cfg \<and> ce_poisoned ev));
          automation_grade = (decision_grade \<and> pc_minimum_supporting cfg \<le> ce_supporting_sources ev);
          can_auto_contain = (pc_containment_min cfg \<le> probability \<and> criticality \<le> pc_maximum_criticality cfg
             \<and> automation_grade);
          above = pc_maximum_criticality cfg < criticality
      in if ce_poisoned ev \<and> pc_poison_blocks cfg then
           ref_investigate [''Adversarial or instructional content is present in an untrusted source; autonomous action is prohibited.'']
             [''SAFETY-POISON-ABSTAIN''] ids
         else if ic_break_glass c \<and> pc_break_glass_human cfg then
           \<lparr>pp_disposition = EscalateHuman, pp_executable = [],
            pp_human = [''disable_account'', ''revoke_active_sessions'', ''validate_emergency_use''],
            pp_investigation = [''validate_emergency_use'', ''contact_incident_commander''],
            pp_rationale = [''The subject is a break-glass identity; all containment requires explicit human authorization.''],
            pp_rules = [''AUTH-BREAK-GLASS-HUMAN''], pp_evidence_ids = ids,
            pp_authority = ''incident_commander_or_identity_owner'', pp_rollback = []\<rparr>
         else if \<not> decision_grade then
           ref_investigate (ce_reasons ev
               @ [''The decision firewall abstains until provenance, integrity, completeness, or corroboration is improved.''])
             [''EVIDENCE-NOT-DECISION-GRADE''] ids
         else if probability \<le> pc_no_action_max cfg \<and> \<not> severe then
           \<lparr>pp_disposition = NoAction, pp_executable = [], pp_human = [], pp_investigation = [],
            pp_rationale = [''Compromise probability '' @ format_fixed 3 probability
              @ '' is below the no-action threshold and no severe indicator is present.''],
            pp_rules = [''RISK-BELOW-NO-ACTION-THRESHOLD''], pp_evidence_ids = ids, pp_authority = ''none'',
            pp_rollback = []\<rparr>
         else if can_auto_contain then
           \<lparr>pp_disposition = ContainReversible, pp_executable = pc_autonomous_actions cfg, pp_human = [],
            pp_investigation = [],
            pp_rationale = [''Compromise probability '' @ format_fixed 3 probability @ '', evidence quality ''
              @ format_fixed 3 (ce_quality ev) @ '', and asset criticality '' @ format_fixed 3 criticality
              @ '' satisfy the reversible-containment policy.''],
            pp_rules = [''RISK-AUTO-CONTAIN-THRESHOLD'', ''AUTH-REVERSIBLE-ACTIONS-ONLY''], pp_evidence_ids = ids,
            pp_authority = ''deterministic_policy_gate'',
            pp_rollback =
              [(''revoke_active_sessions'', ''restore only through normal reauthentication; no session token is reinstated''),
               (''force_step_up_auth'', ''remove temporary step-up requirement after analyst review''),
               (''increase_monitoring'', ''return telemetry policy to baseline after closure'')]\<rparr>
         else if pc_escalation_min cfg \<le> probability \<or> severe then
           \<lparr>pp_disposition = EscalateHuman, pp_executable = [],
            pp_human = [''disable_account'', ''revoke_active_sessions'', ''isolate_endpoint''],
            pp_investigation = [''confirm_business_owner'', ''validate_blast_radius''],
            pp_rationale = (if above then [''Asset criticality exceeds the autonomous-action boundary.''] else [])
              @ [''Compromise probability '' @ format_fixed 3 probability
                 @ '' or severe evidence requires human containment authority.''],
            pp_rules = [''RISK-HUMAN-ESCALATION''] @ (if above then [''AUTH-ASSET-CRITICALITY-HUMAN''] else []),
            pp_evidence_ids = ids, pp_authority = ''soc_shift_lead_or_identity_owner'', pp_rollback = []\<rparr>
         else
           ref_investigate [''Compromise probability '' @ format_fixed 3 probability
               @ '' is not low enough for closure and not high enough for containment.'']
             [''RISK-UNCERTAIN-INVESTIGATE''] ids)"

definition ref_verification ::
  "identity_case \<Rightarrow> model_assessment \<Rightarrow> case_evidence \<Rightarrow> case_proposal \<Rightarrow> case_policy \<Rightarrow> case_verification" where
  "ref_verification c m ev p cfg =
     (let known = set (map ee_event_id (ic_events c)); actions = pp_executable p;
          checks =
            [(''MODEL-PROBABILITY-RANGE'', 0 \<le> ma_probability m \<and> ma_probability m \<le> 1,
              ''Probability must be within [0,1].''),
             (''TRACE-EVENTS-EXIST'', set (pp_evidence_ids p) \<subseteq> known, ''All cited evidence IDs must exist in the case.''),
             (''MODEL-FEATURE-TRACE'', (\<Union>(_, ids) \<in> set (ma_trace m). set ids) \<subseteq> known,
              ''Every model feature trace must resolve to a case event.''),
             (''NO-HUMAN-ONLY-EXECUTION'', set actions \<inter> set (pc_human_only_actions cfg) = {},
              ''Human-only actions cannot appear in the executable action set.''),
             (''EXECUTABLE-ACTIONS-ALLOWLISTED'', set actions \<subseteq> set (pc_autonomous_actions cfg),
              ''Executable actions must be on the autonomous allowlist.'')]
            @ (if pp_disposition p = ContainReversible then
                [(''CONTAIN-RISK-THRESHOLD'', pc_containment_min cfg \<le> ma_probability m,
                  ''Containment requires probability >= '' @ format_fixed 2 (pc_containment_min cfg) @ ''.''),
                 (''CONTAIN-EVIDENCE-QUALITY'', pc_minimum_quality cfg \<le> ce_quality ev,
                  ''Evidence quality must meet the automation threshold.''),
                 (''CONTAIN-PROVENANCE'', pc_minimum_provenance cfg \<le> ce_provenance_ratio ev,
                  ''Evidence provenance ratio is insufficient.''),
                 (''CONTAIN-INTEGRITY'', pc_minimum_integrity cfg \<le> ce_integrity_ratio ev,
                  ''Evidence integrity ratio is insufficient.''),
                 (''CONTAIN-CORROBORATION'', pc_minimum_supporting cfg \<le> ce_supporting_sources ev,
                  ''Independent source corroboration is insufficient.''),
                 (''CONTAIN-NO-CONFLICT'', ce_conflicts ev \<le> pc_maximum_conflicts cfg,
                  ''Conflicting sources prohibit automation.''),
                 (''CONTAIN-NO-POISON'', \<not> ce_poisoned ev, ''Instructional or poisoned evidence prohibits automation.''),
                 (''CONTAIN-NOT-BREAK-GLASS'', \<not> ic_break_glass c, ''Break-glass identities require human authorization.''),
                 (''CONTAIN-ASSET-BOUNDARY'', number_value (ic_asset_criticality c) \<le> pc_maximum_criticality cfg,
                  ''Asset criticality exceeds the autonomous boundary.''),
                 (''CONTAIN-ROLLBACK'', list_all (\<lambda>a. map_of (pp_rollback p) a \<noteq> None) actions,
                  ''Every autonomous action requires a rollback plan.''),
                 (''CONTAIN-ACTIONS-PRESENT'', actions \<noteq> [],
                  ''Containment disposition requires at least one executable action.'')]
               else
                [(''NON-CONTAIN-NO-EXECUTION'', actions = [],
                  ''Non-containment dispositions cannot execute production actions.'')]);
          blockers = map (\<lambda>(name, _, detail). name @ '': '' @ detail) (filter (\<lambda>(_, passed, _). \<not> passed) checks)
      in \<lparr>cv_passed = (blockers = []), cv_checks = checks, cv_blockers = blockers\<rparr>)"

definition ref_downgrade :: "case_proposal \<Rightarrow> case_verification \<Rightarrow> case_proposal" where
  "ref_downgrade p v =
     (if pp_executable p = [] \<or> cv_passed v then p
      else \<lparr>pp_disposition = Investigate, pp_executable = [], pp_human = [],
            pp_investigation = [''resolve_independent_verifier_failure'', ''collect_additional_evidence''],
            pp_rationale = pp_rationale p
              @ [''Independent verification failed; the action proposal was downgraded to investigation.''],
            pp_rules = pp_rules p @ [''FAIL-SAFE-VERIFIER-DOWNGRADE''], pp_evidence_ids = pp_evidence_ids p,
            pp_authority = ''read_only_automation'', pp_rollback = []\<rparr>)"

definition ref_read_only :: "case_proposal \<Rightarrow> case_proposal \<times> pystr list" where
  "ref_read_only p =
     (p\<lparr>pp_executable := [], pp_authority := ''read_only_observation'', pp_rollback := []\<rparr>, pp_executable p)"

subsection \<open>Stages\<close>

record ref_stages =
  rs_evidence :: json
  rs_model :: json
  rs_policy :: json
  rs_verifier :: json
  rs_final :: json

definition ref_final_names :: "pystr list" where
  "ref_final_names =
     [''case_id'', ''subject_id'', ''asset_id'', ''asset_criticality'', ''break_glass'', ''policy_id'',
      ''policy_version'', ''model_version'', ''execution_mode'', ''original_disposition'', ''final_disposition'',
      ''counterfactual_actions'', ''compromise_probability'', ''evidence_assessment'', ''model_assessment'',
      ''proposal'', ''independent_verification'', ''authorization'', ''action_results'',
      ''post_action_verification'', ''execution_control'', ''traceability'']"

definition ref_expected_stages ::
  "(rat \<Rightarrow> rat) \<Rightarrow> identity_case \<Rightarrow> logistic_model \<Rightarrow> case_policy \<Rightarrow> execution_mode \<Rightarrow> (pystr, ref_stages) result" where
  "ref_expected_stages math_exp c lm cfg mode =
     and_then (ref_evidence c) (\<lambda>ev.
     and_then (ref_model_assessment math_exp lm c) (\<lambda>m.
     let original = ref_policy_proposal c m ev cfg;
         v = ref_verification c m ev original cfg;
         (p, counterfactual) = ref_read_only (ref_downgrade original v);
         original_text = JStr (disposition_text (pp_disposition original));
         final_text = JStr (disposition_text (pp_disposition p))
     in Inr \<lparr>rs_evidence = JObj (evidence_to_dict ev), rs_model = JObj (model_to_dict m),
             rs_policy = JObj [(''original_disposition'', original_text), (''final_disposition'', final_text),
               (''counterfactual_actions'', jstrs counterfactual), (''proposal'', JObj (proposal_to_dict p))],
             rs_verifier = JObj (verification_to_dict v),
             rs_final = JObj
               [(''case_id'', JStr (ic_case_id c)), (''subject_id'', JStr (ic_subject_id c)),
                (''asset_id'', JStr (ic_asset_id c)), (''asset_criticality'', number_json (ic_asset_criticality c)),
                (''break_glass'', JBool (ic_break_glass c)), (''policy_id'', JStr (pc_policy_id cfg)),
                (''policy_version'', JStr (pc_version cfg)), (''model_version'', JStr (ma_version m)),
                (''execution_mode'', JStr (mode_text mode)), (''original_disposition'', original_text),
                (''final_disposition'', final_text), (''counterfactual_actions'', jstrs counterfactual),
                (''compromise_probability'', JFloat (ma_probability m)),
                (''evidence_assessment'', JObj (evidence_to_dict ev)), (''model_assessment'', JObj (model_to_dict m)),
                (''proposal'', JObj (proposal_to_dict p)), (''independent_verification'', JObj (verification_to_dict v)),
                (''authorization'', JObj [(''issued'', JBool False), (''token_id'', JStr []), (''decision_hash'', JStr []),
                   (''permitted_actions'', JList []), (''error'', JStr [])]),
                (''action_results'', JList []),
                (''post_action_verification'', JObj [(''applicable'', JBool False), (''status'', JStr ''NOT_APPLICABLE''),
                   (''passed'', JNull), (''checks'', JList [])]),
                (''execution_control'', JObj [(''mode'', JStr (mode_text mode)), (''read_only'', JBool True),
                   (''status'', JStr ''SUPPRESSED_READ_ONLY''), (''authorization_attempted'', JBool False),
                   (''broker_invocations'', JInt 0), (''operational_effects'', JInt 0)]),
                (''traceability'', JObj [(''input_event_ids'', jstrs (map ee_event_id (ic_events c))),
                   (''cited_evidence_event_ids'', jstrs (pp_evidence_ids p)),
                   (''feature_trace'', JObj (map (\<lambda>(k, ids). (k, jstrs ids)) (ma_trace m)))])]\<rparr>))"

definition ref_decision_fields :: "pystr list" where
  "ref_decision_fields =
     [''decision_id'', ''case_id'', ''subject_id'', ''asset_id'', ''asset_criticality'', ''break_glass'', ''created_at'',
      ''policy_id'', ''policy_version'', ''model_version'', ''execution_mode'', ''original_disposition'',
      ''final_disposition'', ''counterfactual_actions'', ''compromise_probability'', ''evidence_assessment'',
      ''model_assessment'', ''proposal'', ''independent_verification'', ''authorization'', ''action_results'',
      ''post_action_verification'', ''execution_control'', ''latency_ms'', ''traceability'', ''decision_record_hash'']"

definition sha256_pattern :: "pystr \<Rightarrow> bool" where
  "sha256_pattern s = (length s = 64 \<and> list_all is_hex_char s)"

definition ref_disposition :: "json \<Rightarrow> (pystr, unit) result" where
  "ref_disposition value =
     (case value of
        JStr s \<Rightarrow> require (s \<in> set [''NO_ACTION'', ''INVESTIGATE'', ''CONTAIN_REVERSIBLE'', ''ESCALATE_HUMAN''])
                   ''REFERENCE_DECISION_DECISION_SHAPE''
      | JList _ \<Rightarrow> Inl ''TypeError'' | JObj _ \<Rightarrow> Inl ''TypeError''
      | _ \<Rightarrow> Inl ''REFERENCE_DECISION_DECISION_SHAPE'')"

definition ref_observed_stages ::
  "pystr \<Rightarrow> execution_mode \<Rightarrow> (pystr \<times> json) list \<Rightarrow> (pystr, ref_stages) result" where
  "ref_observed_stages case_id mode d =
     (let shape = ''REFERENCE_DECISION_DECISION_SHAPE'' in
      and_then (require (closed_keys ref_decision_fields d) shape) (\<lambda>_.
      and_then (ref_identifier (obj_get d ''case_id'') shape False) (\<lambda>observed_case.
      and_then (require (observed_case = case_id) ''REFERENCE_DECISION_CASE_SET'') (\<lambda>_.
      and_then (require (obj_get d ''execution_mode'' = JStr (mode_text mode)) ''REFERENCE_DECISION_MODE'') (\<lambda>_.
      and_then (ref_identifier (obj_get d ''decision_id'') shape False) (\<lambda>_.
      and_then (ref_timestamp (obj_get d ''created_at'') shape) (\<lambda>_.
      and_then (ref_number (obj_get d ''latency_ms'') shape) (\<lambda>latency.
      and_then (require (0 \<le> latency) shape) (\<lambda>_.
      and_then (ref_text (obj_get d ''decision_record_hash'') ''REFERENCE_DECISION_RECORD_HASH'') (\<lambda>supplied.
      and_then (require (sha256_pattern supplied) ''REFERENCE_DECISION_RECORD_HASH'') (\<lambda>_.
      and_then (require (sha256_json (JObj (dict_pop ''decision_record_hash'' d)) = supplied)
        ''REFERENCE_DECISION_RECORD_HASH'') (\<lambda>_.
      and_then (for_each (\<lambda>name. and_then (ref_dict (obj_get d name) shape) (\<lambda>_. Inr ()))
        [''evidence_assessment'', ''model_assessment'', ''proposal'', ''independent_verification'', ''traceability'']) (\<lambda>_.
      and_then (ref_disposition (obj_get d ''original_disposition'')) (\<lambda>_.
      and_then (ref_disposition (obj_get d ''final_disposition'')) (\<lambda>_.
      and_then (ref_list (obj_get d ''counterfactual_actions'') shape) (\<lambda>_.
      Inr \<lparr>rs_evidence = obj_get d ''evidence_assessment'', rs_model = obj_get d ''model_assessment'',
           rs_policy = JObj (map (\<lambda>k. (k, obj_get d k))
             [''original_disposition'', ''final_disposition'', ''counterfactual_actions'', ''proposal'']),
           rs_verifier = obj_get d ''independent_verification'',
           rs_final = JObj (map (\<lambda>k. (k, obj_get d k)) ref_final_names)\<rparr>))))))))))))))))"

definition ref_stage_hashes :: "ref_stages \<Rightarrow> (pystr \<times> pystr) list" where
  "ref_stage_hashes s =
     [(''evidence'', sha256_json (rs_evidence s)), (''model'', sha256_json (rs_model s)),
      (''policy'', sha256_json (rs_policy s)), (''verifier'', sha256_json (rs_verifier s)),
      (''final_surface'', sha256_json (rs_final s))]"

definition ref_path_hash :: "(pystr \<times> pystr) list \<Rightarrow> pystr" where
  "ref_path_hash hashes =
     sha256_json (JList (map (\<lambda>(stage, h). JObj [(''stage'', JStr stage), (''sha256'', JStr h)]) hashes))"

definition ref_mismatch_codes :: "(pystr \<times> pystr) list" where
  "ref_mismatch_codes =
     [(''evidence'', ''REFERENCE_DECISION_EVIDENCE_MISMATCH''), (''model'', ''REFERENCE_DECISION_MODEL_MISMATCH''),
      (''policy'', ''REFERENCE_DECISION_POLICY_MISMATCH''), (''verifier'', ''REFERENCE_DECISION_VERIFIER_MISMATCH''),
      (''final_surface'', ''REFERENCE_DECISION_FINAL_SURFACE_MISMATCH'')]"

definition ref_compare_stage ::
  "(pystr \<times> pystr) list \<Rightarrow> (pystr \<times> pystr) list \<Rightarrow> pystr \<times> pystr \<Rightarrow> (pystr, unit) result" where
  "ref_compare_stage expected observed entry =
     require (map_of expected (fst entry) = map_of observed (fst entry)) (snd entry)"

subsection \<open>The records\<close>

definition ref_record ::
  "pystr \<Rightarrow> pystr \<Rightarrow> execution_mode \<Rightarrow> identity_case \<Rightarrow> (pystr \<times> pystr) list \<Rightarrow> (pystr \<times> pystr) list \<Rightarrow> json" where
  "ref_record model_sha policy_sha mode c expected observed =
     (let h = (\<lambda>hashes stage. JStr (dict_default hashes stage [])) in JObj
      [(''schema_version'', JStr ''0.2.0''), (''assurance_kind'', JStr ''SEPARATE_SOURCE_TO_DECISION_RECOMPUTATION''),
       (''recomputation_scope'', JStr ''EVIDENCE_MODEL_POLICY_VERIFIER_READ_ONLY_FINAL''),
       (''case_id'', JStr (ic_case_id c)), (''normalized_case_sha256'', JStr (sha256_json (case_to_dict c))),
       (''model_source_sha256'', JStr model_sha), (''policy_source_sha256'', JStr policy_sha),
       (''expected_evidence_sha256'', h expected ''evidence''), (''observed_evidence_sha256'', h observed ''evidence''),
       (''expected_model_sha256'', h expected ''model''), (''observed_model_sha256'', h observed ''model''),
       (''expected_policy_sha256'', h expected ''policy''), (''observed_policy_sha256'', h observed ''policy''),
       (''expected_verifier_sha256'', h expected ''verifier''), (''observed_verifier_sha256'', h observed ''verifier''),
       (''expected_final_surface_sha256'', h expected ''final_surface''),
       (''observed_final_surface_sha256'', h observed ''final_surface''),
       (''expected_source_to_decision_sha256'', JStr (ref_path_hash expected)),
       (''observed_source_to_decision_sha256'', JStr (ref_path_hash observed)),
       (''execution_mode'', JStr (mode_text mode)), (''read_only'', JBool True), (''matched'', JBool True)])"

definition ref_verify_case ::
  "(rat \<Rightarrow> rat) \<Rightarrow> logistic_model \<Rightarrow> case_policy \<Rightarrow> pystr \<Rightarrow> pystr \<Rightarrow> execution_mode
     \<Rightarrow> identity_case \<Rightarrow> (pystr \<times> json) list \<Rightarrow> (pystr, json) result" where
  "ref_verify_case math_exp lm cfg model_sha policy_sha mode c decision =
     and_then (ref_expected_stages math_exp c lm cfg mode) (\<lambda>expected_stages.
     and_then (ref_observed_stages (ic_case_id c) mode decision) (\<lambda>observed_stages.
     let expected = ref_stage_hashes expected_stages; observed = ref_stage_hashes observed_stages in
     and_then (for_each (ref_compare_stage expected observed) ref_mismatch_codes) (\<lambda>_.
     and_then (require (ref_path_hash expected = ref_path_hash observed) ''REFERENCE_DECISION_PATH_MISMATCH'') (\<lambda>_.
     Inr (ref_record model_sha policy_sha mode c expected observed)))))"

text \<open>The dictionaries of cases and decisions by case: a repeated case is refused.\<close>

definition ref_add_case :: "json \<Rightarrow> (pystr \<times> identity_case) list \<Rightarrow> (pystr, (pystr \<times> identity_case) list) result" where
  "ref_add_case raw cases =
     and_then (ref_validate_case raw) (\<lambda>c.
     and_then (require (ic_case_id c \<notin> fst ` set cases) ''REFERENCE_DECISION_CASE_DUPLICATE'') (\<lambda>_.
     Inr (cases @ [(ic_case_id c, c)])))"

definition ref_add_decision ::
  "(pystr \<times> json) list \<Rightarrow> (pystr \<times> (pystr \<times> json) list) list \<Rightarrow> (pystr, (pystr \<times> (pystr \<times> json) list) list) result" where
  "ref_add_decision d decisions =
     and_then (ref_identifier (obj_get d ''case_id'') ''REFERENCE_DECISION_DECISION_SHAPE'' False) (\<lambda>case_id.
     and_then (require (case_id \<notin> fst ` set decisions) ''REFERENCE_DECISION_DECISION_DUPLICATE'') (\<lambda>_.
     Inr (decisions @ [(case_id, d)])))"

text \<open>\<open>verify_reference_decision_path\<close> after its four documents are decoded; the digests of the model and policy
  bytes are arguments.\<close>

definition verify_reference_decisions ::
  "(rat \<Rightarrow> rat) \<Rightarrow> json list \<Rightarrow> (pystr \<times> json) list list \<Rightarrow> json \<Rightarrow> json \<Rightarrow> pystr \<Rightarrow> pystr \<Rightarrow> execution_mode
     \<Rightarrow> (pystr, json list) result" where
  "verify_reference_decisions math_exp raw_cases raw_decisions raw_model raw_policy model_sha policy_sha mode =
     and_then (require (mode \<in> set [HistoricalReplay, ShadowReadOnly]) ''REFERENCE_DECISION_MODE'') (\<lambda>_.
     and_then (ref_validate_model raw_model) (\<lambda>lm.
     and_then (ref_validate_policy raw_policy) (\<lambda>cfg.
     and_then (fold_result ref_add_case raw_cases []) (\<lambda>cases.
     and_then (fold_result ref_add_decision raw_decisions []) (\<lambda>decisions.
     and_then (require (fst ` set cases = fst ` set decisions) ''REFERENCE_DECISION_CASE_SET'') (\<lambda>_.
     map_result (\<lambda>case_id.
       case (map_of cases case_id, map_of decisions case_id) of
         (Some c, Some d) \<Rightarrow> ref_verify_case math_exp lm cfg model_sha policy_sha mode c d
       | _ \<Rightarrow> Inl ''KeyError'') (sort (map fst cases))))))))"

end
