(* ===== verification/RefFeatures.thy ===== *)
theory RefFeatures
  imports RefDecision P1EngineRuns
begin

text \<open>
  The second implementation of features and evidence (\<open>replay/reference_decision.py\<close>) computes what the engine
  computes: wherever the engine's extraction and assessment return, the reference returns the same values and traces.
\<close>

subsection \<open>Features\<close>

lemma reference_tables:
  "ref_feature_names = feature_names" "map fst ref_boolean_sources = boolean_attribute_names"
  "ref_sources = expected_sources" "ref_positive = positive_indicators" "ref_benign = benign_indicators"
  "ref_instruction_patterns = instruction_patterns"
  by (simp_all add: ref_feature_names_def feature_names_def ref_boolean_sources_def boolean_attribute_names_def
      boolean_attribute_sources_def ref_sources_def expected_sources_def ref_positive_def positive_indicators_def
      ref_benign_def benign_indicators_def ref_instruction_patterns_def instruction_patterns_def)

lemma dict_set_commute:
  "k \<noteq> l \<Longrightarrow> k \<in> fst ` set d \<Longrightarrow> l \<in> fst ` set d \<Longrightarrow> dict_set k v (dict_set l w d) = dict_set l w (dict_set k v d)"
proof (induction d)
  case (Cons p d)
  obtain a b where p: "p = (a, b)" by (cases p)
  with Cons show ?case by (cases "a = k"; cases "a = l") auto
qed simp

lemma dict_set_same: "map_of d k = Some v \<Longrightarrow> dict_set k v d = d"
  by (induction d) (auto split: if_splits)

lemma dict_extend_fresh: "k \<notin> fst ` set d \<Longrightarrow> dict_extend k vs d = dict_set k vs d"
  by (simp add: dict_extend_def dict_default_def map_of_eq_None_iff [THEN iffD2])

text \<open>The engine sets the two features of the case before the loop over the events, the reference after it.\<close>

definition with_context :: "identity_case \<Rightarrow> rat \<Rightarrow> feature_values \<Rightarrow> feature_values" where
  "with_context c x vs = dict_set ''asset_criticality'' x
     (dict_set ''privilege_global_admin'' (if ic_privilege_level c = ''global_admin'' then 1 else 0) vs)"

definition loop_values :: "feature_values \<Rightarrow> bool" where
  "loop_values vs \<longleftrightarrow> map fst vs = feature_names \<and> (\<forall>k \<in> set boolean_attribute_names. dict_default vs k 0 \<in> {0, 1})"

lemma loop_values_keys: "loop_values vs \<Longrightarrow> fst ` set vs = set feature_names"
  by (metis list.set_map loop_values_def)

lemma loop_values_set:
  assumes "loop_values vs" and "k \<in> set feature_names" and "k \<in> set boolean_attribute_names \<longrightarrow> v \<in> {0, 1}"
  shows "loop_values (dict_set k v vs)"
proof -
  have "map fst (dict_set k v vs) = feature_names"
    using dict_set_keeps_keys [of k vs v] assms(1,2) by (simp add: loop_values_keys) (simp add: loop_values_def)
  with assms show ?thesis by (auto simp: loop_values_def)
qed

lemma with_context_set:
  assumes "loop_values vs" and "k \<in> set feature_names" and "k \<noteq> ''asset_criticality''" "k \<noteq> ''privilege_global_admin''"
  shows "dict_set k v (with_context c x vs) = with_context c x (dict_set k v vs)"
proof -
  have "k \<in> fst ` set vs" "''asset_criticality'' \<in> fst ` set vs" "''privilege_global_admin'' \<in> fst ` set vs"
    using assms(1,2) other_features(1) by (simp_all add: loop_values_keys)
  with assms(3,4) show ?thesis
    by (simp add: with_context_def dict_set_commute [of k "''asset_criticality''"] dict_set_commute [of k "''privilege_global_admin''"]
        keys_dict_set)
qed

lemma with_context_default:
  "k \<noteq> ''asset_criticality'' \<Longrightarrow> k \<noteq> ''privilege_global_admin'' \<Longrightarrow> dict_default (with_context c x vs) k 0 = dict_default vs k 0"
  by (simp add: with_context_def)

lemma boolean_name_facts:
  "k \<in> set boolean_attribute_names \<Longrightarrow> k \<in> set feature_names \<and> k \<noteq> ''asset_criticality'' \<and> k \<noteq> ''privilege_global_admin''"
  using other_features by auto

lemma boolean_step_agrees:
  assumes k: "k \<in> set boolean_attribute_names" and vs: "loop_values vs"
    and m: "map_of m k = map_of (ee_attributes e) k" and typed: "\<And>v. map_of (ee_attributes e) k = Some v \<Longrightarrow> \<exists>b. v = JBool b"
    and st: "ref_boolean_step e k (vs, tr) = (vs', tr')"
  shows "boolean_feature (ee_event_id e) m k (with_context c x vs, tr) = Inr (with_context c x vs', tr') \<and> loop_values vs'"
proof (cases "map_of (ee_attributes e) k")
  case None
  with st m vs show ?thesis by (simp add: ref_boolean_step_def boolean_feature_def)
next
  case (Some v)
  with typed obtain b where b: "map_of (ee_attributes e) k = Some (JBool b)" by blast
  note n = boolean_name_facts [OF k]
  have val: "dict_default vs k 0 = 0 \<or> dict_default vs k 0 = 1" using vs k by (simp add: loop_values_def)
  have def: "dict_default (with_context c x vs) k 0 = dict_default vs k 0" using n by (simp add: with_context_default)
  show ?thesis
  proof (cases b)
    case True
    then have st': "vs' = dict_set k 1 vs" "tr' = dict_extend k [ee_event_id e] tr"
      using st b by (simp_all add: ref_boolean_step_def)
    have set: "dict_set k 1 (with_context c x vs) = with_context c x (dict_set k 1 vs)"
      using n by (intro with_context_set [OF vs]) simp_all
    have "loop_values vs'" unfolding st' using n by (intro loop_values_set [OF vs]) simp_all
    moreover have "dict_set k 1 vs = vs" if "dict_default vs k 0 = 1"
    proof -
      have "k \<in> fst ` set vs" using n by (simp add: loop_values_keys [OF vs])
      then obtain y where "map_of vs k = Some y" by (metis map_of_eq_None_iff option.exhaust)
      with that show ?thesis by (intro dict_set_same) (simp add: dict_default_def)
    qed
    ultimately show ?thesis using val set True b
      by (auto simp: boolean_feature_def m def st' Let_def)
  next
    case False
    then have st': "vs' = vs" "tr' = dict_extend k [ee_event_id e] tr" using st b by (simp_all add: ref_boolean_step_def)
    have "\<not> 0 > dict_default vs k 0" using val by auto
    with False b vs show ?thesis by (simp add: boolean_feature_def m def st' Let_def)
  qed
qed

lemma boolean_steps_agree:
  assumes "set ks \<subseteq> set boolean_attribute_names" and "loop_values vs"
    and "\<And>k. k \<in> set ks \<Longrightarrow> map_of m k = map_of (ee_attributes e) k"
    and "\<And>k v. k \<in> set ks \<Longrightarrow> map_of (ee_attributes e) k = Some v \<Longrightarrow> \<exists>b. v = JBool b"
    and "fold (ref_boolean_step e) ks (vs, tr) = (vs', tr')"
  shows "fold_result (boolean_feature (ee_event_id e) m) ks (with_context c x vs, tr) = Inr (with_context c x vs', tr')
    \<and> loop_values vs'"
  using assms
proof (induction ks arbitrary: vs tr)
  case (Cons k ks)
  obtain vs1 tr1 where s: "ref_boolean_step e k (vs, tr) = (vs1, tr1)" by (cases "ref_boolean_step e k (vs, tr)")
  have "boolean_feature (ee_event_id e) m k (with_context c x vs, tr) = Inr (with_context c x vs1, tr1) \<and> loop_values vs1"
    using Cons.prems by (intro boolean_step_agrees [OF _ _ _ _ s]) auto
  moreover from this have "fold_result (boolean_feature (ee_event_id e) m) ks (with_context c x vs1, tr1)
      = Inr (with_context c x vs', tr') \<and> loop_values vs'"
    using Cons.prems s by (intro Cons.IH) auto
  ultimately show ?case by simp
qed simp

lemma ref_exact_integer_agrees:
  assumes "number_value y = of_int n" and "0 \<le> n" "n \<le> max_failed_logins"
  shows "ref_exact_integer (number_json y) 0 1000000 code = Inr n"
proof -
  have "n < 2 ^ 53" using assms(3) by (simp add: max_failed_logins_def)
  with assms(2) have f: "fl (of_int n) = of_int n" by (rule fl_int_small)
  have "\<bar>n\<bar> < 2 ^ 1024 - 2 ^ 970"
  proof -
    have "\<bar>n\<bar> \<le> 1000000" using assms(2,3) by (simp add: max_failed_logins_def)
    moreover have "(1000000 :: int) < 2 ^ 1024 - 2 ^ 970" by simp
    ultimately show ?thesis by linarith
  qed
  with f assms show ?thesis
    by (cases y) (auto simp: ref_exact_integer_def ref_number_def max_failed_logins_def)
qed

lemma event_step_agrees:
  assumes vs: "loop_values vs" and ev: "event_features e (with_context c x vs, tr) = Inr st"
  shows "\<exists>vs' tr'. ref_event_features e (vs, tr) = Inr (vs', tr') \<and> st = (with_context c x vs', tr') \<and> loop_values vs'"
proof -
  let ?k = "''failed_login_intensity''"
  from ev obtain m st1 where m: "select_modeled_attributes (ee_source_type e) (ee_attributes e) (attributes_label e) = Inr m"
    and login: "login_feature (ee_event_id e) m (with_context c x vs, tr) = Inr st1"
    and bools: "fold_result (boolean_feature (ee_event_id e) m) boolean_attribute_names st1 = Inr st"
    by (auto simp: event_features_def)
  note S = selected_values [OF m]
  have k: "?k \<in> set feature_names" "?k \<notin> set boolean_attribute_names" using other_features by auto
  have "\<exists>vs1 tr1. ref_login_step e (vs, tr) = Inr (vs1, tr1) \<and> st1 = (with_context c x vs1, tr1) \<and> loop_values vs1"
  proof (cases "map_of (ee_attributes e) ''failed_logins''")
    case None
    with S(3) login vs show ?thesis by (auto simp: ref_login_step_def login_feature_def)
  next
    case (Some v)
    from S(4) [OF Some] obtain y n where y: "v = number_json y" "number_value y = of_int n" "0 \<le> n" "n \<le> max_failed_logins"
      "map_of m ''failed_logins'' = Some (JInt n)" by blast
    define z where "z = max (dict_default vs ?k 0) (min (fl (of_int n / 20)) 1)"
    have "st1 = (dict_set ?k z (with_context c x vs), dict_extend ?k [ee_event_id e] tr)"
      using login y by (auto simp: login_feature_def with_context_default z_def)
    moreover have "dict_set ?k z (with_context c x vs) = with_context c x (dict_set ?k z vs)"
      by (rule with_context_set [OF vs k(1)]) simp_all
    moreover have "loop_values (dict_set ?k z vs)" using k by (intro loop_values_set [OF vs]) simp_all
    moreover have "ref_login_step e (vs, tr) = Inr (dict_set ?k z vs, dict_extend ?k [ee_event_id e] tr)"
      using ref_exact_integer_agrees [OF y(2-4)] by (simp add: ref_login_step_def Some y(1) z_def)
    ultimately show ?thesis by simp
  qed
  then obtain vs1 tr1 where one: "ref_login_step e (vs, tr) = Inr (vs1, tr1)" "st1 = (with_context c x vs1, tr1)" "loop_values vs1"
    by blast
  obtain vs' tr' where two: "fold (ref_boolean_step e) boolean_attribute_names (vs1, tr1) = (vs', tr')"
    by (cases "fold (ref_boolean_step e) boolean_attribute_names (vs1, tr1)")
  have "fold_result (boolean_feature (ee_event_id e) m) boolean_attribute_names (with_context c x vs1, tr1)
      = Inr (with_context c x vs', tr') \<and> loop_values vs'"
    using S(1,2) by (intro boolean_steps_agree [OF _ one(3) _ _ two]) auto
  with bools one two show ?thesis by (auto simp: ref_event_features_def reference_tables)
qed

lemma event_loop_agrees:
  "loop_values vs \<Longrightarrow> fold_result event_features es (with_context c x vs, tr) = Inr st \<Longrightarrow>
     \<exists>vs' tr'. fold_result ref_event_features es (vs, tr) = Inr (vs', tr') \<and> st = (with_context c x vs', tr')"
proof (induction es arbitrary: vs tr)
  case (Cons e es)
  then obtain st1 where st1: "event_features e (with_context c x vs, tr) = Inr st1" "fold_result event_features es st1 = Inr st"
    by auto
  from event_step_agrees [OF Cons.prems(1) st1(1)] obtain vs1 tr1 where
    one: "ref_event_features e (vs, tr) = Inr (vs1, tr1)" "st1 = (with_context c x vs1, tr1)" "loop_values vs1" by blast
  from Cons.IH [OF one(3)] st1(2) one show ?case by simp
qed simp

lemma extract_features_agrees:
  assumes "extract_features c = Inr (vs, tr)"
  shows "ref_features c = Inr (vs, tr)"
proof -
  from assms obtain x st where ctx: "validate_case_context (JStr (ic_asset_id c)) (JStr (ic_privilege_level c)) (JBool (ic_break_glass c))
       (number_json (ic_asset_criticality c)) (map ee_attributes (inventory_events c)) = Inr x"
    and f: "fold_result event_features (ic_events c) (initial_features c x, []) = Inr st"
    and r: "vs = fst st" "tr = dict_extend ''asset_criticality'' (map ee_event_id (inventory_events c))
       (dict_extend ''privilege_global_admin'' (map ee_event_id (inventory_events c)) (snd st))"
    by (auto simp: extract_features_def Let_def)
  from ctx have x: "py_float (ic_asset_criticality c) = Inr x"
    by (auto simp: validate_case_context_def contract_unit_interval_Inr)
  let ?zero = "map (\<lambda>name. (name, 0)) feature_names"
  have "dict_default (map (\<lambda>name. (name, 0)) names) k (0 :: rat) = 0" for names and k :: pystr
    by (induction names) (auto simp: dict_default_def)
  then have zero: "loop_values ?zero" by (simp add: loop_values_def comp_def)
  have "initial_features c x = with_context c x ?zero" by (simp add: initial_features_def with_context_def)
  with f event_loop_agrees [OF zero, of "ic_events c" c x "[]" st] obtain vs' tr' where
    ref: "fold_result ref_event_features (ic_events c) (?zero, []) = Inr (vs', tr')" and st: "st = (with_context c x vs', tr')"
    by auto
  have fresh: "k \<notin> fst ` set tr'" if "k \<in> {''privilege_global_admin'', ''asset_criticality''}" for k
  proof -
    have "\<forall>k \<in> set boolean_attribute_names \<union> {''failed_login_intensity''}. dict_default (initial_features c x) k 0 = 0"
      using other_features(3,4) by (auto simp: default_initial)
    from fold_event_features [OF f initial_features_keys this] have "features_of (initial_features c x) (ic_events c) st" by blast
    moreover have "k \<notin> set boolean_attribute_names" "k \<noteq> ''failed_login_intensity''" using that other_features(3,4) by auto
    ultimately show ?thesis by (simp add: features_of_def st)
  qed
  then show ?thesis
    by (simp add: ref_features_def reference_tables ref x r st with_context_def dict_extend_fresh keys_dict_set
        inventory_events_def Let_def)
qed

subsection \<open>Evidence\<close>

text \<open>Times with a numeric offset, as \<open>isoformat\<close> writes them.\<close>

definition numeric_times :: "evidence_event \<Rightarrow> bool" where
  "numeric_times e = list_all (\<lambda>s. fromisoformat s \<noteq> None \<and> CHR ''Z'' \<notin> set s) [ee_observed_at e, ee_collected_at e]"

lemma replace_z_none: "CHR ''Z'' \<notin> set s \<Longrightarrow> replace_z s = s"
  by (induction s) (auto simp: replace_z_def)

lemma freshness_agrees: "numeric_times e \<Longrightarrow> ref_freshness e = event_freshness e"
  by (auto simp: numeric_times_def ref_freshness_def event_freshness_def ref_timestamp_def parse_time_def replace_z_none
      total_seconds_def ref_clamp_def clamp_def Let_def)

lemma map_result_pairs:
  "map_result F xs = Inr fs \<Longrightarrow> map_result G xs = Inr gs \<Longrightarrow>
     map_result (\<lambda>x. and_then (F x) (\<lambda>f. and_then (G x) (\<lambda>g. Inr (f, g)))) xs = Inr (zip fs gs)"
proof (induction xs arbitrary: fs gs)
  case (Cons x xs)
  then obtain f fs' g gs' where "F x = Inr f" "map_result F xs = Inr fs'" "fs = f # fs'"
    "G x = Inr g" "map_result G xs = Inr gs'" "gs = g # gs'" by auto
  with Cons.IH show ?case by simp
qed simp

lemma map_result_ok: "\<forall>x \<in> set xs. f x = Inr (g x) \<Longrightarrow> map_result f xs = Inr (map g xs)"
  by (induction xs) auto

lemma assess_evidence_agrees:
  assumes ev: "assess_evidence c = Inr ev" and ne: "ic_events c \<noteq> []" and times: "\<forall>e \<in> set (ic_events c). numeric_times e"
  shows "ref_evidence c = Inr ev"
proof -
  let ?es = "ic_events c"
  from ev ne obtain st trusts where st: "fold_result assess_event ?es no_evidence = Inr st"
    and tr: "map_result (\<lambda>e. py_float (ee_trust_score e)) ?es = Inr trusts"
    by (auto simp: assess_evidence_def)
  have l: "loop_of ?es st" and ok: "\<forall>e \<in> set ?es. assessable e" using assess_loop [OF st] by blast+
  have "\<forall>e \<in> set ?es. ref_freshness e = Inr (freshness_value e)"
    using ok times by (auto simp: freshness_agrees freshness_value_def assessable_def is_ok_iff)
  from map_result_pairs [OF map_result_ok [OF this] tr]
  have pairs: "map_result (\<lambda>e. and_then (ref_freshness e) (\<lambda>f. and_then (py_float (ee_trust_score e)) (\<lambda>t. Inr (f, t)))) ?es
      = Inr (zip (map freshness_value ?es) trusts)" .
  have len: "length trusts = length ?es" using map_result_Inr [OF tr] by simp
  have any: "(\<lambda>e. ref_any e positive_indicators) = supports_attack" "(\<lambda>e. ref_any e benign_indicators) = supports_benign"
    "ref_poisoned = instructional" "(\<lambda>e. map_of (ee_attributes e) ''source_conflict'' = Some (JBool True)) = asserts ''source_conflict''"
    by (auto simp: fun_eq_iff ref_any_def supports_attack_def supports_benign_def asserts_def ref_poisoned_def
        instructional_def reference_tables)
  have flags: "fl (fsum (map (\<lambda>e. if P e then 1 else 0) ?es) / of_nat (length ?es)) = mean_of (flags (map P ?es))" for P
    by (simp add: mean_of_def flags_def comp_def)
  have fresh: "fl (fsum (map fst (zip (map freshness_value ?es) trusts)) / of_nat (length ?es)) = mean_of (el_freshness st)"
    using l len by (simp add: mean_of_def loop_of_def)
  have trust: "fl (fsum (map snd (zip (map freshness_value ?es) trusts)) / of_nat (length ?es)) = mean_of trusts"
    using len by (simp add: mean_of_def)
  have card: "card (set (map ee_source_type ?es)) = length (remdups (map ee_source_type ?es))"
    by (simp add: length_remdups_card_conv)
  have supp: "int (card (ee_source_type ` set (filter supports_attack ?es))) = int (length (el_supporting st))"
    using l by (simp add: loop_of_def distinct_card [symmetric] del: set_filter)
  then have supp': "card (ee_source_type ` {e \<in> set ?es. supports_attack e}) = length (el_supporting st)" by simp
  have clamp: "ref_clamp y = clamp 0 1 y" for y by (simp add: ref_clamp_def clamp_def)
  have missing: "sort (filter (\<lambda>s. s \<notin> set (map ee_source_type ?es)) expected_sources)
      = missing_sources (remdups (map ee_source_type ?es))"
    by (simp add: missing_sources_def)
  show ?thesis
    using ev [symmetric] ne l
    unfolding ref_evidence_def assess_evidence_def Let_def reference_tables any flags card
    by (simp add: pairs st tr fresh trust supp' clamp missing quality_score_def evidence_reasons_def Let_def loop_of_def
        del: set_map map_fst_zip map_snd_zip)
qed

end
