(* ===== verification/RefEquivalence.thy ===== *)
theory RefEquivalence
  imports RefFeatures
begin

text \<open>
  The separate recomputation agrees with the engine: model, policy, verifier and the read-only final record are the
  same functions, so every decision that the engine records in a read-only mode is matched by the reference.
\<close>

subsection \<open>Model\<close>

definition well_shaped :: "logistic_model \<Rightarrow> bool" where
  "well_shaped lm \<longleftrightarrow> length (lm_means lm) = length feature_names \<and> length (lm_scales lm) = length feature_names
     \<and> length (lm_weights lm) = length feature_names"

lemma contributions_agree:
  assumes "well_shaped lm"
  shows "snd (predict_probability np_exp lm vs) = ref_contributions lm vs"
  using assms
  by (intro nth_equalityI)
     (simp_all add: predict_probability_def ref_contributions_def vectorize_def well_shaped_def reference_tables Let_def)

lemma values_by_name: "distinct (map fst vs) \<Longrightarrow> map (\<lambda>(k, x). (k, f x)) vs = map (\<lambda>k. (k, f (dict_default vs k z))) (map fst vs)"
  by (auto simp: dict_default_def map_of_is_SomeI)

lemma assess_model_agrees:
  assumes m: "assess_model (predict_probability np_exp lm) (lm_version lm) c = Inr m" and lm: "well_shaped lm"
  shows "ref_model_assessment np_exp lm c = Inr m"
proof -
  from m obtain vs tr where x: "extract_features c = Inr (vs, tr)" by (auto simp: assess_model_def)
  have keys: "map fst vs = feature_names"
  proof -
    from extract_features_Inr [OF x] obtain y st where "features_of (initial_features c y) (ic_events c) st" "fst st = vs" by metis
    then show ?thesis by (simp add: features_of_def initial_features_keys)
  qed
  have vals: "map (\<lambda>(k, x). (k, py_round 6 x)) vs = map (\<lambda>k. (k, py_round 6 (dict_default vs k 0))) feature_names"
    using values_by_name [of vs "py_round 6" 0] names_distinct(3) by (simp add: keys)
  have len: "length (ref_contributions lm vs) = length feature_names" by (simp add: ref_contributions_def reference_tables)
  have "fst (predict_probability np_exp lm vs)
      = fl (1 / fl (1 + np_exp (- max (- 30) (min 30 (fl (fsum (ref_contributions lm vs) + lm_intercept lm))))))"
    using contributions_agree [OF lm, of np_exp vs] by (simp add: predict_probability_def sigmoid_def Let_def)
  with contributions_agree [OF lm, of np_exp vs] have p: "predict_probability np_exp lm vs =
      (fl (1 / fl (1 + np_exp (- max (- 30) (min 30 (fl (fsum (ref_contributions lm vs) + lm_intercept lm)))))), ref_contributions lm vs)"
    by (metis prod.collapse)
  from m show ?thesis
    by (simp add: assess_model_def ref_model_assessment_def x extract_features_agrees [OF x] p len vals factor_rows_def
        reference_tables Let_def)
qed

subsection \<open>Policy and verifier\<close>

lemma propose_agrees: "ref_policy_proposal c m ev cfg = propose cfg c m ev"
  unfolding ref_policy_proposal_def propose_def ref_investigate_def investigate_def severe_case_def severe_indicators_def
    decision_grade_def automation_grade_def cited_evidence_def rollback_plan_def f3_def Let_def
  by (rule refl)

lemma verify_agrees: "ref_verification c m ev p cfg = verify_case cfg c m ev p"
proof -
  have blockers: "concat (map (\<lambda>(name, passed, detail). if passed then [] else [name @ '': '' @ detail]) checks)
      = map (\<lambda>(name, _, detail). name @ '': '' @ detail) (filter (\<lambda>(_, passed, _). \<not> passed) checks)"
    for checks :: "verifier_check list"
    by (induction checks) auto
  have ids: "(\<Union>(_, ids) \<in> set (ma_trace m). set ids) = set (concat (map snd (ma_trace m)))" by auto
  have keys: "(map_of (pp_rollback p) a \<noteq> None) = (a \<in> fst ` set (pp_rollback p))" for a
    by (simp add: map_of_eq_None_iff)
  show ?thesis
    unfolding ref_verification_def verify_case_def Let_def blockers ids keys general_checks_def containment_checks_def
    by (simp only: append.simps)
qed

lemma downgrade_agrees: "ref_downgrade p v = downgrade p v"
  by (simp add: ref_downgrade_def downgrade_def)

lemma read_only_agrees: "ref_read_only p = (observe_only p, pp_executable p)"
  by (simp add: ref_read_only_def observe_only_def)

subsection \<open>The stages of a recorded decision\<close>

lemma obj_get_Cons: "obj_get ((k, v) # d) j = (if j = k then v else obj_get d j)"
  by (simp add: obj_get_def)

lemma recorded_stages:
  assumes "is_read_only (eg_mode en)" and p: "process_case en rd c w = (Inr d, w')"
    and en: "eg_predict en = predict_probability np_exp lm" "eg_model_version en = lm_version lm" and lm: "well_shaped lm"
    and times: "\<forall>e \<in> set (ic_events c). numeric_times e"
  shows "ref_expected_stages np_exp c lm (eg_policy en) (eg_mode en) = Inr
     \<lparr>rs_evidence = JObj (evidence_to_dict (cd_evidence d)), rs_model = JObj (model_to_dict (cd_model d)),
      rs_policy = JObj (map (\<lambda>k. (k, obj_get (decision_core d) k))
        [''original_disposition'', ''final_disposition'', ''counterfactual_actions'', ''proposal'']),
      rs_verifier = JObj (verification_to_dict (cd_verification d)),
      rs_final = JObj (map (\<lambda>k. (k, obj_get (decision_core d) k)) ref_final_names)\<rparr>"
proof -
  let ?cfg = "eg_policy en"
  obtain ev m v w5 where ev: "assess_evidence c = Inr ev"
    and m: "assess_model (eg_predict en) (eg_model_version en) c = Inr m"
    and v: "v = verify_case ?cfg c m ev (propose ?cfg c m ev)"
    and con: "conclude en rd c ev m v (pp_disposition (propose ?cfg c m ev)) (downgrade (propose ?cfg c m ev) v) w5 = (Inr d, w')"
    using process_case_conclude [OF p] by metis
  define q where "q = downgrade (propose ?cfg c m ev) v"
  from con [folded q_def] assms(1) obtain w2 where
    fin: "finalize en rd c ev m v (pp_disposition (propose ?cfg c m ev)) (observe_only q) (pp_executable q) False None [] [] 0 w2
      = (Inr d, w')"
    by (auto simp: conclude_def Let_def)
  note F = finalize_facts(2) [OF fin refl]
  have post: "cd_post_action d = [(''applicable'', JBool False), (''status'', JStr ''NOT_APPLICABLE''), (''passed'', JNull), (''checks'', JList [])]"
    using F assms(1) by (simp add: post_action_dict_def)
  obtain x where "extract_features c = Inr x" using m by (auto simp: assess_model_def)
  then have ne: "ic_events c \<noteq> []"
    by (auto simp: extract_features_def validate_case_context_def inventory_events_def)
  have stage: "ref_evidence c = Inr ev" "ref_model_assessment np_exp lm c = Inr m"
    using assess_evidence_agrees [OF ev ne times] assess_model_agrees [OF m [unfolded en] lm] by simp_all
  show ?thesis
    using F assms(1) post
    by (simp add: ref_expected_stages_def stage propose_agrees verify_agrees downgrade_agrees read_only_agrees v [symmetric]
        q_def [symmetric] Let_def ref_final_names_def obj_get_Cons decision_core_def authorization_dict_def execution_control_dict_def
        traceability_dict_def trace_json_def operational_effects_def jstrs_def)
qed

lemma observed_stages:
  assumes mode: "cd_mode d = mode" and case_id: "identifier_pattern (ic_case_id (cd_case d))"
    and decision_id: "identifier_pattern (cd_id d)" and created: "fromisoformat (replace_z (cd_created_at d)) \<noteq> None"
    and latency: "0 \<le> cd_latency_ms d"
  shows "ref_observed_stages (ic_case_id (cd_case d)) mode (decision_core d @ [(''decision_record_hash'', JStr (decision_hash d))]) = Inr
     \<lparr>rs_evidence = JObj (evidence_to_dict (cd_evidence d)), rs_model = JObj (model_to_dict (cd_model d)),
      rs_policy = JObj (map (\<lambda>k. (k, obj_get (decision_core d) k))
        [''original_disposition'', ''final_disposition'', ''counterfactual_actions'', ''proposal'']),
      rs_verifier = JObj (verification_to_dict (cd_verification d)),
      rs_final = JObj (map (\<lambda>k. (k, obj_get (decision_core d) k)) ref_final_names)\<rparr>"
proof -
  let ?D = "decision_core d @ [(''decision_record_hash'', JStr (decision_hash d))]"
  have append: "obj_get (xs @ ys) k = (if k \<in> fst ` set xs then obj_get xs k else obj_get ys k)" for xs ys k
    by (cases "map_of xs k") (use map_of_eq_None_iff [of xs k] in \<open>auto simp: obj_get_def map_add_def\<close>)
  have names: "map fst (decision_core d) = butlast ref_decision_fields" "last ref_decision_fields = ''decision_record_hash''"
    "ref_decision_fields \<noteq> []" "''decision_record_hash'' \<notin> set (butlast ref_decision_fields)" "set ref_final_names \<subseteq> set (butlast ref_decision_fields)"
    by (simp_all add: decision_core_def ref_decision_fields_def ref_final_names_def Let_def)
  have keys: "fst ` set (decision_core d) = set (butlast ref_decision_fields)" using names(1) by (metis list.set_map)
  have core: "obj_get ?D k = obj_get (decision_core d) k" if "k \<in> set (butlast ref_decision_fields)" for k
    using that by (simp add: append keys)
  have hash: "obj_get ?D ''decision_record_hash'' = JStr (decision_hash d)"
    using names(4) by (simp add: append keys) (simp add: obj_get_def)
  have closed: "closed_keys ref_decision_fields ?D"
    using append_butlast_last_id [OF names(3)] names(2) keys by (simp add: closed_keys_iff) (metis Un_insert_right list.set(2) set_append sup_bot_right list.set(1))
  have pop: "dict_pop ''decision_record_hash'' ?D = decision_core d"
  proof -
    have "filter (\<lambda>(k, _). k \<noteq> ''decision_record_hash'') (decision_core d) = decision_core d"
      using names(4) keys by (intro filter_True) force
    then show ?thesis by (simp add: dict_pop_def)
  qed
  have digest: "sha256_pattern (decision_hash d)"
    using sha256_hex_wellformed by (simp add: sha256_pattern_def decision_hash_def sha256_json_def)
  have disp: "ref_disposition (JStr (disposition_text x)) = Inr ()" for x by (cases x) (simp_all add: ref_disposition_def)
  have members: "obj_get (decision_core d) ''case_id'' = JStr (ic_case_id (cd_case d))"
    "obj_get (decision_core d) ''execution_mode'' = JStr (mode_text (cd_mode d))"
    "obj_get (decision_core d) ''decision_id'' = JStr (cd_id d)" "obj_get (decision_core d) ''created_at'' = JStr (cd_created_at d)"
    "obj_get (decision_core d) ''latency_ms'' = JFloat (cd_latency_ms d)"
    "obj_get (decision_core d) ''evidence_assessment'' = JObj (evidence_to_dict (cd_evidence d))"
    "obj_get (decision_core d) ''model_assessment'' = JObj (model_to_dict (cd_model d))"
    "obj_get (decision_core d) ''proposal'' = JObj (proposal_to_dict (cd_proposal d))"
    "obj_get (decision_core d) ''independent_verification'' = JObj (verification_to_dict (cd_verification d))"
    "\<exists>t. obj_get (decision_core d) ''traceability'' = JObj t"
    "obj_get (decision_core d) ''original_disposition'' = JStr (disposition_text (cd_original d))"
    "obj_get (decision_core d) ''final_disposition'' = JStr (disposition_text (pp_disposition (cd_proposal d)))"
    "obj_get (decision_core d) ''counterfactual_actions'' = jstrs (cd_counterfactual d)"
    by (simp_all add: decision_core_def obj_get_Cons Let_def traceability_dict_def)
  have at: "obj_get ?D k = obj_get (decision_core d) k"
    if "k \<in> set [''case_id'', ''execution_mode'', ''decision_id'', ''created_at'', ''latency_ms'', ''evidence_assessment'',
      ''model_assessment'', ''proposal'', ''independent_verification'', ''traceability'', ''original_disposition'',
      ''final_disposition'', ''counterfactual_actions'']" for k
    by (rule core) (use that in \<open>auto simp: ref_decision_fields_def\<close>)
  obtain t where t: "obj_get (decision_core d) ''traceability'' = JObj t" using members(10) by blast
  have dicts: "for_each (\<lambda>name. and_then (ref_dict (obj_get ?D name) ''REFERENCE_DECISION_DECISION_SHAPE'') (\<lambda>_. Inr ()))
      [''evidence_assessment'', ''model_assessment'', ''proposal'', ''independent_verification'', ''traceability''] = Inr ()"
    by (simp add: at members t ref_dict_def)
  have policy: "map (\<lambda>k. (k, obj_get ?D k)) [''original_disposition'', ''final_disposition'', ''counterfactual_actions'', ''proposal'']
      = map (\<lambda>k. (k, obj_get (decision_core d) k)) [''original_disposition'', ''final_disposition'', ''counterfactual_actions'', ''proposal'']"
    by (simp add: at)
  have final: "map (\<lambda>k. (k, obj_get ?D k)) ref_final_names = map (\<lambda>k. (k, obj_get (decision_core d) k)) ref_final_names"
    using names(5) core by (intro map_cong) auto
  have hash_ok: "sha256_json (JObj (decision_core d)) = decision_hash d" by (simp add: decision_hash_def)
  have ids: "ref_identifier (JStr (ic_case_id (cd_case d))) code False = Inr (ic_case_id (cd_case d))"
    "ref_identifier (JStr (cd_id d)) code False = Inr (cd_id d)" for code
    using case_id decision_id by (simp_all add: ref_identifier_def)
  obtain u where u: "ref_timestamp (JStr (cd_created_at d)) ''REFERENCE_DECISION_DECISION_SHAPE'' = Inr u"
    using created by (auto simp: ref_timestamp_def)
  have num: "ref_number (JFloat (cd_latency_ms d)) code = Inr (cd_latency_ms d)" for code by (simp add: ref_number_def)
  show ?thesis
    unfolding ref_observed_stages_def Let_def policy final
    by (simp add: closed at members ids mode u num latency hash ref_text_def digest pop hash_ok dicts disp jstrs_def ref_list_def
        del: for_each.simps)
qed

text \<open>The members of a recorded decision, as the decision file holds them.\<close>

definition decision_members :: "case_decision \<Rightarrow> (pystr \<times> json) list" where
  "decision_members d = decision_core d @ [(''decision_record_hash'', JStr (decision_hash d))]"

lemma decision_members_json: "decision_to_dict d = JObj (decision_members d)"
  by (simp add: decision_to_dict_def decision_members_def)

lemma self_comparison: "for_each (ref_compare_stage hashes hashes) ref_mismatch_codes = Inr ()"
  by (simp add: for_each_Inr ref_compare_stage_def)


end
