(* ===== verification/RefExamples.thy ===== *)
theory RefExamples
  imports RefEquivalence P1Examples
begin

text \<open>A shadow decision of the contained case over a concrete logistic model, matched by the reference.\<close>

definition sample_logistic :: logistic_model where
  "sample_logistic = \<lparr>lm_version = ''1'', lm_means = replicate 20 0, lm_scales = replicate 20 1,
     lm_weights = replicate 20 1, lm_intercept = 0\<rparr>"

definition sample_exp :: "rat \<Rightarrow> rat" where
  "sample_exp v = (if v < 0 then 1 / 16 else 1)"

definition shadow_engine :: case_engine where
  "shadow_engine = \<lparr>eg_predict = predict_probability sample_exp sample_logistic, eg_model_version = ''1'',
     eg_policy = sample_policy1, eg_mode = ShadowReadOnly, eg_key = ''k''\<rparr>"

lemma sample_shape: "well_shaped sample_logistic"
proof -
  have "length feature_names = 20" by code_simp
  then show ?thesis by (simp add: well_shaped_def sample_logistic_def)
qed

lemma shadow_processed:
  obtains d w' where "process_case shadow_engine sample_readings1 (sample_case1 []) sample_world1 = (Inr d, w')"
proof -
  obtain ev where ev: "assess_evidence (sample_case1 []) = Inr ev" using sample_evidence [of "[]"] by metis
  obtain x where x: "extract_features (sample_case1 []) = Inr x" using sample_features by blast
  have "length (snd (predict_probability sample_exp sample_logistic (fst x))) = length feature_names"
    by (simp add: contributions_agree [OF sample_shape] ref_contributions_def reference_tables)
  then obtain m where "assess_model (predict_probability sample_exp sample_logistic) ''1'' (sample_case1 []) = Inr m"
    by (simp add: assess_model_def x case_prod_beta Let_def)
  with process_case_returns [OF ev, of shadow_engine m sample_readings1 sample_world1] sample_expiry(1) that show thesis
    by (auto simp: shadow_engine_def sample_engine1_simps)
qed


end
