(* ===== verification/Spec2Isabelle.thy ===== *)
theory Spec2Isabelle
  imports MemLedger P3Validation P3Decision P3Metrics P3Identity P3Approval P3Authorization P3Simulation
  P3Verifier P3Audit P3EngineExamples P1Examples RefExamples
begin

text \<open>
  \<^bold>\<open>Verification library of the AI decision firewall\<close>

  The program (\<open>src/src/adf_poc\<close>) puts a deterministic firewall between an AI agent and the actions it
  proposes. A request is validated, its evidence and consequence are assessed under a closed policy,
  a decision is built from a fixed rule order, an allowed decision is verified and turned into a signed
  single-use token, and only a broker that consumes the token touches the (simulated) target, whose state is
  read back afterwards. A control ledger keeps the identity of every token, attempt and request.

  \<^bold>\<open>Foundations\<close>, models of what the code uses of the Python standard library.
  \<^item> \<open>Prelude\<close>: results with errors as \<open>Inl\<close> reason codes, insertion-ordered dictionaries as association
    lists, loops over lists that stop at the first error.
  \<^item> \<open>PyFloat\<close>: finite binary64 values as the rationals they denote, every arithmetic operation rounded to
    nearest even; \<open>round\<close>, \<open>clamp\<close>.
  \<^item> \<open>PyTime\<close>: instants as microseconds, \<open>isoformat\<close> and \<open>fromisoformat\<close>, the range of \<open>datetime\<close>.
  \<^item> \<open>PyJson\<close>: JSON values, Python equality of them, \<open>canonical_json\<close> of \<open>utils.py\<close> character for character.
  \<^item> \<open>PyValue\<close>: \<open>int\<close>, \<open>bool\<close>, \<open>str\<close> and \<open>repr\<close> of decoded values, and the member order of decoded text.
  \<^item> \<open>Digest\<close>: SHA-256 and HMAC written executably from FIPS 180-4 and RFC 2104; no lemma assumes that they
    are injective. \<open>compare_digest\<close> with its type error.
  \<^item> \<open>Sealed\<close>: the interface \<open>sealed_value\<close> of a record signed over its own canonical form.

  \<^bold>\<open>Control ledger\<close> (\<open>stage_a.py\<close>).
  \<^item> \<open>StageA_Base\<close>: identifier, digest and timestamp validators, the walk that rejects authority-bearing keys.
  \<^item> \<open>RequestResult\<close>: the durable result of a request, its state matrix, decoding and replay form.
  \<^item> \<open>SingleUse\<close>: the interface of a single-use ledger (register, consume, states) with its consequences over
    every sequence of operations; \<open>MemLedger\<close>: \<open>InMemoryControlLedger\<close>, method by method, its
    invariant, and the interpretation of the interface on it.

  \<^bold>\<open>Phase 3 firewall\<close> (\<open>phase3/\<close>).
  \<^item> \<open>P3Request\<close>, \<open>P3Validation\<close>: the typed request and \<open>validate_decision_request_dict\<close> of \<open>contracts.py\<close>.
  \<^item> \<open>P3Policy\<close>: the policy, its decoding and its safety invariants (\<open>config.py\<close>).
  \<^item> \<open>P3Models\<close>: the records of \<open>models.py\<close> with their dictionary forms and digests.
  \<^item> \<open>P3Consequence\<close>, \<open>P3Evidence\<close>: the two assessments (\<open>consequence.py\<close>, \<open>evidence.py\<close>, \<open>attestation.py\<close>).
  \<^item> \<open>P3Decision\<close>: \<open>build_decision\<close> and the reference decision table it is equivalent to.
  \<^item> \<open>P3Identity\<close>, \<open>P3Approval\<close>: trusted principals and the human approval gate.
  \<^item> \<open>P3Authorization\<close>: the token gate over the in-memory ledger; it refines the single-use interface.
  \<^item> \<open>P3Verifier\<close>: the decision verifier (\<open>verifier.py\<close>), which recomputes a decision from the validated request
    and signs a receipt; composed with the token gate it justifies every issued token.
  \<^item> \<open>P3Simulation\<close>: broker, target states and read-back verifier, and the step relation of a whole run.
  \<^item> \<open>P3Metrics\<close>: the counters.
  \<^item> \<open>P3Audit\<close>: the validator of a request's closed lifecycle (\<open>phase3/audit.py\<close>), section by section.
  \<^item> \<open>P3Engine\<close>: \<open>Phase3DecisionFirewall\<close> (\<open>phase3/engine.py\<close>) in its process-local configuration, from the bytes
    of a request to its recorded final state, every stage and closing path, composed of the parts above.
    \<open>P3EngineInvariant\<close> has the interface \<open>engine_invariant\<close> (what every state-changing operation keeps, a call keeps),
    interpreted on the soundness of log, ledger and counters and on the claimed requests. \<open>P3EngineSafety\<close>: what
    stands behind a change of a target, and that a request executes once. \<open>P3EngineClosure\<close>: refusals close with an
    accepted lifecycle. \<open>P3EngineExamples\<close>: a concrete engine that carries out one request and refuses another.

  \<^bold>\<open>Audit log\<close> (\<open>audit.py\<close>). \<open>CanonicalText\<close> proves that the canonical text of a value can be split in one way
  only; \<open>AuditLog\<close> has the hash-chained log with its interface \<open>hash_chain\<close>, interpreted on the rows.

  \<^bold>\<open>Phase 1 firewall\<close> (\<open>src/src/adf_poc\<close>), the pipeline for identity cases.
  \<^item> \<open>P1Case\<close>: events, cases, dispositions and modes (\<open>schemas.py\<close>, \<open>execution.py\<close>); loops that may raise.
  \<^item> \<open>P1Features\<close>: the typed boundary of the model's input (\<open>feature_contract.py\<close>, \<open>features.py\<close>);
    \<open>P1FeatureFacts\<close>: types, meaning and traces of the features, and that nothing undeclared reaches the model.
  \<^item> \<open>PyRegex\<close>, \<open>P1Evidence\<close>: the instruction patterns and the evidence assessment (\<open>evidence.py\<close>);
    \<open>P1EvidenceFacts\<close>: its meaning in terms of the events, and its bounds.
  \<^item> \<open>P1Model\<close>: the assessment over any predictor, and the logistic predictor with the exponential as a parameter
    (\<open>model.py\<close>).
  \<^item> \<open>P1Policy\<close>, \<open>P1Actions\<close>: policy and verifier (\<open>policy.py\<close>, \<open>verifier.py\<close>); gate, provider, broker and the
    verification after the actions (\<open>actions.py\<close>).
  \<^item> \<open>P1Engine\<close>: \<open>process\<close> in the simulation mode and the two read-only modes (\<open>engine.py\<close>). \<open>P1EngineFacts\<close>: a
    correct policy is never downgraded, every effect is justified and authorized, observation has none.
    \<open>P1EngineRuns\<close>: processing is total, instructions stop every action, the audit log commits to every decision;
    the tokens interpret \<open>sealed_value\<close>. \<open>P1Examples\<close>: a contained case and a poisoned one.

  \<^bold>\<open>Reference recomputation\<close> (\<open>replay/reference_decision.py\<close>). \<open>RefDecision\<close>: the closed validation of cases, models
  and policies, the second implementation of every stage, and the comparison of stage digests. \<open>RefFeatures\<close> and
  \<open>RefEquivalence\<close> prove that it computes what the phase 1 engine computes, so that every read-only decision of the
  engine is matched; \<open>RefExamples\<close> has one.

  \<^bold>\<open>Conventions.\<close> A Python string is a list of characters below 256, a method that raises returns \<open>Inl\<close> of the
  reason code of its exception, and a Python error outside the code's own classes (a missing key, a value out of
  range) is \<open>Inl\<close> of the name of its class. Clocks, random identifiers and random keys are arguments. The JSON schema
  validator is a predicate argument, and nothing is assumed of it. The loop over a depth stack is a recursive
  function whose termination is proved, so no definition uses fuel.

  \<^bold>\<open>Not modelled.\<close> File and socket I/O, the SQLite storage of the ledger and of the adapter, process
  locks, the durable configuration of the engine (startup, recovery, reconciliation, terminal results) and its
  alternate closing after an append that failed on a valid chain, which the in-memory log does not have; in phase 1
  the training of the model and the loading of models, policies and cases from files (numbers are finite); the
  service, the lab, the rest of the replay harness, fixture generators and reports. Thread interleavings: every
  public method of the ledger, the gates and the metrics holds its lock while it works, so its calls are modelled as
  atomic steps in any order.
\<close>

end
